(* ===== verification/Norns_Prelude.thy ===== *)
theory Norns_Prelude
  imports Main "HOL-Library.Word"
begin

text \<open>
  Shared material of the development: the types that stand for the fixed-width integers and
  error codes of the code, the outcome of a C++ function that may stop the process, the model of
  \<^verbatim>\<open>std::unordered_map\<close>, the contract every registry of the daemon meets (as a locale), and the
  generic argument that an invariant holds in every reachable state of a transition system.
\<close>

named_theorems um_simps \<open>characterisations of the hash map operations\<close>
named_theorems outcome_simps \<open>when an outcome computation returns, and when it faults\<close>

section \<open>Machine integers, error codes, outcomes\<close>

type_synonym byte = "8 word"
type_synonym u32 = "32 word"
type_synonym u64 = "64 word"

text \<open>
  The value of a \<^verbatim>\<open>std::error_code\<close> or \<^verbatim>\<open>boost::system::error_code\<close>. Such an object converts to
  true exactly when its value is not 0.
\<close>

type_synonym error_code = int

abbreviation ENOENT :: error_code where "ENOENT \<equiv> 2"
abbreviation EINTR :: error_code where "EINTR \<equiv> 4"
abbreviation EIO :: error_code where "EIO \<equiv> 5"
abbreviation EISDIR :: error_code where "EISDIR \<equiv> 21"
abbreviation EINVAL :: error_code where "EINVAL \<equiv> 22"
abbreviation EOPNOTSUPP :: error_code where "EOPNOTSUPP \<equiv> 95"

text \<open>
  What stops the process: the use of a null pointer, a read past the end of a vector, an object
  reached through a pointer of the wrong class, a failed \<^verbatim>\<open>assert\<close>, an exception that reaches
  \<^verbatim>\<open>main\<close>. A function that may do so returns an outcome: \<open>Inl\<close> the fault, or \<open>Inr\<close> its result.
\<close>

datatype fault =
    Null_Deref
  | Out_Of_Range
  | Bad_Cast
  | Assert_Failed
  | Uncaught_Exception string
  | Process_Exit                 \<comment> \<open>the process ends itself by \<^verbatim>\<open>exit\<close>\<close>
  | Diverges                     \<comment> \<open>a loop used up the iterations it was given\<close>

type_synonym 'a outcome = "fault + 'a"

definition obind :: "'a outcome \<Rightarrow> ('a \<Rightarrow> 'b outcome) \<Rightarrow> 'b outcome" where
  "obind r f = (case r of Inl e \<Rightarrow> Inl e | Inr a \<Rightarrow> f a)"

definition assert_ok :: "bool \<Rightarrow> unit outcome" where
  "assert_ok b = (if b then Inr () else Inl Assert_Failed)"

definition deref :: "'a option \<Rightarrow> 'a outcome" where
  "deref p = (case p of None \<Rightarrow> Inl Null_Deref | Some a \<Rightarrow> Inr a)"

definition vec_at :: "'a list \<Rightarrow> nat \<Rightarrow> 'a outcome" where
  "vec_at xs i = (if i < length xs then Inr (xs ! i) else Inl Out_Of_Range)"

lemma obind_simps [simp]:
  "obind (Inl e) f = Inl e"
  "obind (Inr a) f = f a"
  by (simp_all add: obind_def)

lemma obind_eq_Inr [outcome_simps]:
  "obind r f = Inr b \<longleftrightarrow> (\<exists>a. r = Inr a \<and> f a = Inr b)"
  by (cases r) auto

lemma obind_eq_Inl [outcome_simps]:
  "obind r f = Inl e \<longleftrightarrow> r = Inl e \<or> (\<exists>a. r = Inr a \<and> f a = Inl e)"
  by (cases r) auto

lemma assert_ok_simps [simp]:
  "assert_ok True = Inr ()"
  "assert_ok False = Inl Assert_Failed"
  by (simp_all add: assert_ok_def)

lemma assert_ok_eq_Inr [simp]: "assert_ok b = Inr u \<longleftrightarrow> b"
  by (simp add: assert_ok_def)

lemma deref_simps [simp]:
  "deref None = Inl Null_Deref"
  "deref (Some a) = Inr a"
  by (simp_all add: deref_def)

lemma deref_eq_Inr [simp]: "deref p = Inr a \<longleftrightarrow> p = Some a"
  by (cases p) auto

lemma vec_at_simps [simp]:
  "vec_at [] i = Inl Out_Of_Range"
  "vec_at (x # xs) 0 = Inr x"
  "vec_at (x # xs) (Suc i) = vec_at xs i"
  by (simp_all add: vec_at_def)

lemma vec_at_eq_Inr: "vec_at xs i = Inr x \<longleftrightarrow> i < length xs \<and> xs ! i = x"
  by (auto simp: vec_at_def)

text \<open>
  Partial correctness: every result a computation may return satisfies \<open>P\<close>. The rules follow the
  structure of the computation, one per construct; \<open>intro post_intros\<close> walks through it.
\<close>

named_theorems post_intros \<open>one rule per construct of an outcome computation\<close>

definition returns_only :: "('a \<Rightarrow> bool) \<Rightarrow> 'a outcome \<Rightarrow> bool" where
  "returns_only P r \<longleftrightarrow> (\<forall>a. r = Inr a \<longrightarrow> P a)"

lemma returns_onlyD: "returns_only P r \<Longrightarrow> r = Inr a \<Longrightarrow> P a"
  by (simp add: returns_only_def)

lemma returns_only_Inl [post_intros]: "returns_only P (Inl e)"
  by (simp add: returns_only_def)

lemma returns_only_Inr [post_intros]: "P a \<Longrightarrow> returns_only P (Inr a)"
  by (simp add: returns_only_def)

lemma returns_only_obind [post_intros]:
  "(\<And>a. r = Inr a \<Longrightarrow> returns_only P (f a)) \<Longrightarrow> returns_only P (obind r f)"
  by (cases r) (auto simp: returns_only_def)

lemma returns_only_if [post_intros]:
  "(b \<Longrightarrow> returns_only P r) \<Longrightarrow> (\<not> b \<Longrightarrow> returns_only P r') \<Longrightarrow> returns_only P (if b then r else r')"
  by simp

lemma returns_only_case_prod [post_intros]:
  "(\<And>a b. p = (a, b) \<Longrightarrow> returns_only P (f a b)) \<Longrightarrow> returns_only P (case_prod f p)"
  by (cases p) simp

lemma returns_only_case_option [post_intros]:
  "(x = None \<Longrightarrow> returns_only P r) \<Longrightarrow> (\<And>a. x = Some a \<Longrightarrow> returns_only P (f a)) \<Longrightarrow>
     returns_only P (case_option r f x)"
  by (cases x) simp_all

lemma returns_only_case_sum [post_intros]:
  "(\<And>a. x = Inl a \<Longrightarrow> returns_only P (f a)) \<Longrightarrow> (\<And>b. x = Inr b \<Longrightarrow> returns_only P (g b)) \<Longrightarrow>
     returns_only P (case_sum f g x)"
  by (cases x) simp_all

lemma returns_only_let [post_intros]: "(\<And>y. y = x \<Longrightarrow> returns_only P (f y)) \<Longrightarrow> returns_only P (Let x f)"
  by simp

section \<open>Hash maps\<close>

text \<open>
  \<^verbatim>\<open>std::unordered_map\<close> (and \<^verbatim>\<open>std::map\<close>) as the list of its entries in iteration order, at most
  one entry per key. \<^verbatim>\<open>emplace\<close> leaves an existing entry as it is.
\<close>

type_synonym ('k, 'v) umap = "('k \<times> 'v) list"

definition um_wf :: "('k, 'v) umap \<Rightarrow> bool" where
  "um_wf m \<longleftrightarrow> distinct (map fst m)"

definition um_find :: "('k, 'v) umap \<Rightarrow> 'k \<Rightarrow> 'v option" where
  "um_find m k = map_of m k"

definition um_count :: "('k, 'v) umap \<Rightarrow> 'k \<Rightarrow> nat" where
  "um_count m k = (case um_find m k of None \<Rightarrow> 0 | Some _ \<Rightarrow> 1)"

definition um_emplace :: "'k \<Rightarrow> 'v \<Rightarrow> ('k, 'v) umap \<Rightarrow> ('k, 'v) umap" where
  "um_emplace k v m = (if um_count m k \<noteq> 0 then m else (k, v) # m)"

definition um_erase :: "'k \<Rightarrow> ('k, 'v) umap \<Rightarrow> ('k, 'v) umap" where
  "um_erase k m = filter (\<lambda>kv. fst kv \<noteq> k) m"

definition um_update :: "'k \<Rightarrow> ('v \<Rightarrow> 'v) \<Rightarrow> ('k, 'v) umap \<Rightarrow> ('k, 'v) umap" where
  "um_update k f m = map (\<lambda>kv. if fst kv = k then (fst kv, f (snd kv)) else kv) m"

definition um_count_if :: "('v \<Rightarrow> bool) \<Rightarrow> ('k, 'v) umap \<Rightarrow> nat" where
  "um_count_if p m = length (filter (\<lambda>kv. p (snd kv)) m)"

lemma um_count_0 [simp]: "um_count m k = 0 \<longleftrightarrow> um_find m k = None"
  by (simp add: um_count_def split: option.splits)

lemma um_find_Nil [simp]: "um_find [] k = None"
  by (simp add: um_find_def)

lemma um_find_Cons [simp]:
  "um_find ((k', v) # m) k = (if k = k' then Some v else um_find m k)"
  by (simp add: um_find_def)

lemma um_find_emplace [simp]:
  "um_find (um_emplace k v m) k' =
     (if k' = k then Some (case um_find m k of None \<Rightarrow> v | Some v' \<Rightarrow> v') else um_find m k')"
  by (auto simp: um_emplace_def split: option.splits)

lemma um_find_erase [simp]:
  "um_find (um_erase k m) k' = (if k' = k then None else um_find m k')"
  by (induction m) (auto simp: um_erase_def um_find_def)

lemma um_find_update [simp]:
  "um_find (um_update k f m) k' =
     (if k' = k then map_option f (um_find m k) else um_find m k')"
  by (induction m) (auto simp: um_update_def um_find_def)

lemma um_find_in_set: "um_find m k = Some v \<Longrightarrow> (k, v) \<in> set m"
  by (auto simp: um_find_def dest: map_of_SomeD)

lemma um_find_iff_in_set: "um_wf m \<Longrightarrow> um_find m k = Some v \<longleftrightarrow> (k, v) \<in> set m"
  by (simp add: um_wf_def um_find_def)

lemma um_find_None_iff: "um_find m k = None \<longleftrightarrow> k \<notin> fst ` set m"
  by (simp add: um_find_def map_of_eq_None_iff)

lemma um_wf_Nil [simp]: "um_wf []"
  by (simp add: um_wf_def)

lemma um_wf_emplace [simp]: "um_wf m \<Longrightarrow> um_wf (um_emplace k v m)"
  by (auto simp: um_wf_def um_emplace_def um_find_None_iff)

lemma um_wf_erase [simp]: "um_wf m \<Longrightarrow> um_wf (um_erase k m)"
  by (auto simp: um_wf_def um_erase_def intro: distinct_map_filter)

lemma map_fst_um_update [simp]: "map fst (um_update k f m) = map fst m"
  by (induction m) (auto simp: um_update_def)

lemma um_wf_update [simp]: "um_wf m \<Longrightarrow> um_wf (um_update k f m)"
  by (simp add: um_wf_def)

lemma set_um_emplace: "set (um_emplace k v m) \<subseteq> insert (k, v) (set m)"
  by (auto simp: um_emplace_def)

lemma set_um_erase: "set (um_erase k m) = {kv \<in> set m. fst kv \<noteq> k}"
  by (auto simp: um_erase_def)

lemma um_count_if_0 [um_simps]:
  "um_count_if p m = 0 \<longleftrightarrow> (\<forall>kv \<in> set m. \<not> p (snd kv))"
  by (auto simp: um_count_if_def filter_empty_conv)

section \<open>Lists split at a separator\<close>

lemma takeWhile_sep [simp]:
  "c \<notin> set xs \<Longrightarrow> takeWhile (\<lambda>d. d \<noteq> c) (xs @ c # ys) = xs"
  "c \<notin> set xs \<Longrightarrow> takeWhile (\<lambda>d. d \<noteq> c) xs = xs"
  by (induction xs) auto

lemma dropWhile_sep [simp]:
  "c \<notin> set xs \<Longrightarrow> dropWhile (\<lambda>d. d \<noteq> c) (xs @ c # ys) = c # ys"
  "c \<notin> set xs \<Longrightarrow> dropWhile (\<lambda>d. d \<noteq> c) xs = []"
  by (induction xs) auto

section \<open>The contract of a registry\<close>

text \<open>
  The daemon keeps several tables with the same discipline: an entry is added only when its key
  is free, a second addition is refused and changes nothing. \<open>registry\<close> states the laws a client
  of such a table relies on; the tables that can also drop an entry extend it.
\<close>

locale registry =
  fixes add :: "'k \<Rightarrow> 'v \<Rightarrow> 's \<Rightarrow> bool \<times> 's"
    and get :: "'s \<Rightarrow> 'k \<Rightarrow> 'v option"
    and ok :: "'s \<Rightarrow> bool"
  assumes add_accepts: "ok s \<Longrightarrow> fst (add k v s) \<longleftrightarrow> get s k = None"
    and add_stores: "ok s \<Longrightarrow> get s k = None \<Longrightarrow> get (snd (add k v s)) = (get s)(k \<mapsto> v)"
    and add_refused: "ok s \<Longrightarrow> get s k \<noteq> None \<Longrightarrow> snd (add k v s) = s"
    and add_ok: "ok s \<Longrightarrow> ok (snd (add k v s))"
begin

text \<open>Loading a list of entries: the first entry of a key wins, and so does one already there.\<close>

lemma load_ok: "ok s \<Longrightarrow> ok (fold (\<lambda>(k, v) t. snd (add k v t)) kvs s)"
  by (induction kvs arbitrary: s) (auto simp: add_ok)

lemma load_first_wins:
  "ok s \<Longrightarrow> get (fold (\<lambda>(k, v) t. snd (add k v t)) kvs s) = map_of kvs ++ get s"
proof (induction kvs arbitrary: s)
  case Nil
  then show ?case by simp
next
  case (Cons kv kvs)
  obtain k v where kv: "kv = (k, v)" by (cases kv)
  let ?t = "snd (add k v s)"
  have t: "get ?t = (case get s k of None \<Rightarrow> (get s)(k \<mapsto> v) | Some _ \<Rightarrow> get s)"
    using Cons.prems by (auto simp: add_stores add_refused split: option.splits)
  have "get (fold (\<lambda>(k, v) t. snd (add k v t)) kvs ?t) = map_of kvs ++ get ?t"
    using Cons.prems by (intro Cons.IH add_ok)
  then show ?case
    by (auto simp: kv t map_add_def fun_eq_iff split: option.splits)
qed

end

datatype ('k, 'v) table_op = Table_Add 'k 'v | Table_Remove 'k

text \<open>The abstract table: a partial map, and the answer the client gets from each operation.\<close>

fun table_spec :: "('k, 'v) table_op \<Rightarrow> ('k \<rightharpoonup> 'v) \<Rightarrow> bool \<times> ('k \<rightharpoonup> 'v)" where
  "table_spec (Table_Add k v) m = (m k = None, if m k = None then m(k \<mapsto> v) else m)"
| "table_spec (Table_Remove k) m = (m k \<noteq> None, m(k := None))"

fun table_spec_run :: "('k, 'v) table_op list \<Rightarrow> ('k \<rightharpoonup> 'v) \<Rightarrow> bool list \<times> ('k \<rightharpoonup> 'v)" where
  "table_spec_run [] m = ([], m)"
| "table_spec_run (op # ops) m =
     (let (b, m') = table_spec op m; (bs, m'') = table_spec_run ops m' in (b # bs, m''))"

fun table_run ::
  "('k \<Rightarrow> 'v \<Rightarrow> 's \<Rightarrow> bool \<times> 's) \<Rightarrow> ('k \<Rightarrow> 's \<Rightarrow> bool \<times> 's) \<Rightarrow> ('k, 'v) table_op list \<Rightarrow> 's \<Rightarrow> bool list \<times> 's"
where
  "table_run ad rem [] s = ([], s)"
| "table_run ad rem (op # ops) s =
     (let (b, s') = (case op of Table_Add k v \<Rightarrow> ad k v s | Table_Remove k \<Rightarrow> rem k s);
          (bs, s'') = table_run ad rem ops s'
      in (b # bs, s''))"

locale erasable_registry = registry add get ok
  for add :: "'k \<Rightarrow> 'v \<Rightarrow> 's \<Rightarrow> bool \<times> 's" and get :: "'s \<Rightarrow> 'k \<Rightarrow> 'v option" and ok :: "'s \<Rightarrow> bool" +
  fixes rem :: "'k \<Rightarrow> 's \<Rightarrow> bool \<times> 's"
  assumes rem_answers: "ok s \<Longrightarrow> fst (rem k s) \<longleftrightarrow> get s k \<noteq> None"
    and rem_drops: "ok s \<Longrightarrow> get (snd (rem k s)) = (get s)(k := None)"
    and rem_ok: "ok s \<Longrightarrow> ok (snd (rem k s))"
begin

lemma step_refines:
  assumes "ok s" and "(case op of Table_Add k v \<Rightarrow> add k v s | Table_Remove k \<Rightarrow> rem k s) = (b, t)"
  shows "ok t \<and> (b, get t) = table_spec op (get s)"
proof (cases op)
  case (Table_Add k v)
  then have "b = fst (add k v s)" and "t = snd (add k v s)" using assms(2) by simp_all
  with Table_Add assms(1) show ?thesis
    by (cases "get s k = None") (auto simp: add_accepts add_stores add_refused add_ok)
next
  case (Table_Remove k)
  then have "b = fst (rem k s)" and "t = snd (rem k s)" using assms(2) by simp_all
  with Table_Remove assms(1) show ?thesis
    by (simp add: rem_answers rem_drops rem_ok)
qed

lemma run_refines:
  "ok s \<Longrightarrow> table_run add rem ops s = (bs, t) \<Longrightarrow>
     ok t \<and> table_spec_run ops (get s) = (bs, get t)"
proof (induction ops arbitrary: s bs)
  case Nil
  then show ?case by auto
next
  case (Cons op ops)
  obtain b s' where s': "(case op of Table_Add k v \<Rightarrow> add k v s | Table_Remove k \<Rightarrow> rem k s) = (b, s')"
    by fastforce
  obtain bs' where bs': "table_run add rem ops s' = (bs', t)" and "bs = b # bs'"
    using Cons.prems(2) s' by (auto split: prod.splits)
  moreover have "ok s'" and "(b, get s') = table_spec op (get s)"
    using step_refines [OF Cons.prems(1) s'] by simp_all
  moreover have "ok t \<and> table_spec_run ops (get s') = (bs', get t)"
    using Cons.IH [OF \<open>ok s'\<close> bs'] .
  ultimately show ?case
    by (metis (no_types, lifting) case_prod_conv table_spec_run.simps(2))
qed

end

section \<open>Invariants of transition systems\<close>

inductive reach :: "('s \<Rightarrow> bool) \<Rightarrow> ('s \<Rightarrow> 's \<Rightarrow> bool) \<Rightarrow> 's \<Rightarrow> bool"
  for init :: "'s \<Rightarrow> bool" and step :: "'s \<Rightarrow> 's \<Rightarrow> bool"
where
  reach_init: "init s \<Longrightarrow> reach init step s"
| reach_step: "reach init step s \<Longrightarrow> step s t \<Longrightarrow> reach init step t"

locale invariant_system =
  fixes init :: "'s \<Rightarrow> bool" and step :: "'s \<Rightarrow> 's \<Rightarrow> bool" and inv :: "'s \<Rightarrow> bool"
  assumes inv_init: "init s \<Longrightarrow> inv s"
    and inv_step: "inv s \<Longrightarrow> step s t \<Longrightarrow> inv t"
begin

lemma inv_reach: "reach init step s \<Longrightarrow> inv s"
  by (induction rule: reach.induct) (auto intro: inv_init inv_step)

lemma inv_steps: "inv s \<Longrightarrow> step\<^sup>*\<^sup>* s t \<Longrightarrow> inv t"
  by (rotate_tac, induction rule: rtranclp_induct) (auto intro: inv_step)

end

end
