(* ===== verification/Norns_Types.thy ===== *)
theory Norns_Types
  imports Norns_Prelude
begin

text \<open>
  The enumerations and constants every component shares: \<^verbatim>\<open>src/common/types.hpp\<close>,
  \<^verbatim>\<open>src/common/types.cpp\<close>, \<^verbatim>\<open>include/norns/norns_error.h\<close>, \<^verbatim>\<open>src/io/task-stats.hpp\<close>,
  \<^verbatim>\<open>src/resources/resource-type.hpp\<close>, and \<^verbatim>\<open>auth::credentials\<close>.
\<close>

section \<open>Enumerations\<close>

datatype iotask_type =
    IT_copy | IT_move | IT_remove | IT_remote_transfer | IT_noop | IT_unknown

datatype backend_type =
    BT_nvml | BT_lustre | BT_echofs | BT_posix_filesystem | BT_unknown

datatype command_type =
    CT_ping | CT_pause_listen | CT_resume_listen | CT_shutdown | CT_unknown

datatype urd_error =
    UE_success
  | UE_snafu | UE_bad_args | UE_bad_request | UE_out_of_memory | UE_not_supported | UE_system_error
  | UE_connection_failed | UE_rpc_send_failed | UE_rpc_recv_failed | UE_accept_paused
  | UE_job_exists | UE_no_such_job
  | UE_process_exists | UE_no_such_process
  | UE_namespace_exists | UE_no_such_namespace | UE_namespace_not_empty
  | UE_task_exists | UE_no_such_task | UE_too_many_tasks | UE_tasks_pending
  | UE_resource_exists | UE_no_such_resource

text \<open>The value of each enumerator: the constants of \<^verbatim>\<open>norns_error.h\<close>.\<close>

fun urd_error_value :: "urd_error \<Rightarrow> int" where
  "urd_error_value UE_success = 0"
| "urd_error_value UE_snafu = -1"
| "urd_error_value UE_bad_args = -2"
| "urd_error_value UE_bad_request = -3"
| "urd_error_value UE_out_of_memory = -4"
| "urd_error_value UE_not_supported = -200"
| "urd_error_value UE_system_error = -201"
| "urd_error_value UE_connection_failed = -6"
| "urd_error_value UE_rpc_send_failed = -7"
| "urd_error_value UE_rpc_recv_failed = -8"
| "urd_error_value UE_accept_paused = -9"
| "urd_error_value UE_job_exists = -10"
| "urd_error_value UE_no_such_job = -11"
| "urd_error_value UE_process_exists = -20"
| "urd_error_value UE_no_such_process = -21"
| "urd_error_value UE_namespace_exists = -30"
| "urd_error_value UE_no_such_namespace = -31"
| "urd_error_value UE_namespace_not_empty = -32"
| "urd_error_value UE_task_exists = -40"
| "urd_error_value UE_no_such_task = -41"
| "urd_error_value UE_too_many_tasks = -42"
| "urd_error_value UE_tasks_pending = -43"
| "urd_error_value UE_resource_exists = -110"
| "urd_error_value UE_no_such_resource = -111"

fun urd_error_to_string :: "urd_error \<Rightarrow> string" where
  "urd_error_to_string UE_success = ''NORNS_SUCCESS''"
| "urd_error_to_string UE_snafu = ''NORNS_ESNAFU''"
| "urd_error_to_string UE_bad_args = ''NORNS_EBADARGS''"
| "urd_error_to_string UE_bad_request = ''NORNS_EBADREQUEST''"
| "urd_error_to_string UE_out_of_memory = ''NORNS_ENOMEM''"
| "urd_error_to_string UE_not_supported = ''NORNS_ENOTSUPPORTED''"
| "urd_error_to_string UE_system_error = ''NORNS_ESYSTEM_ERROR''"
| "urd_error_to_string UE_connection_failed = ''NORNS_ECONNFAILED''"
| "urd_error_to_string UE_rpc_send_failed = ''NORNS_ERPCSENDFAILED''"
| "urd_error_to_string UE_rpc_recv_failed = ''NORNS_ERPCRECVFAILED''"
| "urd_error_to_string UE_job_exists = ''NORNS_EJOBEXISTS''"
| "urd_error_to_string UE_no_such_job = ''NORNS_ENOSUCHJOB''"
| "urd_error_to_string UE_process_exists = ''NORNS_EPROCESSEXISTS''"
| "urd_error_to_string UE_no_such_process = ''NORNS_ENOSUCHPROCESS''"
| "urd_error_to_string UE_namespace_exists = ''NORNS_ENAMESPACEEXISTS''"
| "urd_error_to_string UE_no_such_namespace = ''NORNS_ENOSUCHNAMESPACE''"
| "urd_error_to_string UE_namespace_not_empty = ''NORNS_ENAMESPACENOTEMPTY''"
| "urd_error_to_string UE_task_exists = ''NORNS_ETASKEXISTS''"
| "urd_error_to_string UE_no_such_task = ''NORNS_ENOSUCHTASK''"
| "urd_error_to_string UE_too_many_tasks = ''NORNS_ETOOMANYTASKS''"
| "urd_error_to_string UE_tasks_pending = ''NORNS_ETASKSPENDING''"
| "urd_error_to_string UE_accept_paused = ''NORNS_EACCEPTPAUSED''"
| "urd_error_to_string UE_resource_exists = ''NORNS_ERESOURCEEXISTS''"
| "urd_error_to_string UE_no_such_resource = ''NORNS_ENOSUCHRESOURCE''"

fun backend_type_to_string :: "backend_type \<Rightarrow> string" where
  "backend_type_to_string BT_nvml = ''NVML''"
| "backend_type_to_string BT_lustre = ''LUSTRE''"
| "backend_type_to_string BT_echofs = ''ECHOFS''"
| "backend_type_to_string BT_posix_filesystem = ''POSIX_FILESYSTEM''"
| "backend_type_to_string BT_unknown = ''UNKNOWN_BACKEND''"

fun iotask_type_to_string :: "iotask_type \<Rightarrow> string" where
  "iotask_type_to_string IT_copy = ''DATA_COPY''"
| "iotask_type_to_string IT_move = ''DATA_MOVE''"
| "iotask_type_to_string IT_remove = ''DATA_REMOVE''"
| "iotask_type_to_string IT_remote_transfer = ''DATA_TRANSFER''"
| "iotask_type_to_string _ = ''UNKNOWN_IOTASK''"

datatype task_status =
    TS_undefined | TS_pending | TS_running | TS_finished | TS_finished_with_error

fun task_status_to_string :: "task_status \<Rightarrow> string" where
  "task_status_to_string TS_pending = ''NORNS_EPENDING''"
| "task_status_to_string TS_running = ''NORNS_EINPROGRESS''"
| "task_status_to_string TS_finished = ''NORNS_EFINISHED''"
| "task_status_to_string TS_finished_with_error = ''NORNS_EFINISHEDWERROR''"
| "task_status_to_string _ = ''unknown!''"

text \<open>\<open>static_cast<uint32_t>\<close> of a status, as the remote procedure calls carry it, and back.\<close>

fun task_status_index :: "task_status \<Rightarrow> u32" where
  "task_status_index TS_undefined = 0"
| "task_status_index TS_pending = 1"
| "task_status_index TS_running = 2"
| "task_status_index TS_finished = 3"
| "task_status_index TS_finished_with_error = 4"

datatype resource_type =
    RT_memory_region | RT_local_posix_path | RT_shared_posix_path
  | RT_remote_posix_path | RT_remote_resource | RT_ignorable

fun resource_type_to_string :: "resource_type \<Rightarrow> string" where
  "resource_type_to_string RT_memory_region = ''MEMORY_REGION''"
| "resource_type_to_string RT_local_posix_path = ''LOCAL_PATH''"
| "resource_type_to_string RT_shared_posix_path = ''SHARED_PATH''"
| "resource_type_to_string RT_remote_posix_path = ''REMOTE_PATH''"
| "resource_type_to_string RT_remote_resource = ''REMOTE_RESOURCE''"
| "resource_type_to_string RT_ignorable = ''UNKNOWN_RESOURCE_TYPE''"

fun resource_type_index :: "resource_type \<Rightarrow> u32" where
  "resource_type_index RT_memory_region = 0"
| "resource_type_index RT_local_posix_path = 1"
| "resource_type_index RT_shared_posix_path = 2"
| "resource_type_index RT_remote_posix_path = 3"
| "resource_type_index RT_remote_resource = 4"
| "resource_type_index RT_ignorable = 5"

section \<open>Process credentials\<close>

record credentials =
  cr_pid :: int
  cr_uid :: u32
  cr_gid :: u32

definition credentials_default :: credentials where
  "credentials_default = \<lparr>cr_pid = 0, cr_uid = 0, cr_gid = 0\<rparr>"

section \<open>The error code on the wire\<close>

text \<open>
  \<^verbatim>\<open>encode(urd_error)\<close> of \<^verbatim>\<open>src/api/response.cpp\<close> casts the (negative) code to an unsigned 32-bit
  field; the client library stores that field in a signed 32-bit \<^verbatim>\<open>norns_error_t\<close>.
\<close>

definition encode_urd_error :: "urd_error \<Rightarrow> u32" where
  "encode_urd_error e = word_of_int (urd_error_value e)"

text \<open>\<^verbatim>\<open>encode(task_status)\<close>: the status constants of \<^verbatim>\<open>norns_error.h\<close> in an unsigned field.\<close>

fun encode_task_status :: "task_status \<Rightarrow> u32" where
  "encode_task_status TS_undefined = word_of_int (-100)"
| "encode_task_status TS_pending = word_of_int (-101)"
| "encode_task_status TS_running = word_of_int (-102)"
| "encode_task_status TS_finished = word_of_int (-103)"
| "encode_task_status TS_finished_with_error = word_of_int (-104)"

lemma urd_error_value_inj: "urd_error_value a = urd_error_value b \<longleftrightarrow> a = b"
  by (cases a; cases b) simp_all

lemma urd_error_value_0 [simp]: "urd_error_value e = 0 \<longleftrightarrow> e = UE_success"
  by (cases e) simp_all

lemma task_status_index_inj: "task_status_index a = task_status_index b \<longleftrightarrow> a = b"
  by (cases a; cases b) simp_all

text \<open>
  Every error code survives the trip to the client: read back as a signed 32-bit integer, the
  unsigned field of the response is the code the handler set, and no two codes or status values
  share a representation.
\<close>

theorem error_code_roundtrip:
  "sint (encode_urd_error e) = urd_error_value e \<and>
   (encode_urd_error e = encode_urd_error e' \<longleftrightarrow> e = e') \<and>
   (encode_task_status s = encode_task_status s' \<longleftrightarrow> s = s')"
proof -
  have s: "sint (encode_urd_error x) = urd_error_value x" for x
    by (cases x) (simp_all add: encode_urd_error_def)
  then have "encode_urd_error e = encode_urd_error e' \<longleftrightarrow> e = e'"
    by (metis urd_error_value_inj)
  moreover have "encode_task_status s = encode_task_status s' \<longleftrightarrow> s = s'"
    by (cases s; cases s') simp_all
  ultimately show ?thesis using s by simp
qed

end
