(* ===== verification/Path_Utils.thy ===== *)
theory Path_Utils
  imports Norns_Types
begin

text \<open>
  \<^verbatim>\<open>src/utils.cpp\<close>: sizes with units, and the lexical normalisation of path names that decides
  which file of a namespace a request names. A \<^verbatim>\<open>boost::filesystem::path\<close> is its native string;
  the members of that class the code calls are parameters (\<open>path_ops\<close>), and what the code relies
  on of them, the documented behaviour of Boost.Filesystem version 3, is \<open>path_laws\<close>.
\<close>

section \<open>parse_size\<close>

datatype parse_error = Invalid_argument | Out_of_range_value | Undefined_conversion

text \<open>\<^verbatim>\<open>std::isspace\<close> in the classic locale, \<^verbatim>\<open>::isdigit\<close>.\<close>

definition is_space :: "char \<Rightarrow> bool" where
  "is_space c \<longleftrightarrow> c \<in> {CHR '' '', CHR 0x09, CHR 0x0A, CHR 0x0B, CHR 0x0C, CHR 0x0D}"

definition is_digit :: "char \<Rightarrow> bool" where
  "is_digit c \<longleftrightarrow> c \<in> set ''0123456789''"

text \<open>\<^verbatim>\<open>std::string::find\<close>: the first position of a substring; \<open>None\<close> is \<^verbatim>\<open>npos\<close>.\<close>

fun str_find :: "string \<Rightarrow> string \<Rightarrow> nat option" where
  "str_find pat [] = (if pat = [] then Some 0 else None)"
| "str_find pat (c # s) =
     (if take (length pat) (c # s) = pat then Some 0 else map_option Suc (str_find pat s))"

definition conversions :: "(string \<times> nat) list" where
  "conversions =
     [(''GiB'', 1073741824), (''GB'', 1000000000), (''G'', 1000000000),
      (''MiB'', 1048576), (''MB'', 1000000), (''M'', 1000000),
      (''KiB'', 1024), (''KB'', 1000), (''K'', 1000), (''B'', 1)]"

text \<open>
  The loop over the conversions: the position of the unit and its factor. A unit that occurs but
  does not end the string is passed over.
\<close>

fun find_units :: "(string \<times> nat) list \<Rightarrow> string \<Rightarrow> nat option \<times> nat" where
  "find_units [] s = (None, 1)"
| "find_units ((suffix, f) # cs) s =
     (case str_find suffix s of
        None \<Rightarrow> find_units cs s
      | Some pos \<Rightarrow> if suffix \<noteq> drop pos s then find_units cs s else (Some pos, f))"

text \<open>
  Doubles that hold integers: the nearest one with a 53-bit significand, ties to even, as
  \<^verbatim>\<open>std::stod\<close> and the product of two doubles give it.
\<close>

fun bit_len :: "nat \<Rightarrow> nat" where
  "bit_len n = (if n = 0 then 0 else Suc (bit_len (n div 2)))"

declare bit_len.simps [simp del]

definition round53 :: "nat \<Rightarrow> nat" where
  "round53 n =
     (let e = bit_len n - 53; q = n div 2 ^ e; r = n mod 2 ^ e; half = 2 ^ (e - 1)
      in if e = 0 then n
         else if r < half \<or> (r = half \<and> even q) then q * 2 ^ e
         else (q + 1) * 2 ^ e)"

definition digit_value :: "char \<Rightarrow> nat" where
  "digit_value c = of_char c - 48"

definition decimal :: "string \<Rightarrow> nat" where
  "decimal s = foldl (\<lambda>n c. 10 * n + digit_value c) 0 s"

definition stod :: "string \<Rightarrow> parse_error + nat" where
  "stod s = (let v = round53 (decimal s) in if v < 2 ^ 1024 then Inr v else Inl Out_of_range_value)"

definition parse_size :: "string \<Rightarrow> parse_error + u64" where
  "parse_size str =
     (let scopy = filter (\<lambda>c. \<not> is_space c) str;
          (pos, factor) = find_units conversions scopy;
          number_str = (case pos of None \<Rightarrow> scopy | Some p \<Rightarrow> take p scopy)
      in if number_str = [] \<or> \<not> list_all is_digit number_str then Inl Invalid_argument
         else case stod number_str of
             Inl e \<Rightarrow> Inl e
           | Inr v \<Rightarrow> (let r = round53 (v * factor)
                      in if r < 2 ^ 64 then Inr (of_nat r) else Inl Undefined_conversion))"

lemma bit_len_le: "n < 2 ^ k \<Longrightarrow> bit_len n \<le> k"
proof (induction k arbitrary: n)
  case 0
  then show ?case by (simp add: bit_len.simps)
next
  case (Suc k)
  then have "bit_len (n div 2) \<le> k" by (intro Suc.IH) auto
  then show ?case by (subst bit_len.simps) simp
qed

lemma round53_exact: "n < 2 ^ 53 \<Longrightarrow> round53 n = n"
  using bit_len_le [of n 53] by (simp add: round53_def)

lemma str_find_skip:
  "pat \<noteq> [] \<Longrightarrow> list_all is_digit ds \<Longrightarrow> \<not> is_digit (hd pat) \<Longrightarrow>
     str_find pat (ds @ s) = map_option (\<lambda>p. length ds + p) (str_find pat s)"
proof (induction ds)
  case Nil
  then show ?case by (simp add: option.map_ident)
next
  case (Cons d ds)
  then have "take (length pat) (d # ds @ s) \<noteq> pat"
    by (cases pat) auto
  with Cons show ?case by (simp add: option.map_comp comp_def)
qed

lemma str_find_Some: "str_find pat s = Some p \<Longrightarrow> p \<le> length s"
  by (induction pat s arbitrary: p rule: str_find.induct) (auto split: if_splits)

definition units :: "string list" where
  "units = map fst conversions"

definition size_factor :: "string \<Rightarrow> nat" where
  "size_factor u = (case map_of conversions u of None \<Rightarrow> 1 | Some f \<Rightarrow> f)"

lemma is_digit_letters [simp]:
  "\<not> is_digit CHR ''G''" "\<not> is_digit CHR ''M''" "\<not> is_digit CHR ''K''" "\<not> is_digit CHR ''B''"
  by (simp_all add: is_digit_def)

lemma find_units_unit:
  assumes "list_all is_digit ds" and "u \<in> set units"
  shows "find_units conversions (ds @ u) = (Some (length ds), size_factor u)"
  using assms(2) unfolding units_def conversions_def
  by (auto simp: str_find_skip [OF _ assms(1)] size_factor_def conversions_def)

lemma find_units_none:
  assumes "list_all is_digit ds"
  shows "find_units conversions ds = (None, 1)"
  using str_find_skip [OF _ assms, where s = "[]"]
  by (simp add: conversions_def)

lemma find_units_Some:
  "find_units cs s = (Some p, f) \<Longrightarrow> (drop p s, f) \<in> set cs \<and> p \<le> length s"
  by (induction cs s rule: find_units.induct)
    (auto split: option.splits if_splits dest: str_find_Some)

lemma parse_size_number:
  assumes "list_all is_digit ds" and "ds \<noteq> []" and "u = [] \<or> u \<in> set units"
    and "filter (\<lambda>c. \<not> is_space c) str = ds @ u"
  shows "parse_size str =
    (case stod ds of Inl e \<Rightarrow> Inl e
     | Inr v \<Rightarrow> (let r = round53 (v * size_factor u)
                in if r < 2 ^ 64 then Inr (of_nat r) else Inl Undefined_conversion))"
proof -
  have "size_factor [] = 1"
    by (simp add: size_factor_def conversions_def)
  then have units: "find_units conversions (ds @ u) =
      (if u = [] then None else Some (length ds), size_factor u)"
    using assms(1,3) by (auto simp: find_units_unit find_units_none)
  show ?thesis
    using assms(1,2) by (simp add: parse_size_def assms(4) units)
qed

text \<open>
  \<^verbatim>\<open>parse_size\<close> is exact: a decimal number, with or without a unit and with white space
  anywhere, is the number times the unit's factor, as long as both the number and the product are
  below 2 to the 53 (where the doubles the code computes with are exact).
\<close>

theorem parse_size_exact:
  assumes "ds \<noteq> []" and "list_all is_digit ds" and "u = [] \<or> u \<in> set units"
    and "filter (\<lambda>c. \<not> is_space c) str = ds @ u"
    and "decimal ds * size_factor u < 2 ^ 53"
  shows "parse_size str = Inr (of_nat (decimal ds * size_factor u))"
proof -
  have "0 < size_factor u"
    using assms(3) by (auto simp: size_factor_def units_def conversions_def)
  then have "decimal ds * 1 \<le> decimal ds * size_factor u"
    by (intro mult_le_mono) simp_all
  then have "decimal ds * 1 < 2 ^ 53"
    using assms(5) by (rule le_less_trans)
  then have small: "decimal ds < 2 ^ 53" by simp
  moreover have "(2::nat) ^ 53 \<le> 2 ^ 1024"
    by (rule power_increasing) simp_all
  ultimately have "decimal ds < 2 ^ 1024"
    by (rule less_le_trans)
  with small have "stod ds = Inr (decimal ds)"
    by (simp add: stod_def round53_exact)
  moreover have "decimal ds * size_factor u < 2 ^ 64"
    using assms(5) by simp
  ultimately show ?thesis
    using assms by (simp add: parse_size_number round53_exact)
qed

theorem parse_size_exact_witness:
  "parse_size ''12 KiB'' = Inr (of_nat (decimal ''12'' * size_factor ''KiB'')) \<and>
   decimal ''12'' * size_factor ''KiB'' = 12288"
proof -
  have v: "decimal ''12'' * size_factor ''KiB'' = 12288"
    by (simp add: decimal_def digit_value_def size_factor_def conversions_def)
  have "parse_size ''12 KiB'' = Inr (of_nat (decimal ''12'' * size_factor ''KiB''))"
    by (rule parse_size_exact)
      (simp_all add: v is_digit_def is_space_def units_def conversions_def)
  with v show ?thesis by blast
qed

text \<open>
  What \<^verbatim>\<open>parse_size\<close> accepts: it throws \<^verbatim>\<open>std::invalid_argument\<close> exactly on the strings that
  are not, white space removed, a non-empty run of digits followed by one of the ten units or by
  nothing. In particular a unit followed by anything else (\<^verbatim>\<open>10GBfoo\<close>) is rejected.
\<close>

theorem parse_size_invalid:
  "parse_size str = Inl Invalid_argument \<longleftrightarrow>
     \<not> (\<exists>ds u. ds \<noteq> [] \<and> list_all is_digit ds \<and> (u = [] \<or> u \<in> set units) \<and>
              filter (\<lambda>c. \<not> is_space c) str = ds @ u)"
  (is "_ \<longleftrightarrow> \<not> ?good")
proof -
  let ?s = "filter (\<lambda>c. \<not> is_space c) str"
  have "parse_size str \<noteq> Inl Invalid_argument" if ?good
    using that parse_size_number
    by (fastforce simp: stod_def Let_def split: sum.splits if_splits)
  moreover have ?good if "parse_size str \<noteq> Inl Invalid_argument"
  proof (cases "fst (find_units conversions ?s)")
    case None
    with that show ?thesis
      by (auto simp: parse_size_def Let_def split: prod.splits if_splits)
  next
    case (Some p)
    then obtain f where f: "find_units conversions ?s = (Some p, f)"
      by (metis prod.collapse)
    from find_units_Some [OF f] have "drop p ?s \<in> set units"
      by (force simp: units_def)
    moreover have "take p ?s \<noteq> []" "list_all is_digit (take p ?s)"
      using that f by (auto simp: parse_size_def Let_def split: if_splits)
    ultimately show ?thesis by (metis append_take_drop_id)
  qed
  ultimately show ?thesis by blast
qed

end
