(* ===== verification/Path_Normalize.thy ===== *)
theory Path_Normalize
  imports Path_Utils
begin

text \<open>
  \<^verbatim>\<open>utils::lexical_normalize\<close> and the separator helpers of \<^verbatim>\<open>src/utils.cpp\<close>, and the reference
  they are compared with: the normal form of a path name as a stack of names. The daemon
  normalises every path name of a request and appends it to the mount point of the namespace, so
  a ".." that survives the normalisation leaves the namespace.
\<close>

section \<open>The path class\<close>

record path_ops =
  po_elems :: "string \<Rightarrow> string list"          \<comment> \<open>the elements an iterator over the path yields\<close>
  po_append :: "string \<Rightarrow> string \<Rightarrow> string"     \<comment> \<open>operator /=\<close>
  po_remove_filename :: "string \<Rightarrow> string"
  po_eq :: "string \<Rightarrow> string \<Rightarrow> bool"           \<comment> \<open>operator ==, element by element\<close>

definition plain_name :: "string \<Rightarrow> bool" where
  "plain_name n \<longleftrightarrow> n \<noteq> [] \<and> CHR ''/'' \<notin> set n"

text \<open>An absolute path without redundant separators, from its names.\<close>

definition abs_path :: "string list \<Rightarrow> string" where
  "abs_path ns = (if ns = [] then ''/'' else concat (map (\<lambda>n. CHR ''/'' # n) ns))"

text \<open>An element of a path: a name, the root directory, or a root name of two slashes.\<close>

definition path_elem :: "string \<Rightarrow> bool" where
  "path_elem e \<longleftrightarrow> plain_name e \<or> e = ''/'' \<or> (\<exists>n. plain_name n \<and> e = ''//'' @ n)"

definition path_laws :: "path_ops \<Rightarrow> bool" where
  "path_laws po \<longleftrightarrow>
     (\<forall>p. \<forall>e \<in> set (po_elems po p). path_elem e) \<and>
     (\<forall>e e'. path_elem e \<longrightarrow> path_elem e' \<longrightarrow> (po_eq po e e' \<longleftrightarrow> e = e')) \<and>
     (\<forall>ns. list_all plain_name ns \<longrightarrow> (po_eq po (abs_path ns) ''/'' \<longleftrightarrow> ns = [])) \<and>
     (\<forall>ns n. list_all plain_name ns \<longrightarrow> plain_name n \<longrightarrow>
        po_append po (abs_path ns) n = abs_path (ns @ [n])) \<and>
     (\<forall>ns. list_all plain_name ns \<longrightarrow> ns \<noteq> [] \<longrightarrow>
        po_append po (abs_path ns) ''/'' = abs_path ns @ ''/'') \<and>
     (\<forall>ns n. list_all plain_name ns \<longrightarrow> plain_name n \<longrightarrow>
        po_remove_filename po (abs_path (ns @ [n])) = abs_path ns) \<and>
     po_remove_filename po ''/'' = []"

section \<open>lexical_normalize\<close>

definition normalize_step :: "path_ops \<Rightarrow> string \<Rightarrow> string \<Rightarrow> string" where
  "normalize_step po tmp elem =
     (if po_eq po elem ''..'' then
        (let tmp' = po_remove_filename po tmp in if tmp' = [] then ''/'' else tmp')
      else if \<not> po_eq po elem ''.'' \<and> \<not> po_eq po elem ''/'' then
        (if length elem > 2 \<and> elem ! 0 = CHR ''/'' \<and> elem ! 1 = CHR ''/''
         then po_append po tmp (drop 2 elem)
         else po_append po tmp elem)
      else tmp)"

definition lexical_normalize :: "path_ops \<Rightarrow> string \<Rightarrow> bool \<Rightarrow> string" where
  "lexical_normalize po pathname as_directory =
     (if pathname = [] then []
      else if po_eq po pathname ''/'' then ''/''
      else
        (let tmp = foldl (normalize_step po) ''/'' (po_elems po pathname)
         in if \<not> po_eq po tmp ''/'' \<and> as_directory then po_append po tmp ''/'' else tmp))"

definition remove_trailing_separator :: "string \<Rightarrow> string" where
  "remove_trailing_separator str =
     (if str \<noteq> [] \<and> str ! (length str - 1) = CHR ''/'' then take (length str - 1) str else str)"

definition remove_leading_separator :: "string \<Rightarrow> string" where
  "remove_leading_separator str =
     (if str \<noteq> [] \<and> str ! 0 = CHR ''/'' then drop 1 str else str)"

section \<open>The reference: a stack of names\<close>

text \<open>
  Reading the elements from left to right: ".." drops the last name and stays at the root, "."
  and separators do nothing, a name is pushed, and of a root name the part after its slashes.
\<close>

definition resolve_step :: "string list \<Rightarrow> string \<Rightarrow> string list" where
  "resolve_step ns e =
     (if e = ''..'' then butlast ns
      else if e = ''.'' \<or> e = ''/'' then ns
      else ns @ [if take 2 e = ''//'' then drop 2 e else e])"

definition resolve :: "string list \<Rightarrow> string list" where
  "resolve es = foldl resolve_step [] es"

lemma take2_slashes:
  "take 2 e = ''//'' \<and> 2 < length e \<longleftrightarrow> 2 < length e \<and> e ! 0 = CHR ''/'' \<and> e ! 1 = CHR ''/''"
  by (cases e; cases "tl e") (auto simp: numeral_2_eq_2)

lemma plain_name_simps [simp]:
  "plain_name ''..''" "plain_name ''.''" "\<not> plain_name ''/''" "\<not> plain_name []"
  "\<not> plain_name (CHR ''/'' # n)"
  by (simp_all add: plain_name_def)

lemma plain_name_take2: "plain_name e \<Longrightarrow> take 2 e \<noteq> ''//''"
  by (cases e) (auto simp: plain_name_def)

lemma path_elem_simps [simp]: "path_elem ''..''" "path_elem ''.''" "path_elem ''/''"
  by (auto simp: path_elem_def)

lemma set_resolve_step:
  "x \<in> set (resolve_step ns e) \<Longrightarrow>
     x \<in> set ns \<or> take 2 e = ''//'' \<and> x = drop 2 e \<or> x = e \<and> e \<noteq> ''..'' \<and> e \<noteq> ''.''"
  unfolding resolve_step_def by (cases "take 2 e = ''//''"; auto split: if_splits dest: in_set_butlastD)

lemma resolve_step_plain:
  "list_all plain_name ns \<Longrightarrow> path_elem e \<Longrightarrow> list_all plain_name (resolve_step ns e)"
  by (auto simp: resolve_step_def path_elem_def list_all_iff plain_name_take2 dest: in_set_butlastD)

lemma resolve_plain_from:
  "list_all plain_name ns \<Longrightarrow> \<forall>e \<in> set es. path_elem e \<Longrightarrow>
     list_all plain_name (foldl resolve_step ns es)"
  by (induction es arbitrary: ns) (auto intro: resolve_step_plain)

lemma abs_path_nonempty [simp]: "abs_path ns \<noteq> []"
  by (auto simp: abs_path_def neq_Nil_conv)

lemma abs_path_Nil: "abs_path [] = ''/''"
  by (simp add: abs_path_def)

text \<open>The laws of the path class, one by one.\<close>

lemma path_laws_simps:
  assumes "path_laws po"
  shows "path_elem e \<Longrightarrow> path_elem e' \<Longrightarrow> po_eq po e e' \<longleftrightarrow> e = e'"
    and "list_all plain_name ns \<Longrightarrow> po_eq po (abs_path ns) ''/'' \<longleftrightarrow> ns = []"
    and "list_all plain_name ns \<Longrightarrow> plain_name n \<Longrightarrow> po_append po (abs_path ns) n = abs_path (ns @ [n])"
    and "list_all plain_name ns \<Longrightarrow> ns \<noteq> [] \<Longrightarrow> po_append po (abs_path ns) ''/'' = abs_path ns @ ''/''"
    and "list_all plain_name ns \<Longrightarrow> plain_name n \<Longrightarrow> po_remove_filename po (abs_path (ns @ [n])) = abs_path ns"
    and "po_remove_filename po ''/'' = []"
  using assms unfolding path_laws_def by blast+

text \<open>One step of the loop is one step on the stack.\<close>

lemma normalize_step_abs:
  assumes laws: "path_laws po" and ns: "list_all plain_name ns" and e: "path_elem e"
  shows "normalize_step po (abs_path ns) e = abs_path (resolve_step ns e)"
proof -
  note simps = path_laws_simps [OF laws]
  have eq: "po_eq po e s \<longleftrightarrow> e = s" if "path_elem s" for s
    using e that by (simp add: simps(1))
  consider (dotdot) "e = ''..''" | (skip) "e = ''.'' \<or> e = ''/''"
    | (root) n where "plain_name n" "e = ''//'' @ n"
    | (name) "plain_name e" "e \<noteq> ''..''" "e \<noteq> ''.''"
    using e by (auto simp: path_elem_def)
  then show ?thesis
  proof cases
    case dotdot
    then have "po_eq po e ''..''" using eq [of "''..''"] by simp
    then have "normalize_step po (abs_path ns) e =
        (let t = po_remove_filename po (abs_path ns) in if t = [] then ''/'' else t)"
      by (simp add: normalize_step_def)
    then show ?thesis
      using dotdot ns
      by (cases ns rule: rev_cases) (simp_all add: resolve_step_def simps abs_path_Nil)
  next
    case skip
    then have "\<not> po_eq po e ''..''" "po_eq po e ''.'' \<or> po_eq po e ''/''"
      using eq [of "''..''"] eq [of "''.''"] eq [of "''/''"] by auto
    with skip show ?thesis by (auto simp: normalize_step_def resolve_step_def)
  next
    case root
    then have "2 < length e" by (cases n) simp_all
    moreover have "\<not> po_eq po e ''..''" "\<not> po_eq po e ''.''" "\<not> po_eq po e ''/''"
      using root eq [of "''..''"] eq [of "''.''"] eq [of "''/''"] by auto
    ultimately have "normalize_step po (abs_path ns) e = po_append po (abs_path ns) n"
      using root(2) by (simp add: normalize_step_def)
    moreover have "resolve_step ns e = ns @ [n]"
      using root by (simp add: resolve_step_def)
    ultimately show ?thesis
      using ns root(1) by (simp add: simps)
  next
    case name
    then have "\<not> (2 < length e \<and> e ! 0 = CHR ''/'' \<and> e ! 1 = CHR ''/'')"
      using plain_name_take2 take2_slashes by blast
    moreover have "\<not> po_eq po e ''..''" "\<not> po_eq po e ''.''" "\<not> po_eq po e ''/''"
      using name eq [of "''..''"] eq [of "''.''"] eq [of "''/''"] by auto
    ultimately have "normalize_step po (abs_path ns) e = po_append po (abs_path ns) e"
      by (auto simp: normalize_step_def)
    moreover have "resolve_step ns e = ns @ [e]"
      using name plain_name_take2 by (auto simp: resolve_step_def)
    ultimately show ?thesis
      using ns name(1) by (simp add: simps)
  qed
qed

lemma foldl_normalize:
  "path_laws po \<Longrightarrow> list_all plain_name ns \<Longrightarrow> \<forall>e \<in> set es. path_elem e \<Longrightarrow>
     foldl (normalize_step po) (abs_path ns) es = abs_path (foldl resolve_step ns es)"
  by (induction es arbitrary: ns) (auto simp: normalize_step_abs resolve_step_plain)

lemma elems_path_elem: "path_laws po \<Longrightarrow> \<forall>e \<in> set (po_elems po p). path_elem e"
  unfolding path_laws_def by blast

lemma resolve_plain: "path_laws po \<Longrightarrow> list_all plain_name (resolve (po_elems po p))"
  unfolding resolve_def by (rule resolve_plain_from) (simp_all add: elems_path_elem)

lemma normalize_is_resolve:
  assumes "path_laws po" and "p \<noteq> []" and "\<not> po_eq po p ''/''"
  shows "lexical_normalize po p as_dir =
    abs_path (resolve (po_elems po p)) @
      (if as_dir \<and> resolve (po_elems po p) \<noteq> [] then ''/'' else [])"
proof -
  let ?ns = "resolve (po_elems po p)"
  have "foldl (normalize_step po) ''/'' (po_elems po p) = abs_path ?ns"
    using foldl_normalize [OF assms(1), of "[]" "po_elems po p"] elems_path_elem [OF assms(1)]
    by (simp add: resolve_def abs_path_Nil)
  moreover have "list_all plain_name ?ns"
    using assms(1) by (rule resolve_plain)
  ultimately show ?thesis
    using assms(2,3) by (simp add: lexical_normalize_def path_laws_simps [OF assms(1)] Let_def)
qed

text \<open>
  C12. \<^verbatim>\<open>lexical_normalize\<close> computes the normal form: for a path other than the empty one and the
  root, the result is the absolute path of the names left on the stack when ".." pops and "." is
  skipped, with a trailing separator exactly when a directory was asked for and a name is left.
\<close>

theorem lexical_normalize_resolves:
  assumes "path_laws po" and "p \<noteq> []" and "\<not> po_eq po p ''/''"
  shows "lexical_normalize po p as_dir =
    abs_path (resolve (po_elems po p)) @
      (if as_dir \<and> resolve (po_elems po p) \<noteq> [] then ''/'' else [])"
  using assms by (rule normalize_is_resolve)

section \<open>Containment in the namespace\<close>

text \<open>No name on the stack is "." or "..", unless the path starts with a root name of that form.\<close>

lemma resolve_no_dots_from:
  assumes "\<forall>e \<in> set es. path_elem e \<and> e \<noteq> ''//..'' \<and> e \<noteq> ''//.''"
  shows "''..'' \<notin> set ns \<Longrightarrow> ''.'' \<notin> set ns \<Longrightarrow>
    ''..'' \<notin> set (foldl resolve_step ns es) \<and> ''.'' \<notin> set (foldl resolve_step ns es)"
  using assms
proof (induction es arbitrary: ns)
  case Nil
  then show ?case by simp
next
  case (Cons e es)
  have "drop 2 e \<noteq> ''..'' \<and> drop 2 e \<noteq> ''.''" if t: "take 2 e = ''//''"
  proof -
    obtain r where r: "drop 2 e = r" by simp
    then have "e = ''//'' @ r" using t by (metis append_take_drop_id)
    then show ?thesis using Cons.prems(3) r by auto
  qed
  then have "x \<notin> set (resolve_step ns e)" if "x = ''..'' \<or> x = ''.''" for x
    using set_resolve_step [of x ns e] that Cons.prems(1,2) by metis
  then have "''..'' \<notin> set (resolve_step ns e)" "''.'' \<notin> set (resolve_step ns e)"
    by simp_all
  with Cons show ?case by simp
qed

text \<open>
  C13. Containment: when no element of the path is a root name \<^verbatim>\<open>//.\<close> or \<^verbatim>\<open>//..\<close>, the normalised
  path has no "." and no ".." component, so appended to a mount point it stays below it.
\<close>

theorem lexical_normalize_contained:
  assumes "path_laws po" and "p \<noteq> []"
    and "''//..'' \<notin> set (po_elems po p)" and "''//.'' \<notin> set (po_elems po p)"
  shows "\<exists>ns. list_all plain_name ns \<and> ''..'' \<notin> set ns \<and> ''.'' \<notin> set ns \<and>
    (lexical_normalize po p as_dir = abs_path ns \<or> lexical_normalize po p as_dir = abs_path ns @ ''/'')"
proof (cases "po_eq po p ''/''")
  case True
  with assms(2) have "lexical_normalize po p as_dir = abs_path []"
    by (simp add: lexical_normalize_def abs_path_def)
  then show ?thesis by (intro exI [of _ "[]"]) simp
next
  case False
  let ?ns = "resolve (po_elems po p)"
  have "''..'' \<notin> set ?ns \<and> ''.'' \<notin> set ?ns"
    using resolve_no_dots_from [of "po_elems po p" "[]"] elems_path_elem [OF assms(1)] assms(3,4)
    by (auto simp: resolve_def)
  then show ?thesis
    using normalize_is_resolve [OF assms(1,2) False] resolve_plain [OF assms(1)]
    by (intro exI [of _ ?ns]) auto
qed

section \<open>A path class that meets the laws\<close>

text \<open>
  A concrete instance: elements, concatenation and parent as the reference manual of
  Boost.Filesystem version 3 tabulates them. A trailing separator yields a final "." element.
\<close>

function name_runs :: "string \<Rightarrow> string list" where
  "name_runs [] = []"
| "name_runs (c # s) =
     (if c = CHR ''/'' then name_runs s
      else (c # takeWhile (\<lambda>d. d \<noteq> CHR ''/'') s) # name_runs (dropWhile (\<lambda>d. d \<noteq> CHR ''/'') s))"
  by pat_completeness auto
termination
  by (relation "measure length") (auto simp: le_imp_less_Suc length_dropWhile_le)

definition trailing_dot :: "string \<Rightarrow> string list" where
  "trailing_dot p = (if p \<noteq> [] \<and> last p = CHR ''/'' \<and> name_runs p \<noteq> [] then [''.''] else [])"

definition rooted_elems :: "string \<Rightarrow> string list" where
  "rooted_elems p = (if p \<noteq> [] \<and> hd p = CHR ''/'' then [''/''] else []) @ name_runs p @ trailing_dot p"

definition boost_elems :: "string \<Rightarrow> string list" where
  "boost_elems p =
     (if take 2 p = ''//'' \<and> 2 < length p \<and> p ! 2 \<noteq> CHR ''/'' then
        (let n = takeWhile (\<lambda>d. d \<noteq> CHR ''/'') (drop 2 p)
         in (''//'' @ n) # rooted_elems (drop (2 + length n) p))
      else rooted_elems p)"

definition boost_append :: "string \<Rightarrow> string \<Rightarrow> string" where
  "boost_append p q =
     (if p = [] \<or> q = [] \<or> last p = CHR ''/'' \<or> hd q = CHR ''/'' then p @ q else p @ CHR ''/'' # q)"

definition boost_remove_filename :: "string \<Rightarrow> string" where
  "boost_remove_filename p =
     (if p = ''/'' then []
      else case dropWhile (\<lambda>d. d \<noteq> CHR ''/'') (rev p) of
          [] \<Rightarrow> []
        | _ # q \<Rightarrow> if q = [] then ''/'' else rev q)"

definition boost_path_ops :: path_ops where
  "boost_path_ops =
     \<lparr>po_elems = boost_elems, po_append = boost_append, po_remove_filename = boost_remove_filename,
      po_eq = (\<lambda>a b. boost_elems a = boost_elems b)\<rparr>"

lemma name_runs_plain: "e \<in> set (name_runs p) \<Longrightarrow> plain_name e"
  by (induction p rule: name_runs.induct)
    (auto simp: plain_name_def split: if_splits dest: set_takeWhileD)

lemma rooted_elems_elem: "e \<in> set (rooted_elems p) \<Longrightarrow> path_elem e"
  by (auto simp: rooted_elems_def trailing_dot_def path_elem_def dest: name_runs_plain split: if_splits)

lemma boost_elems_elem: "e \<in> set (boost_elems p) \<Longrightarrow> path_elem e"
proof -
  assume e: "e \<in> set (boost_elems p)"
  let ?n = "takeWhile (\<lambda>d. d \<noteq> CHR ''/'') (drop 2 p)"
  have "plain_name ?n" if "2 < length p" "p ! 2 \<noteq> CHR ''/''"
  proof -
    have "drop 2 p = p ! 2 # drop 3 p"
      using Cons_nth_drop_Suc [OF that(1)] by simp
    then show ?thesis
      using that(2) by (auto simp: plain_name_def dest: set_takeWhileD)
  qed
  with e show ?thesis
    by (auto simp: boost_elems_def Let_def path_elem_def split: if_splits dest: rooted_elems_elem)
       (metis path_elem_def rooted_elems_elem append_Cons append_Nil)+
qed

lemma name_runs_append_slash:
  "CHR ''/'' \<notin> set n \<Longrightarrow> n \<noteq> [] \<Longrightarrow> name_runs (n @ CHR ''/'' # s) = n # name_runs s"
  by (cases n) auto

lemma name_runs_plain_self: "plain_name n \<Longrightarrow> name_runs n = [n]"
proof (cases n)
  case (Cons c s)
  assume "plain_name n"
  then show ?thesis using Cons by (auto simp: plain_name_def)
qed simp

lemma concat_names_last:
  "list_all plain_name ns \<Longrightarrow> ns \<noteq> [] \<Longrightarrow> last (concat (map (\<lambda>n. CHR ''/'' # n) ns)) \<noteq> CHR ''/''"
proof (induction ns rule: rev_induct)
  case (snoc n ns)
  then have "n \<noteq> []" "last n \<noteq> CHR ''/''"
    by (auto simp: plain_name_def) (metis last_in_set)
  then show ?case by simp
qed simp

lemma name_runs_concat:
  "list_all plain_name ns \<Longrightarrow> name_runs (concat (map (\<lambda>n. CHR ''/'' # n) ns)) = ns"
proof (induction ns)
  case (Cons n ns)
  then have n: "plain_name n" by simp
  show ?case
  proof (cases ns)
    case Nil
    then show ?thesis using n by (simp add: name_runs_plain_self)
  next
    case (Cons m ms)
    let ?rest = "m @ concat (map (\<lambda>n. CHR ''/'' # n) ms)"
    have "name_runs (n @ CHR ''/'' # ?rest) = n # name_runs ?rest"
      using n by (intro name_runs_append_slash) (simp_all add: plain_name_def)
    with Cons.IH Cons.prems Cons show ?thesis by simp
  qed
qed simp

lemma boost_elems_plain: "plain_name n \<Longrightarrow> boost_elems n = [n]"
proof -
  assume n: "plain_name n"
  then have "last n \<noteq> CHR ''/''" "hd n \<noteq> CHR ''/''"
    by (metis last_in_set list.set_sel(1) plain_name_def)+
  with n show ?thesis
    by (simp add: boost_elems_def rooted_elems_def trailing_dot_def name_runs_plain_self plain_name_take2)
qed

lemma boost_elems_root: "boost_elems ''/'' = [''/'']"
  by (simp add: boost_elems_def rooted_elems_def trailing_dot_def)

lemma boost_elems_root_name: "plain_name n \<Longrightarrow> boost_elems (''//'' @ n) = [''//'' @ n]"
  by (cases n) (auto simp: boost_elems_def plain_name_def rooted_elems_def trailing_dot_def)

lemma boost_elems_elem_self: "path_elem e \<Longrightarrow> boost_elems e = [e]"
  unfolding path_elem_def
  by (elim disjE exE conjE) (simp_all only: boost_elems_plain boost_elems_root boost_elems_root_name)

lemma boost_elems_abs_path:
  assumes "list_all plain_name ns"
  shows "boost_elems (abs_path ns) = ''/'' # ns"
proof (cases ns)
  case Nil
  then show ?thesis by (simp add: abs_path_def boost_elems_root)
next
  case (Cons n ms)
  then have "n \<noteq> []" "hd n \<noteq> CHR ''/''"
    using assms by (auto simp: plain_name_def dest: hd_in_set)
  then have "take 2 (abs_path ns) \<noteq> ''//''"
    using Cons by (cases n) (auto simp: abs_path_def)
  moreover have "last (abs_path ns) \<noteq> CHR ''/''"
    using concat_names_last [OF assms] Cons by (simp add: abs_path_def)
  moreover have "name_runs (abs_path ns) = ns"
    using name_runs_concat [OF assms] Cons by (simp add: abs_path_def)
  moreover have "hd (abs_path ns) = CHR ''/''"
    using Cons by (simp add: abs_path_def)
  ultimately show ?thesis
    by (simp add: boost_elems_def rooted_elems_def trailing_dot_def)
qed

lemma boost_append_name:
  assumes "list_all plain_name ns" and "plain_name n"
  shows "boost_append (abs_path ns) n = abs_path (ns @ [n])"
proof -
  have "n \<noteq> []" "hd n \<noteq> CHR ''/''"
    using assms(2) by (auto simp: plain_name_def) (metis hd_in_set)
  then show ?thesis
    using concat_names_last [OF assms(1)] by (auto simp: boost_append_def abs_path_def)
qed

lemma boost_remove_filename_name:
  assumes "plain_name n"
  shows "boost_remove_filename (abs_path (ns @ [n])) = abs_path ns"
proof -
  let ?c = "concat (map (\<lambda>n. CHR ''/'' # n) ns)"
  have p: "abs_path (ns @ [n]) = ?c @ CHR ''/'' # n"
    by (simp add: abs_path_def)
  have "dropWhile (\<lambda>d. d \<noteq> CHR ''/'') (rev n @ CHR ''/'' # rev ?c) = CHR ''/'' # rev ?c"
    using assms by (intro dropWhile_sep) (simp add: plain_name_def)
  moreover have "?c @ CHR ''/'' # n \<noteq> ''/''"
    using assms by (cases ?c) (auto simp: plain_name_def)
  ultimately show ?thesis
    by (auto simp: p boost_remove_filename_def abs_path_def)
qed

lemma boost_path_laws: "path_laws boost_path_ops"
proof -
  have "boost_elems e = boost_elems e' \<longleftrightarrow> e = e'" if "path_elem e" "path_elem e'" for e e'
    using that by (simp add: boost_elems_elem_self)
  moreover have "boost_elems (abs_path ns) = boost_elems ''/'' \<longleftrightarrow> ns = []" if "list_all plain_name ns" for ns
    using that by (simp add: boost_elems_abs_path boost_elems_root)
  moreover have "boost_append (abs_path ns) ''/'' = abs_path ns @ ''/''"
    if "list_all plain_name ns" "ns \<noteq> []" for ns
    using concat_names_last [OF that] that(2) by (simp add: boost_append_def)
  ultimately show ?thesis
    unfolding path_laws_def boost_path_ops_def
    by (simp add: boost_elems_elem boost_append_name boost_remove_filename_name)
      (simp add: boost_remove_filename_def)
qed

theorem lexical_normalize_resolves_witness:
  "lexical_normalize boost_path_ops ''/a/./b/../c'' True = ''/a/c/''"
proof -
  have es: "boost_elems ''/a/./b/../c'' = [''/'', ''a'', ''.'', ''b'', ''..'', ''c'']"
    by (simp add: boost_elems_def rooted_elems_def trailing_dot_def)
  have "\<not> po_eq boost_path_ops ''/a/./b/../c'' ''/''"
    by (simp add: boost_path_ops_def es boost_elems_root)
  from lexical_normalize_resolves [OF boost_path_laws _ this, of True]
  show ?thesis
    by (simp add: boost_path_ops_def es resolve_def resolve_step_def abs_path_def)
qed

theorem lexical_normalize_contained_witness:
  "\<exists>ns. list_all plain_name ns \<and> ''..'' \<notin> set ns \<and> ''.'' \<notin> set ns \<and>
    (lexical_normalize boost_path_ops ''../../etc'' False = abs_path ns \<or>
     lexical_normalize boost_path_ops ''../../etc'' False = abs_path ns @ ''/'')"
proof -
  have es: "po_elems boost_path_ops ''../../etc'' = [''..'', ''..'', ''etc'']"
    by (simp add: boost_path_ops_def boost_elems_def rooted_elems_def trailing_dot_def)
  show ?thesis
    by (rule lexical_normalize_contained [OF boost_path_laws]) (simp_all add: es)
qed

text \<open>
  The exception is real: the path \<^verbatim>\<open>//../x\<close> normalises to \<^verbatim>\<open>/../x\<close>. The code takes the text
  after the two slashes of a root name for an ordinary name, so a ".." hidden there survives, and
  the path appended to a mount point names a file next to the namespace and not inside it.
\<close>

theorem lexical_normalize_escapes:
  "lexical_normalize boost_path_ops ''//../x'' as_dir = ''/../x'' @ (if as_dir then ''/'' else [])"
proof -
  have es: "boost_elems ''//../x'' = [''//..'', ''/'', ''x'']"
    by (simp add: boost_elems_def rooted_elems_def trailing_dot_def)
  have "\<not> po_eq boost_path_ops ''//../x'' ''/''"
    by (simp add: boost_path_ops_def es boost_elems_root)
  from normalize_is_resolve [OF boost_path_laws _ this, of as_dir]
  show ?thesis
    by (simp add: boost_path_ops_def es resolve_def resolve_step_def abs_path_def)
qed

text \<open>The separator helpers undo what they name, once.\<close>

lemma remove_trailing_separator_snoc [simp]:
  "remove_trailing_separator (p @ ''/'') = p"
  by (simp add: remove_trailing_separator_def)

lemma remove_leading_separator_Cons [simp]:
  "remove_leading_separator (CHR ''/'' # p) = p"
  by (simp add: remove_leading_separator_def)

end
