(* ===== verification/Resources.thy ===== *)
theory Resources
  imports Path_Normalize
begin

text \<open>
  Data resources: the descriptions a request carries (\<^verbatim>\<open>data::resource_info\<close> and its five
  subclasses under \<^verbatim>\<open>src/resources\<close>), the storage backends as objects (their data; the
  operations are in the theory of the backends), and the resources a backend hands out
  (\<^verbatim>\<open>data::resource\<close> and its subclasses), each of which keeps its parent backend.
\<close>

section \<open>Descriptions of resources\<close>

text \<open>
  A \<^verbatim>\<open>hermes::exposed_memory\<close> is an opaque handle of the network library; its members
  \<^verbatim>\<open>count\<close> and \<^verbatim>\<open>size\<close> are parameters where the code calls them.
\<close>

type_synonym exposed_memory = nat

datatype resource_info =
    Memory_region_info u64 u64                              \<comment> \<open>address, size\<close>
  | Local_path_info string string                           \<comment> \<open>nsid, datapath\<close>
  | Shared_path_info string string                          \<comment> \<open>nsid, datapath\<close>
  | Remote_path_info string string string                   \<comment> \<open>nsid, hostname, datapath\<close>
  | Remote_resource_info string string bool string "exposed_memory option"
      \<comment> \<open>address, nsid, is\_collection, name, buffers\<close>

fun rinfo_type :: "resource_info \<Rightarrow> resource_type" where
  "rinfo_type (Memory_region_info _ _) = RT_memory_region"
| "rinfo_type (Local_path_info _ _) = RT_local_posix_path"
| "rinfo_type (Shared_path_info _ _) = RT_shared_posix_path"
| "rinfo_type (Remote_path_info _ _ _) = RT_remote_posix_path"
| "rinfo_type (Remote_resource_info _ _ _ _ _) = RT_remote_resource"

definition internal_memory_nsid :: string where
  "internal_memory_nsid = ''[[internal::memory]]''"

fun rinfo_nsid :: "resource_info \<Rightarrow> string" where
  "rinfo_nsid (Memory_region_info _ _) = internal_memory_nsid"
| "rinfo_nsid (Local_path_info nsid _) = nsid"
| "rinfo_nsid (Shared_path_info nsid _) = nsid"
| "rinfo_nsid (Remote_path_info nsid _ _) = nsid"
| "rinfo_nsid (Remote_resource_info _ nsid _ _ _) = nsid"

fun rinfo_is_remote :: "resource_info \<Rightarrow> bool" where
  "rinfo_is_remote (Memory_region_info _ _) = False"
| "rinfo_is_remote (Local_path_info _ _) = False"
| "rinfo_is_remote (Shared_path_info _ _) = False"
| "rinfo_is_remote (Remote_path_info _ _ _) = True"
| "rinfo_is_remote (Remote_resource_info _ _ _ _ _) = True"

text \<open>
  \<^verbatim>\<open>std::static_pointer_cast<data::local_path_info>\<close> followed by \<^verbatim>\<open>datapath()\<close>. The classes
  \<^verbatim>\<open>local_path_info\<close> and \<^verbatim>\<open>shared_path_info\<close> have the same two string members in the same order; a
  description of another class is not one, and using it as such is undefined.
\<close>

fun as_path_info :: "resource_info \<Rightarrow> string outcome" where
  "as_path_info (Local_path_info _ datapath) = Inr datapath"
| "as_path_info (Shared_path_info _ datapath) = Inr datapath"
| "as_path_info _ = Inl Bad_Cast"

fun as_memory_region_info :: "resource_info \<Rightarrow> (u64 \<times> u64) outcome" where
  "as_memory_region_info (Memory_region_info a s) = Inr (a, s)"
| "as_memory_region_info _ = Inl Bad_Cast"

fun as_remote_resource_info ::
  "resource_info \<Rightarrow> (string \<times> string \<times> bool \<times> string \<times> exposed_memory option) outcome" where
  "as_remote_resource_info (Remote_resource_info a n c nm b) = Inr (a, n, c, nm, b)"
| "as_remote_resource_info _ = Inl Bad_Cast"

section \<open>Backends as objects\<close>

datatype backend =
    Posix_filesystem string bool string u32     \<comment> \<open>nsid, track, mount, quota\<close>
  | Nvml_dax string bool string u32
  | Lustre string bool string u32
  | Process_memory string                       \<comment> \<open>nsid\<close>
  | Remote_backend string                       \<comment> \<open>nsid\<close>

fun backend_nsid :: "backend \<Rightarrow> string" where
  "backend_nsid (Posix_filesystem nsid _ _ _) = nsid"
| "backend_nsid (Nvml_dax nsid _ _ _) = nsid"
| "backend_nsid (Lustre nsid _ _ _) = nsid"
| "backend_nsid (Process_memory nsid) = nsid"
| "backend_nsid (Remote_backend nsid) = nsid"

fun is_tracked :: "backend \<Rightarrow> bool" where
  "is_tracked (Posix_filesystem _ track _ _) = track"
| "is_tracked (Nvml_dax _ track _ _) = track"
| "is_tracked (Lustre _ track _ _) = track"
| "is_tracked (Process_memory _) = False"
| "is_tracked (Remote_backend _) = False"

fun backend_mount :: "backend \<Rightarrow> string" where
  "backend_mount (Posix_filesystem _ _ mount _) = mount"
| "backend_mount (Nvml_dax _ _ mount _) = mount"
| "backend_mount (Lustre _ _ mount _) = mount"
| "backend_mount (Process_memory _) = []"
| "backend_mount (Remote_backend _) = []"

fun backend_quota :: "backend \<Rightarrow> u32" where
  "backend_quota (Posix_filesystem _ _ _ quota) = quota"
| "backend_quota (Nvml_dax _ _ _ quota) = quota"
| "backend_quota (Lustre _ _ _ quota) = quota"
| "backend_quota (Process_memory _) = 0"
| "backend_quota (Remote_backend _) = 0"

section \<open>Resources\<close>

datatype resource =
    Memory_region_resource backend u64 u64
      \<comment> \<open>parent, address, size\<close>
  | Local_path_resource backend string string bool
      \<comment> \<open>parent, name in the namespace, canonical path, is\_collection\<close>
  | Remote_resource backend string string string "exposed_memory option" bool
      \<comment> \<open>parent, name, address, nsid, buffers, is\_collection\<close>

fun rsrc_type :: "resource \<Rightarrow> resource_type" where
  "rsrc_type (Memory_region_resource _ _ _) = RT_memory_region"
| "rsrc_type (Local_path_resource _ _ _ _) = RT_local_posix_path"
| "rsrc_type (Remote_resource _ _ _ _ _ _) = RT_remote_resource"

fun rsrc_name :: "resource \<Rightarrow> string" where
  "rsrc_name (Memory_region_resource _ _ _) = []"
| "rsrc_name (Local_path_resource _ name _ _) = name"
| "rsrc_name (Remote_resource _ name _ _ _ _) = name"

fun is_collection :: "resource \<Rightarrow> bool" where
  "is_collection (Memory_region_resource _ _ _) = False"
| "is_collection (Local_path_resource _ _ _ c) = c"
| "is_collection (Remote_resource _ _ _ _ _ c) = c"

fun rsrc_parent :: "resource \<Rightarrow> backend" where
  "rsrc_parent (Memory_region_resource b _ _) = b"
| "rsrc_parent (Local_path_resource b _ _ _) = b"
| "rsrc_parent (Remote_resource b _ _ _ _ _) = b"

text \<open>The constructor of \<^verbatim>\<open>remote_resource\<close> copies the description.\<close>

definition make_remote_resource :: "backend \<Rightarrow> resource_info \<Rightarrow> resource outcome" where
  "make_remote_resource parent rinfo =
     obind (as_remote_resource_info rinfo) (\<lambda>(address, nsid, coll, name, buffers).
       Inr (Remote_resource parent name address nsid buffers coll))"

end
