(* ===== verification/Backends.thy ===== *)
theory Backends
  imports Resources
begin

text \<open>
  The operations of the storage backends under \<^verbatim>\<open>src/backends\<close> and the backend factory. The file
  system is the world \<open>'w\<close>; the functions of Boost.Filesystem the code calls on it are the parameters \<open>fs_env\<close>.
\<close>

record 'w fs_env =
  fs_path :: path_ops
  bfs_parent_path :: "string \<Rightarrow> string"
  bfs_canonical :: "'w \<Rightarrow> string \<Rightarrow> error_code \<times> string"
  bfs_relative :: "'w \<Rightarrow> string \<Rightarrow> string \<Rightarrow> string"
  bfs_is_directory :: "'w \<Rightarrow> string \<Rightarrow> bool"
  bfs_is_symlink :: "'w \<Rightarrow> string \<Rightarrow> bool"
  bfs_is_regular :: "'w \<Rightarrow> string \<Rightarrow> bool"
  bfs_exists :: "'w \<Rightarrow> string \<Rightarrow> error_code \<times> bool"
  bfs_file_size :: "'w \<Rightarrow> string \<Rightarrow> error_code \<times> u64"
  bfs_walk :: "'w \<Rightarrow> string \<Rightarrow> error_code \<times> string list"
    \<comment> \<open>what a recursive directory iterator visits; with an error it is the end iterator\<close>
  bfs_create_directories :: "string \<Rightarrow> 'w \<Rightarrow> error_code \<times> 'w"
  bfs_remove_all :: "string \<Rightarrow> 'w \<Rightarrow> error_code \<times> 'w"

abbreviation path_join :: "('w, 'e) fs_env_scheme \<Rightarrow> string \<Rightarrow> string \<Rightarrow> string" where
  "path_join env \<equiv> po_append (fs_path env)"

section \<open>Creating local resources\<close>

definition make_local_path_resource :: "('w, 'e) fs_env_scheme \<Rightarrow> 'w \<Rightarrow> backend \<Rightarrow> string \<Rightarrow> resource" where
  "make_local_path_resource env w parent name =
     (let canonical_path = path_join env (backend_mount parent) name
      in Local_path_resource parent name canonical_path (bfs_is_directory env w canonical_path))"

text \<open>\<^verbatim>\<open>contains\<close>: is one of the components of the first path the second path?\<close>

definition path_contains :: "('w, 'e) fs_env_scheme \<Rightarrow> string \<Rightarrow> string \<Rightarrow> bool" where
  "path_contains env p1 p2 = list_ex (\<lambda>c. po_eq (fs_path env) c p2) (po_elems (fs_path env) p1)"

section \<open>The POSIX backend\<close>

text \<open>
  The error code is passed by reference: each operation takes its current value and returns the
  value it leaves. A null resource pointer is \<open>None\<close>.
\<close>

definition posix_new_resource ::
  "('w, 'e) fs_env_scheme \<Rightarrow> backend \<Rightarrow> resource_info \<Rightarrow> bool \<Rightarrow> error_code \<Rightarrow> 'w \<Rightarrow>
     (resource option \<times> error_code \<times> 'w) outcome" where
  "posix_new_resource env b rinfo coll ec w =
     obind (as_path_info rinfo) (\<lambda>datapath.
       let ns_subpath = lexical_normalize (fs_path env) datapath coll
       in if ns_subpath = [] then Inr (None, ENOENT, w)
          else
            let parents = bfs_parent_path env ns_subpath
            in if parents \<noteq> [] \<and> \<not> po_eq (fs_path env) parents ''/'' then
                 (case bfs_create_directories env (path_join env (backend_mount b) parents) w of
                    (error, w') \<Rightarrow>
                      if error \<noteq> 0 then Inr (None, error, w')
                      else Inr (Some (make_local_path_resource env w' b ns_subpath), ec, w'))
               else Inr (Some (make_local_path_resource env w b ns_subpath), ec, w))"

definition posix_get_resource ::
  "('w, 'e) fs_env_scheme \<Rightarrow> backend \<Rightarrow> resource_info \<Rightarrow> error_code \<Rightarrow> 'w \<Rightarrow> (resource option \<times> error_code) outcome" where
  "posix_get_resource env b rinfo ec w =
     obind (as_path_info rinfo) (\<lambda>datapath.
       let ns_subpath = lexical_normalize (fs_path env) datapath False
       in if ns_subpath = [] then Inr (None, ENOENT)
          else case bfs_canonical env w (path_join env (backend_mount b) ns_subpath) of
              (error, canonical_path) \<Rightarrow>
                if error \<noteq> 0 then Inr (None, error)
                else
                  let ns_abs_subpath =
                        path_join env
                          (path_join env ''/'' (bfs_relative env w canonical_path (backend_mount b)))
                          (if bfs_is_directory env w canonical_path then ''/'' else [])
                  in if path_contains env ns_abs_subpath ''..'' then Inr (None, ENOENT)
                     else Inr (Some (make_local_path_resource env w b ns_abs_subpath), 0))"

definition posix_remove ::
  "('w, 'e) fs_env_scheme \<Rightarrow> backend \<Rightarrow> resource_info \<Rightarrow> error_code \<Rightarrow> 'w \<Rightarrow> (error_code \<times> 'w) outcome" where
  "posix_remove env b rinfo ec w =
     obind (as_path_info rinfo) (\<lambda>datapath.
       let ns_subpath = lexical_normalize (fs_path env) datapath False
       in if ns_subpath = [] then Inr (ENOENT, w)
          else
            let p = path_join env (backend_mount b) ns_subpath;
                (error, canonical_path) =
                  (if \<not> bfs_is_symlink env w p then bfs_canonical env w p
                   else (fst (bfs_exists env w p), p))
            in if error \<noteq> 0 then Inr (error, w)
               else (case bfs_remove_all env canonical_path w of
                       (error', w') \<Rightarrow> Inr (if error' \<noteq> 0 then error' else ec, w')))"

text \<open>
  The sum over the entries of a directory calls the throwing overload of \<^verbatim>\<open>file_size\<close>; the size of
  a file the non-throwing one.
\<close>

fun sum_regular :: "('w, 'e) fs_env_scheme \<Rightarrow> 'w \<Rightarrow> string list \<Rightarrow> u64 \<Rightarrow> u64 outcome" where
  "sum_regular env w [] bytes = Inr bytes"
| "sum_regular env w (p # ps) bytes =
     (if \<not> bfs_is_regular env w p then sum_regular env w ps bytes
      else case bfs_file_size env w p of
          (error, sz) \<Rightarrow>
            if error \<noteq> 0 then Inl (Uncaught_Exception ''filesystem_error'')
            else sum_regular env w ps (bytes + sz))"

definition posix_get_size ::
  "('w, 'e) fs_env_scheme \<Rightarrow> backend \<Rightarrow> resource_info \<Rightarrow> error_code \<Rightarrow> 'w \<Rightarrow> (u64 \<times> error_code) outcome" where
  "posix_get_size env b rinfo ec w =
     obind (as_path_info rinfo) (\<lambda>datapath.
       let ns_subpath = lexical_normalize (fs_path env) datapath False
       in if ns_subpath = [] then Inr (0, ENOENT)
          else case bfs_canonical env w (path_join env (backend_mount b) ns_subpath) of
              (error, canonical_path) \<Rightarrow>
                if error \<noteq> 0 then Inr (0, error)
                else if bfs_is_directory env w canonical_path then
                  (case bfs_walk env w canonical_path of
                     (error', ps) \<Rightarrow>
                       if error' \<noteq> 0 then Inr (0, error')
                       else obind (sum_regular env w ps 0) (\<lambda>sz. Inr (sz, ec)))
                else (case bfs_file_size env w canonical_path of
                        (error', sz) \<Rightarrow> if error' \<noteq> 0 then Inr (0, error') else Inr (sz, ec)))"

definition posix_is_empty :: "('w, 'e) fs_env_scheme \<Rightarrow> backend \<Rightarrow> 'w \<Rightarrow> bool outcome" where
  "posix_is_empty env b w =
     (case bfs_walk env w (backend_mount b) of
        (error, ps) \<Rightarrow>
          if error \<noteq> 0 then Inl (Uncaught_Exception ''filesystem_error'') else Inr (ps = []))"

section \<open>The virtual operations\<close>

text \<open>The operations of the base class \<^verbatim>\<open>storage::backend\<close>, and the overrides of each class.\<close>

record 'w backend_ops =
  bo_is_empty :: "'w \<Rightarrow> bool outcome"
  bo_new_resource :: "resource_info \<Rightarrow> bool \<Rightarrow> error_code \<Rightarrow> 'w \<Rightarrow> (resource option \<times> error_code \<times> 'w) outcome"
  bo_get_resource :: "resource_info \<Rightarrow> error_code \<Rightarrow> 'w \<Rightarrow> (resource option \<times> error_code) outcome"
  bo_remove :: "resource_info \<Rightarrow> error_code \<Rightarrow> 'w \<Rightarrow> (error_code \<times> 'w) outcome"
  bo_get_size :: "resource_info \<Rightarrow> error_code \<Rightarrow> 'w \<Rightarrow> (u64 \<times> error_code) outcome"
  bo_accepts :: "resource_info \<Rightarrow> bool"

definition posix_filesystem_ops :: "('w, 'e) fs_env_scheme \<Rightarrow> backend \<Rightarrow> 'w backend_ops" where
  "posix_filesystem_ops env this =
     \<lparr>bo_is_empty = posix_is_empty env this,
      bo_new_resource = posix_new_resource env this,
      bo_get_resource = posix_get_resource env this,
      bo_remove = posix_remove env this,
      bo_get_size = posix_get_size env this,
      bo_accepts = (\<lambda>res. rinfo_type res = RT_local_posix_path)\<rparr>"

definition nvml_dax_ops :: "('w, 'e) fs_env_scheme \<Rightarrow> backend \<Rightarrow> 'w backend_ops" where
  "nvml_dax_ops env this =
     \<lparr>bo_is_empty = (\<lambda>w. Inr False),
      bo_new_resource = (\<lambda>rinfo coll ec w. Inr (Some (make_local_path_resource env w this []), ec, w)),
      bo_get_resource = (\<lambda>rinfo ec w. Inr (Some (make_local_path_resource env w this []), ec)),
      bo_remove = (\<lambda>rinfo ec w. Inr (ec, w)),
      bo_get_size = (\<lambda>rinfo ec w. Inr (0, ec)),
      bo_accepts = (\<lambda>res. rinfo_type res = RT_local_posix_path)\<rparr>"

definition lustre_ops :: "'w backend_ops" where
  "lustre_ops =
     \<lparr>bo_is_empty = (\<lambda>w. Inr False),
      bo_new_resource = (\<lambda>rinfo coll ec w. Inr (None, ec, w)),
      bo_get_resource = (\<lambda>rinfo ec w. Inr (None, ec)),
      bo_remove = (\<lambda>rinfo ec w. Inr (ec, w)),
      bo_get_size = (\<lambda>rinfo ec w. Inr (0, ec)),
      bo_accepts = (\<lambda>res. rinfo_type res \<in> {RT_local_posix_path, RT_shared_posix_path})\<rparr>"

definition process_memory_ops :: "backend \<Rightarrow> 'w backend_ops" where
  "process_memory_ops this =
     \<lparr>bo_is_empty = (\<lambda>w. Inr False),
      bo_new_resource = (\<lambda>rinfo coll ec w. Inr (None, ec, w)),
      bo_get_resource = (\<lambda>rinfo ec w.
        obind (as_memory_region_info rinfo) (\<lambda>(address, sz). Inr (Some (Memory_region_resource this address sz), 0))),
      bo_remove = (\<lambda>rinfo ec w. Inr (ec, w)),
      bo_get_size = (\<lambda>rinfo ec w. obind (as_memory_region_info rinfo) (\<lambda>(address, sz). Inr (sz, 0))),
      bo_accepts = (\<lambda>res. rinfo_type res = RT_memory_region)\<rparr>"

definition remote_backend_ops :: "backend \<Rightarrow> 'w backend_ops" where
  "remote_backend_ops this =
     \<lparr>bo_is_empty = (\<lambda>w. Inr False),
      bo_new_resource = (\<lambda>rinfo coll ec w. obind (make_remote_resource this rinfo) (\<lambda>r. Inr (Some r, ec, w))),
      bo_get_resource = (\<lambda>rinfo ec w. obind (make_remote_resource this rinfo) (\<lambda>r. Inr (Some r, ec))),
      bo_remove = (\<lambda>rinfo ec w. Inr (ec, w)),
      bo_get_size = (\<lambda>rinfo ec w. Inr (0, ec)),
      bo_accepts = (\<lambda>res. rinfo_type res = RT_local_posix_path)\<rparr>"

fun virtual_ops :: "('w, 'e) fs_env_scheme \<Rightarrow> backend \<Rightarrow> 'w backend_ops" where
  "virtual_ops env (Posix_filesystem n t m q) = posix_filesystem_ops env (Posix_filesystem n t m q)"
| "virtual_ops env (Nvml_dax n t m q) = nvml_dax_ops env (Nvml_dax n t m q)"
| "virtual_ops env (Lustre n t m q) = lustre_ops"
| "virtual_ops env (Process_memory n) = process_memory_ops (Process_memory n)"
| "virtual_ops env (Remote_backend n) = remote_backend_ops (Remote_backend n)"

lemmas backend_class_ops [simp] = posix_filesystem_ops_def nvml_dax_ops_def lustre_ops_def process_memory_ops_def
  remote_backend_ops_def

text \<open>The calls through a pointer to the base class.\<close>

abbreviation new_resource ::
  "('w, 'e) fs_env_scheme \<Rightarrow> backend \<Rightarrow> resource_info \<Rightarrow> bool \<Rightarrow> error_code \<Rightarrow> 'w \<Rightarrow>
     (resource option \<times> error_code \<times> 'w) outcome" where
  "new_resource env b \<equiv> bo_new_resource (virtual_ops env b)"

abbreviation get_resource ::
  "('w, 'e) fs_env_scheme \<Rightarrow> backend \<Rightarrow> resource_info \<Rightarrow> error_code \<Rightarrow> 'w \<Rightarrow> (resource option \<times> error_code) outcome" where
  "get_resource env b \<equiv> bo_get_resource (virtual_ops env b)"

abbreviation backend_remove ::
  "('w, 'e) fs_env_scheme \<Rightarrow> backend \<Rightarrow> resource_info \<Rightarrow> error_code \<Rightarrow> 'w \<Rightarrow> (error_code \<times> 'w) outcome" where
  "backend_remove env b \<equiv> bo_remove (virtual_ops env b)"

abbreviation get_size ::
  "('w, 'e) fs_env_scheme \<Rightarrow> backend \<Rightarrow> resource_info \<Rightarrow> error_code \<Rightarrow> 'w \<Rightarrow> (u64 \<times> error_code) outcome" where
  "get_size env b \<equiv> bo_get_size (virtual_ops env b)"

abbreviation is_empty_backend :: "('w, 'e) fs_env_scheme \<Rightarrow> backend \<Rightarrow> 'w \<Rightarrow> bool outcome" where
  "is_empty_backend env b \<equiv> bo_is_empty (virtual_ops env b)"

abbreviation backend_accepts :: "('w, 'e) fs_env_scheme \<Rightarrow> backend \<Rightarrow> resource_info \<Rightarrow> bool" where
  "backend_accepts env b \<equiv> bo_accepts (virtual_ops env b)"

section \<open>The backend factory\<close>

record factory =
  m_registrar :: "backend_type list"
  m_aliases :: "(string, backend_type) umap"

text \<open>
  \<^verbatim>\<open>register_backend\<close> throws when the type is taken, \<^verbatim>\<open>register_alias\<close> when its type is unknown; an
  alias that exists already is kept as it is (\<^verbatim>\<open>emplace\<close>).
\<close>

definition register_backend :: "backend_type \<Rightarrow> factory \<Rightarrow> factory outcome" where
  "register_backend type f =
     (if type \<in> set (m_registrar f) then Inl (Uncaught_Exception ''invalid_argument'')
      else Inr (f\<lparr>m_registrar := type # m_registrar f\<rparr>))"

definition register_alias :: "string \<Rightarrow> backend_type \<Rightarrow> factory \<Rightarrow> factory outcome" where
  "register_alias alias type f =
     (if type \<notin> set (m_registrar f) then Inl (Uncaught_Exception ''invalid_argument'')
      else Inr (f\<lparr>m_aliases := um_emplace alias type (m_aliases f)\<rparr>))"

definition factory_get_type :: "factory \<Rightarrow> string \<Rightarrow> backend_type" where
  "factory_get_type f alias =
     (case um_find (m_aliases f) alias of None \<Rightarrow> BT_unknown | Some t \<Rightarrow> t)"

text \<open>The creator functions \<^verbatim>\<open>urd::load_backend_plugins\<close> registers.\<close>

fun make_backend :: "backend_type \<Rightarrow> string \<Rightarrow> bool \<Rightarrow> string \<Rightarrow> u32 \<Rightarrow> backend option" where
  "make_backend BT_posix_filesystem nsid track mount quota = Some (Posix_filesystem nsid track mount quota)"
| "make_backend BT_nvml nsid track mount quota = Some (Nvml_dax nsid track mount quota)"
| "make_backend BT_lustre nsid track mount quota = Some (Lustre nsid track mount quota)"
| "make_backend _ nsid track mount quota = None"

text \<open>\<^verbatim>\<open>create_from\<close>: \<^verbatim>\<open>create\<close> with its \<^verbatim>\<open>invalid_argument\<close> turned into a null pointer.\<close>

definition create_from ::
  "('w, 'e) fs_env_scheme \<Rightarrow> 'w \<Rightarrow> factory \<Rightarrow> backend_type \<Rightarrow> string \<Rightarrow> bool \<Rightarrow> string \<Rightarrow> u32 \<Rightarrow> backend option" where
  "create_from env w f type nsid track mount quota =
     (case bfs_canonical env w mount of
        (ec, canonical_mount) \<Rightarrow>
          if ec \<noteq> 0 then None
          else if type \<in> set (m_registrar f) then make_backend type nsid track canonical_mount quota
          else None)"

definition load_backend_plugins :: "factory \<Rightarrow> factory outcome" where
  "load_backend_plugins f =
     obind (register_backend BT_posix_filesystem f) (\<lambda>f.
     obind (register_alias ''POSIX/LOCAL'' BT_posix_filesystem f) (\<lambda>f.
     obind (register_alias ''POSIX/SHARED'' BT_posix_filesystem f) (\<lambda>f.
     obind (register_backend BT_nvml f) (\<lambda>f.
     obind (register_alias ''NVML'' BT_nvml f) (\<lambda>f.
     obind (register_backend BT_lustre f) (\<lambda>f.
     register_alias ''Lustre'' BT_lustre f))))))"

end
