(* ===== verification/Namespaces.thy ===== *)
theory Namespaces
  imports Backends
begin

text \<open>
  The namespace manager of \<^verbatim>\<open>src/namespaces/namespace-manager.hpp\<close>: the table from namespace names
  to backends, with the lookup of several names at once that a task needs.
\<close>

type_synonym namespace_manager = "(string, backend) umap"

definition namespace_add :: "string \<Rightarrow> backend \<Rightarrow> namespace_manager \<Rightarrow> bool \<times> namespace_manager" where
  "namespace_add nsid bptr m_namespaces =
     (if um_count m_namespaces nsid \<noteq> 0 then (False, m_namespaces)
      else (True, um_emplace nsid bptr m_namespaces))"

definition namespace_remove :: "string \<Rightarrow> namespace_manager \<Rightarrow> bool \<times> namespace_manager" where
  "namespace_remove nsid m_namespaces =
     (case um_find m_namespaces nsid of
        None \<Rightarrow> (False, m_namespaces)
      | Some _ \<Rightarrow> (True, um_erase nsid m_namespaces))"

definition namespace_contains :: "namespace_manager \<Rightarrow> string \<Rightarrow> bool" where
  "namespace_contains m_namespaces nsid \<longleftrightarrow> um_count m_namespaces nsid \<noteq> 0"

text \<open>A remote namespace is not looked up: a fresh \<^verbatim>\<open>remote_backend\<close> stands for it.\<close>

definition namespace_find :: "namespace_manager \<Rightarrow> string \<Rightarrow> bool \<Rightarrow> backend option" where
  "namespace_find m_namespaces nsid is_remote =
     (if is_remote then Some (Remote_backend nsid)
      else if um_count m_namespaces nsid = 0 then None
      else um_find m_namespaces nsid)"

fun find_all_from :: "namespace_manager \<Rightarrow> (string \<times> bool) list \<Rightarrow> bool \<Rightarrow> backend option list \<Rightarrow> bool \<times> backend option list" where
  "find_all_from m [] all_found v = (all_found, v)"
| "find_all_from m ((nsid, remote) # rest) all_found v =
     (let b = namespace_find m nsid remote
      in find_all_from m rest (if b = None then False else all_found) (v @ [b]))"

definition namespace_find_all ::
  "namespace_manager \<Rightarrow> string list \<Rightarrow> bool list \<Rightarrow> (bool \<times> backend option list) outcome" where
  "namespace_find_all m nsids remotes =
     obind (assert_ok (length nsids = length remotes)) (\<lambda>_.
       Inr (find_all_from m (zip nsids remotes) True []))"

definition namespace_count_if :: "(backend \<Rightarrow> bool) \<Rightarrow> namespace_manager \<Rightarrow> nat" where
  "namespace_count_if p m_namespaces = um_count_if p m_namespaces"

section \<open>The table contract\<close>

lemma namespace_find_local [simp]: "namespace_find m nsid False = um_find m nsid"
  by (simp add: namespace_find_def)

interpretation namespaces: erasable_registry namespace_add "\<lambda>m nsid. namespace_find m nsid False" um_wf namespace_remove
  by unfold_locales
    (auto simp: namespace_add_def namespace_remove_def fun_eq_iff split: option.splits)

text \<open>
  C35. The namespace manager is a partial map: for every sequence of additions and removals from the
  empty manager, the answers are those of the abstract table (an addition is accepted exactly when
  the name is free, a removal exactly when it is there), and afterwards a lookup of a local name
  gives what the abstract table holds.
\<close>

theorem namespace_manager_refines:
  "table_spec_run ops Map.empty =
     (fst (table_run namespace_add namespace_remove ops []),
      \<lambda>nsid. namespace_find (snd (table_run namespace_add namespace_remove ops [])) nsid False)"
  using namespaces.run_refines [of "[]" ops] by (cases "table_run namespace_add namespace_remove ops []") auto

section \<open>Lookup of several names\<close>

lemma find_all_from_result:
  "find_all_from m nrs ok v =
     (ok \<and> (\<forall>(n, r) \<in> set nrs. namespace_find m n r \<noteq> None),
      v @ map (\<lambda>(n, r). namespace_find m n r) nrs)"
  by (induction m nrs ok v rule: find_all_from.induct) (auto simp: Let_def)

lemma namespace_find_all_eq:
  "length nsids = length remotes \<Longrightarrow>
     namespace_find_all m nsids remotes =
       Inr (\<forall>(n, r) \<in> set (zip nsids remotes). namespace_find m n r \<noteq> None,
            map (\<lambda>(n, r). namespace_find m n r) (zip nsids remotes))"
  by (simp add: namespace_find_all_def find_all_from_result)

text \<open>
  Looking up a list of names answers true exactly when every local name is registered, and then
  the list it returns holds the registered backend of each local name and a remote backend of that
  name for each remote one, in order, with no null pointer.
\<close>

theorem namespace_find_all_found:
  assumes "namespace_find_all m nsids remotes = Inr (all_found, bs)"
  shows "length bs = length nsids \<and>
    (all_found \<longleftrightarrow> (\<forall>i < length nsids. remotes ! i \<or> namespace_contains m (nsids ! i))) \<and>
    (all_found \<longrightarrow> None \<notin> set bs \<and>
      (\<forall>i < length nsids. bs ! i = (if remotes ! i then Some (Remote_backend (nsids ! i))
                                    else um_find m (nsids ! i))))"
proof -
  have len: "length nsids = length remotes"
    using assms by (auto simp: namespace_find_all_def outcome_simps)
  have ball: "(\<forall>(n, r) \<in> set (zip nsids remotes). P n r) \<longleftrightarrow> (\<forall>i < length nsids. P (nsids ! i) (remotes ! i))" for P
    using len by (auto simp: set_zip)
  have bs: "bs = map (\<lambda>(n, r). namespace_find m n r) (zip nsids remotes)"
    and all: "all_found \<longleftrightarrow> (\<forall>i < length nsids. namespace_find m (nsids ! i) (remotes ! i) \<noteq> None)"
    using assms len by (simp_all add: namespace_find_all_eq ball)
  have nth: "bs ! i = namespace_find m (nsids ! i) (remotes ! i)" if "i < length nsids" for i
    using that len by (simp add: bs)
  have iff: "namespace_find m n r \<noteq> None \<longleftrightarrow> r \<or> namespace_contains m n" for n r
    by (simp add: namespace_find_def namespace_contains_def)
  have "None \<notin> set bs" if all_found
  proof
    assume "None \<in> set bs"
    then obtain i where "i < length nsids" and "bs ! i = None"
      using len by (auto simp: in_set_conv_nth bs)
    then show False using that all nth by fastforce
  qed
  moreover have "length bs = length nsids" using len by (simp add: bs)
  moreover have "bs ! i = (if remotes ! i then Some (Remote_backend (nsids ! i)) else um_find m (nsids ! i))"
    if "i < length nsids" for i
    using nth [OF that] by (simp add: namespace_find_def)
  ultimately show ?thesis using all iff by simp
qed

definition sample_namespaces :: namespace_manager where
  "sample_namespaces =
     [(''lustre'', Lustre ''lustre'' False ''/lustre'' 0), (internal_memory_nsid, Process_memory internal_memory_nsid)]"

theorem namespace_find_all_found_witness:
  "None \<notin> set [um_find sample_namespaces ''lustre'', Some (Remote_backend ''nvml'')]"
  using namespace_find_all_found
    [of sample_namespaces "[''lustre'', ''nvml'']" "[False, True]" True
      "[um_find sample_namespaces ''lustre'', Some (Remote_backend ''nvml'')]"]
  by (simp add: namespace_find_all_def namespace_find_def sample_namespaces_def)

end
