(* ===== verification/Jobs.thy ===== *)
theory Jobs
  imports Norns_Types
begin

text \<open>
  Jobs and their processes: \<^verbatim>\<open>src/job.hpp\<close>, and the table \<^verbatim>\<open>m_jobs\<close> of the daemon as the handlers of
  \<^verbatim>\<open>src/urd.cpp\<close> use it.
\<close>

type_synonym process_key = "int \<times> u32"     \<comment> \<open>\<^verbatim>\<open>pid_t\<close>, \<^verbatim>\<open>gid_t\<close>\<close>

record job =
  m_jobid :: u32
  m_hosts :: "string list"
  m_processes :: "(process_key, unit) umap"

definition make_job :: "u32 \<Rightarrow> string list \<Rightarrow> job" where
  "make_job jobid hosts = \<lparr>m_jobid = jobid, m_hosts = hosts, m_processes = []\<rparr>"

definition job_update :: "string list \<Rightarrow> job \<Rightarrow> job" where
  "job_update hosts j = j\<lparr>m_hosts := hosts\<rparr>"

definition add_process :: "int \<Rightarrow> u32 \<Rightarrow> job \<Rightarrow> job" where
  "add_process pid gid j =
     (let key = (pid, gid)
      in case um_find (m_processes j) key of
           None \<Rightarrow> j\<lparr>m_processes := um_emplace key () (m_processes j)\<rparr>
         | Some _ \<Rightarrow> j)"

definition find_and_remove_process :: "int \<Rightarrow> u32 \<Rightarrow> job \<Rightarrow> bool \<times> job" where
  "find_and_remove_process pid gid j =
     (let key = (pid, gid)
      in case um_find (m_processes j) key of
           None \<Rightarrow> (False, j)
         | Some _ \<Rightarrow> (True, j\<lparr>m_processes := um_erase key (m_processes j)\<rparr>))"

section \<open>The table of jobs\<close>

type_synonym jobs = "(u32, job) umap"

definition register_job :: "u32 \<Rightarrow> string list \<Rightarrow> jobs \<Rightarrow> urd_error \<times> jobs" where
  "register_job jobid hosts m_jobs =
     (if um_find m_jobs jobid \<noteq> None then (UE_job_exists, m_jobs)
      else (UE_success, um_emplace jobid (make_job jobid hosts) m_jobs))"

definition update_job :: "u32 \<Rightarrow> string list \<Rightarrow> jobs \<Rightarrow> urd_error \<times> jobs" where
  "update_job jobid hosts m_jobs =
     (case um_find m_jobs jobid of
        None \<Rightarrow> (UE_no_such_job, m_jobs)
      | Some _ \<Rightarrow> (UE_success, um_update jobid (job_update hosts) m_jobs))"

definition unregister_job :: "u32 \<Rightarrow> jobs \<Rightarrow> urd_error \<times> jobs" where
  "unregister_job jobid m_jobs =
     (case um_find m_jobs jobid of
        None \<Rightarrow> (UE_no_such_job, m_jobs)
      | Some _ \<Rightarrow> (UE_success, um_erase jobid m_jobs))"

definition register_process :: "u32 \<Rightarrow> u32 \<Rightarrow> int \<Rightarrow> jobs \<Rightarrow> urd_error \<times> jobs" where
  "register_process jobid gid pid m_jobs =
     (case um_find m_jobs jobid of
        None \<Rightarrow> (UE_no_such_job, m_jobs)
      | Some _ \<Rightarrow> (UE_success, um_update jobid (add_process pid gid) m_jobs))"

definition unregister_process :: "u32 \<Rightarrow> u32 \<Rightarrow> int \<Rightarrow> jobs \<Rightarrow> urd_error \<times> jobs" where
  "unregister_process jobid gid pid m_jobs =
     (case um_find m_jobs jobid of
        None \<Rightarrow> (UE_no_such_job, m_jobs)
      | Some j \<Rightarrow>
          (case find_and_remove_process pid gid j of
             (True, j') \<Rightarrow> (UE_success, um_update jobid (\<lambda>_. j') m_jobs)
           | (False, j') \<Rightarrow> (UE_no_such_process, m_jobs)))"

datatype job_op =
    Job_Register u32 "string list"
  | Job_Update u32 "string list"
  | Job_Unregister u32
  | Process_Register u32 u32 int        \<comment> \<open>job, gid, pid\<close>
  | Process_Unregister u32 u32 int

fun job_exec :: "job_op \<Rightarrow> jobs \<Rightarrow> urd_error \<times> jobs" where
  "job_exec (Job_Register jobid hosts) = register_job jobid hosts"
| "job_exec (Job_Update jobid hosts) = update_job jobid hosts"
| "job_exec (Job_Unregister jobid) = unregister_job jobid"
| "job_exec (Process_Register jobid gid pid) = register_process jobid gid pid"
| "job_exec (Process_Unregister jobid gid pid) = unregister_process jobid gid pid"

section \<open>The abstract service\<close>

text \<open>A job is its list of hosts and its set of processes; the service a partial map of jobs.\<close>

type_synonym job_spec_state = "u32 \<rightharpoonup> string list \<times> process_key set"

fun job_spec :: "job_op \<Rightarrow> job_spec_state \<Rightarrow> urd_error \<times> job_spec_state" where
  "job_spec (Job_Register jobid hosts) m =
     (if m jobid = None then (UE_success, m(jobid \<mapsto> (hosts, {}))) else (UE_job_exists, m))"
| "job_spec (Job_Update jobid hosts) m =
     (case m jobid of None \<Rightarrow> (UE_no_such_job, m) | Some (_, ps) \<Rightarrow> (UE_success, m(jobid \<mapsto> (hosts, ps))))"
| "job_spec (Job_Unregister jobid) m =
     (if m jobid = None then (UE_no_such_job, m) else (UE_success, m(jobid := None)))"
| "job_spec (Process_Register jobid gid pid) m =
     (case m jobid of None \<Rightarrow> (UE_no_such_job, m)
      | Some (hs, ps) \<Rightarrow> (UE_success, m(jobid \<mapsto> (hs, insert (pid, gid) ps))))"
| "job_spec (Process_Unregister jobid gid pid) m =
     (case m jobid of None \<Rightarrow> (UE_no_such_job, m)
      | Some (hs, ps) \<Rightarrow>
          if (pid, gid) \<in> ps then (UE_success, m(jobid \<mapsto> (hs, ps - {(pid, gid)})))
          else (UE_no_such_process, m))"

definition job_abs :: "job \<Rightarrow> string list \<times> process_key set" where
  "job_abs j = (m_hosts j, {k. um_find (m_processes j) k \<noteq> None})"

definition jobs_abs :: "jobs \<Rightarrow> job_spec_state" where
  "jobs_abs js = (\<lambda>k. map_option job_abs (um_find js k))"

definition jobs_wf :: "jobs \<Rightarrow> bool" where
  "jobs_wf js \<longleftrightarrow> um_wf js \<and> (\<forall>k j. um_find js k = Some j \<longrightarrow> m_jobid j = k \<and> um_wf (m_processes j))"

section \<open>Refinement\<close>

lemma job_abs_ops [simp]:
  "job_abs (make_job jobid hosts) = (hosts, {})"
  "job_abs (job_update hosts j) = (hosts, snd (job_abs j))"
  "job_abs (add_process pid gid j) = (fst (job_abs j), insert (pid, gid) (snd (job_abs j)))"
  by (auto simp: job_abs_def make_job_def job_update_def add_process_def Let_def split: option.splits)

lemma job_abs_remove:
  "find_and_remove_process pid gid j = (b, j') \<Longrightarrow>
     (b \<longleftrightarrow> (pid, gid) \<in> snd (job_abs j)) \<and>
     job_abs j' = (fst (job_abs j), snd (job_abs j) - {(pid, gid)})"
  by (auto simp: job_abs_def find_and_remove_process_def Let_def split: option.splits if_splits)

lemma jobs_abs_ops [simp]:
  "jobs_abs js k = map_option job_abs (um_find js k)"
  "jobs_abs (um_erase k js) = (jobs_abs js)(k := None)"
  "um_find js k = None \<Longrightarrow> jobs_abs (um_emplace k j js) = (jobs_abs js)(k \<mapsto> job_abs j)"
  "um_find js k = Some j \<Longrightarrow> jobs_abs (um_update k f js) = (jobs_abs js)(k \<mapsto> job_abs (f j))"
  by (auto simp: jobs_abs_def fun_eq_iff)

lemma job_exec_refines: "(fst (job_exec op js), jobs_abs (snd (job_exec op js))) = job_spec op (jobs_abs js)"
proof (cases op)
  case (Process_Unregister jobid gid pid)
  show ?thesis
  proof (cases "um_find js jobid")
    case None
    then show ?thesis by (simp add: Process_Unregister unregister_process_def)
  next
    case (Some j)
    obtain b j' where r: "find_and_remove_process pid gid j = (b, j')" by fastforce
    show ?thesis
      using job_abs_remove [OF r] Some r
      by (cases b; cases "job_abs j") (auto simp: Process_Unregister unregister_process_def)
  qed
qed (auto simp: register_job_def update_job_def unregister_job_def register_process_def
    split: option.splits prod.splits)

text \<open>
  C36. The job and process handlers implement the abstract service on every branch: each returns the
  error code the specification gives (job\_exists, no\_such\_job, no\_such\_process or success) and
  leaves a table whose abstraction is the specification's next state. In particular registering a
  process twice is accepted and leaves one process.
\<close>

theorem job_handlers_refine:
  "(fst (job_exec op js), jobs_abs (snd (job_exec op js))) = job_spec op (jobs_abs js)"
  by (rule job_exec_refines)

section \<open>Well-formedness\<close>

lemma job_ops_wf:
  "m_jobid (job_update h j) = m_jobid j \<and> (um_wf (m_processes j) \<longrightarrow> um_wf (m_processes (job_update h j)))"
  "m_jobid (add_process p g j) = m_jobid j \<and> (um_wf (m_processes j) \<longrightarrow> um_wf (m_processes (add_process p g j)))"
  "find_and_remove_process p g j = (b, j') \<Longrightarrow>
     m_jobid j' = m_jobid j \<and> (um_wf (m_processes j) \<longrightarrow> um_wf (m_processes j'))"
  by (auto simp: job_update_def add_process_def find_and_remove_process_def Let_def split: option.splits)

lemma job_exec_wf: "jobs_wf js \<Longrightarrow> jobs_wf (snd (job_exec op js))"
  by (cases op)
    (auto simp: jobs_wf_def register_job_def update_job_def unregister_job_def register_process_def
      unregister_process_def make_job_def job_ops_wf
      split: option.splits prod.splits bool.splits if_splits dest: job_ops_wf(3))

end
