(* ===== verification/Packed_Size.thy ===== *)
theory Packed_Size
  imports Backends
begin

text \<open>
  The size of a resource once packed for a transfer: \<^verbatim>\<open>packed_size\<close> of the resource classes, and
  \<^verbatim>\<open>tar::estimate_size_once_packed\<close> with its alignment helpers (\<^verbatim>\<open>src/utils/tar-archive.cpp\<close>). The
  daemon reserves a temporary file of this size before it asks for the data.
\<close>

unbundle bit_operations_syntax

definition align :: "u64 \<Rightarrow> u64 \<Rightarrow> u64" where
  "align n block_size = n AND (NOT (block_size - 1))"

definition xalign :: "u64 \<Rightarrow> u64 \<Rightarrow> u64" where
  "xalign n block_size =
     (if n - align n block_size \<noteq> 0 then align n block_size + block_size else n)"

abbreviation TAR_BLOCK_SIZE :: u64 where "TAR_BLOCK_SIZE \<equiv> 512"

text \<open>
  The loop over the entries of a directory. An error of the iterator's constructor leaves it at the
  end, so that the loop does not run and the error goes unnoticed.
\<close>

fun packed_entries :: "('w, 'e) fs_env_scheme \<Rightarrow> 'w \<Rightarrow> string list \<Rightarrow> u64 \<Rightarrow> error_code \<times> u64" where
  "packed_entries env w [] sz = (0, sz)"
| "packed_entries env w (p # ps) sz =
     (if bfs_is_directory env w p then packed_entries env w ps (sz + TAR_BLOCK_SIZE)
      else if bfs_is_regular env w p \<or> bfs_is_symlink env w p then
        (case bfs_file_size env w p of
           (error, fsz) \<Rightarrow>
             if error \<noteq> 0 then (error, 0)
             else packed_entries env w ps (sz + (TAR_BLOCK_SIZE + xalign fsz TAR_BLOCK_SIZE)))
      else packed_entries env w ps sz)"

definition estimate_size_once_packed :: "('w, 'e) fs_env_scheme \<Rightarrow> 'w \<Rightarrow> string \<Rightarrow> (error_code \<times> u64) outcome" where
  "estimate_size_once_packed env w source_path =
     (if bfs_is_directory env w source_path then
        (let (error, ps) = bfs_walk env w source_path
         in case packed_entries env w (if error \<noteq> 0 then [] else ps) 0 of
              (ec, sz) \<Rightarrow> Inr (if ec \<noteq> 0 then (ec, 0) else (0, sz + TAR_BLOCK_SIZE + 2 * TAR_BLOCK_SIZE)))
      else (case bfs_file_size env w source_path of
              (error, fsz) \<Rightarrow>
                if error \<noteq> 0 then Inl (Uncaught_Exception ''filesystem_error'')
                else Inr (0, TAR_BLOCK_SIZE + xalign fsz TAR_BLOCK_SIZE + 2 * TAR_BLOCK_SIZE)))"

fun packed_size :: "('w, 'e) fs_env_scheme \<Rightarrow> 'w \<Rightarrow> resource \<Rightarrow> u64 outcome" where
  "packed_size env w (Memory_region_resource _ _ sz) = Inr sz"
| "packed_size env w (Local_path_resource _ _ canonical coll) =
     (if coll then
        obind (estimate_size_once_packed env w canonical) (\<lambda>(ec, sz). Inr (if ec \<noteq> 0 then 0 else sz))
      else (case bfs_file_size env w canonical of (error, sz) \<Rightarrow> Inr (if error \<noteq> 0 then 0 else sz)))"
| "packed_size env w (Remote_resource _ _ _ _ _ _) = Inr 0"

section \<open>Alignment\<close>

lemma align_512: "align n 512 = n - n mod 512"
proof -
  have m: "n mod 512 = n AND mask 9"
    using take_bit_eq_mod [of 9 n] by (simp add: take_bit_eq_mask)
  have "NOT n AND (n AND mask 9) = 0"
    by (rule bit_word_eqI) (simp add: bit_simps)
  then have "n - (n AND mask 9) = n AND NOT (n AND mask 9)"
    by (rule disjunctive_diff_eq_and_not)
  also have "\<dots> = n AND NOT (mask 9)"
    by (rule bit_word_eqI) (auto simp: bit_simps)
  also have "\<dots> = align n 512"
    by (simp add: align_def mask_eq_exp_minus_1)
  finally show ?thesis by (simp add: m)
qed

lemma unat_align_512: "unat (align n 512) = 512 * (unat n div 512)"
proof -
  have "unat (n mod 512) = unat n mod 512" by (simp add: unat_mod_distrib)
  moreover have "n mod 512 \<le> n" by (simp add: word_le_nat_alt unat_mod_distrib)
  ultimately have "unat (align n 512) = unat n - unat n mod 512"
    by (simp add: align_512 unat_sub)
  then show ?thesis by (simp add: minus_mod_eq_mult_div)
qed

lemma xalign_512:
  assumes "unat n + 512 \<le> 2 ^ 64"
  shows "unat (xalign n TAR_BLOCK_SIZE) = 512 * ((unat n + 511) div 512)"
proof (cases "n = align n 512")
  case True
  then have n: "unat n = 512 * (unat n div 512)" using unat_align_512 [of n] by simp
  then have "(unat n + 511) div 512 = unat n div 512" by linarith
  then show ?thesis using True n by (simp add: xalign_def)
next
  case False
  then have "unat n \<noteq> 512 * (unat n div 512)" by (metis unat_align_512 word_unat_eq_iff)
  then have up: "(unat n + 511) div 512 = unat n div 512 + 1" by linarith
  have "unat (align n 512) + unat (512 :: u64) < 2 ^ LENGTH(64)"
    using assms \<open>unat n \<noteq> 512 * (unat n div 512)\<close> by (simp add: unat_align_512)
  then have "unat (align n 512 + 512) = 512 * (unat n div 512) + 512"
    by (simp add: unat_add_lem [THEN iffD1] unat_align_512)
  then show ?thesis using False up by (simp add: xalign_def)
qed

text \<open>
  Alignment rounds up: unless it would pass the largest 64-bit value, \<^verbatim>\<open>xalign\<close> gives the smallest
  multiple of the tar block size that is not below its argument.
\<close>

theorem xalign_rounds_up:
  assumes "unat n + 512 \<le> 2 ^ 64"
  shows "unat (xalign n TAR_BLOCK_SIZE) = 512 * ((unat n + 511) div 512)"
  by (rule xalign_512 [OF assms])

theorem xalign_rounds_up_witness: "unat (xalign 513 TAR_BLOCK_SIZE) = 1024"
  using xalign_rounds_up [of 513] by simp

section \<open>The estimate\<close>

text \<open>The bytes of the archive of a directory: a header per entry, the data in whole blocks.\<close>

definition entry_blocks :: "('w, 'e) fs_env_scheme \<Rightarrow> 'w \<Rightarrow> string \<Rightarrow> nat" where
  "entry_blocks env w p =
     (if bfs_is_directory env w p then 1
      else if bfs_is_regular env w p \<or> bfs_is_symlink env w p
        then 1 + (unat (snd (bfs_file_size env w p)) + 511) div 512
      else 0)"

text \<open>The size of an entry that is not a directory can be read, and aligned without an overflow.\<close>

definition sizeable :: "('w, 'e) fs_env_scheme \<Rightarrow> 'w \<Rightarrow> string \<Rightarrow> bool" where
  "sizeable env w p \<longleftrightarrow>
     bfs_is_directory env w p \<or>
     fst (bfs_file_size env w p) = 0 \<and> unat (snd (bfs_file_size env w p)) + 512 \<le> 2 ^ 64"

lemma xalign_word:
  "unat n + 512 \<le> 2 ^ 64 \<Longrightarrow> xalign n TAR_BLOCK_SIZE = of_nat (512 * ((unat n + 511) div 512))"
  using arg_cong [OF xalign_512, of n "of_nat :: nat \<Rightarrow> u64"] by simp

lemma packed_entries_sum:
  assumes "\<forall>p \<in> set ps. sizeable env w p"
  shows "packed_entries env w ps sz = (0, sz + of_nat (512 * sum_list (map (entry_blocks env w) ps)))"
  using assms
proof (induction ps arbitrary: sz)
  case Nil
  then show ?case by simp
next
  case (Cons p ps)
  show ?case
  proof (cases "bfs_is_directory env w p")
    case True
    with Cons show ?thesis by (simp add: entry_blocks_def algebra_simps)
  next
    case False
    then obtain fsz where f: "bfs_file_size env w p = (0, fsz)" and small: "unat fsz + 512 \<le> 2 ^ 64"
      using Cons.prems by (cases "bfs_file_size env w p") (auto simp: sizeable_def)
    have "xalign fsz TAR_BLOCK_SIZE = 512 * of_nat ((unat fsz + 511) div 512)"
      by (subst xalign_word [OF small]) (simp only: of_nat_mult, simp)
    with False f Cons show ?thesis by (simp add: entry_blocks_def algebra_simps)
  qed
qed

lemma estimate_blocks:
  assumes "bfs_is_directory env w d" and "bfs_walk env w d = (0, ps)"
    and "\<forall>p \<in> set ps. sizeable env w p"
    and "512 * (sum_list (map (entry_blocks env w) ps) + 3) < 2 ^ 64"
  shows "\<exists>sz. estimate_size_once_packed env w d = Inr (0, sz) \<and>
    unat sz = 512 * (sum_list (map (entry_blocks env w) ps) + 3)"
proof -
  let ?n = "sum_list (map (entry_blocks env w) ps)"
  have "estimate_size_once_packed env w d = Inr (0, of_nat (512 * ?n) + TAR_BLOCK_SIZE + 2 * TAR_BLOCK_SIZE)"
    using assms(1,2) packed_entries_sum [OF assms(3), of 0] by (simp add: estimate_size_once_packed_def)
  moreover have "(of_nat (512 * ?n) + TAR_BLOCK_SIZE + 2 * TAR_BLOCK_SIZE :: u64) = of_nat (512 * (?n + 3))"
    by (simp add: algebra_simps)
  moreover have "unat (of_nat (512 * (?n + 3)) :: u64) = 512 * (?n + 3)"
    using assms(4) by (simp only: unat_of_nat take_bit_eq_mod) simp
  ultimately show ?thesis by metis
qed

text \<open>
  The estimate is the size of the archive: for a directory whose entries can be read, it is 512
  bytes times the number of blocks: one header for the directory and for each entry in it, the data
  of each file in whole blocks, and the two blocks that end an archive.
\<close>

theorem estimate_size_once_packed_blocks:
  assumes "bfs_is_directory env w d" and "bfs_walk env w d = (0, ps)"
    and "\<forall>p \<in> set ps. sizeable env w p"
    and "512 * (sum_list (map (entry_blocks env w) ps) + 3) < 2 ^ 64"
  shows "\<exists>sz. estimate_size_once_packed env w d = Inr (0, sz) \<and>
    unat sz = 512 * (sum_list (map (entry_blocks env w) ps) + 3)"
  by (rule estimate_blocks [OF assms])

text \<open>A directory with one file of 10 bytes and one of 600.\<close>

definition two_file_env :: "unit fs_env" where
  "two_file_env =
     \<lparr>fs_path = boost_path_ops, bfs_parent_path = (\<lambda>p. []), bfs_canonical = (\<lambda>w p. (0, p)),
      bfs_relative = (\<lambda>w p base. p), bfs_is_directory = (\<lambda>w p. p = ''/d''), bfs_is_symlink = (\<lambda>w p. False),
      bfs_is_regular = (\<lambda>w p. True), bfs_exists = (\<lambda>w p. (0, True)),
      bfs_file_size = (\<lambda>w p. (0, if p = ''/d/a'' then 10 else 600)),
      bfs_walk = (\<lambda>w p. (0, [''/d/a'', ''/d/b''])), bfs_create_directories = (\<lambda>p w. (0, w)),
      bfs_remove_all = (\<lambda>p w. (0, w))\<rparr>"

theorem estimate_size_once_packed_blocks_witness:
  "\<exists>sz. estimate_size_once_packed two_file_env () ''/d'' = Inr (0, sz) \<and> unat sz = 4096"
  using estimate_size_once_packed_blocks [of two_file_env "()" "''/d''" "[''/d/a'', ''/d/b'']"]
  by (simp add: two_file_env_def entry_blocks_def sizeable_def)

end
