(* ===== verification/Task_Info.thy ===== *)
theory Task_Info
  imports Complex_Main Backends
begin

text \<open>
  The metadata of a task: \<^verbatim>\<open>src/io/task-info.cpp\<close> and \<^verbatim>\<open>src/io/task-stats.cpp\<close>. Byte counts are
  64-bit words that wrap around; a double is an exact rational, an infinity or NaN (rounding and
  the sign of zero are not modelled).
\<close>

section \<open>Doubles\<close>

datatype dbl = NaN | PInf | NInf | Fin rat

fun isnan :: "dbl \<Rightarrow> bool" where
  "isnan NaN = True"
| "isnan _ = False"

fun dbl_add :: "dbl \<Rightarrow> dbl \<Rightarrow> dbl" where
  "dbl_add (Fin a) (Fin b) = Fin (a + b)"
| "dbl_add NaN _ = NaN"
| "dbl_add _ NaN = NaN"
| "dbl_add PInf NInf = NaN"
| "dbl_add NInf PInf = NaN"
| "dbl_add PInf _ = PInf"
| "dbl_add _ PInf = PInf"
| "dbl_add NInf _ = NInf"
| "dbl_add _ NInf = NInf"

fun dbl_div :: "dbl \<Rightarrow> dbl \<Rightarrow> dbl" where
  "dbl_div NaN _ = NaN"
| "dbl_div _ NaN = NaN"
| "dbl_div (Fin a) (Fin b) =
     (if b = 0 then (if a = 0 then NaN else if a > 0 then PInf else NInf) else Fin (a / b))"
| "dbl_div (Fin a) _ = Fin 0"
| "dbl_div PInf (Fin b) = (if b < 0 then NInf else PInf)"
| "dbl_div NInf (Fin b) = (if b < 0 then PInf else NInf)"
| "dbl_div _ _ = NaN"

fun dbl_less :: "dbl \<Rightarrow> dbl \<Rightarrow> bool" where
  "dbl_less NaN _ = False"
| "dbl_less _ NaN = False"
| "dbl_less (Fin a) (Fin b) = (a < b)"
| "dbl_less NInf b = (b \<noteq> NInf)"
| "dbl_less a NInf = False"
| "dbl_less a PInf = (a \<noteq> PInf)"
| "dbl_less PInf b = False"

definition dbl_of_u64 :: "u64 \<Rightarrow> dbl" where
  "dbl_of_u64 x = Fin (of_nat (unat x))"

section \<open>task_stats and global_stats\<close>

record task_stats =
  st_status :: task_status
  st_task_error :: urd_error
  st_sys_error :: error_code
  st_total_bytes :: u64
  st_pending_bytes :: u64

definition task_stats_default :: task_stats where
  "task_stats_default =
     \<lparr>st_status = TS_undefined, st_task_error = UE_success, st_sys_error = 0,
      st_total_bytes = 0, st_pending_bytes = 0\<rparr>"

record global_stats =
  gs_running_tasks :: u32
  gs_pending_tasks :: u32
  gs_eta :: dbl

section \<open>task_info\<close>

text \<open>The context of a remote-initiated task (a \<^verbatim>\<open>boost::any\<close>) is the handle of its request.\<close>

type_synonym rpc_handle = nat

record task_info =
  ti_id :: u32
  ti_type :: iotask_type
  ti_is_remote :: bool
  ti_auth :: credentials
  ti_src_backend :: "backend option"
  ti_src_rinfo :: "resource_info option"
  ti_dst_backend :: "backend option"
  ti_dst_rinfo :: "resource_info option"
  ti_ctx :: "rpc_handle option"
  ti_status :: task_status
  ti_task_error :: urd_error
  ti_sys_error :: error_code
  ti_bandwidth :: dbl
  ti_sent_bytes :: u64
  ti_total_bytes :: u64

definition make_task_info ::
  "('w, 'e) fs_env_scheme \<Rightarrow> 'w \<Rightarrow> u32 \<Rightarrow> iotask_type \<Rightarrow> bool \<Rightarrow> credentials \<Rightarrow>
   backend option \<Rightarrow> resource_info option \<Rightarrow> backend option \<Rightarrow> resource_info option \<Rightarrow>
   rpc_handle option \<Rightarrow> task_info outcome" where
  "make_task_info env w tid type is_remote auth src_backend src_rinfo dst_backend dst_rinfo ctx =
     (let ti = \<lparr>ti_id = tid, ti_type = type, ti_is_remote = is_remote, ti_auth = auth,
                ti_src_backend = src_backend, ti_src_rinfo = src_rinfo,
                ti_dst_backend = dst_backend, ti_dst_rinfo = dst_rinfo, ti_ctx = ctx,
                ti_status = TS_pending, ti_task_error = UE_success, ti_sys_error = 0,
                ti_bandwidth = NaN, ti_sent_bytes = 0, ti_total_bytes = 0\<rparr>
      in case src_rinfo of
           None \<Rightarrow> Inr ti
         | Some rinfo \<Rightarrow>
             obind (deref src_backend) (\<lambda>b.
             obind (get_size env b rinfo 0 w) (\<lambda>(sz, ec).
               Inr (ti\<lparr>ti_total_bytes := (if ec \<noteq> 0 then 0 else sz)\<rparr>))))"

definition update_status :: "task_status \<Rightarrow> task_info \<Rightarrow> task_info" where
  "update_status st ti = ti\<lparr>ti_status := st\<rparr>"

definition update_status_error :: "task_status \<Rightarrow> urd_error \<Rightarrow> error_code \<Rightarrow> task_info \<Rightarrow> task_info" where
  "update_status_error st ec sc ti = ti\<lparr>ti_status := st, ti_task_error := ec, ti_sys_error := sc\<rparr>"

definition bandwidth_of :: "u64 \<Rightarrow> dbl \<Rightarrow> dbl" where
  "bandwidth_of bytes usecs =
     dbl_div (dbl_div (dbl_of_u64 bytes) (Fin (1024 * 1024))) (dbl_div usecs (Fin 1000000))"

definition update_bandwidth :: "u64 \<Rightarrow> dbl \<Rightarrow> task_info \<Rightarrow> task_info" where
  "update_bandwidth bytes usecs ti = ti\<lparr>ti_bandwidth := bandwidth_of bytes usecs\<rparr>"

definition record_transfer :: "u64 \<Rightarrow> dbl \<Rightarrow> task_info \<Rightarrow> task_info" where
  "record_transfer bytes usecs ti =
     ti\<lparr>ti_sent_bytes := ti_sent_bytes ti + bytes, ti_bandwidth := bandwidth_of bytes usecs\<rparr>"

definition clear_context :: "task_info \<Rightarrow> task_info" where
  "clear_context ti = ti\<lparr>ti_ctx := None\<rparr>"

definition stats :: "task_info \<Rightarrow> task_stats" where
  "stats ti =
     \<lparr>st_status = ti_status ti, st_task_error = ti_task_error ti, st_sys_error = ti_sys_error ti,
      st_total_bytes = ti_total_bytes ti, st_pending_bytes = ti_total_bytes ti - ti_sent_bytes ti\<rparr>"

abbreviation finished_status :: "task_status \<Rightarrow> bool" where
  "finished_status st \<equiv> st = TS_finished \<or> st = TS_finished_with_error"

abbreviation active_status :: "task_status \<Rightarrow> bool" where
  "active_status st \<equiv> st = TS_pending \<or> st = TS_running"

section \<open>Byte accounting\<close>

text \<open>What a sequence of transfers leaves: sent bytes add up (modulo the word size).\<close>

lemma record_transfer_sent [simp]:
  "ti_sent_bytes (record_transfer b u ti) = ti_sent_bytes ti + b"
  "ti_total_bytes (record_transfer b u ti) = ti_total_bytes ti"
  "ti_status (record_transfer b u ti) = ti_status ti"
  "ti_id (record_transfer b u ti) = ti_id ti"
  by (simp_all add: record_transfer_def)

lemma foldl_record_transfer:
  "ti_sent_bytes (foldl (\<lambda>ti (b, u). record_transfer b u ti) ti bus) =
     ti_sent_bytes ti + sum_list (map fst bus) \<and>
   ti_total_bytes (foldl (\<lambda>ti (b, u). record_transfer b u ti) ti bus) = ti_total_bytes ti"
  by (induction bus arbitrary: ti) (auto simp: add.assoc)

lemma sum_list_words: "sum_list ws = (of_nat (sum_list (map unat ws)) :: u64)"
  by (induction ws) auto

lemma unat_sub_wrap:
  "unat (a - b :: u64) = (if unat b \<le> unat a then unat a - unat b else 2 ^ 64 - (unat b - unat a))"
proof (cases "b \<le> a")
  case True
  then show ?thesis by (simp add: unat_sub word_le_nat_alt)
next
  case False
  then have "unat a < unat b" by (simp add: word_le_nat_alt)
  moreover have "unat b < 2 ^ 64"
    by (rule order_less_le_trans [OF unsigned_less]) simp
  ultimately show ?thesis
    using unat_sub_if_size [of a b] by (auto simp: word_size)
qed

text \<open>
  Byte accounting: after recording a list of transfers of a fresh task, the statistics keep
  the total and report as pending the total less the bytes recorded, as long as these do not exceed
  the total; otherwise the 64-bit subtraction wraps around and a huge number is pending.
\<close>

theorem stats_pending_bytes:
  assumes "ti_sent_bytes ti = 0" and "n = sum_list (map unat (map fst bus))" and "n < 2 ^ 64"
    and "ti' = foldl (\<lambda>ti (b, u). record_transfer b u ti) ti bus"
  shows "st_total_bytes (stats ti') = ti_total_bytes ti \<and>
    unat (st_pending_bytes (stats ti')) =
      (if n \<le> unat (ti_total_bytes ti) then unat (ti_total_bytes ti) - n
       else 2 ^ 64 - (n - unat (ti_total_bytes ti)))"
proof -
  let ?sent = "sum_list (map fst bus)"
  have "unat ?sent = n"
    using assms(2,3) by (simp add: sum_list_words unat_of_nat take_bit_eq_mod)
  moreover have "stats ti' = (stats ti')\<lparr>st_total_bytes := ti_total_bytes ti,
      st_pending_bytes := ti_total_bytes ti - ?sent\<rparr>"
    using foldl_record_transfer [of ti bus] assms(1,4) by (simp add: stats_def)
  ultimately show ?thesis
    by (metis (no_types, lifting) unat_sub_wrap task_stats.select_convs(4,5) task_stats.surjective
        task_stats.update_convs(4,5))
qed

definition sample_task_info :: task_info where
  "sample_task_info =
     \<lparr>ti_id = 1, ti_type = IT_copy, ti_is_remote = False, ti_auth = credentials_default,
      ti_src_backend = None, ti_src_rinfo = None, ti_dst_backend = None, ti_dst_rinfo = None,
      ti_ctx = None, ti_status = TS_running, ti_task_error = UE_success, ti_sys_error = 0,
      ti_bandwidth = NaN, ti_sent_bytes = 0, ti_total_bytes = 10\<rparr>"

theorem stats_pending_bytes_witness:
  "unat (st_pending_bytes (stats
     (foldl (\<lambda>ti (b, u). record_transfer b u ti) sample_task_info [(4, Fin 1), (3, Fin 2)]))) = 3"
  using stats_pending_bytes [of sample_task_info 7 "[(4, Fin 1), (3, Fin 2)]"]
  by (simp add: sample_task_info_def)

end
