(* ===== verification/Transferors.thy ===== *)
theory Transferors
  imports Task_Info
begin

text \<open>
  The data movers of \<^verbatim>\<open>src/io/transferors\<close> that work on this node, and the registry that selects
  one by the types of the two resources. The operating system calls are parameters on the world
  (\<open>io_env\<close>): each returns what the C function returns, and \<open>sys_errno\<close> reads \<^verbatim>\<open>errno\<close>.
\<close>

datatype open_mode = O_rdonly | O_rdwr | O_creat_wronly | O_creat_rdwr | O_creat_wronly_excl | O_wronly

record 'w io_env = "'w fs_env" +
  sys_errno :: "'w \<Rightarrow> error_code"
  sys_open :: "string \<Rightarrow> open_mode \<Rightarrow> 'w \<Rightarrow> int \<times> 'w"
  sys_close :: "int \<Rightarrow> 'w \<Rightarrow> int \<times> 'w"
  sys_fstat_size :: "int \<Rightarrow> 'w \<Rightarrow> int \<times> 'w"                \<comment> \<open>the size, or -1\<close>
  sys_fadvise :: "int \<Rightarrow> int \<Rightarrow> nat \<Rightarrow> 'w \<Rightarrow> int \<times> 'w"    \<comment> \<open>fd, length, advice\<close>
  have_fallocate :: bool
  sys_fallocate :: "int \<Rightarrow> int \<Rightarrow> 'w \<Rightarrow> int \<times> 'w"
  sys_ftruncate :: "int \<Rightarrow> int \<Rightarrow> 'w \<Rightarrow> int \<times> 'w"
  sys_sendfile :: "int \<Rightarrow> int \<Rightarrow> int \<Rightarrow> int \<Rightarrow> 'w \<Rightarrow> int \<times> int \<times> 'w"
    \<comment> \<open>out fd, in fd, offset, count; the return value and the new offset\<close>
  sys_mmap :: "int \<Rightarrow> u64 \<Rightarrow> 'w \<Rightarrow> int option \<times> 'w"        \<comment> \<open>\<open>None\<close> is MAP\_FAILED\<close>
  sys_munmap :: "int \<Rightarrow> u64 \<Rightarrow> 'w \<Rightarrow> 'w"
  sys_process_vm_readv :: "int \<Rightarrow> u64 \<Rightarrow> int \<Rightarrow> u64 \<Rightarrow> 'w \<Rightarrow> int \<times> 'w"
    \<comment> \<open>pid, remote address, local address, size\<close>
  bfs_create_directory :: "string \<Rightarrow> 'w \<Rightarrow> error_code \<times> 'w"
  usecs_between :: "'w \<Rightarrow> 'w \<Rightarrow> dbl"                       \<comment> \<open>of the steady clock\<close>

section \<open>The transferor interface\<close>

text \<open>
  The abstract class \<^verbatim>\<open>io::transferor\<close>: an object is the record of its virtual functions. The two
  resource pointers may be null.
\<close>

record 'w transferor =
  tr_validate :: "resource_info \<Rightarrow> resource_info \<Rightarrow> bool outcome"
  tr_transfer :: "credentials \<Rightarrow> task_info \<Rightarrow> resource option \<Rightarrow> resource option \<Rightarrow> 'w \<Rightarrow>
                    (error_code \<times> task_info \<times> 'w) outcome"
  tr_accept_transfer :: "credentials \<Rightarrow> task_info \<Rightarrow> resource option \<Rightarrow> resource option \<Rightarrow> 'w \<Rightarrow>
                    (error_code \<times> task_info \<times> 'w) outcome"
  tr_to_string :: string

text \<open>
  What the task that runs a transferor relies on: it changes only the byte count, the bandwidth and
  the context of the task's metadata. The status and the errors are the task's own business.
\<close>

definition same_task :: "task_info \<Rightarrow> task_info \<Rightarrow> bool" where
  "same_task ti ti' \<longleftrightarrow>
     ti_id ti' = ti_id ti \<and> ti_type ti' = ti_type ti \<and> ti_is_remote ti' = ti_is_remote ti \<and>
     ti_auth ti' = ti_auth ti \<and> ti_src_backend ti' = ti_src_backend ti \<and>
     ti_src_rinfo ti' = ti_src_rinfo ti \<and> ti_dst_backend ti' = ti_dst_backend ti \<and>
     ti_dst_rinfo ti' = ti_dst_rinfo ti \<and> ti_status ti' = ti_status ti \<and>
     ti_task_error ti' = ti_task_error ti \<and> ti_sys_error ti' = ti_sys_error ti \<and>
     ti_total_bytes ti' = ti_total_bytes ti"

lemma same_task_refl [simp]: "same_task ti ti"
  by (simp add: same_task_def)

lemma same_task_trans: "same_task a b \<Longrightarrow> same_task b c \<Longrightarrow> same_task a c"
  by (simp add: same_task_def)

lemma same_task_updates [simp]:
  "same_task ti (record_transfer b u ti') \<longleftrightarrow> same_task ti ti'"
  "same_task ti (update_bandwidth b u ti') \<longleftrightarrow> same_task ti ti'"
  "same_task ti (clear_context ti') \<longleftrightarrow> same_task ti ti'"
  by (simp_all add: same_task_def record_transfer_def update_bandwidth_def clear_context_def)

locale mover =
  fixes tr :: "'w transferor"
  assumes transfer_frame:
    "tr_transfer tr auth ti src dst w = Inr (ec, ti', w') \<Longrightarrow> same_task ti ti'"
    and accept_frame:
    "tr_accept_transfer tr auth ti src dst w = Inr (ec, ti', w') \<Longrightarrow> same_task ti ti'"

section \<open>Local path to local path\<close>

definition get_filesize :: "('w, 'e) io_env_scheme \<Rightarrow> int \<Rightarrow> 'w \<Rightarrow> int \<times> 'w" where
  "get_filesize env fd w = sys_fstat_size env fd w"

text \<open>
  The copy loop: the kernel advances the offset; an interrupted call is repeated, another error
  ends the copy. A call that neither fails nor advances is repeated as well.
\<close>

fun sendfile_loop :: "nat \<Rightarrow> ('w, 'e) io_env_scheme \<Rightarrow> int \<Rightarrow> int \<Rightarrow> int \<Rightarrow> int \<Rightarrow> 'w \<Rightarrow> (int \<times> 'w) outcome" where
  "sendfile_loop fuel env in_fd out_fd sz offset w =
     (if offset < sz then
        (case fuel of
           0 \<Rightarrow> Inl Diverges
         | Suc fuel' \<Rightarrow>
             (case sys_sendfile env out_fd in_fd offset (sz - offset) w of
                (ret, offset', w') \<Rightarrow>
                  if ret = -1 \<and> sys_errno env w' \<noteq> EINTR then Inr (-1, w')
                  else sendfile_loop fuel' env in_fd out_fd sz offset' w'))
      else Inr (sz, w))"

declare sendfile_loop.simps [simp del]

definition preallocate :: "('w, 'e) io_env_scheme \<Rightarrow> int \<Rightarrow> int \<Rightarrow> 'w \<Rightarrow> int \<times> 'w" where
  "preallocate env out_fd sz w =
     (if have_fallocate env then
        (case sys_fallocate env out_fd sz w of
           (r, w') \<Rightarrow>
             if r = -1 then
               (if sys_errno env w' \<noteq> EOPNOTSUPP then (-1, w')
                else case sys_ftruncate env out_fd sz w' of (r', w'') \<Rightarrow> (if r' \<noteq> 0 then -1 else 0, w''))
             else (0, w'))
      else (case sys_ftruncate env out_fd sz w of (r', w') \<Rightarrow> (if r' \<noteq> 0 then -1 else 0, w')))"

definition do_sendfile :: "nat \<Rightarrow> ('w, 'e) io_env_scheme \<Rightarrow> int \<Rightarrow> int \<Rightarrow> 'w \<Rightarrow> (int \<times> 'w) outcome" where
  "do_sendfile fuel env in_fd out_fd w =
     (case get_filesize env in_fd w of (sz, w1) \<Rightarrow>
      (case sys_fadvise env in_fd sz 0 w1 of (r1, w2) \<Rightarrow>
        if r1 \<noteq> 0 then Inr (-1, w2)
        else (case sys_fadvise env in_fd sz 1 w2 of (r2, w3) \<Rightarrow>
          if r2 \<noteq> 0 then Inr (-1, w3)
          else (case preallocate env out_fd sz w3 of (r3, w4) \<Rightarrow>
            if r3 = -1 then Inr (-1, w4)
            else sendfile_loop fuel env in_fd out_fd sz 0 w4))))"

fun close_retry :: "nat \<Rightarrow> ('w, 'e) io_env_scheme \<Rightarrow> int \<Rightarrow> 'w \<Rightarrow> (error_code \<times> 'w) outcome" where
  "close_retry fuel env fd w =
     (case sys_close env fd w of (r, w') \<Rightarrow>
        if r = -1 then
          (if sys_errno env w' = EINTR then
             (case fuel of 0 \<Rightarrow> Inl Diverges | Suc fuel' \<Rightarrow> close_retry fuel' env fd w')
           else Inr (sys_errno env w', w'))
        else Inr (0, w'))"

declare close_retry.simps [simp del]

definition copy_file ::
  "nat \<Rightarrow> ('w, 'e) io_env_scheme \<Rightarrow> task_info \<Rightarrow> string \<Rightarrow> string \<Rightarrow> 'w \<Rightarrow> (error_code \<times> task_info \<times> 'w) outcome" where
  "copy_file fuel env ti src dst w0 =
     (case sys_open env src O_rdonly w0 of (in_fd, w1) \<Rightarrow>
        if in_fd = -1 then Inr (sys_errno env w1, ti, w1)
        else (case sys_open env dst O_creat_wronly w1 of (out_fd, w2) \<Rightarrow>
          if out_fd = -1 then
            (let w3 = snd (sys_close env in_fd w2) in Inr (sys_errno env w3, ti, w3))
          else obind (do_sendfile fuel env in_fd out_fd w2) (\<lambda>(file_size, w3).
            if file_size = -1 then
              (let w4 = snd (sys_close env in_fd w3); w5 = snd (sys_close env out_fd w4)
               in Inr (sys_errno env w5, ti, w5))
            else obind (close_retry fuel env in_fd w3) (\<lambda>(e1, w4).
              if e1 \<noteq> 0 then Inr (e1, ti, w4)
              else obind (close_retry fuel env out_fd w4) (\<lambda>(e2, w5).
                if e2 \<noteq> 0 then Inr (e2, ti, w5)
                else Inr (0, record_transfer (word_of_int file_size) (usecs_between env w0 w5) ti, w5))))))"

fun copy_entries ::
  "nat \<Rightarrow> ('w, 'e) io_env_scheme \<Rightarrow> task_info \<Rightarrow> string \<Rightarrow> string \<Rightarrow> string list \<Rightarrow> 'w \<Rightarrow> (error_code \<times> task_info \<times> 'w) outcome" where
  "copy_entries fuel env ti src dst [] w = Inr (0, ti, w)"
| "copy_entries fuel env ti src dst (p # ps) w =
     (let dst_path = po_append (fs_path env) dst (bfs_relative env w p src)
      in if bfs_is_directory env w p then
           (if \<not> snd (bfs_exists env w dst_path) then
              (case bfs_create_directory env dst_path w of (ec, w') \<Rightarrow>
                 if ec \<noteq> 0 then Inr (ec, ti, w') else copy_entries fuel env ti src dst ps w')
            else copy_entries fuel env ti src dst ps w)
         else obind (copy_file fuel env ti p dst_path w) (\<lambda>(err, ti', w').
           if err \<noteq> 0 then Inr (err, ti', w') else copy_entries fuel env ti' src dst ps w'))"

definition copy_directory ::
  "nat \<Rightarrow> ('w, 'e) io_env_scheme \<Rightarrow> task_info \<Rightarrow> string \<Rightarrow> string \<Rightarrow> 'w \<Rightarrow> (error_code \<times> task_info \<times> 'w) outcome" where
  "copy_directory fuel env ti src dst w =
     (case bfs_walk env w src of (ec, ps) \<Rightarrow>
        if ec \<noteq> 0 then Inr (ec, ti, w)
        else obind (copy_entries fuel env ti src dst ps w) (\<lambda>(err, ti', w').
          if err \<noteq> 0 then Inr (err, ti', w')
          else Inr (0, update_bandwidth (ti_sent_bytes ti' - ti_sent_bytes ti) (usecs_between env w w') ti', w')))"

text \<open>\<^verbatim>\<open>canonical_path()\<close> of a resource the code takes for a local path.\<close>

fun as_local_path :: "resource option \<Rightarrow> string outcome" where
  "as_local_path (Some (Local_path_resource _ _ cp _)) = Inr cp"
| "as_local_path None = Inl Null_Deref"
| "as_local_path _ = Inl Bad_Cast"

text \<open>The overrides that only log and answer success.\<close>

definition never_called ::
  "credentials \<Rightarrow> task_info \<Rightarrow> resource option \<Rightarrow> resource option \<Rightarrow> 'w \<Rightarrow> (error_code \<times> task_info \<times> 'w) outcome" where
  "never_called auth ti src dst w = Inr (0, ti, w)"

definition local_path_to_local_path_transferor :: "nat \<Rightarrow> ('w, 'e) io_env_scheme \<Rightarrow> 'w transferor" where
  "local_path_to_local_path_transferor fuel env =
     \<lparr>tr_validate = (\<lambda>_ _. Inr True),
      tr_transfer = (\<lambda>auth ti src dst w.
        obind (as_local_path src) (\<lambda>s. obind (as_local_path dst) (\<lambda>d.
          if bfs_is_directory env w s then copy_directory fuel env ti s d w
          else copy_file fuel env ti s d w))),
      tr_accept_transfer = never_called,
      tr_to_string = ''transferor[local_path => local_path]''\<rparr>"

definition local_path_to_shared_path_transferor :: "'w transferor" where
  "local_path_to_shared_path_transferor =
     \<lparr>tr_validate = (\<lambda>_ _. Inr True),
      tr_transfer = (\<lambda>auth ti src dst w. Inr (0, ti, w)),
      tr_accept_transfer = never_called,
      tr_to_string = ''transferor[local_path => shared_path]''\<rparr>"

section \<open>Memory region to path\<close>

definition copy_memory_region ::
  "nat \<Rightarrow> ('w, 'e) io_env_scheme \<Rightarrow> task_info \<Rightarrow> int \<Rightarrow> u64 \<Rightarrow> u64 \<Rightarrow> string \<Rightarrow> 'w \<Rightarrow> (error_code \<times> task_info \<times> 'w) outcome" where
  "copy_memory_region fuel env ti pid src_addr sz dst w0 =
     (if bfs_is_directory env w0 dst then Inr (EISDIR, ti, w0)
      else case sys_open env dst O_creat_rdwr w0 of (out_fd, w1) \<Rightarrow>
        if out_fd = -1 then Inr (sys_errno env w1, ti, w1)
        else
          \<comment> \<open>the result so far, whether the destination is mapped, and the world\<close>
          let (rv, mapped, w3) =
            (case preallocate env out_fd (uint sz) w1 of (r, w2) \<Rightarrow>
               if r = -1 then (sys_errno env w2, Some 0, w2)
               else (case sys_mmap env out_fd sz w2 of
                  (None, w3) \<Rightarrow> (sys_errno env w3, None, w3)
                | (Some addr, w3) \<Rightarrow>
                    (case sys_process_vm_readv env pid src_addr addr sz w3 of (nbytes, w4) \<Rightarrow>
                       if nbytes = -1 then (sys_errno env w4, Some addr, w4)
                       else if nbytes < uint sz then (EIO, Some addr, w4)
                       else (0, Some addr, w4))));
            w4 = (case mapped of None \<Rightarrow> w3 | Some addr \<Rightarrow> sys_munmap env addr sz w3)
          in obind (close_retry fuel env out_fd w4) (\<lambda>(e, w5).
               let rv' = (if e \<noteq> 0 then e else rv)
               in Inr (rv', if rv' = 0 then update_bandwidth sz (usecs_between env w0 w5) ti else ti, w5)))"

fun as_memory_region :: "resource option \<Rightarrow> (u64 \<times> u64) outcome" where
  "as_memory_region (Some (Memory_region_resource _ a s)) = Inr (a, s)"
| "as_memory_region None = Inl Null_Deref"
| "as_memory_region _ = Inl Bad_Cast"

text \<open>\<^verbatim>\<open>std::string::back()\<close> has no meaning on the empty string.\<close>

definition string_back :: "string \<Rightarrow> char outcome" where
  "string_back s = (if s = [] then Inl Out_Of_Range else Inr (last s))"

definition memory_region_to_local_path_validate :: "resource_info \<Rightarrow> resource_info \<Rightarrow> bool outcome" where
  "memory_region_to_local_path_validate src_info dst_info =
     obind (as_memory_region_info src_info) (\<lambda>(_, sz).
       if sz = 0 then Inr False
       else obind (as_path_info dst_info) (\<lambda>datapath.
            obind (string_back datapath) (\<lambda>c. Inr (c \<noteq> CHR ''/''))))"

definition memory_region_to_local_path_transferor :: "nat \<Rightarrow> ('w, 'e) io_env_scheme \<Rightarrow> 'w transferor" where
  "memory_region_to_local_path_transferor fuel env =
     \<lparr>tr_validate = memory_region_to_local_path_validate,
      tr_transfer = (\<lambda>auth ti src dst w.
        obind (as_memory_region src) (\<lambda>(address, sz). obind (as_local_path dst) (\<lambda>d.
          copy_memory_region fuel env ti (cr_pid auth) address sz d w))),
      tr_accept_transfer = never_called,
      tr_to_string = ''transferor[memory_region => local_path]''\<rparr>"

definition memory_region_to_shared_path_transferor :: "'w transferor" where
  "memory_region_to_shared_path_transferor =
     \<lparr>tr_validate = (\<lambda>_ _. Inr True),
      tr_transfer = (\<lambda>auth ti src dst w. obind (deref src) (\<lambda>_. obind (deref dst) (\<lambda>_. Inr (0, ti, w)))),
      tr_accept_transfer = never_called,
      tr_to_string = ''transferor[memory_region => shared_path]''\<rparr>"

section \<open>The transferors keep the task's metadata\<close>

abbreviation framed :: "task_info \<Rightarrow> (error_code \<times> task_info \<times> 'w) outcome \<Rightarrow> bool" where
  "framed ti \<equiv> returns_only (\<lambda>(ec, ti', w'). same_task ti ti')"

lemma copy_file_frame: "framed ti (copy_file fuel env ti src dst w)"
  unfolding copy_file_def by (intro post_intros) simp_all

lemma copy_entries_frame: "framed ti (copy_entries fuel env ti src dst ps w)"
proof (induction ps arbitrary: ti w)
  case Nil
  then show ?case by (simp add: returns_only_def)
next
  case (Cons p ps)
  have trans: "framed ti r" if "framed t r" and "same_task ti t" for t and r :: "(error_code \<times> task_info \<times> 'a) outcome"
    using that by (auto simp: returns_only_def intro: same_task_trans)
  show ?case
    unfolding copy_entries.simps
    by (intro post_intros) (auto intro: Cons.IH trans dest: returns_onlyD [OF copy_file_frame])
qed

lemma copy_directory_frame: "framed ti (copy_directory fuel env ti src dst w)"
  unfolding copy_directory_def
  by (intro post_intros) (auto dest: returns_onlyD [OF copy_entries_frame])

lemma copy_memory_region_frame: "framed ti (copy_memory_region fuel env ti pid a sz dst w)"
  unfolding copy_memory_region_def by (intro post_intros) auto

lemma moverI:
  assumes "\<And>auth ti src dst w. framed ti (tr_transfer tr auth ti src dst w)"
    and "\<And>auth ti src dst w. framed ti (tr_accept_transfer tr auth ti src dst w)"
  shows "mover tr"
  by unfold_locales (auto dest: returns_onlyD [OF assms(1)] returns_onlyD [OF assms(2)])

lemma never_called_frame: "framed ti (never_called auth ti src dst w)"
  by (simp add: never_called_def returns_only_def)

interpretation local_to_local: mover "local_path_to_local_path_transferor fuel env"
  by (rule moverI)
    (auto simp: local_path_to_local_path_transferor_def
      intro!: post_intros copy_directory_frame copy_file_frame never_called_frame)

interpretation local_to_shared: mover local_path_to_shared_path_transferor
  by (rule moverI) (auto simp: local_path_to_shared_path_transferor_def intro!: post_intros never_called_frame)

interpretation memory_to_local: mover "memory_region_to_local_path_transferor fuel env"
  by (rule moverI)
    (auto simp: memory_region_to_local_path_transferor_def
      intro!: post_intros copy_memory_region_frame never_called_frame)

interpretation memory_to_shared: mover memory_region_to_shared_path_transferor
  by (rule moverI) (auto simp: memory_region_to_shared_path_transferor_def intro!: post_intros never_called_frame)

section \<open>The registry of transferors\<close>

type_synonym 'w transferor_registry = "(resource_type \<times> resource_type, 'w transferor) umap"

definition transferor_add ::
  "resource_type \<times> resource_type \<Rightarrow> 'w transferor \<Rightarrow> 'w transferor_registry \<Rightarrow> bool \<times> 'w transferor_registry" where
  "transferor_add k trp m_transferors =
     (if um_count m_transferors k = 0 then (True, um_emplace k trp m_transferors) else (False, m_transferors))"

definition transferor_get :: "'w transferor_registry \<Rightarrow> resource_type \<times> resource_type \<Rightarrow> 'w transferor option" where
  "transferor_get m_transferors k =
     (if um_count m_transferors k = 0 then None else um_find m_transferors k)"

lemma transferor_get_find [simp]: "transferor_get m = um_find m"
  by (auto simp: transferor_get_def)

interpretation transferors: registry transferor_add transferor_get um_wf
  by unfold_locales (auto simp: transferor_add_def fun_eq_iff)

section \<open>The copy loop\<close>

text \<open>
  What \<^verbatim>\<open>sendfile(2)\<close> promises while nobody else touches the two files: it appends the next \<open>ret\<close> bytes
  of the input to the output and advances the offset by as much; it sends nothing only when the call
  fails or the input is exhausted; and it is interrupted finitely often (\<open>intr\<close> bounds how often).
\<close>

definition sendfile_laws ::
  "('w, 'e) io_env_scheme \<Rightarrow> int \<Rightarrow> int \<Rightarrow> ('w \<Rightarrow> 'b list) \<Rightarrow> ('w \<Rightarrow> 'b list) \<Rightarrow> ('w \<Rightarrow> nat) \<Rightarrow> bool" where
  "sendfile_laws env in_fd out_fd content written intr \<longleftrightarrow>
     (\<forall>off n w ret off' w'. sys_sendfile env out_fd in_fd off n w = (ret, off', w') \<longrightarrow> 0 \<le> off \<longrightarrow> 0 < n \<longrightarrow>
        content w' = content w \<and>
        (if ret = -1
         then off' = off \<and> written w' = written w \<and> (sys_errno env w' = EINTR \<longrightarrow> intr w' < intr w)
         else 0 \<le> ret \<and> ret \<le> n \<and> off' = off + ret \<and> nat off' \<le> max (nat off) (length (content w)) \<and>
           intr w' \<le> intr w \<and> (ret = 0 \<longrightarrow> length (content w) \<le> nat off) \<and>
           written w' = written w @ take (nat ret) (drop (nat off) (content w))))"

lemma sendfile_laws_step:
  assumes "sendfile_laws env in_fd out_fd content written intr"
    and "sys_sendfile env out_fd in_fd off (sz - off) w = (ret, off', w')"
    and "0 \<le> off" and "off < sz" and "sz = int (length (content w))"
    and "written w = take (nat off) (content w)"
  shows "content w' = content w" and "0 \<le> off'" and "written w' = take (nat off') (content w)"
    and "ret = -1 \<and> sys_errno env w' \<noteq> EINTR \<or> nat (sz - off') + intr w' < nat (sz - off) + intr w"
proof -
  note law = assms(1) [unfolded sendfile_laws_def, rule_format, OF assms(2,3)]
  have n: "0 < sz - off" using assms(4) by simp
  show "content w' = content w" using law [OF n] by simp
  show "0 \<le> off'" using law [OF n] assms(3) by (auto split: if_splits)
  show "written w' = take (nat off') (content w)"
    using law [OF n] assms(3,6) by (auto simp: nat_add_distrib take_add split: if_splits)
  show "ret = -1 \<and> sys_errno env w' \<noteq> EINTR \<or> nat (sz - off') + intr w' < nat (sz - off) + intr w"
    using law [OF n] assms(3,4,5) by (auto split: if_splits)
qed

lemma sendfile_loop_step:
  "off < sz \<Longrightarrow> sys_sendfile env out_fd in_fd off (sz - off) w = (ret, off', w') \<Longrightarrow>
     sendfile_loop (Suc fuel) env in_fd out_fd sz off w =
       (if ret = -1 \<and> sys_errno env w' \<noteq> EINTR then Inr (-1, w')
        else sendfile_loop fuel env in_fd out_fd sz off' w')"
  by (subst sendfile_loop.simps) simp

lemma sendfile_loop_progress:
  assumes "sendfile_laws env in_fd out_fd content written intr"
  shows "\<lbrakk>0 \<le> off; sz = int (length (content w)); written w = take (nat off) (content w);
      nat (sz - off) + intr w \<le> fuel\<rbrakk> \<Longrightarrow>
    \<exists>r w'. sendfile_loop fuel env in_fd out_fd sz off w = Inr (r, w') \<and>
      (r = sz \<and> written w' = content w \<or>
       r = -1 \<and> (\<exists>k. written w' = take k (content w)))"
proof (induction fuel arbitrary: off w)
  case 0
  then have "sz \<le> off" by simp
  with 0 show ?case by (simp add: sendfile_loop.simps)
next
  case (Suc fuel)
  show ?case
  proof (cases "off < sz")
    case False
    with Suc.prems show ?thesis by (simp add: sendfile_loop.simps)
  next
    case True
    obtain ret off' w' where call: "sys_sendfile env out_fd in_fd off (sz - off) w = (ret, off', w')"
      by (cases "sys_sendfile env out_fd in_fd off (sz - off) w") auto
    note st = sendfile_laws_step [OF assms call Suc.prems(1) True Suc.prems(2,3)]
    show ?thesis
    proof (cases "ret = -1 \<and> sys_errno env w' \<noteq> EINTR")
      case True
      with call st(3) \<open>off < sz\<close> show ?thesis by (auto simp: sendfile_loop_step)
    next
      case False
      then have "nat (sz - off') + intr w' \<le> fuel" using st(4) Suc.prems(4) by linarith
      with Suc.IH [of off' w'] st Suc.prems(2)
      have "\<exists>r v. sendfile_loop fuel env in_fd out_fd sz off' w' = Inr (r, v) \<and>
          (r = sz \<and> written v = content w \<or> r = -1 \<and> (\<exists>k. written v = take k (content w)))"
        by metis
      then show ?thesis
        unfolding sendfile_loop_step [OF \<open>off < sz\<close> call] if_not_P [OF False] .
    qed
  qed
qed

text \<open>
  C38. The copy loop of \<^verbatim>\<open>do_sendfile\<close> returns and copies: with a kernel that keeps the promise of
  \<^verbatim>\<open>sendfile(2)\<close>, as many iterations as the file has bytes plus the interruptions suffice; the loop
  then either reports the size, and the whole input has been written, or reports an error, and what
  has been written is a prefix of the input.
\<close>

theorem sendfile_loop_copies:
  assumes "sendfile_laws env in_fd out_fd content written intr"
    and "written w = []" and "length (content w) + intr w \<le> fuel"
  shows "\<exists>r w'. sendfile_loop fuel env in_fd out_fd (int (length (content w))) 0 w = Inr (r, w') \<and>
      (r = int (length (content w)) \<and> written w' = content w \<or>
       r = -1 \<and> (\<exists>k. written w' = take k (content w)))"
  by (rule sendfile_loop_progress [OF assms(1)]) (use assms in auto)

text \<open>A concrete environment for the examples: every call succeeds and changes nothing.\<close>

definition quiet_env :: "'w io_env" where
  "quiet_env =
     \<lparr>fs_path = boost_path_ops, bfs_parent_path = (\<lambda>p. []), bfs_canonical = (\<lambda>w p. (0, p)),
      bfs_relative = (\<lambda>w p base. p), bfs_is_directory = (\<lambda>w p. False), bfs_is_symlink = (\<lambda>w p. False),
      bfs_is_regular = (\<lambda>w p. True), bfs_exists = (\<lambda>w p. (0, True)), bfs_file_size = (\<lambda>w p. (0, 10)),
      bfs_walk = (\<lambda>w p. (0, [])), bfs_create_directories = (\<lambda>p w. (0, w)), bfs_remove_all = (\<lambda>p w. (0, w)),
      sys_errno = (\<lambda>w. 0), sys_open = (\<lambda>p m w. (3, w)), sys_close = (\<lambda>fd w. (0, w)),
      sys_fstat_size = (\<lambda>fd w. (0, w)), sys_fadvise = (\<lambda>fd n a w. (0, w)), have_fallocate = True,
      sys_fallocate = (\<lambda>fd n w. (0, w)), sys_ftruncate = (\<lambda>fd n w. (0, w)),
      sys_sendfile = (\<lambda>o_fd i_fd off n w. (n, off + n, w)), sys_mmap = (\<lambda>fd n w. (Some 4096, w)),
      sys_munmap = (\<lambda>a n w. w), sys_process_vm_readv = (\<lambda>pid a l n w. (uint n, w)),
      bfs_create_directory = (\<lambda>p w. (0, w)), usecs_between = (\<lambda>w w'. Fin 1)\<rparr>"

text \<open>A kernel that sends at most two bytes per call.\<close>

definition two_byte_env :: "(nat list \<times> nat list) io_env" where
  "two_byte_env = quiet_env\<lparr>sys_sendfile := (\<lambda>o_fd i_fd off n (c, wr).
     let r = min 2 (min n (max 0 (int (length c) - off)))
     in (r, off + r, (c, wr @ take (nat r) (drop (nat off) c))))\<rparr>"

lemma two_byte_laws: "sendfile_laws two_byte_env 3 4 fst snd (\<lambda>_. 0)"
  by (auto simp: sendfile_laws_def two_byte_env_def Let_def split: prod.splits)

theorem sendfile_loop_copies_witness:
  "\<exists>r w'. sendfile_loop 5 two_byte_env 3 4 5 0 ([7, 8, 9, 10, 11], []) = Inr (r, w') \<and>
     (r = 5 \<and> snd w' = [7, 8, 9, 10, 11] \<or> r = -1 \<and> (\<exists>k. snd w' = take k [7, 8, 9, 10, 11]))"
  using sendfile_loop_copies [OF two_byte_laws, of "([7, 8, 9, 10, 11], [])" 5] by simp

text \<open>
  The loop need not end: when the input has become shorter than the size read at the start, the
  kernel sends nothing and the loop repeats the call for ever, whatever the number of iterations.
\<close>

theorem sendfile_loop_spins:
  assumes "sys_sendfile env out_fd in_fd off (sz - off) w = (0, off, w)" and "off < sz"
  shows "sendfile_loop fuel env in_fd out_fd sz off w = Inl Diverges"
proof (induction fuel)
  case 0
  then show ?case using assms(2) by (simp add: sendfile_loop.simps)
next
  case (Suc fuel)
  then show ?case using sendfile_loop_step [OF assms(2) assms(1)] by simp
qed

theorem sendfile_loop_spins_witness:
  "sendfile_loop 1000 two_byte_env 3 4 5 2 ([7, 8], [7, 8]) = Inl Diverges"
  by (rule sendfile_loop_spins) (simp_all add: two_byte_env_def)

end
