(* ===== verification/Tar_Archive.thy ===== *)
theory Tar_Archive
  imports Transferors Packed_Size
begin

text \<open>
  The archives a directory travels in (\<^verbatim>\<open>src/utils/tar-archive.cpp\<close>): creating and opening one, adding files and
  directories, extracting, closing. libarchive and the system calls are parameters. A function that may throw or fail an
  assert returns an outcome; the error code the caller passes by reference is part of the result.
\<close>

section \<open>The library and the system\<close>

abbreviation (input) ARCHIVE_OK :: int where "ARCHIVE_OK \<equiv> 0"
abbreviation (input) ARCHIVE_EOF :: int where "ARCHIVE_EOF \<equiv> 1"
abbreviation (input) ARCHIVE_FATAL :: int where "ARCHIVE_FATAL \<equiv> -30"

abbreviation (input) ENOMEM :: error_code where "ENOMEM \<equiv> 12"

record file_stat =
  st_size :: int
  st_mode :: u32

datatype entry_type = AE_IFREG | AE_IFDIR

text \<open>What an \<^verbatim>\<open>archive_entry\<close> is told before its header is written.\<close>

record ar_entry =
  ae_filetype :: entry_type
  ae_sourcepath :: string
  ae_pathname :: string
  ae_stat :: file_stat

datatype extract_flag = EXTRACT_PERM | EXTRACT_SECURE_SYMLINKS | EXTRACT_SECURE_NODOTDOT

record 'w tar_env = "'w io_env" +
  tar_fuel :: nat                                                 \<comment> \<open>iterations of each loop over a file or an archive\<close>
  bfs_is_absolute :: "string \<Rightarrow> bool"
  sys_stat :: "string \<Rightarrow> 'w \<Rightarrow> file_stat option \<times> 'w"
  sys_pread :: "int \<Rightarrow> nat \<Rightarrow> int \<Rightarrow> 'w \<Rightarrow> (int \<times> byte list) \<times> 'w"  \<comment> \<open>descriptor, size of the buffer, offset\<close>
  ar_write_new :: "'w \<Rightarrow> nat option \<times> 'w"
  ar_write_set_format_ustar :: "nat \<Rightarrow> 'w \<Rightarrow> int \<times> 'w"
  ar_write_open_filename :: "nat \<Rightarrow> string \<Rightarrow> 'w \<Rightarrow> int \<times> 'w"
  ar_read_new :: "'w \<Rightarrow> nat option \<times> 'w"
  ar_read_support_format_tar :: "nat \<Rightarrow> 'w \<Rightarrow> int \<times> 'w"
  ar_read_open_filename :: "nat \<Rightarrow> string \<Rightarrow> 'w \<Rightarrow> int \<times> 'w"
  ar_errno :: "nat \<Rightarrow> 'w \<Rightarrow> error_code"
  ar_entry_new :: "nat \<Rightarrow> 'w \<Rightarrow> bool \<times> 'w"
  ar_write_header :: "nat \<Rightarrow> ar_entry \<Rightarrow> 'w \<Rightarrow> int \<times> 'w"
  ar_write_data :: "nat \<Rightarrow> byte list \<Rightarrow> 'w \<Rightarrow> int \<times> 'w"
  ar_write_close :: "nat \<Rightarrow> 'w \<Rightarrow> int \<times> 'w"
  ar_write_free :: "nat \<Rightarrow> 'w \<Rightarrow> int \<times> 'w"
  ar_read_next_header :: "nat \<Rightarrow> 'w \<Rightarrow> (int \<times> string option) \<times> 'w"  \<comment> \<open>with the path name of the entry\<close>
  ar_read_extract :: "nat \<Rightarrow> string \<Rightarrow> extract_flag list \<Rightarrow> 'w \<Rightarrow> int \<times> 'w"  \<comment> \<open>the current entry, under this name\<close>
  ar_read_close :: "nat \<Rightarrow> 'w \<Rightarrow> int \<times> 'w"
  ar_read_free :: "nat \<Rightarrow> 'w \<Rightarrow> int \<times> 'w"

section \<open>Appending to an archive\<close>

text \<open>The loop of \<^verbatim>\<open>append_file_data\<close> from \<open>offset\<close>.\<close>

fun append_loop :: "nat \<Rightarrow> ('w, 'e) tar_env_scheme \<Rightarrow> nat \<Rightarrow> int \<Rightarrow> int \<Rightarrow> int \<Rightarrow> 'w \<Rightarrow> (error_code \<times> 'w) outcome" where
  "append_loop fuel env ar fd sz offset w =
     (if offset < sz then
        (case fuel of
           0 \<Rightarrow> Inl Diverges
         | Suc fuel' \<Rightarrow>
             (case sys_pread env fd 16384 offset w of ((n, buffer), w1) \<Rightarrow>
                if n = 0 then Inr (0, w1)
                else if n = -1 then
                  (if sys_errno env w1 = EINTR then append_loop fuel' env ar fd sz offset w1
                   else Inr (sys_errno env w1, w1))
                else (case ar_write_data env ar buffer w1 of (m, w2) \<Rightarrow>
                  if m = -1 then Inr (ar_errno env ar w2, w2)
                  else obind (assert_ok (m = n)) (\<lambda>_. append_loop fuel' env ar fd sz (offset + n) w2))))
      else Inr (0, w))"

declare append_loop.simps [simp del]

text \<open>The descriptor is closed when its handle goes out of scope.\<close>

definition append_file_data :: "('w, 'e) tar_env_scheme \<Rightarrow> nat \<Rightarrow> string \<Rightarrow> int \<Rightarrow> 'w \<Rightarrow> (error_code \<times> 'w) outcome" where
  "append_file_data env ar name sz w =
     (case sys_open env name O_rdonly w of (fd, w1) \<Rightarrow>
        if fd = -1 then Inr (sys_errno env w1, w1)
        else obind (append_loop (tar_fuel env) env ar fd sz 0 w1) (\<lambda>(ec, w2). Inr (ec, snd (sys_close env fd w2))))"

definition append_file :: "('w, 'e) tar_env_scheme \<Rightarrow> nat \<Rightarrow> string \<Rightarrow> string \<Rightarrow> 'w \<Rightarrow> (error_code \<times> 'w) outcome" where
  "append_file env ar source_path archive_path w =
     (case sys_stat env source_path w of
        (None, w1) \<Rightarrow> Inr (sys_errno env w1, w1)
      | (Some stbuf, w1) \<Rightarrow>
          (case ar_write_header env ar \<lparr>ae_filetype = AE_IFREG, ae_sourcepath = source_path, ae_pathname = archive_path,
                                        ae_stat = stbuf\<rparr> w1 of (r, w2) \<Rightarrow>
             if r \<noteq> ARCHIVE_OK then Inr (ar_errno env ar w2, w2)
             else append_file_data env ar source_path (st_size stbuf) w2))"

definition append_directory_header ::
  "('w, 'e) tar_env_scheme \<Rightarrow> nat \<Rightarrow> string \<Rightarrow> string \<Rightarrow> 'w \<Rightarrow> error_code \<times> 'w" where
  "append_directory_header env ar source_path archive_path w =
     (case sys_stat env source_path w of
        (None, w1) \<Rightarrow> (sys_errno env w1, w1)
      | (Some stbuf, w1) \<Rightarrow>
          (case ar_write_header env ar \<lparr>ae_filetype = AE_IFDIR, ae_sourcepath = source_path, ae_pathname = archive_path,
                                        ae_stat = stbuf\<rparr> w1 of (r, w2) \<Rightarrow>
             (if r \<noteq> ARCHIVE_OK then ar_errno env ar w2 else 0, w2)))"

text \<open>The name of a source in the archive: \<open>real_parent\<close> is replaced by \<open>archive_parent\<close>.\<close>

definition transform :: "('w, 'e) tar_env_scheme \<Rightarrow> 'w \<Rightarrow> string \<Rightarrow> string \<Rightarrow> string \<Rightarrow> string outcome" where
  "transform env w source real_parent archive_parent =
     obind (assert_ok (bfs_is_absolute env source)) (\<lambda>_.
     obind (assert_ok (bfs_is_absolute env real_parent)) (\<lambda>_.
       let norm_source = lexical_normalize (fs_path env) source False;
           norm_real_parent = lexical_normalize (fs_path env) real_parent False;
           norm_archive_parent = lexical_normalize (fs_path env) archive_parent False
       in obind (assert_ok (bfs_is_absolute env norm_source)) (\<lambda>_.
          obind (assert_ok (bfs_is_absolute env norm_real_parent)) (\<lambda>_.
            Inr (path_join env (if norm_archive_parent = [] then ''/'' else norm_archive_parent)
                   (bfs_relative env w norm_source norm_real_parent))))))"

section \<open>The class\<close>

datatype openmode = Tar_create | Tar_open

record tar =
  m_archive :: "nat option"
  m_path :: string
  m_openmode :: openmode

text \<open>The constructor. An archive that could not be set up is freed again.\<close>

definition tar_new :: "('w, 'e) tar_env_scheme \<Rightarrow> string \<Rightarrow> openmode \<Rightarrow> 'w \<Rightarrow> tar \<times> error_code \<times> 'w" where
  "tar_new env filename op w =
     (let obj = \<lparr>m_archive = None, m_path = filename, m_openmode = op\<rparr>
      in if filename = [] then (obj, EINVAL, w)
         else case op of
           Tar_create \<Rightarrow>
             (case ar_write_new env w of
                (None, w1) \<Rightarrow> (obj, sys_errno env w1, w1)
              | (Some arc, w1) \<Rightarrow>
                  (case ar_write_set_format_ustar env arc w1 of (r, w2) \<Rightarrow>
                     if r = ARCHIVE_FATAL then (obj, ar_errno env arc w2, snd (ar_write_free env arc w2))
                     else (case ar_write_open_filename env arc filename w2 of (r, w3) \<Rightarrow>
                       if r = ARCHIVE_FATAL then (obj, ar_errno env arc w3, snd (ar_write_free env arc w3))
                       else (obj\<lparr>m_archive := Some arc\<rparr>, 0, w3))))
         | Tar_open \<Rightarrow>
             (case ar_read_new env w of
                (None, w1) \<Rightarrow> (obj, sys_errno env w1, w1)
              | (Some arc, w1) \<Rightarrow>
                  (case ar_read_support_format_tar env arc w1 of (r, w2) \<Rightarrow>
                     if r = ARCHIVE_FATAL then (obj, ar_errno env arc w2, snd (ar_read_free env arc w2))
                     else (case ar_read_open_filename env arc filename w2 of (r, w3) \<Rightarrow>
                       if r = ARCHIVE_FATAL then (obj, ar_errno env arc w3, snd (ar_read_free env arc w3))
                       else (obj\<lparr>m_archive := Some arc\<rparr>, 0, w3)))))"

definition tar_add_file ::
  "('w, 'e) tar_env_scheme \<Rightarrow> tar \<Rightarrow> string \<Rightarrow> string \<Rightarrow> 'w \<Rightarrow> (error_code \<times> 'w) outcome" where
  "tar_add_file env obj source_file archive_file w =
     (case m_archive obj of
        None \<Rightarrow> Inr (EINVAL, w)
      | Some ar \<Rightarrow>
          if m_openmode obj \<noteq> Tar_create \<or> source_file = [] then Inr (EINVAL, w)
          else (case bfs_canonical env w source_file of (bec, source_path) \<Rightarrow>
            if bec \<noteq> 0 then Inr (bec, w)
            else if \<not> bfs_is_regular env w source_path then Inr (EINVAL, w)
            else (case ar_entry_new env ar w of (ok, w1) \<Rightarrow>
              if \<not> ok then Inr (ar_errno env ar w1, w1)
              else append_file env ar source_path archive_file w1)))"

text \<open>The loop of \<^verbatim>\<open>add_directory\<close> over what the iterator visits. Entries of other types are skipped.\<close>

fun add_paths ::
  "('w, 'e) tar_env_scheme \<Rightarrow> nat \<Rightarrow> string \<Rightarrow> string \<Rightarrow> string list \<Rightarrow> 'w \<Rightarrow> (error_code \<times> 'w) outcome" where
  "add_paths env ar source_path archive_dir [] w = Inr (0, w)"
| "add_paths env ar source_path archive_dir (p # ps) w =
     obind (transform env w p source_path archive_dir) (\<lambda>name.
       if bfs_is_regular env w p then
         obind (append_file env ar p name w) (\<lambda>(ec, w1).
           if ec \<noteq> 0 then Inr (ec, w1) else add_paths env ar source_path archive_dir ps w1)
       else if bfs_is_directory env w p then
         (case append_directory_header env ar p name w of (ec, w1) \<Rightarrow>
            if ec \<noteq> 0 then Inr (ec, w1) else add_paths env ar source_path archive_dir ps w1)
       else add_paths env ar source_path archive_dir ps w)"

text \<open>
  Before the loop an iterator is constructed that nobody uses; unlike the one of the loop it throws when the directory
  cannot be read.
\<close>

definition tar_add_directory ::
  "('w, 'e) tar_env_scheme \<Rightarrow> tar \<Rightarrow> string \<Rightarrow> string \<Rightarrow> 'w \<Rightarrow> (error_code \<times> 'w) outcome" where
  "tar_add_directory env obj source_dir archive_dir w =
     (case m_archive obj of
        None \<Rightarrow> Inr (EINVAL, w)
      | Some ar \<Rightarrow>
          if m_openmode obj \<noteq> Tar_create \<or> source_dir = [] then Inr (EINVAL, w)
          else (case bfs_canonical env w source_dir of (bec, source_path) \<Rightarrow>
            if bec \<noteq> 0 then Inr (bec, w)
            else if \<not> bfs_is_directory env w source_path then Inr (EINVAL, w)
            else (case ar_entry_new env ar w of (ok, w1) \<Rightarrow>
              if \<not> ok then Inr (ar_errno env ar w1, w1)
              else obind (transform env w1 source_path source_path archive_dir) (\<lambda>name.
                case append_directory_header env ar source_path name w1 of (ec, w2) \<Rightarrow>
                  if ec \<noteq> 0 then Inr (ec, w2)
                  else (case bfs_walk env w2 source_path of (error, ps) \<Rightarrow>
                    if error \<noteq> 0 then Inl (Uncaught_Exception ''filesystem_error'')
                    else add_paths env ar source_path archive_dir ps w2)))))"

definition tar_release :: "('w, 'e) tar_env_scheme \<Rightarrow> tar \<Rightarrow> 'w \<Rightarrow> tar \<times> 'w" where
  "tar_release env obj w =
     (case m_archive obj of
        None \<Rightarrow> (obj, w)
      | Some ar \<Rightarrow>
          (obj\<lparr>m_archive := None\<rparr>,
           case m_openmode obj of
             Tar_create \<Rightarrow> snd (ar_write_free env ar (snd (ar_write_close env ar w)))
           | Tar_open \<Rightarrow> snd (ar_read_free env ar (snd (ar_read_close env ar w)))))"

text \<open>The destructor.\<close>

definition tar_destroy :: "('w, 'e) tar_env_scheme \<Rightarrow> tar \<Rightarrow> 'w \<Rightarrow> 'w" where
  "tar_destroy env obj w = snd (tar_release env obj w)"

abbreviation extract_flags :: "extract_flag list" where
  "extract_flags \<equiv> [EXTRACT_PERM, EXTRACT_SECURE_SYMLINKS, EXTRACT_SECURE_NODOTDOT]"

fun extract_loop :: "nat \<Rightarrow> ('w, 'e) tar_env_scheme \<Rightarrow> nat \<Rightarrow> string \<Rightarrow> 'w \<Rightarrow> (error_code \<times> 'w) outcome" where
  "extract_loop 0 env ar parent_dir w = Inl Diverges"
| "extract_loop (Suc fuel) env ar parent_dir w =
     (case ar_read_next_header env ar w of ((rv, pathname), w1) \<Rightarrow>
        if rv = ARCHIVE_EOF then Inr (0, w1)
        else if rv \<noteq> ARCHIVE_OK then Inr (ar_errno env ar w1, w1)
        else case pathname of
            None \<Rightarrow> Inr (ENOMEM, w1)
          | Some p \<Rightarrow>
              (case ar_read_extract env ar (path_join env parent_dir (remove_leading_separator p)) extract_flags w1 of
                 (r, w2) \<Rightarrow>
                   if r \<noteq> ARCHIVE_OK then Inr (ar_errno env ar w2, w2) else extract_loop fuel env ar parent_dir w2))"

text \<open>The canonical name of the destination is computed and its error reported; the entries go under the name as given.\<close>

definition tar_extract :: "('w, 'e) tar_env_scheme \<Rightarrow> tar \<Rightarrow> string \<Rightarrow> 'w \<Rightarrow> (error_code \<times> 'w) outcome" where
  "tar_extract env obj parent_dir w =
     (case m_archive obj of
        None \<Rightarrow> Inr (EINVAL, w)
      | Some ar \<Rightarrow>
          if m_openmode obj \<noteq> Tar_open \<or> parent_dir = [] \<or> \<not> bfs_is_directory env w parent_dir then Inr (EINVAL, w)
          else (case bfs_canonical env w parent_dir of (bec, _) \<Rightarrow>
            if bec \<noteq> 0 then Inr (bec, w) else extract_loop (tar_fuel env) env ar parent_dir w))"

end
