(* ===== verification/Remote_Transferors.thy ===== *)
theory Remote_Transferors
  imports Tar_Archive
begin

text \<open>
  The data movers between two daemons (\<^verbatim>\<open>src/io/transferors/*remote*.cpp\<close>), with the temporary files
  they stage data in (\<^verbatim>\<open>src/utils/temporary-file.cpp\<close>) and the messages of the three remote
  procedure calls (\<^verbatim>\<open>src/rpcs.hpp\<close>). The network library is a parameter.
\<close>

section \<open>Remote procedure calls\<close>

record push_input =
  pu_in_address :: string
  pu_in_nsid :: string
  pu_in_resource_name :: string
  pu_in_is_collection :: bool
  pu_in_buffers :: "exposed_memory option"
  pu_out_nsid :: string
  pu_out_resource_type :: u32
  pu_out_resource_name :: string

record rpc_output =
  ro_status :: u32
  ro_task_error :: u32
  ro_sys_errnum :: u32
  ro_elapsed_time :: u32

record pull_input =
  pl_in_nsid :: string
  pl_in_resource_name :: string
  pl_in_resource_type :: u32
  pl_out_address :: string
  pl_out_nsid :: string
  pl_out_resource_name :: string
  pl_out_buffers :: "exposed_memory option"

record stat_input =
  si_address :: string
  si_nsid :: string
  si_resource_type :: u32
  si_resource_name :: string

record stat_output =
  so_task_error :: u32
  so_sys_errnum :: u32
  so_is_collection :: bool
  so_packed_size :: u64

section \<open>The environment of the network transferors\<close>

text \<open>What the callback of an asynchronous bulk transfer captures.\<close>

record 'w completion =
  co_task :: u32
  co_is_collection :: bool
  co_tempfile :: string
  co_mount :: string
  co_start :: 'w

record 'w net_env = "'w tar_env" +
  staging_directory :: string
  bfs_unique_path :: "string \<Rightarrow> 'w \<Rightarrow> error_code \<times> string \<times> 'w"
  bfs_remove :: "string \<Rightarrow> 'w \<Rightarrow> error_code \<times> 'w"
  sys_msync :: "int \<Rightarrow> u64 \<Rightarrow> 'w \<Rightarrow> int \<times> 'w"
  map_buffer :: "string \<Rightarrow> bool \<Rightarrow> error_code \<Rightarrow> 'w \<Rightarrow> error_code \<times> int \<times> u64 \<times> 'w"
    \<comment> \<open>file, writable, the error code before; the error code after, address, size\<close>
  protect_buffer :: "int \<Rightarrow> error_code \<Rightarrow> 'w \<Rightarrow> error_code \<times> 'w"
  net_self_address :: string
  net_lookup :: "string \<Rightarrow> 'w \<Rightarrow> nat option \<times> 'w"                    \<comment> \<open>\<open>None\<close>: it throws\<close>
  net_expose :: "int \<Rightarrow> u64 \<Rightarrow> bool \<Rightarrow> 'w \<Rightarrow> exposed_memory option \<times> 'w"
  net_push :: "nat \<Rightarrow> push_input \<Rightarrow> 'w \<Rightarrow> rpc_output option \<times> 'w"
    \<comment> \<open>\<^verbatim>\<open>post(...).get()\<close> and the first response; \<open>None\<close>: it throws\<close>
  net_pull :: "nat \<Rightarrow> pull_input \<Rightarrow> 'w \<Rightarrow> rpc_output option \<times> 'w"
  net_stat :: "nat \<Rightarrow> stat_input \<Rightarrow> 'w \<Rightarrow> stat_output option \<times> 'w"
  mem_count :: "exposed_memory option \<Rightarrow> nat"
  mem_size :: "exposed_memory option \<Rightarrow> u64"
  net_async_pull :: "exposed_memory option \<Rightarrow> exposed_memory \<Rightarrow> rpc_handle \<Rightarrow> 'w completion \<Rightarrow> 'w \<Rightarrow> 'w"
  net_async_push :: "exposed_memory \<Rightarrow> exposed_memory option \<Rightarrow> rpc_handle \<Rightarrow> 'w completion \<Rightarrow> 'w \<Rightarrow> 'w"
  net_requires_response :: "rpc_handle \<Rightarrow> bool"
  net_respond :: "rpc_handle \<Rightarrow> rpc_output \<Rightarrow> 'w \<Rightarrow> 'w"
  usecs_u32 :: "'w \<Rightarrow> 'w \<Rightarrow> u32"

section \<open>Temporary files\<close>

text \<open>
  A \<^verbatim>\<open>temporary_file\<close> is its file name, empty when it manages none. The functions take the error code
  the caller passes by reference and return it.
\<close>

definition reallocate :: "('w, 'e) net_env_scheme \<Rightarrow> int \<Rightarrow> u64 \<Rightarrow> error_code \<Rightarrow> 'w \<Rightarrow> error_code \<times> 'w" where
  "reallocate env fh sz ec w =
     (if fh = -1 then (EINVAL, w)
      else if have_fallocate env then
        (case sys_fallocate env fh (uint sz) w of (r, w1) \<Rightarrow>
           if r = -1 then
             (if sys_errno env w1 \<noteq> EOPNOTSUPP then (sys_errno env w1, w1)
              else case sys_ftruncate env fh (uint sz) w1 of (r', w2) \<Rightarrow> (if r' \<noteq> 0 then sys_errno env w2 else ec, w2))
           else (ec, w1))
      else (case sys_ftruncate env fh (uint sz) w of (r', w1) \<Rightarrow> (if r' \<noteq> 0 then sys_errno env w1 else ec, w1)))"

definition temporary_file_create ::
  "('w, 'e) net_env_scheme \<Rightarrow> string \<Rightarrow> string \<Rightarrow> u64 \<Rightarrow> error_code \<Rightarrow> 'w \<Rightarrow> string \<times> error_code \<times> 'w" where
  "temporary_file_create env pattern parent_dir reserve_size ec w =
     (case bfs_unique_path env pattern w of (bec, unique, w1) \<Rightarrow>
        if bec \<noteq> 0 then ([], bec, w1)
        else let filename = po_append (fs_path env) parent_dir unique; (bec, found) = bfs_exists env w1 parent_dir
        in if \<not> found then ([], ENOENT, w1)
           else if bec \<noteq> 0 then ([], bec, w1)
           else (case sys_open env filename O_creat_wronly_excl w1 of (fh, w2) \<Rightarrow>
             if fh = -1 then ([], sys_errno env w2, w2)
             else (case (if reserve_size \<noteq> 0 then reallocate env fh reserve_size ec w2 else (ec, w2)) of
                     (ec', w3) \<Rightarrow> (filename, ec', snd (sys_close env fh w3)))))"

definition temporary_file_destroy :: "('w, 'e) net_env_scheme \<Rightarrow> string \<Rightarrow> 'w \<Rightarrow> 'w" where
  "temporary_file_destroy env m_filename w =
     (if m_filename = [] then w else snd (bfs_remove env m_filename w))"

definition temporary_file_reserve ::
  "('w, 'e) net_env_scheme \<Rightarrow> string \<Rightarrow> u64 \<Rightarrow> error_code \<Rightarrow> 'w \<Rightarrow> error_code \<times> 'w" where
  "temporary_file_reserve env m_filename sz ec w =
     (case sys_open env m_filename O_wronly w of (fh, w1) \<Rightarrow>
        if fh = -1 then (sys_errno env w1, w1)
        else (case reallocate env fh sz ec w1 of (ec', w2) \<Rightarrow> (ec', snd (sys_close env fh w2))))"

definition temporary_file_manage ::
  "('w, 'e) net_env_scheme \<Rightarrow> string \<Rightarrow> string \<Rightarrow> error_code \<Rightarrow> 'w \<Rightarrow> string \<times> error_code" where
  "temporary_file_manage env filename m_filename ec w =
     (case bfs_canonical env w filename of (bec, existing) \<Rightarrow>
        if bec \<noteq> 0 then (m_filename, bec) else (existing, ec))"

definition temporary_file_release :: "string \<Rightarrow> string \<times> string" where
  "temporary_file_release m_filename = (m_filename, [])"

section \<open>Archives\<close>

fun add_entries ::
  "('w, 'e) net_env_scheme \<Rightarrow> tar \<Rightarrow> (bool \<times> string \<times> string) list \<Rightarrow> 'w \<Rightarrow> (error_code \<times> 'w) outcome" where
  "add_entries env ar [] w = Inr (0, w)"
| "add_entries env ar ((is_directory, realpath, archive_path) # es) w =
     obind (if is_directory then tar_add_directory env ar realpath archive_path w
            else tar_add_file env ar realpath archive_path w) (\<lambda>(ec, w1).
       if ec \<noteq> 0 then Inr (ec, w1) else add_entries env ar es w1)"

text \<open>The archive is closed when its object goes out of scope, whatever happened; its file stays.\<close>

definition pack_archive ::
  "('w, 'e) net_env_scheme \<Rightarrow> string \<Rightarrow> string \<Rightarrow> (bool \<times> string \<times> string) list \<Rightarrow> 'w \<Rightarrow> (string \<times> error_code \<times> 'w) outcome" where
  "pack_archive env name_pattern parent_path entries w =
     (case bfs_unique_path env name_pattern w of (bec, unique, w1) \<Rightarrow>
        if bec \<noteq> 0 then Inl (Uncaught_Exception ''filesystem_error'')
        else (case tar_new env (po_append (fs_path env) parent_path unique) Tar_create w1 of (ar, ec, w2) \<Rightarrow>
          if ec \<noteq> 0 then Inr ([], ec, tar_destroy env ar w2)
          else obind (add_entries env ar entries w2) (\<lambda>(ec, w3).
            Inr (if ec \<noteq> 0 then [] else m_path ar, ec, tar_destroy env ar w3))))"

definition unpack_archive :: "('w, 'e) net_env_scheme \<Rightarrow> string \<Rightarrow> string \<Rightarrow> 'w \<Rightarrow> (error_code \<times> 'w) outcome" where
  "unpack_archive env archive_path parent_path w =
     (case tar_new env archive_path Tar_open w of (ar, ec, w1) \<Rightarrow>
        if ec \<noteq> 0 then Inr (ec, tar_destroy env ar w1)
        else obind (tar_extract env ar parent_path w1) (\<lambda>(ec, w2).
          if ec \<noteq> 0 then Inr (ec, tar_destroy env ar w2)
          else (case bfs_remove env (m_path ar) w2 of (bec, w3) \<Rightarrow> Inr (bec, tar_destroy env ar w3))))"

text \<open>The lambda both directions use: the file itself, or an archive of the directory.\<close>

definition archive_pattern :: string where
  "archive_pattern = ''norns-archive-%%%%-%%%%-%%%%.tar''"

definition input_path_of ::
  "('w, 'e) net_env_scheme \<Rightarrow> bool \<Rightarrow> string \<Rightarrow> string \<Rightarrow> 'w \<Rightarrow> (string \<times> string \<times> error_code \<times> 'w) outcome" where
  "input_path_of env coll canonical dst_name w =
     (if \<not> coll then Inr (canonical, [], 0, w)
      else obind (pack_archive env archive_pattern (staging_directory env) [(True, canonical, dst_name)] w) (\<lambda>(ar_path, ec, w1).
        if ec \<noteq> 0 then Inr ([], [], ec, w1)
        else (case temporary_file_manage env ar_path [] 0 w1 of (tempfile, ec) \<Rightarrow>
          if ec \<noteq> 0 then Inr ([], tempfile, ec, w1) else Inr (tempfile, tempfile, 0, w1))))"

section \<open>Views of the two ends\<close>

fun as_local_resource :: "resource option \<Rightarrow> (backend \<times> string \<times> string \<times> bool) outcome" where
  "as_local_resource (Some (Local_path_resource b name cp coll)) = Inr (b, name, cp, coll)"
| "as_local_resource None = Inl Null_Deref"
| "as_local_resource _ = Inl Bad_Cast"

fun as_remote_resource :: "resource option \<Rightarrow> (backend \<times> string \<times> string \<times> exposed_memory option \<times> bool) outcome" where
  "as_remote_resource (Some (Remote_resource b name address nsid buffers coll)) = Inr (b, name, address, buffers, coll)"
| "as_remote_resource None = Inl Null_Deref"
| "as_remote_resource _ = Inl Bad_Cast"

definition any_cast_request :: "task_info \<Rightarrow> rpc_handle outcome" where
  "any_cast_request ti =
     (case ti_ctx ti of None \<Rightarrow> Inl (Uncaught_Exception ''bad_any_cast'') | Some h \<Rightarrow> Inr h)"

definition dbl_of_u32 :: "u32 \<Rightarrow> dbl" where
  "dbl_of_u32 x = Fin (of_nat (unat x))"

section \<open>Pushing to a remote resource\<close>

text \<open>
  The second half of both initiators: expose the buffer, post the request, wait, read the answer.
  An answer that reports an error becomes the error code the peer sent.
\<close>

definition post_push ::
  "('w, 'e) net_env_scheme \<Rightarrow> task_info \<Rightarrow> nat \<Rightarrow> (exposed_memory option \<Rightarrow> push_input) \<Rightarrow> int \<Rightarrow> u64 \<Rightarrow> error_code \<Rightarrow> 'w \<Rightarrow>
     error_code \<times> task_info \<times> 'w" where
  "post_push env ti endp input addr sz ec w =
     (case net_expose env addr sz False w of
        (None, w1) \<Rightarrow> (-1, ti, w1)
      | (Some local_buffers, w1) \<Rightarrow>
          (case net_push env endp (input (Some local_buffers)) w1 of
             (None, w2) \<Rightarrow> (-1, ti, w2)
           | (Some resp, w2) \<Rightarrow>
               if ro_status resp = task_status_index TS_finished_with_error
               then (sint (ro_sys_errnum resp), ti, w2)
               else (ec, record_transfer sz (dbl_of_u32 (ro_elapsed_time resp)) ti, w2)))"

definition local_path_to_remote_resource_transfer ::
  "('w, 'e) net_env_scheme \<Rightarrow> credentials \<Rightarrow> task_info \<Rightarrow> resource option \<Rightarrow> resource option \<Rightarrow> 'w \<Rightarrow>
     (error_code \<times> task_info \<times> 'w) outcome" where
  "local_path_to_remote_resource_transfer env auth ti src dst w =
     obind (as_local_resource src) (\<lambda>(s_parent, s_name, s_path, s_coll).
     obind (as_remote_resource dst) (\<lambda>(d_parent, d_name, d_address, _, _).
     obind (input_path_of env s_coll s_path d_name w) (\<lambda>(input_path, tempfile, ec, w1).
       (case net_lookup env d_address w1 of
          (None, _) \<Rightarrow> Inl (Uncaught_Exception ''lookup'')
        | (Some endp, w2) \<Rightarrow>
            (case map_buffer env input_path False ec w2 of (ec, addr, sz, w3) \<Rightarrow>
               if ec \<noteq> 0 then Inr (ec, ti, temporary_file_destroy env tempfile w3)
               else
                 (case post_push env ti endp
                    (\<lambda>bufs. \<lparr>pu_in_address = net_self_address env, pu_in_nsid = backend_nsid s_parent,
                       pu_in_resource_name = s_name, pu_in_is_collection = s_coll, pu_in_buffers = bufs,
                       pu_out_nsid = backend_nsid d_parent,
                       pu_out_resource_type = resource_type_index RT_local_posix_path,
                       pu_out_resource_name = d_name\<rparr>) addr sz ec w3 of
                    (ec', ti', w4) \<Rightarrow> Inr (ec', ti', temporary_file_destroy env tempfile w4)))))))"

text \<open>The side that receives a push: it pulls the data into a temporary file.\<close>

definition local_path_to_remote_resource_accept ::
  "('w, 'e) net_env_scheme \<Rightarrow> credentials \<Rightarrow> task_info \<Rightarrow> resource option \<Rightarrow> resource option \<Rightarrow> 'w \<Rightarrow>
     (error_code \<times> task_info \<times> 'w) outcome" where
  "local_path_to_remote_resource_accept env auth ti src dst w =
     obind (as_remote_resource src) (\<lambda>(_, s_name, _, remote_buffers, s_coll).
     obind (as_local_resource dst) (\<lambda>(d_parent, d_name, d_path, _).
     obind (any_cast_request ti) (\<lambda>req.
     obind (assert_ok (mem_count env remote_buffers = 1)) (\<lambda>_.
       if s_name = [] \<and> bfs_is_directory env w d_path then Inr (EISDIR, ti, w)
       else
         (case temporary_file_create env (if s_coll then archive_pattern else d_name)
                 (if s_coll then staging_directory env else backend_mount d_parent)
                 (mem_size env remote_buffers) 0 w of (tempfile, ec, w1) \<Rightarrow>
            if ec \<noteq> 0 then Inr (ec, ti, temporary_file_destroy env tempfile w1)
            else (case map_buffer env tempfile True ec w1 of (ec, addr, sz, w2) \<Rightarrow>
              if ec \<noteq> 0 then Inr (ec, ti, temporary_file_destroy env tempfile w2)
              else (case net_expose env addr sz True w2 of
                (None, _) \<Rightarrow> Inl (Uncaught_Exception ''expose'')
              | (Some local_buffers, w3) \<Rightarrow>
                  Inr (ec, ti, net_async_pull env remote_buffers local_buffers req
                    \<lparr>co_task = ti_id ti, co_is_collection = s_coll, co_tempfile = tempfile,
                     co_mount = backend_mount d_parent, co_start = w3\<rparr> w3))))))))"

text \<open>The callback the progress thread runs once the data has arrived.\<close>

definition push_completion_callback ::
  "('w, 'e) net_env_scheme \<Rightarrow> 'w completion \<Rightarrow> rpc_handle \<Rightarrow> task_info \<Rightarrow> 'w \<Rightarrow> (task_info \<times> 'w) outcome" where
  "push_completion_callback env c req ti w =
     (let usecs = usecs_u32 env (co_start c) w;
          ok = \<lparr>ro_status = task_status_index TS_finished, ro_task_error = encode_urd_error UE_success,
                ro_sys_errnum = 0, ro_elapsed_time = usecs\<rparr>
      in obind
           (if co_is_collection c then
              obind (unpack_archive env (co_tempfile c) (co_mount c) w) (\<lambda>(ec, w1).
                Inr (if ec \<noteq> 0 then
                       \<lparr>ro_status = task_status_index TS_finished_with_error,
                        ro_task_error = encode_urd_error UE_system_error,
                        ro_sys_errnum = word_of_int ec, ro_elapsed_time = 0\<rparr>
                     else ok, co_tempfile c, w1))
            else Inr (ok, snd (temporary_file_release (co_tempfile c)), w)) (\<lambda>(out, tempfile, w1).
         let w2 = (if net_requires_response env req then net_respond env req out w1 else w1)
         in Inr (clear_context ti, temporary_file_destroy env tempfile w2)))"

definition local_path_to_remote_resource_transferor :: "('w, 'e) net_env_scheme \<Rightarrow> 'w transferor" where
  "local_path_to_remote_resource_transferor env =
     \<lparr>tr_validate = (\<lambda>_ _. Inr True),
      tr_transfer = local_path_to_remote_resource_transfer env,
      tr_accept_transfer = local_path_to_remote_resource_accept env,
      tr_to_string = ''transferor[local_path => remote_resource]''\<rparr>"

section \<open>Memory region to remote resource\<close>

definition copy_from_process :: "('w, 'e) net_env_scheme \<Rightarrow> int \<Rightarrow> u64 \<Rightarrow> int \<Rightarrow> u64 \<Rightarrow> 'w \<Rightarrow> error_code \<times> 'w" where
  "copy_from_process env pid input_address output_address sz w =
     (case sys_process_vm_readv env pid input_address output_address sz w of (nbytes, w1) \<Rightarrow>
        if nbytes = -1 then (sys_errno env w1, w1)
        else if nbytes < uint sz then (EIO, w1)
        else (case sys_msync env output_address sz w1 of (r, w2) \<Rightarrow>
          (if r \<noteq> 0 then sys_errno env w2 else 0, w2)))"

definition memory_region_to_remote_resource_validate :: "resource_info \<Rightarrow> resource_info \<Rightarrow> bool outcome" where
  "memory_region_to_remote_resource_validate src_info dst_info =
     obind (as_memory_region_info src_info) (\<lambda>(_, sz).
     obind (as_remote_resource_info dst_info) (\<lambda>(_, _, _, name, _).
       if sz = 0 then Inr False
       else obind (string_back name) (\<lambda>c. Inr (c \<noteq> CHR ''/''))))"

fun as_memory_resource :: "resource option \<Rightarrow> (backend \<times> u64 \<times> u64) outcome" where
  "as_memory_resource (Some (Memory_region_resource b a s)) = Inr (b, a, s)"
| "as_memory_resource None = Inl Null_Deref"
| "as_memory_resource _ = Inl Bad_Cast"

definition memory_region_to_remote_resource_transfer ::
  "('w, 'e) net_env_scheme \<Rightarrow> credentials \<Rightarrow> task_info \<Rightarrow> resource option \<Rightarrow> resource option \<Rightarrow> 'w \<Rightarrow>
     (error_code \<times> task_info \<times> 'w) outcome" where
  "memory_region_to_remote_resource_transfer env auth ti src dst w =
     obind (as_memory_resource src) (\<lambda>(s_parent, s_address, s_size).
     obind (as_remote_resource dst) (\<lambda>(d_parent, d_name, d_address, _, _).
       (case temporary_file_create env ''norns-tempfile-%%%%-%%%%-%%%%'' (staging_directory env) s_size 0 w of
          (tempfile, ec, w1) \<Rightarrow>
          if ec \<noteq> 0 then Inr (ec, ti, temporary_file_destroy env tempfile w1)
          else (case map_buffer env tempfile True ec w1 of (ec, addr, sz, w2) \<Rightarrow>
            if ec \<noteq> 0 then Inr (ec, ti, temporary_file_destroy env tempfile w2)
            else (case copy_from_process env (cr_pid auth) s_address addr s_size w2 of (ec, w3) \<Rightarrow>
              if ec \<noteq> 0 then Inr (ec, ti, temporary_file_destroy env tempfile w3)
              else (case protect_buffer env addr ec w3 of (ec, w4) \<Rightarrow>
                if ec \<noteq> 0 then Inr (ec, ti, temporary_file_destroy env tempfile w4)
                else (case net_lookup env d_address w4 of
                  (None, w5) \<Rightarrow> Inr (-1, ti, temporary_file_destroy env tempfile w5)
                | (Some endp, w5) \<Rightarrow>
                    (case post_push env ti endp
                      (\<lambda>bufs. \<lparr>pu_in_address = net_self_address env, pu_in_nsid = backend_nsid s_parent,
                         pu_in_resource_name = [], pu_in_is_collection = False, pu_in_buffers = bufs,
                         pu_out_nsid = backend_nsid d_parent,
                         pu_out_resource_type = resource_type_index RT_local_posix_path,
                         pu_out_resource_name = d_name\<rparr>) addr sz ec w5 of
                      (ec', ti', w6) \<Rightarrow> Inr (ec', ti', temporary_file_destroy env tempfile w6))))))))) "

definition memory_region_to_remote_resource_transferor :: "('w, 'e) net_env_scheme \<Rightarrow> 'w transferor" where
  "memory_region_to_remote_resource_transferor env =
     \<lparr>tr_validate = memory_region_to_remote_resource_validate,
      tr_transfer = memory_region_to_remote_resource_transfer env,
      tr_accept_transfer = never_called,
      tr_to_string = ''transferor[memory_region => remote_resource]''\<rparr>"

section \<open>Pulling from a remote resource\<close>

definition remote_resource_to_local_path_transfer ::
  "('w, 'e) net_env_scheme \<Rightarrow> credentials \<Rightarrow> task_info \<Rightarrow> resource option \<Rightarrow> resource option \<Rightarrow> 'w \<Rightarrow>
     (error_code \<times> task_info \<times> 'w) outcome" where
  "remote_resource_to_local_path_transfer env auth ti src dst w =
     obind (as_remote_resource src) (\<lambda>(s_parent, s_name, s_address, _, _).
     obind (as_local_resource dst) (\<lambda>(d_parent, d_name, _, _).
       (case net_lookup env s_address w of
          (None, _) \<Rightarrow> Inl (Uncaught_Exception ''lookup'')
        | (Some endp, w1) \<Rightarrow>
       (case net_stat env endp \<lparr>si_address = net_self_address env, si_nsid = backend_nsid s_parent,
                                si_resource_type = resource_type_index RT_local_posix_path,
                                si_resource_name = s_name\<rparr> w1 of
          (None, _) \<Rightarrow> Inl (Uncaught_Exception ''stat_resource'')
        | (Some resp, w2) \<Rightarrow>
            if so_task_error resp \<noteq> encode_urd_error UE_success
            then Inr (sint (so_sys_errnum resp), ti, w2)
            else
       (case temporary_file_create env (if so_is_collection resp then archive_pattern else d_name)
               (if so_is_collection resp then staging_directory env else backend_mount d_parent)
               (so_packed_size resp) 0 w2 of (tempfile, ec, w3) \<Rightarrow>
            if ec \<noteq> 0 then Inr (ec, ti, temporary_file_destroy env tempfile w3)
            else
       (case map_buffer env tempfile True ec w3 of (ec, addr, sz, w4) \<Rightarrow>
            if ec \<noteq> 0 then Inr (ec, ti, temporary_file_destroy env tempfile w4)
            else
       (case net_expose env addr sz True w4 of
          (None, _) \<Rightarrow> Inl (Uncaught_Exception ''expose'')
        | (Some local_buffers, w5) \<Rightarrow>
       (case net_pull env endp \<lparr>pl_in_nsid = backend_nsid s_parent, pl_in_resource_name = s_name,
                                pl_in_resource_type = resource_type_index RT_local_posix_path,
                                pl_out_address = net_self_address env, pl_out_nsid = backend_nsid d_parent,
                                pl_out_resource_name = d_name, pl_out_buffers = Some local_buffers\<rparr> w5 of
          (None, _) \<Rightarrow> Inl (Uncaught_Exception ''pull_resource'')
        | (Some resp2, w6) \<Rightarrow>
            if ro_status resp2 = task_status_index TS_finished_with_error
            then Inr (sint (ro_sys_errnum resp2), ti, temporary_file_destroy env tempfile w6)
            else
              let ti' = record_transfer sz (dbl_of_u32 (ro_elapsed_time resp2)) ti
              in if so_is_collection resp then
                   obind (unpack_archive env tempfile (backend_mount d_parent) w6) (\<lambda>(ec', w7).
                     Inr (ec', ti', temporary_file_destroy env tempfile w7))
                 else
                   (let tempfile' = snd (temporary_file_release tempfile)
                    in Inr (ec, ti', temporary_file_destroy env tempfile' w6))))))))))"

text \<open>The side that serves a pull: it pushes the file, or an archive of the directory.\<close>

definition remote_resource_to_local_path_accept ::
  "('w, 'e) net_env_scheme \<Rightarrow> credentials \<Rightarrow> task_info \<Rightarrow> resource option \<Rightarrow> resource option \<Rightarrow> 'w \<Rightarrow>
     (error_code \<times> task_info \<times> 'w) outcome" where
  "remote_resource_to_local_path_accept env auth ti src dst w =
     obind (as_local_resource src) (\<lambda>(_, _, s_path, s_coll).
     obind (as_remote_resource dst) (\<lambda>(_, d_name, _, remote_buffers, _).
     obind (input_path_of env s_coll s_path d_name w) (\<lambda>(input_path, tempfile, ec, w1).
     obind (any_cast_request ti) (\<lambda>req.
       (case map_buffer env input_path False ec w1 of (ec, addr, sz, w2) \<Rightarrow>
          if ec \<noteq> 0 then Inr (ec, ti, temporary_file_destroy env tempfile w2)
          else (case net_expose env addr sz False w2 of
            (None, _) \<Rightarrow> Inl (Uncaught_Exception ''expose'')
          | (Some local_buffers, w3) \<Rightarrow>
              Inr (ec, ti, net_async_push env local_buffers remote_buffers req
                \<lparr>co_task = ti_id ti, co_is_collection = s_coll, co_tempfile = tempfile,
                 co_mount = [], co_start = w3\<rparr> w3)))))))"

definition pull_completion_callback ::
  "('w, 'e) net_env_scheme \<Rightarrow> 'w completion \<Rightarrow> rpc_handle \<Rightarrow> task_info \<Rightarrow> 'w \<Rightarrow> task_info \<times> 'w" where
  "pull_completion_callback env c req ti w =
     (let out = \<lparr>ro_status = task_status_index TS_finished, ro_task_error = encode_urd_error UE_success,
                 ro_sys_errnum = 0, ro_elapsed_time = usecs_u32 env (co_start c) w\<rparr>;
          w1 = (if net_requires_response env req then net_respond env req out w else w)
      in (clear_context ti, temporary_file_destroy env (co_tempfile c) w1))"

definition remote_resource_to_local_path_transferor :: "('w, 'e) net_env_scheme \<Rightarrow> 'w transferor" where
  "remote_resource_to_local_path_transferor env =
     \<lparr>tr_validate = (\<lambda>_ _. Inr True),
      tr_transfer = remote_resource_to_local_path_transfer env,
      tr_accept_transfer = remote_resource_to_local_path_accept env,
      tr_to_string = ''transferor[remote_resource => local_path]''\<rparr>"

section \<open>The network transferors keep the task's metadata\<close>

lemma post_push_frame:
  "post_push env ti endp input addr sz ec w = (ec', ti', w') \<Longrightarrow> same_task ti ti'"
  by (auto simp: post_push_def split: option.splits prod.splits if_splits)

interpretation local_to_remote: mover "local_path_to_remote_resource_transferor env"
proof (rule moverI)
  show "framed ti (tr_transfer (local_path_to_remote_resource_transferor env) auth ti src dst w)" for auth ti src dst w
    unfolding local_path_to_remote_resource_transferor_def transferor.select_convs
      local_path_to_remote_resource_transfer_def
    by (intro post_intros) (auto dest: post_push_frame)
  show "framed ti (tr_accept_transfer (local_path_to_remote_resource_transferor env) auth ti src dst w)" for auth ti src dst w
    unfolding local_path_to_remote_resource_transferor_def transferor.select_convs
      local_path_to_remote_resource_accept_def
    by (intro post_intros) auto
qed

interpretation memory_to_remote: mover "memory_region_to_remote_resource_transferor env"
proof (rule moverI)
  show "framed ti (tr_transfer (memory_region_to_remote_resource_transferor env) auth ti src dst w)" for auth ti src dst w
    unfolding memory_region_to_remote_resource_transferor_def transferor.select_convs
      memory_region_to_remote_resource_transfer_def
    by (intro post_intros) (auto dest: post_push_frame)
qed (simp add: memory_region_to_remote_resource_transferor_def never_called_frame)

interpretation remote_to_local: mover "remote_resource_to_local_path_transferor env"
proof (rule moverI)
  show "framed ti (tr_transfer (remote_resource_to_local_path_transferor env) auth ti src dst w)" for auth ti src dst w
    unfolding remote_resource_to_local_path_transferor_def transferor.select_convs
      remote_resource_to_local_path_transfer_def
    by (intro post_intros) auto
  show "framed ti (tr_accept_transfer (remote_resource_to_local_path_transferor env) auth ti src dst w)" for auth ti src dst w
    unfolding remote_resource_to_local_path_transferor_def transferor.select_convs
      remote_resource_to_local_path_accept_def
    by (intro post_intros) auto
qed

end
