(* ===== verification/Tasks.thy ===== *)
theory Tasks
  imports Transferors
begin

text \<open>
  The I/O tasks of \<^verbatim>\<open>src/io/task-*.hpp\<close> and the type-erased \<^verbatim>\<open>generic_task\<close> of \<^verbatim>\<open>src/io/task.hpp\<close>. A
  task runs in two steps that other threads can tell apart: it marks its metadata as running, then
  does its work and marks it as finished.
\<close>

section \<open>The call operators\<close>

definition task_start :: "task_info \<Rightarrow> task_info" where
  "task_start ti = update_status TS_running ti"

definition log_error :: "error_code \<Rightarrow> task_info \<Rightarrow> task_info" where
  "log_error ec ti = update_status_error TS_finished_with_error UE_system_error ec ti"

definition task_success :: "error_code \<Rightarrow> task_info \<Rightarrow> task_info" where
  "task_success ec ti = update_status_error TS_finished UE_success ec ti"

text \<open>\<^verbatim>\<open>task<iotask_type::copy>::operator()\<close> after the status is set to running.\<close>

definition copy_body ::
  "('w, 'e) fs_env_scheme \<Rightarrow> 'w transferor \<Rightarrow> task_info \<Rightarrow> 'w \<Rightarrow> (task_info \<times> 'w) outcome" where
  "copy_body env tr ti w =
     obind (deref (ti_src_backend ti)) (\<lambda>src_backend.
     obind (deref (ti_dst_backend ti)) (\<lambda>dst_backend.
     obind (deref (ti_src_rinfo ti)) (\<lambda>src_rinfo.
     obind (get_resource env src_backend src_rinfo 0 w) (\<lambda>(src, ec).
       if ec \<noteq> 0 then Inr (log_error ec ti, w)
       else
     obind (deref (ti_dst_rinfo ti)) (\<lambda>dst_rinfo.
     obind (deref src) (\<lambda>s.
     obind (new_resource env dst_backend dst_rinfo (is_collection s) ec w) (\<lambda>(dst, ec, w1).
       if ec \<noteq> 0 then Inr (log_error ec ti, w1)
       else
     obind (tr_transfer tr (ti_auth ti) ti src dst w1) (\<lambda>(ec, ti', w2).
       if ec \<noteq> 0 then Inr (log_error ec ti', w2)
       else Inr (task_success ec ti', w2)))))))))"

definition move_body ::
  "('w, 'e) fs_env_scheme \<Rightarrow> 'w transferor \<Rightarrow> task_info \<Rightarrow> 'w \<Rightarrow> (task_info \<times> 'w) outcome" where
  "move_body env tr ti w =
     obind (deref (ti_src_backend ti)) (\<lambda>src_backend.
     obind (deref (ti_dst_backend ti)) (\<lambda>dst_backend.
     obind (deref (ti_src_rinfo ti)) (\<lambda>src_rinfo.
     obind (get_resource env src_backend src_rinfo 0 w) (\<lambda>(src, ec).
       if ec \<noteq> 0 then Inr (log_error ec ti, w)
       else
     obind (deref (ti_dst_rinfo ti)) (\<lambda>dst_rinfo.
     obind (deref src) (\<lambda>s.
     obind (new_resource env dst_backend dst_rinfo (is_collection s) ec w) (\<lambda>(dst, ec, w1).
       if ec \<noteq> 0 then Inr (log_error ec ti, w1)
       else
     obind (tr_transfer tr (ti_auth ti) ti src dst w1) (\<lambda>(ec, ti', w2).
       if ec \<noteq> 0 then Inr (log_error ec ti', w2)
       else Inr (task_success ec ti', w2)))))))))"

definition remove_body ::
  "('w, 'e) fs_env_scheme \<Rightarrow> task_info \<Rightarrow> 'w \<Rightarrow> (task_info \<times> 'w) outcome" where
  "remove_body env ti w =
     obind (deref (ti_src_backend ti)) (\<lambda>src_backend.
     obind (deref (ti_src_rinfo ti)) (\<lambda>src_rinfo.
     obind (backend_remove env src_backend src_rinfo 0 w) (\<lambda>(ec, w1).
       if ec \<noteq> 0 then Inr (log_error ec ti, w1)
       else Inr (task_success ec ti, w1))))"

definition remote_transfer_body ::
  "('w, 'e) fs_env_scheme \<Rightarrow> 'w transferor \<Rightarrow> task_info \<Rightarrow> 'w \<Rightarrow> (task_info \<times> 'w) outcome" where
  "remote_transfer_body env tr ti w =
     obind (deref (ti_src_rinfo ti)) (\<lambda>src_rinfo.
     obind (deref (ti_dst_rinfo ti)) (\<lambda>dst_rinfo.
     obind (deref (ti_src_backend ti)) (\<lambda>src_backend.
     obind (get_resource env src_backend src_rinfo 0 w) (\<lambda>(src, ec).
       if ec \<noteq> 0 then Inr (log_error ec ti, w)
       else
     obind (deref (ti_dst_backend ti)) (\<lambda>dst_backend.
     obind (deref src) (\<lambda>s.
     obind (new_resource env dst_backend dst_rinfo (is_collection s) ec w) (\<lambda>(dst, ec, w1).
       if ec \<noteq> 0 then Inr (log_error ec ti, w1)
       else
     obind (if ti_is_remote ti then tr_accept_transfer tr (ti_auth ti) ti src dst w1
            else tr_transfer tr (ti_auth ti) ti src dst w1) (\<lambda>(ec, ti', w2).
       if ec \<noteq> 0 then Inr (log_error ec ti', w2)
       else Inr (task_success ec ti', w2)))))))))"

text \<open>The task of a dry run only sleeps; its error fields keep the values of the constructor.\<close>

definition noop_body :: "task_info \<Rightarrow> task_info" where
  "noop_body ti = update_status TS_finished ti"

section \<open>generic_task\<close>

text \<open>A task holds a pointer to its metadata: the address of a cell of the task manager's store.\<close>

type_synonym task_ptr = nat

datatype 'w task_impl =
    Task_copy task_ptr "'w transferor"
  | Task_move task_ptr "'w transferor"
  | Task_remove task_ptr
  | Task_remote_transfer task_ptr "'w transferor"
  | Task_noop task_ptr u32                                \<comment> \<open>metadata, sleep duration\<close>
  | Task_unknown

record 'w generic_task =
  gt_type :: iotask_type
  gt_impl :: "'w task_impl"

definition bad_get :: "'a outcome" where
  "bad_get = Inl (Uncaught_Exception ''bad_get'')"

text \<open>\<^verbatim>\<open>boost::get\<close> throws when the variant holds another alternative.\<close>

fun variant_ptr :: "iotask_type \<Rightarrow> 'w task_impl \<Rightarrow> task_ptr option outcome" where
  "variant_ptr IT_noop (Task_noop p _) = Inr (Some p)"
| "variant_ptr IT_copy (Task_copy p _) = Inr (Some p)"
| "variant_ptr IT_move (Task_move p _) = Inr (Some p)"
| "variant_ptr IT_remove (Task_remove p) = Inr (Some p)"
| "variant_ptr IT_remote_transfer (Task_remote_transfer p _) = Inr (Some p)"
| "variant_ptr IT_unknown _ = Inr None"
| "variant_ptr _ _ = bad_get"

definition generic_task_info :: "'w generic_task \<Rightarrow> task_ptr option outcome" where
  "generic_task_info t = variant_ptr (gt_type t) (gt_impl t)"

definition generic_task_id :: "(task_ptr \<Rightarrow> task_info) \<Rightarrow> 'w generic_task \<Rightarrow> u32 outcome" where
  "generic_task_id heap t =
     obind (variant_ptr (gt_type t) (gt_impl t)) (\<lambda>p. Inr (case p of None \<Rightarrow> 0 | Some a \<Rightarrow> ti_id (heap a)))"

text \<open>
  \<^verbatim>\<open>generic_task::operator()\<close> on the metadata the task points to, without the start, which is the same
  for every task.
\<close>

fun task_body ::
  "('w, 'e) fs_env_scheme \<Rightarrow> iotask_type \<Rightarrow> 'w task_impl \<Rightarrow> task_info \<Rightarrow> 'w \<Rightarrow> (task_info \<times> 'w) outcome" where
  "task_body env IT_noop (Task_noop p _) ti w = Inr (noop_body ti, w)"
| "task_body env IT_copy (Task_copy p tr) ti w = copy_body env tr ti w"
| "task_body env IT_move (Task_move p tr) ti w = move_body env tr ti w"
| "task_body env IT_remove (Task_remove p) ti w = remove_body env ti w"
| "task_body env IT_remote_transfer (Task_remote_transfer p tr) ti w = remote_transfer_body env tr ti w"
| "task_body env IT_unknown _ ti w = Inr (ti, w)"
| "task_body env _ _ ti w = bad_get"

definition run_task ::
  "('w, 'e) fs_env_scheme \<Rightarrow> 'w generic_task \<Rightarrow> task_info \<Rightarrow> 'w \<Rightarrow> (task_info \<times> 'w) outcome" where
  "run_task env t ti w = task_body env (gt_type t) (gt_impl t) (task_start ti) w"

fun impl_transferor :: "'w task_impl \<Rightarrow> 'w transferor option" where
  "impl_transferor (Task_copy _ tr) = Some tr"
| "impl_transferor (Task_move _ tr) = Some tr"
| "impl_transferor (Task_remote_transfer _ tr) = Some tr"
| "impl_transferor _ = None"

section \<open>What a finished task leaves\<close>

text \<open>
  The fields the client sees agree: success exactly when there is no system error, and every failure
  is reported as a system error. Nothing else of the identity of the task changes.
\<close>

definition same_identity :: "task_info \<Rightarrow> task_info \<Rightarrow> bool" where
  "same_identity ti ti' \<longleftrightarrow>
     ti_id ti' = ti_id ti \<and> ti_type ti' = ti_type ti \<and> ti_is_remote ti' = ti_is_remote ti \<and>
     ti_auth ti' = ti_auth ti \<and> ti_src_backend ti' = ti_src_backend ti \<and>
     ti_src_rinfo ti' = ti_src_rinfo ti \<and> ti_dst_backend ti' = ti_dst_backend ti \<and>
     ti_dst_rinfo ti' = ti_dst_rinfo ti \<and> ti_total_bytes ti' = ti_total_bytes ti"

definition coherent_result :: "task_info \<Rightarrow> bool" where
  "coherent_result ti \<longleftrightarrow>
     ti_status ti = TS_finished \<and> ti_task_error ti = UE_success \<and> ti_sys_error ti = 0 \<or>
     ti_status ti = TS_finished_with_error \<and> ti_task_error ti = UE_system_error \<and> ti_sys_error ti \<noteq> 0"

definition completes :: "task_info \<Rightarrow> task_info \<times> 'w \<Rightarrow> bool" where
  "completes ti r \<longleftrightarrow> same_identity ti (fst r) \<and> coherent_result (fst r)"

lemma completes_simps [simp]:
  "completes ti (log_error ec ti', w) \<longleftrightarrow> same_identity ti ti' \<and> ec \<noteq> 0"
  "completes ti (task_success ec ti', w) \<longleftrightarrow> same_identity ti ti' \<and> ec = 0"
  by (auto simp: completes_def same_identity_def coherent_result_def log_error_def task_success_def
      update_status_error_def)

lemma same_identity_refl [simp]: "same_identity ti ti"
  by (simp add: same_identity_def)

lemma same_identity_start [simp]: "same_identity (task_start ti) ti' = same_identity ti ti'"
  by (simp add: same_identity_def task_start_def update_status_def)

lemma same_task_identity: "same_task ti ti' \<Longrightarrow> same_identity ti ti'"
  by (simp add: same_identity_def same_task_def)

context mover
begin

lemma copy_completes: "returns_only (completes ti) (copy_body env tr ti w)"
  unfolding copy_body_def
  by (intro post_intros) (auto intro: same_task_identity dest: transfer_frame)

lemma move_completes: "returns_only (completes ti) (move_body env tr ti w)"
  unfolding move_body_def
  by (intro post_intros) (auto intro: same_task_identity dest: transfer_frame)

lemma remote_transfer_completes: "returns_only (completes ti) (remote_transfer_body env tr ti w)"
  unfolding remote_transfer_body_def
  by (intro post_intros) (auto intro: same_task_identity dest: transfer_frame accept_frame split: if_splits)

end

lemma remove_completes: "returns_only (completes ti) (remove_body env ti w)"
  unfolding remove_body_def by (intro post_intros) auto

lemma noop_completes:
  "ti_task_error ti = UE_success \<Longrightarrow> ti_sys_error ti = 0 \<Longrightarrow> completes ti (noop_body ti, w)"
  by (simp add: completes_def same_identity_def coherent_result_def noop_body_def update_status_def)

definition good_impl :: "'w task_impl \<Rightarrow> bool" where
  "good_impl impl \<longleftrightarrow> (case impl_transferor impl of None \<Rightarrow> True | Some tr \<Rightarrow> mover tr)"

lemma task_body_completes:
  assumes "good_impl impl" and "type \<noteq> IT_unknown"
    and "ti_task_error ti = UE_success" and "ti_sys_error ti = 0"
  shows "returns_only (completes ti) (task_body env type impl ti w)"
  using assms
  by (cases "(env, type, impl, ti, w)" rule: task_body.cases)
    (auto simp: good_impl_def bad_get_def intro!: post_intros remove_completes noop_completes
      mover.copy_completes mover.move_completes mover.remote_transfer_completes)

lemma run_task_completes:
  assumes "good_impl (gt_impl t)" and "gt_type t \<noteq> IT_unknown"
    and "ti_task_error ti = UE_success" and "ti_sys_error ti = 0"
    and "run_task env t ti w = Inr (ti', w')"
  shows "same_identity ti ti' \<and> coherent_result ti'"
proof -
  have "completes (task_start ti) (ti', w')"
    using assms(1-4)
    by (intro returns_onlyD [OF task_body_completes assms(5) [unfolded run_task_def]])
      (simp_all add: task_start_def update_status_def)
  then show ?thesis by (simp add: completes_def)
qed

text \<open>
  C14. A task that returns has finished, and what it reports is coherent: status finished goes with
  task error success and no system error, status finished-with-error with a system error that is not
  zero; the id, type, owner, resources and total of the task are those it was created with.
\<close>

theorem task_result_coherent:
  assumes "good_impl (gt_impl t)" and "gt_type t \<noteq> IT_unknown"
    and "ti_task_error ti = UE_success" and "ti_sys_error ti = 0"
    and "run_task env t ti w = Inr (ti', w')"
  shows "same_identity ti ti' \<and>
    (ti_status ti' = TS_finished \<and> ti_task_error ti' = UE_success \<and> ti_sys_error ti' = 0 \<or>
     ti_status ti' = TS_finished_with_error \<and> ti_task_error ti' = UE_system_error \<and> ti_sys_error ti' \<noteq> 0)"
  using run_task_completes [OF assms] by (simp add: coherent_result_def)

section \<open>A move never removes\<close>

text \<open>Nothing on the path of a move task calls the removal of files, whatever that would do.\<close>

lemmas full_congs = if_cong prod.case_cong option.case_cong

lemma sendfile_loop_no_remove [simp]:
  "sendfile_loop fuel (env\<lparr>bfs_remove_all := f\<rparr>) i o' sz off w = sendfile_loop fuel env i o' sz off w"
proof (induction fuel arbitrary: off w)
  case 0
  then show ?case by (simp add: sendfile_loop.simps)
next
  case (Suc fuel)
  then show ?case
    by (subst (1 2) sendfile_loop.simps) (simp split: prod.splits)
qed

lemma close_retry_no_remove [simp]:
  "close_retry fuel (env\<lparr>bfs_remove_all := f\<rparr>) fd w = close_retry fuel env fd w"
proof (induction fuel arbitrary: w)
  case 0
  then show ?case by (simp add: close_retry.simps cong: full_congs)
next
  case (Suc fuel)
  then show ?case
    by (subst (1 2) close_retry.simps) (simp cong: full_congs)
qed

lemma copy_file_no_remove [simp]:
  "copy_file fuel (env\<lparr>bfs_remove_all := f\<rparr>) ti s d w = copy_file fuel env ti s d w"
  by (simp add: copy_file_def do_sendfile_def get_filesize_def preallocate_def Let_def cong: full_congs)

lemma copy_entries_no_remove [simp]:
  "copy_entries fuel (env\<lparr>bfs_remove_all := f\<rparr>) ti s d ps w = copy_entries fuel env ti s d ps w"
proof (induction ps arbitrary: ti w)
  case Nil
  then show ?case by simp
next
  case (Cons p ps)
  then show ?case by (simp add: Let_def cong: full_congs)
qed

lemma local_transfer_no_remove [simp]:
  "local_path_to_local_path_transferor fuel (env\<lparr>bfs_remove_all := f\<rparr>) = local_path_to_local_path_transferor fuel env"
  by (simp add: local_path_to_local_path_transferor_def copy_directory_def cong: full_congs)

lemma backend_no_remove [simp]:
  "get_resource (env\<lparr>bfs_remove_all := f\<rparr>) b ri ec w = get_resource env b ri ec w"
  "new_resource (env\<lparr>bfs_remove_all := f\<rparr>) b ri c ec w = new_resource env b ri c ec w"
  by (cases b; simp add: posix_get_resource_def posix_new_resource_def make_local_path_resource_def
      path_contains_def Let_def cong: full_congs)+

text \<open>
  A move between local paths never removes the source: whatever the removal of files would do to
  the world, the move task returns the same metadata and the same world. It behaves as a copy.
\<close>

theorem move_never_removes:
  "move_body (env\<lparr>bfs_remove_all := f\<rparr>) (local_path_to_local_path_transferor fuel (env\<lparr>bfs_remove_all := f\<rparr>)) ti w =
     move_body env (local_path_to_local_path_transferor fuel env) ti w \<and>
   move_body env tr ti w = copy_body env tr ti w"
  by (simp add: move_body_def copy_body_def cong: full_congs)

section \<open>Examples\<close>

definition sample_remove_info :: task_info where
  "sample_remove_info = sample_task_info\<lparr>ti_type := IT_remove,
     ti_src_backend := Some (Posix_filesystem ''ns'' False ''/mnt'' 0),
     ti_src_rinfo := Some (Local_path_info ''ns'' ''/a/b''), ti_status := TS_pending\<rparr>"

theorem task_result_coherent_witness:
  "same_identity sample_remove_info (task_success 0 (task_start sample_remove_info))"
proof -
  let ?t = "\<lparr>gt_type = IT_remove, gt_impl = Task_remove 0\<rparr> :: unit generic_task"
  have "lexical_normalize boost_path_ops ''/a/b'' False = ''/a/b''"
    by code_simp
  then have run: "run_task quiet_env ?t sample_remove_info () = Inr (task_success 0 (task_start sample_remove_info), ())"
    by (simp add: run_task_def remove_body_def sample_remove_info_def sample_task_info_def quiet_env_def
        posix_remove_def task_start_def update_status_def)
  show ?thesis
    using task_result_coherent [OF _ _ _ _ run]
    by (simp add: good_impl_def sample_remove_info_def sample_task_info_def)
qed

end
