(* ===== verification/Thread_Pool.thy ===== *)
theory Thread_Pool
  imports Norns_Prelude "HOL-Library.Multiset"
begin

text \<open>
  The work queue (\<^verbatim>\<open>src/io/thread-pool/thread-pool-queue.hpp\<close>) and the pool of worker threads
  (\<^verbatim>\<open>src/io/thread-pool/thread-pool.hpp\<close>). Each critical section of the code, and each step a worker
  takes between two of them, is one step of a transition system; the ghost lists of submitted,
  started and finished items record what happened.
\<close>

section \<open>The blocking queue\<close>

record 'a queue =
  m_valid :: bool
  m_queue :: "'a list"

definition queue_init :: "'a queue" where
  "queue_init = \<lparr>m_valid = True, m_queue = []\<rparr>"

definition try_pop :: "'a queue \<Rightarrow> ('a \<times> 'a queue) option" where
  "try_pop q =
     (if m_queue q = [] \<or> \<not> m_valid q then None
      else Some (hd (m_queue q), q\<lparr>m_queue := tl (m_queue q)\<rparr>))"

text \<open>\<^verbatim>\<open>wait_pop\<close> sleeps until there is an item or the queue is invalid; it returns false when invalid.\<close>

datatype 'a pop_result = Sleeps | Returns_False | Popped 'a "'a queue"

definition wait_pop :: "'a queue \<Rightarrow> 'a pop_result" where
  "wait_pop q =
     (if \<not> (m_queue q \<noteq> [] \<or> \<not> m_valid q) then Sleeps
      else if \<not> m_valid q then Returns_False
      else Popped (hd (m_queue q)) (q\<lparr>m_queue := tl (m_queue q)\<rparr>))"

definition queue_push :: "'a \<Rightarrow> 'a queue \<Rightarrow> 'a queue" where
  "queue_push value q = q\<lparr>m_queue := m_queue q @ [value]\<rparr>"

definition queue_empty :: "'a queue \<Rightarrow> bool" where
  "queue_empty q \<longleftrightarrow> m_queue q = []"

definition queue_clear :: "'a queue \<Rightarrow> 'a queue" where
  "queue_clear q = q\<lparr>m_queue := []\<rparr>"

definition queue_invalidate :: "'a queue \<Rightarrow> 'a queue" where
  "queue_invalidate q = q\<lparr>m_valid := False\<rparr>"

fun drain :: "('q \<Rightarrow> ('a \<times> 'q) option) \<Rightarrow> nat \<Rightarrow> 'q \<Rightarrow> 'a list" where
  "drain pop 0 q = []"
| "drain pop (Suc n) q = (case pop q of None \<Rightarrow> [] | Some (x, q') \<Rightarrow> x # drain pop n q')"

text \<open>What the pool relies on: a first-in first-out queue that gives nothing out once invalid.\<close>

locale work_queue =
  fixes push :: "'a \<Rightarrow> 'q \<Rightarrow> 'q"
    and pop :: "'q \<Rightarrow> ('a \<times> 'q) option"
    and invalidate :: "'q \<Rightarrow> 'q"
    and items :: "'q \<Rightarrow> 'a list"
    and open_q :: "'q \<Rightarrow> bool"
  assumes push_items: "items (push x q) = items q @ [x]"
    and push_open: "open_q (push x q) = open_q q"
    and pop_items: "pop q = Some (x, q') \<Longrightarrow> items q = x # items q' \<and> open_q q \<and> open_q q'"
    and pop_enabled: "open_q q \<Longrightarrow> items q \<noteq> [] \<Longrightarrow> pop q \<noteq> None"
    and invalidate_items: "items (invalidate q) = items q"
    and invalidate_closed: "\<not> open_q (invalidate q)"
begin

lemma pop_closed: "\<not> open_q q \<Longrightarrow> pop q = None"
  using pop_items [of q] by (cases "pop q") auto

text \<open>Popping until the queue is empty gives the items back in the order they were pushed.\<close>

lemma drain_items: "open_q q \<Longrightarrow> length (items q) \<le> n \<Longrightarrow> drain pop n q = items q"
proof (induction n arbitrary: q)
  case (Suc n)
  show ?case
  proof (cases "items q")
    case Nil
    then have "pop q = None" using pop_items [of q] by (cases "pop q") auto
    with Nil show ?thesis by simp
  next
    case (Cons y ys)
    then obtain x q' where "pop q = Some (x, q')"
      using pop_enabled [OF Suc.prems(1)] by fastforce
    with Suc pop_items show ?thesis by fastforce
  qed
qed simp

lemma fold_push_items: "items (fold push xs q) = items q @ xs \<and> open_q (fold push xs q) = open_q q"
  by (induction xs arbitrary: q) (simp_all add: push_items push_open)

end

definition queue_pop :: "'a queue \<Rightarrow> ('a \<times> 'a queue) option" where
  "queue_pop q = (case wait_pop q of Popped x q' \<Rightarrow> Some (x, q') | _ \<Rightarrow> None)"

interpretation wq: work_queue queue_push queue_pop queue_invalidate m_queue m_valid
  by unfold_locales
    (auto simp: queue_push_def queue_pop_def wait_pop_def queue_invalidate_def split: if_splits)

interpretation tq: work_queue queue_push try_pop queue_invalidate m_queue m_valid
  by unfold_locales
    (auto simp: queue_push_def try_pop_def queue_invalidate_def split: if_splits)

text \<open>
  First in, first out: after any list of pushes onto a fresh queue, as many pops give the items
  back in the order they were pushed, with \<^verbatim>\<open>wait_pop\<close> and with \<^verbatim>\<open>try_pop\<close>; after an invalidation
  neither gives anything.
\<close>

theorem queue_fifo:
  "drain queue_pop (length xs) (fold queue_push xs queue_init) = xs \<and>
   drain try_pop (length xs) (fold queue_push xs queue_init) = xs \<and>
   queue_pop (queue_invalidate q) = None \<and> try_pop (queue_invalidate q) = None"
proof -
  have "m_valid (fold queue_push xs queue_init)" and "m_queue (fold queue_push xs queue_init) = xs"
    using wq.fold_push_items [of xs queue_init] by (simp_all add: queue_init_def)
  then show ?thesis
    by (simp add: wq.drain_items tq.drain_items wq.pop_closed wq.invalidate_closed tq.pop_closed)
qed

section \<open>The pool\<close>

datatype 'a worker =
    At_Loop              \<comment> \<open>before the test of \<^verbatim>\<open>m_done\<close>\<close>
  | In_Wait_Pop
  | Executing 'a
  | Exited

datatype stop_phase = Not_Stopped | Done_Set | Invalidated | Joined

record 'a pool =
  m_done :: bool
  m_work_queue :: "'a queue"
  m_threads :: "'a worker list"
  p_stop :: stop_phase              \<comment> \<open>how far the thread in \<^verbatim>\<open>destroy\<close> has got\<close>
  g_submitted :: "'a list"
  g_started :: "'a list"
  g_finished :: "'a list"

definition pool_init :: "nat \<Rightarrow> 'a pool" where
  "pool_init num_threads =
     \<lparr>m_done = False, m_work_queue = queue_init, m_threads = replicate num_threads At_Loop,
      p_stop = Not_Stopped, g_submitted = [], g_started = [], g_finished = []\<rparr>"

definition pool_submit :: "'a \<Rightarrow> 'a pool \<Rightarrow> 'a pool" where
  "pool_submit x p = p\<lparr>m_work_queue := queue_push x (m_work_queue p), g_submitted := g_submitted p @ [x]\<rparr>"

definition update_worker :: "nat \<Rightarrow> 'a worker \<Rightarrow> 'a pool \<Rightarrow> 'a pool" where
  "update_worker i st p = p\<lparr>m_threads := (m_threads p)[i := st]\<rparr>"

text \<open>The steps of worker \<open>i\<close>: the loop test, the pop, the end of \<^verbatim>\<open>execute\<close>.\<close>

definition worker_test :: "nat \<Rightarrow> 'a pool \<Rightarrow> 'a pool option" where
  "worker_test i p =
     (if i < length (m_threads p) \<and> m_threads p ! i = At_Loop
      then Some (update_worker i (if m_done p then Exited else In_Wait_Pop) p) else None)"

definition worker_pop :: "nat \<Rightarrow> 'a pool \<Rightarrow> 'a pool option" where
  "worker_pop i p =
     (if i < length (m_threads p) \<and> m_threads p ! i = In_Wait_Pop
      then (case wait_pop (m_work_queue p) of
              Sleeps \<Rightarrow> None
            | Returns_False \<Rightarrow> Some (update_worker i At_Loop p)
            | Popped x q \<Rightarrow>
                Some ((update_worker i (Executing x) p)\<lparr>m_work_queue := q, g_started := g_started p @ [x]\<rparr>))
      else None)"

definition worker_done :: "nat \<Rightarrow> 'a pool \<Rightarrow> 'a pool option" where
  "worker_done i p =
     (if i < length (m_threads p)
      then (case m_threads p ! i of
              Executing x \<Rightarrow> Some ((update_worker i At_Loop p)\<lparr>g_finished := g_finished p @ [x]\<rparr>)
            | _ \<Rightarrow> None)
      else None)"

text \<open>The three steps of \<^verbatim>\<open>destroy\<close>.\<close>

definition destroy_set_done :: "'a pool \<Rightarrow> 'a pool" where
  "destroy_set_done p = p\<lparr>m_done := True, p_stop := Done_Set\<rparr>"

definition destroy_invalidate :: "'a pool \<Rightarrow> 'a pool option" where
  "destroy_invalidate p =
     (if p_stop p = Done_Set then Some (p\<lparr>m_work_queue := queue_invalidate (m_work_queue p), p_stop := Invalidated\<rparr>)
      else None)"

definition destroy_join :: "'a pool \<Rightarrow> 'a pool option" where
  "destroy_join p =
     (if p_stop p = Invalidated \<and> list_all (\<lambda>st. st = Exited) (m_threads p)
      then Some (p\<lparr>p_stop := Joined\<rparr>) else None)"

inductive worker_step :: "'a pool \<Rightarrow> 'a pool \<Rightarrow> bool" where
  Test: "worker_test i p = Some p' \<Longrightarrow> worker_step p p'"
| Pop: "worker_pop i p = Some p' \<Longrightarrow> worker_step p p'"
| Done: "worker_done i p = Some p' \<Longrightarrow> worker_step p p'"

inductive pool_step :: "'a pool \<Rightarrow> 'a pool \<Rightarrow> bool" where
  Submit: "pool_step p (pool_submit x p)"
| Worker: "worker_step p p' \<Longrightarrow> pool_step p p'"
| Set_Done: "p_stop p = Not_Stopped \<Longrightarrow> pool_step p (destroy_set_done p)"
| Invalidate: "destroy_invalidate p = Some p' \<Longrightarrow> pool_step p p'"
| Join: "destroy_join p = Some p' \<Longrightarrow> pool_step p p'"

inductive_cases worker_stepE: "worker_step p p'"
inductive_cases pool_stepE: "pool_step p p'"

section \<open>Invariant\<close>

fun executing :: "'a worker \<Rightarrow> 'a multiset" where
  "executing (Executing x) = {#x#}"
| "executing _ = {#}"

definition running_items :: "'a pool \<Rightarrow> 'a multiset" where
  "running_items p = sum_list (map executing (m_threads p))"

definition pool_inv :: "'a pool \<Rightarrow> bool" where
  "pool_inv p \<longleftrightarrow>
     g_submitted p = g_started p @ m_queue (m_work_queue p) \<and>
     mset (g_started p) = mset (g_finished p) + running_items p \<and>
     (m_done p \<longleftrightarrow> p_stop p \<noteq> Not_Stopped) \<and>
     (m_valid (m_work_queue p) \<longleftrightarrow> p_stop p \<in> {Not_Stopped, Done_Set}) \<and>
     (\<forall>st \<in> set (m_threads p). st = Exited \<longrightarrow> m_done p) \<and>
     (p_stop p = Joined \<longrightarrow> (\<forall>st \<in> set (m_threads p). st = Exited))"

lemma sum_list_update_mset:
  "i < length xs \<Longrightarrow>
     sum_list (map f (xs[i := y])) + f (xs ! i) = sum_list (map f xs) + (f y :: 'b multiset)"
proof (induction xs arbitrary: i)
  case (Cons x xs)
  then show ?case by (cases i) (simp_all add: ac_simps)
qed simp

lemma running_items_update_worker:
  "i < length (m_threads p) \<Longrightarrow>
     running_items (update_worker i st p) + executing (m_threads p ! i) = running_items p + executing st"
  by (simp add: running_items_def update_worker_def sum_list_update_mset)

lemma running_items_cong: "m_threads p = m_threads p' \<Longrightarrow> running_items p = running_items p'"
  by (simp add: running_items_def)

lemma update_worker_sel [simp]:
  "m_done (update_worker i st p) = m_done p" "m_work_queue (update_worker i st p) = m_work_queue p"
  "p_stop (update_worker i st p) = p_stop p" "g_submitted (update_worker i st p) = g_submitted p"
  "g_started (update_worker i st p) = g_started p" "g_finished (update_worker i st p) = g_finished p"
  "m_threads (update_worker i st p) = (m_threads p)[i := st]"
  by (simp_all add: update_worker_def)

lemma set_updateD: "x \<in> set (xs[i := y]) \<Longrightarrow> x = y \<or> x \<in> set xs"
  using set_update_subset_insert by fastforce

lemma pool_inv_test: "pool_inv p \<Longrightarrow> worker_test i p = Some p' \<Longrightarrow> pool_inv p'"
  using running_items_update_worker [of i p "if m_done p then Exited else In_Wait_Pop"]
  by (auto simp: pool_inv_def worker_test_def split: if_splits dest!: set_updateD)

lemma pool_inv_pop: 
  assumes "pool_inv p" and "worker_pop i p = Some p'"
  shows "pool_inv p'"
proof (cases "wait_pop (m_work_queue p)")
  case Returns_False
  have "i < length (m_threads p)" and "m_threads p ! i = In_Wait_Pop"
    using assms(2) by (auto simp: worker_pop_def split: if_splits)
  then have "In_Wait_Pop \<in> set (m_threads p)" by (metis nth_mem)
  then have "p_stop p \<noteq> Joined"
    using assms(1) by (auto simp: pool_inv_def)
  with Returns_False show ?thesis
    using assms running_items_update_worker [of i p At_Loop]
    by (auto simp: pool_inv_def worker_pop_def split: if_splits dest!: set_updateD)
next
  case (Popped x q)
  then have q: "m_queue (m_work_queue p) = x # m_queue q" "m_valid (m_work_queue p)" "m_valid q"
    using wq.pop_items [of "m_work_queue p" x q] by (simp_all add: queue_pop_def)
  have p': "p' = (update_worker i (Executing x) p)\<lparr>m_work_queue := q, g_started := g_started p @ [x]\<rparr>"
    and i: "i < length (m_threads p)" "m_threads p ! i = In_Wait_Pop"
    using assms(2) Popped by (auto simp: worker_pop_def split: if_splits)
  have "running_items p' = running_items p + {#x#}"
    using running_items_update_worker [of i p "Executing x"] i
    by (simp add: p' running_items_def)
  then show ?thesis
    using assms(1) q i unfolding p' pool_inv_def
    by (auto dest!: set_updateD)
qed (use assms in \<open>simp add: worker_pop_def split: if_splits\<close>)

lemma pool_inv_done: 
  assumes "pool_inv p" and "worker_done i p = Some p'"
  shows "pool_inv p'"
proof -
  obtain x where p': "p' = (update_worker i At_Loop p)\<lparr>g_finished := g_finished p @ [x]\<rparr>"
    and i: "i < length (m_threads p)" "m_threads p ! i = Executing x"
    using assms(2) by (auto simp: worker_done_def split: if_splits worker.splits)
  have "running_items p' + {#x#} = running_items p"
    using running_items_update_worker [of i p At_Loop] i by (simp add: p' running_items_def)
  then show ?thesis
    using assms(1) i unfolding p' pool_inv_def
    by (auto dest!: set_updateD simp: ac_simps) (metis nth_mem worker.distinct)+
qed

lemma pool_inv_step: "pool_inv p \<Longrightarrow> pool_step p p' \<Longrightarrow> pool_inv p'"
proof (erule pool_stepE)
  fix x
  assume "pool_inv p" and "p' = pool_submit x p"
  then show ?thesis
    using running_items_cong [of p' p] by (auto simp: pool_inv_def pool_submit_def queue_push_def)
next
  assume "pool_inv p" and "worker_step p p'"
  then show ?thesis
    by (auto elim!: worker_stepE intro: pool_inv_test pool_inv_pop pool_inv_done)
next
  assume "pool_inv p" and "p' = destroy_set_done p" and "p_stop p = Not_Stopped"
  then show ?thesis
    using running_items_cong [of p' p] by (simp add: pool_inv_def destroy_set_done_def)
next
  assume "pool_inv p" and "destroy_invalidate p = Some p'"
  then show ?thesis
    using running_items_cong [of p' p]
    by (auto simp: pool_inv_def destroy_invalidate_def queue_invalidate_def split: if_splits)
next
  assume "pool_inv p" and "destroy_join p = Some p'"
  then show ?thesis
    using running_items_cong [of p' p]
    by (auto simp: pool_inv_def destroy_join_def list_all_iff split: if_splits)
qed

lemma pool_inv_init: "pool_inv (pool_init n)"
proof -
  have "sum_list (replicate n {#}) = ({#} :: 'a multiset)" by (induction n) simp_all
  then show ?thesis by (auto simp: pool_inv_def pool_init_def queue_init_def running_items_def)
qed

interpretation pool: invariant_system "\<lambda>p. \<exists>n. p = pool_init n" pool_step pool_inv
  by unfold_locales (auto intro: pool_inv_init pool_inv_step)

text \<open>
  C10. The pool neither loses nor repeats nor reorders work: in every reachable state the submitted
  items are the ones workers have started, in order, followed by the ones still queued; and every
  started item has either finished exactly once or is being executed by a worker.
\<close>

theorem pool_exactly_once:
  assumes "reach (\<lambda>p. \<exists>n. p = pool_init n) pool_step p"
  shows "g_submitted p = g_started p @ m_queue (m_work_queue p) \<and>
    mset (g_started p) = mset (g_finished p) + running_items p"
  using pool.inv_reach [OF assms] by (simp add: pool_inv_def)

section \<open>Stopping\<close>

text \<open>Once the pool is stopping, each worker step brings some worker closer to its exit.\<close>

fun worker_rank :: "'a worker \<Rightarrow> nat" where
  "worker_rank (Executing _) = 2"
| "worker_rank In_Wait_Pop = 2"
| "worker_rank At_Loop = 1"
| "worker_rank Exited = 0"

definition pool_rank :: "'a pool \<Rightarrow> nat" where
  "pool_rank p = sum_list (map worker_rank (m_threads p))"

lemma sum_list_update_nat:
  "i < length xs \<Longrightarrow> sum_list (map f (xs[i := y])) + f (xs ! i) = sum_list (map f xs) + (f y :: nat)"
proof (induction xs arbitrary: i)
  case (Cons x xs)
  then show ?case by (cases i) simp_all
qed simp

lemma pool_rank_update_worker:
  "i < length (m_threads p) \<Longrightarrow> worker_rank st < worker_rank (m_threads p ! i) \<Longrightarrow>
     pool_rank (update_worker i st p) < pool_rank p"
  using sum_list_update_nat [of i "m_threads p" worker_rank st] by (simp add: pool_rank_def)

lemma pool_rank_cong [simp]:
  "pool_rank (p\<lparr>g_finished := x\<rparr>) = pool_rank p"
  by (simp add: pool_rank_def)

definition stopping :: "'a pool \<Rightarrow> bool" where
  "stopping p \<longleftrightarrow> m_done p \<and> \<not> m_valid (m_work_queue p)"

lemma stopping_step:
  assumes "stopping p" and "worker_step p p'"
  shows "pool_rank p' < pool_rank p \<and> stopping p' \<and> g_started p' = g_started p"
  using assms
  by (auto elim!: worker_stepE simp: stopping_def worker_test_def worker_pop_def worker_done_def wait_pop_def
      intro!: pool_rank_update_worker split: if_splits worker.splits)

lemma stopping_progress:
  assumes "stopping p" and "\<not> list_all (\<lambda>st. st = Exited) (m_threads p)"
  shows "\<exists>p'. worker_step p p'"
proof -
  obtain i where i: "i < length (m_threads p)" and live: "m_threads p ! i \<noteq> Exited"
    using assms(2) by (auto simp: list_all_iff in_set_conv_nth)
  show ?thesis
  proof (cases "m_threads p ! i")
    case At_Loop
    with i have "worker_test i p \<noteq> None" by (simp add: worker_test_def)
    then show ?thesis by (auto intro: Test)
  next
    case In_Wait_Pop
    with i assms(1) have "worker_pop i p \<noteq> None" by (simp add: worker_pop_def wait_pop_def stopping_def)
    then show ?thesis by (auto intro: Pop)
  next
    case (Executing x)
    with i have "worker_done i p \<noteq> None" by (simp add: worker_done_def)
    then show ?thesis by (auto intro: Done)
  qed (use live in simp)
qed

lemma stopping_joins:
  "stopping p \<Longrightarrow> \<exists>p'. worker_step\<^sup>*\<^sup>* p p' \<and> list_all (\<lambda>st. st = Exited) (m_threads p') \<and> g_started p' = g_started p"
proof (induction "pool_rank p" arbitrary: p rule: less_induct)
  case less
  show ?case
  proof (cases "list_all (\<lambda>st. st = Exited) (m_threads p)")
    case False
    then obtain p1 where step: "worker_step p p1" using stopping_progress less.prems by blast
    with stopping_step [OF less.prems step] less.hyps [of p1] show ?thesis
      by (metis (no_types, lifting) converse_rtranclp_into_rtranclp)
  qed auto
qed

lemma stopping_bound:
  "(worker_step ^^ n) p p' \<Longrightarrow> stopping p \<Longrightarrow> n + pool_rank p' \<le> pool_rank p \<and> g_started p' = g_started p \<and> stopping p'"
proof (induction n arbitrary: p')
  case (Suc n)
  then obtain p1 where p1: "(worker_step ^^ n) p p1" "worker_step p1 p'" by auto
  with Suc.IH [OF p1(1) Suc.prems(2)] stopping_step [of p1 p'] show ?case by fastforce
qed simp

text \<open>
  C11. Stopping the pool terminates and starts nothing new: once \<^verbatim>\<open>destroy\<close> has set \<^verbatim>\<open>m_done\<close> and
  invalidated the queue, the workers can take at most two steps each, whatever the schedule; they
  can always reach the state in which every worker has exited, so the joins return; and on the way
  no queued item is started: what is still queued then is dropped.
\<close>

theorem pool_stop_terminates:
  assumes "stopping p"
  shows "(\<forall>n p'. (worker_step ^^ n) p p' \<longrightarrow> n \<le> 2 * length (m_threads p) \<and> g_started p' = g_started p) \<and>
    (\<exists>p'. worker_step\<^sup>*\<^sup>* p p' \<and> list_all (\<lambda>st. st = Exited) (m_threads p'))"
proof -
  have two: "worker_rank st \<le> 2" for st :: "'a worker" by (cases st) auto
  have "pool_rank p \<le> sum_list (map (\<lambda>_. 2) (m_threads p))"
    unfolding pool_rank_def by (intro sum_list_mono two)
  then have "pool_rank p \<le> 2 * length (m_threads p)" by (simp add: sum_list_triv mult.commute)
  moreover have "n + pool_rank p' \<le> pool_rank p \<and> g_started p' = g_started p" if "(worker_step ^^ n) p p'" for n p'
    using stopping_bound [OF that assms] by simp
  ultimately have "n \<le> 2 * length (m_threads p) \<and> g_started p' = g_started p" if "(worker_step ^^ n) p p'" for n p'
    using that by fastforce
  then show ?thesis using stopping_joins [OF assms] by blast
qed

section \<open>Examples\<close>

definition sample_pool :: "nat pool" where
  "sample_pool = the (destroy_invalidate (destroy_set_done (pool_submit 7 (pool_submit 5 (pool_init 2)))))"

theorem pool_exactly_once_witness:
  "g_submitted (pool_submit (5::nat) (pool_init 2)) =
     g_started (pool_submit (5::nat) (pool_init 2)) @ m_queue (m_work_queue (pool_submit 5 (pool_init 2)))"
proof -
  have "reach (\<lambda>p. \<exists>n. p = pool_init n) pool_step (pool_submit (5::nat) (pool_init 2))"
    by (rule reach_step [where s = "pool_init 2"]) (auto intro: reach_init Submit)
  from pool_exactly_once [OF this] show ?thesis by simp
qed

theorem pool_stop_terminates_witness:
  "\<exists>p'. worker_step\<^sup>*\<^sup>* sample_pool p' \<and> list_all (\<lambda>st. st = Exited) (m_threads p')"
proof -
  have "stopping sample_pool"
    by (simp add: stopping_def sample_pool_def destroy_invalidate_def destroy_set_done_def pool_submit_def
        pool_init_def queue_push_def queue_init_def queue_invalidate_def)
  from pool_stop_terminates [OF this] show ?thesis by simp
qed

end
