(* ===== verification/Task_Manager.thy ===== *)
theory Task_Manager
  imports Tasks Thread_Pool
begin

text \<open>
  The task manager of \<^verbatim>\<open>src/io/task-manager.cpp\<close>: it issues ids, keeps the metadata of every task,
  selects the transferor, hands tasks to the pool, and accounts for the bandwidth of finished ones.
  Metadata is shared between the table, the queued task and the client's lookups, so it lives in a
  store (\<open>m_heap\<close>) and pointers are indices into it. Asserts are compiled in.
\<close>

section \<open>State\<close>

text \<open>What is queued: a task, and whether the completion callback runs after it.\<close>

datatype 'w work = Work "'w generic_task" bool

record 'w task_manager =
  m_id_base :: u32
  m_backlog_size :: u32
  m_dry_run :: bool
  m_dry_run_duration :: u32
  m_task_info :: "(u32, task_ptr) umap"
  m_bandwidth_backlog :: "(string \<times> string, dbl list) umap"
  m_runners :: "'w work pool"
  m_transferor_registry :: "'w transferor_registry"
  m_heap :: "task_info list"

definition task_manager_init :: "u32 \<Rightarrow> u32 \<Rightarrow> bool \<Rightarrow> u32 \<Rightarrow> 'w task_manager" where
  "task_manager_init nrunners backlog_size dry_run dry_run_duration =
     \<lparr>m_id_base = 0, m_backlog_size = backlog_size, m_dry_run = dry_run,
      m_dry_run_duration = dry_run_duration, m_task_info = [], m_bandwidth_backlog = [],
      m_runners = pool_init (unat nrunners), m_transferor_registry = [], m_heap = []\<rparr>"

definition register_transfer_plugin ::
  "resource_type \<Rightarrow> resource_type \<Rightarrow> 'w transferor \<Rightarrow> 'w task_manager \<Rightarrow> bool \<times> 'w task_manager" where
  "register_transfer_plugin t1 t2 trp tm =
     (case transferor_add (t1, t2) trp (m_transferor_registry tm) of
        (b, reg) \<Rightarrow> (b, tm\<lparr>m_transferor_registry := reg\<rparr>))"

section \<open>Creating tasks\<close>

text \<open>\<^verbatim>\<open>m_task_info.emplace(tid, std::make_shared<task_info>(...))\<close>, and the pointer to it.\<close>

definition register_task_info :: "u32 \<Rightarrow> task_info \<Rightarrow> 'w task_manager \<Rightarrow> task_ptr \<times> 'w task_manager" where
  "register_task_info tid ti tm =
     (length (m_heap tm),
      tm\<lparr>m_id_base := tid, m_heap := m_heap tm @ [ti],
         m_task_info := um_emplace tid (length (m_heap tm)) (m_task_info tm)\<rparr>)"

text \<open>The immediately invoked lambda of \<^verbatim>\<open>create_local_initiated_task\<close>.\<close>

definition new_local_task_info ::
  "('w, 'e) fs_env_scheme \<Rightarrow> 'w \<Rightarrow> u32 \<Rightarrow> iotask_type \<Rightarrow> credentials \<Rightarrow> backend option list \<Rightarrow> resource_info list \<Rightarrow>
   'w task_manager \<Rightarrow> (task_ptr \<times> 'w task_manager) outcome" where
  "new_local_task_info env w tid type auth backend_ptrs rinfo_ptrs tm =
     obind (assert_ok (length backend_ptrs = 1 \<or> length backend_ptrs = 2)) (\<lambda>_.
     obind (vec_at backend_ptrs 0) (\<lambda>src_backend.
     obind (vec_at rinfo_ptrs 0) (\<lambda>src_rinfo.
     obind (if length backend_ptrs = 1 then Inr None else vec_at backend_ptrs 1) (\<lambda>dst_backend.
     obind (if length rinfo_ptrs = 1 then Inr None else obind (vec_at rinfo_ptrs 1) (\<lambda>r. Inr (Some r))) (\<lambda>dst_rinfo.
     obind (make_task_info env w tid type False auth src_backend (Some src_rinfo) dst_backend dst_rinfo None) (\<lambda>ti.
       Inr (register_task_info tid ti tm)))))))"

text \<open>The transferor for a pair of resource types, or the error the creation ends with.\<close>

definition select_transferor ::
  "'w task_manager \<Rightarrow> resource_type \<times> resource_type \<Rightarrow> resource_info \<Rightarrow> resource_info \<Rightarrow> (urd_error + 'w transferor) outcome" where
  "select_transferor tm k r1 r2 =
     (case transferor_get (m_transferor_registry tm) k of
        None \<Rightarrow> Inr (Inl UE_not_supported)
      | Some tx \<Rightarrow> obind (tr_validate tx r1 r2) (\<lambda>ok. Inr (if ok then Inr tx else Inl UE_bad_args)))"

definition local_transferor ::
  "'w task_manager \<Rightarrow> iotask_type \<Rightarrow> backend option list \<Rightarrow> resource_info list \<Rightarrow> (urd_error + 'w transferor option) outcome" where
  "local_transferor tm type backend_ptrs rinfo_ptrs =
     (if type = IT_copy \<or> type = IT_move then
        obind (assert_ok (length backend_ptrs = 2)) (\<lambda>_.
        obind (vec_at rinfo_ptrs 0) (\<lambda>r0.
        obind (vec_at rinfo_ptrs 1) (\<lambda>r1.
        obind (select_transferor tm (rinfo_type r0, rinfo_type r1) r0 r1) (\<lambda>sel.
          Inr (map_sum id Some sel)))))
      else Inr (Inr None))"

text \<open>The switch: a task object of the type, or none for a type that is not handled here.\<close>

fun local_task :: "iotask_type \<Rightarrow> task_ptr \<Rightarrow> 'w transferor option \<Rightarrow> u32 \<Rightarrow> nat \<Rightarrow> 'w generic_task option outcome" where
  "local_task IT_remove p tx dur n =
     obind (assert_ok (n = 1)) (\<lambda>_. Inr (Some \<lparr>gt_type = IT_remove, gt_impl = Task_remove p\<rparr>))"
| "local_task IT_copy p tx dur n =
     obind (deref tx) (\<lambda>tr. Inr (Some \<lparr>gt_type = IT_copy, gt_impl = Task_copy p tr\<rparr>))"
| "local_task IT_move p tx dur n =
     obind (deref tx) (\<lambda>tr. Inr (Some \<lparr>gt_type = IT_move, gt_impl = Task_move p tr\<rparr>))"
| "local_task IT_noop p tx dur n = Inr (Some \<lparr>gt_type = IT_noop, gt_impl = Task_noop p dur\<rparr>)"
| "local_task _ p tx dur n = Inr None"

definition create_local_initiated_task ::
  "('w, 'e) fs_env_scheme \<Rightarrow> 'w \<Rightarrow> iotask_type \<Rightarrow> credentials \<Rightarrow> backend option list \<Rightarrow> resource_info list \<Rightarrow>
   'w task_manager \<Rightarrow> (urd_error \<times> 'w generic_task option \<times> 'w task_manager) outcome" where
  "create_local_initiated_task env w type auth backend_ptrs rinfo_ptrs tm =
     (let tid = m_id_base tm + 1
      in if um_count (m_task_info tm) tid \<noteq> 0 then Inr (UE_too_many_tasks, None, tm)
         else
           obind (new_local_task_info env w tid type auth backend_ptrs rinfo_ptrs tm) (\<lambda>(p, tm1).
           obind (local_transferor tm1 type backend_ptrs rinfo_ptrs) (\<lambda>sel.
             case sel of
               Inl err \<Rightarrow> Inr (err, None, tm1)
             | Inr tx \<Rightarrow>
                 obind (local_task (if m_dry_run tm1 then IT_noop else type) p tx
                          (m_dry_run_duration tm1) (length backend_ptrs)) (\<lambda>t.
                   Inr (case t of None \<Rightarrow> UE_bad_args | Some _ \<Rightarrow> UE_success, t, tm1)))))"

text \<open>For a task another daemon asked for, the types are looked up in swapped order.\<close>

definition create_remote_initiated_task ::
  "('w, 'e) fs_env_scheme \<Rightarrow> 'w \<Rightarrow> iotask_type \<Rightarrow> credentials \<Rightarrow> rpc_handle \<Rightarrow> backend option \<Rightarrow> resource_info option \<Rightarrow>
   backend option \<Rightarrow> resource_info option \<Rightarrow> 'w task_manager \<Rightarrow>
     (urd_error \<times> 'w generic_task option \<times> 'w task_manager) outcome" where
  "create_remote_initiated_task env w task_type auth ctx src_backend src_rinfo dst_backend dst_rinfo tm =
     (let tid = m_id_base tm + 1
      in if um_count (m_task_info tm) tid \<noteq> 0 then Inr (UE_too_many_tasks, None, tm)
         else
           obind (make_task_info env w tid task_type True auth src_backend src_rinfo dst_backend dst_rinfo (Some ctx)) (\<lambda>ti.
             case register_task_info tid ti tm of (p, tm1) \<Rightarrow>
           obind (deref dst_rinfo) (\<lambda>dr.
           obind (deref src_rinfo) (\<lambda>sr.
           obind (select_transferor tm1 (rinfo_type dr, rinfo_type sr) sr dr) (\<lambda>sel.
             case sel of
               Inl err \<Rightarrow> Inr (err, None, tm1)
             | Inr tx \<Rightarrow>
                 Inr (UE_success, Some \<lparr>gt_type = task_type, gt_impl = Task_remote_transfer p tx\<rparr>, tm1))))))"

section \<open>Queueing and running\<close>

definition enqueue_task :: "'w generic_task \<Rightarrow> 'w task_manager \<Rightarrow> urd_error \<times> 'w task_manager" where
  "enqueue_task tsk tm =
     (case gt_type tsk of
        IT_remove \<Rightarrow> (UE_success, tm\<lparr>m_runners := pool_submit (Work tsk False) (m_runners tm)\<rparr>)
      | IT_noop \<Rightarrow> (UE_success, tm\<lparr>m_runners := pool_submit (Work tsk False) (m_runners tm)\<rparr>)
      | IT_copy \<Rightarrow> (UE_success, tm\<lparr>m_runners := pool_submit (Work tsk True) (m_runners tm)\<rparr>)
      | IT_move \<Rightarrow> (UE_success, tm\<lparr>m_runners := pool_submit (Work tsk True) (m_runners tm)\<rparr>)
      | _ \<Rightarrow> (UE_bad_args, tm))"

text \<open>\<^verbatim>\<open>boost::circular_buffer::push_back\<close>: the oldest element makes room; capacity 0 keeps nothing.\<close>

definition circular_push :: "nat \<Rightarrow> 'a \<Rightarrow> 'a list \<Rightarrow> 'a list" where
  "circular_push cap x xs =
     (if cap = 0 then [] else if length xs < cap then xs @ [x] else tl xs @ [x])"

definition completion_callback :: "task_ptr \<Rightarrow> 'w task_manager \<Rightarrow> 'w task_manager outcome" where
  "completion_callback p tm =
     obind (vec_at (m_heap tm) p) (\<lambda>ti.
     obind (assert_ok (finished_status (ti_status ti))) (\<lambda>_.
       let bw = ti_bandwidth ti
       in if isnan bw then Inr tm
          else
            obind (deref (ti_src_rinfo ti)) (\<lambda>sr.
            obind (deref (ti_dst_rinfo ti)) (\<lambda>dr.
              let key = (rinfo_nsid sr, rinfo_nsid dr);
                  backlog = um_emplace key [] (m_bandwidth_backlog tm)
              in Inr (tm\<lparr>m_bandwidth_backlog :=
                   um_update key (circular_push (unat (m_backlog_size tm)) bw) backlog\<rparr>)))))"

text \<open>The steps of a worker that executes an item: the task starts, and later it ends.\<close>

definition current_work :: "nat \<Rightarrow> 'w task_manager \<Rightarrow> 'w work option" where
  "current_work i tm =
     (if i < length (m_threads (m_runners tm))
      then (case m_threads (m_runners tm) ! i of Executing x \<Rightarrow> Some x | _ \<Rightarrow> None) else None)"

definition write_heap :: "task_ptr \<Rightarrow> task_info \<Rightarrow> 'w task_manager \<Rightarrow> 'w task_manager" where
  "write_heap p ti tm = tm\<lparr>m_heap := (m_heap tm)[p := ti]\<rparr>"

definition execute_begin :: "nat \<Rightarrow> 'w task_manager \<Rightarrow> 'w task_manager outcome option" where
  "execute_begin i tm =
     (case current_work i tm of
        None \<Rightarrow> None
      | Some (Work t epilog) \<Rightarrow>
          (case generic_task_info t of
             Inl e \<Rightarrow> Some (Inl e)
           | Inr None \<Rightarrow> None
           | Inr (Some p) \<Rightarrow>
               if p < length (m_heap tm) \<and> ti_status (m_heap tm ! p) = TS_pending
               then Some (Inr (write_heap p (task_start (m_heap tm ! p)) tm))
               else None))"

definition execute_end ::
  "('w, 'e) fs_env_scheme \<Rightarrow> nat \<Rightarrow> 'w task_manager \<Rightarrow> 'w \<Rightarrow> ('w task_manager \<times> 'w) outcome option" where
  "execute_end env i tm w =
     (case current_work i tm of
        None \<Rightarrow> None
      | Some (Work t epilog) \<Rightarrow>
          (case generic_task_info t of
             Inl e \<Rightarrow> Some (Inl e)
           | Inr None \<Rightarrow> None
           | Inr (Some p) \<Rightarrow>
               if p < length (m_heap tm) \<and> ti_status (m_heap tm ! p) = TS_running
               then Some
                 (obind (task_body env (gt_type t) (gt_impl t) (m_heap tm ! p) w) (\<lambda>(ti', w').
                  obind (if epilog then completion_callback p (write_heap p ti' tm)
                         else Inr (write_heap p ti' tm)) (\<lambda>tm1.
                  obind (deref (worker_done i (m_runners tm1))) (\<lambda>runners.
                    Inr (tm1\<lparr>m_runners := runners\<rparr>, w')))))
               else None))"

section \<open>Queries\<close>

definition task_find :: "'w task_manager \<Rightarrow> u32 \<Rightarrow> task_ptr option" where
  "task_find tm tid = um_find (m_task_info tm) tid"

definition task_erase :: "u32 \<Rightarrow> 'w task_manager \<Rightarrow> bool \<times> 'w task_manager" where
  "task_erase tid tm =
     (case um_find (m_task_info tm) tid of
        None \<Rightarrow> (False, tm)
      | Some _ \<Rightarrow> (True, tm\<lparr>m_task_info := um_erase tid (m_task_info tm)\<rparr>))"

definition task_count_if :: "(task_info \<Rightarrow> bool) \<Rightarrow> 'w task_manager \<Rightarrow> nat" where
  "task_count_if p tm = um_count_if (\<lambda>a. p (m_heap tm ! a)) (m_task_info tm)"

definition get_avg_bandwidth :: "'w task_manager \<Rightarrow> string \<Rightarrow> string \<Rightarrow> dbl" where
  "get_avg_bandwidth tm nsid1 nsid2 =
     (case um_find (m_bandwidth_backlog tm) (nsid1, nsid2) of
        None \<Rightarrow> NaN
      | Some [] \<Rightarrow> NaN
      | Some bws \<Rightarrow> dbl_div (foldl dbl_add (Fin 0) bws) (Fin (of_nat (length (m_bandwidth_backlog tm)))))"

text \<open>The loop over the table: running and pending counts, whether the estimate is unreliable, estimates.\<close>

fun stats_loop ::
  "'w task_manager \<Rightarrow> (u32 \<times> task_ptr) list \<Rightarrow> u32 \<times> u32 \<times> bool \<times> dbl list \<Rightarrow> (u32 \<times> u32 \<times> bool \<times> dbl list) outcome" where
  "stats_loop tm [] acc = Inr acc"
| "stats_loop tm ((tid, p) # kvs) (running, pending, unreliable, etas) =
     obind (vec_at (m_heap tm) p) (\<lambda>ti.
       let st = stats ti
       in case st_status st of
            TS_running \<Rightarrow>
              obind (deref (ti_src_rinfo ti)) (\<lambda>sr.
              obind (deref (ti_dst_rinfo ti)) (\<lambda>dr.
                let avg_bw = get_avg_bandwidth tm (rinfo_nsid sr) (rinfo_nsid dr)
                in stats_loop tm kvs
                     (running + 1, pending, unreliable \<or> isnan avg_bw,
                      etas @ [dbl_div (dbl_of_u64 (st_pending_bytes st div (1024 * 1024))) avg_bw])))
          | TS_pending \<Rightarrow> stats_loop tm kvs (running, pending + 1, unreliable, etas)
          | _ \<Rightarrow> stats_loop tm kvs (running, pending, unreliable, etas))"

fun max_element :: "dbl list \<Rightarrow> dbl" where
  "max_element [] = NaN"
| "max_element (x # xs) = foldl (\<lambda>m e. if dbl_less m e then e else m) x xs"

definition global_stats_of :: "'w task_manager \<Rightarrow> global_stats outcome" where
  "global_stats_of tm =
     obind (stats_loop tm (m_task_info tm) (0, 0, False, [])) (\<lambda>(running, pending, unreliable, etas).
       Inr \<lparr>gs_running_tasks = running, gs_pending_tasks = pending,
            gs_eta = (if running = 0 then Fin 0 else if unreliable then NaN else max_element etas)\<rparr>)"

section \<open>What creation does\<close>

definition fresh_info :: "u32 \<Rightarrow> task_info \<Rightarrow> bool" where
  "fresh_info tid ti \<longleftrightarrow> ti_id ti = tid \<and> ti_status ti = TS_pending \<and> ti_task_error ti = UE_success \<and>
     ti_sys_error ti = 0 \<and> ti_sent_bytes ti = 0"

lemma make_task_info_fresh:
  "returns_only (\<lambda>ti. fresh_info tid ti \<and> ti_type ti = type \<and> ti_is_remote ti = rem \<and> ti_auth ti = auth \<and>
       ti_src_backend ti = sb \<and> ti_src_rinfo ti = sr \<and> ti_dst_backend ti = db \<and> ti_dst_rinfo ti = dr \<and> ti_ctx ti = ctx)
     (make_task_info env w tid type rem auth sb sr db dr ctx)"
  unfolding make_task_info_def by (intro post_intros) (auto simp: fresh_info_def)

definition work_ptr :: "'w work \<Rightarrow> task_ptr option" where
  "work_ptr x = (case x of Work t _ \<Rightarrow> (case generic_task_info t of Inr po \<Rightarrow> po | Inl _ \<Rightarrow> None))"

definition work_ok :: "'w work \<Rightarrow> bool" where
  "work_ok x = (case x of Work t _ \<Rightarrow>
     good_impl (gt_impl t) \<and> gt_type t \<noteq> IT_unknown \<and> (\<exists>p. generic_task_info t = Inr (Some p)))"

definition registry_ok :: "'w transferor_registry \<Rightarrow> bool" where
  "registry_ok reg \<longleftrightarrow> um_wf reg \<and> (\<forall>k tr. um_find reg k = Some tr \<longrightarrow> mover tr)"

text \<open>The result of a creation: refused, registered but not runnable, or registered with a task.\<close>

definition creation_result :: "'w task_manager \<Rightarrow> urd_error \<times> 'w generic_task option \<times> 'w task_manager \<Rightarrow> bool" where
  "creation_result tm r =
     (case r of (err, t, tm') \<Rightarrow>
        (err = UE_too_many_tasks \<and> t = None \<and> tm' = tm \<and> um_find (m_task_info tm) (m_id_base tm + 1) \<noteq> None) \<or>
        (um_find (m_task_info tm) (m_id_base tm + 1) = None \<and>
         (\<exists>ti. fresh_info (m_id_base tm + 1) ti \<and> tm' = snd (register_task_info (m_id_base tm + 1) ti tm) \<and>
            (case t of
               None \<Rightarrow> err = UE_not_supported \<or> err = UE_bad_args
             | Some tsk \<Rightarrow> err = UE_success \<and> generic_task_info tsk = Inr (Some (length (m_heap tm))) \<and>
                 (\<forall>b. registry_ok (m_transferor_registry tm) \<longrightarrow> work_ok (Work tsk b))))))"

lemma register_fst [simp]: "fst (register_task_info tid ti tm) = length (m_heap tm)"
  by (simp add: register_task_info_def)

lemma register_sel [simp]:
  "m_id_base (snd (register_task_info tid ti tm)) = tid"
  "m_heap (snd (register_task_info tid ti tm)) = m_heap tm @ [ti]"
  "m_task_info (snd (register_task_info tid ti tm)) = um_emplace tid (length (m_heap tm)) (m_task_info tm)"
  "m_runners (snd (register_task_info tid ti tm)) = m_runners tm"
  "m_transferor_registry (snd (register_task_info tid ti tm)) = m_transferor_registry tm"
  "m_dry_run (snd (register_task_info tid ti tm)) = m_dry_run tm"
  "m_bandwidth_backlog (snd (register_task_info tid ti tm)) = m_bandwidth_backlog tm"
  by (simp_all add: register_task_info_def)

lemma new_local_task_info_spec:
  "returns_only (\<lambda>(p, tm'). p = length (m_heap tm) \<and>
       (\<exists>ti. fresh_info tid ti \<and> ti_type ti = type \<and> tm' = snd (register_task_info tid ti tm)))
     (new_local_task_info env w tid type auth bs rs tm)"
  unfolding new_local_task_info_def
  by (intro post_intros)
    (auto simp: register_task_info_def dest: returns_onlyD [OF make_task_info_fresh])

lemma select_transferor_spec:
  "returns_only (\<lambda>sel. case sel of Inl err \<Rightarrow> err = UE_not_supported \<or> err = UE_bad_args
       | Inr tx \<Rightarrow> um_find (m_transferor_registry tm) k = Some tx)
     (select_transferor tm k r1 r2)"
  unfolding select_transferor_def by (intro post_intros) auto

lemma local_transferor_spec:
  "returns_only (\<lambda>sel. case sel of Inl err \<Rightarrow> err = UE_not_supported \<or> err = UE_bad_args
       | Inr None \<Rightarrow> True
       | Inr (Some tx) \<Rightarrow> \<exists>k. um_find (m_transferor_registry tm) k = Some tx)
     (local_transferor tm type bs rs)"
  unfolding local_transferor_def
  by (intro post_intros)
    (auto split: sum.splits dest!: returns_onlyD [OF select_transferor_spec], blast+)

lemma local_task_spec:
  "returns_only (\<lambda>t. case t of None \<Rightarrow> True
      | Some tsk \<Rightarrow> generic_task_info tsk = Inr (Some p) \<and> gt_type tsk \<noteq> IT_unknown \<and>
          (impl_transferor (gt_impl tsk) = None \<or> impl_transferor (gt_impl tsk) = tx))
     (local_task type p tx dur n)"
  by (cases type) (auto simp: generic_task_info_def intro!: post_intros)

lemma create_local_spec:
  "returns_only (creation_result tm) (create_local_initiated_task env w type auth bs rs tm)"
proof (cases "um_find (m_task_info tm) (m_id_base tm + 1)")
  case (Some q)
  then show ?thesis
    by (simp add: create_local_initiated_task_def creation_result_def returns_only_def)
next
  case None
  show ?thesis
    unfolding create_local_initiated_task_def Let_def
    apply (intro post_intros)
     apply (simp add: None)
    subgoal premises pre for r p tm1 sel err
      using returns_onlyD [OF new_local_task_info_spec pre(2)] returns_onlyD [OF local_transferor_spec pre(4)] None pre(3,5)
      by (auto simp: creation_result_def)
    subgoal premises pre for r p tm1 sel tx t
      using returns_onlyD [OF new_local_task_info_spec pre(2)] returns_onlyD [OF local_transferor_spec pre(4)]
        returns_onlyD [OF local_task_spec pre(6)] None pre(3,5)
      by (auto simp: creation_result_def work_ok_def good_impl_def registry_ok_def split: option.splits)
    done
qed

lemma create_remote_spec:
  "returns_only (creation_result tm) (create_remote_initiated_task env w IT_remote_transfer auth ctx sb sr db dr tm)"
proof (cases "um_find (m_task_info tm) (m_id_base tm + 1)")
  case (Some q)
  then show ?thesis
    by (simp add: create_remote_initiated_task_def creation_result_def returns_only_def)
next
  case None
  show ?thesis
    unfolding create_remote_initiated_task_def Let_def
    apply (intro post_intros)
     apply (simp add: None)
    subgoal premises pre for ti p tm1 d s sel err
      using returns_onlyD [OF make_task_info_fresh pre(2)] returns_onlyD [OF select_transferor_spec pre(6)] None pre(3,7)
      by (auto simp: creation_result_def intro!: exI [of _ ti])
    subgoal premises pre for ti p tm1 d s sel tx
      using returns_onlyD [OF make_task_info_fresh pre(2)] returns_onlyD [OF select_transferor_spec pre(6)] None
        arg_cong [OF pre(3), of fst] arg_cong [OF pre(3), of snd] pre(7)
      by (auto simp: creation_result_def work_ok_def good_impl_def registry_ok_def generic_task_info_def
          intro!: exI [of _ ti])
    done
qed

end
