(* ===== verification/Task_Invariant.thy ===== *)
theory Task_Invariant
  imports Task_Manager
begin

text \<open>
  The invariant of the task manager, kept by each of its operations: the table refers to live
  metadata under the right id, what is queued is pending, what a worker executes is pending or
  running, every finished task has a coherent result, and no metadata is worked on twice.
\<close>

section \<open>Invariant\<close>

definition info_ok :: "task_info \<Rightarrow> bool" where
  "info_ok ti \<longleftrightarrow>
     (active_status (ti_status ti) \<and> ti_task_error ti = UE_success \<and> ti_sys_error ti = 0) \<or> coherent_result ti"

definition status_at :: "'w task_manager \<Rightarrow> task_ptr \<Rightarrow> task_status" where
  "status_at tm p = ti_status (m_heap tm ! p)"

definition table_ok :: "'w task_manager \<Rightarrow> bool" where
  "table_ok tm \<longleftrightarrow> um_wf (m_task_info tm) \<and>
     (\<forall>tid p. um_find (m_task_info tm) tid = Some p \<longrightarrow> p < length (m_heap tm) \<and> ti_id (m_heap tm ! p) = tid)"

definition work_inv :: "'w task_manager \<Rightarrow> bool" where
  "work_inv tm \<longleftrightarrow>
     (let r = m_runners tm in
      distinct (map work_ptr (g_submitted r)) \<and>
      (\<forall>x \<in> set (g_submitted r). work_ok x \<and> (\<exists>p < length (m_heap tm). work_ptr x = Some p)) \<and>
      (\<forall>x \<in> set (m_queue (m_work_queue r)). status_at tm (the (work_ptr x)) = TS_pending) \<and>
      (\<forall>x \<in># running_items r. active_status (status_at tm (the (work_ptr x)))) \<and>
      (\<forall>x \<in> set (g_finished r). finished_status (status_at tm (the (work_ptr x)))))"

definition tm_inv :: "'w task_manager \<Rightarrow> bool" where
  "tm_inv tm \<longleftrightarrow> pool_inv (m_runners tm) \<and> registry_ok (m_transferor_registry tm) \<and> table_ok tm \<and>
     (\<forall>ti \<in> set (m_heap tm). info_ok ti) \<and> work_inv tm"

definition submitted_ptrs :: "'w task_manager \<Rightarrow> task_ptr set" where
  "submitted_ptrs tm = the ` work_ptr ` set (g_submitted (m_runners tm))"

section \<open>The items of the pool\<close>

lemma pool_inv_mset:
  "pool_inv p \<Longrightarrow> mset (g_submitted p) = mset (g_finished p) + running_items p + mset (m_queue (m_work_queue p))"
  by (simp add: pool_inv_def)

lemma distinct_map_mset2:
  assumes "distinct (map f xs)" and "mset xs = A + {#x#} + {#y#}"
  shows "f x \<noteq> f y"
proof
  assume eq: "f x = f y"
  have "count (mset (map f xs)) (f x) = count (image_mset f A + {#f x#} + {#f y#}) (f x)"
    using assms(2) by simp
  also have "\<dots> \<ge> 2" using eq by simp
  finally show False
    using assms(1) by (simp add: distinct_count_atmost_1 del: mset_map split: if_splits)
qed

lemma pool_items_cases:
  assumes "pool_inv r" and "distinct (map work_ptr (g_submitted r))" and "x \<in># running_items r"
  shows "y \<in> set (m_queue (m_work_queue r)) \<Longrightarrow> work_ptr x \<noteq> work_ptr y"
    and "y \<in> set (g_finished r) \<Longrightarrow> work_ptr x \<noteq> work_ptr y"
    and "y \<in># running_items r - {#x#} \<Longrightarrow> work_ptr x \<noteq> work_ptr y"
proof -
  have m: "mset (g_submitted r) = mset (g_finished r) + running_items r + mset (m_queue (m_work_queue r))"
    using pool_inv_mset [OF assms(1)] .
  have split: "mset (g_submitted r) = A + {#x#} + {#y#} \<Longrightarrow> work_ptr x \<noteq> work_ptr y" for A y
    using distinct_map_mset2 [OF assms(2)] by blast
  obtain R where R: "running_items r = add_mset x R" using assms(3) by (metis insert_DiffM)
  {
    assume "y \<in> set (m_queue (m_work_queue r))"
    then obtain Q where "mset (m_queue (m_work_queue r)) = add_mset y Q" by (metis insert_DiffM set_mset_mset)
    then show "work_ptr x \<noteq> work_ptr y"
      using m R by (intro split [of "mset (g_finished r) + R + Q"]) simp
  next
    assume "y \<in> set (g_finished r)"
    then obtain Q where "mset (g_finished r) = add_mset y Q" by (metis insert_DiffM set_mset_mset)
    then show "work_ptr x \<noteq> work_ptr y"
      using m R by (intro split [of "Q + R + mset (m_queue (m_work_queue r))"]) simp
  next
    assume "y \<in># running_items r - {#x#}"
    then obtain Q where "R = add_mset y Q" using R by (metis add_mset_remove_trivial insert_DiffM)
    then show "work_ptr x \<noteq> work_ptr y"
      using m R by (intro split [of "mset (g_finished r) + Q + mset (m_queue (m_work_queue r))"]) simp
  }
qed

lemma running_submitted: "pool_inv r \<Longrightarrow> x \<in># running_items r \<Longrightarrow> x \<in> set (g_submitted r)"
  by (metis pool_inv_mset set_mset_mset union_iff)

lemma queued_submitted: "pool_inv r \<Longrightarrow> x \<in> set (m_queue (m_work_queue r)) \<Longrightarrow> x \<in> set (g_submitted r)"
  by (simp add: pool_inv_def)

lemma finished_submitted: "pool_inv r \<Longrightarrow> x \<in> set (g_finished r) \<Longrightarrow> x \<in> set (g_submitted r)"
  by (metis pool_inv_mset set_mset_mset union_iff)

lemma in_sum_list_mset: "y \<in> set ys \<Longrightarrow> z \<in># f y \<Longrightarrow> z \<in># sum_list (map f ys)"
  by (induction ys) auto

lemma current_work_thread:
  "current_work i tm = Some x \<longleftrightarrow>
     i < length (m_threads (m_runners tm)) \<and> m_threads (m_runners tm) ! i = Executing x"
  by (auto simp: current_work_def split: if_splits worker.splits)

lemma current_work_running:
  assumes "current_work i tm = Some x"
  shows "x \<in># running_items (m_runners tm)"
proof -
  have "Executing x \<in> set (m_threads (m_runners tm))"
    using assms by (metis current_work_thread nth_mem)
  then show ?thesis
    unfolding running_items_def by (rule in_sum_list_mset) simp
qed

section \<open>Operations on the table\<close>

lemma status_at_append: "p < length (m_heap tm) \<Longrightarrow> m_heap tm' = m_heap tm @ xs \<Longrightarrow> status_at tm' p = status_at tm p"
  by (simp add: status_at_def nth_append)

lemma work_inv_heap:
  assumes "work_inv tm" and "pool_inv (m_runners tm)" and "m_runners tm' = m_runners tm"
    and "length (m_heap tm) \<le> length (m_heap tm')"
    and "\<And>p. p \<in> submitted_ptrs tm \<Longrightarrow> status_at tm' p = status_at tm p"
  shows "work_inv tm'"
proof -
  have st: "status_at tm' (the (work_ptr x)) = status_at tm (the (work_ptr x))"
    if "x \<in> set (g_submitted (m_runners tm))" for x
    using that assms(5) by (simp add: submitted_ptrs_def)
  show ?thesis
    using assms(1,2,4) unfolding work_inv_def assms(3) Let_def
    by (auto simp: st running_submitted queued_submitted finished_submitted dest: order_less_le_trans)
qed

lemma submitted_bound: "work_inv tm \<Longrightarrow> p \<in> submitted_ptrs tm \<Longrightarrow> p < length (m_heap tm)"
  by (fastforce simp: work_inv_def submitted_ptrs_def Let_def)

lemma tm_inv_register:
  assumes "tm_inv tm" and "fresh_info tid ti" and "um_find (m_task_info tm) tid = None"
  shows "tm_inv (snd (register_task_info tid ti tm))"
proof -
  let ?tm = "snd (register_task_info tid ti tm)"
  have "work_inv ?tm"
    using assms(1)
    by (intro work_inv_heap [of tm ?tm])
      (auto simp: tm_inv_def status_at_def nth_append dest: submitted_bound)
  moreover have "table_ok ?tm"
    using assms by (auto simp: tm_inv_def table_ok_def nth_append fresh_info_def intro: less_SucI)
  ultimately show ?thesis
    using assms by (auto simp: tm_inv_def info_ok_def fresh_info_def)
qed

lemma tm_inv_creation:
  assumes "tm_inv tm" and "creation_result tm (err, t, tm')"
  shows "tm_inv tm'"
  using assms by (auto simp: creation_result_def intro: tm_inv_register)

lemma tm_inv_erase: "tm_inv tm \<Longrightarrow> tm_inv (snd (task_erase tid tm))"
  by (auto simp: tm_inv_def task_erase_def table_ok_def work_inv_def status_at_def split: option.splits if_splits)

lemma tm_inv_plugin: "tm_inv tm \<Longrightarrow> mover tr \<Longrightarrow> tm_inv (snd (register_transfer_plugin t1 t2 tr tm))"
  by (auto simp: tm_inv_def register_transfer_plugin_def transferor_add_def registry_ok_def table_ok_def
      work_inv_def status_at_def split: if_splits option.splits)

section \<open>Queueing\<close>

lemma running_items_submit [simp]: "running_items (pool_submit x r) = running_items r"
  by (simp add: running_items_def pool_submit_def)

lemma tm_inv_submit:
  assumes "tm_inv tm" and "work_ok x" and "work_ptr x = Some p" and "p < length (m_heap tm)"
    and "p \<notin> submitted_ptrs tm" and "status_at tm p = TS_pending"
  shows "tm_inv (tm\<lparr>m_runners := pool_submit x (m_runners tm)\<rparr>)"
proof -
  have new: "work_ptr x \<notin> work_ptr ` set (g_submitted (m_runners tm))"
    using assms(3,5) by (force simp: submitted_ptrs_def)
  have "pool_inv (pool_submit x (m_runners tm))"
    using assms(1) by (auto simp: tm_inv_def intro: pool_inv_step Submit)
  then show ?thesis
    using assms new
    by (auto simp: tm_inv_def table_ok_def work_inv_def status_at_def Let_def)
      (auto simp: pool_submit_def queue_push_def)
qed

lemma enqueue_task_cases:
  "enqueue_task t tm = (UE_bad_args, tm) \<or>
   (\<exists>b. enqueue_task t tm = (UE_success, tm\<lparr>m_runners := pool_submit (Work t b) (m_runners tm)\<rparr>))"
  by (auto simp: enqueue_task_def split: iotask_type.splits)

text \<open>Creation followed by queueing, as the handler of a client's request does it.\<close>

lemma tm_inv_create_enqueue:
  assumes "tm_inv tm" and "creation_result tm (UE_success, Some t, tm1)"
  shows "tm_inv (snd (enqueue_task t tm1))"
proof -
  obtain ti where ti: "fresh_info (m_id_base tm + 1) ti" and tm1: "tm1 = snd (register_task_info (m_id_base tm + 1) ti tm)"
    and p: "generic_task_info t = Inr (Some (length (m_heap tm)))" and ok: "\<And>b. work_ok (Work t b)"
    using assms by (auto simp: creation_result_def tm_inv_def)
  have inv1: "tm_inv tm1" using tm_inv_creation [OF assms] .
  have "length (m_heap tm) \<notin> submitted_ptrs tm1"
    using submitted_bound [of tm "length (m_heap tm)"] assms(1) by (auto simp: tm_inv_def tm1 submitted_ptrs_def)
  moreover have "status_at tm1 (length (m_heap tm)) = TS_pending"
    using ti by (simp add: tm1 status_at_def fresh_info_def)
  ultimately have "tm_inv (tm1\<lparr>m_runners := pool_submit (Work t b) (m_runners tm1)\<rparr>)" for b
    using inv1 p ok by (intro tm_inv_submit [of tm1 _ "length (m_heap tm)"]) (auto simp: work_ptr_def tm1)
  with enqueue_task_cases [of t tm1] inv1 show ?thesis by auto
qed

section \<open>Workers\<close>

lemma work_inv_pool:
  assumes "work_inv tm" and "g_submitted r = g_submitted (m_runners tm)"
    and "set (m_queue (m_work_queue r)) \<subseteq> set (m_queue (m_work_queue (m_runners tm)))"
    and "\<And>x. x \<in># running_items r \<Longrightarrow> x \<in># running_items (m_runners tm) \<or> x \<in> set (m_queue (m_work_queue (m_runners tm)))"
    and "g_finished r = g_finished (m_runners tm)"
  shows "work_inv (tm\<lparr>m_runners := r\<rparr>)"
  using assms unfolding work_inv_def Let_def by (fastforce simp: status_at_def)

lemma tm_inv_pool:
  assumes "tm_inv tm" and "pool_inv r" and "work_inv (tm\<lparr>m_runners := r\<rparr>)"
  shows "tm_inv (tm\<lparr>m_runners := r\<rparr>)"
  using assms by (simp add: tm_inv_def table_ok_def)

lemma running_items_test:
  "worker_test i r = Some r' \<Longrightarrow> running_items r' = running_items r"
  using running_items_update_worker [of i r "if m_done r then Exited else In_Wait_Pop"]
  by (auto simp: worker_test_def split: if_splits)

lemma tm_inv_worker_test:
  assumes "tm_inv tm" and "worker_test i (m_runners tm) = Some r"
  shows "tm_inv (tm\<lparr>m_runners := r\<rparr>)"
proof (rule tm_inv_pool [OF assms(1)])
  show "pool_inv r" using assms by (auto simp: tm_inv_def intro: pool_inv_test)
  show "work_inv (tm\<lparr>m_runners := r\<rparr>)"
    using assms running_items_test [OF assms(2)]
    by (intro work_inv_pool) (auto simp: tm_inv_def worker_test_def split: if_splits)
qed

lemma running_items_pop:
  assumes "worker_pop i r = Some r'"
  shows "running_items r' = running_items r \<and> m_queue (m_work_queue r') = m_queue (m_work_queue r) \<or>
    (\<exists>x. running_items r' = running_items r + {#x#} \<and> m_queue (m_work_queue r) = x # m_queue (m_work_queue r'))"
proof (cases "wait_pop (m_work_queue r)")
  case Returns_False
  then show ?thesis
    using assms running_items_update_worker [of i r At_Loop] by (auto simp: worker_pop_def split: if_splits)
next
  case (Popped x q)
  then have "m_queue (m_work_queue r) = x # m_queue q"
    using wq.pop_items [of "m_work_queue r" x q] by (simp add: queue_pop_def)
  moreover have "running_items r' = running_items r + {#x#}" and "m_work_queue r' = q"
    using assms Popped running_items_update_worker [of i r "Executing x"]
    by (auto simp: worker_pop_def running_items_def split: if_splits)
  ultimately show ?thesis by simp
qed (use assms in \<open>simp add: worker_pop_def split: if_splits\<close>)

lemma tm_inv_worker_pop:
  assumes "tm_inv tm" and "worker_pop i (m_runners tm) = Some r"
  shows "tm_inv (tm\<lparr>m_runners := r\<rparr>)"
proof (rule tm_inv_pool [OF assms(1)])
  show "pool_inv r" using assms by (auto simp: tm_inv_def intro: pool_inv_pop)
  have "g_submitted r = g_submitted (m_runners tm) \<and> g_finished r = g_finished (m_runners tm)"
    using assms(2) by (auto simp: worker_pop_def split: if_splits pop_result.splits)
  then show "work_inv (tm\<lparr>m_runners := r\<rparr>)"
    using assms(1) running_items_pop [OF assms(2)]
    by (intro work_inv_pool) (auto simp: tm_inv_def)
qed

lemma tm_inv_destroy:
  assumes "tm_inv tm"
    and "r = destroy_set_done (m_runners tm) \<and> p_stop (m_runners tm) = Not_Stopped \<or>
         destroy_invalidate (m_runners tm) = Some r \<or> destroy_join (m_runners tm) = Some r"
  shows "tm_inv (tm\<lparr>m_runners := r\<rparr>)"
proof (rule tm_inv_pool [OF assms(1)])
  have "pool_step (m_runners tm) r" using assms(2) by (auto intro: pool_step.intros)
  then show "pool_inv r" using assms(1) by (auto simp: tm_inv_def intro: pool_inv_step)
  show "work_inv (tm\<lparr>m_runners := r\<rparr>)"
    using assms
    by (intro work_inv_pool)
      (auto simp: tm_inv_def destroy_set_done_def destroy_invalidate_def destroy_join_def queue_invalidate_def
        running_items_def split: if_splits)
qed

section \<open>Running a task\<close>

lemma info_ok_start: "info_ok ti \<Longrightarrow> ti_status ti = TS_pending \<Longrightarrow> info_ok (task_start ti)"
  by (auto simp: info_ok_def coherent_result_def task_start_def update_status_def)

lemma write_heap_sel [simp]:
  "m_heap (write_heap p ti tm) = (m_heap tm)[p := ti]" "m_runners (write_heap p ti tm) = m_runners tm"
  "m_task_info (write_heap p ti tm) = m_task_info tm" "m_id_base (write_heap p ti tm) = m_id_base tm"
  "m_transferor_registry (write_heap p ti tm) = m_transferor_registry tm"
  by (simp_all add: write_heap_def)

lemma status_write_heap:
  "p < length (m_heap tm) \<Longrightarrow> status_at (write_heap p ti tm) q = (if q = p then ti_status ti else status_at tm q)"
  by (simp add: status_at_def nth_list_update)

lemma table_ok_write:
  "table_ok tm \<Longrightarrow> p < length (m_heap tm) \<Longrightarrow> ti_id ti = ti_id (m_heap tm ! p) \<Longrightarrow> table_ok (write_heap p ti tm)"
  by (auto simp: table_ok_def nth_list_update)

lemma heap_ok_write:
  "\<forall>ti \<in> set (m_heap tm). info_ok ti \<Longrightarrow> info_ok ti' \<Longrightarrow> \<forall>ti \<in> set (m_heap (write_heap p ti' tm)). info_ok ti"
  by (auto dest: set_updateD)

text \<open>Metadata of a task that is not queued: a remote-initiated task, or a completed one.\<close>

lemma tm_inv_write_free:
  assumes "tm_inv tm" and "p < length (m_heap tm)" and "info_ok ti" and "ti_id ti = ti_id (m_heap tm ! p)"
    and "p \<in> submitted_ptrs tm \<Longrightarrow> ti_status ti = ti_status (m_heap tm ! p)"
  shows "tm_inv (write_heap p ti tm)"
proof -
  have inv: "pool_inv (m_runners tm)" "registry_ok (m_transferor_registry tm)" "table_ok tm"
    "\<forall>ti \<in> set (m_heap tm). info_ok ti" "work_inv tm"
    using assms(1) by (simp_all add: tm_inv_def)
  have "status_at (write_heap p ti tm) q = status_at tm q" if "q \<in> submitted_ptrs tm" for q
    using that assms(2,5) by (auto simp: status_write_heap) (simp add: status_at_def)
  then have "work_inv (write_heap p ti tm)"
    by (intro work_inv_heap [OF inv(5,1)]) simp_all
  moreover have "table_ok (write_heap p ti tm)" by (rule table_ok_write [OF inv(3) assms(2,4)])
  ultimately show ?thesis
    unfolding tm_inv_def using inv heap_ok_write [OF inv(4) assms(3)] by simp
qed

lemma tm_inv_write_running:
  assumes "tm_inv tm" and "current_work i tm = Some x" and "work_ptr x = Some p"
    and "info_ok ti" and "ti_id ti = ti_id (m_heap tm ! p)" and "active_status (ti_status ti)"
  shows "tm_inv (write_heap p ti tm)"
proof -
  let ?r = "m_runners tm" and ?tm = "write_heap p ti tm"
  have inv: "pool_inv ?r" "registry_ok (m_transferor_registry tm)" "table_ok tm"
    "\<forall>ti \<in> set (m_heap tm). info_ok ti" "work_inv tm"
    using assms(1) by (simp_all add: tm_inv_def)
  have x: "x \<in># running_items ?r" by (rule current_work_running [OF assms(2)])
  have d: "distinct (map work_ptr (g_submitted ?r))" using inv(5) by (simp add: work_inv_def Let_def)
  note items = pool_items_cases [OF inv(1) d x]
  have sub: "\<exists>q < length (m_heap tm). work_ptr y = Some q" if "y \<in> set (g_submitted ?r)" for y
    using that inv(5) by (auto simp: work_inv_def Let_def)
  from sub [OF running_submitted [OF inv(1) x]] have p: "p < length (m_heap tm)" using assms(3) by auto
  have st: "status_at ?tm q = (if q = p then ti_status ti else status_at tm q)" for q
    by (rule status_write_heap [OF p])
  have "status_at ?tm (the (work_ptr y)) = TS_pending" if "y \<in> set (m_queue (m_work_queue ?r))" for y
    using that items(1) [OF that] inv(5) sub [OF queued_submitted [OF inv(1) that]] assms(3)
    by (auto simp: st work_inv_def Let_def)
  moreover have "active_status (status_at ?tm (the (work_ptr y)))" if "y \<in># running_items ?r" for y
    using that assms(6) inv(5) by (auto simp: st work_inv_def Let_def)
  moreover have "finished_status (status_at ?tm (the (work_ptr y)))" if "y \<in> set (g_finished ?r)" for y
    using that items(2) [OF that] inv(5) sub [OF finished_submitted [OF inv(1) that]] assms(3)
    by (auto simp: st work_inv_def Let_def)
  ultimately have "work_inv ?tm"
    using inv(5) by (simp add: work_inv_def Let_def)
  moreover have "table_ok ?tm" by (rule table_ok_write [OF inv(3) p assms(5)])
  ultimately show ?thesis
    unfolding tm_inv_def using inv heap_ok_write [OF inv(4) assms(4)] by simp
qed

lemma tm_inv_execute_begin:
  assumes "tm_inv tm" and "execute_begin i tm = Some (Inr tm')"
  shows "tm_inv tm'"
proof -
  obtain t b p where x: "current_work i tm = Some (Work t b)" and g: "generic_task_info t = Inr (Some p)"
    and p: "p < length (m_heap tm)" "ti_status (m_heap tm ! p) = TS_pending"
    and tm': "tm' = write_heap p (task_start (m_heap tm ! p)) tm"
    using assms(2) by (auto simp: execute_begin_def split: option.splits work.splits sum.splits if_splits)
  have "info_ok (m_heap tm ! p)" using assms(1) p(1) by (simp add: tm_inv_def)
  then show ?thesis
    unfolding tm' using p g
    by (intro tm_inv_write_running [OF assms(1) x])
      (auto simp: work_ptr_def info_ok_start, auto simp: task_start_def update_status_def)
qed

lemma worker_done_items:
  assumes "worker_done i r = Some r'"
  shows "\<exists>x. m_threads r ! i = Executing x \<and> i < length (m_threads r) \<and> running_items r = running_items r' + {#x#} \<and>
    g_finished r' = g_finished r @ [x] \<and> g_submitted r' = g_submitted r \<and> m_work_queue r' = m_work_queue r"
proof -
  obtain x where i: "i < length (m_threads r)" "m_threads r ! i = Executing x"
    and r': "r' = (update_worker i At_Loop r)\<lparr>g_finished := g_finished r @ [x]\<rparr>"
    using assms by (auto simp: worker_done_def split: if_splits worker.splits)
  have "running_items r = running_items r' + {#x#}"
    using running_items_update_worker [OF i(1), of At_Loop] i(2) by (simp add: r' running_items_def)
  with i r' show ?thesis by auto
qed

lemma tm_inv_finish:
  assumes "tm_inv tm" and "current_work i tm = Some x" and "work_ptr x = Some p"
    and "info_ok ti" and "ti_id ti = ti_id (m_heap tm ! p)" and "finished_status (ti_status ti)"
    and "worker_done i (m_runners tm) = Some r"
  shows "tm_inv ((write_heap p ti tm)\<lparr>m_runners := r, m_bandwidth_backlog := bl\<rparr>)"
proof -
  let ?r = "m_runners tm" and ?tm = "(write_heap p ti tm)\<lparr>m_runners := r, m_bandwidth_backlog := bl\<rparr>"
  have inv: "pool_inv ?r" "registry_ok (m_transferor_registry tm)" "table_ok tm"
    "\<forall>ti \<in> set (m_heap tm). info_ok ti" "work_inv tm"
    using assms(1) by (simp_all add: tm_inv_def)
  have x: "x \<in># running_items ?r" by (rule current_work_running [OF assms(2)])
  have d: "distinct (map work_ptr (g_submitted ?r))" using inv(5) by (simp add: work_inv_def Let_def)
  note items = pool_items_cases [OF inv(1) d x]
  have sub: "\<exists>q < length (m_heap tm). work_ptr y = Some q" if "y \<in> set (g_submitted ?r)" for y
    using that inv(5) by (auto simp: work_inv_def Let_def)
  from sub [OF running_submitted [OF inv(1) x]] have p: "p < length (m_heap tm)" using assms(3) by auto
  have st: "status_at ?tm q = (if q = p then ti_status ti else status_at tm q)" for q
    using status_write_heap [OF p] by (simp add: status_at_def)
  have r: "running_items ?r = running_items r + {#x#}" "g_finished r = g_finished ?r @ [x]"
    "g_submitted r = g_submitted ?r" "m_work_queue r = m_work_queue ?r"
    using worker_done_items [OF assms(7)] assms(2) by (auto simp: current_work_thread)
  have "status_at ?tm (the (work_ptr y)) = TS_pending" if "y \<in> set (m_queue (m_work_queue ?r))" for y
    using that items(1) [OF that] inv(5) sub [OF queued_submitted [OF inv(1) that]] assms(3)
    by (auto simp: st work_inv_def Let_def)
  moreover have "active_status (status_at ?tm (the (work_ptr y)))" if y: "y \<in># running_items r" for y
    using y items(3) [of y] inv(5) sub [OF running_submitted [OF inv(1), of y]] assms(3) r(1)
    by (auto simp: st work_inv_def Let_def)
  moreover have "finished_status (status_at ?tm (the (work_ptr y)))" if "y \<in> set (g_finished r)" for y
    using that inv(5) assms(3,6) items(2) [of y] sub [OF finished_submitted [OF inv(1), of y]] r(2)
    by (auto simp: st work_inv_def Let_def)
  ultimately have "work_inv ?tm"
    using inv(5) r by (simp add: work_inv_def Let_def)
  moreover have "table_ok ?tm" using table_ok_write [OF inv(3) p assms(5)] by (simp add: table_ok_def)
  moreover have "pool_inv r" by (rule pool_inv_done [OF inv(1) assms(7)])
  ultimately show ?thesis
    unfolding tm_inv_def using inv heap_ok_write [OF inv(4) assms(4)] by simp
qed

lemma completion_callback_backlog:
  "returns_only (\<lambda>tm'. \<exists>bl. tm' = tm\<lparr>m_bandwidth_backlog := bl\<rparr>) (completion_callback p tm)"
proof -
  have "\<exists>bl. tm = tm\<lparr>m_bandwidth_backlog := bl\<rparr>" by (rule exI [of _ "m_bandwidth_backlog tm"]) simp
  then show ?thesis
    unfolding completion_callback_def by (intro post_intros) auto
qed

text \<open>What the end of an execution does: the task's body, and nothing else on other metadata.\<close>

lemma execute_end_cases:
  assumes "execute_end env i tm w = Some (Inr (tm', w'))"
  obtains t b p ti' r bl where "current_work i tm = Some (Work t b)" and "generic_task_info t = Inr (Some p)"
    and "p < length (m_heap tm)" and "ti_status (m_heap tm ! p) = TS_running"
    and "task_body env (gt_type t) (gt_impl t) (m_heap tm ! p) w = Inr (ti', w')"
    and "worker_done i (m_runners tm) = Some r"
    and "tm' = (write_heap p ti' tm)\<lparr>m_runners := r, m_bandwidth_backlog := bl\<rparr>"
proof -
  obtain t b p where x: "current_work i tm = Some (Work t b)" and g: "generic_task_info t = Inr (Some p)"
    and p: "p < length (m_heap tm)" "ti_status (m_heap tm ! p) = TS_running"
    and e: "obind (task_body env (gt_type t) (gt_impl t) (m_heap tm ! p) w) (\<lambda>(ti', w').
              obind (if b then completion_callback p (write_heap p ti' tm) else Inr (write_heap p ti' tm)) (\<lambda>tm1.
              obind (deref (worker_done i (m_runners tm1))) (\<lambda>runners. Inr (tm1\<lparr>m_runners := runners\<rparr>, w')))) =
            Inr (tm', w')"
    using assms by (auto simp: execute_end_def split: option.splits work.splits sum.splits if_splits)
  obtain ti' tm1 r where body: "task_body env (gt_type t) (gt_impl t) (m_heap tm ! p) w = Inr (ti', w')"
    and cb: "(if b then completion_callback p (write_heap p ti' tm) else Inr (write_heap p ti' tm)) = Inr tm1"
    and r: "worker_done i (m_runners tm1) = Some r" and tm': "tm' = tm1\<lparr>m_runners := r\<rparr>"
    using e by (auto simp: outcome_simps)
  have "\<exists>bl. tm1 = (write_heap p ti' tm)\<lparr>m_bandwidth_backlog := bl\<rparr>"
  proof (cases b)
    case True
    with cb returns_onlyD [OF completion_callback_backlog] show ?thesis by fastforce
  next
    case False
    with cb show ?thesis by (auto intro: exI [of _ "m_bandwidth_backlog tm"] simp: write_heap_def)
  qed
  then obtain bl where "tm1 = (write_heap p ti' tm)\<lparr>m_bandwidth_backlog := bl\<rparr>" ..
  with that [OF x g p body, of r bl] r tm' show ?thesis by simp
qed

lemma tm_inv_execute_end:
  assumes "tm_inv tm" and "execute_end env i tm w = Some (Inr (tm', w'))"
  shows "tm_inv tm'"
  using assms(2)
proof (rule execute_end_cases)
  fix t b p ti' r bl
  assume x: "current_work i tm = Some (Work t b)" and g: "generic_task_info t = Inr (Some p)"
    and p: "p < length (m_heap tm)" and st: "ti_status (m_heap tm ! p) = TS_running"
    and body: "task_body env (gt_type t) (gt_impl t) (m_heap tm ! p) w = Inr (ti', w')"
    and r: "worker_done i (m_runners tm) = Some r"
    and tm': "tm' = (write_heap p ti' tm)\<lparr>m_runners := r, m_bandwidth_backlog := bl\<rparr>"
  have "work_ok (Work t b)"
    using assms(1) running_submitted [OF _ current_work_running [OF x]]
    by (auto simp: tm_inv_def work_inv_def Let_def)
  moreover have "info_ok (m_heap tm ! p)" using assms(1) p by (simp add: tm_inv_def)
  ultimately have "completes (m_heap tm ! p) (ti', w')"
    using st by (intro returns_onlyD [OF task_body_completes body]) (auto simp: work_ok_def info_ok_def coherent_result_def)
  then have "same_identity (m_heap tm ! p) ti'" and "coherent_result ti'" by (simp_all add: completes_def)
  then show ?thesis
    unfolding tm'
    by (intro tm_inv_finish [OF assms(1) x _ _ _ _ r])
      (auto simp: g work_ptr_def info_ok_def same_identity_def coherent_result_def)
qed

lemma tm_inv_init: "tm_inv (task_manager_init n bs dr du)"
proof -
  have p: "pool_inv (pool_init (unat n) :: 'a work pool)" by (rule pool_inv_init)
  then have "running_items (pool_init (unat n) :: 'a work pool) = {#}"
    by (simp add: pool_inv_def pool_init_def)
  with p show ?thesis
    by (simp add: tm_inv_def task_manager_init_def registry_ok_def table_ok_def work_inv_def Let_def)
      (simp add: pool_init_def queue_init_def)
qed

end
