(* ===== verification/Task_Queries.thy ===== *)
theory Task_Queries
  imports Task_Invariant
begin

text \<open>
  Properties of single operations of the task manager: what the creation of a task registers, the
  bandwidth backlog, and the global statistics.
\<close>

section \<open>Creation\<close>

text \<open>
  Creating a task for a client: when the next id is still taken the request is refused and
  nothing changes. Otherwise the metadata of a pending task is registered under that id, which no
  other task has, and all other entries and metadata stay as they are; a task object comes back
  exactly when the answer is success, and it refers to the new metadata.
\<close>

theorem create_local_registers:
  assumes "create_local_initiated_task env w type auth bs rs tm = Inr (err, t, tm')"
  shows "(err = UE_too_many_tasks \<and> t = None \<and> tm' = tm \<and> task_find tm (m_id_base tm + 1) \<noteq> None) \<or>
    (task_find tm (m_id_base tm + 1) = None \<and>
     m_id_base tm' = m_id_base tm + 1 \<and>
     task_find tm' = (task_find tm)(m_id_base tm + 1 \<mapsto> length (m_heap tm)) \<and>
     (\<exists>ti. m_heap tm' = m_heap tm @ [ti] \<and> ti_id ti = m_id_base tm + 1 \<and> ti_status ti = TS_pending) \<and>
     m_runners tm' = m_runners tm \<and>
     (case t of
        None \<Rightarrow> err = UE_not_supported \<or> err = UE_bad_args
      | Some tsk \<Rightarrow> err = UE_success \<and> generic_task_info tsk = Inr (Some (length (m_heap tm)))))"
proof -
  have "creation_result tm (err, t, tm')" by (rule returns_onlyD [OF create_local_spec assms])
  then show ?thesis
    by (auto simp: creation_result_def task_find_def fresh_info_def fun_eq_iff split: option.splits)
qed

definition sample_manager :: "unit task_manager" where
  "sample_manager = task_manager_init 2 4 True 100"

theorem create_local_registers_witness:
  "\<exists>t tm'. create_local_initiated_task quiet_env () IT_remove credentials_default
     [Some (Remote_backend ''ns'')] [Remote_path_info ''ns'' ''host'' ''/a''] sample_manager = Inr (UE_success, t, tm') \<and>
     m_id_base tm' = 1"
proof -
  let ?r = "create_local_initiated_task quiet_env () IT_remove credentials_default
     [Some (Remote_backend ''ns'')] [Remote_path_info ''ns'' ''host'' ''/a''] sample_manager"
  have "\<exists>t tm'. ?r = Inr (UE_success, t, tm')"
    by (simp add: create_local_initiated_task_def new_local_task_info_def make_task_info_def local_transferor_def
        sample_manager_def task_manager_init_def register_task_info_def)
  then obtain t tm' where r: "?r = Inr (UE_success, t, tm')" by blast
  from create_local_registers [OF r] have "m_id_base tm' = 1"
    by (simp add: sample_manager_def task_manager_init_def)
  with r show ?thesis by blast
qed

section \<open>The bandwidth backlog\<close>

lemma circular_push_window:
  "circular_push cap x (drop (length xs - cap) xs) = drop (Suc (length xs) - cap) (xs @ [x])"
  by (auto simp: circular_push_def Suc_diff_le tl_drop drop_Suc)

lemma fold_circular_push: "fold (circular_push cap) xs [] = drop (length xs - cap) xs"
  by (induction xs rule: rev_induct) (simp_all add: circular_push_window)

text \<open>
  The backlog of a pair of namespaces keeps the last samples: pushing a list of bandwidths into
  an empty circular buffer leaves its last \<^verbatim>\<open>backlog_size\<close> elements, in order.
\<close>

theorem backlog_keeps_last:
  "fold (circular_push cap) xs [] = drop (length xs - cap) xs"
  by (rule fold_circular_push)

lemma foldl_dbl_add_const: "foldl dbl_add (Fin a) (replicate n (Fin b)) = Fin (a + of_nat n * b)"
  by (induction n arbitrary: a) (simp_all add: algebra_simps)

text \<open>
  The average bandwidth is not the average: for a pair of namespaces whose buffer holds \<open>n\<close> equal
  samples \<open>b\<close>, the value is \<open>n * b\<close> divided by the number of pairs in the backlog, not by \<open>n\<close>.
\<close>

theorem avg_bandwidth_divides_by_pairs:
  assumes "um_find (m_bandwidth_backlog tm) (n1, n2) = Some (replicate n (Fin b))" and "0 < n"
  shows "get_avg_bandwidth tm n1 n2 = Fin (of_nat n * b / of_nat (length (m_bandwidth_backlog tm)))"
proof -
  have "m_bandwidth_backlog tm \<noteq> []" using assms(1) by auto
  moreover obtain m where n: "n = Suc m" using assms(2) by (cases n) auto
  moreover have "foldl dbl_add (Fin 0) (Fin b # replicate m (Fin b)) = Fin (of_nat n * b)"
    using foldl_dbl_add_const [of 0 n b] by (simp add: n)
  ultimately show ?thesis
    using assms(1) by (simp add: get_avg_bandwidth_def)
qed

theorem avg_bandwidth_divides_by_pairs_witness:
  "get_avg_bandwidth (sample_manager\<lparr>m_bandwidth_backlog := [((''a'', ''b''), replicate 3 (Fin 100))]\<rparr>) ''a'' ''b'' = Fin 300"
  using avg_bandwidth_divides_by_pairs
    [of "sample_manager\<lparr>m_bandwidth_backlog := [((''a'', ''b''), replicate 3 (Fin 100))]\<rparr>" "''a''" "''b''" 3 100]
  by simp

section \<open>Global statistics\<close>

abbreviation in_status :: "'w task_manager \<Rightarrow> task_status \<Rightarrow> u32 \<times> task_ptr \<Rightarrow> bool" where
  "in_status tm st kv \<equiv> ti_status (m_heap tm ! snd kv) = st"

lemma stats_loop_counts:
  "returns_only (\<lambda>(running, pending, unreliable, etas).
       running = r + of_nat (length (filter (in_status tm TS_running) kvs)) \<and>
       pending = p + of_nat (length (filter (in_status tm TS_pending) kvs)))
     (stats_loop tm kvs (r, p, u, e))"
proof (induction kvs arbitrary: r p u e)
  case Nil
  then show ?case by (simp add: returns_only_def)
next
  case (Cons kv kvs)
  obtain tid a where kv: "kv = (tid, a)" by (cases kv)
  show ?case
  proof (cases "a < length (m_heap tm)")
    case False
    then show ?thesis by (simp add: kv vec_at_def returns_only_def)
  next
    case True
    then have at: "vec_at (m_heap tm) a = Inr (m_heap tm ! a)" by (simp add: vec_at_def)
    show ?thesis
    proof (cases "ti_status (m_heap tm ! a)")
      case TS_running
      then show ?thesis
        unfolding kv stats_loop.simps at
        using Cons.IH [of "r + 1" p]
        by (auto simp: stats_def Let_def returns_only_def outcome_simps algebra_simps) blast+
    next
      case TS_pending
      then show ?thesis
        unfolding kv stats_loop.simps at
        using Cons.IH [of r "p + 1"]
        by (auto simp: stats_def Let_def returns_only_def algebra_simps) 
    qed (use Cons.IH [of r p] in \<open>auto simp: kv at stats_def Let_def returns_only_def\<close>)
  qed
qed

lemma um_count_if_filter:
  "task_count_if (\<lambda>ti. ti_status ti = st) tm = length (filter (in_status tm st) (m_task_info tm))"
  by (simp add: task_count_if_def um_count_if_def)

text \<open>
  The global statistics count: when they are returned, the running and pending counts are the
  numbers of tasks in the table with that status (modulo the 32-bit width), and with no running task
  the estimate is 0.
\<close>

theorem global_stats_counts:
  assumes "global_stats_of tm = Inr gs"
  shows "gs_running_tasks gs = of_nat (task_count_if (\<lambda>ti. ti_status ti = TS_running) tm) \<and>
    gs_pending_tasks gs = of_nat (task_count_if (\<lambda>ti. ti_status ti = TS_pending) tm) \<and>
    (gs_running_tasks gs = 0 \<longrightarrow> gs_eta gs = Fin 0)"
proof -
  obtain r p u e where loop: "stats_loop tm (m_task_info tm) (0, 0, False, []) = Inr (r, p, u, e)"
    and gs: "gs = \<lparr>gs_running_tasks = r, gs_pending_tasks = p,
      gs_eta = (if r = 0 then Fin 0 else if u then NaN else max_element e)\<rparr>"
    using assms by (auto simp: global_stats_of_def outcome_simps)
  from returns_onlyD [OF stats_loop_counts loop] show ?thesis
    by (simp add: gs um_count_if_filter)
qed

definition one_running :: "unit task_manager" where
  "one_running = sample_manager\<lparr>m_task_info := [(1, 0)],
     m_heap := [sample_task_info\<lparr>ti_src_rinfo := Some (Local_path_info ''a'' ''/x''),
                                 ti_dst_rinfo := Some (Local_path_info ''b'' ''/y'')\<rparr>]\<rparr>"

theorem global_stats_counts_witness:
  "\<exists>gs. global_stats_of one_running = Inr gs \<and>
     gs_running_tasks gs = of_nat (task_count_if (\<lambda>ti. ti_status ti = TS_running) one_running)"
proof -
  have "\<exists>gs. global_stats_of one_running = Inr gs"
    by (simp add: global_stats_of_def one_running_def sample_task_info_def stats_def Let_def vec_at_def)
  then obtain gs where gs: "global_stats_of one_running = Inr gs" ..
  from global_stats_counts [OF gs] gs show ?thesis by blast
qed

lemma stats_loop_null:
  assumes "\<forall>kv \<in> set kvs. snd kv < length (m_heap tm)"
    and "kv \<in> set kvs" and "in_status tm TS_running kv" and "ti_dst_rinfo (m_heap tm ! snd kv) = None"
    and "\<forall>kv \<in> set kvs. ti_src_rinfo (m_heap tm ! snd kv) \<noteq> None"
  shows "stats_loop tm kvs acc = Inl Null_Deref"
  using assms
proof (induction kvs arbitrary: acc)
  case (Cons k kvs)
  obtain tid a r p u e where k: "k = (tid, a)" and acc: "acc = (r, p, u, e)"
    by (cases k; cases acc) auto
  have at: "vec_at (m_heap tm) a = Inr (m_heap tm ! a)"
    using Cons.prems(1) by (simp add: vec_at_def k)
  obtain sr where sr: "ti_src_rinfo (m_heap tm ! a) = Some sr" using Cons.prems(5) by (auto simp: k)
  show ?case
  proof (cases "kv = k")
    case True
    with Cons.prems at sr show ?thesis by (simp add: k acc stats_def Let_def)
  next
    case False
    then have IH: "stats_loop tm kvs acc' = Inl Null_Deref" for acc'
      using Cons.prems by (intro Cons.IH) auto
    show ?thesis
      by (cases "ti_status (m_heap tm ! a)"; cases "ti_dst_rinfo (m_heap tm ! a)")
        (simp_all add: k acc at stats_def Let_def IH sr)
  qed
qed simp

text \<open>
  A running task without a destination brings the daemon down: while a remove task runs, asking
  for the global statistics dereferences the null pointer to its destination.
\<close>

theorem global_stats_null_destination:
  assumes "\<forall>kv \<in> set (m_task_info tm). snd kv < length (m_heap tm) \<and> ti_src_rinfo (m_heap tm ! snd kv) \<noteq> None"
    and "task_find tm tid = Some p" and "ti_status (m_heap tm ! p) = TS_running"
    and "ti_dst_rinfo (m_heap tm ! p) = None"
  shows "global_stats_of tm = Inl Null_Deref"
proof -
  have "(tid, p) \<in> set (m_task_info tm)" using assms(2) by (simp add: task_find_def um_find_in_set)
  then have "stats_loop tm (m_task_info tm) (0, 0, False, []) = Inl Null_Deref"
    using assms by (intro stats_loop_null [where kv = "(tid, p)"]) auto
  then show ?thesis by (simp add: global_stats_of_def)
qed

theorem global_stats_null_destination_witness:
  "global_stats_of (one_running\<lparr>m_heap := [task_start sample_remove_info]\<rparr>) = Inl Null_Deref"
  by (rule global_stats_null_destination [of _ 1 0])
    (simp_all add: one_running_def task_find_def sample_remove_info_def sample_task_info_def task_start_def update_status_def)

end
