(* ===== verification/Api_Message.thy ===== *)
theory Api_Message
  imports Norns_Types
begin

text \<open>
  The wire format of the local API (\<^verbatim>\<open>src/api/message.hpp\<close>): a header of eight bytes with the length of
  the body in network byte order, then the body; and the dispatch table of
  \<^verbatim>\<open>src/common/dispatch-table.hpp\<close>. The byte order of the host is a parameter (\<open>big\<close>).
\<close>

unbundle bit_operations_syntax

section \<open>Bytes and words\<close>

definition byte_of :: "'a::len word \<Rightarrow> nat \<Rightarrow> byte" where
  "byte_of x k = ucast (drop_bit (8 * k) x)"

text \<open>The bytes of a word from the least significant one, and the word of such bytes.\<close>

definition le_bytes :: "nat \<Rightarrow> 'a::len word \<Rightarrow> byte list" where
  "le_bytes n x = map (byte_of x) [0..<n]"

fun of_le_bytes :: "byte list \<Rightarrow> 'a::len word" where
  "of_le_bytes [] = 0"
| "of_le_bytes (b # bs) = ucast b OR push_bit 8 (of_le_bytes bs)"

lemma length_le_bytes [simp]: "length (le_bytes n x) = n"
  by (simp add: le_bytes_def)

lemma nth_le_bytes [simp]: "k < n \<Longrightarrow> le_bytes n x ! k = byte_of x k"
  by (simp add: le_bytes_def)

lemma bit_byte_of: "bit (byte_of x k) m \<longleftrightarrow> m < 8 \<and> bit x (8 * k + m)"
  by (auto simp: byte_of_def bit_simps)

lemma bit_of_le_bytes:
  "bit (of_le_bytes bs :: 'a::len word) n \<longleftrightarrow>
     n < LENGTH('a) \<and> n div 8 < length bs \<and> bit (bs ! (n div 8)) (n mod 8)"
proof (induction bs arbitrary: n)
  case Nil
  then show ?case by simp
next
  case (Cons b bs)
  show ?case
  proof (cases "n < 8")
    case True
    then show ?thesis by (auto simp: bit_simps)
  next
    case False
    then obtain m where n: "n = m + 8" by (metis le_add_diff_inverse2 not_less)
    have "n div 8 = Suc (m div 8)" and "n mod 8 = m mod 8" by (simp_all add: n)
    moreover have "\<not> bit b n" using False by (auto dest: bit_imp_le_length)
    ultimately show ?thesis using Cons.IH [of m] n by (auto simp: bit_simps)
  qed
qed

lemma of_le_bytes_le_bytes:
  "LENGTH('a) \<le> 8 * n \<Longrightarrow> of_le_bytes (le_bytes n x) = (x :: 'a::len word)"
proof (rule bit_word_eqI)
  fix m
  assume n: "LENGTH('a) \<le> 8 * n" and m: "m < LENGTH('a)"
  then have "m div 8 < n" by (simp add: less_mult_imp_div_less mult.commute)
  then show "bit (of_le_bytes (le_bytes n x) :: 'a word) m = bit x m"
    using m by (simp add: bit_of_le_bytes bit_byte_of)
qed

lemma byte_of_of_le_bytes:
  assumes "k < length bs" and "8 * length bs \<le> LENGTH('a)"
  shows "byte_of (of_le_bytes bs :: 'a::len word) k = bs ! k"
proof (rule bit_word_eqI)
  fix m
  assume "m < LENGTH(8)"
  then have "m < 8" by simp
  moreover have "8 * k + m < LENGTH('a)" using assms \<open>m < 8\<close> by linarith
  ultimately show "bit (byte_of (of_le_bytes bs :: 'a word) k) m = bit (bs ! k) m"
    using assms(1) by (simp add: bit_byte_of bit_of_le_bytes)
qed

section \<open>Byte order\<close>

text \<open>The library functions \<^verbatim>\<open>htonl\<close> and \<^verbatim>\<open>ntohl\<close>: the identity, or a reversal of the four bytes.\<close>

definition htonl :: "bool \<Rightarrow> u32 \<Rightarrow> u32" where
  "htonl big x = (if big then x else of_le_bytes (rev (le_bytes 4 x)))"

abbreviation ntohl :: "bool \<Rightarrow> u32 \<Rightarrow> u32" where
  "ntohl \<equiv> htonl"

definition htonll :: "bool \<Rightarrow> u64 \<Rightarrow> u64" where
  "htonll big x =
     (if 1 = htonl big 1 then x
      else push_bit 32 (ucast (htonl big (ucast (x AND 0xFFFFFFFF)))) OR ucast (htonl big (ucast (drop_bit 32 x))))"

definition ntohll :: "bool \<Rightarrow> u64 \<Rightarrow> u64" where
  "ntohll big x =
     (if 1 = ntohl big 1 then x
      else push_bit 32 (ucast (ntohl big (ucast (x AND 0xFFFFFFFF)))) OR ucast (ntohl big (ucast (drop_bit 32 x))))"

text \<open>Storing a word to memory and loading it.\<close>

definition store_u64 :: "bool \<Rightarrow> u64 \<Rightarrow> byte list" where
  "store_u64 big x = (if big then rev (le_bytes 8 x) else le_bytes 8 x)"

definition load_u64 :: "bool \<Rightarrow> byte list \<Rightarrow> u64" where
  "load_u64 big bs = of_le_bytes (if big then rev bs else bs)"

lemma htonl_one: "1 = htonl big 1 \<longleftrightarrow> big"
proof -
  have "htonl False 1 = 16777216" by code_simp
  then show ?thesis by (cases big) (simp_all add: htonl_def)
qed

lemma load_store: "load_u64 big (store_u64 big x) = x"
  by (simp add: load_u64_def store_u64_def of_le_bytes_le_bytes)

lemma byte_of_htonl: "k < 4 \<Longrightarrow> byte_of (htonl False x) k = byte_of x (3 - k)"
  by (simp add: htonl_def byte_of_of_le_bytes rev_nth)

lemma low32: "(x :: u64) AND 0xFFFFFFFF = take_bit 32 x"
  by (simp add: take_bit_eq_mask mask_eq_exp_minus_1)

lemma byte_of_halves:
  "byte_of (push_bit 32 (ucast (h :: u32)) OR ucast (l :: u32) :: u64) k =
     (if k < 4 then byte_of l k else if k < 8 then byte_of h (k - 4) else 0)"
proof (rule bit_word_eqI)
  fix m
  assume "m < LENGTH(8)"
  then have "m < 8" by simp
  then show "bit (byte_of (push_bit 32 (ucast h) OR ucast l :: u64) k) m =
      bit (if k < 4 then byte_of l k else if k < 8 then byte_of h (k - 4) else 0) m"
    by (auto simp: bit_byte_of bit_simps diff_mult_distrib2 dest: bit_imp_le_length)
qed

lemma byte_of_ucast:
  "k < 4 \<Longrightarrow> byte_of (ucast (x AND 0xFFFFFFFF :: u64) :: u32) k = byte_of x k"
  "k < 4 \<Longrightarrow> byte_of (ucast (drop_bit 32 x :: u64) :: u32) k = byte_of x (k + 4)"
  unfolding low32 by (rule bit_word_eqI, auto simp: bit_byte_of bit_simps algebra_simps)+

lemma htonll_bytes:
  assumes "k < 8"
  shows "byte_of (htonll False x) k = byte_of x (7 - k)"
proof (cases "k < 4")
  case True
  then have "byte_of (htonll False x) k = byte_of (ucast (drop_bit 32 x) :: u32) (3 - k)"
    by (simp add: htonll_def htonl_one byte_of_halves byte_of_htonl)
  then show ?thesis using True byte_of_ucast(2) [of "3 - k" x] by simp
next
  case False
  then have "byte_of (htonll False x) k = byte_of (ucast (x AND 0xFFFFFFFF) :: u32) (7 - k)"
    using assms byte_of_htonl [of "k - 4"] by (simp add: htonll_def htonl_one byte_of_halves)
  then show ?thesis using False assms byte_of_ucast(1) [of "7 - k" x] by simp
qed

lemma header_bytes: "store_u64 big (htonll big x) = rev (le_bytes 8 x)"
proof (cases big)
  case True
  then show ?thesis by (simp add: store_u64_def htonll_def htonl_one)
next
  case False
  then show ?thesis
    by (intro nth_equalityI) (simp_all add: store_u64_def htonll_bytes rev_nth)
qed

lemma ntohll_htonll: "ntohll big (htonll big x) = x"
proof -
  have inv: "htonll False (htonll False x) = x"
  proof (rule bit_word_eqI)
    fix n
    assume "n < LENGTH(64)"
    then have n: "n div 8 < 8" by simp
    have b: "byte_of (htonll False (htonll False x)) (n div 8) = byte_of x (n div 8)"
      using n by (simp add: htonll_bytes)
    have "bit y n = bit (byte_of y (n div 8)) (n mod 8)" for y :: u64
      by (simp add: bit_byte_of)
    then show "bit (htonll False (htonll False x)) n = bit x n" by (simp add: b)
  qed
  have "ntohll = htonll" by (simp add: fun_eq_iff ntohll_def htonll_def)
  then show ?thesis by (cases big) (simp_all add: inv, simp add: htonll_def htonl_one)
qed

lemma header_length_read:
  "n < 2 ^ 64 \<Longrightarrow> unat (ntohll big (load_u64 big (rev (le_bytes 8 (of_nat n :: u64))))) = n"
  unfolding header_bytes [where big = big, symmetric] by (simp add: load_store ntohll_htonll unat_of_nat take_bit_eq_mod)

section \<open>Messages\<close>

record message =
  m_header :: "byte list"
  m_header_length :: nat
  m_body :: "byte list"
  m_body_length :: nat
  m_expected_body_length :: nat

abbreviation HEADER_LENGTH :: nat where "HEADER_LENGTH \<equiv> 8"

definition message_init :: message where
  "message_init = \<lparr>m_header = replicate HEADER_LENGTH 0, m_header_length = 0, m_body = [],
     m_body_length = 0, m_expected_body_length = 0\<rparr>"

definition message_clear :: "message \<Rightarrow> message" where
  "message_clear m = m\<lparr>m_header := [], m_body := [], m_header_length := 0, m_body_length := 0,
     m_expected_body_length := 0\<rparr>"

text \<open>
  The serializer of the protocol buffers library is the parameter \<open>ser\<close>; \<^verbatim>\<open>store_to_buffer\<close> appends
  what it produces to the body.
\<close>

definition encode_response :: "bool \<Rightarrow> ('r \<Rightarrow> byte list option) \<Rightarrow> 'r \<Rightarrow> message \<Rightarrow> bool \<times> message" where
  "encode_response big ser resp m =
     (case ser resp of
        None \<Rightarrow> (False, m)
      | Some bs \<Rightarrow>
          (let body = m_body m @ bs
           in (True, m\<lparr>m_body := body, m_body_length := length body,
                       m_header := store_u64 big (htonll big (of_nat (length body))),
                       m_header_length := HEADER_LENGTH\<rparr>)))"

text \<open>Resizing the body to a length the allocator cannot serve (\<open>alloc\<close>) throws.\<close>

definition decode_header :: "bool \<Rightarrow> (nat \<Rightarrow> bool) \<Rightarrow> nat \<Rightarrow> message \<Rightarrow> (bool \<times> message) outcome" where
  "decode_header big alloc msg_length m =
     (if msg_length \<noteq> HEADER_LENGTH then Inr (False, m)
      else
        let n = unat (ntohll big (load_u64 big (m_header m)))
        in if \<not> alloc n then Inl (Uncaught_Exception ''length_error'')
           else Inr (True, m\<lparr>m_header_length := HEADER_LENGTH, m_expected_body_length := n,
                             m_body := take n (m_body m) @ replicate (n - length (m_body m)) 0\<rparr>))"

text \<open>
  C18. Header round trip across hosts: whatever the byte order of the sender, the header it writes for
  a body of \<open>n\<close> bytes is the big-endian representation of \<open>n\<close> in eight bytes; and a receiver of any
  byte order that reads these bytes expects a body of exactly \<open>n\<close> bytes.
\<close>

theorem header_roundtrip:
  assumes "ser resp = Some bs" and "length bs < 2 ^ 64" and "alloc (length bs)"
    and "encode_response big ser resp (message_clear m) = (ok, m')"
    and "m_header r = m_header m'"
  shows "ok \<and> m_header m' = rev (le_bytes 8 (of_nat (length bs) :: u64)) \<and> m_body m' = bs \<and>
    (\<exists>r'. decode_header big' alloc HEADER_LENGTH r = Inr (True, r') \<and>
       m_expected_body_length r' = length bs \<and> length (m_body r') = length bs)"
proof -
  have enc: "ok" "m_body m' = bs" "m_header m' = store_u64 big (htonll big (of_nat (length bs)))"
    using assms(1,4) by (auto simp: encode_response_def message_clear_def Let_def)
  then have h: "m_header m' = rev (le_bytes 8 (of_nat (length bs) :: u64))"
    by (simp add: header_bytes)
  have "unat (ntohll big' (load_u64 big' (m_header r))) = length bs"
    using assms(2,5) h by (simp add: header_length_read)
  then show ?thesis
    using enc(1,2) h assms(3) by (simp add: decode_header_def Let_def)
qed

theorem header_roundtrip_witness:
  "m_header (snd (encode_response False (\<lambda>_. Some [7, 8, 9]) () (message_clear message_init))) =
     rev (le_bytes 8 (3 :: u64))"
  using header_roundtrip
    [where ser = "\<lambda>_. Some [7, 8, 9]" and resp = "()" and bs = "[7, 8, 9]" and alloc = "\<lambda>_. True" and big = False
      and m = message_init
      and r = "snd (encode_response False (\<lambda>_. Some [7, 8, 9]) () (message_clear message_init))",
     OF _ _ _ prod.collapse [symmetric]]
  by simp

section \<open>Dispatch table\<close>

type_synonym ('k, 'f) dispatch_table = "('k, 'f) umap"

definition dispatch_add :: "'k \<Rightarrow> 'f \<Rightarrow> ('k, 'f) dispatch_table \<Rightarrow> ('k, 'f) dispatch_table" where
  "dispatch_add k func m_callbacks = um_emplace k func m_callbacks"

definition dispatch_get :: "('k, 'f) dispatch_table \<Rightarrow> 'k \<Rightarrow> 'f option" where
  "dispatch_get m_callbacks k = um_find m_callbacks k"

definition dispatch_invoke :: "('k, 'a \<Rightarrow> 'b outcome) dispatch_table \<Rightarrow> 'k \<Rightarrow> 'a \<Rightarrow> 'b outcome" where
  "dispatch_invoke m_callbacks k args =
     (case um_find m_callbacks k of
        None \<Rightarrow> Inl (Uncaught_Exception ''Found no callback for provided key'')
      | Some func \<Rightarrow> func args)"

interpretation dispatch: registry "\<lambda>k f t. (um_count t k = 0, dispatch_add k f t)" dispatch_get um_wf
  by unfold_locales (auto simp: dispatch_add_def dispatch_get_def um_emplace_def um_wf_def um_find_None_iff fun_eq_iff)

end
