(* ===== verification/Api_Request.thy ===== *)
theory Api_Request
  imports Api_Message Resources Task_Info
begin

text \<open>
  Requests and responses of the local API: \<^verbatim>\<open>src/api/request.cpp\<close>, \<^verbatim>\<open>src/api/request.hpp\<close>,
  \<^verbatim>\<open>src/api/response.cpp\<close>, \<^verbatim>\<open>src/api/response.hpp\<close>. The parser that the protocol buffers compiler
  generates from \<^verbatim>\<open>rpc/messages.proto\<close> is a parameter; its message classes are records, an optional
  field an \<open>option\<close>.
\<close>

section \<open>The messages of the protocol\<close>

datatype rpc_request_type =
    IOTASK_SUBMIT | IOTASK_STATUS | PING | JOB_REGISTER | JOB_UPDATE | JOB_UNREGISTER
  | PROCESS_ADD | PROCESS_REMOVE | NAMESPACE_REGISTER | NAMESPACE_UPDATE | NAMESPACE_UNREGISTER
  | GLOBAL_STATUS | CTL_COMMAND

record memory_region_msg =
  mr_address :: u64
  mr_size :: u32

record posix_path_msg =
  pp_nsid :: string
  pp_hostname :: "string option"
  pp_datapath :: string

record resource_msg =
  rm_type :: u32
  rm_buffer :: "memory_region_msg option"
  rm_path :: "posix_path_msg option"

record task_msg =
  tk_taskid :: "u32 option"
  tk_optype :: u32
  tk_source :: "resource_msg option"
  tk_destination :: "resource_msg option"

record process_msg =
  ps_uid :: u64
  ps_gid :: u64
  ps_pid :: u64

record backend_msg =
  bk_type :: u32
  bk_track :: bool
  bk_mount :: string
  bk_capacity :: u32

record nspace_msg =
  ns_nsid :: string
  ns_backend :: "backend_msg option"

record rpc_request =
  rq_type :: rpc_request_type
  rq_task :: "task_msg option"
  rq_jobid :: "u32 option"
  rq_job :: "string list option"         \<comment> \<open>the hosts\<close>
  rq_process :: "process_msg option"
  rq_nspace :: "nspace_msg option"
  rq_command :: "u32 option"

section \<open>Requests\<close>

datatype request_type =
    RQ_iotask_create | RQ_iotask_status | RQ_global_status | RQ_command | RQ_ping
  | RQ_job_register | RQ_job_update | RQ_job_unregister | RQ_process_register | RQ_process_unregister
  | RQ_backend_register | RQ_backend_update | RQ_backend_unregister | RQ_bad_request

datatype request =
    Iotask_create_request iotask_type "resource_info option" "resource_info option"
  | Iotask_status_request u32
  | Global_status_request
  | Command_request command_type
  | Ping_request
  | Job_register_request u32 "string list"
  | Job_update_request u32 "string list"
  | Job_unregister_request u32
  | Process_register_request u32 u32 u32 int          \<comment> \<open>job, uid, gid, pid\<close>
  | Process_unregister_request u32 u32 u32 int
  | Backend_register_request string backend_type bool string u32
  | Backend_update_request string backend_type bool string u32
  | Backend_unregister_request string
  | Bad_request

fun request_type_of :: "request \<Rightarrow> request_type" where
  "request_type_of (Iotask_create_request _ _ _) = RQ_iotask_create"
| "request_type_of (Iotask_status_request _) = RQ_iotask_status"
| "request_type_of Global_status_request = RQ_global_status"
| "request_type_of (Command_request _) = RQ_command"
| "request_type_of Ping_request = RQ_ping"
| "request_type_of (Job_register_request _ _) = RQ_job_register"
| "request_type_of (Job_update_request _ _) = RQ_job_update"
| "request_type_of (Job_unregister_request _) = RQ_job_unregister"
| "request_type_of (Process_register_request _ _ _ _) = RQ_process_register"
| "request_type_of (Process_unregister_request _ _ _ _) = RQ_process_unregister"
| "request_type_of (Backend_register_request _ _ _ _ _) = RQ_backend_register"
| "request_type_of (Backend_update_request _ _ _ _ _) = RQ_backend_update"
| "request_type_of (Backend_unregister_request _) = RQ_backend_unregister"
| "request_type_of Bad_request = RQ_bad_request"

section \<open>Decoding\<close>

definition decode_iotask_type :: "u32 \<Rightarrow> iotask_type" where
  "decode_iotask_type t =
     (if t = 1 then IT_copy else if t = 2 then IT_move else if t = 3 then IT_remove else IT_unknown)"

definition decode_backend_type :: "u32 \<Rightarrow> backend_type" where
  "decode_backend_type t =
     (if t = 0x10000001 then BT_nvml else if t = 0x10000002 then BT_lustre
      else if t = 0x10000003 then BT_echofs else if t = 0x10000004 then BT_posix_filesystem else BT_unknown)"

definition decode_command :: "u32 \<Rightarrow> command_type" where
  "decode_command t =
     (if t = 1000 then CT_ping else if t = 1001 then CT_pause_listen
      else if t = 1002 then CT_resume_listen else if t = 1003 then CT_shutdown else CT_unknown)"

abbreviation NORNS_PROCESS_MEMORY :: u32 where "NORNS_PROCESS_MEMORY \<equiv> 0x0100000"
abbreviation NORNS_POSIX_PATH :: u32 where "NORNS_POSIX_PATH \<equiv> 0x0200000"
abbreviation NORNS_NULL_RESOURCE :: u32 where "NORNS_NULL_RESOURCE \<equiv> 0x1000000"
abbreviation R_LOCAL :: u32 where "R_LOCAL \<equiv> 0x0000010"
abbreviation R_REMOTE :: u32 where "R_REMOTE \<equiv> 0x0000020"
abbreviation R_SHARED :: u32 where "R_SHARED \<equiv> 0x0000040"

definition has_flag :: "resource_msg \<Rightarrow> u32 \<Rightarrow> bool" where
  "has_flag res flag \<longleftrightarrow> rm_type res AND flag \<noteq> 0"

definition is_valid_resource :: "resource_msg \<Rightarrow> bool" where
  "is_valid_resource res =
     (if has_flag res NORNS_NULL_RESOURCE then True
      else if has_flag res NORNS_PROCESS_MEMORY then rm_buffer res \<noteq> None
      else if has_flag res NORNS_POSIX_PATH then
        (case rm_path res of
           None \<Rightarrow> False
         | Some path \<Rightarrow>
             if \<not> has_flag res (R_LOCAL OR R_SHARED OR R_REMOTE) then False
             else if has_flag res R_LOCAL \<and> pp_hostname path \<noteq> None then False
             else if has_flag res R_SHARED \<and> pp_hostname path \<noteq> None then False
             else if has_flag res R_REMOTE \<and> pp_hostname path = None then False
             else True)
      else False)"

definition is_valid_task :: "task_msg \<Rightarrow> bool" where
  "is_valid_task task =
     (if decode_iotask_type (tk_optype task) \<in> {IT_copy, IT_move, IT_remove} then
        (case tk_source task of None \<Rightarrow> False | Some s \<Rightarrow>
          (if \<not> is_valid_resource s then False
           else (case tk_destination task of None \<Rightarrow> False | Some d \<Rightarrow> is_valid_resource d)))
      else False)"

text \<open>An absent sub-message reads as its default: zeros and empty strings.\<close>

definition msg_buffer :: "resource_msg \<Rightarrow> u64 \<times> u64" where
  "msg_buffer res = (case rm_buffer res of None \<Rightarrow> (0, 0) | Some b \<Rightarrow> (mr_address b, ucast (mr_size b)))"

definition msg_path :: "resource_msg \<Rightarrow> string \<times> string \<times> string" where
  "msg_path res = (case rm_path res of None \<Rightarrow> ([], [], [])
     | Some p \<Rightarrow> (pp_nsid p, (case pp_hostname p of None \<Rightarrow> [] | Some h \<Rightarrow> h), pp_datapath p))"

definition resource_create_from :: "resource_msg \<Rightarrow> resource_info option outcome" where
  "resource_create_from res =
     obind (assert_ok (is_valid_resource res)) (\<lambda>_.
       if has_flag res NORNS_PROCESS_MEMORY then
         (case msg_buffer res of (a, s) \<Rightarrow> Inr (Some (Memory_region_info a s)))
       else if has_flag res NORNS_POSIX_PATH then
         (case msg_path res of (nsid, hostname, datapath) \<Rightarrow>
            if has_flag res R_LOCAL then Inr (Some (Local_path_info nsid datapath))
            else if has_flag res R_SHARED then Inr (Some (Shared_path_info nsid datapath))
            else obind (assert_ok (has_flag res R_REMOTE)) (\<lambda>_.
              Inr (Some (Remote_resource_info hostname nsid False datapath None))))
       else obind (assert_ok (has_flag res NORNS_NULL_RESOURCE)) (\<lambda>_. Inr None))"

definition decode_task :: "task_msg \<Rightarrow> request outcome" where
  "decode_task task =
     (if is_valid_task task then
        obind (deref (tk_source task)) (\<lambda>s.
        obind (deref (tk_destination task)) (\<lambda>d.
        obind (resource_create_from s) (\<lambda>src_res.
        obind (resource_create_from d) (\<lambda>dst_res.
          Inr (Iotask_create_request (decode_iotask_type (tk_optype task)) src_res dst_res)))))
      else Inr Bad_request)"

fun decode_nspace :: "rpc_request_type \<Rightarrow> nspace_msg \<Rightarrow> request" where
  "decode_nspace type nspace =
     (case ns_backend nspace of
        Some b \<Rightarrow>
          (let bt = decode_backend_type (bk_type b)
           in if bt = BT_unknown then Bad_request
              else if type = NAMESPACE_REGISTER
                then Backend_register_request (ns_nsid nspace) bt (bk_track b) (bk_mount b) (bk_capacity b)
                else Backend_update_request (ns_nsid nspace) bt (bk_track b) (bk_mount b) (bk_capacity b))
      | None \<Rightarrow> Backend_unregister_request (ns_nsid nspace))"

definition decode_request :: "rpc_request \<Rightarrow> request outcome" where
  "decode_request req =
     (case rq_type req of
        IOTASK_SUBMIT \<Rightarrow> (case rq_task req of Some task \<Rightarrow> decode_task task | None \<Rightarrow> Inr Bad_request)
      | IOTASK_STATUS \<Rightarrow>
          Inr (case rq_task req of
                 Some task \<Rightarrow> (case tk_taskid task of Some tid \<Rightarrow> Iotask_status_request tid | None \<Rightarrow> Bad_request)
               | None \<Rightarrow> Bad_request)
      | PING \<Rightarrow> Inr Ping_request
      | GLOBAL_STATUS \<Rightarrow> Inr Global_status_request
      | CTL_COMMAND \<Rightarrow>
          Inr (case rq_command req of Some c \<Rightarrow> Command_request (decode_command c) | None \<Rightarrow> Bad_request)
      | JOB_REGISTER \<Rightarrow>
          Inr (case (rq_jobid req, rq_job req) of
                 (Some jobid, Some hosts) \<Rightarrow> Job_register_request jobid hosts | _ \<Rightarrow> Bad_request)
      | JOB_UPDATE \<Rightarrow>
          Inr (case (rq_jobid req, rq_job req) of
                 (Some jobid, Some hosts) \<Rightarrow> Job_update_request jobid hosts | _ \<Rightarrow> Bad_request)
      | JOB_UNREGISTER \<Rightarrow>
          Inr (case rq_jobid req of Some jobid \<Rightarrow> Job_unregister_request jobid | None \<Rightarrow> Bad_request)
      | PROCESS_ADD \<Rightarrow>
          Inr (case (rq_jobid req, rq_process req) of
                 (Some jobid, Some p) \<Rightarrow>
                   Process_register_request jobid (ucast (ps_uid p)) (ucast (ps_gid p)) (sint (ucast (ps_pid p) :: u32))
               | _ \<Rightarrow> Bad_request)
      | PROCESS_REMOVE \<Rightarrow>
          Inr (case (rq_jobid req, rq_process req) of
                 (Some jobid, Some p) \<Rightarrow>
                   Process_unregister_request jobid (ucast (ps_uid p)) (ucast (ps_gid p)) (sint (ucast (ps_pid p) :: u32))
               | _ \<Rightarrow> Bad_request)
      | type \<Rightarrow> Inr (case rq_nspace req of Some nspace \<Rightarrow> decode_nspace type nspace | None \<Rightarrow> Bad_request))"

definition create_from_buffer :: "(byte list \<Rightarrow> rpc_request option) \<Rightarrow> byte list \<Rightarrow> nat \<Rightarrow> request outcome" where
  "create_from_buffer parse buffer sz =
     (case parse (take sz buffer) of
        Some req \<Rightarrow> decode_request req
      | None \<Rightarrow> Inr Bad_request)"

section \<open>Responses\<close>

datatype response_type =
    RS_iotask_create | RS_iotask_status | RS_global_status | RS_command | RS_ping
  | RS_job_register | RS_job_update | RS_job_unregister | RS_process_register | RS_process_unregister
  | RS_backend_register | RS_backend_update | RS_backend_unregister | RS_bad_request

record response =
  rs_type :: response_type
  rs_error_code :: urd_error
  rs_taskid :: "u32 option"
  rs_stats :: "task_stats option"
  rs_gstats :: "global_stats option"

definition make_response :: "response_type \<Rightarrow> urd_error \<Rightarrow> response" where
  "make_response type err =
     \<lparr>rs_type = type, rs_error_code = err, rs_taskid = None, rs_stats = None, rs_gstats = None\<rparr>"

fun encode_response_type :: "response_type \<Rightarrow> nat" where
  "encode_response_type RS_iotask_create = 1"
| "encode_response_type RS_iotask_status = 2"
| "encode_response_type RS_ping = 3"
| "encode_response_type RS_job_register = 4"
| "encode_response_type RS_job_update = 5"
| "encode_response_type RS_job_unregister = 6"
| "encode_response_type RS_process_register = 7"
| "encode_response_type RS_process_unregister = 8"
| "encode_response_type RS_backend_register = 9"
| "encode_response_type RS_backend_update = 10"
| "encode_response_type RS_backend_unregister = 11"
| "encode_response_type RS_global_status = 1000"
| "encode_response_type RS_command = 1001"
| "encode_response_type RS_bad_request = 2000"

record rpc_response =
  rr_type :: nat
  rr_error_code :: u32
  rr_taskid :: "u32 option"
  rr_stats :: "(u32 \<times> u32 \<times> u32) option"          \<comment> \<open>status, task\_error, sys\_errnum\<close>
  rr_gstats :: "(u32 \<times> u32 \<times> dbl) option"

text \<open>\<^verbatim>\<open>store_to_buffer\<close> up to the serialization: the message that is written.\<close>

definition pack_response :: "response \<Rightarrow> rpc_response" where
  "pack_response r =
     \<lparr>rr_type = encode_response_type (rs_type r), rr_error_code = encode_urd_error (rs_error_code r),
      rr_taskid = rs_taskid r,
      rr_stats = map_option (\<lambda>st. (encode_task_status (st_status st), encode_urd_error (st_task_error st),
                                   word_of_int (st_sys_error st))) (rs_stats r),
      rr_gstats = map_option (\<lambda>g. (gs_running_tasks g, gs_pending_tasks g, gs_eta g)) (rs_gstats r)\<rparr>"

section \<open>When decoding faults\<close>

text \<open>
  A resource whose type has the flags of both a null resource and a path, and no location: the first
  test of \<^verbatim>\<open>is_valid\<close> accepts it, and the assert on \<^verbatim>\<open>R_REMOTE\<close> of \<^verbatim>\<open>create_from\<close> fails on it.
\<close>

definition crash_resource :: "resource_msg \<Rightarrow> bool" where
  "crash_resource res \<longleftrightarrow> has_flag res NORNS_NULL_RESOURCE \<and> has_flag res NORNS_POSIX_PATH \<and>
     \<not> has_flag res NORNS_PROCESS_MEMORY \<and>
     \<not> has_flag res R_LOCAL \<and> \<not> has_flag res R_SHARED \<and> \<not> has_flag res R_REMOTE"

lemma has_flag_location:
  "has_flag res 112 \<longleftrightarrow> has_flag res R_LOCAL \<or> has_flag res R_SHARED \<or> has_flag res R_REMOTE"
proof -
  have "(112 :: u32) = R_LOCAL OR (R_SHARED OR R_REMOTE)" by simp
  then show ?thesis by (simp only: has_flag_def bit.conj_disj_distrib or_eq_0_iff) blast
qed

lemma resource_create_from_cases:
  "is_valid_resource res \<Longrightarrow>
     (if crash_resource res then resource_create_from res = Inl Assert_Failed
      else \<exists>r. resource_create_from res = Inr r)"
  by (auto simp: resource_create_from_def is_valid_resource_def has_flag_location crash_resource_def
      split: if_splits option.splits prod.splits)

definition crash_task :: "task_msg \<Rightarrow> bool" where
  "crash_task task \<longleftrightarrow> is_valid_task task \<and>
     (\<exists>r. (tk_source task = Some r \<or> tk_destination task = Some r) \<and> crash_resource r)"

lemma decode_task_cases:
  "if crash_task task then decode_task task = Inl Assert_Failed else \<exists>req. decode_task task = Inr req"
proof (cases "is_valid_task task")
  case True
  then obtain s d where sd: "tk_source task = Some s" "tk_destination task = Some d"
    and v: "is_valid_resource s" "is_valid_resource d"
    by (auto simp: is_valid_task_def split: if_splits option.splits)
  show ?thesis
    using resource_create_from_cases [OF v(1)] resource_create_from_cases [OF v(2)] True sd
    by (auto simp: decode_task_def crash_task_def split: if_splits)
qed (simp add: decode_task_def crash_task_def)

lemma decode_request_cases:
  "(\<exists>f. decode_request req = Inl f) \<longleftrightarrow>
     rq_type req = IOTASK_SUBMIT \<and> (\<exists>task. rq_task req = Some task \<and> crash_task task)"
proof (cases "rq_type req = IOTASK_SUBMIT")
  case True
  then show ?thesis
  proof (cases "rq_task req")
    case (Some task)
    then show ?thesis
      using True decode_task_cases [of task] by (cases "crash_task task") (auto simp: decode_request_def)
  qed (simp add: decode_request_def)
qed (auto simp: decode_request_def split: rpc_request_type.splits)


definition msg_local :: "string \<Rightarrow> string \<Rightarrow> resource_msg" where
  "msg_local nsid path = \<lparr>rm_type = NORNS_POSIX_PATH OR R_LOCAL, rm_buffer = None,
     rm_path = Some \<lparr>pp_nsid = nsid, pp_hostname = None, pp_datapath = path\<rparr>\<rparr>"

definition msg_remote :: "string \<Rightarrow> string \<Rightarrow> string \<Rightarrow> resource_msg" where
  "msg_remote nsid host path = \<lparr>rm_type = NORNS_POSIX_PATH OR R_REMOTE, rm_buffer = None,
     rm_path = Some \<lparr>pp_nsid = nsid, pp_hostname = Some host, pp_datapath = path\<rparr>\<rparr>"

definition msg_memory :: "u64 \<Rightarrow> u32 \<Rightarrow> resource_msg" where
  "msg_memory a s = \<lparr>rm_type = NORNS_PROCESS_MEMORY, rm_buffer = Some \<lparr>mr_address = a, mr_size = s\<rparr>, rm_path = None\<rparr>"

definition msg_crash :: resource_msg where
  "msg_crash = \<lparr>rm_type = NORNS_NULL_RESOURCE OR NORNS_POSIX_PATH, rm_buffer = None, rm_path = None\<rparr>"

definition msg_null :: resource_msg where
  "msg_null = \<lparr>rm_type = NORNS_NULL_RESOURCE, rm_buffer = None, rm_path = None\<rparr>"

text \<open>
  What the client library sends is decoded to what it means: a local path with no host name, a
  remote path with its host, a memory region, and no resource at all each become the corresponding
  description, and a copy of a local path to a remote one is a request for exactly that.
\<close>

theorem decode_client_messages:
  "decode_task \<lparr>tk_taskid = t, tk_optype = 1, tk_source = Some (msg_local n p),
                tk_destination = Some (msg_remote n' h p')\<rparr> =
     Inr (Iotask_create_request IT_copy (Some (Local_path_info n p)) (Some (Remote_resource_info h n' False p' None))) \<and>
   decode_task \<lparr>tk_taskid = t, tk_optype = 2, tk_source = Some (msg_memory a sz),
                tk_destination = Some (msg_local n p)\<rparr> =
     Inr (Iotask_create_request IT_move (Some (Memory_region_info a (ucast sz))) (Some (Local_path_info n p))) \<and>
   decode_task \<lparr>tk_taskid = t, tk_optype = 3, tk_source = Some (msg_local n p),
                tk_destination = Some msg_null\<rparr> =
     Inr (Iotask_create_request IT_remove (Some (Local_path_info n p)) None)"
  by (simp add: decode_task_def is_valid_task_def is_valid_resource_def decode_iotask_type_def has_flag_def
      resource_create_from_def msg_local_def msg_remote_def msg_memory_def msg_null_def msg_buffer_def msg_path_def)

text \<open>
  Such a submission exists: a copy whose source has type NULL | PATH and no location is accepted
  by the validation, and decoding it fails an assert.
\<close>

theorem decode_assert_reachable:
  "is_valid_task \<lparr>tk_taskid = t, tk_optype = 1, tk_source = Some msg_crash, tk_destination = Some (msg_local n p)\<rparr> \<and>
   decode_task \<lparr>tk_taskid = t, tk_optype = 1, tk_source = Some msg_crash, tk_destination = Some (msg_local n p)\<rparr> =
     Inl Assert_Failed"
  by (simp add: decode_task_def is_valid_task_def is_valid_resource_def decode_iotask_type_def has_flag_def
      resource_create_from_def msg_local_def msg_crash_def msg_path_def)

end
