(* ===== verification/Urd.thy ===== *)
theory Urd
  imports Namespaces Jobs Packed_Size Remote_Transferors Task_Queries Api_Request
begin

text \<open>
  The daemon, \<^verbatim>\<open>src/urd.cpp\<close>: its state, the handlers of the local API and of the remote procedure
  calls, start-up and shutdown. A handler holds the locks its state needs from the read to the write,
  so it is one step; it returns an outcome, because some of them can stop the process.
\<close>

section \<open>State\<close>

record 'w urd =
  m_is_paused :: bool
  m_namespace_mgr :: namespace_manager
  m_jobs :: jobs
  m_task_mgr :: "'w task_manager"
  m_factory :: factory                    \<comment> \<open>the singleton \<^verbatim>\<open>backend_factory\<close>\<close>
  m_ipc_stopped :: bool                   \<comment> \<open>\<^verbatim>\<open>m_ipc_service->stop()\<close> has been called\<close>

record 'w urd_env = "'w net_env" +
  net_respond_stat :: "rpc_handle \<Rightarrow> stat_output \<Rightarrow> 'w \<Rightarrow> 'w"

section \<open>Handlers for user requests\<close>

definition validate_iotask_args :: "iotask_type \<Rightarrow> resource_info option \<Rightarrow> resource_info option \<Rightarrow> urd_error outcome" where
  "validate_iotask_args type src_rinfo dst_rinfo =
     (if type \<noteq> IT_copy \<and> type \<noteq> IT_move \<and> type \<noteq> IT_remove then Inr UE_bad_args
      else obind (deref src_rinfo) (\<lambda>s.
             if \<not> rinfo_is_remote s then Inr UE_success
             else obind (deref dst_rinfo) (\<lambda>d.
               Inr (if rinfo_is_remote d then UE_not_supported else UE_success))))"

definition iotask_create_response :: "u32 \<Rightarrow> urd_error \<Rightarrow> response" where
  "iotask_create_response tid rv = (make_response RS_iotask_create rv)\<lparr>rs_taskid := Some tid\<rparr>"

definition present :: "'a option list \<Rightarrow> 'a list" where
  "present xs = map the (filter (\<lambda>x. x \<noteq> None) xs)"

definition iotask_create_handler ::
  "('w, 'e) urd_env_scheme \<Rightarrow> iotask_type \<Rightarrow> resource_info option \<Rightarrow> resource_info option \<Rightarrow> credentials option \<Rightarrow>
   'w urd \<Rightarrow> 'w \<Rightarrow> (response \<times> 'w urd) outcome" where
  "iotask_create_handler env type src_rinfo dst_rinfo creds u w =
     (if m_is_paused u then Inr (iotask_create_response 0 UE_accept_paused, u)
      else case creds of
        None \<Rightarrow> Inr (iotask_create_response 0 UE_snafu, u)
      | Some auth \<Rightarrow>
          let rinfo_ptrs = present [src_rinfo, dst_rinfo];
              nsids = map rinfo_nsid rinfo_ptrs;
              remotes = map rinfo_is_remote rinfo_ptrs
          in obind (namespace_find_all (m_namespace_mgr u) nsids remotes) (\<lambda>(all_found, backend_ptrs).
             if \<not> all_found then Inr (iotask_create_response 0 UE_no_such_namespace, u)
             else if type \<in> {IT_move, IT_copy, IT_remove, IT_noop} then
               obind (create_local_initiated_task env w type auth backend_ptrs rinfo_ptrs (m_task_mgr u)) (\<lambda>(rv, t, tm).
                 if rv = UE_success then
                   obind (deref t) (\<lambda>tsk.
                   obind (generic_task_id (\<lambda>p. m_heap tm ! p) tsk) (\<lambda>tid.
                     Inr (iotask_create_response tid rv, u\<lparr>m_task_mgr := snd (enqueue_task tsk tm)\<rparr>)))
                 else Inr (iotask_create_response 0 rv, u\<lparr>m_task_mgr := tm\<rparr>))
             else Inr (iotask_create_response 0 UE_bad_args, u)))"

definition iotask_status_handler :: "u32 \<Rightarrow> 'w urd \<Rightarrow> response \<times> 'w urd" where
  "iotask_status_handler tid u =
     (case task_find (m_task_mgr u) tid of
        Some p \<Rightarrow>
          (let ti = m_heap (m_task_mgr u) ! p;
               resp = (make_response RS_iotask_status UE_success)\<lparr>rs_stats := Some (stats ti)\<rparr>
           in if finished_status (ti_status ti)
              then (resp, u\<lparr>m_task_mgr := snd (task_erase tid (m_task_mgr u))\<rparr>)
              else (resp, u))
      | None \<Rightarrow> ((make_response RS_iotask_status UE_no_such_task)\<lparr>rs_stats := Some task_stats_default\<rparr>, u))"

section \<open>Handlers for control requests\<close>

definition ping_handler :: "'w urd \<Rightarrow> response \<times> 'w urd" where
  "ping_handler u = (make_response RS_ping UE_success, u)"

definition job_handler :: "response_type \<Rightarrow> urd_error \<times> jobs \<Rightarrow> 'w urd \<Rightarrow> response \<times> 'w urd" where
  "job_handler rt r u = (make_response rt (fst r), u\<lparr>m_jobs := snd r\<rparr>)"

definition job_register_handler :: "u32 \<Rightarrow> string list \<Rightarrow> 'w urd \<Rightarrow> response \<times> 'w urd" where
  "job_register_handler jobid hosts u = job_handler RS_job_register (register_job jobid hosts (m_jobs u)) u"

definition job_update_handler :: "u32 \<Rightarrow> string list \<Rightarrow> 'w urd \<Rightarrow> response \<times> 'w urd" where
  "job_update_handler jobid hosts u = job_handler RS_job_update (update_job jobid hosts (m_jobs u)) u"

definition job_remove_handler :: "u32 \<Rightarrow> 'w urd \<Rightarrow> response \<times> 'w urd" where
  "job_remove_handler jobid u = job_handler RS_job_unregister (unregister_job jobid (m_jobs u)) u"

definition process_add_handler :: "u32 \<Rightarrow> u32 \<Rightarrow> int \<Rightarrow> 'w urd \<Rightarrow> response \<times> 'w urd" where
  "process_add_handler jobid gid pid u = job_handler RS_process_register (register_process jobid gid pid (m_jobs u)) u"

definition process_remove_handler :: "u32 \<Rightarrow> u32 \<Rightarrow> int \<Rightarrow> 'w urd \<Rightarrow> response \<times> 'w urd" where
  "process_remove_handler jobid gid pid u =
     job_handler RS_process_unregister (unregister_process jobid gid pid (m_jobs u)) u"

definition create_namespace ::
  "('w, 'e) fs_env_scheme \<Rightarrow> 'w \<Rightarrow> string \<Rightarrow> backend_type \<Rightarrow> bool \<Rightarrow> string \<Rightarrow> u32 \<Rightarrow> 'w urd \<Rightarrow> urd_error \<times> 'w urd" where
  "create_namespace env w nsid type track mount quota u =
     (if namespace_contains (m_namespace_mgr u) nsid then (UE_namespace_exists, u)
      else case create_from env w (m_factory u) type nsid track mount quota of
          Some bptr \<Rightarrow> (UE_success, u\<lparr>m_namespace_mgr := snd (namespace_add nsid bptr (m_namespace_mgr u))\<rparr>)
        | None \<Rightarrow> (UE_bad_args, u))"

record namespace_def =
  nd_nsid :: string
  nd_track :: bool
  nd_mountpoint :: string
  nd_alias :: string
  nd_capacity :: u64
  nd_visibility :: string                  \<comment> \<open>not read by the daemon\<close>

text \<open>The capacity of the configuration is narrowed to the 32 bits of a quota.\<close>

definition create_namespace_from ::
  "('w, 'e) fs_env_scheme \<Rightarrow> 'w \<Rightarrow> namespace_def \<Rightarrow> 'w urd \<Rightarrow> urd_error \<times> 'w urd" where
  "create_namespace_from env w nsdef u =
     (let type = factory_get_type (m_factory u) (nd_alias nsdef)
      in if type = BT_unknown then (UE_bad_args, u)
         else create_namespace env w (nd_nsid nsdef) type (nd_track nsdef) (nd_mountpoint nsdef)
                (ucast (nd_capacity nsdef)) u)"

definition namespace_register_handler ::
  "('w, 'e) fs_env_scheme \<Rightarrow> 'w \<Rightarrow> string \<Rightarrow> backend_type \<Rightarrow> bool \<Rightarrow> string \<Rightarrow> u32 \<Rightarrow> 'w urd \<Rightarrow> response \<times> 'w urd" where
  "namespace_register_handler env w nsid type track mount quota u =
     (case create_namespace env w nsid type track mount quota u of
        (rv, u') \<Rightarrow> (make_response RS_backend_register rv, u'))"

definition namespace_remove_handler :: "string \<Rightarrow> 'w urd \<Rightarrow> response \<times> 'w urd" where
  "namespace_remove_handler nsid u =
     (case namespace_remove nsid (m_namespace_mgr u) of
        (ok, m) \<Rightarrow>
          (make_response RS_backend_unregister (if ok then UE_success else UE_no_such_namespace),
           u\<lparr>m_namespace_mgr := m\<rparr>))"

definition global_status_handler :: "'w urd \<Rightarrow> (response \<times> 'w urd) outcome" where
  "global_status_handler u =
     obind (global_stats_of (m_task_mgr u)) (\<lambda>gs.
       Inr ((make_response RS_global_status UE_success)\<lparr>rs_gstats := Some gs\<rparr>, u))"

definition pause_listening :: "'w urd \<Rightarrow> 'w urd" where
  "pause_listening u = u\<lparr>m_is_paused := True\<rparr>"

definition resume_listening :: "'w urd \<Rightarrow> 'w urd" where
  "resume_listening u = u\<lparr>m_is_paused := False\<rparr>"

text \<open>The count of tracked namespaces that are not empty; looking into one may throw.\<close>

fun count_not_empty :: "('w, 'e) fs_env_scheme \<Rightarrow> 'w \<Rightarrow> (string \<times> backend) list \<Rightarrow> nat outcome" where
  "count_not_empty env w [] = Inr 0"
| "count_not_empty env w ((nsid, b) # kvs) =
     (if is_tracked b then
        obind (is_empty_backend env b w) (\<lambda>e.
        obind (count_not_empty env w kvs) (\<lambda>n. Inr (if e then n else Suc n)))
      else count_not_empty env w kvs)"

definition check_shutdown :: "('w, 'e) fs_env_scheme \<Rightarrow> 'w \<Rightarrow> 'w urd \<Rightarrow> urd_error outcome" where
  "check_shutdown env w u =
     (if task_count_if (\<lambda>ti. active_status (ti_status ti)) (m_task_mgr u) \<noteq> 0 then Inr UE_tasks_pending
      else obind (count_not_empty env w (m_namespace_mgr u)) (\<lambda>n.
        Inr (if n \<noteq> 0 then UE_namespace_not_empty else UE_success)))"

definition shutdown :: "'w urd \<Rightarrow> 'w urd" where
  "shutdown u = u\<lparr>m_ipc_stopped := True\<rparr>"

definition command_handler ::
  "('w, 'e) fs_env_scheme \<Rightarrow> 'w \<Rightarrow> command_type \<Rightarrow> 'w urd \<Rightarrow> (response \<times> 'w urd) outcome" where
  "command_handler env w cmd u =
     (case cmd of
        CT_ping \<Rightarrow> Inr (make_response RS_command UE_success, u)
      | CT_pause_listen \<Rightarrow> Inr (make_response RS_command UE_success, pause_listening u)
      | CT_resume_listen \<Rightarrow> Inr (make_response RS_command UE_success, resume_listening u)
      | CT_shutdown \<Rightarrow>
          (let u1 = pause_listening u
           in obind (check_shutdown env w u1) (\<lambda>rv.
                if rv \<noteq> UE_success then Inr (make_response RS_command rv, resume_listening u1)
                else Inr (make_response RS_command rv, shutdown u1)))
      | CT_unknown \<Rightarrow> Inr (make_response RS_command UE_bad_args, u))"

definition unknown_request_handler :: "'w urd \<Rightarrow> response \<times> 'w urd" where
  "unknown_request_handler u = (make_response RS_bad_request UE_bad_request, u)"

text \<open>The signals the listener is told to wait for. A signal shuts the daemon down without the check.\<close>

datatype signal = SIGINT | SIGTERM | SIGHUP

fun signal_handler :: "signal \<Rightarrow> 'w urd \<Rightarrow> 'w urd" where
  "signal_handler SIGINT u = shutdown u"
| "signal_handler SIGTERM u = shutdown u"
| "signal_handler SIGHUP u = u"

lemma signal_handler_tables [simp]:
  "m_task_mgr (signal_handler sig u) = m_task_mgr u" "m_namespace_mgr (signal_handler sig u) = m_namespace_mgr u"
  "m_jobs (signal_handler sig u) = m_jobs u"
  by (cases sig; simp add: shutdown_def)+

section \<open>Dispatch\<close>

text \<open>
  The callbacks \<^verbatim>\<open>init_event_handlers\<close> registers, in its order. There is no handler for the update of a
  namespace and no callback is registered for it: the last clause of \<open>handle\<close> is never called.
\<close>

definition registered_types :: "request_type list" where
  "registered_types =
     [RQ_iotask_create, RQ_iotask_status, RQ_ping, RQ_job_register, RQ_job_update, RQ_job_unregister,
      RQ_process_register, RQ_process_unregister, RQ_backend_register, RQ_backend_unregister,
      RQ_global_status, RQ_command, RQ_bad_request]"

fun handle :: 
  "('w, 'e) urd_env_scheme \<Rightarrow> request \<Rightarrow> credentials option \<Rightarrow> 'w urd \<Rightarrow> 'w \<Rightarrow> (response \<times> 'w urd) outcome" where
  "handle env (Iotask_create_request type s d) creds u w = iotask_create_handler env type s d creds u w"
| "handle env (Iotask_status_request tid) creds u w = Inr (iotask_status_handler tid u)"
| "handle env Global_status_request creds u w = global_status_handler u"
| "handle env (Command_request cmd) creds u w = command_handler env w cmd u"
| "handle env Ping_request creds u w = Inr (ping_handler u)"
| "handle env (Job_register_request j hs) creds u w = Inr (job_register_handler j hs u)"
| "handle env (Job_update_request j hs) creds u w = Inr (job_update_handler j hs u)"
| "handle env (Job_unregister_request j) creds u w = Inr (job_remove_handler j u)"
| "handle env (Process_register_request j uid gid pid) creds u w = Inr (process_add_handler j gid pid u)"
| "handle env (Process_unregister_request j uid gid pid) creds u w = Inr (process_remove_handler j gid pid u)"
| "handle env (Backend_register_request n t tr m q) creds u w = Inr (namespace_register_handler env w n t tr m q u)"
| "handle env (Backend_unregister_request n) creds u w = Inr (namespace_remove_handler n u)"
| "handle env Bad_request creds u w = Inr (unknown_request_handler u)"
| "handle env (Backend_update_request n t tr m q) creds u w = Inl Bad_Cast"

definition event_handlers ::
  "('w, 'e) urd_env_scheme \<Rightarrow>
     (request_type, request \<times> credentials option \<times> 'w urd \<times> 'w \<Rightarrow> (response \<times> 'w urd) outcome) dispatch_table" where
  "event_handlers env =
     fold (\<lambda>k t. dispatch_add k (\<lambda>(req, creds, u, w). handle env req creds u w) t) registered_types []"

definition serve_request ::
  "('w, 'e) urd_env_scheme \<Rightarrow> request \<Rightarrow> credentials option \<Rightarrow> 'w urd \<Rightarrow> 'w \<Rightarrow> (response \<times> 'w urd) outcome" where
  "serve_request env req creds u w =
     dispatch_invoke (event_handlers env) (request_type_of req) (req, creds, u, w)"

section \<open>Remote procedure calls\<close>

definition rtype_of_index :: "u32 \<Rightarrow> resource_type" where
  "rtype_of_index n =
     (if n = 0 then RT_memory_region else if n = 1 then RT_local_posix_path
      else if n = 2 then RT_shared_posix_path else if n = 3 then RT_remote_posix_path
      else if n = 4 then RT_remote_resource else RT_ignorable)"

definition rpc_error :: "urd_error \<Rightarrow> error_code \<Rightarrow> rpc_output" where
  "rpc_error rv errnum =
     \<lparr>ro_status = task_status_index TS_finished_with_error, ro_task_error = encode_urd_error rv,
      ro_sys_errnum = word_of_int errnum, ro_elapsed_time = 0\<rparr>"

text \<open>
  The second half of the push and pull handlers: create the task, run it at once, and answer when it
  failed. When it succeeded the completion callback answers; when it could not be created nobody does.
\<close>

definition run_remote_task ::
  "('w, 'e) urd_env_scheme \<Rightarrow> rpc_handle \<Rightarrow> backend \<Rightarrow> resource_info option \<Rightarrow> backend \<Rightarrow> resource_info option \<Rightarrow>
   'w urd \<Rightarrow> 'w \<Rightarrow> ('w urd \<times> 'w) outcome" where
  "run_remote_task env req src_backend src_rinfo dst_backend dst_rinfo u w =
     obind (create_remote_initiated_task env w IT_remote_transfer credentials_default req
              (Some src_backend) src_rinfo (Some dst_backend) dst_rinfo (m_task_mgr u)) (\<lambda>(rv, t, tm).
       if rv \<noteq> UE_success then Inr (u\<lparr>m_task_mgr := tm\<rparr>, w)
       else
         obind (deref t) (\<lambda>tsk.
         obind (generic_task_info tsk) (\<lambda>po.
         obind (deref po) (\<lambda>p.
         obind (run_task env tsk (m_heap tm ! p) w) (\<lambda>(ti, w1).
           let u1 = u\<lparr>m_task_mgr := write_heap p ti tm\<rparr>
           in if ti_status ti = TS_finished_with_error
              then Inr (u1, net_respond env req (rpc_error (ti_task_error ti) (ti_sys_error ti)) w1)
              else Inr (u1, w1))))))"

definition push_create_rinfo :: "push_input \<Rightarrow> resource_type \<Rightarrow> resource_info option" where
  "push_create_rinfo args rtype =
     (case rtype of
        RT_remote_resource \<Rightarrow>
          Some (Remote_resource_info (pu_in_address args) (pu_in_nsid args) (pu_in_is_collection args)
                  (pu_in_resource_name args) (pu_in_buffers args))
      | RT_local_posix_path \<Rightarrow> Some (Local_path_info (pu_out_nsid args) (pu_out_resource_name args))
      | RT_shared_posix_path \<Rightarrow> Some (Local_path_info (pu_out_nsid args) (pu_out_resource_name args))
      | _ \<Rightarrow> None)"

definition push_resource_handler ::
  "('w, 'e) urd_env_scheme \<Rightarrow> rpc_handle \<Rightarrow> push_input \<Rightarrow> 'w urd \<Rightarrow> 'w \<Rightarrow> ('w urd \<times> 'w) outcome" where
  "push_resource_handler env req args u w =
     (if m_is_paused u then Inr (u, net_respond env req (rpc_error UE_accept_paused 0) w)
      else
        let src_rinfo = push_create_rinfo args RT_remote_resource;
            dst_rinfo = push_create_rinfo args (rtype_of_index (pu_out_resource_type args));
            src_backend = Remote_backend (pu_in_nsid args)
        in case namespace_find (m_namespace_mgr u) (pu_out_nsid args) False of
             None \<Rightarrow> Inr (u, net_respond env req (rpc_error UE_no_such_namespace 0) w)
           | Some dst_backend \<Rightarrow> run_remote_task env req src_backend src_rinfo dst_backend dst_rinfo u w)"

definition pull_create_rinfo :: "pull_input \<Rightarrow> resource_type \<Rightarrow> resource_info option" where
  "pull_create_rinfo args rtype =
     (case rtype of
        RT_remote_resource \<Rightarrow>
          Some (Remote_resource_info (pl_out_address args) (pl_out_nsid args) False
                  (pl_out_resource_name args) (pl_out_buffers args))
      | RT_local_posix_path \<Rightarrow> Some (Local_path_info (pl_in_nsid args) (pl_in_resource_name args))
      | RT_shared_posix_path \<Rightarrow> Some (Local_path_info (pl_in_nsid args) (pl_in_resource_name args))
      | _ \<Rightarrow> None)"

definition pull_resource_handler ::
  "('w, 'e) urd_env_scheme \<Rightarrow> rpc_handle \<Rightarrow> pull_input \<Rightarrow> 'w urd \<Rightarrow> 'w \<Rightarrow> ('w urd \<times> 'w) outcome" where
  "pull_resource_handler env req args u w =
     (if m_is_paused u then Inr (u, net_respond env req (rpc_error UE_accept_paused 0) w)
      else
        let src_rinfo = pull_create_rinfo args (rtype_of_index (pl_in_resource_type args));
            dst_rinfo = pull_create_rinfo args RT_remote_resource
        in case namespace_find (m_namespace_mgr u) (pl_in_nsid args) False of
             None \<Rightarrow> Inr (u, net_respond env req (rpc_error UE_no_such_namespace 0) w)
           | Some src_backend \<Rightarrow>
               run_remote_task env req src_backend src_rinfo (Remote_backend (pl_out_nsid args)) dst_rinfo u w)"

text \<open>
  The answers of \<^verbatim>\<open>stat_resource\<close> in the order of the constructor of its output: task error, system
  error number, is-collection, packed size. The answer for an unknown namespace has the two middle
  arguments swapped.
\<close>

definition stat_existing ::
  "('w, 'e) urd_env_scheme \<Rightarrow> rpc_handle \<Rightarrow> stat_input \<Rightarrow> backend \<Rightarrow> 'w urd \<Rightarrow> 'w \<Rightarrow> ('w urd \<times> 'w) outcome" where
  "stat_existing env req args dst_backend u w =
     obind (get_resource env dst_backend (Local_path_info (si_nsid args) (si_resource_name args)) 0 w) (\<lambda>(rsrc, ec).
       if ec \<noteq> 0 then
         Inr (u, net_respond_stat env req
                \<lparr>so_task_error = encode_urd_error UE_no_such_resource, so_sys_errnum = word_of_int ec,
                 so_is_collection = False, so_packed_size = 0\<rparr> w)
       else
         obind (deref rsrc) (\<lambda>r.
         obind (packed_size env w r) (\<lambda>sz.
           Inr (u, net_respond_stat env req
                  \<lparr>so_task_error = encode_urd_error UE_success, so_sys_errnum = 0,
                   so_is_collection = is_collection r, so_packed_size = sz\<rparr> w))))"

text \<open>
  For a resource type it does not know, the handler logs the description it failed to make, through
  a null pointer.
\<close>

definition stat_resource_handler ::
  "('w, 'e) urd_env_scheme \<Rightarrow> rpc_handle \<Rightarrow> stat_input \<Rightarrow> 'w urd \<Rightarrow> 'w \<Rightarrow> ('w urd \<times> 'w) outcome" where
  "stat_resource_handler env req args u w =
     (case namespace_find (m_namespace_mgr u) (si_nsid args) False of
        None \<Rightarrow>
          Inr (u, net_respond_stat env req
                 \<lparr>so_task_error = encode_urd_error UE_no_such_namespace, so_sys_errnum = of_bool False,
                  so_is_collection = (ENOENT \<noteq> (0 :: error_code)), so_packed_size = 0\<rparr> w)
      | Some dst_backend \<Rightarrow>
          (case rtype_of_index (si_resource_type args) of
             RT_local_posix_path \<Rightarrow> stat_existing env req args dst_backend u w
           | RT_shared_posix_path \<Rightarrow> stat_existing env req args dst_backend u w
           | _ \<Rightarrow> Inl Null_Deref))"

section \<open>Start-up\<close>

definition init_namespace_manager :: "namespace_manager" where
  "init_namespace_manager = snd (namespace_add internal_memory_nsid (Process_memory internal_memory_nsid) [])"

definition load_default_namespaces :: "('w, 'e) fs_env_scheme \<Rightarrow> 'w \<Rightarrow> namespace_def list \<Rightarrow> 'w urd \<Rightarrow> 'w urd" where
  "load_default_namespaces env w defs u = fold (\<lambda>nsdef u. snd (create_namespace_from env w nsdef u)) defs u"

text \<open>The plugins in the order they are loaded; one whose pair is taken would be ignored.\<close>

definition transfer_plugins :: "nat \<Rightarrow> ('w, 'e) urd_env_scheme \<Rightarrow> ((resource_type \<times> resource_type) \<times> 'w transferor) list" where
  "transfer_plugins fuel env =
     [((RT_memory_region, RT_local_posix_path), memory_region_to_local_path_transferor fuel env),
      ((RT_memory_region, RT_shared_posix_path), memory_region_to_shared_path_transferor),
      ((RT_memory_region, RT_remote_resource), memory_region_to_remote_resource_transferor env),
      ((RT_local_posix_path, RT_local_posix_path), local_path_to_local_path_transferor fuel env),
      ((RT_local_posix_path, RT_shared_posix_path), local_path_to_shared_path_transferor),
      ((RT_local_posix_path, RT_remote_resource), local_path_to_remote_resource_transferor env),
      ((RT_remote_resource, RT_local_posix_path), remote_resource_to_local_path_transferor env)]"

definition load_transfer_plugins :: "nat \<Rightarrow> ('w, 'e) urd_env_scheme \<Rightarrow> 'w urd \<Rightarrow> 'w urd" where
  "load_transfer_plugins fuel env u =
     fold (\<lambda>((t1, t2), trp) u. u\<lparr>m_task_mgr := snd (register_transfer_plugin t1 t2 trp (m_task_mgr u))\<rparr>)
       (transfer_plugins fuel env) u"

text \<open>What \<^verbatim>\<open>run\<close> has set up when the daemon starts to serve.\<close>

definition urd_start ::
  "nat \<Rightarrow> ('w, 'e) urd_env_scheme \<Rightarrow> 'w \<Rightarrow> u32 \<Rightarrow> u32 \<Rightarrow> bool \<Rightarrow> u32 \<Rightarrow> namespace_def list \<Rightarrow> 'w urd outcome" where
  "urd_start fuel env w nrunners backlog_size dry_run dry_run_duration defs =
     obind (load_backend_plugins \<lparr>m_registrar = [], m_aliases = []\<rparr>) (\<lambda>f.
       Inr (load_transfer_plugins fuel env
             (load_default_namespaces env w defs
               \<lparr>m_is_paused = False, m_namespace_mgr = init_namespace_manager, m_jobs = [],
                m_task_mgr = task_manager_init nrunners backlog_size dry_run dry_run_duration,
                m_factory = f, m_ipc_stopped = False\<rparr>)))"

end
