(* ===== verification/Urd_Properties.thy ===== *)
theory Urd_Properties
  imports Urd
begin

text \<open>Properties of single handlers of the daemon, on every branch that matters to a client.\<close>

section \<open>Dispatch\<close>

lemma fold_dispatch_find:
  "um_find (fold (\<lambda>k t. dispatch_add k f t) ks t) k =
     (if k \<in> set ks then Some (case um_find t k of None \<Rightarrow> f | Some g \<Rightarrow> g) else um_find t k)"
  by (induction ks arbitrary: t) (auto simp: dispatch_add_def split: option.splits)

lemma event_handlers_find:
  "um_find (event_handlers env) k =
     (if k \<in> set registered_types then Some (\<lambda>(req, creds, u, w). handle env req creds u w) else None)"
  by (simp add: event_handlers_def fold_dispatch_find)

lemma serve_request_eq:
  "serve_request env req creds u w =
     (if request_type_of req = RQ_backend_update
      then Inl (Uncaught_Exception ''Found no callback for provided key'')
      else handle env req creds u w)"
  by (cases req) (simp_all add: serve_request_def dispatch_invoke_def event_handlers_find registered_types_def)

text \<open>
  Every kind of request reaches its handler, except one: the update of a namespace, which the
  decoder accepts and no callback serves. The exception that raises is not caught in the listener, so
  one such message stops the daemon, whatever its state.
\<close>

theorem update_namespace_uncaught:
  "serve_request env req creds u w =
     (if \<exists>n t tr m q. req = Backend_update_request n t tr m q
      then Inl (Uncaught_Exception ''Found no callback for provided key'')
      else handle env req creds u w) \<and>
   decode_nspace NAMESPACE_UPDATE \<lparr>ns_nsid = n, ns_backend = Some \<lparr>bk_type = 0x10000004, bk_track = tr,
     bk_mount = m, bk_capacity = q\<rparr>\<rparr> = Backend_update_request n BT_posix_filesystem tr m q"
  by (cases req) (simp_all add: serve_request_eq decode_backend_type_def)

section \<open>Pausing and shutting down\<close>

lemma count_not_empty_0:
  "count_not_empty env w kvs = Inr 0 \<Longrightarrow> (k, b) \<in> set kvs \<Longrightarrow> is_tracked b \<Longrightarrow> is_empty_backend env b w = Inr True"
proof (induction env w kvs rule: count_not_empty.induct)
  case (2 env w nsid b' kvs)
  then show ?case by (auto simp: outcome_simps split: if_splits)
qed simp

lemma check_shutdown_success:
  assumes "check_shutdown env w u = Inr UE_success"
  shows "(\<forall>tid p. task_find (m_task_mgr u) tid = Some p \<longrightarrow> \<not> active_status (ti_status (m_heap (m_task_mgr u) ! p))) \<and>
    (\<forall>nsid b. um_find (m_namespace_mgr u) nsid = Some b \<longrightarrow> is_tracked b \<longrightarrow> is_empty_backend env b w = Inr True)"
proof -
  have none: "task_count_if (\<lambda>ti. active_status (ti_status ti)) (m_task_mgr u) = 0"
    using assms by (auto simp: check_shutdown_def outcome_simps split: if_splits)
  have cn: "count_not_empty env w (m_namespace_mgr u) = Inr 0"
    using assms by (auto simp: check_shutdown_def outcome_simps split: if_splits)
  have "is_empty_backend env b w = Inr True"
    if "um_find (m_namespace_mgr u) nsid = Some b" and "is_tracked b" for nsid b
    by (rule count_not_empty_0 [OF cn um_find_in_set [OF that(1)] that(2)])
  moreover have "\<not> active_status (ti_status (m_heap (m_task_mgr u) ! p))"
    if "task_find (m_task_mgr u) tid = Some p" for tid p
    using none um_find_in_set [OF that [unfolded task_find_def]]
    by (auto simp: task_count_if_def um_count_if_0)
  ultimately show ?thesis by blast
qed

text \<open>
  C8. Shutdown is safe: the daemon stops listening on a shutdown command only when no task in its
  table is pending or running and every tracked namespace is empty; otherwise it reports why, keeps
  its tables and keeps listening.
\<close>

theorem shutdown_safe:
  assumes "command_handler env w CT_shutdown u = Inr (resp, u')" and "\<not> m_ipc_stopped u"
  shows "(m_ipc_stopped u' \<longleftrightarrow> rs_error_code resp = UE_success) \<and>
    (m_ipc_stopped u' \<longrightarrow>
       (\<forall>tid p. task_find (m_task_mgr u) tid = Some p \<longrightarrow> \<not> active_status (ti_status (m_heap (m_task_mgr u) ! p))) \<and>
       (\<forall>nsid b. um_find (m_namespace_mgr u) nsid = Some b \<longrightarrow> is_tracked b \<longrightarrow> is_empty_backend env b w = Inr True)) \<and>
    m_task_mgr u' = m_task_mgr u \<and> m_namespace_mgr u' = m_namespace_mgr u \<and> m_jobs u' = m_jobs u"
proof -
  obtain rv where rv: "check_shutdown env w (pause_listening u) = Inr rv"
    and r: "(resp, u') = (if rv \<noteq> UE_success then (make_response RS_command rv, resume_listening (pause_listening u))
      else (make_response RS_command rv, shutdown (pause_listening u)))"
    using assms(1) by (auto simp: command_handler_def Let_def outcome_simps split: if_splits)
  show ?thesis
  proof (cases "rv = UE_success")
    case True
    then show ?thesis
      using check_shutdown_success [of env w "pause_listening u"] rv r
      by (simp add: make_response_def shutdown_def pause_listening_def)
  next
    case False
    then show ?thesis
      using r assms(2) by (simp add: make_response_def resume_listening_def pause_listening_def)
  qed
qed

text \<open>
  A refused shutdown lifts a pause: when an administrator has paused the daemon and a shutdown is
  then refused, the daemon accepts requests again.
\<close>

theorem refused_shutdown_resumes:
  assumes "command_handler env w CT_shutdown u = Inr (resp, u')" and "rs_error_code resp \<noteq> UE_success"
  shows "\<not> m_is_paused u'"
  using assms
  by (auto simp: command_handler_def Let_def outcome_simps resume_listening_def make_response_def split: if_splits)

text \<open>
  While the daemon is paused no new work gets in: a client's task is refused with accept\_paused,
  a push or pull of another daemon is answered with an error that says so, and nothing changes.
\<close>

theorem paused_rejects:
  assumes "m_is_paused u"
  shows "iotask_create_handler env type s d creds u w = Inr (iotask_create_response 0 UE_accept_paused, u) \<and>
    push_resource_handler env req pu u w = Inr (u, net_respond env req (rpc_error UE_accept_paused 0) w) \<and>
    pull_resource_handler env req pl u w = Inr (u, net_respond env req (rpc_error UE_accept_paused 0) w)"
  using assms by (simp add: iotask_create_handler_def push_resource_handler_def pull_resource_handler_def)

section \<open>Requests that stop the daemon\<close>

text \<open>
  A message any client can send brings the daemon down: the remove of a null resource passes the
  validation of the decoder, no namespace has to be found for it, and the assert on the number of
  backends in the creation of the task fails.
\<close>

theorem null_resource_asserts:
  assumes "\<not> m_is_paused u" and "um_find (m_task_info (m_task_mgr u)) (m_id_base (m_task_mgr u) + 1) = None"
  shows "decode_task \<lparr>tk_taskid = t, tk_optype = 3, tk_source = Some msg_null, tk_destination = Some msg_null\<rparr> =
      Inr (Iotask_create_request IT_remove None None) \<and>
    iotask_create_handler env IT_remove None None (Some auth) u w = Inl Assert_Failed"
  using assms
  by (simp add: decode_task_def is_valid_task_def is_valid_resource_def decode_iotask_type_def has_flag_def
      resource_create_from_def msg_null_def iotask_create_handler_def present_def namespace_find_all_def
      create_local_initiated_task_def new_local_task_info_def)

section \<open>Polling for status\<close>

text \<open>
  The status handler: an unknown id is answered with no\_such\_task and changes nothing; a task
  that is pending or running is reported and stays; a finished task is reported with its final
  statistics and forgotten, so that asking again gives no\_such\_task.
\<close>

theorem iotask_status_once:
  "case task_find (m_task_mgr u) tid of
     None \<Rightarrow> rs_error_code (fst (iotask_status_handler tid u)) = UE_no_such_task \<and> snd (iotask_status_handler tid u) = u
   | Some p \<Rightarrow>
       rs_error_code (fst (iotask_status_handler tid u)) = UE_success \<and>
       rs_stats (fst (iotask_status_handler tid u)) = Some (stats (m_heap (m_task_mgr u) ! p)) \<and>
       (if finished_status (ti_status (m_heap (m_task_mgr u) ! p))
        then task_find (m_task_mgr (snd (iotask_status_handler tid u))) = (task_find (m_task_mgr u))(tid := None)
        else snd (iotask_status_handler tid u) = u)"
  by (auto simp: iotask_status_handler_def make_response_def task_erase_def task_find_def Let_def fun_eq_iff
      split: option.splits)

section \<open>Refused transfers\<close>

text \<open>
  C40. A refused push is reported as a success: when the other daemon answers a push with an error and
  system error number 0, as it does when it is paused or does not know the namespace, the copy task of
  this daemon finishes successfully, although no byte has been transferred or counted.
\<close>

theorem refused_push_reports_success:
  assumes "ti_src_backend ti = Some sb" and "ti_src_rinfo ti = Some sr"
    and "get_resource env sb sr 0 w = Inr (Some (Local_path_resource b n path False), 0)"
    and "ti_dst_backend ti = Some (Remote_backend m)"
    and "ti_dst_rinfo ti = Some (Remote_resource_info host nsid c name bufs)"
    and "net_lookup env host w = (Some endp, w1)" and "map_buffer env path False 0 w1 = (0, addr, sz, w2)"
    and "net_expose env addr sz False w2 = (Some lb, w3)"
    and "\<And>i. net_push env endp i w3 = (Some (rpc_error rv 0), w4)"
  shows "\<exists>ti'. copy_body env (local_path_to_remote_resource_transferor env) ti w = Inr (ti', w4) \<and>
    ti_status ti' = TS_finished \<and> ti_task_error ti' = UE_success \<and> ti_sys_error ti' = 0 \<and>
    ti_sent_bytes ti' = ti_sent_bytes ti"
  using assms
  by (simp add: copy_body_def make_remote_resource_def local_path_to_remote_resource_transferor_def
      local_path_to_remote_resource_transfer_def input_path_of_def post_push_def rpc_error_def
      temporary_file_destroy_def task_success_def update_status_error_def)

text \<open>What the stat handler answers for a namespace it does not know.\<close>

definition unknown_namespace_out :: stat_output where
  "unknown_namespace_out = \<lparr>so_task_error = encode_urd_error UE_no_such_namespace, so_sys_errnum = 0,
     so_is_collection = True, so_packed_size = 0\<rparr>"

text \<open>
  A pull from an unknown namespace is reported as a success: the handler of the other daemon
  answers with system error number 0 (it passes its arguments in the wrong order), and the transfer
  that gets this answer returns that number, which means no error, with nothing received.
\<close>

theorem unknown_namespace_pull_reports_success:
  assumes "um_find (m_namespace_mgr peer) (si_nsid args) = None"
    and "net_lookup env host w = (Some endp, w1)"
    and "\<And>i. net_stat env endp i w1 = (Some unknown_namespace_out, w2)"
  shows "stat_resource_handler env' req args peer w' = Inr (peer, net_respond_stat env' req unknown_namespace_out w') \<and>
    remote_resource_to_local_path_transfer env auth ti
      (Some (Remote_resource b n host ns bufs c)) (Some (Local_path_resource lb lname lpath lc)) w = Inr (0, ti, w2)"
  using assms
  by (simp add: stat_resource_handler_def remote_resource_to_local_path_transfer_def encode_urd_error_def
      unknown_namespace_out_def)

section \<open>Examples\<close>

definition quiet_urd_env :: "'w urd_env" where
  "quiet_urd_env =
     \<lparr>fs_path = boost_path_ops, bfs_parent_path = (\<lambda>p. []), bfs_canonical = (\<lambda>w p. (0, p)),
      bfs_relative = (\<lambda>w p base. p), bfs_is_directory = (\<lambda>w p. False), bfs_is_symlink = (\<lambda>w p. False),
      bfs_is_regular = (\<lambda>w p. True), bfs_exists = (\<lambda>w p. (0, True)), bfs_file_size = (\<lambda>w p. (0, 10)),
      bfs_walk = (\<lambda>w p. (0, [])), bfs_create_directories = (\<lambda>p w. (0, w)), bfs_remove_all = (\<lambda>p w. (0, w)),
      sys_errno = (\<lambda>w. 0), sys_open = (\<lambda>p m w. (3, w)), sys_close = (\<lambda>fd w. (0, w)),
      sys_fstat_size = (\<lambda>fd w. (0, w)), sys_fadvise = (\<lambda>fd n a w. (0, w)), have_fallocate = True,
      sys_fallocate = (\<lambda>fd n w. (0, w)), sys_ftruncate = (\<lambda>fd n w. (0, w)),
      sys_sendfile = (\<lambda>o_fd i_fd off n w. (n, off + n, w)), sys_mmap = (\<lambda>fd n w. (Some 4096, w)),
      sys_munmap = (\<lambda>a n w. w), sys_process_vm_readv = (\<lambda>pid a l n w. (uint n, w)),
      bfs_create_directory = (\<lambda>p w. (0, w)), usecs_between = (\<lambda>w w'. Fin 1),
      tar_fuel = 0, bfs_is_absolute = (\<lambda>p. True), sys_stat = (\<lambda>p w. (None, w)), sys_pread = (\<lambda>fd n off w. ((0, []), w)),
      ar_write_new = (\<lambda>w. (None, w)), ar_write_set_format_ustar = (\<lambda>a w. (0, w)), ar_write_open_filename = (\<lambda>a p w. (0, w)),
      ar_read_new = (\<lambda>w. (None, w)), ar_read_support_format_tar = (\<lambda>a w. (0, w)), ar_read_open_filename = (\<lambda>a p w. (0, w)),
      ar_errno = (\<lambda>a w. 0), ar_entry_new = (\<lambda>a w. (True, w)), ar_write_header = (\<lambda>a e w. (0, w)),
      ar_write_data = (\<lambda>a bs w. (int (length bs), w)), ar_write_close = (\<lambda>a w. (0, w)), ar_write_free = (\<lambda>a w. (0, w)),
      ar_read_next_header = (\<lambda>a w. ((1, None), w)), ar_read_extract = (\<lambda>a p fl w. (0, w)), ar_read_close = (\<lambda>a w. (0, w)),
      ar_read_free = (\<lambda>a w. (0, w)), staging_directory = ''/tmp'', bfs_unique_path = (\<lambda>p w. (0, p, w)), bfs_remove = (\<lambda>p w. (0, w)),
      sys_msync = (\<lambda>a n w. (0, w)),
      map_buffer = (\<lambda>p wr ec w. (ec, 4096, 10, w)), protect_buffer = (\<lambda>a ec w. (ec, w)),
      net_self_address = ''self'', net_lookup = (\<lambda>a w. (Some 0, w)), net_expose = (\<lambda>a n wr w. (Some 1, w)),
      net_push = (\<lambda>e i w. (None, w)), net_pull = (\<lambda>e i w. (None, w)), net_stat = (\<lambda>e i w. (None, w)),
      mem_count = (\<lambda>m. 1), mem_size = (\<lambda>m. 10),
      net_async_pull = (\<lambda>r l h c w. w), net_async_push = (\<lambda>l r h c w. w), net_requires_response = (\<lambda>h. True),
      net_respond = (\<lambda>h out w. w), usecs_u32 = (\<lambda>w w'. 1),
      net_respond_stat = (\<lambda>h out w. w)\<rparr>"

definition sample_urd :: "unit urd" where
  "sample_urd = \<lparr>m_is_paused = False, m_namespace_mgr = init_namespace_manager, m_jobs = [],
     m_task_mgr = task_manager_init 2 4 False 100, m_factory = \<lparr>m_registrar = [], m_aliases = []\<rparr>, m_ipc_stopped = False\<rparr>"

definition busy_urd :: "unit urd" where
  "busy_urd = sample_urd\<lparr>m_is_paused := True, m_task_mgr := one_running\<rparr>"

theorem shutdown_safe_witness:
  "\<exists>resp u'. command_handler quiet_urd_env () CT_shutdown sample_urd = Inr (resp, u') \<and> m_ipc_stopped u'"
proof -
  have "\<exists>u'. command_handler quiet_urd_env () CT_shutdown sample_urd = Inr (make_response RS_command UE_success, u')"
    by (simp add: command_handler_def check_shutdown_def sample_urd_def task_manager_init_def task_count_if_def
        um_count_if_def init_namespace_manager_def namespace_add_def um_emplace_def pause_listening_def Let_def)
  then obtain u' where u': "command_handler quiet_urd_env () CT_shutdown sample_urd = Inr (make_response RS_command UE_success, u')" ..
  from shutdown_safe [OF u'] have "m_ipc_stopped u'" by (simp add: sample_urd_def make_response_def)
  with u' show ?thesis by blast
qed

lemma busy_refused:
  "\<exists>u'. command_handler quiet_urd_env () CT_shutdown busy_urd = Inr (make_response RS_command UE_tasks_pending, u')"
  by (simp add: command_handler_def check_shutdown_def busy_urd_def one_running_def task_count_if_def
      um_count_if_def pause_listening_def sample_task_info_def Let_def)

theorem refused_shutdown_resumes_witness:
  "m_is_paused busy_urd \<and>
   (\<exists>resp u'. command_handler quiet_urd_env () CT_shutdown busy_urd = Inr (resp, u') \<and> \<not> m_is_paused u')"
proof -
  obtain u' where u': "command_handler quiet_urd_env () CT_shutdown busy_urd = Inr (make_response RS_command UE_tasks_pending, u')"
    using busy_refused ..
  from refused_shutdown_resumes [OF u'] have "\<not> m_is_paused u'" by (simp add: make_response_def)
  with u' show ?thesis by (auto simp: busy_urd_def)
qed

theorem paused_rejects_witness:
  "iotask_create_handler quiet_urd_env IT_copy None None None busy_urd () =
     Inr (iotask_create_response 0 UE_accept_paused, busy_urd)"
  using paused_rejects [of busy_urd quiet_urd_env IT_copy None None None] by (simp add: busy_urd_def)

theorem null_resource_asserts_witness:
  "iotask_create_handler quiet_urd_env IT_remove None None (Some credentials_default) sample_urd () = Inl Assert_Failed"
  using null_resource_asserts [of sample_urd None quiet_urd_env credentials_default]
  by (simp add: sample_urd_def task_manager_init_def)

definition refusing_env :: "unit urd_env" where
  "refusing_env = quiet_urd_env\<lparr>net_push := (\<lambda>e i w. (Some (rpc_error UE_accept_paused 0), w))\<rparr>"

definition push_task_info :: task_info where
  "push_task_info = sample_task_info\<lparr>ti_src_backend := Some (Nvml_dax ''n'' False ''/m'' 0),
     ti_src_rinfo := Some (Local_path_info ''n'' ''/a''),
     ti_dst_backend := Some (Remote_backend ''r''),
     ti_dst_rinfo := Some (Remote_resource_info ''host'' ''r'' False ''/b'' None)\<rparr>"

theorem refused_push_reports_success_witness:
  "\<exists>ti'. copy_body refusing_env (local_path_to_remote_resource_transferor refusing_env) push_task_info () = Inr (ti', ()) \<and>
     ti_status ti' = TS_finished"
proof -
  have g: "get_resource refusing_env (Nvml_dax ''n'' False ''/m'' 0) (Local_path_info ''n'' ''/a'') 0 () =
      Inr (Some (Local_path_resource (Nvml_dax ''n'' False ''/m'' 0) [] (path_join refusing_env ''/m'' []) False), 0)"
    by (simp add: make_local_path_resource_def refusing_env_def quiet_urd_env_def)
  have "\<exists>ti'. copy_body refusing_env (local_path_to_remote_resource_transferor refusing_env) push_task_info () = Inr (ti', ()) \<and>
      ti_status ti' = TS_finished \<and> ti_task_error ti' = UE_success \<and> ti_sys_error ti' = 0 \<and>
      ti_sent_bytes ti' = ti_sent_bytes push_task_info"
    by (rule refused_push_reports_success [OF _ _ g, where rv = UE_accept_paused and endp = 0 and addr = 4096 and sz = 10 and lb = 1
          and host = "''host''" and nsid = "''r''" and c = False and name = "''/b''" and bufs = None])
      (simp_all add: push_task_info_def refusing_env_def quiet_urd_env_def)
  then show ?thesis by blast
qed

definition unknown_stat_env :: "unit urd_env" where
  "unknown_stat_env = quiet_urd_env\<lparr>net_stat := (\<lambda>e i w. (Some unknown_namespace_out, w))\<rparr>"

theorem unknown_namespace_pull_reports_success_witness:
  "remote_resource_to_local_path_transfer unknown_stat_env credentials_default sample_task_info
     (Some (Remote_resource (Remote_backend ''r'') ''/x'' ''host'' ''r'' None False))
     (Some (Local_path_resource (Lustre ''l'' False ''/l'' 0) ''/y'' ''/l/y'' False)) () = Inr (0, sample_task_info, ())"
  using unknown_namespace_pull_reports_success
    [of sample_urd "\<lparr>si_address = ''a'', si_nsid = ''nowhere'', si_resource_type = 1, si_resource_name = ''/x''\<rparr>"
      unknown_stat_env "''host''" "()" 0 "()" "()" quiet_urd_env 0 "()" credentials_default sample_task_info
      "Remote_backend ''r''" "''/x''" "''r''" None False]
  by (simp add: sample_urd_def init_namespace_manager_def namespace_add_def um_emplace_def internal_memory_nsid_def
      unknown_stat_env_def quiet_urd_env_def)

end
