(* ===== verification/Daemon.thy ===== *)
theory Daemon
  imports Urd_Properties
begin

text \<open>
  The daemon as a transition system: its handlers, its worker threads and the progress thread of the
  network library interleave, and the rest of the machine changes the world at any time. The
  invariant of the whole daemon, and runs of a small daemon as examples.
\<close>

section \<open>Steps\<close>

text \<open>
  A step is a state of the daemon and a world to the next ones. A step that faults has no successor:
  the process is gone.
\<close>

inductive urd_step :: "('w, 'e) urd_env_scheme \<Rightarrow> 'w urd \<times> 'w \<Rightarrow> 'w urd \<times> 'w \<Rightarrow> bool"
  for env :: "('w, 'e) urd_env_scheme"
where
  Request: "\<not> m_ipc_stopped u \<Longrightarrow> serve_request env req creds u w = Inr (resp, u') \<Longrightarrow> urd_step env (u, w) (u', w)"
| Signal: "\<not> m_ipc_stopped u \<Longrightarrow> urd_step env (u, w) (signal_handler sig u, w)"
| Push: "push_resource_handler env h pu u w = Inr (u', w') \<Longrightarrow> urd_step env (u, w) (u', w')"
| Pull: "pull_resource_handler env h pl u w = Inr (u', w') \<Longrightarrow> urd_step env (u, w) (u', w')"
| Stat: "stat_resource_handler env h si u w = Inr (u', w') \<Longrightarrow> urd_step env (u, w) (u', w')"
| Push_Done: "p < length (m_heap (m_task_mgr u)) \<Longrightarrow>
    push_completion_callback env c h (m_heap (m_task_mgr u) ! p) w = Inr (ti, w') \<Longrightarrow>
    urd_step env (u, w) (u\<lparr>m_task_mgr := write_heap p ti (m_task_mgr u)\<rparr>, w')"
| Pull_Done: "p < length (m_heap (m_task_mgr u)) \<Longrightarrow>
    pull_completion_callback env c h (m_heap (m_task_mgr u) ! p) w = (ti, w') \<Longrightarrow>
    urd_step env (u, w) (u\<lparr>m_task_mgr := write_heap p ti (m_task_mgr u)\<rparr>, w')"
| Worker_Test: "worker_test i (m_runners (m_task_mgr u)) = Some r \<Longrightarrow>
    urd_step env (u, w) (u\<lparr>m_task_mgr := (m_task_mgr u)\<lparr>m_runners := r\<rparr>\<rparr>, w)"
| Worker_Pop: "worker_pop i (m_runners (m_task_mgr u)) = Some r \<Longrightarrow>
    urd_step env (u, w) (u\<lparr>m_task_mgr := (m_task_mgr u)\<lparr>m_runners := r\<rparr>\<rparr>, w)"
| Task_Begin: "execute_begin i (m_task_mgr u) = Some (Inr tm) \<Longrightarrow> urd_step env (u, w) (u\<lparr>m_task_mgr := tm\<rparr>, w)"
| Task_End: "execute_end env i (m_task_mgr u) w = Some (Inr (tm, w')) \<Longrightarrow>
    urd_step env (u, w) (u\<lparr>m_task_mgr := tm\<rparr>, w')"
| Teardown: "m_ipc_stopped u \<Longrightarrow>
    r = destroy_set_done (m_runners (m_task_mgr u)) \<and> p_stop (m_runners (m_task_mgr u)) = Not_Stopped \<or>
    destroy_invalidate (m_runners (m_task_mgr u)) = Some r \<or> destroy_join (m_runners (m_task_mgr u)) = Some r \<Longrightarrow>
    urd_step env (u, w) (u\<lparr>m_task_mgr := (m_task_mgr u)\<lparr>m_runners := r\<rparr>\<rparr>, w)"
| Environment: "urd_step env (u, w) (u, w')"

definition urd_initial :: "nat \<Rightarrow> ('w, 'e) urd_env_scheme \<Rightarrow> 'w urd \<times> 'w \<Rightarrow> bool" where
  "urd_initial fuel env s \<longleftrightarrow>
     (\<exists>w n bl dr du defs. urd_start fuel env w n bl dr du defs = Inr (fst s))"

section \<open>How the task manager moves\<close>

text \<open>
  Every step of the daemon moves its task manager in one of a few ways; the invariants below are
  proved once for these.
\<close>

inductive tm_move :: "('w, 'e) fs_env_scheme \<Rightarrow> 'w task_manager \<Rightarrow> 'w task_manager \<Rightarrow> bool"
  for env :: "('w, 'e) fs_env_scheme"
where
  Stay: "tm_move env tm tm"
| Reject: "creation_result tm (err, t, tm') \<Longrightarrow> tm_move env tm tm'"
| Enqueue: "creation_result tm (UE_success, Some t, tm1) \<Longrightarrow> tm_move env tm (snd (enqueue_task t tm1))"
| Run_Now: "creation_result tm (UE_success, Some t, tm1) \<Longrightarrow> ti = m_heap tm1 ! length (m_heap tm) \<Longrightarrow>
    run_task env t ti w = Inr (ti', w') \<Longrightarrow> tm_move env tm (write_heap (length (m_heap tm)) ti' tm1)"
| Clear: "p < length (m_heap tm) \<Longrightarrow> tm_move env tm (write_heap p (clear_context (m_heap tm ! p)) tm)"
| Erase: "um_find (m_task_info tm) tid = Some p \<Longrightarrow> finished_status (ti_status (m_heap tm ! p)) \<Longrightarrow>
    tm_move env tm (snd (task_erase tid tm))"
| Test: "worker_test i (m_runners tm) = Some r \<Longrightarrow> tm_move env tm (tm\<lparr>m_runners := r\<rparr>)"
| Pop: "worker_pop i (m_runners tm) = Some r \<Longrightarrow> tm_move env tm (tm\<lparr>m_runners := r\<rparr>)"
| Begin: "execute_begin i tm = Some (Inr tm') \<Longrightarrow> tm_move env tm tm'"
| End: "execute_end env i tm w = Some (Inr (tm', w')) \<Longrightarrow> tm_move env tm tm'"
| Stop: "r = destroy_set_done (m_runners tm) \<and> p_stop (m_runners tm) = Not_Stopped \<or>
    destroy_invalidate (m_runners tm) = Some r \<or> destroy_join (m_runners tm) = Some r \<Longrightarrow>
    tm_move env tm (tm\<lparr>m_runners := r\<rparr>)"

lemma iotask_create_move:
  "returns_only (\<lambda>(resp, u'). tm_move env (m_task_mgr u) (m_task_mgr u') \<and>
       m_namespace_mgr u' = m_namespace_mgr u \<and> m_jobs u' = m_jobs u)
     (iotask_create_handler env type s d creds u w)"
  unfolding iotask_create_handler_def
  by (intro post_intros)
    (auto intro: Stay dest!: returns_onlyD [OF create_local_spec] intro: Reject Enqueue)

lemma run_remote_move:
  "returns_only (\<lambda>(u', w'). tm_move env (m_task_mgr u) (m_task_mgr u') \<and>
       m_namespace_mgr u' = m_namespace_mgr u \<and> m_jobs u' = m_jobs u)
     (run_remote_task env h sb sr db dr u w)"
proof -
  have ptr: "p = length (m_heap (m_task_mgr u))"
    if "creation_result (m_task_mgr u) (UE_success, Some t, tm)" and "generic_task_info t = Inr (Some p)" for t tm p
    using that by (auto simp: creation_result_def)
  show ?thesis
    unfolding run_remote_task_def
    by (intro post_intros)
      (auto dest!: returns_onlyD [OF create_remote_spec] intro: Reject dest: ptr intro!: Run_Now)
qed

lemma status_move: "tm_move env (m_task_mgr u) (m_task_mgr (snd (iotask_status_handler tid u)))"
  by (auto simp: iotask_status_handler_def task_find_def Let_def split: option.splits intro: Stay Erase)

lemma serve_move:
  "returns_only (\<lambda>(resp, u'). tm_move env (m_task_mgr u) (m_task_mgr u')) (serve_request env req creds u w)"
proof (cases req)
  case (Iotask_create_request t s d)
  then show ?thesis
    using iotask_create_move [of env u t s d creds w] by (auto simp: serve_request_eq returns_only_def)
next
  case (Iotask_status_request tid)
  then show ?thesis
    using status_move [of env u tid] by (cases "iotask_status_handler tid u") (simp add: serve_request_eq returns_only_def)
next
  case (Command_request cmd)
  then show ?thesis
    unfolding serve_request_eq
    by (cases cmd)
      (auto simp: command_handler_def pause_listening_def resume_listening_def shutdown_def Let_def
        intro!: post_intros Stay)
qed (auto simp: serve_request_eq returns_only_def global_status_handler_def outcome_simps ping_handler_def
    job_handler_def job_register_handler_def job_update_handler_def job_remove_handler_def process_add_handler_def
    process_remove_handler_def namespace_register_handler_def create_namespace_def namespace_remove_handler_def
    unknown_request_handler_def split: prod.splits if_splits option.splits intro: Stay)

lemma step_move:
  assumes "urd_step env (u, w) (u', w')"
  shows "tm_move env (m_task_mgr u) (m_task_mgr u')"
  using assms
proof cases
  case (Request req creds resp)
  then show ?thesis by (auto dest: returns_onlyD [OF serve_move])
next
  case (Push h pu)
  then show ?thesis
    by (auto simp: push_resource_handler_def Let_def split: if_splits option.splits
        intro: Stay dest: returns_onlyD [OF run_remote_move])
next
  case (Pull h pl)
  then show ?thesis
    by (auto simp: pull_resource_handler_def Let_def split: if_splits option.splits
        intro: Stay dest: returns_onlyD [OF run_remote_move])
next
  case (Stat h si)
  then show ?thesis
    by (auto simp: stat_resource_handler_def stat_existing_def outcome_simps Let_def
        split: if_splits option.splits resource_type.splits intro: Stay)
next
  case (Push_Done p c h ti)
  then show ?thesis by (auto simp: push_completion_callback_def obind_eq_Inr Let_def split: prod.splits intro: Clear)
next
  case (Pull_Done p c h ti)
  then show ?thesis by (auto simp: pull_completion_callback_def Let_def split: prod.splits intro: Clear)
qed (auto intro: tm_move.intros)

section \<open>The invariant of the daemon\<close>

lemma run_now_result:
  assumes "tm_inv tm" and "creation_result tm (UE_success, Some t, tm1)" and "ti = m_heap tm1 ! length (m_heap tm)"
    and "run_task env t ti w = Inr (ti', w')"
  shows "same_identity ti ti' \<and> coherent_result ti' \<and> ti_id ti = m_id_base tm + 1"
proof -
  have "work_ok (Work t False)" and f: "fresh_info (m_id_base tm + 1) ti"
    using assms(1-3) by (auto simp: creation_result_def tm_inv_def)
  then show ?thesis
    using run_task_completes [OF _ _ _ _ assms(4)] by (simp add: work_ok_def fresh_info_def)
qed

lemma tm_inv_move:
  assumes "tm_inv tm" and "tm_move env tm tm'"
  shows "tm_inv tm'"
  using assms(2)
proof cases
  case (Run_Now t tm1 ti w ti' w')
  have inv1: "tm_inv tm1" by (rule tm_inv_creation [OF assms(1) Run_Now(2)])
  have len: "length (m_heap tm) < length (m_heap tm1)" and run: "m_runners tm1 = m_runners tm"
    using Run_Now(2) by (auto simp: creation_result_def)
  have "length (m_heap tm) \<notin> submitted_ptrs tm1"
    using submitted_bound [of tm "length (m_heap tm)"] assms(1) by (auto simp: tm_inv_def run submitted_ptrs_def)
  then show ?thesis
    unfolding Run_Now(1)
    using run_now_result [OF assms(1) Run_Now(2-4)] Run_Now(3) inv1 len
    by (intro tm_inv_write_free) (auto simp: info_ok_def same_identity_def)
next
  case (Clear p)
  then have "info_ok (m_heap tm ! p)" using assms(1) by (simp add: tm_inv_def)
  then show ?thesis
    unfolding Clear(1) using assms(1) Clear(2)
    by (intro tm_inv_write_free) (auto simp: clear_context_def info_ok_def coherent_result_def)
qed (use assms(1) in \<open>auto intro: tm_inv_creation tm_inv_create_enqueue tm_inv_erase tm_inv_worker_test
    tm_inv_worker_pop tm_inv_execute_begin tm_inv_execute_end tm_inv_destroy\<close>)

definition namespaces_ok :: "namespace_manager \<Rightarrow> bool" where
  "namespaces_ok m \<longleftrightarrow> um_wf m \<and> (\<forall>nsid b. um_find m nsid = Some b \<longrightarrow> backend_nsid b = nsid)"

definition urd_inv :: "'w urd \<Rightarrow> bool" where
  "urd_inv u \<longleftrightarrow> tm_inv (m_task_mgr u) \<and> namespaces_ok (m_namespace_mgr u) \<and> jobs_wf (m_jobs u)"

lemma make_backend_nsid: "make_backend t n tr m q = Some b \<Longrightarrow> backend_nsid b = n"
  by (cases t) auto

lemma create_namespace_ok:
  assumes "namespaces_ok (m_namespace_mgr u)" and "create_namespace env w n t tr m q u = (rv, u')"
  shows "namespaces_ok (m_namespace_mgr u') \<and> m_jobs u' = m_jobs u \<and> m_task_mgr u' = m_task_mgr u"
  using assms
  by (auto simp: create_namespace_def create_from_def namespaces_ok_def namespace_contains_def namespace_add_def
      split: if_splits option.splits prod.splits dest: make_backend_nsid)

lemma namespace_remove_ok: "namespaces_ok m \<Longrightarrow> namespaces_ok (snd (namespace_remove n m))"
  by (auto simp: namespaces_ok_def namespace_remove_def split: option.splits if_splits)

lemma job_handler_ok:
  "jobs_wf (m_jobs u) \<Longrightarrow> jobs_wf (m_jobs (snd (job_register_handler j hs u)))"
  "jobs_wf (m_jobs u) \<Longrightarrow> jobs_wf (m_jobs (snd (job_update_handler j hs u)))"
  "jobs_wf (m_jobs u) \<Longrightarrow> jobs_wf (m_jobs (snd (job_remove_handler j u)))"
  "jobs_wf (m_jobs u) \<Longrightarrow> jobs_wf (m_jobs (snd (process_add_handler j g p u)))"
  "jobs_wf (m_jobs u) \<Longrightarrow> jobs_wf (m_jobs (snd (process_remove_handler j g p u)))"
  using job_exec_wf [of "m_jobs u" "Job_Register j hs"] job_exec_wf [of "m_jobs u" "Job_Update j hs"]
    job_exec_wf [of "m_jobs u" "Job_Unregister j"] job_exec_wf [of "m_jobs u" "Process_Register j g p"]
    job_exec_wf [of "m_jobs u" "Process_Unregister j g p"]
  by (simp_all add: job_handler_def job_register_handler_def job_update_handler_def job_remove_handler_def
      process_add_handler_def process_remove_handler_def)

text \<open>Handlers other than those of a table leave it as it is.\<close>

definition tables_ok :: "'w urd \<Rightarrow> bool" where
  "tables_ok u \<longleftrightarrow> namespaces_ok (m_namespace_mgr u) \<and> jobs_wf (m_jobs u)"

lemma serve_tables:
  assumes "tables_ok u"
  shows "returns_only (\<lambda>(resp, u'). tables_ok u') (serve_request env req creds u w)"
proof (cases req)
  case (Iotask_create_request t s d)
  then show ?thesis
    using iotask_create_move [of env u t s d creds w] assms
    by (auto simp: serve_request_eq returns_only_def tables_ok_def)
next
  case (Command_request cmd)
  then show ?thesis
    using assms unfolding serve_request_eq tables_ok_def
    by (cases cmd)
      (auto simp: command_handler_def pause_listening_def resume_listening_def shutdown_def Let_def intro!: post_intros)
next
  case (Iotask_status_request tid)
  then show ?thesis
    using assms by (auto simp: serve_request_eq returns_only_def tables_ok_def iotask_status_handler_def Let_def
        split: option.splits if_splits)
next
  case (Backend_register_request n t tr m q)
  then show ?thesis
    using assms create_namespace_ok [of u env w n t tr m q]
    by (auto simp: serve_request_eq returns_only_def tables_ok_def namespace_register_handler_def split: prod.splits)
next
  case (Backend_unregister_request n)
  then show ?thesis
    using assms namespace_remove_ok [of "m_namespace_mgr u" n]
    by (auto simp: serve_request_eq returns_only_def tables_ok_def namespace_remove_handler_def split: prod.splits)
qed (use assms job_handler_ok in \<open>auto simp: serve_request_eq returns_only_def tables_ok_def global_status_handler_def
    outcome_simps ping_handler_def unknown_request_handler_def job_handler_def job_register_handler_def
    job_update_handler_def job_remove_handler_def process_add_handler_def process_remove_handler_def\<close>)

lemma step_tables:
  assumes "tables_ok u" and "urd_step env (u, w) (u', w')"
  shows "tables_ok u'"
  using assms(2)
proof cases
  case (Request req creds resp)
  then show ?thesis by (auto dest: returns_onlyD [OF serve_tables [OF assms(1)]])
next
  case (Push h pu)
  then show ?thesis
    using assms(1) by (auto simp: push_resource_handler_def tables_ok_def Let_def split: if_splits option.splits
        dest: returns_onlyD [OF run_remote_move])
next
  case (Pull h pl)
  then show ?thesis
    using assms(1) by (auto simp: pull_resource_handler_def tables_ok_def Let_def split: if_splits option.splits
        dest: returns_onlyD [OF run_remote_move])
next
  case (Stat h si)
  then show ?thesis
    using assms(1) by (auto simp: stat_resource_handler_def stat_existing_def outcome_simps Let_def
        split: if_splits option.splits resource_type.splits)
qed (use assms(1) in \<open>auto simp: tables_ok_def\<close>)

section \<open>Initial states\<close>

lemma transfer_plugins_movers: "(k, tr) \<in> set (transfer_plugins fuel env) \<Longrightarrow> mover tr"
  by (auto simp: transfer_plugins_def intro: memory_to_local.mover_axioms memory_to_shared.mover_axioms
      memory_to_remote.mover_axioms local_to_local.mover_axioms local_to_shared.mover_axioms
      local_to_remote.mover_axioms remote_to_local.mover_axioms)

lemma load_plugins_inv:
  assumes "urd_inv u" and "\<forall>(k, tr) \<in> set ps. mover tr"
  shows "urd_inv (fold (\<lambda>((t1, t2), trp) u. u\<lparr>m_task_mgr := snd (register_transfer_plugin t1 t2 trp (m_task_mgr u))\<rparr>) ps u)"
  using assms
proof (induction ps arbitrary: u)
  case (Cons kt ps)
  obtain t1 t2 tr where kt: "kt = ((t1, t2), tr)" by (cases kt) auto
  have "urd_inv (u\<lparr>m_task_mgr := snd (register_transfer_plugin t1 t2 tr (m_task_mgr u))\<rparr>)"
    using Cons.prems by (auto simp: kt urd_inv_def intro: tm_inv_plugin)
  with Cons show ?case by (simp add: kt)
qed simp

lemma create_namespace_inv: "urd_inv u \<Longrightarrow> urd_inv (snd (create_namespace env w n t tr m q u))"
  by (cases "create_namespace env w n t tr m q u") (auto simp: urd_inv_def dest: create_namespace_ok)

lemma create_namespace_from_inv: "urd_inv u \<Longrightarrow> urd_inv (snd (create_namespace_from env w d u))"
  by (simp add: create_namespace_from_def create_namespace_inv Let_def)

lemma load_namespaces_inv: "urd_inv u \<Longrightarrow> urd_inv (load_default_namespaces env w defs u)"
  unfolding load_default_namespaces_def
proof (induction defs arbitrary: u)
  case (Cons d defs)
  have "urd_inv (snd (create_namespace_from env w d u))"
    by (rule create_namespace_from_inv [OF Cons.prems])
  with Cons.IH show ?case by simp
qed simp

lemma urd_start_inv: "returns_only urd_inv (urd_start fuel env w n bl dr du defs)"
proof -
  have ns: "namespaces_ok init_namespace_manager"
    by (auto simp: namespaces_ok_def init_namespace_manager_def namespace_add_def)
  show ?thesis
    unfolding urd_start_def load_transfer_plugins_def
    by (intro post_intros load_plugins_inv load_namespaces_inv)
      (use ns transfer_plugins_movers in \<open>auto simp: urd_inv_def tm_inv_init jobs_wf_def\<close>)
qed

lemma urd_inv_step:
  assumes "urd_inv u" and "urd_step env (u, w) (u', w')"
  shows "urd_inv u'"
  using assms tm_inv_move [OF _ step_move [OF assms(2)]] step_tables [OF _ assms(2)]
  by (simp add: urd_inv_def tables_ok_def)

interpretation daemon: invariant_system "urd_initial fuel env" "urd_step env" "\<lambda>s. urd_inv (fst s)"
proof
  show "urd_inv (fst s)" if "urd_initial fuel env s" for s
    using that by (auto simp: urd_initial_def dest: returns_onlyD [OF urd_start_inv])
  show "urd_inv (fst t)" if "urd_inv (fst s)" and "urd_step env s t" for s t
    using that by (cases s; cases t) (auto intro: urd_inv_step)
qed

abbreviation reachable :: "nat \<Rightarrow> ('w, 'e) urd_env_scheme \<Rightarrow> 'w urd \<times> 'w \<Rightarrow> bool" where
  "reachable fuel env \<equiv> reach (urd_initial fuel env) (urd_step env)"


section \<open>Examples\<close>

text \<open>A daemon with one worker, before and after it accepts a task, and while it serves it.\<close>

definition started_urd :: "unit urd" where
  "started_urd = (case urd_start 1 quiet_urd_env () 1 4 False 100 [] of Inr u \<Rightarrow> u | Inl _ \<Rightarrow> sample_urd)"

definition queued_urd :: "unit urd" where
  "queued_urd =
     (case iotask_create_handler quiet_urd_env IT_noop (Some (Memory_region_info 0 10)) None
             (Some credentials_default) started_urd () of
        Inr (resp, u) \<Rightarrow> u | Inl _ \<Rightarrow> started_urd)"

definition with_runners :: "('w work pool \<Rightarrow> 'w work pool option) \<Rightarrow> 'w urd \<Rightarrow> 'w urd" where
  "with_runners f u = (case f (m_runners (m_task_mgr u)) of
     Some r \<Rightarrow> u\<lparr>m_task_mgr := (m_task_mgr u)\<lparr>m_runners := r\<rparr>\<rparr> | None \<Rightarrow> u)"

lemma urd_start_quiet: "urd_start 1 quiet_urd_env () 1 4 False 100 [] = Inr started_urd"
  by (simp add: started_urd_def urd_start_def load_backend_plugins_def register_backend_def register_alias_def)

lemma started_sel:
  "m_is_paused started_urd = False" "m_ipc_stopped started_urd = False"
  "m_namespace_mgr started_urd = init_namespace_manager"
  "m_id_base (m_task_mgr started_urd) = 0" "m_task_info (m_task_mgr started_urd) = []"
  "m_heap (m_task_mgr started_urd) = []" "m_dry_run (m_task_mgr started_urd) = False"
  "m_dry_run_duration (m_task_mgr started_urd) = 100"
  "m_runners (m_task_mgr started_urd) = pool_init 1"
  "m_transferor_registry (m_task_mgr started_urd) = rev (transfer_plugins 1 quiet_urd_env)"
  by (simp_all add: started_urd_def urd_start_def load_backend_plugins_def register_backend_def register_alias_def
      load_transfer_plugins_def transfer_plugins_def load_default_namespaces_def task_manager_init_def
      register_transfer_plugin_def transferor_add_def um_emplace_def)

lemma started_reachable: "reachable 1 quiet_urd_env (started_urd, ())"
proof (rule reach_init)
  show "urd_initial 1 quiet_urd_env (started_urd, ())"
    unfolding urd_initial_def fst_conv by (intro exI) (rule urd_start_quiet)
qed

lemmas creation_eval = iotask_create_handler_def started_sel present_def namespace_find_all_def namespace_find_def
  init_namespace_manager_def namespace_add_def um_emplace_def create_local_initiated_task_def new_local_task_info_def
  make_task_info_def register_task_info_def local_transferor_def generic_task_id_def enqueue_task_def Let_def

lemma queued_create:
  "iotask_create_handler quiet_urd_env IT_noop (Some (Memory_region_info 0 10)) None (Some credentials_default) started_urd () =
     Inr (iotask_create_response 1 UE_success, queued_urd)"
  by (simp add: queued_urd_def creation_eval)

lemma queued_sel:
  "m_ipc_stopped queued_urd = False" "length (m_heap (m_task_mgr queued_urd)) = 1"
  "ti_status (m_heap (m_task_mgr queued_urd) ! 0) = TS_pending"
  "m_runners (m_task_mgr queued_urd) = pool_submit (Work \<lparr>gt_type = IT_noop, gt_impl = Task_noop 0 100\<rparr> False) (pool_init 1)"
  by (simp_all add: queued_urd_def creation_eval)

lemma queued_reachable: "reachable 1 quiet_urd_env (queued_urd, ())"
proof (rule reach_step [OF started_reachable], rule Request)
  show "serve_request quiet_urd_env (Iotask_create_request IT_noop (Some (Memory_region_info 0 10)) None)
      (Some credentials_default) started_urd () = Inr (iotask_create_response 1 UE_success, queued_urd)"
    by (simp add: serve_request_eq queued_create)
qed (simp add: started_sel)

definition tested_urd :: "unit urd" where
  "tested_urd = with_runners (worker_test 0) queued_urd"

definition popped_urd :: "unit urd" where
  "popped_urd = with_runners (worker_pop 0) tested_urd"

lemma popped_sel:
  "m_heap (m_task_mgr popped_urd) = m_heap (m_task_mgr queued_urd)"
  "current_work 0 (m_task_mgr popped_urd) = Some (Work \<lparr>gt_type = IT_noop, gt_impl = Task_noop 0 100\<rparr> False)"
  by (simp_all add: popped_urd_def tested_urd_def with_runners_def worker_test_def worker_pop_def queued_sel pool_submit_def pool_init_def
      update_worker_def wait_pop_def queue_push_def queue_init_def current_work_def)

lemma popped_reachable: "reachable 1 quiet_urd_env (popped_urd, ())"
proof -
  have "reachable 1 quiet_urd_env (tested_urd, ())"
    by (rule reach_step [OF queued_reachable])
      (auto simp: tested_urd_def with_runners_def intro: Environment Worker_Test split: option.split)
  then show ?thesis
    by (rule reach_step)
      (auto simp: popped_urd_def with_runners_def intro: Environment Worker_Pop split: option.split)
qed


definition running_urd :: "unit urd" where
  "running_urd = popped_urd\<lparr>m_task_mgr :=
     write_heap 0 (task_start (m_heap (m_task_mgr popped_urd) ! 0)) (m_task_mgr popped_urd)\<rparr>"

lemma running_step: "urd_step quiet_urd_env (popped_urd, ()) (running_urd, ())"
  unfolding running_urd_def
  by (rule Task_Begin [of 0]) (simp add: execute_begin_def popped_sel queued_sel generic_task_info_def)

definition finished_urd :: "unit urd" where
  "finished_urd = (case execute_end quiet_urd_env 0 (m_task_mgr running_urd) () of
     Some (Inr (tm, w)) \<Rightarrow> running_urd\<lparr>m_task_mgr := tm\<rparr> | _ \<Rightarrow> running_urd)"

lemma running_sel:
  "length (m_heap (m_task_mgr running_urd)) = 1" "ti_status (m_heap (m_task_mgr running_urd) ! 0) = TS_running"
  "current_work 0 (m_task_mgr running_urd) = Some (Work \<lparr>gt_type = IT_noop, gt_impl = Task_noop 0 100\<rparr> False)"
  "\<exists>r. worker_done 0 (m_runners (m_task_mgr running_urd)) = Some r"
  using popped_sel(2)
  by (auto simp: running_urd_def popped_sel(1) queued_sel task_start_def update_status_def current_work_thread worker_done_def)

lemma finished_sel:
  "execute_end quiet_urd_env 0 (m_task_mgr running_urd) () = Some (Inr (m_task_mgr finished_urd, ()))"
  "length (m_heap (m_task_mgr finished_urd)) = 1" "ti_status (m_heap (m_task_mgr finished_urd) ! 0) = TS_finished"
  "running_urd\<lparr>m_task_mgr := m_task_mgr finished_urd\<rparr> = finished_urd"
proof -
  obtain r where "worker_done 0 (m_runners (m_task_mgr running_urd)) = Some r" using running_sel(4) ..
  note eval = this finished_urd_def execute_end_def running_sel generic_task_info_def noop_body_def update_status_def
  show "execute_end quiet_urd_env 0 (m_task_mgr running_urd) () = Some (Inr (m_task_mgr finished_urd, ()))"
    and "length (m_heap (m_task_mgr finished_urd)) = 1" and "ti_status (m_heap (m_task_mgr finished_urd) ! 0) = TS_finished"
    and "running_urd\<lparr>m_task_mgr := m_task_mgr finished_urd\<rparr> = finished_urd"
    by (simp_all add: eval)
qed

lemma finished_reachable: "reachable 1 quiet_urd_env (finished_urd, ())"
  using Task_End [where u = running_urd, OF finished_sel(1)] unfolding finished_sel(4)
  by (rule reach_step [OF reach_step [OF popped_reachable running_step]])

definition reported_urd :: "unit urd" where
  "reported_urd = snd (iotask_status_handler 1 finished_urd)"

lemma report_step: "urd_step quiet_urd_env (finished_urd, ()) (reported_urd, ())"
proof (rule Request)
  show "serve_request quiet_urd_env (Iotask_status_request 1) None finished_urd () =
      Inr (fst (iotask_status_handler 1 finished_urd), reported_urd)"
    by (simp add: serve_request_eq reported_urd_def)
  show "\<not> m_ipc_stopped finished_urd"
    by (simp add: finished_urd_def running_urd_def popped_urd_def tested_urd_def with_runners_def queued_sel
        split: option.split sum.split prod.split)
qed

definition rejecting_urd :: "unit urd" where
  "rejecting_urd =
     (case iotask_create_handler quiet_urd_env IT_copy (Some (Memory_region_info 0 10)) (Some (Memory_region_info 4096 10))
             (Some credentials_default) started_urd () of
        Inr (resp, u) \<Rightarrow> u | Inl _ \<Rightarrow> started_urd)"

lemma rejecting_create:
  "iotask_create_handler quiet_urd_env IT_copy (Some (Memory_region_info 0 10)) (Some (Memory_region_info 4096 10))
     (Some credentials_default) started_urd () = Inr (iotask_create_response 0 UE_not_supported, rejecting_urd)"
  by (simp add: rejecting_urd_def creation_eval select_transferor_def transferor_get_def transfer_plugins_def)

end
