(* ===== verification/Task_Lifecycle.thy ===== *)
theory Task_Lifecycle
  imports Daemon
begin

text \<open>
  What the steps of the daemon do to a task over time: its life cycle, that results are final, and
  what a rejected task does to shutdown.
\<close>

section \<open>The life of a task\<close>

text \<open>
  What one step may do to the metadata of a task: drop the handle of the remote request, start a
  pending task, or complete a running one.
\<close>

definition task_moves :: "task_info \<Rightarrow> task_info \<Rightarrow> bool" where
  "task_moves ti ti' \<longleftrightarrow>
     clear_context ti' = clear_context ti \<or>
     ti_status ti = TS_pending \<and> ti' = task_start ti \<or>
     ti_status ti = TS_running \<and> same_identity ti ti' \<and> coherent_result ti'"

definition heap_moves :: "'w task_manager \<Rightarrow> 'w task_manager \<Rightarrow> bool" where
  "heap_moves tm tm' \<longleftrightarrow> length (m_heap tm) \<le> length (m_heap tm') \<and>
     (\<forall>p < length (m_heap tm). task_moves (m_heap tm ! p) (m_heap tm' ! p))"

lemma task_moves_refl [simp]: "task_moves ti ti"
  by (simp add: task_moves_def)

lemma task_moves_clear [simp]: "task_moves ti (clear_context ti)"
  by (cases ti) (simp add: task_moves_def clear_context_def)

lemma heap_moves_same: "m_heap tm' = m_heap tm \<Longrightarrow> heap_moves tm tm'"
  by (simp add: heap_moves_def)

lemma heap_moves_append: "m_heap tm' = m_heap tm @ xs \<Longrightarrow> heap_moves tm tm'"
  by (simp add: heap_moves_def nth_append)

lemma heap_moves_write:
  "m_heap tm' = (m_heap tm)[p := ti] \<Longrightarrow> p < length (m_heap tm) \<Longrightarrow> task_moves (m_heap tm ! p) ti \<Longrightarrow> heap_moves tm tm'"
  by (auto simp: heap_moves_def nth_list_update)

lemma creation_heap: "creation_result tm (err, t, tm') \<Longrightarrow> \<exists>xs. m_heap tm' = m_heap tm @ xs"
  by (auto simp: creation_result_def)

lemma enqueue_heap [simp]: "m_heap (snd (enqueue_task t tm)) = m_heap tm"
  using enqueue_task_cases [of t tm] by auto

lemma execute_begin_cases:
  assumes "execute_begin i tm = Some (Inr tm')"
  obtains t b p where "current_work i tm = Some (Work t b)" and "generic_task_info t = Inr (Some p)"
    and "p < length (m_heap tm)" and "ti_status (m_heap tm ! p) = TS_pending"
    and "tm' = write_heap p (task_start (m_heap tm ! p)) tm"
  using assms by (auto simp: execute_begin_def split: option.splits work.splits sum.splits if_splits)

lemma execute_end_result:
  assumes "tm_inv tm" and "current_work i tm = Some (Work t b)" and "p < length (m_heap tm)"
    and "ti_status (m_heap tm ! p) = TS_running"
    and "task_body env (gt_type t) (gt_impl t) (m_heap tm ! p) w = Inr (ti', w')"
  shows "same_identity (m_heap tm ! p) ti' \<and> coherent_result ti'"
proof -
  have "work_ok (Work t b)"
    using assms(1) running_submitted [OF _ current_work_running [OF assms(2)]]
    by (auto simp: tm_inv_def work_inv_def Let_def)
  moreover have "info_ok (m_heap tm ! p)" using assms(1,3) by (simp add: tm_inv_def)
  ultimately have "completes (m_heap tm ! p) (ti', w')"
    using assms(4) by (intro returns_onlyD [OF task_body_completes assms(5)])
      (auto simp: work_ok_def info_ok_def coherent_result_def)
  then show ?thesis by (simp add: completes_def)
qed

lemma tm_move_heap:
  assumes "tm_inv tm" and "tm_move env tm tm'"
  shows "heap_moves tm tm'"
  using assms(2)
proof cases
  case (Reject err t)
  then show ?thesis by (auto dest: creation_heap intro: heap_moves_append)
next
  case (Enqueue t tm1)
  then obtain xs where "m_heap tm1 = m_heap tm @ xs" using creation_heap by blast
  then show ?thesis unfolding Enqueue(1) by (intro heap_moves_append [of _ _ xs]) simp
next
  case (Run_Now t tm1 ti w ti' w')
  then obtain xs where "m_heap tm1 = m_heap tm @ xs" using creation_heap by blast
  then show ?thesis
    unfolding Run_Now(1) by (simp add: heap_moves_def nth_list_update nth_append)
next
  case (Clear p)
  then show ?thesis
    by (intro heap_moves_write [where p = p and ti = "clear_context (m_heap tm ! p)"]) simp_all
next
  case (Begin i)
  show ?thesis
    by (rule execute_begin_cases [OF Begin(1)])
      (auto intro!: heap_moves_write simp: task_moves_def)
next
  case (End i w w')
  show ?thesis
    by (rule execute_end_cases [OF End(1)])
      (auto intro!: heap_moves_write simp: task_moves_def dest: execute_end_result [OF assms(1)])
qed (auto intro!: heap_moves_same simp: task_erase_def split: option.splits)

lemma step_heap: "urd_inv u \<Longrightarrow> urd_step env (u, w) (u', w') \<Longrightarrow> heap_moves (m_task_mgr u) (m_task_mgr u')"
  by (auto simp: urd_inv_def intro: tm_move_heap step_move)


definition same_outcome :: "task_info \<Rightarrow> task_info \<Rightarrow> bool" where
  "same_outcome ti ti' \<longleftrightarrow> same_identity ti ti' \<and> stats ti' = stats ti \<and> ti_bandwidth ti' = ti_bandwidth ti"

lemma finished_moves:
  assumes "task_moves ti ti'" and "finished_status (ti_status ti)"
  shows "same_outcome ti ti' \<and> ti_status ti' = ti_status ti"
  using assms by (cases ti; cases ti')
    (auto simp: task_moves_def clear_context_def same_outcome_def same_identity_def stats_def)

lemma finished_steps:
  assumes "(urd_step env)\<^sup>*\<^sup>* s t" and "urd_inv (fst s)" and "p < length (m_heap (m_task_mgr (fst s)))"
    and "finished_status (ti_status (m_heap (m_task_mgr (fst s)) ! p))"
  shows "urd_inv (fst t) \<and> p < length (m_heap (m_task_mgr (fst t))) \<and>
    finished_status (ti_status (m_heap (m_task_mgr (fst t)) ! p)) \<and>
    same_outcome (m_heap (m_task_mgr (fst s)) ! p) (m_heap (m_task_mgr (fst t)) ! p)"
  using assms
proof (induction rule: rtranclp_induct)
  case base
  then show ?case by (simp add: same_outcome_def)
next
  case (step t v)
  obtain u w u' w' where tv: "t = (u, w)" "v = (u', w')" by (cases t; cases v) auto
  from step have inv: "urd_inv u" and mv: "urd_step env (u, w) (u', w')" and p: "p < length (m_heap (m_task_mgr u))"
    and fin: "finished_status (ti_status (m_heap (m_task_mgr u) ! p))"
    and same: "same_outcome (m_heap (m_task_mgr (fst s)) ! p) (m_heap (m_task_mgr u) ! p)"
    by (simp_all add: tv)
  have "task_moves (m_heap (m_task_mgr u) ! p) (m_heap (m_task_mgr u') ! p)" "p < length (m_heap (m_task_mgr u'))"
    using step_heap [OF inv mv] p by (auto simp: heap_moves_def)
  with finished_moves [OF this(1) fin] urd_inv_step [OF inv mv] same fin show ?case
    by (auto simp: tv same_outcome_def same_identity_def)
qed

text \<open>
  C7. A result is final: once a task has finished, its identity, the statistics a client is told
  (status, errors, total and pending bytes) and the bandwidth measured for it are the same in every
  later state of the daemon, whatever requests, remote operations and worker steps come in between.
\<close>

theorem task_result_final:
  assumes "reachable fuel env (u, w)" and "(urd_step env)\<^sup>*\<^sup>* (u, w) (u', w')"
    and "p < length (m_heap (m_task_mgr u))" and "finished_status (ti_status (m_heap (m_task_mgr u) ! p))"
  shows "p < length (m_heap (m_task_mgr u')) \<and>
    same_identity (m_heap (m_task_mgr u) ! p) (m_heap (m_task_mgr u') ! p) \<and>
    stats (m_heap (m_task_mgr u') ! p) = stats (m_heap (m_task_mgr u) ! p) \<and>
    ti_bandwidth (m_heap (m_task_mgr u') ! p) = ti_bandwidth (m_heap (m_task_mgr u) ! p)"
  using finished_steps [OF assms(2)] daemon.inv_reach [OF assms(1)] assms(3,4) by (simp add: same_outcome_def)

section \<open>Tasks nobody will run\<close>

text \<open>
  A creation that finds no transferor has already entered the task in the table, as pending. The task
  is never queued, so it is never run, finished or erased.
\<close>

definition stranded :: "u32 \<Rightarrow> task_ptr \<Rightarrow> 'w task_manager \<Rightarrow> bool" where
  "stranded tid p tm \<longleftrightarrow> task_find tm tid = Some p \<and> p < length (m_heap tm) \<and>
     ti_status (m_heap tm ! p) = TS_pending \<and> p \<notin> submitted_ptrs tm"

lemma current_submitted:
  assumes "tm_inv tm" and "current_work i tm = Some (Work t b)" and "generic_task_info t = Inr (Some p)"
  shows "p \<in> submitted_ptrs tm"
proof -
  have "Work t b \<in> set (g_submitted (m_runners tm))"
    using assms(1) running_submitted [OF _ current_work_running [OF assms(2)]] by (simp add: tm_inv_def)
  then show ?thesis
    unfolding submitted_ptrs_def by (force simp: work_ptr_def assms(3))
qed

lemma submitted_destroy:
  "r = destroy_set_done (m_runners tm) \<and> p_stop (m_runners tm) = Not_Stopped \<or>
     destroy_invalidate (m_runners tm) = Some r \<or> destroy_join (m_runners tm) = Some r \<Longrightarrow>
   g_submitted r = g_submitted (m_runners tm)"
  by (auto simp: destroy_set_done_def destroy_invalidate_def destroy_join_def split: if_splits)

lemma stranded_creation: "stranded tid p tm \<Longrightarrow> creation_result tm (err, t, tm') \<Longrightarrow> stranded tid p tm'"
  by (auto simp: stranded_def creation_result_def task_find_def nth_append submitted_ptrs_def)

lemma stranded_runners:
  "stranded tid p tm \<Longrightarrow> g_submitted r = g_submitted (m_runners tm) \<Longrightarrow> stranded tid p (tm\<lparr>m_runners := r\<rparr>)"
  by (simp add: stranded_def task_find_def submitted_ptrs_def)

lemma stranded_write:
  "stranded tid p tm \<Longrightarrow> (q = p \<Longrightarrow> ti_status ti = TS_pending) \<Longrightarrow> stranded tid p (write_heap q ti tm)"
  by (cases "q = p") (auto simp: stranded_def task_find_def submitted_ptrs_def)

lemma stranded_enqueue:
  assumes "stranded tid p tm" and "creation_result tm (UE_success, Some t, tm1)"
  shows "stranded tid p (snd (enqueue_task t tm1))"
proof -
  have g: "generic_task_info t = Inr (Some (length (m_heap tm)))" and p: "p < length (m_heap tm)"
    using assms by (auto simp: creation_result_def stranded_def)
  have "p \<notin> submitted_ptrs (tm1\<lparr>m_runners := pool_submit (Work t b) (m_runners tm1)\<rparr>)" for b
    using stranded_creation [OF assms] g p by (auto simp: stranded_def submitted_ptrs_def pool_submit_def work_ptr_def)
  with stranded_creation [OF assms] enqueue_task_cases [of t tm1] show ?thesis
    by (auto simp: stranded_def task_find_def)
qed

lemma stranded_move:
  assumes "tm_inv tm" and "stranded tid p tm" and "tm_move env tm tm'"
  shows "stranded tid p tm'"
  using assms(3)
proof cases
  case (Reject err t)
  then show ?thesis using assms(2) by (blast intro: stranded_creation)
next
  case (Enqueue t tm1)
  then show ?thesis using stranded_enqueue [OF assms(2)] by blast
next
  case (Run_Now t tm1 ti w ti' w')
  have "length (m_heap tm) \<noteq> p" using assms(2) by (auto simp: stranded_def)
  then show ?thesis
    unfolding Run_Now(1) by (intro stranded_write [OF stranded_creation [OF assms(2) Run_Now(2)]]) simp
next
  case (Clear q)
  show ?thesis
    unfolding Clear(1)
    by (rule stranded_write [OF assms(2)]) (use assms(2) in \<open>auto simp: stranded_def clear_context_def\<close>)
next
  case (Erase tid' q)
  then show ?thesis using assms(2) by (auto simp: stranded_def task_erase_def task_find_def submitted_ptrs_def)
next
  case (Begin i)
  show ?thesis
  proof (rule execute_begin_cases [OF Begin(1)])
    fix t b q
    assume x: "current_work i tm = Some (Work t b)" "generic_task_info t = Inr (Some q)"
      and tm': "tm' = write_heap q (task_start (m_heap tm ! q)) tm"
    show ?thesis
      unfolding tm' using assms(2) current_submitted [OF assms(1) x]
      by (intro stranded_write) (auto simp: stranded_def)
  qed
next
  case (End i w w')
  show ?thesis
  proof (rule execute_end_cases [OF End(1)])
    fix t b q ti' r bl
    assume x: "current_work i tm = Some (Work t b)" "generic_task_info t = Inr (Some q)"
      and r: "worker_done i (m_runners tm) = Some r"
      and tm': "tm' = (write_heap q ti' tm)\<lparr>m_runners := r, m_bandwidth_backlog := bl\<rparr>"
    have "stranded tid p (write_heap q ti' tm)"
      using assms(2) current_submitted [OF assms(1) x] by (intro stranded_write) (auto simp: stranded_def)
    then show ?thesis
      using worker_done_items [OF r] by (auto simp: tm' stranded_def task_find_def submitted_ptrs_def)
  qed
next
  case (Stop r)
  show ?thesis unfolding Stop(1) by (rule stranded_runners [OF assms(2) submitted_destroy [OF Stop(2)]])
qed (use assms(2) in \<open>auto intro!: stranded_runners simp: worker_test_def worker_pop_def
    split: if_splits pop_result.splits\<close>)

lemma stranded_steps:
  assumes "(urd_step env)\<^sup>*\<^sup>* s t" and "urd_inv (fst s)" and "stranded tid p (m_task_mgr (fst s))"
  shows "urd_inv (fst t) \<and> stranded tid p (m_task_mgr (fst t))"
  using assms
proof (induction rule: rtranclp_induct)
  case (step t v)
  obtain u w u' w' where tv: "t = (u, w)" "v = (u', w')" by (cases t; cases v) auto
  from step have inv: "urd_inv u" and st: "stranded tid p (m_task_mgr u)" and mv: "urd_step env (u, w) (u', w')"
    by (simp_all add: tv)
  have "stranded tid p (m_task_mgr u')"
    by (rule stranded_move [OF _ st step_move [OF mv]]) (use inv in \<open>simp add: urd_inv_def\<close>)
  with urd_inv_step [OF inv mv] show ?case by (simp add: tv)
qed simp

lemma rejected_stranded:
  assumes "urd_inv u" and "iotask_create_handler env type s d creds u w = Inr (resp, u')"
    and "rs_error_code resp = UE_not_supported"
  shows "stranded (m_id_base (m_task_mgr u) + 1) (length (m_heap (m_task_mgr u))) (m_task_mgr u')"
proof -
  let ?tm = "m_task_mgr u"
  obtain tm' where c: "creation_result ?tm (UE_not_supported, None, tm')" and u': "m_task_mgr u' = tm'"
    using assms(2,3)
    by (auto simp: iotask_create_handler_def iotask_create_response_def make_response_def outcome_simps Let_def
        split: if_splits option.splits dest!: returns_onlyD [OF create_local_spec])
      (auto simp: creation_result_def split: option.splits)
  have "length (m_heap ?tm) \<notin> submitted_ptrs ?tm"
    using submitted_bound [of ?tm "length (m_heap ?tm)"] assms(1) by (auto simp: urd_inv_def tm_inv_def)
  with c show ?thesis
    by (auto simp: u' creation_result_def stranded_def task_find_def fresh_info_def submitted_ptrs_def nth_append)
qed

text \<open>
  C39. One rejected task keeps the daemon from shutting down for ever: after a copy or move that was
  answered with not\_supported, whatever requests, transfers and worker steps follow, every shutdown
  command is refused with tasks\_pending. No client knows the id of the task, and asking for its status
  would not remove it.
\<close>

theorem rejected_task_blocks_shutdown:
  assumes "reachable fuel env (u, w)"
    and "iotask_create_handler env type s d creds u w = Inr (resp, u1)" and "rs_error_code resp = UE_not_supported"
    and "(urd_step env)\<^sup>*\<^sup>* (u1, w) (u2, w2)"
  shows "command_handler env w2 CT_shutdown u2 =
    Inr (make_response RS_command UE_tasks_pending, resume_listening (pause_listening u2))"
proof -
  have inv: "urd_inv u" using daemon.inv_reach [OF assms(1)] by simp
  have "urd_inv u1"
    using tm_inv_move [OF _ ] inv returns_onlyD [OF iotask_create_move assms(2)] by (auto simp: urd_inv_def)
  then have st: "stranded (m_id_base (m_task_mgr u) + 1) (length (m_heap (m_task_mgr u))) (m_task_mgr u2)"
    using stranded_steps [OF assms(4)] rejected_stranded [OF inv assms(2,3)] by simp
  then have "(m_id_base (m_task_mgr u) + 1, length (m_heap (m_task_mgr u))) \<in> set (m_task_info (m_task_mgr u2))"
    by (simp add: stranded_def task_find_def um_find_in_set)
  then have "task_count_if (\<lambda>ti. active_status (ti_status ti)) (m_task_mgr u2) \<noteq> 0"
    using st unfolding task_count_if_def um_count_if_0 by (auto simp: stranded_def intro: bexI [rotated])
  then show ?thesis
    by (simp add: command_handler_def check_shutdown_def pause_listening_def resume_listening_def)
qed

section \<open>Examples\<close>


theorem task_result_final_witness:
  "ti_status (m_heap (m_task_mgr finished_urd) ! 0) = TS_finished \<and>
   stats (m_heap (m_task_mgr reported_urd) ! 0) = stats (m_heap (m_task_mgr finished_urd) ! 0)"
  using task_result_final [OF finished_reachable r_into_rtranclp [of "urd_step quiet_urd_env", OF report_step], of 0]
  by (simp add: finished_sel)

theorem rejected_task_blocks_shutdown_witness:
  "command_handler quiet_urd_env () CT_shutdown rejecting_urd =
     Inr (make_response RS_command UE_tasks_pending, resume_listening (pause_listening rejecting_urd))"
  by (rule rejected_task_blocks_shutdown [OF started_reachable rejecting_create])
    (simp_all add: iotask_create_response_def make_response_def)

end
