(* ===== verification/Client_Lib.thy ===== *)
theory Client_Lib
  imports Api_Request
begin

text \<open>
  The ground the client libraries stand on: a C function as a computation that reads and changes the
  world of the calling process, the calls it makes into the operating system and the protocol buffers
  library, \<^verbatim>\<open>lib/xmalloc.c\<close>, \<^verbatim>\<open>lib/xstring.c\<close>, \<^verbatim>\<open>lib/errors.c\<close>, \<^verbatim>\<open>lib/resources.c\<close>, and the structures of
  \<^verbatim>\<open>include/norns/norns_types.h\<close> and \<^verbatim>\<open>include/nornsctl.h\<close>. A pointer that may be \<^verbatim>\<open>NULL\<close> is an \<open>option\<close>; a
  C string is the list of its characters without the terminating zero.
\<close>

section \<open>C functions\<close>

type_synonym ('w, 'a) io = "'w \<Rightarrow> ('a \<times> 'w) outcome"

definition io_return :: "'a \<Rightarrow> ('w, 'a) io" where
  "io_return a = (\<lambda>w. Inr (a, w))"

definition io_bind :: "('w, 'a) io \<Rightarrow> ('a \<Rightarrow> ('w, 'b) io) \<Rightarrow> ('w, 'b) io" where
  "io_bind m f = (\<lambda>w. obind (m w) (\<lambda>(a, w'). f a w'))"

definition io_lift :: "'a outcome \<Rightarrow> ('w, 'a) io" where
  "io_lift r = (\<lambda>w. obind r (\<lambda>a. Inr (a, w)))"

text \<open>A call of the operating system.\<close>

definition io_call :: "('w \<Rightarrow> 'a \<times> 'w) \<Rightarrow> ('w, 'a) io" where
  "io_call f = (\<lambda>w. Inr (f w))"

text \<open>The common shape \<^verbatim>\<open>if((p = f()) == NULL) goto cleanup;\<close>: the rest runs on what \<open>p\<close> points to.\<close>

definition io_nonnull :: "('w, 'a option) io \<Rightarrow> ('a \<Rightarrow> ('w, 'b option) io) \<Rightarrow> ('w, 'b option) io" where
  "io_nonnull m f = io_bind m (\<lambda>p. case p of None \<Rightarrow> io_return None | Some a \<Rightarrow> f a)"

lemma io_apply:
  "io_return a w = Inr (a, w)"
  "io_call f w = Inr (f w)"
  by (simp_all add: io_return_def io_call_def)

lemma io_simps [simp]:
  "io_lift (Inr a) = io_return a"
  "io_bind (io_return a) h = h a"
  "io_nonnull (io_return None) g = io_return None"
  "io_nonnull (io_return (Some b)) g = g b"
  by (auto simp: io_return_def io_call_def io_lift_def io_bind_def io_nonnull_def fun_eq_iff)

lemma io_bind_Inr: "m w = Inr (a, w') \<Longrightarrow> io_bind m f w = f a w'"
  by (simp add: io_bind_def)

lemma io_bind_call: "io_bind (io_call g) f w = (case g w of (a, w') \<Rightarrow> f a w')"
  by (simp add: io_bind_def io_call_def)

text \<open>
  What a computation that builds a structure may do when memory can run out: \<open>builds x m\<close> says that it
  hands out \<open>x\<close> or \<^verbatim>\<open>NULL\<close>, and that the only fault is the use of a null pointer.
\<close>

named_theorems builds_intros \<open>one rule per construct of a computation that builds a structure\<close>

definition builds :: "'a \<Rightarrow> ('w, 'a option) io \<Rightarrow> bool" where
  "builds x m \<longleftrightarrow> (\<forall>w. m w = Inl Null_Deref \<or> (\<exists>w'. m w = Inr (None, w') \<or> m w = Inr (Some x, w')))"

lemma builds_return [builds_intros]: "y = x \<Longrightarrow> builds x (io_return (Some y))"
  by (simp add: builds_def io_apply)

lemma builds_nonnull [builds_intros]: "builds y m \<Longrightarrow> builds x (f y) \<Longrightarrow> builds x (io_nonnull m f)"
  unfolding builds_def io_nonnull_def io_bind_def by (smt (verit) case_prod_conv io_apply(1) obind_simps option.simps(4,5))

section \<open>The environment of the client\<close>

text \<open>
  The structures whose sizes the allocator is asked for; the sizes are fixed by the generated header
  and by the machine.
\<close>

datatype c_struct =
    Request_struct | Task_struct | Resource_struct | Region_struct | Path_struct | Process_struct
  | Nspace_struct | Backend_struct | Limits_struct | Job_struct | Command_struct | Pointer_size

text \<open>The context of the library, kept for each thread of the process.\<close>

record libcontext =
  config_file :: "string option"
  api_socket :: "string option"

record 'w client_env =
  cl_sizeof :: "c_struct \<Rightarrow> nat"
  cl_malloc :: "nat \<Rightarrow> 'w \<Rightarrow> bool \<times> 'w"               \<comment> \<open>\<^verbatim>\<open>malloc\<close> and \<^verbatim>\<open>calloc\<close>: not \<^verbatim>\<open>NULL\<close>?\<close>
  cl_junk :: "nat \<Rightarrow> 'w \<Rightarrow> byte list"                  \<comment> \<open>what fresh memory happens to hold\<close>
  cl_errno :: "'w \<Rightarrow> int"
  cl_socket :: "'w \<Rightarrow> int \<times> 'w"
  cl_connect :: "int \<Rightarrow> string \<Rightarrow> 'w \<Rightarrow> int \<times> 'w"
  cl_write :: "int \<Rightarrow> byte list \<Rightarrow> 'w \<Rightarrow> int \<times> 'w"
  cl_read :: "int \<Rightarrow> nat \<Rightarrow> 'w \<Rightarrow> (int \<times> byte list) \<times> 'w"
  cl_close :: "int \<Rightarrow> 'w \<Rightarrow> int \<times> 'w"
  cl_nanosleep :: "int \<times> int \<Rightarrow> 'w \<Rightarrow> (int \<times> int \<times> int) \<times> 'w"   \<comment> \<open>the result and what remains\<close>
  cl_context :: "libcontext option"                     \<comment> \<open>\<^verbatim>\<open>pthread_getspecific\<close> in the calling thread\<close>
  cl_big :: bool                                        \<comment> \<open>the byte order of the host\<close>

text \<open>
  \<open>gives env x m\<close>: whatever the world, the computation returns \<open>x\<close>, and all it does to the world is to allocate
  memory.
\<close>

definition mallocs :: "('w, 'e) client_env_scheme \<Rightarrow> 'w \<Rightarrow> 'w \<Rightarrow> bool" where
  "mallocs env = (\<lambda>w w'. \<exists>n. w' = snd (cl_malloc env n w))\<^sup>*\<^sup>*"

definition gives :: "('w, 'e) client_env_scheme \<Rightarrow> 'a \<Rightarrow> ('w, 'a) io \<Rightarrow> bool" where
  "gives env x m \<longleftrightarrow> (\<forall>w. \<exists>w'. m w = Inr (x, w') \<and> mallocs env w w')"

named_theorems gives_intros \<open>one rule per construct of a computation that cannot fail\<close>

lemma mallocs_refl [simp]: "mallocs env w w"
  by (simp add: mallocs_def)

lemma mallocs_trans: "mallocs env u v \<Longrightarrow> mallocs env v w \<Longrightarrow> mallocs env u w"
  unfolding mallocs_def by (rule rtranclp_trans)

lemma mallocs_one: "mallocs env w (snd (cl_malloc env n w))"
  unfolding mallocs_def by (rule r_into_rtranclp) blast

lemma mallocs_keep:
  assumes "\<And>n w. f (snd (cl_malloc env n w)) = f w"
  shows "mallocs env w w' \<Longrightarrow> f w' = f w"
  unfolding mallocs_def by (induction rule: rtranclp_induct) (auto simp: assms)

lemma gives_return [gives_intros]: "y = x \<Longrightarrow> gives env x (io_return y)"
  by (simp add: gives_def io_apply)

lemma gives_bind [gives_intros]: "gives env y m \<Longrightarrow> gives env x (f y) \<Longrightarrow> gives env x (io_bind m f)"
  unfolding gives_def by (metis io_bind_Inr mallocs_trans)

lemma gives_nonnull [gives_intros]: "gives env (Some y) m \<Longrightarrow> gives env x (f y) \<Longrightarrow> gives env x (io_nonnull m f)"
  unfolding io_nonnull_def by (rule gives_bind [where y = "Some y"]) simp_all

lemma gives_null: "gives env None m \<Longrightarrow> gives env None (io_nonnull m f)"
  unfolding io_nonnull_def by (rule gives_bind [where y = None]) (simp_all add: gives_return)

section \<open>Memory and strings\<close>

text \<open>\<^verbatim>\<open>norns_xmalloc\<close>; whether the memory is cleared is up to the caller, who says what it holds.\<close>

definition xmalloc :: "('w, 'e) client_env_scheme \<Rightarrow> nat \<Rightarrow> ('w, unit option) io" where
  "xmalloc env sz =
     (if sz \<le> 0 then io_return None
      else io_bind (io_call (cl_malloc env sz)) (\<lambda>ok. io_return (if ok then Some () else None)))"

abbreviation XMAX_STRING_LENGTH :: nat where "XMAX_STRING_LENGTH \<equiv> 4096"

text \<open>
  \<^verbatim>\<open>xstrdup\<close> does not test what \<^verbatim>\<open>xmalloc\<close> returned before it copies into it, and cuts the string off
  after 4095 characters.
\<close>

definition xstrdup :: "('w, 'e) client_env_scheme \<Rightarrow> string option \<Rightarrow> ('w, string option) io" where
  "xstrdup env s =
     (case s of
        None \<Rightarrow> io_return None
      | Some str \<Rightarrow>
          let sz = min (length str + 1) XMAX_STRING_LENGTH
          in io_bind (xmalloc env sz) (\<lambda>p.
             io_bind (io_lift (deref p)) (\<lambda>_. io_return (Some (take (sz - 1) str)))))"

text \<open>\<^verbatim>\<open>get_context\<close>: a thread without a context ends the process.\<close>

definition get_context :: "('w, 'e) client_env_scheme \<Rightarrow> ('w, libcontext) io" where
  "get_context env = (case cl_context env of None \<Rightarrow> io_lift (Inl Process_Exit) | Some ctx \<Rightarrow> io_return ctx)"

text \<open>The sign of \<^verbatim>\<open>strncmp\<close>; it stops at the end of either string.\<close>

fun strncmp :: "string \<Rightarrow> string \<Rightarrow> nat \<Rightarrow> int" where
  "strncmp _ _ 0 = 0"
| "strncmp [] [] (Suc n) = 0"
| "strncmp [] (b # bs) (Suc n) = -1"
| "strncmp (a # as) [] (Suc n) = 1"
| "strncmp (a # as) (b # bs) (Suc n) =
     (if a = b then strncmp as bs n else if (of_char a :: nat) < of_char b then -1 else 1)"

definition xstrcnmp :: "string option \<Rightarrow> string option \<Rightarrow> int" where
  "xstrcnmp s1 s2 =
     (case (s1, s2) of
        (None, None) \<Rightarrow> 0
      | (None, Some _) \<Rightarrow> -1
      | (Some _, None) \<Rightarrow> 1
      | (Some a, Some b) \<Rightarrow> strncmp a b (min (min (length a) (length b)) XMAX_STRING_LENGTH))"

text \<open>Memory never runs out, and structures are not empty.\<close>

definition memory_available :: "('w, 'e) client_env_scheme \<Rightarrow> bool" where
  "memory_available env \<longleftrightarrow> (\<forall>n w. fst (cl_malloc env n w)) \<and> (\<forall>s. 0 < cl_sizeof env s)"

definition bounded_copy :: "string \<Rightarrow> string" where
  "bounded_copy str = take (XMAX_STRING_LENGTH - 1) str"

lemma bounded_copy_short [simp]: "length str < XMAX_STRING_LENGTH \<Longrightarrow> bounded_copy str = str"
  by (simp add: bounded_copy_def)

lemma bounded_copy_length [simp]: "length (bounded_copy str) < XMAX_STRING_LENGTH"
  by (simp add: bounded_copy_def)

lemma take_bounded: "take (min (length str + 1) XMAX_STRING_LENGTH - 1) str = bounded_copy str"
  by (simp add: bounded_copy_def min_def)

lemma builds_xmalloc [builds_intros]: "builds () (xmalloc env sz)"
  by (auto simp: builds_def io_apply xmalloc_def io_bind_call split: prod.splits)

lemma gives_xmalloc [gives_intros]: "memory_available env \<Longrightarrow> 0 < sz \<Longrightarrow> gives env (Some ()) (xmalloc env sz)"
  unfolding gives_def
proof
  fix w
  assume a: "memory_available env" "0 < sz"
  then have "fst (cl_malloc env sz w)" by (simp add: memory_available_def)
  then show "\<exists>w'. xmalloc env sz w = Inr (Some (), w') \<and> mallocs env w w'"
    using a(2) mallocs_one [of env w sz]
    by (cases "cl_malloc env sz w") (auto simp: xmalloc_def io_bind_call io_apply)
qed

lemma gives_xmalloc_struct [gives_intros]:
  "memory_available env \<Longrightarrow> gives env (Some ()) (xmalloc env (cl_sizeof env s))"
  by (intro gives_xmalloc) (simp_all add: memory_available_def)

lemma builds_xstrdup [builds_intros]: "x = bounded_copy str \<Longrightarrow> builds x (xstrdup env (Some str))"
  by (auto simp: builds_def io_apply xstrdup_def bounded_copy_def min_def xmalloc_def io_bind_def io_call_def io_lift_def
      Let_def split: prod.splits)

lemma gives_xstrdup [gives_intros]:
  "memory_available env \<Longrightarrow> x = bounded_copy str \<Longrightarrow> gives env (Some x) (xstrdup env (Some str))"
  unfolding xstrdup_def option.simps Let_def take_bounded
  by (rule gives_bind [where y = "Some ()"]) (simp_all add: gives_xmalloc, simp add: gives_return)

lemma xstrdup_None [simp]: "xstrdup env None = io_return None"
  by (simp add: xstrdup_def)

section \<open>The structures of the interface\<close>

abbreviation NORNS_SUCCESS :: int where "NORNS_SUCCESS \<equiv> 0"
abbreviation NORNS_ESNAFU :: int where "NORNS_ESNAFU \<equiv> -1"
abbreviation NORNS_EBADARGS :: int where "NORNS_EBADARGS \<equiv> -2"
abbreviation NORNS_ENOMEM :: int where "NORNS_ENOMEM \<equiv> -4"
abbreviation NORNS_ETIMEOUT :: int where "NORNS_ETIMEOUT \<equiv> -5"
abbreviation NORNS_ECONNFAILED :: int where "NORNS_ECONNFAILED \<equiv> -6"
abbreviation NORNS_ERPCSENDFAILED :: int where "NORNS_ERPCSENDFAILED \<equiv> -7"
abbreviation NORNS_ERPCRECVFAILED :: int where "NORNS_ERPCRECVFAILED \<equiv> -8"
abbreviation NORNS_EFINISHED :: int where "NORNS_EFINISHED \<equiv> -103"
abbreviation NORNS_EFINISHEDWERROR :: int where "NORNS_EFINISHEDWERROR \<equiv> -104"
abbreviation NORNS_ENOTSUPPORTED :: int where "NORNS_ENOTSUPPORTED \<equiv> -200"
abbreviation NORNS_ERRMAX :: int where "NORNS_ERRMAX \<equiv> 512"

abbreviation NORNS_IOTASK_COPY :: u32 where "NORNS_IOTASK_COPY \<equiv> 1"
abbreviation NORNS_IOTASK_MOVE :: u32 where "NORNS_IOTASK_MOVE \<equiv> 2"
abbreviation NORNS_IOTASK_REMOVE :: u32 where "NORNS_IOTASK_REMOVE \<equiv> 3"

record norns_memory_region =
  b_addr :: u64
  b_size :: u64

record norns_posix_path =
  p_nsid :: "string option"
  p_host :: "string option"
  p_path :: "string option"

text \<open>The anonymous union of a resource; \<open>RU_zero\<close> is the one \<^verbatim>\<open>memset\<close> left.\<close>

datatype resource_union = RU_zero | RU_buffer norns_memory_region | RU_path norns_posix_path

record norns_resource =
  r_flags :: u32
  r_union :: resource_union

fun r_buffer :: "resource_union \<Rightarrow> norns_memory_region outcome" where
  "r_buffer RU_zero = Inr \<lparr>b_addr = 0, b_size = 0\<rparr>"
| "r_buffer (RU_buffer b) = Inr b"
| "r_buffer (RU_path p) = Inl Bad_Cast"

fun r_posix_path :: "resource_union \<Rightarrow> norns_posix_path outcome" where
  "r_posix_path RU_zero = Inr \<lparr>p_nsid = None, p_host = None, p_path = None\<rparr>"
| "r_posix_path (RU_path p) = Inr p"
| "r_posix_path (RU_buffer b) = Inl Bad_Cast"

record norns_stat =
  c_status :: int
  c_task_error :: int
  c_sys_errno :: int
  c_pending :: u64
  c_total :: u64

record norns_iotask =
  t_id :: u32
  t_op :: u32
  t_src :: norns_resource
  t_dst :: norns_resource
  t_status :: norns_stat

record nornsctl_backend =
  b_type :: int
  b_track :: bool
  b_mount :: "string option"
  b_capacity :: u32

record nornsctl_job_limit =
  l_nsid :: "string option"
  l_quota :: u32

record nornsctl_job =
  j_hosts :: "string option list option"
  j_nhosts :: nat
  j_limits :: "nornsctl_job_limit option list option"
  j_nlimits :: nat

record nornsctl_stat =
  c_running_tasks :: u64
  c_pending_tasks :: u64
  c_eta :: dbl

section \<open>Constructors of resources\<close>

definition NORNS_MEMORY_REGION :: "u64 \<Rightarrow> u64 \<Rightarrow> norns_resource" where
  "NORNS_MEMORY_REGION addr sz = \<lparr>r_flags = NORNS_PROCESS_MEMORY, r_union = RU_buffer \<lparr>b_addr = addr, b_size = sz\<rparr>\<rparr>"

definition NORNS_LOCAL_PATH :: "string option \<Rightarrow> string option \<Rightarrow> norns_resource" where
  "NORNS_LOCAL_PATH nsid path =
     \<lparr>r_flags = NORNS_POSIX_PATH OR R_LOCAL, r_union = RU_path \<lparr>p_nsid = nsid, p_host = None, p_path = path\<rparr>\<rparr>"

definition NORNS_REMOTE_PATH :: "string option \<Rightarrow> string option \<Rightarrow> string option \<Rightarrow> norns_resource" where
  "NORNS_REMOTE_PATH nsid host path =
     \<lparr>r_flags = NORNS_POSIX_PATH OR R_REMOTE, r_union = RU_path \<lparr>p_nsid = nsid, p_host = host, p_path = path\<rparr>\<rparr>"

definition NORNS_SHARED_PATH :: "string option \<Rightarrow> string option \<Rightarrow> norns_resource" where
  "NORNS_SHARED_PATH nsid path =
     \<lparr>r_flags = NORNS_POSIX_PATH OR R_SHARED, r_union = RU_path \<lparr>p_nsid = nsid, p_host = None, p_path = path\<rparr>\<rparr>"

section \<open>Error messages\<close>

text \<open>
  \<^verbatim>\<open>norns_errlist\<close>, a table of \<open>513\<close> entries indexed by the absolute value of the code; the entries that are not
  initialised are null pointers.
\<close>

definition norns_errlist :: "(int \<times> string) list" where
  "norns_errlist =
     [(0, ''Success''), (1, ''Internal error''), (3, ''Bad request''), (2, ''Bad arguments''),
      (4, ''Cannot allocate memory''), (5, ''Timeout exceeded''),
      (6, ''Cannot connect to daemon''), (7, ''Cannot send requests to daemon''),
      (8, ''Cannot receive responses from daemon''), (9, ''Daemon does not accept new tasks''),
      (10, ''Job already exists''), (11, ''Job does not exist''),
      (20, ''Process already exists''), (21, ''Process does not exist''),
      (30, ''Namespace already exists''), (31, ''Namespace does not exist''), (32, ''Namespace is not empty''),
      (40, ''Task already exists''), (41, ''Task does not exist''), (42, ''Too many pending tasks''),
      (43, ''There are still pending tasks''),
      (110, ''Resource already exists''), (111, ''Resource does not exist''),
      (200, ''Not supported''), (201, ''Operating system error''),
      (512, ''Unknown error'')]"

text \<open>The result is a pointer: \<open>None\<close> where the table has no entry, a fault past its end.\<close>

definition norns_strerror :: "int \<Rightarrow> string option outcome" where
  "norns_strerror errnum =
     (let errnum1 = (if errnum > NORNS_ERRMAX then NORNS_ERRMAX else errnum);
          idx = \<bar>errnum1\<bar>
      in if idx > NORNS_ERRMAX then Inl Out_Of_Range else Inr (map_of norns_errlist idx))"

lemma strerror_urd_error: "norns_strerror (urd_error_value e) = Inr (map_of norns_errlist (- urd_error_value e))"
  by (cases e) (simp_all add: norns_strerror_def)

lemma errlist_urd_error: "\<exists>m. map_of norns_errlist (- urd_error_value e) = Some m"
  by (cases e) (simp_all add: norns_errlist_def)

lemma map_of_value_inj: "distinct (map snd kvs) \<Longrightarrow> map_of kvs i = Some v \<Longrightarrow> map_of kvs j = Some v \<Longrightarrow> i = j"
  by (induction kvs) (auto split: if_splits dest!: map_of_SomeD simp: rev_image_eqI)

lemma errlist_messages_distinct: "distinct (map snd norns_errlist)"
  by code_simp

text \<open>
  Every error code of the daemon has a message, and no other code shares it; but the index is not
  checked from below, so a code under \<open>-512\<close>, and only such a code, reads past the end of the table.
\<close>

theorem strerror_covers_errors:
  "(\<exists>m. norns_strerror (urd_error_value e) = Inr (Some m) \<and>
      (\<forall>e'. norns_strerror (urd_error_value e') = Inr (Some m) \<longrightarrow> e' = e)) \<and>
   (norns_strerror n = Inl Out_Of_Range \<longleftrightarrow> n < -512)"
proof
  obtain m where m: "map_of norns_errlist (- urd_error_value e) = Some m" using errlist_urd_error by blast
  moreover have "e' = e" if "map_of norns_errlist (- urd_error_value e') = Some m" for e'
    using map_of_value_inj [OF errlist_messages_distinct that m] by (simp add: urd_error_value_inj)
  ultimately show "\<exists>m. norns_strerror (urd_error_value e) = Inr (Some m) \<and>
      (\<forall>e'. norns_strerror (urd_error_value e') = Inr (Some m) \<longrightarrow> e' = e)"
    unfolding strerror_urd_error by (metis sum.inject(2))
qed (auto simp: norns_strerror_def Let_def)

theorem strerror_covers_errors_witness:
  "\<exists>m. norns_strerror (urd_error_value UE_no_such_task) = Inr (Some m)"
  using strerror_covers_errors [of UE_no_such_task 0] by blast

end
