(* ===== verification/Client_Requests.thy ===== *)
theory Client_Requests
  imports Client_Lib
begin

text \<open>
  How the client libraries turn the structures of the caller into a request message and read a response
  (\<^verbatim>\<open>lib/requests.c\<close>). A builder returns \<^verbatim>\<open>NULL\<close> (\<open>None\<close>) when memory ran out or a field the protocol needs is
  missing. Packing and unpacking are the protocol buffers library for C, parameters here.
\<close>

section \<open>Message types\<close>

datatype norns_msgtype =
    MT_IOTASK_SUBMIT | MT_IOTASK_STATUS | MT_GLOBAL_STATUS | MT_COMMAND | MT_PING
  | MT_JOB_REGISTER | MT_JOB_UPDATE | MT_JOB_UNREGISTER | MT_PROCESS_ADD | MT_PROCESS_REMOVE
  | MT_NAMESPACE_REGISTER | MT_NAMESPACE_UPDATE | MT_NAMESPACE_UNREGISTER | MT_BAD_RPC

text \<open>\<open>None\<close> is the result \<open>-1\<close>.\<close>

fun encode_request_type :: "norns_msgtype \<Rightarrow> rpc_request_type option" where
  "encode_request_type MT_IOTASK_SUBMIT = Some IOTASK_SUBMIT"
| "encode_request_type MT_IOTASK_STATUS = Some IOTASK_STATUS"
| "encode_request_type MT_PING = Some PING"
| "encode_request_type MT_JOB_REGISTER = Some JOB_REGISTER"
| "encode_request_type MT_JOB_UPDATE = Some JOB_UPDATE"
| "encode_request_type MT_JOB_UNREGISTER = Some JOB_UNREGISTER"
| "encode_request_type MT_PROCESS_ADD = Some PROCESS_ADD"
| "encode_request_type MT_PROCESS_REMOVE = Some PROCESS_REMOVE"
| "encode_request_type MT_NAMESPACE_REGISTER = Some NAMESPACE_REGISTER"
| "encode_request_type MT_NAMESPACE_UPDATE = Some NAMESPACE_UPDATE"
| "encode_request_type MT_NAMESPACE_UNREGISTER = Some NAMESPACE_UNREGISTER"
| "encode_request_type MT_GLOBAL_STATUS = Some GLOBAL_STATUS"
| "encode_request_type MT_COMMAND = Some CTL_COMMAND"
| "encode_request_type MT_BAD_RPC = None"

definition decode_response_type :: "nat \<Rightarrow> norns_msgtype" where
  "decode_response_type n =
     (if n = 1 then MT_IOTASK_SUBMIT else if n = 2 then MT_IOTASK_STATUS else if n = 3 then MT_PING
      else if n = 4 then MT_JOB_REGISTER else if n = 5 then MT_JOB_UPDATE else if n = 6 then MT_JOB_UNREGISTER
      else if n = 7 then MT_PROCESS_ADD else if n = 8 then MT_PROCESS_REMOVE
      else if n = 9 then MT_NAMESPACE_REGISTER else if n = 10 then MT_NAMESPACE_UPDATE
      else if n = 11 then MT_NAMESPACE_UNREGISTER
      else if n = 1000 then MT_GLOBAL_STATUS else if n = 1001 then MT_COMMAND else MT_BAD_RPC)"

section \<open>Messages in the memory of the client\<close>

text \<open>The structures the protocol buffers compiler for C generates; a string is a pointer.\<close>

record path_pb =
  pbp_nsid :: "string option"
  pbp_hostname :: "string option"
  pbp_datapath :: "string option"

record resource_pb =
  pbr_type :: u32
  pbr_buffer :: "memory_region_msg option"
  pbr_path :: "path_pb option"

record task_pb =
  pbt_taskid :: u32
  pbt_optype :: u32
  pbt_source :: "resource_pb option"
  pbt_destination :: "resource_pb option"

record backend_pb =
  pbb_type :: u32
  pbb_track :: bool
  pbb_mount :: "string option"
  pbb_capacity :: u32

record nspace_pb =
  pbn_nsid :: "string option"
  pbn_backend :: "backend_pb option"

record limits_pb =
  pbl_nsid :: "string option"
  pbl_quota :: u32

record job_pb =
  pbj_hosts :: "string option list"
  pbj_limits :: "limits_pb list"

record request_pb =
  pb_type :: rpc_request_type
  pb_task :: "task_pb option"
  pb_jobid :: "u32 option"                  \<comment> \<open>\<^verbatim>\<open>has_jobid\<close> and \<^verbatim>\<open>jobid\<close>\<close>
  pb_job :: "job_pb option"
  pb_process :: "process_msg option"
  pb_nspace :: "nspace_pb option"
  pb_command :: "u32 option"

definition request_init :: "rpc_request_type \<Rightarrow> request_pb" where
  "request_init type = \<lparr>pb_type = type, pb_task = None, pb_jobid = None, pb_job = None, pb_process = None,
     pb_nspace = None, pb_command = None\<rparr>"

section \<open>Builders\<close>

definition build_membuf_msg :: "('w, 'e) client_env_scheme \<Rightarrow> norns_memory_region \<Rightarrow> ('w, memory_region_msg option) io" where
  "build_membuf_msg env buf =
     io_nonnull (xmalloc env (cl_sizeof env Region_struct)) (\<lambda>_.
       io_return (Some \<lparr>mr_address = b_addr buf, mr_size = ucast (b_size buf)\<rparr>))"

text \<open>\<^verbatim>\<open>xstrdup\<close> of a pointer that may be null, where null is left as it is.\<close>

definition dup_optional :: "('w, 'e) client_env_scheme \<Rightarrow> string option \<Rightarrow> ('w, string option option) io" where
  "dup_optional env s =
     (case s of
        None \<Rightarrow> io_return (Some None)
      | Some _ \<Rightarrow> io_nonnull (xstrdup env s) (\<lambda>c. io_return (Some (Some c))))"

definition build_path_msg :: "('w, 'e) client_env_scheme \<Rightarrow> norns_posix_path \<Rightarrow> ('w, path_pb option) io" where
  "build_path_msg env path =
     io_nonnull (xmalloc env (cl_sizeof env Path_struct)) (\<lambda>_.
     io_nonnull (xstrdup env (p_nsid path)) (\<lambda>nsid.
     io_nonnull (dup_optional env (p_host path)) (\<lambda>hostname.
     io_nonnull (dup_optional env (p_path path)) (\<lambda>datapath.
       io_return (Some \<lparr>pbp_nsid = Some nsid, pbp_hostname = hostname, pbp_datapath = datapath\<rparr>)))))"

definition build_resource_msg :: "('w, 'e) client_env_scheme \<Rightarrow> norns_resource \<Rightarrow> ('w, resource_pb option) io" where
  "build_resource_msg env res =
     io_nonnull (xmalloc env (cl_sizeof env Resource_struct)) (\<lambda>_.
       if r_flags res AND NORNS_PROCESS_MEMORY \<noteq> 0 then
         io_bind (io_lift (r_buffer (r_union res))) (\<lambda>b.
         io_nonnull (build_membuf_msg env b) (\<lambda>buffer.
           io_return (Some \<lparr>pbr_type = r_flags res, pbr_buffer = Some buffer, pbr_path = None\<rparr>)))
       else if r_flags res AND NORNS_POSIX_PATH \<noteq> 0 then
         io_bind (io_lift (r_posix_path (r_union res))) (\<lambda>p.
         io_nonnull (build_path_msg env p) (\<lambda>path.
           io_return (Some \<lparr>pbr_type = r_flags res, pbr_buffer = None, pbr_path = Some path\<rparr>)))
       else
         io_bind (io_lift (assert_ok (r_flags res AND NORNS_NULL_RESOURCE \<noteq> 0))) (\<lambda>_.
           io_return (Some \<lparr>pbr_type = r_flags res, pbr_buffer = None, pbr_path = None\<rparr>)))"

definition build_task_msg :: "('w, 'e) client_env_scheme \<Rightarrow> norns_iotask \<Rightarrow> ('w, task_pb option) io" where
  "build_task_msg env task =
     io_nonnull (xmalloc env (cl_sizeof env Task_struct)) (\<lambda>_.
     io_nonnull (build_resource_msg env (t_src task)) (\<lambda>source.
     io_nonnull (build_resource_msg env (t_dst task)) (\<lambda>destination.
       io_return (Some \<lparr>pbt_taskid = t_id task, pbt_optype = t_op task, pbt_source = Some source,
         pbt_destination = Some destination\<rparr>))))"

definition build_command_msg :: "('w, 'e) client_env_scheme \<Rightarrow> u32 \<Rightarrow> ('w, u32 option) io" where
  "build_command_msg env cmd = io_nonnull (xmalloc env (cl_sizeof env Command_struct)) (\<lambda>_. io_return (Some cmd))"

definition build_backend_message :: "('w, 'e) client_env_scheme \<Rightarrow> nornsctl_backend \<Rightarrow> ('w, backend_pb option) io" where
  "build_backend_message env backend =
     io_nonnull (xmalloc env (cl_sizeof env Backend_struct)) (\<lambda>_.
     io_nonnull (dup_optional env (b_mount backend)) (\<lambda>mount.
       io_return (Some \<lparr>pbb_type = word_of_int (b_type backend), pbb_track = b_track backend, pbb_mount = mount,
         pbb_capacity = b_capacity backend\<rparr>)))"

definition build_namespace_message ::
  "('w, 'e) client_env_scheme \<Rightarrow> string option \<Rightarrow> nornsctl_backend option \<Rightarrow> ('w, nspace_pb option) io" where
  "build_namespace_message env nsid backend =
     io_bind (io_lift (assert_ok (nsid \<noteq> None))) (\<lambda>_.
     io_nonnull (xmalloc env (cl_sizeof env Nspace_struct)) (\<lambda>_.
     io_nonnull (xstrdup env nsid) (\<lambda>ns.
       case backend of
         Some b \<Rightarrow>
           io_nonnull (build_backend_message env b) (\<lambda>bm.
             io_return (Some \<lparr>pbn_nsid = Some ns, pbn_backend = Some bm\<rparr>))
       | None \<Rightarrow> io_return (Some \<lparr>pbn_nsid = Some ns, pbn_backend = None\<rparr>))))"

definition build_job_limits_msg ::
  "('w, 'e) client_env_scheme \<Rightarrow> nornsctl_job_limit option \<Rightarrow> ('w, limits_pb option) io" where
  "build_job_limits_msg env jlim =
     io_bind (io_lift (assert_ok (jlim \<noteq> None))) (\<lambda>_.
     io_bind (io_lift (deref jlim)) (\<lambda>l.
     io_nonnull (xmalloc env (cl_sizeof env Limits_struct)) (\<lambda>_.
     io_nonnull (xstrdup env (l_nsid l)) (\<lambda>nsid.
       io_return (Some \<lparr>pbl_nsid = Some nsid, pbl_quota = l_quota l\<rparr>)))))"

text \<open>
  The loops of \<^verbatim>\<open>build_job_msg\<close>, from index \<open>i\<close> on \<open>n\<close> entries: a null host name is skipped (its entry of the
  message stays null), a null limit fails the assert of \<^verbatim>\<open>build_job_limits_msg\<close>.
\<close>

fun build_hosts :: "('w, 'e) client_env_scheme \<Rightarrow> string option list \<Rightarrow> nat \<Rightarrow> nat \<Rightarrow> ('w, string option list option) io" where
  "build_hosts env hosts i 0 = io_return (Some [])"
| "build_hosts env hosts i (Suc n) =
     io_bind (io_lift (vec_at hosts i)) (\<lambda>h.
     io_nonnull (dup_optional env h) (\<lambda>c.
     io_nonnull (build_hosts env hosts (Suc i) n) (\<lambda>cs. io_return (Some (c # cs)))))"

fun build_limits ::
  "('w, 'e) client_env_scheme \<Rightarrow> nornsctl_job_limit option list \<Rightarrow> nat \<Rightarrow> nat \<Rightarrow> ('w, limits_pb list option) io" where
  "build_limits env limits i 0 = io_return (Some [])"
| "build_limits env limits i (Suc n) =
     io_bind (io_lift (vec_at limits i)) (\<lambda>l.
     io_nonnull (build_job_limits_msg env l) (\<lambda>m.
     io_nonnull (build_limits env limits (Suc i) n) (\<lambda>ms. io_return (Some (m # ms)))))"

definition build_job_msg :: "('w, 'e) client_env_scheme \<Rightarrow> nornsctl_job option \<Rightarrow> ('w, job_pb option) io" where
  "build_job_msg env job =
     io_bind (io_lift (assert_ok (job \<noteq> None))) (\<lambda>_.
     io_bind (io_lift (deref job)) (\<lambda>j.
     io_nonnull (xmalloc env (cl_sizeof env Job_struct)) (\<lambda>_.
     io_nonnull (xmalloc env (j_nhosts j * cl_sizeof env Pointer_size)) (\<lambda>_.
     io_bind (io_lift (deref (j_hosts j))) (\<lambda>hosts.
     io_nonnull (build_hosts env hosts 0 (j_nhosts j)) (\<lambda>hs.
     io_nonnull (xmalloc env (j_nlimits j * cl_sizeof env Pointer_size)) (\<lambda>_.
     io_bind (io_lift (deref (j_limits j))) (\<lambda>limits.
     io_nonnull (build_limits env limits 0 (j_nlimits j)) (\<lambda>ls.
       io_return (Some \<lparr>pbj_hosts = hs, pbj_limits = ls\<rparr>))))))))))"

text \<open>The variable arguments of a request, and what each message type reads off them.\<close>

datatype msg_args =
    Args_task norns_iotask
  | Args_command u32
  | Args_none
  | Args_job u32 "nornsctl_job option"
  | Args_process u32 u32 u32 int
  | Args_nspace "string option" "nornsctl_backend option"

fun va_task :: "msg_args \<Rightarrow> norns_iotask outcome" where
  "va_task (Args_task t) = Inr t"
| "va_task _ = Inl Bad_Cast"

fun va_command :: "msg_args \<Rightarrow> u32 outcome" where
  "va_command (Args_command c) = Inr c"
| "va_command _ = Inl Bad_Cast"

fun va_job :: "msg_args \<Rightarrow> (u32 \<times> nornsctl_job option) outcome" where
  "va_job (Args_job jobid j) = Inr (jobid, j)"
| "va_job _ = Inl Bad_Cast"

fun va_process :: "msg_args \<Rightarrow> (u32 \<times> u32 \<times> u32 \<times> int) outcome" where
  "va_process (Args_process jobid uid gid pid) = Inr (jobid, uid, gid, pid)"
| "va_process _ = Inl Bad_Cast"

fun va_nspace :: "msg_args \<Rightarrow> (string option \<times> nornsctl_backend option) outcome" where
  "va_nspace (Args_nspace n b) = Inr (n, b)"
| "va_nspace _ = Inl Bad_Cast"

definition build_request_msg ::
  "('w, 'e) client_env_scheme \<Rightarrow> norns_msgtype \<Rightarrow> msg_args \<Rightarrow> ('w, request_pb option) io" where
  "build_request_msg env type ap =
     io_nonnull (xmalloc env (cl_sizeof env Request_struct)) (\<lambda>_.
     case encode_request_type type of
       None \<Rightarrow> io_return None
     | Some t \<Rightarrow>
         if type = MT_COMMAND then
           io_bind (io_lift (va_command ap)) (\<lambda>cmd.
           io_nonnull (build_command_msg env cmd) (\<lambda>c.
             io_return (Some ((request_init t)\<lparr>pb_command := Some c\<rparr>))))
         else if type = MT_IOTASK_SUBMIT \<or> type = MT_IOTASK_STATUS then
           io_bind (io_lift (va_task ap)) (\<lambda>task.
           io_nonnull (build_task_msg env task) (\<lambda>m.
             io_return (Some ((request_init t)\<lparr>pb_task := Some m\<rparr>))))
         else if type = MT_GLOBAL_STATUS \<or> type = MT_PING then io_return (Some (request_init t))
         else if type = MT_JOB_REGISTER \<or> type = MT_JOB_UPDATE \<or> type = MT_JOB_UNREGISTER then
           io_bind (io_lift (va_job ap)) (\<lambda>(jobid, job).
             if type = MT_JOB_UNREGISTER then io_return (Some ((request_init t)\<lparr>pb_jobid := Some jobid\<rparr>))
             else io_nonnull (build_job_msg env job) (\<lambda>m.
               io_return (Some ((request_init t)\<lparr>pb_jobid := Some jobid, pb_job := Some m\<rparr>))))
         else if type = MT_PROCESS_ADD \<or> type = MT_PROCESS_REMOVE then
           io_bind (io_lift (va_process ap)) (\<lambda>(jobid, uid, gid, pid).
           io_nonnull (xmalloc env (cl_sizeof env Process_struct)) (\<lambda>_.
             io_return (Some ((request_init t)\<lparr>pb_jobid := Some jobid,
               pb_process := Some \<lparr>ps_uid = ucast uid, ps_gid = ucast gid, ps_pid = word_of_int pid\<rparr>\<rparr>))))
         else
           io_bind (io_lift (va_nspace ap)) (\<lambda>(nsid, backend).
           io_nonnull (build_namespace_message env nsid backend) (\<lambda>m.
             io_return (Some ((request_init t)\<lparr>pb_nspace := Some m\<rparr>)))))"

section \<open>Buffers and responses\<close>

text \<open>\<open>pack\<close> is \<^verbatim>\<open>norns__rpc__request__pack\<close>: the bytes of a message, whose number is the packed size.\<close>

definition pack_to_buffer ::
  "('w, 'e) client_env_scheme \<Rightarrow> (request_pb \<Rightarrow> byte list) \<Rightarrow> norns_msgtype \<Rightarrow> msg_args \<Rightarrow> ('w, int \<times> byte list option) io" where
  "pack_to_buffer env pack type ap =
     io_bind (build_request_msg env type ap) (\<lambda>msg.
       case msg of
         None \<Rightarrow> io_return (NORNS_ENOMEM, None)
       | Some m \<Rightarrow>
           io_bind (xmalloc env (length (pack m))) (\<lambda>buf.
             io_return (case buf of
               None \<Rightarrow> (NORNS_ENOMEM, None)
             | Some _ \<Rightarrow> (NORNS_SUCCESS, Some (pack m)))))"

text \<open>The anonymous union of a response, with the members each type of response sets.\<close>

datatype response_union =
    PU_unset
  | PU_taskid u64
  | PU_stats int int int
  | PU_gstats u32 u32 dbl

record norns_response =
  r_type :: norns_msgtype
  r_error_code :: int
  r_data :: response_union

definition unpack_from_buffer ::
  "(byte list \<Rightarrow> rpc_response option) \<Rightarrow> byte list \<Rightarrow> norns_response \<Rightarrow> int \<times> norns_response" where
  "unpack_from_buffer unpack buf response =
     (case unpack buf of
        None \<Rightarrow> (NORNS_ERPCRECVFAILED, response)
      | Some m \<Rightarrow>
          let response1 = response\<lparr>r_type := decode_response_type (rr_type m), r_error_code := sint (rr_error_code m)\<rparr>
          in (case r_type response1 of
                MT_IOTASK_SUBMIT \<Rightarrow>
                  (case rr_taskid m of
                     None \<Rightarrow> (NORNS_ERPCRECVFAILED, response1)
                   | Some tid \<Rightarrow> (NORNS_SUCCESS, response1\<lparr>r_data := PU_taskid (ucast tid)\<rparr>))
              | MT_IOTASK_STATUS \<Rightarrow>
                  (case rr_stats m of
                     None \<Rightarrow> (NORNS_ERPCRECVFAILED, response1)
                   | Some (st, te, se) \<Rightarrow> (NORNS_SUCCESS, response1\<lparr>r_data := PU_stats (sint st) (sint te) (sint se)\<rparr>))
              | MT_GLOBAL_STATUS \<Rightarrow>
                  (case rr_gstats m of
                     None \<Rightarrow> (NORNS_ERPCRECVFAILED, response1)
                   | Some (rt, pt, eta) \<Rightarrow> (NORNS_SUCCESS, response1\<lparr>r_data := PU_gstats rt pt eta\<rparr>))
              | _ \<Rightarrow> (NORNS_SUCCESS, response1)))"

section \<open>What a request says\<close>

text \<open>
  The message a request of the caller should become, where strings are cut off by \<open>bounded_copy\<close> only, and
  the requests that have one: every path and every limit names its namespace, the arrays of a job are not
  empty and as long as it says.
\<close>

fun describe_path :: "norns_posix_path \<Rightarrow> path_pb" where
  "describe_path p = \<lparr>pbp_nsid = map_option bounded_copy (p_nsid p), pbp_hostname = map_option bounded_copy (p_host p),
     pbp_datapath = map_option bounded_copy (p_path p)\<rparr>"

fun describe_resource :: "norns_resource \<Rightarrow> resource_pb" where
  "describe_resource r =
     (case r_union r of
        RU_buffer b \<Rightarrow> \<lparr>pbr_type = r_flags r, pbr_buffer = Some \<lparr>mr_address = b_addr b, mr_size = ucast (b_size b)\<rparr>, pbr_path = None\<rparr>
      | RU_path p \<Rightarrow> \<lparr>pbr_type = r_flags r, pbr_buffer = None, pbr_path = Some (describe_path p)\<rparr>
      | RU_zero \<Rightarrow> \<lparr>pbr_type = r_flags r, pbr_buffer = None, pbr_path = None\<rparr>)"

definition describe_task :: "norns_iotask \<Rightarrow> task_pb" where
  "describe_task t = \<lparr>pbt_taskid = t_id t, pbt_optype = t_op t, pbt_source = Some (describe_resource (t_src t)),
     pbt_destination = Some (describe_resource (t_dst t))\<rparr>"

definition describe_backend :: "nornsctl_backend \<Rightarrow> backend_pb" where
  "describe_backend b = \<lparr>pbb_type = word_of_int (b_type b), pbb_track = b_track b,
     pbb_mount = map_option bounded_copy (b_mount b), pbb_capacity = b_capacity b\<rparr>"

definition describe_limit :: "nornsctl_job_limit option \<Rightarrow> limits_pb" where
  "describe_limit l = \<lparr>pbl_nsid = map_option bounded_copy (l_nsid (the l)), pbl_quota = l_quota (the l)\<rparr>"

definition describe_job :: "nornsctl_job \<Rightarrow> job_pb" where
  "describe_job j = \<lparr>pbj_hosts = map (map_option bounded_copy) (take (j_nhosts j) (the (j_hosts j))),
     pbj_limits = map describe_limit (take (j_nlimits j) (the (j_limits j)))\<rparr>"

definition resource_sendable :: "norns_resource \<Rightarrow> bool" where
  "resource_sendable r \<longleftrightarrow>
     (case r_union r of
        RU_buffer b \<Rightarrow> r_flags r AND NORNS_PROCESS_MEMORY \<noteq> 0
      | RU_path p \<Rightarrow> r_flags r AND NORNS_PROCESS_MEMORY = 0 \<and> r_flags r AND NORNS_POSIX_PATH \<noteq> 0 \<and> p_nsid p \<noteq> None
      | RU_zero \<Rightarrow> r_flags r AND NORNS_PROCESS_MEMORY = 0 \<and> r_flags r AND NORNS_POSIX_PATH = 0 \<and>
                   r_flags r AND NORNS_NULL_RESOURCE \<noteq> 0)"

definition job_sendable :: "nornsctl_job \<Rightarrow> bool" where
  "job_sendable j \<longleftrightarrow>
     (\<exists>hosts limits. j_hosts j = Some hosts \<and> j_limits j = Some limits \<and>
        0 < j_nhosts j \<and> j_nhosts j \<le> length hosts \<and> 0 < j_nlimits j \<and> j_nlimits j \<le> length limits \<and>
        list_all (\<lambda>l. l \<noteq> None \<and> l_nsid (the l) \<noteq> None) (take (j_nlimits j) limits))"

fun describe_request :: "norns_msgtype \<Rightarrow> msg_args \<Rightarrow> request_pb" where
  "describe_request type ap =
     (let m = request_init (the (encode_request_type type))
      in case ap of
           Args_task t \<Rightarrow> m\<lparr>pb_task := Some (describe_task t)\<rparr>
         | Args_command c \<Rightarrow> m\<lparr>pb_command := Some c\<rparr>
         | Args_none \<Rightarrow> m
         | Args_job jobid j \<Rightarrow>
             if type = MT_JOB_UNREGISTER then m\<lparr>pb_jobid := Some jobid\<rparr>
             else m\<lparr>pb_jobid := Some jobid, pb_job := Some (describe_job (the j))\<rparr>
         | Args_process jobid uid gid pid \<Rightarrow>
             m\<lparr>pb_jobid := Some jobid, pb_process := Some \<lparr>ps_uid = ucast uid, ps_gid = ucast gid, ps_pid = word_of_int pid\<rparr>\<rparr>
         | Args_nspace nsid b \<Rightarrow>
             m\<lparr>pb_nspace := Some \<lparr>pbn_nsid = map_option bounded_copy nsid, pbn_backend = map_option describe_backend b\<rparr>\<rparr>)"

fun sendable :: "norns_msgtype \<Rightarrow> msg_args \<Rightarrow> bool" where
  "sendable type (Args_task t) \<longleftrightarrow>
     type \<in> {MT_IOTASK_SUBMIT, MT_IOTASK_STATUS} \<and> resource_sendable (t_src t) \<and> resource_sendable (t_dst t)"
| "sendable type (Args_command c) \<longleftrightarrow> type = MT_COMMAND"
| "sendable type Args_none \<longleftrightarrow> type \<in> {MT_GLOBAL_STATUS, MT_PING}"
| "sendable type (Args_job jobid j) \<longleftrightarrow>
     type = MT_JOB_UNREGISTER \<or> type \<in> {MT_JOB_REGISTER, MT_JOB_UPDATE} \<and> (\<exists>x. j = Some x \<and> job_sendable x)"
| "sendable type (Args_process jobid uid gid pid) \<longleftrightarrow> type \<in> {MT_PROCESS_ADD, MT_PROCESS_REMOVE}"
| "sendable type (Args_nspace nsid b) \<longleftrightarrow>
     type \<in> {MT_NAMESPACE_REGISTER, MT_NAMESPACE_UPDATE, MT_NAMESPACE_UNREGISTER} \<and> nsid \<noteq> None"

text \<open>
  A builder is right when it builds its structure whatever memory does, and returns it when there is
  memory. The two statements are proved together, by the same rules.
\<close>

definition builder :: "('w, 'e) client_env_scheme \<Rightarrow> 'a \<Rightarrow> ('w, 'a option) io \<Rightarrow> bool" where
  "builder env x m \<longleftrightarrow> builds x m \<and> (memory_available env \<longrightarrow> gives env (Some x) m)"

named_theorems builder_intros \<open>one rule per builder\<close>

lemma builder_return [builder_intros]: "y = x \<Longrightarrow> builder env x (io_return (Some y))"
  by (simp add: builder_def builds_return gives_return)

lemma builder_nonnull: "builder env y m \<Longrightarrow> builder env x (f y) \<Longrightarrow> builder env x (io_nonnull m f)"
  by (auto simp: builder_def intro: builds_nonnull gives_nonnull)

lemma builder_struct: "builder env x (f ()) \<Longrightarrow> builder env x (io_nonnull (xmalloc env (cl_sizeof env s)) f)"
  by (rule builder_nonnull [where y = "()"])
     (simp_all add: builder_def builds_xmalloc gives_xmalloc_struct)

lemma builder_array:
  "0 < n \<Longrightarrow> builder env x (f ()) \<Longrightarrow> builder env x (io_nonnull (xmalloc env (n * cl_sizeof env s)) f)"
  by (rule builder_nonnull [where y = "()"])
     (simp_all add: builder_def builds_xmalloc gives_xmalloc memory_available_def)

lemma builder_xstrdup: "builder env (bounded_copy str) (xstrdup env (Some str))"
  by (simp add: builder_def builds_xstrdup gives_xstrdup)

lemma builder_dup_optional: "builder env (map_option bounded_copy s) (dup_optional env s)"
  by (cases s) (auto simp: dup_optional_def builder_return intro: builder_nonnull [OF builder_xstrdup])

lemma builder_membuf: "builder env \<lparr>mr_address = b_addr b, mr_size = ucast (b_size b)\<rparr> (build_membuf_msg env b)"
  unfolding build_membuf_msg_def by (intro builder_struct builder_return) simp

lemma builder_path: "p_nsid p \<noteq> None \<Longrightarrow> builder env (describe_path p) (build_path_msg env p)"
  unfolding build_path_msg_def
  by (cases "p_nsid p") (auto intro!: builder_struct builder_return builder_nonnull [OF builder_xstrdup]
      builder_nonnull [OF builder_dup_optional])

lemma builder_resource: "resource_sendable r \<Longrightarrow> builder env (describe_resource r) (build_resource_msg env r)"
  unfolding build_resource_msg_def
  by (cases "r_union r") (auto simp: resource_sendable_def intro!: builder_struct builder_return
      builder_nonnull [OF builder_membuf] builder_nonnull [OF builder_path])

lemma builder_task:
  "resource_sendable (t_src t) \<Longrightarrow> resource_sendable (t_dst t) \<Longrightarrow> builder env (describe_task t) (build_task_msg env t)"
  unfolding build_task_msg_def describe_task_def
  by (intro builder_struct builder_return builder_nonnull [OF builder_resource]) simp_all

lemma builder_backend: "builder env (describe_backend b) (build_backend_message env b)"
  unfolding build_backend_message_def describe_backend_def
  by (intro builder_struct builder_nonnull [OF builder_dup_optional] builder_return) simp

lemma builder_namespace:
  "nsid \<noteq> None \<Longrightarrow> builder env \<lparr>pbn_nsid = map_option bounded_copy nsid, pbn_backend = map_option describe_backend b\<rparr>
     (build_namespace_message env nsid b)"
  unfolding build_namespace_message_def
  by (cases nsid; cases b) (auto intro!: builder_struct builder_return builder_nonnull [OF builder_xstrdup]
      builder_nonnull [OF builder_backend])

lemma builder_limit: "l \<noteq> None \<Longrightarrow> l_nsid (the l) \<noteq> None \<Longrightarrow> builder env (describe_limit l) (build_job_limits_msg env l)"
  unfolding build_job_limits_msg_def describe_limit_def
  by (auto intro!: builder_struct builder_return builder_nonnull [OF builder_xstrdup])

lemma builder_hosts:
  "i + n \<le> length hosts \<Longrightarrow>
     builder env (map (map_option bounded_copy) (take n (drop i hosts))) (build_hosts env hosts i n)"
proof (induction n arbitrary: i)
  case (Suc n)
  then have "drop i hosts = hosts ! i # drop (Suc i) hosts" by (simp add: Cons_nth_drop_Suc)
  then show ?case
    using Suc.prems by (auto simp: vec_at_def intro!: builder_return builder_nonnull [OF builder_dup_optional]
        builder_nonnull [OF Suc.IH [of "Suc i"]])
qed (simp add: builder_return)

lemma builder_limits:
  "i + n \<le> length limits \<Longrightarrow> list_all (\<lambda>l. l \<noteq> None \<and> l_nsid (the l) \<noteq> None) (take n (drop i limits)) \<Longrightarrow>
     builder env (map describe_limit (take n (drop i limits))) (build_limits env limits i n)"
proof (induction n arbitrary: i)
  case (Suc n)
  then have d: "drop i limits = limits ! i # drop (Suc i) limits" by (simp add: Cons_nth_drop_Suc)
  then have "limits ! i \<noteq> None" "l_nsid (the (limits ! i)) \<noteq> None" using Suc.prems(2) by simp_all
  then show ?case
    unfolding build_limits.simps
    using Suc.prems d by (auto simp: vec_at_def intro!: builder_return builder_nonnull [OF builder_limit]
        builder_nonnull [OF Suc.IH [of "Suc i"]])
qed (simp add: builder_return)

lemma builder_job:
  assumes "job_sendable j"
  shows "builder env (describe_job j) (build_job_msg env (Some j))"
proof -
  obtain hosts limits where h: "j_hosts j = Some hosts" "j_limits j = Some limits"
    "0 < j_nhosts j" "j_nhosts j \<le> length hosts" "0 < j_nlimits j" "j_nlimits j \<le> length limits"
    "list_all (\<lambda>l. l \<noteq> None \<and> l_nsid (the l) \<noteq> None) (take (j_nlimits j) limits)"
    using assms by (auto simp: job_sendable_def)
  then show ?thesis
    unfolding build_job_msg_def describe_job_def
    using builder_hosts [of 0 "j_nhosts j" hosts env] builder_limits [of 0 "j_nlimits j" limits env]
    by (auto intro!: builder_struct builder_array builder_return elim!: builder_nonnull)
qed

lemma builder_request:
  assumes "sendable type ap"
  shows "builder env (describe_request type ap) (build_request_msg env type ap)"
proof (cases ap)
  case (Args_task t)
  then show ?thesis using assms unfolding build_request_msg_def
    by (auto intro!: builder_struct builder_nonnull [OF builder_task] builder_return)
next
  case (Args_command c)
  then show ?thesis using assms unfolding build_request_msg_def build_command_msg_def
    by (auto intro!: builder_struct builder_nonnull [OF builder_struct [OF builder_return]] builder_return)
next
  case Args_none
  then show ?thesis using assms unfolding build_request_msg_def
    by (auto intro!: builder_struct builder_return)
next
  case (Args_job jobid j)
  then show ?thesis using assms unfolding build_request_msg_def
    by (auto intro!: builder_struct builder_nonnull [OF builder_job] builder_return)
next
  case (Args_process jobid uid gid pid)
  then show ?thesis using assms unfolding build_request_msg_def
    by (auto intro!: builder_struct builder_return)
next
  case (Args_nspace nsid b)
  then show ?thesis using assms unfolding build_request_msg_def
    by (auto intro!: builder_struct builder_nonnull [OF builder_namespace] builder_return)
qed

declare describe_request.simps [simp del]

text \<open>Packing: the bytes of the message, or out of memory.\<close>

lemma pack_cases:
  assumes "sendable type ap" and "pack_to_buffer env pack type ap w = Inr ((res, buf), w')"
  shows "res = NORNS_SUCCESS \<and> buf = Some (pack (describe_request type ap)) \<or> res = NORNS_ENOMEM \<and> buf = None"
proof -
  have "builds (describe_request type ap) (build_request_msg env type ap)"
    using builder_request [OF assms(1), of env] by (simp add: builder_def)
  then consider "build_request_msg env type ap w = Inl Null_Deref"
    | v where "build_request_msg env type ap w = Inr (None, v)"
    | v where "build_request_msg env type ap w = Inr (Some (describe_request type ap), v)"
    unfolding builds_def by blast
  then show ?thesis
    using assms(2)
    by cases (auto simp: pack_to_buffer_def io_bind_def io_apply xmalloc_def
        split: if_splits prod.splits option.splits)
qed

lemma pack_available:
  assumes "memory_available env" and "sendable type ap" and "pack (describe_request type ap) \<noteq> []"
  shows "gives env (NORNS_SUCCESS, Some (pack (describe_request type ap))) (pack_to_buffer env pack type ap)"
  unfolding pack_to_buffer_def
proof (rule gives_bind [where y = "Some (describe_request type ap)"])
  show "gives env (Some (describe_request type ap)) (build_request_msg env type ap)"
    using builder_request [OF assms(2), of env] assms(1) by (simp add: builder_def)
  have m: "gives env (Some ()) (xmalloc env (length (pack (describe_request type ap))))"
    using assms(1,3) by (intro gives_xmalloc) simp_all
  show "gives env (NORNS_SUCCESS, Some (pack (describe_request type ap)))
      (case Some (describe_request type ap) of None \<Rightarrow> io_return (NORNS_ENOMEM, None)
       | Some m \<Rightarrow> io_bind (xmalloc env (length (pack m))) (\<lambda>buf. io_return (case buf of
           None \<Rightarrow> (NORNS_ENOMEM, None) | Some _ \<Rightarrow> (NORNS_SUCCESS, Some (pack m)))))"
    by (simp add: gives_bind [OF m] gives_return)
qed

text \<open>
  The client sends what the caller said. For every well-formed request and whatever the allocator does,
  packing produces the bytes of exactly the message that describes the arguments (a string longer than 4095
  characters cut off there), or reports that memory is short and produces nothing, or stops at the null
  pointer \<^verbatim>\<open>xstrdup\<close> does not test; and when there is memory it produces the message.
\<close>

theorem pack_to_buffer_exact:
  assumes "sendable type ap" and "pack (describe_request type ap) \<noteq> []"
  shows "(case pack_to_buffer env pack type ap w of
      Inl f \<Rightarrow> f = Null_Deref
    | Inr ((res, buf), w') \<Rightarrow>
        res = NORNS_SUCCESS \<and> buf = Some (pack (describe_request type ap)) \<or> res = NORNS_ENOMEM \<and> buf = None) \<and>
   (memory_available env \<longrightarrow>
      (\<exists>w'. pack_to_buffer env pack type ap w = Inr ((NORNS_SUCCESS, Some (pack (describe_request type ap))), w')))"
proof
  have "f = Null_Deref" if "pack_to_buffer env pack type ap w = Inl f" for f
    using that builder_request [OF assms(1), of env] unfolding builder_def builds_def pack_to_buffer_def
    by (auto simp: io_bind_def io_apply xmalloc_def outcome_simps
        split: option.splits if_splits prod.splits dest: spec [of _ w])
  then show "case pack_to_buffer env pack type ap w of
      Inl f \<Rightarrow> f = Null_Deref
    | Inr ((res, buf), w') \<Rightarrow>
        res = NORNS_SUCCESS \<and> buf = Some (pack (describe_request type ap)) \<or> res = NORNS_ENOMEM \<and> buf = None"
    using pack_cases [OF assms(1), of env pack w] by (auto split: sum.splits)
  show "memory_available env \<longrightarrow>
      (\<exists>w'. pack_to_buffer env pack type ap w = Inr ((NORNS_SUCCESS, Some (pack (describe_request type ap))), w'))"
    using pack_available [OF _ assms(1), of env pack] assms(2) unfolding gives_def by blast
qed

text \<open>A sample environment: memory is plentiful, and nobody listens on the socket.\<close>

definition calm_client :: "unit client_env" where
  "calm_client = \<lparr>cl_sizeof = (\<lambda>_. 8), cl_malloc = (\<lambda>_ w. (True, w)), cl_junk = (\<lambda>n _. replicate n 0),
     cl_errno = (\<lambda>_. 0), cl_socket = (\<lambda>w. (3, w)), cl_connect = (\<lambda>_ _ w. (-1, w)), cl_write = (\<lambda>_ bs w. (int (length bs), w)),
     cl_read = (\<lambda>_ _ w. ((0, []), w)), cl_close = (\<lambda>_ w. (0, w)), cl_nanosleep = (\<lambda>_ w. ((0, 0, 0), w)),
     cl_context = Some \<lparr>config_file = None, api_socket = Some ''/tmp/urd.socket''\<rparr>, cl_big = False\<rparr>"

lemma calm_client_memory: "memory_available calm_client"
  by (simp add: memory_available_def calm_client_def)

definition sample_copy :: norns_iotask where
  "sample_copy = \<lparr>t_id = 0, t_op = NORNS_IOTASK_COPY, t_src = NORNS_LOCAL_PATH (Some ''tmp'') (Some ''/a''),
     t_dst = NORNS_REMOTE_PATH (Some ''nvm'') (Some ''node1'') (Some ''/b''),
     t_status = \<lparr>c_status = 0, c_task_error = 0, c_sys_errno = 0, c_pending = 0, c_total = 0\<rparr>\<rparr>"

lemma sample_copy_sendable: "sendable MT_IOTASK_SUBMIT (Args_task sample_copy)"
  by (simp add: sample_copy_def resource_sendable_def NORNS_LOCAL_PATH_def NORNS_REMOTE_PATH_def)

theorem pack_to_buffer_exact_witness:
  "\<exists>w. pack_to_buffer calm_client (\<lambda>_. [1]) MT_IOTASK_SUBMIT (Args_task sample_copy) () = Inr ((NORNS_SUCCESS, Some [1]), w)"
  using pack_to_buffer_exact [OF sample_copy_sendable, of "\<lambda>_. [1]" calm_client "()"] calm_client_memory by simp

text \<open>
  A caller's mistake is reported as a lack of memory: a task one of whose paths has a null namespace
  fails with \<^verbatim>\<open>NORNS_ENOMEM\<close> although memory is available.
\<close>

theorem null_nsid_reports_enomem:
  assumes "memory_available env" and "type = MT_IOTASK_SUBMIT \<or> type = MT_IOTASK_STATUS"
    and "t_src task = NORNS_LOCAL_PATH None path"
  shows "gives env (NORNS_ENOMEM, None) (pack_to_buffer env pack type (Args_task task))"
proof -
  have "gives env None (build_path_msg env \<lparr>p_nsid = None, p_host = None, p_path = path\<rparr>)"
    unfolding build_path_msg_def by (intro gives_nonnull [OF gives_xmalloc_struct [OF assms(1)]]) (simp add: gives_return)
  then have "gives env None (build_resource_msg env (t_src task))"
    unfolding build_resource_msg_def assms(3) NORNS_LOCAL_PATH_def
    by (intro gives_nonnull [OF gives_xmalloc_struct [OF assms(1)]]) (simp add: gives_null)
  then have "gives env None (build_task_msg env task)"
    unfolding build_task_msg_def by (intro gives_nonnull [OF gives_xmalloc_struct [OF assms(1)]] gives_null)
  then have "gives env None (build_request_msg env type (Args_task task))"
    unfolding build_request_msg_def using assms(2)
    by (intro gives_nonnull [OF gives_xmalloc_struct [OF assms(1)]]) (auto simp: gives_null)
  then show ?thesis
    unfolding pack_to_buffer_def by (rule gives_bind) (simp add: gives_return)
qed

theorem null_nsid_reports_enomem_witness:
  "gives calm_client (NORNS_ENOMEM, None)
     (pack_to_buffer calm_client (\<lambda>_. [1]) MT_IOTASK_SUBMIT
        (Args_task (sample_copy\<lparr>t_src := NORNS_LOCAL_PATH None (Some ''/a'')\<rparr>)))"
  using null_nsid_reports_enomem [OF calm_client_memory, of MT_IOTASK_SUBMIT "sample_copy\<lparr>t_src := NORNS_LOCAL_PATH None (Some ''/a'')\<rparr>"]
  by simp

section \<open>Responses\<close>

text \<open>The type of the request a response of the daemon answers.\<close>

fun answered_type :: "response_type \<Rightarrow> norns_msgtype" where
  "answered_type RS_iotask_create = MT_IOTASK_SUBMIT"
| "answered_type RS_iotask_status = MT_IOTASK_STATUS"
| "answered_type RS_global_status = MT_GLOBAL_STATUS"
| "answered_type RS_command = MT_COMMAND"
| "answered_type RS_ping = MT_PING"
| "answered_type RS_job_register = MT_JOB_REGISTER"
| "answered_type RS_job_update = MT_JOB_UPDATE"
| "answered_type RS_job_unregister = MT_JOB_UNREGISTER"
| "answered_type RS_process_register = MT_PROCESS_ADD"
| "answered_type RS_process_unregister = MT_PROCESS_REMOVE"
| "answered_type RS_backend_register = MT_NAMESPACE_REGISTER"
| "answered_type RS_backend_update = MT_NAMESPACE_UPDATE"
| "answered_type RS_backend_unregister = MT_NAMESPACE_UNREGISTER"
| "answered_type RS_bad_request = MT_BAD_RPC"

lemma decode_encode_type [simp]: "decode_response_type (encode_response_type t) = answered_type t"
  by (cases t) (simp_all add: decode_response_type_def)

lemma sint_encode_urd_error [simp]: "sint (encode_urd_error e) = urd_error_value e"
  by (cases e) (simp_all add: encode_urd_error_def)

fun client_status :: "task_status \<Rightarrow> int" where
  "client_status TS_undefined = -100"
| "client_status TS_pending = -101"
| "client_status TS_running = -102"
| "client_status TS_finished = NORNS_EFINISHED"
| "client_status TS_finished_with_error = NORNS_EFINISHEDWERROR"

lemma sint_encode_task_status [simp]: "sint (encode_task_status s) = client_status s"
  by (cases s) simp_all

definition response_data :: "response \<Rightarrow> response_union \<Rightarrow> response_union" where
  "response_data r d =
     (case answered_type (rs_type r) of
        MT_IOTASK_SUBMIT \<Rightarrow> PU_taskid (ucast (the (rs_taskid r)))
      | MT_IOTASK_STATUS \<Rightarrow>
          (let st = the (rs_stats r)
           in PU_stats (client_status (st_status st)) (urd_error_value (st_task_error st))
                (sint (word_of_int (st_sys_error st) :: u32)))
      | MT_GLOBAL_STATUS \<Rightarrow>
          (let g = the (rs_gstats r) in PU_gstats (gs_running_tasks g) (gs_pending_tasks g) (gs_eta g))
      | _ \<Rightarrow> d)"

lemma unpack_response:
  assumes "unpack buf = Some (pack_response r)"
  shows "unpack_from_buffer unpack buf resp =
    (if (rs_type r = RS_iotask_create \<longrightarrow> rs_taskid r \<noteq> None) \<and> (rs_type r = RS_iotask_status \<longrightarrow> rs_stats r \<noteq> None) \<and>
        (rs_type r = RS_global_status \<longrightarrow> rs_gstats r \<noteq> None)
     then (NORNS_SUCCESS, \<lparr>r_type = answered_type (rs_type r), r_error_code = urd_error_value (rs_error_code r),
                           r_data = response_data r (r_data resp)\<rparr>)
     else (NORNS_ERPCRECVFAILED, resp\<lparr>r_type := answered_type (rs_type r),
                                     r_error_code := urd_error_value (rs_error_code r)\<rparr>))"
proof -
  have t: "decode_response_type (rr_type (pack_response r)) = answered_type (rs_type r)"
    and e: "sint (rr_error_code (pack_response r)) = urd_error_value (rs_error_code r)"
    and i: "rr_taskid (pack_response r) = rs_taskid r"
    by (simp_all add: pack_response_def)
  have s: "rr_stats (pack_response r) = map_option (\<lambda>st. (encode_task_status (st_status st),
      encode_urd_error (st_task_error st), word_of_int (st_sys_error st))) (rs_stats r)"
    and g: "rr_gstats (pack_response r) = map_option (\<lambda>g. (gs_running_tasks g, gs_pending_tasks g, gs_eta g)) (rs_gstats r)"
    by (simp_all add: pack_response_def)
  show ?thesis
    by (cases "rs_type r")
       (auto simp: assms unpack_from_buffer_def t e i s g response_data_def Let_def split: option.splits)
qed

text \<open>
  The client reads back what the daemon answered: a response that carries what its type calls for is
  unpacked to the same type, the same error code with its sign, the same task identifier, and the same status,
  task error and counters; one that lacks them is refused.
\<close>

theorem unpack_pack_response:
  assumes "unpack buf = Some (pack_response r)"
  shows "unpack_from_buffer unpack buf resp =
    (if (rs_type r = RS_iotask_create \<longrightarrow> rs_taskid r \<noteq> None) \<and> (rs_type r = RS_iotask_status \<longrightarrow> rs_stats r \<noteq> None) \<and>
        (rs_type r = RS_global_status \<longrightarrow> rs_gstats r \<noteq> None)
     then (NORNS_SUCCESS, \<lparr>r_type = answered_type (rs_type r), r_error_code = urd_error_value (rs_error_code r),
                           r_data = response_data r (r_data resp)\<rparr>)
     else (NORNS_ERPCRECVFAILED, resp\<lparr>r_type := answered_type (rs_type r),
                                     r_error_code := urd_error_value (rs_error_code r)\<rparr>))"
  using assms by (rule unpack_response)

theorem unpack_pack_response_witness:
  "fst (unpack_from_buffer (\<lambda>_. Some (pack_response (make_response RS_ping UE_success))) []
     \<lparr>r_type = MT_BAD_RPC, r_error_code = 5, r_data = PU_unset\<rparr>) = NORNS_SUCCESS"
  using unpack_pack_response [of "\<lambda>_. Some (pack_response (make_response RS_ping UE_success))" "[]"]
  by (simp add: make_response_def)

end
