(* ===== verification/Session.thy ===== *)
theory Session
  imports Urd_Properties
begin

text \<open>
  A session of the local API (\<^verbatim>\<open>src/api/session.hpp\<close>): the daemon reads the header and the body of one
  request from a connection, decodes it, dispatches it, and writes the response. What the client sends
  and what it is sent back are lists of bytes.
\<close>

section \<open>One exchange\<close>

text \<open>
  \<open>parse\<close> and \<open>ser\<close> are the parser and the serializer of the protocol buffers library, \<open>creds\<close> is what
  \<^verbatim>\<open>auth::credentials::fetch\<close> reads off the socket (no request carries credentials of its own).
  \<^verbatim>\<open>async_read\<close> calls back with an error when the connection ends before the buffer is full; then
  nothing more happens. The result is what the daemon writes, and its next state.
\<close>

definition do_read_request_body ::
  "('w, 'e) urd_env_scheme \<Rightarrow> bool \<Rightarrow> (byte list \<Rightarrow> rpc_request option) \<Rightarrow> (rpc_response \<Rightarrow> byte list option) \<Rightarrow>
   credentials option \<Rightarrow> message \<Rightarrow> byte list \<Rightarrow> 'w urd \<Rightarrow> 'w \<Rightarrow> (byte list \<times> 'w urd) outcome" where
  "do_read_request_body env big parse ser creds m input u w =
     (let body_length = m_expected_body_length m
      in if body_length = 0 \<or> length input < body_length then Inr ([], u)
         else
           let m1 = m\<lparr>m_body := take body_length input\<rparr>
           in obind (create_from_buffer parse (m_body m1) body_length) (\<lambda>req.
              obind (serve_request env req creds u w) (\<lambda>(resp, u').
                case encode_response big (\<lambda>r. ser (pack_response r)) resp (message_clear m1) of
                  (ok, m2) \<Rightarrow> Inr (if ok then m_header m2 @ m_body m2 else [], u'))))"

definition do_read_request ::
  "('w, 'e) urd_env_scheme \<Rightarrow> bool \<Rightarrow> (nat \<Rightarrow> bool) \<Rightarrow> (byte list \<Rightarrow> rpc_request option) \<Rightarrow>
   (rpc_response \<Rightarrow> byte list option) \<Rightarrow> credentials option \<Rightarrow> byte list \<Rightarrow> 'w urd \<Rightarrow> 'w \<Rightarrow>
     (byte list \<times> 'w urd) outcome" where
  "do_read_request env big alloc parse ser creds input u w =
     (if length input < HEADER_LENGTH then Inr ([], u)
      else
        obind (decode_header big alloc HEADER_LENGTH (message_init\<lparr>m_header := take HEADER_LENGTH input\<rparr>)) (\<lambda>(ok, m).
          if ok then do_read_request_body env big parse ser creds m (drop HEADER_LENGTH input) u w
          else Inr ([], u)))"

text \<open>A message on the wire: the length of the body in eight bytes, most significant first, and the body.\<close>

definition framed_message :: "byte list \<Rightarrow> byte list" where
  "framed_message body = rev (le_bytes 8 (of_nat (length body) :: u64)) @ body"

lemma framed_length [simp]: "length (framed_message body) = 8 + length body"
  by (simp add: framed_message_def)

lemma framed_split: "take 8 (framed_message body) = rev (le_bytes 8 (of_nat (length body) :: u64))"
  "drop 8 (framed_message body) = body"
  by (simp_all add: framed_message_def)

lemma header_framed:
  assumes "length body < 2 ^ 64" and "alloc (length body)" and "8 \<le> k"
  shows "\<exists>m. decode_header big alloc HEADER_LENGTH
      (message_init\<lparr>m_header := take HEADER_LENGTH (take k (framed_message body))\<rparr>) = Inr (True, m) \<and>
    m_expected_body_length m = length body"
  using assms by (simp add: decode_header_def header_length_read framed_split min_def Let_def)

lemma read_framed:
  assumes "length body < 2 ^ 64" and "alloc (length body)" and "8 \<le> k" and "0 < length body"
  shows "do_read_request env big alloc parse ser creds (take k (framed_message body)) u w =
    (if k < 8 + length body then Inr ([], u)
     else obind (create_from_buffer parse body (length body)) (\<lambda>req.
          obind (serve_request env req creds u w) (\<lambda>(resp, u').
            Inr (case ser (pack_response resp) of None \<Rightarrow> [] | Some out \<Rightarrow> framed_message out, u'))))"
proof -
  obtain m where m: "decode_header big alloc HEADER_LENGTH
      (message_init\<lparr>m_header := take HEADER_LENGTH (take k (framed_message body))\<rparr>) = Inr (True, m)"
    "m_expected_body_length m = length body"
    using header_framed [of body alloc k big] assms(1-3) by blast
  have d: "drop 8 (take k (framed_message body)) = take (k - 8) body"
    by (simp add: drop_take framed_split)
  have "do_read_request env big alloc parse ser creds (take k (framed_message body)) u w =
      do_read_request_body env big parse ser creds m (take (k - 8) body) u w"
    unfolding do_read_request_def m d using assms(3) by (simp add: min_def)
  then show ?thesis
    using assms(3,4)
    by (auto simp: do_read_request_body_def m(2) encode_response_def message_clear_def framed_message_def
        header_bytes Let_def split: option.splits intro!: arg_cong2 [where f = obind] ext)
qed

text \<open>
  C15. A session answers a framed request with the framed response of its handler: when the body of a
  message decodes to a request, the daemon writes the length of the serialized response, most
  significant byte first, and then the response the handler gave, on hosts of either byte order, and is
  in the state the handler left. A client that closes the connection at any earlier byte gets no answer
  and changes nothing.
\<close>

theorem session_exchange:
  assumes "0 < length body" and "length body < 2 ^ 64" and "alloc (length body)"
    and "parse body = Some rq" and "decode_request rq = Inr req"
    and "serve_request env req creds u w = Inr (resp, u')" and "ser (pack_response resp) = Some out"
  shows "do_read_request env big alloc parse ser creds (framed_message body) u w = Inr (framed_message out, u') \<and>
    (\<forall>k < length (framed_message body).
       do_read_request env big alloc parse ser creds (take k (framed_message body)) u w = Inr ([], u))"
proof (intro conjI allI impI)
  have "take (8 + length body) (framed_message body) = framed_message body" by simp
  then show "do_read_request env big alloc parse ser creds (framed_message body) u w = Inr (framed_message out, u')"
    using read_framed [of body alloc "8 + length body" env big parse ser creds u w] assms
    by (simp add: create_from_buffer_def)
  show "do_read_request env big alloc parse ser creds (take k (framed_message body)) u w = Inr ([], u)"
    if "k < length (framed_message body)" for k
  proof (cases "8 \<le> k")
    case True
    then show ?thesis using read_framed [of body alloc k env big parse ser creds u w] assms(1-3) that by simp
  qed (simp add: do_read_request_def)
qed

definition ping_parse :: "byte list \<Rightarrow> rpc_request option" where
  "ping_parse bs = Some \<lparr>rq_type = PING, rq_task = None, rq_jobid = None, rq_job = None, rq_process = None,
     rq_nspace = None, rq_command = None\<rparr>"

theorem session_exchange_witness:
  "do_read_request quiet_urd_env False (\<lambda>_. True) ping_parse (\<lambda>_. Some [1, 2]) None (framed_message [3]) sample_urd () =
     Inr (framed_message [1, 2], sample_urd)"
  using session_exchange [where rq = "the (ping_parse [])" and req = Ping_request and body = "[3]"
      and resp = "make_response RS_ping UE_success" and parse = ping_parse and alloc = "\<lambda>_. True"
      and ser = "\<lambda>_. Some [1, 2]" and out = "[1, 2]" and env = quiet_urd_env and u = sample_urd and u' = sample_urd]
  by (simp add: ping_parse_def decode_request_def serve_request_eq ping_handler_def)

end
