(* ===== verification/Client_Comm.thy ===== *)
theory Client_Comm
  imports Client_Requests Session
begin

text \<open>
  The client's side of the socket (\<^verbatim>\<open>lib/communication.c\<close>): the loops around \<^verbatim>\<open>read\<close> and \<^verbatim>\<open>write\<close>, the framing of a
  message, one request and its response on a connection of their own, and the functions the public API calls.
  A loop that has used up its \<open>fuel\<close> yields \<open>Diverges\<close>; the theorems say how much fuel is enough.
\<close>

section \<open>Bytes over a socket\<close>

fun send_data_loop ::
  "nat \<Rightarrow> ('w, 'e) client_env_scheme \<Rightarrow> int \<Rightarrow> byte list \<Rightarrow> nat \<Rightarrow> int \<Rightarrow> ('w, int) io" where
  "send_data_loop fuel env conn data bsent n =
     (if bsent < length data then
        (case fuel of
           0 \<Rightarrow> io_lift (Inl Diverges)
         | Suc fuel' \<Rightarrow>
             io_bind (io_call (cl_write env conn (drop bsent data))) (\<lambda>n'.
               if n' = -1 then
                 (\<lambda>w. if cl_errno env w = EINTR then send_data_loop fuel' env conn data bsent n' w
                      else io_return n' w)
               else send_data_loop fuel' env conn data (bsent + nat n') n'))
      else io_return (if n = -1 then n else int bsent))"

declare send_data_loop.simps [simp del]

definition send_data :: "nat \<Rightarrow> ('w, 'e) client_env_scheme \<Rightarrow> int \<Rightarrow> byte list \<Rightarrow> ('w, int) io" where
  "send_data fuel env conn data = send_data_loop fuel env conn data 0 0"

text \<open>\<open>data\<close> is the destination with what it held before; \<^verbatim>\<open>errno\<close> is tested after an end of file too.\<close>

fun recv_data_loop ::
  "nat \<Rightarrow> ('w, 'e) client_env_scheme \<Rightarrow> int \<Rightarrow> byte list \<Rightarrow> nat \<Rightarrow> int \<Rightarrow> ('w, int \<times> byte list) io" where
  "recv_data_loop fuel env conn data brecvd n =
     (if brecvd < length data then
        (case fuel of
           0 \<Rightarrow> io_lift (Inl Diverges)
         | Suc fuel' \<Rightarrow>
             io_bind (io_call (cl_read env conn (length data - brecvd))) (\<lambda>(n', bs).
               if n' = -1 \<or> n' = 0 then
                 (\<lambda>w. if cl_errno env w = EINTR then recv_data_loop fuel' env conn data brecvd n' w
                      else io_return (if n' = -1 then n' else int brecvd, data) w)
               else recv_data_loop fuel' env conn (take brecvd data @ bs @ drop (brecvd + length bs) data)
                      (brecvd + nat n') n'))
      else io_return (if n = -1 then n else int brecvd, data))"

declare recv_data_loop.simps [simp del]

definition recv_data :: "nat \<Rightarrow> ('w, 'e) client_env_scheme \<Rightarrow> int \<Rightarrow> byte list \<Rightarrow> ('w, int \<times> byte list) io" where
  "recv_data fuel env conn data = recv_data_loop fuel env conn data 0 0"

section \<open>Messages\<close>

definition send_message :: "nat \<Rightarrow> ('w, 'e) client_env_scheme \<Rightarrow> int \<Rightarrow> byte list option \<Rightarrow> ('w, int) io" where
  "send_message fuel env conn buffer =
     (case buffer of
        None \<Rightarrow> io_return (-1)
      | Some data \<Rightarrow>
          if length data = 0 then io_return (-1)
          else
            let prefix = htonll (cl_big env) (of_nat (length data))
            in io_bind (send_data fuel env conn (store_u64 (cl_big env) prefix)) (\<lambda>n1.
               if n1 < 0 then io_return (-1)
               else io_bind (send_data fuel env conn data) (\<lambda>n2.
                 if n2 < 0 then io_return (-1) else io_return 0)))"

text \<open>
  The body is read into fresh, uninitialised memory of the announced size, and only a negative result of
  \<^verbatim>\<open>recv_data\<close> is an error.
\<close>

definition recv_message :: "nat \<Rightarrow> ('w, 'e) client_env_scheme \<Rightarrow> int \<Rightarrow> ('w, int \<times> byte list option) io" where
  "recv_message fuel env conn =
     io_bind (recv_data fuel env conn (store_u64 (cl_big env) 0)) (\<lambda>(n1, header).
       if n1 < 0 then io_return (-1, None)
       else
         let msg_size = unat (ntohll (cl_big env) (load_u64 (cl_big env) header))
         in if msg_size = 0 then io_return (-1, None)
            else io_bind (xmalloc env msg_size) (\<lambda>p.
              case p of
                None \<Rightarrow> io_return (-1, None)
              | Some _ \<Rightarrow>
                  (\<lambda>w. io_bind (recv_data fuel env conn (cl_junk env msg_size w)) (\<lambda>(n2, data).
                     if n2 < 0 then io_return (-1, None) else io_return (0, Some data)) w)))"

text \<open>
  The path is copied into the 108 bytes of a socket address. A descriptor that could not be connected is
  not closed.
\<close>

definition connect_to_daemon :: "('w, 'e) client_env_scheme \<Rightarrow> string option \<Rightarrow> ('w, int) io" where
  "connect_to_daemon env socket_path =
     (case socket_path of
        None \<Rightarrow> io_return (-1)
      | Some path \<Rightarrow>
          io_bind (io_call (cl_socket env)) (\<lambda>sfd.
            if sfd < 0 then io_return (-1)
            else io_bind (io_call (cl_connect env sfd (take 107 path))) (\<lambda>r.
              if r < 0 then io_return (-1) else io_return sfd)))"

section \<open>One request\<close>

text \<open>
  The response on the stack of the caller is not initialised; its type and error code are set before they are
  read, and a member of its union that was not set counts as a fault when read.
\<close>

definition response_uninit :: norns_response where
  "response_uninit = \<lparr>r_type = MT_BAD_RPC, r_error_code = 0, r_data = PU_unset\<rparr>"

definition send_request ::
  "nat \<Rightarrow> ('w, 'e) client_env_scheme \<Rightarrow> (request_pb \<Rightarrow> byte list) \<Rightarrow> (byte list \<Rightarrow> rpc_response option) \<Rightarrow>
   norns_msgtype \<Rightarrow> msg_args \<Rightarrow> ('w, int \<times> norns_response) io" where
  "send_request fuel env pack unpack type ap =
     io_bind (get_context env) (\<lambda>ctx.
      if type = MT_BAD_RPC then io_return (NORNS_ESNAFU, response_uninit)
      else io_bind (pack_to_buffer env pack type ap) (\<lambda>(res, req_buf).
        if res \<noteq> NORNS_SUCCESS then io_return (res, response_uninit)
        else io_bind (connect_to_daemon env (api_socket ctx)) (\<lambda>conn.
          if conn = -1 then io_return (NORNS_ECONNFAILED, response_uninit)
          else
            io_bind
              (io_bind (send_message fuel env conn req_buf) (\<lambda>s.
                 if s < 0 then io_return (NORNS_ERPCSENDFAILED, response_uninit)
                 else io_bind (recv_message fuel env conn) (\<lambda>(r, resp_buf).
                   if r < 0 then io_return (NORNS_ERPCRECVFAILED, response_uninit)
                   else io_bind (io_lift (deref resp_buf)) (\<lambda>buf.
                     io_return (unpack_from_buffer unpack buf response_uninit)))))
              (\<lambda>result. io_bind (io_call (cl_close env conn)) (\<lambda>_. io_return result)))))"

section \<open>The functions behind the public API\<close>

text \<open>Reading a member of the union of the response.\<close>

fun resp_taskid :: "response_union \<Rightarrow> u64 outcome" where
  "resp_taskid (PU_taskid t) = Inr t"
| "resp_taskid _ = Inl Bad_Cast"

fun resp_stats :: "response_union \<Rightarrow> (int \<times> int \<times> int) outcome" where
  "resp_stats (PU_stats s e n) = Inr (s, e, n)"
| "resp_stats _ = Inl Bad_Cast"

fun resp_gstats :: "response_union \<Rightarrow> (u32 \<times> u32 \<times> dbl) outcome" where
  "resp_gstats (PU_gstats r p e) = Inr (r, p, e)"
| "resp_gstats _ = Inl Bad_Cast"

text \<open>The operations of the client, as the two libraries are linked: \<open>fuel\<close>, the system, \<open>pack\<close> and \<open>unpack\<close>.\<close>

record 'w client = "'w client_env" +
  cl_fuel :: nat
  cl_pack :: "request_pb \<Rightarrow> byte list"
  cl_unpack :: "byte list \<Rightarrow> rpc_response option"
  cl_stack_stat :: norns_stat               \<comment> \<open>what an uninitialised \<^verbatim>\<open>norns_stat_t\<close> holds\<close>

abbreviation client_request :: "('w, 'e) client_scheme \<Rightarrow> norns_msgtype \<Rightarrow> msg_args \<Rightarrow> ('w, int \<times> norns_response) io" where
  "client_request env type ap \<equiv> send_request (cl_fuel env) env (cl_pack env) (cl_unpack env) type ap"

text \<open>A function that changes a structure of the caller returns it with its result.\<close>

definition send_submit_request :: "('w, 'e) client_scheme \<Rightarrow> norns_iotask \<Rightarrow> ('w, int \<times> norns_iotask) io" where
  "send_submit_request env task =
     (if t_id task \<noteq> 0 \<or>
         (t_op task \<noteq> NORNS_IOTASK_COPY \<and> t_op task \<noteq> NORNS_IOTASK_MOVE \<and> t_op task \<noteq> NORNS_IOTASK_REMOVE)
      then io_return (NORNS_EBADARGS, task)
      else io_bind (client_request env MT_IOTASK_SUBMIT (Args_task task)) (\<lambda>(res, resp).
        if res \<noteq> NORNS_SUCCESS then io_return (res, task)
        else if r_type resp \<noteq> MT_IOTASK_SUBMIT then io_return (NORNS_ESNAFU, task)
        else io_bind (io_lift (resp_taskid (r_data resp))) (\<lambda>tid.
          io_return (r_error_code resp, task\<lparr>t_id := ucast tid\<rparr>))))"

definition send_control_command_request :: "('w, 'e) client_scheme \<Rightarrow> u32 \<Rightarrow> ('w, int) io" where
  "send_control_command_request env cmd =
     io_bind (client_request env MT_COMMAND (Args_command cmd)) (\<lambda>(res, resp).
       io_return (if res \<noteq> NORNS_SUCCESS then res
                  else if r_type resp \<noteq> MT_COMMAND then NORNS_ESNAFU else r_error_code resp))"

definition send_status_request :: "('w, 'e) client_scheme \<Rightarrow> norns_iotask \<Rightarrow> norns_stat \<Rightarrow> ('w, int \<times> norns_stat) io" where
  "send_status_request env task pstats =
     (if t_id task = 0 then io_return (NORNS_EBADARGS, pstats)
      else io_bind (client_request env MT_IOTASK_STATUS (Args_task task)) (\<lambda>(res, resp).
        if res \<noteq> NORNS_SUCCESS then io_return (res, pstats)
        else if r_type resp \<noteq> MT_IOTASK_STATUS then io_return (NORNS_ESNAFU, pstats)
        else io_bind (io_lift (resp_stats (r_data resp))) (\<lambda>(st, te, se).
          io_return (r_error_code resp, pstats\<lparr>c_status := st, c_task_error := te, c_sys_errno := se\<rparr>))))"

definition send_control_status_request :: "('w, 'e) client_scheme \<Rightarrow> nornsctl_stat \<Rightarrow> ('w, int \<times> nornsctl_stat) io" where
  "send_control_status_request env pstats =
     io_bind (client_request env MT_GLOBAL_STATUS Args_none) (\<lambda>(res, resp).
       if res \<noteq> NORNS_SUCCESS then io_return (res, pstats)
       else if r_type resp \<noteq> MT_GLOBAL_STATUS then io_return (NORNS_ESNAFU, pstats)
       else io_bind (io_lift (resp_gstats (r_data resp))) (\<lambda>(rt, pt, eta).
         io_return (r_error_code resp, pstats\<lparr>c_running_tasks := ucast rt, c_pending_tasks := ucast pt, c_eta := eta\<rparr>)))"

text \<open>The last three differ in their arguments only: the result of a request that is answered by its own type.\<close>

definition typed_request :: "('w, 'e) client_scheme \<Rightarrow> norns_msgtype \<Rightarrow> msg_args \<Rightarrow> ('w, int) io" where
  "typed_request env type ap =
     io_bind (client_request env type ap) (\<lambda>(res, resp).
       io_return (if res \<noteq> NORNS_SUCCESS then res
                  else if r_type resp \<noteq> type then NORNS_ESNAFU else r_error_code resp))"

definition send_job_request :: "('w, 'e) client_scheme \<Rightarrow> norns_msgtype \<Rightarrow> u32 \<Rightarrow> nornsctl_job option \<Rightarrow> ('w, int) io" where
  "send_job_request env type jobid job = typed_request env type (Args_job jobid job)"

definition send_process_request ::
  "('w, 'e) client_scheme \<Rightarrow> norns_msgtype \<Rightarrow> u32 \<Rightarrow> u32 \<Rightarrow> u32 \<Rightarrow> int \<Rightarrow> ('w, int) io" where
  "send_process_request env type jobid uid gid pid = typed_request env type (Args_process jobid uid gid pid)"

definition send_namespace_request ::
  "('w, 'e) client_scheme \<Rightarrow> norns_msgtype \<Rightarrow> string option \<Rightarrow> nornsctl_backend option \<Rightarrow> ('w, int) io" where
  "send_namespace_request env type nsid ns = typed_request env type (Args_nspace nsid ns)"

end
