(* ===== verification/Client_Exchange.thy ===== *)
theory Client_Exchange
  imports Client_Comm
begin

text \<open>
  What the client's loops achieve on a stream socket that keeps its promise: the whole message arrives, the
  whole answer is read, and both loops end. Then what they do when the other side breaks off.
\<close>

section \<open>A stream socket\<close>

text \<open>
  How the world of the client looks to a socket: \<open>sent\<close> and \<open>got\<close> are the bytes written to and read from the
  connection, \<open>intr\<close> bounds the signals that can interrupt calls in a row, and \<open>peer\<close> is the state of the other side.
  In the state \<open>p\<close> the other side answers \<open>reply p bs\<close> to the bytes \<open>bs\<close>, and when the connection is closed it is in
  the state \<open>moves p bs\<close>.
\<close>

record ('w, 'p) socket_view =
  sent :: "'w \<Rightarrow> byte list"
  got :: "'w \<Rightarrow> byte list"
  intr :: "'w \<Rightarrow> nat"
  peer :: "'w \<Rightarrow> 'p"
  reply :: "'p \<Rightarrow> byte list \<Rightarrow> byte list"
  moves :: "'p \<Rightarrow> byte list \<Rightarrow> 'p"

text \<open>
  A call may transfer any positive number of the bytes it was asked for; when the other side has nothing more to
  say, a read returns 0. Memory has nothing to do with sockets.
\<close>

definition rest_of :: "('w, 'p) socket_view \<Rightarrow> 'w \<Rightarrow> byte list" where
  "rest_of v w = drop (length (got v w)) (reply v (peer v w) (sent v w))"

definition socket_laws :: "('w, 'e) client_env_scheme \<Rightarrow> ('w, 'p) socket_view \<Rightarrow> nat \<Rightarrow> bool" where
  "socket_laws env v k \<longleftrightarrow>
     (\<forall>fd bs w n w'. bs \<noteq> [] \<longrightarrow> cl_write env fd bs w = (n, w') \<longrightarrow> got v w' = got v w \<and> peer v w' = peer v w \<and>
        (n = -1 \<and> cl_errno env w' = EINTR \<and> intr v w' < intr v w \<and> sent v w' = sent v w \<or>
         0 < n \<and> nat n \<le> length bs \<and> intr v w' \<le> intr v w \<and> sent v w' = sent v w @ take (nat n) bs)) \<and>
     (\<forall>fd j w n bs w'. 0 < j \<longrightarrow> cl_read env fd j w = ((n, bs), w') \<longrightarrow> sent v w' = sent v w \<and> peer v w' = peer v w \<and>
        (n = -1 \<and> cl_errno env w' = EINTR \<and> intr v w' < intr v w \<and> got v w' = got v w \<or>
         n = int (length bs) \<and> length bs \<le> j \<and> intr v w' \<le> intr v w \<and> got v w' = got v w @ bs \<and>
         bs = take (length bs) (rest_of v w) \<and> (bs = [] \<longrightarrow> rest_of v w = []))) \<and>
     (\<forall>n w. sent v (snd (cl_malloc env n w)) = sent v w \<and> got v (snd (cl_malloc env n w)) = got v w \<and>
        peer v (snd (cl_malloc env n w)) = peer v w) \<and>
     (\<forall>n w. length (cl_junk env n w) = n) \<and>
     (\<forall>fd w. peer v (snd (cl_close env fd w)) = moves v (peer v w) (sent v w)) \<and>
     (\<forall>w. intr v w \<le> k)"

text \<open>Somebody accepts connections. A new connection starts with nothing sent and nothing received.\<close>

definition daemon_listens :: "('w, 'e) client_env_scheme \<Rightarrow> ('w, 'p) socket_view \<Rightarrow> bool" where
  "daemon_listens env v \<longleftrightarrow> (\<exists>ctx path. cl_context env = Some ctx \<and> api_socket ctx = Some path) \<and>
     (\<forall>w. 0 \<le> fst (cl_socket env w) \<and> peer v (snd (cl_socket env w)) = peer v w) \<and>
     (\<forall>fd path w. 0 \<le> fst (cl_connect env fd path w) \<and> sent v (snd (cl_connect env fd path w)) = [] \<and>
        got v (snd (cl_connect env fd path w)) = [] \<and> peer v (snd (cl_connect env fd path w)) = peer v w)"

lemma write_law:
  assumes "socket_laws env v k" and "bs \<noteq> []" and "cl_write env fd bs w = (n, w')"
  obtains "n = -1" "cl_errno env w' = EINTR" "intr v w' < intr v w" "sent v w' = sent v w" "got v w' = got v w" "peer v w' = peer v w"
  | "0 < n" "nat n \<le> length bs" "intr v w' \<le> intr v w" "sent v w' = sent v w @ take (nat n) bs" "got v w' = got v w"
    "peer v w' = peer v w"
proof -
  have "\<forall>fd bs w n w'. bs \<noteq> [] \<longrightarrow> cl_write env fd bs w = (n, w') \<longrightarrow> got v w' = got v w \<and> peer v w' = peer v w \<and>
        (n = -1 \<and> cl_errno env w' = EINTR \<and> intr v w' < intr v w \<and> sent v w' = sent v w \<or>
         0 < n \<and> nat n \<le> length bs \<and> intr v w' \<le> intr v w \<and> sent v w' = sent v w @ take (nat n) bs)"
    using assms(1) unfolding socket_laws_def by (elim conjE)
  from this [rule_format, OF assms(2,3)] show ?thesis by (elim conjE disjE) (rule that; assumption)+
qed

lemma read_law:
  assumes "socket_laws env v k" and "0 < j" and "cl_read env fd j w = ((n, bs), w')"
  obtains "n = -1" "cl_errno env w' = EINTR" "intr v w' < intr v w" "sent v w' = sent v w" "got v w' = got v w" "peer v w' = peer v w"
  | "n = int (length bs)" "length bs \<le> j" "intr v w' \<le> intr v w" "sent v w' = sent v w" "got v w' = got v w @ bs"
    "peer v w' = peer v w" "bs = take (length bs) (rest_of v w)" "bs = [] \<Longrightarrow> rest_of v w = []"
proof -
  have "\<forall>fd j w n bs w'. 0 < j \<longrightarrow> cl_read env fd j w = ((n, bs), w') \<longrightarrow> sent v w' = sent v w \<and> peer v w' = peer v w \<and>
        (n = -1 \<and> cl_errno env w' = EINTR \<and> intr v w' < intr v w \<and> got v w' = got v w \<or>
         n = int (length bs) \<and> length bs \<le> j \<and> intr v w' \<le> intr v w \<and> got v w' = got v w @ bs \<and>
         bs = take (length bs) (rest_of v w) \<and> (bs = [] \<longrightarrow> rest_of v w = []))"
    using assms(1) unfolding socket_laws_def by (elim conjE)
  from this [rule_format, OF assms(2,3)] show ?thesis by (elim conjE disjE) ((rule that(1); assumption), (rule that(2); (assumption | erule (1) mp)))
qed

lemma law_bound: "socket_laws env v k \<Longrightarrow> intr v w \<le> k"
  by (simp add: socket_laws_def)

lemma law_junk: "socket_laws env v k \<Longrightarrow> length (cl_junk env n w) = n"
  by (simp add: socket_laws_def)

lemma law_mallocs:
  assumes "socket_laws env v k" and "mallocs env w w'"
  shows "sent v w' = sent v w \<and> got v w' = got v w \<and> peer v w' = peer v w"
proof -
  have "\<forall>n w. sent v (snd (cl_malloc env n w)) = sent v w \<and> got v (snd (cl_malloc env n w)) = got v w \<and>
      peer v (snd (cl_malloc env n w)) = peer v w"
    using assms(1) unfolding socket_laws_def by (elim conjE)
  then show ?thesis using mallocs_keep [of "sent v"] mallocs_keep [of "got v"] mallocs_keep [of "peer v"] assms(2) by metis
qed

lemma send_data_loop_end: "\<not> bsent < length data \<Longrightarrow> send_data_loop fuel env fd data bsent n = io_return (if n = -1 then n else int bsent)"
  by (simp add: send_data_loop.simps)

lemma send_data_loop_step:
  "bsent < length data \<Longrightarrow> cl_write env fd (drop bsent data) w = (n', w') \<Longrightarrow>
     send_data_loop (Suc fuel) env fd data bsent n w =
       (if n' = -1 then (if cl_errno env w' = EINTR then send_data_loop fuel env fd data bsent n' w' else Inr (n', w'))
        else send_data_loop fuel env fd data (bsent + nat n') n' w')"
  by (subst send_data_loop.simps) (simp add: io_bind_call io_apply)

lemma send_data_loop_all:
  assumes "socket_laws env v k"
  shows "\<lbrakk>bsent \<le> length data; bsent = length data \<longrightarrow> n \<noteq> -1; length data - bsent + intr v w \<le> fuel\<rbrakk> \<Longrightarrow>
    \<exists>w'. send_data_loop fuel env fd data bsent n w = Inr (int (length data), w') \<and>
      sent v w' = sent v w @ drop bsent data \<and> got v w' = got v w \<and> peer v w' = peer v w"
proof (induction fuel arbitrary: bsent n w)
  case 0
  then show ?case by (simp add: send_data_loop_end io_apply)
next
  case (Suc fuel)
  show ?case
  proof (cases "bsent < length data")
    case False
    with Suc.prems show ?thesis by (simp add: send_data_loop_end io_apply)
  next
    case True
    obtain n' x where c: "cl_write env fd (drop bsent data) w = (n', x)" by fastforce
    from True have "drop bsent data \<noteq> []" by simp
    from assms this c show ?thesis
    proof (cases rule: write_law)
      case 1
      then show ?thesis
        using Suc.IH [of bsent "-1" x] Suc.prems True c by (fastforce simp: send_data_loop_step)
    next
      case 2
      have "drop bsent data = take (nat n') (drop bsent data) @ drop (bsent + nat n') data"
        by (metis add.commute append_take_drop_id drop_drop)
      then show ?thesis
        using Suc.IH [of "bsent + nat n'" n' x] Suc.prems True c 2 by (fastforce simp: send_data_loop_step)
    qed
  qed
qed

lemma recv_data_loop_end:
  "\<not> brecvd < length data \<Longrightarrow> recv_data_loop fuel env fd data brecvd n = io_return (if n = -1 then n else int brecvd, data)"
  by (simp add: recv_data_loop.simps)

lemma recv_data_loop_step:
  "brecvd < length data \<Longrightarrow> cl_read env fd (length data - brecvd) w = ((n', bs), w') \<Longrightarrow>
     recv_data_loop (Suc fuel) env fd data brecvd n w =
       (if n' = -1 \<or> n' = 0 then
          (if cl_errno env w' = EINTR then recv_data_loop fuel env fd data brecvd n' w'
           else Inr ((if n' = -1 then n' else int brecvd, data), w'))
        else recv_data_loop fuel env fd (take brecvd data @ bs @ drop (brecvd + length bs) data) (brecvd + nat n') n' w')"
  by (subst recv_data_loop.simps) (simp add: io_bind_call io_apply)

text \<open>
  The loop fills as much of the buffer as the other side has bytes for. An end of file is recognised unless
  \<^verbatim>\<open>errno\<close> happens to hold \<^verbatim>\<open>EINTR\<close>.
\<close>

lemma recv_data_loop_all:
  assumes "socket_laws env v k"
  shows "\<lbrakk>brecvd \<le> length data; brecvd = length data \<longrightarrow> n \<noteq> -1; length data - brecvd + intr v w \<le> fuel;
      rest = rest_of v w; m = min (length data - brecvd) (length rest);
      m < length data - brecvd \<longrightarrow> (\<forall>w. cl_errno env w \<noteq> EINTR)\<rbrakk> \<Longrightarrow>
    \<exists>w'. recv_data_loop fuel env fd data brecvd n w =
        Inr ((int (brecvd + m), take brecvd data @ take m rest @ drop (brecvd + m) data), w') \<and>
      sent v w' = sent v w \<and> peer v w' = peer v w \<and> got v w' = got v w @ take m rest"
proof (induction fuel arbitrary: brecvd n w data rest m)
  case 0
  then show ?case by (simp add: recv_data_loop_end io_apply)
next
  case (Suc fuel)
  show ?case
  proof (cases "brecvd < length data")
    case False
    with Suc.prems show ?thesis by (simp add: recv_data_loop_end io_apply)
  next
    case True
    obtain n' bs x where c: "cl_read env fd (length data - brecvd) w = ((n', bs), x)" by (metis surj_pair)
    from True have "0 < length data - brecvd" by simp
    from assms this c show ?thesis
    proof (cases rule: read_law)
      case 1
      then show ?thesis
        using Suc.IH [of brecvd data "-1" x rest m] Suc.prems True c by (fastforce simp: recv_data_loop_step rest_of_def)
    next
      case 2
      let ?k = "length bs" and ?data = "take brecvd data @ bs @ drop (brecvd + length bs) data"
      have l: "length ?data = length data" using 2(2) True by simp
      have bs: "bs = take ?k rest" unfolding Suc.prems(4) by (rule 2(7))
      then have kr: "?k \<le> length rest" by (metis length_take min.cobounded1)
      have rest': "rest_of v x = drop ?k rest"
        by (simp add: 2(4,5,6) Suc.prems(4) rest_of_def add.commute)
      show ?thesis
      proof (cases "?k = 0")
        case True
        then have "rest = []" using 2(8) Suc.prems(4) by simp
        then have "m = 0" and e: "cl_errno env x \<noteq> EINTR" using Suc.prems(5,6) \<open>brecvd < length data\<close> by simp_all
        then show ?thesis
          using c True 2(1,4,5,6) \<open>brecvd < length data\<close> by (simp add: recv_data_loop_step)
      next
        case False
        have m': "m - ?k = min (length data - (brecvd + ?k)) (length (drop ?k rest))" "?k \<le> m"
          using Suc.prems(5) kr 2(2) by simp_all
        have s: "take m rest = bs @ take (m - ?k) (drop ?k rest)"
          using m'(2) bs by (metis le_add_diff_inverse take_add)
        have a: "brecvd + ?k \<le> length data" "length data - (brecvd + ?k) + intr v x \<le> fuel"
          "m - ?k < length data - (brecvd + ?k) \<longrightarrow> m < length data - brecvd"
          using 2(2,3) False True Suc.prems(3) m'(2) by linarith+
        have "\<exists>w'. recv_data_loop fuel env fd ?data (brecvd + ?k) n' x =
            Inr ((int (brecvd + ?k + (m - ?k)), take (brecvd + ?k) ?data @ take (m - ?k) (drop ?k rest) @
              drop (brecvd + ?k + (m - ?k)) ?data), w') \<and>
          sent v w' = sent v x \<and> peer v w' = peer v x \<and> got v w' = got v x @ take (m - ?k) (drop ?k rest)"
          using Suc.IH [of "brecvd + ?k" ?data n' x "drop ?k rest" "m - ?k", unfolded l] a 2(1) rest' m'(1) Suc.prems(6) by simp
        moreover have "take (brecvd + ?k) ?data = take brecvd data @ bs" "brecvd + ?k + (m - ?k) = brecvd + m"
          using True m'(2) by simp_all
        moreover have "drop (brecvd + m) ?data = drop (brecvd + m) data" using True m'(2) by (simp add: add.commute)
        ultimately show ?thesis
          using c False True 2(1,4,5,6) by (auto simp: recv_data_loop_step s)
      qed
    qed
  qed
qed

section \<open>A message there and back\<close>

lemma length_store_u64 [simp]: "length (store_u64 big x) = 8"
  by (simp add: store_u64_def)

lemma send_data_all:
  assumes "socket_laws env v k" and "length data + k \<le> fuel"
  shows "\<exists>w'. send_data fuel env fd data w = Inr (int (length data), w') \<and> sent v w' = sent v w @ data \<and>
    got v w' = got v w \<and> peer v w' = peer v w"
  using send_data_loop_all [OF assms(1), of 0 data 0 w fuel fd] assms(2) law_bound [OF assms(1), of w]
  by (auto simp: send_data_def)

lemma recv_data_all:
  assumes "socket_laws env v k" and "length data + k \<le> fuel" and "rest_of v w = bs @ rest" and "length bs = length data"
  shows "\<exists>w'. recv_data fuel env fd data w = Inr ((int (length data), bs), w') \<and> sent v w' = sent v w \<and>
    peer v w' = peer v w \<and> got v w' = got v w @ bs"
  using recv_data_loop_all [OF assms(1), of 0 data 0 w fuel "bs @ rest" "length data" fd] assms(2-4)
    law_bound [OF assms(1), of w] by (auto simp: recv_data_def)

lemma recv_data_short:
  assumes "socket_laws env v k" and "length data + k \<le> fuel" and "\<forall>w. cl_errno env w \<noteq> EINTR"
    and "rest_of v w = part" and "length part < length data"
  shows "\<exists>w'. recv_data fuel env fd data w = Inr ((int (length part), part @ drop (length part) data), w')"
  using recv_data_loop_all [OF assms(1), of 0 data 0 w fuel part "length part" fd] assms(2-5)
    law_bound [OF assms(1), of w] by (auto simp: recv_data_def)

lemma send_message_all:
  assumes "socket_laws env v k" and "body \<noteq> []" and "8 + length body + k \<le> fuel" and "sent v w = []"
  shows "\<exists>w'. send_message fuel env fd (Some body) w = Inr (0, w') \<and> sent v w' = framed_message body \<and>
    got v w' = got v w \<and> peer v w' = peer v w"
proof -
  let ?h = "rev (le_bytes 8 (of_nat (length body) :: u64))"
  have i: "length ?h + k \<le> fuel" "length body + k \<le> fuel" using assms(3) by simp_all
  obtain x where x: "send_data fuel env fd ?h w = Inr (8, x)" "sent v x = ?h" "got v x = got v w" "peer v x = peer v w"
    using send_data_all [OF assms(1) i(1), of fd w] assms(4) by auto
  obtain w' where "send_data fuel env fd body x = Inr (int (length body), w')" "sent v w' = ?h @ body" "got v w' = got v x"
      "peer v w' = peer v x"
    using send_data_all [OF assms(1) i(2), of fd x] x(2) by auto
  then show ?thesis
    using x assms(2) by (simp add: send_message_def header_bytes framed_message_def Let_def io_bind_Inr io_apply)
qed

text \<open>The header has been read and the memory for the body is there: what is left is the body.\<close>

lemma recv_message_body:
  assumes "socket_laws env v k" and "8 + k \<le> fuel" and "0 < n" and "n < 2 ^ 64"
    and "rest_of v w = rev (le_bytes 8 (of_nat n :: u64)) @ rest" and "memory_available env"
  shows "\<exists>u. recv_message fuel env fd w = io_bind (recv_data fuel env fd (cl_junk env n u)) (\<lambda>(n2, data).
      if n2 < 0 then io_return (-1, None) else io_return (0, Some data)) u \<and>
    sent v u = sent v w \<and> peer v u = peer v w \<and> rest_of v u = rest"
proof -
  let ?h = "rev (le_bytes 8 (of_nat n :: u64))"
  obtain x where x: "recv_data fuel env fd (store_u64 (cl_big env) 0) w = Inr ((8, ?h), x)" "sent v x = sent v w"
      "peer v x = peer v w" "got v x = got v w @ ?h"
    using recv_data_all [OF assms(1), of "store_u64 (cl_big env) 0" fuel w ?h rest fd] assms(2,5) by auto
  obtain u where u: "xmalloc env n x = Inr (Some (), u)" "mallocs env x u"
    using gives_xmalloc [OF assms(6,3)] by (auto simp: gives_def)
  then have eq: "sent v u = sent v w" "got v u = got v w @ ?h" "peer v u = peer v w"
    using law_mallocs [OF assms(1) u(2)] x(2-4) by simp_all
  then have "rest_of v u = drop 8 (rest_of v w)" by (simp add: rest_of_def add.commute)
  then have "rest_of v u = rest" by (simp add: assms(5))
  then show ?thesis
    using x u eq assms(3,4) header_length_read [of n "cl_big env"]
    by (intro exI [of _ u]) (simp add: recv_message_def io_bind_Inr Let_def)
qed

lemma recv_message_all:
  assumes "socket_laws env v k" and "out \<noteq> []" and "length out < 2 ^ 64"
    and "8 + length out + k \<le> fuel" and "rest_of v w = framed_message out" and "memory_available env"
  shows "\<exists>w'. recv_message fuel env fd w = Inr ((0, Some out), w') \<and> sent v w' = sent v w \<and> peer v w' = peer v w"
proof -
  have b: "8 + k \<le> fuel" "0 < length out" "rest_of v w = rev (le_bytes 8 (of_nat (length out) :: u64)) @ out"
    using assms(2,4,5) by (simp_all add: framed_message_def)
  obtain u where u: "recv_message fuel env fd w = io_bind (recv_data fuel env fd (cl_junk env (length out) u)) (\<lambda>(n2, data).
      if n2 < 0 then io_return (-1, None) else io_return (0, Some data)) u"
    "sent v u = sent v w" "peer v u = peer v w" "rest_of v u = out"
    using recv_message_body [OF assms(1) b(1,2) assms(3) b(3) assms(6)] by metis
  show ?thesis
    using recv_data_all [OF assms(1), of "cl_junk env (length out) u" fuel u out "[]" fd] law_junk [OF assms(1)] assms(4) u
    by (auto simp: io_bind_def io_apply)
qed

lemma connect_listening:
  assumes "daemon_listens env v"
  shows "\<exists>ctx fd x. cl_context env = Some ctx \<and> connect_to_daemon env (api_socket ctx) w = Inr (fd, x) \<and> 0 \<le> fd \<and> sent v x = [] \<and> got v x = [] \<and>
    peer v x = peer v w"
proof -
  obtain ctx path where p: "cl_context env = Some ctx" "api_socket ctx = Some path" using assms by (auto simp: daemon_listens_def)
  obtain fd x where s: "cl_socket env w = (fd, x)" by fastforce
  obtain r y where c: "cl_connect env fd (take 107 path) x = (r, y)" by fastforce
  have "0 \<le> fd" "peer v x = peer v w" "0 \<le> r" "sent v y = []" "got v y = []" "peer v y = peer v x"
    using assms s c unfolding daemon_listens_def by (metis fst_conv snd_conv)+
  then show ?thesis by (simp add: connect_to_daemon_def p io_bind_call s c io_apply)
qed

lemma send_request_exchange:
  assumes "socket_laws env v k" and "daemon_listens env v" and "memory_available env" and "sendable type ap"
    and "type \<noteq> MT_BAD_RPC" and "body = pack (describe_request type ap)" and "body \<noteq> []"
    and "reply v (peer v w) (framed_message body) = framed_message out" and "out \<noteq> []" and "length out < 2 ^ 64"
    and "8 + length body + k \<le> fuel" and "8 + length out + k \<le> fuel"
  shows "\<exists>w'. send_request fuel env pack unpack type ap w = Inr (unpack_from_buffer unpack out response_uninit, w') \<and>
    peer v w' = moves v (peer v w) (framed_message body)"
proof -
  have "gives env (NORNS_SUCCESS, Some body) (pack_to_buffer env pack type ap)"
    using pack_available [OF assms(3,4), of pack] assms(6,7) by simp
  then obtain w1 where w1: "pack_to_buffer env pack type ap w = Inr ((NORNS_SUCCESS, Some body), w1)" "peer v w1 = peer v w"
    unfolding gives_def using law_mallocs [OF assms(1)] by metis
  obtain ctx fd w2 where w2: "connect_to_daemon env (api_socket ctx) w1 = Inr (fd, w2)" "0 \<le> fd" "sent v w2 = []"
      "got v w2 = []" "peer v w2 = peer v w" and ctx: "cl_context env = Some ctx"
    using connect_listening [OF assms(2), of w1] w1(2) by auto
  obtain w3 where w3: "send_message fuel env fd (Some body) w2 = Inr (0, w3)" "sent v w3 = framed_message body" "got v w3 = []"
      "peer v w3 = peer v w"
    using send_message_all [OF assms(1,7,11) w2(3), of fd] w2(4,5) by auto
  then have "rest_of v w3 = framed_message out" using assms(8) by (simp add: rest_of_def)
  from recv_message_all [OF assms(1,9,10,12) this assms(3), of fd]
  obtain w4 where w4: "recv_message fuel env fd w3 = Inr ((0, Some out), w4)" "sent v w4 = sent v w3" "peer v w4 = peer v w3"
    by auto
  obtain r w5 where w5: "cl_close env fd w4 = (r, w5)" by fastforce
  then have "peer v w5 = moves v (peer v w4) (sent v w4)" using assms(1) unfolding socket_laws_def by (metis snd_conv)
  then show ?thesis
    using w1 w2 w3 w4 w5 ctx assms(5) by (simp add: send_request_def get_context_def io_bind_Inr io_bind_call io_apply io_bind_def)
qed

text \<open>
  C9. One request of the client is one exchange: on a stream socket that delivers what is written, in
  pieces of any size and with a bounded number of interruptions, a well-formed request reaches the daemon as
  the framed message that describes it, and the client unpacks exactly the body of the framed answer. As many
  iterations as the longer message has bytes, plus eight, plus the interruptions, suffice for every loop.
\<close>

theorem client_exchange:
  assumes "socket_laws env v k" and "daemon_listens env v" and "memory_available env" and "sendable type ap"
    and "type \<noteq> MT_BAD_RPC" and "body = pack (describe_request type ap)" and "body \<noteq> []"
    and "reply v (peer v w) (framed_message body) = framed_message out" and "out \<noteq> []" and "length out < 2 ^ 64"
    and "8 + length body + k \<le> fuel" and "8 + length out + k \<le> fuel"
  shows "\<exists>w'. send_request fuel env pack unpack type ap w = Inr (unpack_from_buffer unpack out response_uninit, w') \<and>
    peer v w' = moves v (peer v w) (framed_message body)"
  using send_request_exchange [of env v k type ap body pack w out fuel unpack] assms by blast

text \<open>A sample world: the state of the other side and the bytes sent and received so far; every call transfers one byte.\<close>

definition slow_client ::
  "('p \<Rightarrow> byte list \<Rightarrow> byte list) \<Rightarrow> ('p \<Rightarrow> byte list \<Rightarrow> 'p) \<Rightarrow> ('p \<times> byte list \<times> byte list) client_env" where
  "slow_client rep mv = \<lparr>cl_sizeof = (\<lambda>_. 8), cl_malloc = (\<lambda>_ w. (True, w)), cl_junk = (\<lambda>n _. replicate n 170),
     cl_errno = (\<lambda>_. 0), cl_socket = (\<lambda>w. (3, w)), cl_connect = (\<lambda>_ _ (p, s, g). (0, p, [], [])),
     cl_write = (\<lambda>_ bs (p, s, g). (1, p, s @ take 1 bs, g)),
     cl_read = (\<lambda>_ _ (p, s, g). (let bs = take 1 (drop (length g) (rep p s)) in ((int (length bs), bs), p, s, g @ bs))),
     cl_close = (\<lambda>_ (p, s, g). (0, mv p s, s, g)), cl_nanosleep = (\<lambda>_ w. ((0, 0, 0), w)),
     cl_context = Some \<lparr>config_file = None, api_socket = Some ''/tmp/urd.socket''\<rparr>, cl_big = False\<rparr>"

definition slow_view ::
  "('p \<Rightarrow> byte list \<Rightarrow> byte list) \<Rightarrow> ('p \<Rightarrow> byte list \<Rightarrow> 'p) \<Rightarrow> ('p \<times> byte list \<times> byte list, 'p) socket_view" where
  "slow_view rep mv = \<lparr>sent = (\<lambda>(p, s, g). s), got = (\<lambda>(p, s, g). g), intr = (\<lambda>_. 0), peer = (\<lambda>(p, s, g). p),
     reply = rep, moves = mv\<rparr>"

lemma slow_client_laws:
  "socket_laws (slow_client rep mv) (slow_view rep mv) 0" "daemon_listens (slow_client rep mv) (slow_view rep mv)"
  "memory_available (slow_client rep mv)"
  by (auto simp: socket_laws_def daemon_listens_def memory_available_def slow_client_def slow_view_def rest_of_def
      Let_def min_def Suc_le_eq split: prod.splits)

theorem client_exchange_witness:
  "\<exists>w'. send_request 20 (slow_client (\<lambda>_ _. framed_message [1, 2]) (\<lambda>p _. Suc p)) (\<lambda>_. [3])
      (\<lambda>bs. Some (pack_response (make_response RS_ping UE_success))) MT_PING Args_none (0, [], []) =
    Inr (unpack_from_buffer (\<lambda>bs. Some (pack_response (make_response RS_ping UE_success))) [1, 2] response_uninit, w') \<and>
    peer (slow_view (\<lambda>_ _. framed_message [1, 2]) (\<lambda>p _. Suc p)) w' = 1"
  using client_exchange [OF slow_client_laws, of MT_PING Args_none "[3]" "\<lambda>_. [3]" "\<lambda>_ _. framed_message [1, 2]"
      "\<lambda>p _. Suc p" "(0, [], [])" "[1, 2]" 20]
  by (simp add: slow_view_def)

section \<open>When the other side breaks off\<close>

text \<open>
  A truncated answer is taken for a complete one. When the daemon closes the connection after the header
  and fewer bytes than it announced, the client reports success, and hands to the unpacker a buffer of the
  announced length whose end is whatever the fresh memory held.
\<close>

theorem short_answer_accepted:
  assumes "socket_laws env v k" and "\<forall>w. cl_errno env w \<noteq> EINTR" and "memory_available env"
    and "rest_of v w = rev (le_bytes 8 (of_nat n :: u64)) @ part" and "length part < n" and "n < 2 ^ 64"
    and "8 + n + k \<le> fuel"
  shows "\<exists>tail w'. recv_message fuel env fd w = Inr ((0, Some (part @ tail)), w') \<and> length (part @ tail) = n"
proof -
  have i: "8 + k \<le> fuel" "0 < n" using assms(5,7) by simp_all
  obtain u where u: "recv_message fuel env fd w = io_bind (recv_data fuel env fd (cl_junk env n u)) (\<lambda>(n2, data).
      if n2 < 0 then io_return (-1, None) else io_return (0, Some data)) u" "rest_of v u = part"
    using recv_message_body [OF assms(1) i assms(6,4,3)] by metis
  have l: "length (cl_junk env n u) = n" using law_junk [OF assms(1)] .
  then obtain w' where "recv_data fuel env fd (cl_junk env n u) u =
      Inr ((int (length part), part @ drop (length part) (cl_junk env n u)), w')"
    using recv_data_short [OF assms(1) _ assms(2) u(2), of "cl_junk env n u" fuel fd] assms(5,7) by auto
  then show ?thesis using u(1) l assms(5) by (auto simp: io_bind_def io_apply)
qed

theorem short_answer_accepted_witness:
  "\<exists>tail w'. recv_message 20 (slow_client (\<lambda>_ _. rev (le_bytes 8 (of_nat 5 :: u64)) @ [7]) (\<lambda>p _. p)) 3 ((), [], []) =
      Inr ((0, Some ([7] @ tail)), w') \<and> length ([7] @ tail :: byte list) = 5"
  by (rule short_answer_accepted [OF slow_client_laws(1)])
     (simp_all add: slow_client_laws(3) rest_of_def slow_view_def, simp add: slow_client_def)

text \<open>
  An interrupted process can hang on a closed connection: \<^verbatim>\<open>read\<close> returns 0 at the end of the stream and leaves
  \<^verbatim>\<open>errno\<close> alone; when an earlier call left \<^verbatim>\<open>EINTR\<close> there, \<^verbatim>\<open>recv_data\<close> reads again, for ever.
\<close>

theorem recv_data_spins:
  assumes "\<And>n v. P v \<Longrightarrow> \<exists>v'. cl_read env fd n v = ((0, []), v') \<and> P v'" and "\<And>v. P v \<Longrightarrow> cl_errno env v = EINTR"
    and "P w" and "data \<noteq> []"
  shows "recv_data fuel env fd data w = Inl Diverges"
proof -
  have "recv_data_loop fuel env fd data 0 0 v = Inl Diverges" if "P v" for v
    using that
  proof (induction fuel arbitrary: v)
    case 0
    then show ?case using assms(4) by (simp add: recv_data_loop.simps io_lift_def)
  next
    case (Suc fuel)
    then obtain v' where v': "cl_read env fd (length data - 0) v = ((0, []), v')" "P v'" using assms(1) by blast
    then show ?case using Suc.IH [OF v'(2)] assms(2,4) by (simp add: recv_data_loop_step [OF _ v'(1)])
  qed
  then show ?thesis using assms(3) by (simp add: recv_data_def)
qed

theorem recv_data_spins_witness:
  "recv_data 1000 (calm_client\<lparr>cl_errno := \<lambda>_. EINTR\<rparr>) 3 [0] () = Inl Diverges"
  by (rule recv_data_spins [where P = "\<lambda>_. True"]) (simp_all add: calm_client_def)

end
