(* ===== verification/Client_Api.thy ===== *)
theory Client_Api
  imports Client_Exchange
begin

text \<open>
  The public interfaces: \<^verbatim>\<open>lib/libnorns.c\<close> for user processes and \<^verbatim>\<open>lib/libnornsctl.c\<close> for the administrator. The
  two libraries are linked separately and repeat the functions on tasks; both copies are here.
\<close>

section \<open>Tasks\<close>

definition resource_zero :: norns_resource where
  "resource_zero = \<lparr>r_flags = 0, r_union = RU_zero\<rparr>"

definition stat_zero :: norns_stat where
  "stat_zero = \<lparr>c_status = 0, c_task_error = 0, c_sys_errno = 0, c_pending = 0, c_total = 0\<rparr>"

definition iotask_zero :: norns_iotask where
  "iotask_zero = \<lparr>t_id = 0, t_op = 0, t_src = resource_zero, t_dst = resource_zero, t_status = stat_zero\<rparr>"

text \<open>What \<^verbatim>\<open>task\<close> points to afterwards; nothing is written through a null pointer.\<close>

definition norns_iotask_init ::
  "norns_iotask option \<Rightarrow> u32 \<Rightarrow> norns_resource option \<Rightarrow> norns_resource option \<Rightarrow> norns_iotask option" where
  "norns_iotask_init task optype src dst =
     (case task of
        None \<Rightarrow> None
      | Some _ \<Rightarrow>
          (case src of
             None \<Rightarrow> Some iotask_zero
           | Some s \<Rightarrow>
               let task1 = iotask_zero\<lparr>t_id := 0, t_op := optype, t_src := s\<rparr>
               in (case dst of
                     Some d \<Rightarrow> Some (task1\<lparr>t_dst := d\<rparr>)
                   | None \<Rightarrow> Some (task1\<lparr>t_dst := resource_zero\<lparr>r_flags := NORNS_NULL_RESOURCE\<rparr>\<rparr>))))"

text \<open>The destination is a variable argument that is read unless the operation is a removal.\<close>

definition NORNS_IOTASK :: "norns_iotask \<Rightarrow> u32 \<Rightarrow> norns_resource \<Rightarrow> norns_resource option \<Rightarrow> norns_iotask outcome" where
  "NORNS_IOTASK uninit optype src va =
     (if optype = NORNS_IOTASK_REMOVE then deref (norns_iotask_init (Some uninit) optype (Some src) None)
      else obind (deref va) (\<lambda>dst. deref (norns_iotask_init (Some uninit) optype (Some src) (Some dst))))"

definition norns_submit :: "('w, 'e) client_scheme \<Rightarrow> norns_iotask option \<Rightarrow> ('w, int \<times> norns_iotask option) io" where
  "norns_submit env task =
     (case task of
        None \<Rightarrow> io_return (NORNS_EBADARGS, None)
      | Some t \<Rightarrow> io_bind (send_submit_request env t) (\<lambda>(rv, t'). io_return (rv, Some t')))"

definition finished_code :: "int \<Rightarrow> bool" where
  "finished_code s \<longleftrightarrow> s = NORNS_EFINISHED \<or> s = NORNS_EFINISHEDWERROR"

definition norns_error ::
  "('w, 'e) client_scheme \<Rightarrow> norns_iotask option \<Rightarrow> norns_stat option \<Rightarrow> ('w, int \<times> norns_stat option) io" where
  "norns_error env task pstats =
     (case (task, pstats) of
        (Some t, Some st) \<Rightarrow>
          if finished_code (c_status (t_status t)) then io_return (NORNS_SUCCESS, Some (t_status t))
          else io_bind (send_status_request env t st) (\<lambda>(rv, st'). io_return (rv, Some st'))
      | _ \<Rightarrow> io_return (NORNS_EBADARGS, pstats))"

abbreviation LIBNORNS_DEFAULT_TIMEOUT :: "int \<times> int" where "LIBNORNS_DEFAULT_TIMEOUT \<equiv> (0, 250000)"
abbreviation LIBNORNSCTL_DEFAULT_TIMEOUT :: "int \<times> int" where "LIBNORNSCTL_DEFAULT_TIMEOUT \<equiv> (0, 250000)"

text \<open>The loop of \<^verbatim>\<open>norns_wait\<close>, with the time to sleep next in \<open>requested\<close>.\<close>

fun wait_loop ::
  "nat \<Rightarrow> ('w, 'e) client_scheme \<Rightarrow> int \<times> int \<Rightarrow> norns_iotask \<Rightarrow> (int \<times> int) option \<Rightarrow> int \<times> int \<Rightarrow> ('w, int \<times> norns_iotask) io" where
  "wait_loop 0 env deflt task timeout requested = io_lift (Inl Diverges)"
| "wait_loop (Suc fuel) env deflt task timeout requested =
     io_bind (send_status_request env task (cl_stack_stat env)) (\<lambda>(rv, st).
       if rv \<noteq> NORNS_SUCCESS then io_return (rv, task)
       else if finished_code (c_status st) then io_return (NORNS_SUCCESS, task\<lparr>t_status := st\<rparr>)
       else io_bind (io_call (cl_nanosleep env requested)) (\<lambda>(r, remaining) w.
         if r \<noteq> 0 \<and> cl_errno env w \<noteq> EINTR
         then io_return (if cl_errno env w = EINVAL then NORNS_EBADARGS else NORNS_ESNAFU, task) w
         else
           let requested' = (if r \<noteq> 0 then (if timeout = None then deflt else remaining) else requested)
           in if timeout = None then wait_loop fuel env deflt task timeout requested' w
              else io_return (NORNS_ETIMEOUT, task) w))"

definition norns_wait ::
  "('w, 'e) client_scheme \<Rightarrow> norns_iotask option \<Rightarrow> (int \<times> int) option \<Rightarrow> ('w, int \<times> norns_iotask option) io" where
  "norns_wait env task timeout =
     (case task of
        None \<Rightarrow> io_return (NORNS_EBADARGS, None)
      | Some t \<Rightarrow>
          io_bind (wait_loop (cl_fuel env) env LIBNORNS_DEFAULT_TIMEOUT t timeout
                     (case timeout of None \<Rightarrow> LIBNORNS_DEFAULT_TIMEOUT | Some d \<Rightarrow> d))
            (\<lambda>(rv, t'). io_return (rv, Some t')))"

section \<open>The control interface\<close>

text \<open>\<open>args\<close> says whether the pointer to the arguments is null.\<close>

definition nornsctl_send_command :: "('w, 'e) client_scheme \<Rightarrow> u32 \<Rightarrow> unit option \<Rightarrow> ('w, int) io" where
  "nornsctl_send_command env command args =
     (if args \<noteq> None then io_return NORNS_EBADARGS else send_control_command_request env command)"

definition nornsctl_status :: "('w, 'e) client_scheme \<Rightarrow> nornsctl_stat option \<Rightarrow> ('w, int \<times> nornsctl_stat option) io" where
  "nornsctl_status env pstats =
     (case pstats of
        None \<Rightarrow> io_return (NORNS_EBADARGS, None)
      | Some st \<Rightarrow> io_bind (send_control_status_request env st) (\<lambda>(rv, st'). io_return (rv, Some st')))"

definition validate_namespace :: "nornsctl_backend option \<Rightarrow> bool" where
  "validate_namespace backend =
     (case backend of
        None \<Rightarrow> False
      | Some b \<Rightarrow>
          (case b_mount b of None \<Rightarrow> False | Some m \<Rightarrow> strncmp m [] 1 \<noteq> 0 \<and> b_capacity b > 0))"

definition validate_job :: "nornsctl_job option \<Rightarrow> bool" where
  "validate_job job =
     (case job of
        None \<Rightarrow> False
      | Some j \<Rightarrow> j_hosts j \<noteq> None \<and> j_nhosts j \<noteq> 0 \<and> j_limits j \<noteq> None \<and> j_nlimits j \<noteq> 0)"

definition nornsctl_register_job :: "('w, 'e) client_scheme \<Rightarrow> u32 \<Rightarrow> nornsctl_job option \<Rightarrow> ('w, int) io" where
  "nornsctl_register_job env jobid job =
     (if \<not> validate_job job then io_return NORNS_EBADARGS else send_job_request env MT_JOB_REGISTER jobid job)"

definition nornsctl_update_job :: "('w, 'e) client_scheme \<Rightarrow> u32 \<Rightarrow> nornsctl_job option \<Rightarrow> ('w, int) io" where
  "nornsctl_update_job env jobid job =
     (if \<not> validate_job job then io_return NORNS_EBADARGS else send_job_request env MT_JOB_UPDATE jobid job)"

definition nornsctl_unregister_job :: "('w, 'e) client_scheme \<Rightarrow> u32 \<Rightarrow> ('w, int) io" where
  "nornsctl_unregister_job env jobid = send_job_request env MT_JOB_UNREGISTER jobid None"

definition nornsctl_add_process :: "('w, 'e) client_scheme \<Rightarrow> u32 \<Rightarrow> u32 \<Rightarrow> u32 \<Rightarrow> int \<Rightarrow> ('w, int) io" where
  "nornsctl_add_process env jobid uid gid pid = send_process_request env MT_PROCESS_ADD jobid uid gid pid"

definition nornsctl_remove_process :: "('w, 'e) client_scheme \<Rightarrow> u32 \<Rightarrow> u32 \<Rightarrow> u32 \<Rightarrow> int \<Rightarrow> ('w, int) io" where
  "nornsctl_remove_process env jobid uid gid pid = send_process_request env MT_PROCESS_REMOVE jobid uid gid pid"

definition nornsctl_register_namespace ::
  "('w, 'e) client_scheme \<Rightarrow> string option \<Rightarrow> nornsctl_backend option \<Rightarrow> ('w, int) io" where
  "nornsctl_register_namespace env nsid backend =
     (if (case nsid of None \<Rightarrow> True | Some n \<Rightarrow> strncmp n [] 1 = 0) \<or> \<not> validate_namespace backend
      then io_return NORNS_EBADARGS
      else send_namespace_request env MT_NAMESPACE_REGISTER nsid backend)"

text \<open>The statements after the first return are never reached.\<close>

definition nornsctl_update_namespace ::
  "('w, 'e) client_scheme \<Rightarrow> string option \<Rightarrow> nornsctl_backend option \<Rightarrow> ('w, int) io" where
  "nornsctl_update_namespace env nsid backend = io_return NORNS_ENOTSUPPORTED"

definition nornsctl_unregister_namespace :: "('w, 'e) client_scheme \<Rightarrow> string option \<Rightarrow> ('w, int) io" where
  "nornsctl_unregister_namespace env nsid =
     (if nsid = None then io_return NORNS_EBADARGS else send_namespace_request env MT_NAMESPACE_UNREGISTER nsid None)"

definition nornsctl_backend_init ::
  "nornsctl_backend option \<Rightarrow> u32 \<Rightarrow> bool \<Rightarrow> string option \<Rightarrow> u32 \<Rightarrow> nornsctl_backend option" where
  "nornsctl_backend_init backend flags track mount_point capacity =
     map_option (\<lambda>b. b\<lparr>b_type := sint flags, b_track := track, b_mount := mount_point, b_capacity := capacity\<rparr>) backend"

definition NORNSCTL_BACKEND :: "nornsctl_backend \<Rightarrow> u32 \<Rightarrow> bool \<Rightarrow> string option \<Rightarrow> u32 \<Rightarrow> nornsctl_backend outcome" where
  "NORNSCTL_BACKEND uninit flags track mount_point capacity =
     deref (nornsctl_backend_init (Some uninit) flags track mount_point capacity)"

definition nornsctl_job_limit_init :: "nornsctl_job_limit option \<Rightarrow> string option \<Rightarrow> u32 \<Rightarrow> nornsctl_job_limit option" where
  "nornsctl_job_limit_init limit nsid quota =
     map_option (\<lambda>l. if nsid = None then \<lparr>l_nsid = None, l_quota = 0\<rparr> else l\<lparr>l_nsid := nsid, l_quota := quota\<rparr>) limit"

definition NORNSCTL_JOB_LIMIT :: "nornsctl_job_limit \<Rightarrow> string option \<Rightarrow> u32 \<Rightarrow> nornsctl_job_limit outcome" where
  "NORNSCTL_JOB_LIMIT uninit nsid quota = deref (nornsctl_job_limit_init (Some uninit) nsid quota)"

definition nornsctl_job_init ::
  "nornsctl_job option \<Rightarrow> string option list option \<Rightarrow> nat \<Rightarrow> nornsctl_job_limit option list option \<Rightarrow> nat \<Rightarrow> nornsctl_job option" where
  "nornsctl_job_init job hosts nhosts limits nlimits =
     map_option (\<lambda>j.
       if hosts = None \<or> nhosts = 0 \<or> limits = None \<or> nlimits = 0
       then \<lparr>j_hosts = None, j_nhosts = 0, j_limits = None, j_nlimits = 0\<rparr>
       else j\<lparr>j_hosts := hosts, j_nhosts := nhosts, j_limits := limits, j_nlimits := nlimits\<rparr>) job"

definition NORNSCTL_JOB ::
  "nornsctl_job \<Rightarrow> string option list option \<Rightarrow> nat \<Rightarrow> nornsctl_job_limit option list option \<Rightarrow> nat \<Rightarrow> nornsctl_job outcome" where
  "NORNSCTL_JOB uninit hosts nhosts limits nlimits = deref (nornsctl_job_init (Some uninit) hosts nhosts limits nlimits)"

section \<open>Tasks of the control library\<close>

definition nornsctl_iotask_init ::
  "norns_iotask option \<Rightarrow> u32 \<Rightarrow> norns_resource option \<Rightarrow> norns_resource option \<Rightarrow> norns_iotask option" where
  "nornsctl_iotask_init task optype src dst =
     (case task of
        None \<Rightarrow> None
      | Some _ \<Rightarrow>
          (case src of
             None \<Rightarrow> Some iotask_zero
           | Some s \<Rightarrow>
               let task1 = iotask_zero\<lparr>t_id := 0, t_op := optype, t_src := s\<rparr>
               in (case dst of
                     Some d \<Rightarrow> Some (task1\<lparr>t_dst := d\<rparr>)
                   | None \<Rightarrow> Some (task1\<lparr>t_dst := resource_zero\<lparr>r_flags := NORNS_NULL_RESOURCE\<rparr>\<rparr>))))"

definition NORNSCTL_IOTASK :: "norns_iotask \<Rightarrow> u32 \<Rightarrow> norns_resource \<Rightarrow> norns_resource option \<Rightarrow> norns_iotask outcome" where
  "NORNSCTL_IOTASK uninit optype src va =
     (if optype = NORNS_IOTASK_REMOVE then deref (nornsctl_iotask_init (Some uninit) optype (Some src) None)
      else obind (deref va) (\<lambda>dst. deref (nornsctl_iotask_init (Some uninit) optype (Some src) (Some dst))))"

definition nornsctl_submit :: "('w, 'e) client_scheme \<Rightarrow> norns_iotask option \<Rightarrow> ('w, int \<times> norns_iotask option) io" where
  "nornsctl_submit env task =
     (case task of
        None \<Rightarrow> io_return (NORNS_EBADARGS, None)
      | Some t \<Rightarrow> io_bind (send_submit_request env t) (\<lambda>(rv, t'). io_return (rv, Some t')))"

definition nornsctl_error ::
  "('w, 'e) client_scheme \<Rightarrow> norns_iotask option \<Rightarrow> norns_stat option \<Rightarrow> ('w, int \<times> norns_stat option) io" where
  "nornsctl_error env task pstats =
     (case (task, pstats) of
        (Some t, Some st) \<Rightarrow>
          if finished_code (c_status (t_status t)) then io_return (NORNS_SUCCESS, Some (t_status t))
          else io_bind (send_status_request env t st) (\<lambda>(rv, st'). io_return (rv, Some st'))
      | _ \<Rightarrow> io_return (NORNS_EBADARGS, pstats))"

definition nornsctl_wait ::
  "('w, 'e) client_scheme \<Rightarrow> norns_iotask option \<Rightarrow> (int \<times> int) option \<Rightarrow> ('w, int \<times> norns_iotask option) io" where
  "nornsctl_wait env task timeout =
     (case task of
        None \<Rightarrow> io_return (NORNS_EBADARGS, None)
      | Some t \<Rightarrow>
          io_bind (wait_loop (cl_fuel env) env LIBNORNSCTL_DEFAULT_TIMEOUT t timeout
                     (case timeout of None \<Rightarrow> LIBNORNSCTL_DEFAULT_TIMEOUT | Some d \<Rightarrow> d))
            (\<lambda>(rv, t'). io_return (rv, Some t')))"

section \<open>Waiting\<close>

text \<open>
  \<open>polled env t n w v\<close>: starting in \<open>w\<close>, the client has asked \<open>n\<close> times, was told each time that the task is not
  finished, slept for the default time after each answer (perhaps interrupted), and is now in \<open>v\<close>.
\<close>

inductive polled :: "('w, 'e) client_scheme \<Rightarrow> norns_iotask \<Rightarrow> nat \<Rightarrow> 'w \<Rightarrow> 'w \<Rightarrow> bool"
  for env :: "('w, 'e) client_scheme" and t :: norns_iotask
where
  polled_none: "polled env t 0 w w"
| polled_more: "\<lbrakk>send_status_request env t (cl_stack_stat env) w = Inr ((NORNS_SUCCESS, st), w1);
    \<not> finished_code (c_status st); cl_nanosleep env LIBNORNS_DEFAULT_TIMEOUT w1 = ((r, remaining), w2);
    r = 0 \<or> cl_errno env w2 = EINTR; polled env t n w2 v\<rbrakk> \<Longrightarrow> polled env t (Suc n) w v"

lemma wait_loop_polled:
  assumes "polled env t n w v" and "send_status_request env t (cl_stack_stat env) v = Inr ((NORNS_SUCCESS, st), v')"
    and "finished_code (c_status st)"
  shows "n < fuel \<Longrightarrow> wait_loop fuel env LIBNORNS_DEFAULT_TIMEOUT t None LIBNORNS_DEFAULT_TIMEOUT w =
    Inr ((NORNS_SUCCESS, t\<lparr>t_status := st\<rparr>), v')"
  using assms(1,2)
proof (induction arbitrary: fuel rule: polled.induct)
  case (polled_none w)
  then obtain f where "fuel = Suc f" by (cases fuel) auto
  with polled_none assms(3) show ?case by (simp add: io_bind_Inr io_apply)
next
  case (polled_more w st' w1 r remaining w2 n v)
  then obtain f where f: "fuel = Suc f" "n < f" by (cases fuel) auto
  have "wait_loop f env LIBNORNS_DEFAULT_TIMEOUT t None LIBNORNS_DEFAULT_TIMEOUT w2 =
      Inr ((NORNS_SUCCESS, t\<lparr>t_status := st\<rparr>), v')"
    using polled_more.IH [OF f(2) polled_more.prems(2)] .
  with polled_more.hyps f(1) show ?case by (auto simp: io_bind_Inr io_bind_call Let_def)
qed

text \<open>
  C16. Waiting without a timeout ends when the task does: if the daemon reports the task unfinished \<open>n\<close> times and
  finished the next time, then \<open>n + 1\<close> iterations suffice, \<^verbatim>\<open>norns_wait\<close> returns success, and it keeps the reported
  status in the task; a later \<^verbatim>\<open>norns_error\<close> returns that same status and does not contact the daemon, which has by
  then forgotten the task.
\<close>

theorem wait_until_finished:
  assumes "polled env t n w v" and "send_status_request env t (cl_stack_stat env) v = Inr ((NORNS_SUCCESS, st), v')"
    and "finished_code (c_status st)" and "n < cl_fuel env"
  shows "norns_wait env (Some t) None w = Inr ((NORNS_SUCCESS, Some (t\<lparr>t_status := st\<rparr>)), v') \<and>
    norns_error env (Some (t\<lparr>t_status := st\<rparr>)) (Some any) x = Inr ((NORNS_SUCCESS, Some st), x)"
  using wait_loop_polled [OF assms] assms(3)
  by (simp add: norns_wait_def norns_error_def io_bind_Inr io_apply)

text \<open>
  With a timeout the status is asked for once: \<^verbatim>\<open>norns_wait\<close> succeeds exactly when the task was already finished
  at the call; otherwise it sleeps once, for the whole timeout or until a signal arrives, and reports a timeout
  without asking again, even when the task has finished in the meantime.
\<close>

theorem wait_timeout_asks_once:
  assumes "0 < cl_fuel env"
    and "send_status_request env t (cl_stack_stat env) w = Inr ((NORNS_SUCCESS, st), w1)"
    and "cl_nanosleep env d w1 = ((r, remaining), w2)"
  shows "norns_wait env (Some t) (Some d) w =
    (if finished_code (c_status st) then Inr ((NORNS_SUCCESS, Some (t\<lparr>t_status := st\<rparr>)), w1)
     else if r \<noteq> 0 \<and> cl_errno env w2 \<noteq> EINTR
       then Inr ((if cl_errno env w2 = EINVAL then NORNS_EBADARGS else NORNS_ESNAFU, Some t), w2)
     else Inr ((NORNS_ETIMEOUT, Some t), w2))"
proof -
  obtain f where "cl_fuel env = Suc f" using assms(1) gr0_conv_Suc by blast
  with assms(2,3) show ?thesis
    by (auto simp: norns_wait_def io_bind_Inr io_bind_call io_apply Let_def)
qed

text \<open>
  Nothing leaves the process for a request the library refuses: a null task, a task that was already
  submitted or has no valid operation (among them one initialised without a source), a job or namespace that
  does not validate, and every update of a namespace are answered at once and leave the world as it is.
\<close>

theorem refused_locally:
  "norns_submit env None w = Inr ((NORNS_EBADARGS, None), w) \<and>
   (t_id t \<noteq> 0 \<longrightarrow> norns_submit env (Some t) w = Inr ((NORNS_EBADARGS, Some t), w)) \<and>
   norns_submit env (norns_iotask_init (Some t) optype None dst) w = Inr ((NORNS_EBADARGS, Some iotask_zero), w) \<and>
   norns_error env (Some (t\<lparr>t_id := 0, t_status := stat_zero\<rparr>)) (Some st) w = Inr ((NORNS_EBADARGS, Some st), w) \<and>
   (hosts = None \<or> nhosts = 0 \<or> limits = None \<or> nlimits = 0 \<longrightarrow>
      obind (NORNSCTL_JOB j hosts nhosts limits nlimits) (\<lambda>job. nornsctl_register_job env jobid (Some job) w) =
        Inr (NORNS_EBADARGS, w)) \<and>
   nornsctl_register_namespace env (Some []) b w = Inr (NORNS_EBADARGS, w) \<and>
   nornsctl_update_namespace env nsid b w = Inr (NORNS_ENOTSUPPORTED, w)"
  by (auto simp: norns_submit_def send_submit_request_def norns_iotask_init_def iotask_zero_def norns_error_def
      send_status_request_def stat_zero_def finished_code_def NORNSCTL_JOB_def nornsctl_job_init_def
      nornsctl_register_job_def validate_job_def nornsctl_register_namespace_def nornsctl_update_namespace_def
      io_bind_def io_apply)

end
