(* ===== verification/Client_Daemon.thy ===== *)
theory Client_Daemon
  imports Client_Api
begin

text \<open>
  The client libraries and the daemon together: a call of the public API, through the socket, the session and
  the handler of the daemon, and back. The socket and the two protocol buffers libraries are parameters with
  their laws.
\<close>

section \<open>The protocol buffers library\<close>

text \<open>
  What the parser of the daemon makes of a message the client packed: a null pointer in the place of a required
  string is packed as the empty string, an optional string that is null is absent, and the limits of a job are
  dropped here, as no code of the daemon reads them. A null pointer among the host names cannot be packed.
\<close>

definition required_string :: "string option \<Rightarrow> string" where
  "required_string s = (case s of None \<Rightarrow> [] | Some str \<Rightarrow> str)"

definition wire_path :: "path_pb \<Rightarrow> posix_path_msg" where
  "wire_path p = \<lparr>pp_nsid = required_string (pbp_nsid p), pp_hostname = pbp_hostname p,
     pp_datapath = required_string (pbp_datapath p)\<rparr>"

definition wire_resource :: "resource_pb \<Rightarrow> resource_msg" where
  "wire_resource r = \<lparr>rm_type = pbr_type r, rm_buffer = pbr_buffer r, rm_path = map_option wire_path (pbr_path r)\<rparr>"

definition wire_task :: "task_pb \<Rightarrow> task_msg" where
  "wire_task t = \<lparr>tk_taskid = Some (pbt_taskid t), tk_optype = pbt_optype t,
     tk_source = map_option wire_resource (pbt_source t), tk_destination = map_option wire_resource (pbt_destination t)\<rparr>"

definition wire_nspace :: "nspace_pb \<Rightarrow> nspace_msg" where
  "wire_nspace n = \<lparr>ns_nsid = required_string (pbn_nsid n),
     ns_backend = map_option (\<lambda>b. \<lparr>bk_type = pbb_type b, bk_track = pbb_track b, bk_mount = required_string (pbb_mount b),
       bk_capacity = pbb_capacity b\<rparr>) (pbn_backend n)\<rparr>"

definition wire :: "request_pb \<Rightarrow> rpc_request" where
  "wire m = \<lparr>rq_type = pb_type m, rq_task = map_option wire_task (pb_task m), rq_jobid = pb_jobid m,
     rq_job = map_option (\<lambda>j. map required_string (pbj_hosts j)) (pb_job m), rq_process = pb_process m,
     rq_nspace = map_option wire_nspace (pb_nspace m), rq_command = pb_command m\<rparr>"

definition packable :: "request_pb \<Rightarrow> bool" where
  "packable m \<longleftrightarrow> (\<forall>j. pb_job m = Some j \<longrightarrow> list_all (\<lambda>h. h \<noteq> None) (pbj_hosts j))"

text \<open>
  The library carries a request of the client to the daemon, and a response back. A message also has to fit: the
  loops of the client need the iterations for its bytes, with \<open>k\<close> interruptions, and its length has to fit the header.
\<close>

definition fits :: "('w, 'e) client_scheme \<Rightarrow> nat \<Rightarrow> byte list \<Rightarrow> bool" where
  "fits env k bs \<longleftrightarrow> bs \<noteq> [] \<and> 8 + length bs + k \<le> cl_fuel env \<and> length bs < 2 ^ 64"

definition carries_request :: "('w, 'e) client_scheme \<Rightarrow> nat \<Rightarrow> (byte list \<Rightarrow> rpc_request option) \<Rightarrow> request_pb \<Rightarrow> bool" where
  "carries_request env k parse m \<longleftrightarrow>
     packable m \<and> fits env k (cl_pack env m) \<and> parse (cl_pack env m) = Some (wire m)"

definition carries_response ::
  "('w, 'e) client_scheme \<Rightarrow> nat \<Rightarrow> (rpc_response \<Rightarrow> byte list option) \<Rightarrow> response \<Rightarrow> bool" where
  "carries_response env k ser r \<longleftrightarrow>
     (\<exists>out. ser (pack_response r) = Some out \<and> fits env k out \<and> cl_unpack env out = Some (pack_response r))"

section \<open>Every answer fits its request\<close>

fun reply_type :: "request \<Rightarrow> response_type" where
  "reply_type (Iotask_create_request _ _ _) = RS_iotask_create"
| "reply_type (Iotask_status_request _) = RS_iotask_status"
| "reply_type Global_status_request = RS_global_status"
| "reply_type (Command_request _) = RS_command"
| "reply_type Ping_request = RS_ping"
| "reply_type (Job_register_request _ _) = RS_job_register"
| "reply_type (Job_update_request _ _) = RS_job_update"
| "reply_type (Job_unregister_request _) = RS_job_unregister"
| "reply_type (Process_register_request _ _ _ _) = RS_process_register"
| "reply_type (Process_unregister_request _ _ _ _) = RS_process_unregister"
| "reply_type (Backend_register_request _ _ _ _ _) = RS_backend_register"
| "reply_type (Backend_update_request _ _ _ _ _) = RS_backend_update"
| "reply_type (Backend_unregister_request _) = RS_backend_unregister"
| "reply_type Bad_request = RS_bad_request"

definition complete_response :: "response \<Rightarrow> bool" where
  "complete_response r \<longleftrightarrow> (rs_type r = RS_iotask_create \<longrightarrow> rs_taskid r \<noteq> None) \<and>
     (rs_type r = RS_iotask_status \<longrightarrow> rs_stats r \<noteq> None) \<and> (rs_type r = RS_global_status \<longrightarrow> rs_gstats r \<noteq> None)"

lemma iotask_create_complete:
  "returns_only (\<lambda>(resp, u'). rs_type resp = RS_iotask_create \<and> complete_response resp)
     (iotask_create_handler env type s d creds u w)"
  unfolding iotask_create_handler_def
  by (intro post_intros) (auto simp: iotask_create_response_def make_response_def complete_response_def)

lemma serve_complete:
  assumes "serve_request env req creds u w = Inr (resp, u')"
  shows "rs_type resp = reply_type req \<and> complete_response resp"
proof (cases req)
  case (Iotask_create_request type s d)
  then show ?thesis
    using assms returns_onlyD [OF iotask_create_complete, of env type s d creds u w "(resp, u')"]
    by (simp add: serve_request_eq)
next
  case (Command_request cmd)
  then show ?thesis
    using assms by (cases cmd) (auto simp: serve_request_eq command_handler_def make_response_def complete_response_def
        Let_def outcome_simps split: if_splits)
qed (use assms in \<open>auto simp: serve_request_eq iotask_status_handler_def global_status_handler_def ping_handler_def
  job_register_handler_def job_update_handler_def job_remove_handler_def process_add_handler_def
  process_remove_handler_def job_handler_def namespace_register_handler_def namespace_remove_handler_def
  unknown_request_handler_def make_response_def complete_response_def Let_def outcome_simps
  split: option.splits if_splits prod.splits\<close>)

section \<open>A request and its handler\<close>

text \<open>
  What the daemon, in a given state, answers to a sequence of bytes on a connection, and the state it is in
  afterwards. The second component is the world outside its memory, which its handlers read.
\<close>

definition daemon_reply ::
  "('v, 'f) urd_env_scheme \<Rightarrow> bool \<Rightarrow> (byte list \<Rightarrow> rpc_request option) \<Rightarrow> (rpc_response \<Rightarrow> byte list option) \<Rightarrow>
   credentials option \<Rightarrow> 'v urd \<times> 'v \<Rightarrow> byte list \<Rightarrow> byte list" where
  "daemon_reply denv big parse ser creds = (\<lambda>(u, dw) input.
     case do_read_request denv big (\<lambda>_. True) parse ser creds input u dw of Inl f \<Rightarrow> [] | Inr (out, u') \<Rightarrow> out)"

definition daemon_moves ::
  "('v, 'f) urd_env_scheme \<Rightarrow> bool \<Rightarrow> (byte list \<Rightarrow> rpc_request option) \<Rightarrow> (rpc_response \<Rightarrow> byte list option) \<Rightarrow>
   credentials option \<Rightarrow> 'v urd \<times> 'v \<Rightarrow> byte list \<Rightarrow> 'v urd \<times> 'v" where
  "daemon_moves denv big parse ser creds = (\<lambda>(u, dw) input.
     case do_read_request denv big (\<lambda>_. True) parse ser creds input u dw of Inl f \<Rightarrow> (u, dw) | Inr (out, u') \<Rightarrow> (u', dw))"

text \<open>
  The client (\<open>env\<close>) talks to the daemon (\<open>denv\<close>): the socket keeps its laws, its other side is the daemon, no call is
  interrupted more than \<open>k\<close> times in a row, and memory is available on both sides.
\<close>

definition talking ::
  "('w, 'e) client_scheme \<Rightarrow> ('w, 'v urd \<times> 'v) socket_view \<Rightarrow> nat \<Rightarrow> ('v, 'f) urd_env_scheme \<Rightarrow> bool \<Rightarrow>
   (byte list \<Rightarrow> rpc_request option) \<Rightarrow> (rpc_response \<Rightarrow> byte list option) \<Rightarrow> credentials option \<Rightarrow> bool" where
  "talking env v k denv big parse ser creds \<longleftrightarrow>
     socket_laws env v k \<and> daemon_listens env v \<and> memory_available env \<and>
     reply v = daemon_reply denv big parse ser creds \<and> moves v = daemon_moves denv big parse ser creds"

lemma request_served:
  assumes "talking env v k denv big parse ser creds" and "peer v w = (u, dw)"
    and "sendable type ap" and "carries_request env k parse (describe_request type ap)"
    and "decode_request (wire (describe_request type ap)) = Inr req"
    and "serve_request denv req creds u dw = Inr (resp, u')" and "carries_response env k ser resp"
  shows "\<exists>w'. client_request env type ap w =
      Inr ((NORNS_SUCCESS, \<lparr>r_type = answered_type (reply_type req), r_error_code = urd_error_value (rs_error_code resp),
                            r_data = response_data resp PU_unset\<rparr>), w') \<and>
    peer v w' = (u', dw)"
proof -
  let ?body = "cl_pack env (describe_request type ap)"
  have t: "socket_laws env v k" "daemon_listens env v" "memory_available env"
    "reply v = daemon_reply denv big parse ser creds" "moves v = daemon_moves denv big parse ser creds"
    using assms(1) by (simp_all add: talking_def)
  have body: "?body \<noteq> []" "parse ?body = Some (wire (describe_request type ap))"
      "length ?body < 2 ^ 64" "8 + length ?body + k \<le> cl_fuel env"
    using assms(4) by (simp_all add: carries_request_def fits_def)
  obtain out where out: "ser (pack_response resp) = Some out" "out \<noteq> []" "cl_unpack env out = Some (pack_response resp)"
      "length out < 2 ^ 64" "8 + length out + k \<le> cl_fuel env"
    using assms(7) by (auto simp: carries_response_def fits_def)
  have "create_from_buffer parse ?body (length ?body) = Inr req"
    using body(2) assms(5) by (simp add: create_from_buffer_def)
  then have served: "do_read_request denv big (\<lambda>_. True) parse ser creds (framed_message ?body) u dw = Inr (framed_message out, u')"
    using read_framed [of ?body "\<lambda>_. True" "8 + length ?body" denv big parse ser creds u dw] body(1,3) assms(6) out(1)
    by simp
  have "type \<noteq> MT_BAD_RPC" using assms(3) by (cases ap) auto
  then obtain w' where w': "client_request env type ap w = Inr (unpack_from_buffer (cl_unpack env) out response_uninit, w')"
    "peer v w' = (u', dw)"
    using send_request_exchange [of env v k type ap ?body "cl_pack env" w out "cl_fuel env" "cl_unpack env"]
      t body(1,4) out(2,4,5) assms(2,3) served
    by (auto simp: daemon_reply_def daemon_moves_def)
  have "unpack_from_buffer (cl_unpack env) out response_uninit =
      (NORNS_SUCCESS, \<lparr>r_type = answered_type (reply_type req), r_error_code = urd_error_value (rs_error_code resp),
                       r_data = response_data resp PU_unset\<rparr>)"
    using unpack_response [of "cl_unpack env" out resp response_uninit] out(3) serve_complete [OF assms(6)]
    by (simp add: complete_response_def response_uninit_def)
  then show ?thesis using w' by simp
qed

section \<open>Submitting a task\<close>

text \<open>A resource as the caller thinks of it, the structure the library makes of it, and what it means to the daemon.\<close>

datatype caller_resource =
    C_memory u64 u64
  | C_local string string
  | C_shared string string
  | C_remote string string string          \<comment> \<open>namespace, host, path\<close>

fun caller_struct :: "caller_resource \<Rightarrow> norns_resource" where
  "caller_struct (C_memory a s) = NORNS_MEMORY_REGION a s"
| "caller_struct (C_local n p) = NORNS_LOCAL_PATH (Some n) (Some p)"
| "caller_struct (C_shared n p) = NORNS_SHARED_PATH (Some n) (Some p)"
| "caller_struct (C_remote n h p) = NORNS_REMOTE_PATH (Some n) (Some h) (Some p)"

text \<open>The size of a memory region has 32 bits in the message.\<close>

fun daemon_view :: "caller_resource \<Rightarrow> resource_info" where
  "daemon_view (C_memory a s) = Memory_region_info a (ucast (ucast s :: u32))"
| "daemon_view (C_local n p) = Local_path_info (bounded_copy n) (bounded_copy p)"
| "daemon_view (C_shared n p) = Shared_path_info (bounded_copy n) (bounded_copy p)"
| "daemon_view (C_remote n h p) = Remote_resource_info (bounded_copy h) (bounded_copy n) False (bounded_copy p) None"

lemma caller_sendable: "resource_sendable (caller_struct r)"
  by (cases r) (simp_all add: resource_sendable_def NORNS_MEMORY_REGION_def NORNS_LOCAL_PATH_def NORNS_SHARED_PATH_def
      NORNS_REMOTE_PATH_def)

lemma caller_decoded:
  "is_valid_resource (wire_resource (describe_resource (caller_struct r))) \<and>
   resource_create_from (wire_resource (describe_resource (caller_struct r))) = Inr (Some (daemon_view r))"
  by (cases r)
     (simp_all add: NORNS_MEMORY_REGION_def NORNS_LOCAL_PATH_def NORNS_SHARED_PATH_def NORNS_REMOTE_PATH_def
      wire_resource_def wire_path_def required_string_def is_valid_resource_def has_flag_def resource_create_from_def
      msg_buffer_def msg_path_def)

text \<open>The structure of a task made by the library, and the request it is for the daemon.\<close>

lemma NORNS_IOTASK_cases:
  assumes "NORNS_IOTASK uninit op src va = Inr task"
  shows "task = iotask_zero\<lparr>t_op := op, t_src := src,
      t_dst := (if op = NORNS_IOTASK_REMOVE then resource_zero\<lparr>r_flags := NORNS_NULL_RESOURCE\<rparr> else the va)\<rparr> \<and>
    (op \<noteq> NORNS_IOTASK_REMOVE \<longrightarrow> va \<noteq> None)"
  using assms by (auto simp: NORNS_IOTASK_def norns_iotask_init_def iotask_zero_def outcome_simps split: if_splits)

definition submitted_request :: "u32 \<Rightarrow> caller_resource \<Rightarrow> caller_resource option \<Rightarrow> request" where
  "submitted_request op src dst = Iotask_create_request (decode_iotask_type op) (Some (daemon_view src))
     (if op = NORNS_IOTASK_REMOVE then None else map_option daemon_view dst)"

lemma null_resource_decoded:
  "resource_sendable (resource_zero\<lparr>r_flags := NORNS_NULL_RESOURCE\<rparr>) \<and>
   is_valid_resource (wire_resource (describe_resource (resource_zero\<lparr>r_flags := NORNS_NULL_RESOURCE\<rparr>))) \<and>
   resource_create_from (wire_resource (describe_resource (resource_zero\<lparr>r_flags := NORNS_NULL_RESOURCE\<rparr>))) = Inr None"
  by (simp add: resource_zero_def resource_sendable_def wire_resource_def is_valid_resource_def has_flag_def
      resource_create_from_def)

lemma task_decoded:
  assumes "NORNS_IOTASK uninit op (caller_struct src) (map_option caller_struct dst) = Inr task"
    and "op \<in> {NORNS_IOTASK_COPY, NORNS_IOTASK_MOVE, NORNS_IOTASK_REMOVE}"
  shows "sendable MT_IOTASK_SUBMIT (Args_task task) \<and> t_id task = 0 \<and> t_op task = op \<and>
    decode_request (wire (describe_request MT_IOTASK_SUBMIT (Args_task task))) = Inr (submitted_request op src dst)"
proof -
  define d where "d = (if op = NORNS_IOTASK_REMOVE then resource_zero\<lparr>r_flags := NORNS_NULL_RESOURCE\<rparr> else caller_struct (the dst))"
  have t: "task = iotask_zero\<lparr>t_op := op, t_src := caller_struct src, t_dst := d\<rparr>" "op \<noteq> NORNS_IOTASK_REMOVE \<longrightarrow> dst \<noteq> None"
    using NORNS_IOTASK_cases [OF assms(1)] by (auto simp: d_def option.map_sel)
  have dd: "resource_sendable d" "is_valid_resource (wire_resource (describe_resource d))"
    "resource_create_from (wire_resource (describe_resource d)) =
       Inr (if op = NORNS_IOTASK_REMOVE then None else map_option daemon_view dst)"
    using null_resource_decoded caller_sendable caller_decoded t(2) by (auto simp: d_def simp del: describe_resource.simps)
  have o: "decode_iotask_type op \<in> {IT_copy, IT_move, IT_remove}" using assms(2) by (auto simp: decode_iotask_type_def)
  have "decode_task (wire_task (describe_task task)) = Inr (submitted_request op src dst)"
    using caller_decoded [of src] dd o
    by (simp add: t(1) decode_task_def is_valid_task_def wire_task_def describe_task_def iotask_zero_def
        submitted_request_def del: describe_resource.simps)
  then show ?thesis
    using caller_sendable [of src] dd(1)
    by (simp add: t(1) iotask_zero_def wire_def describe_request.simps request_init_def decode_request_def)
qed

lemma ucast_u64_u32 [simp]: "ucast (ucast (x :: u32) :: u64) = x"
  by (rule bit_word_eqI) (simp add: bit_simps)

lemma submit_served:
  assumes "talking env v k denv big parse ser creds" and "peer v w = (u, dw)"
    and "NORNS_IOTASK uninit op (caller_struct src) (map_option caller_struct dst) = Inr task"
    and "op \<in> {NORNS_IOTASK_COPY, NORNS_IOTASK_MOVE, NORNS_IOTASK_REMOVE}"
    and "carries_request env k parse (describe_request MT_IOTASK_SUBMIT (Args_task task))"
    and "serve_request denv (submitted_request op src dst) creds u dw = Inr (resp, u')"
    and "carries_response env k ser resp"
  shows "\<exists>w'. norns_submit env (Some task) w =
      Inr ((urd_error_value (rs_error_code resp), Some (task\<lparr>t_id := the (rs_taskid resp)\<rparr>)), w') \<and>
    peer v w' = (u', dw)"
proof -
  note d = task_decoded [OF assms(3,4)]
  obtain w' where w': "client_request env MT_IOTASK_SUBMIT (Args_task task) w =
      Inr ((NORNS_SUCCESS, \<lparr>r_type = MT_IOTASK_SUBMIT, r_error_code = urd_error_value (rs_error_code resp),
                            r_data = PU_taskid (ucast (the (rs_taskid resp)))\<rparr>), w')"
    "peer v w' = (u', dw)"
    using request_served [OF assms(1,2) _ assms(5) _ assms(6,7)] d serve_complete [OF assms(6)]
    by (auto simp: submitted_request_def response_data_def)
  have "send_submit_request env task w = Inr ((urd_error_value (rs_error_code resp), task\<lparr>t_id := the (rs_taskid resp)\<rparr>), w')"
    using d assms(4) w'(1) by (auto simp: send_submit_request_def io_bind_Inr io_apply)
  then show ?thesis using w'(2) by (auto simp: norns_submit_def io_bind_Inr io_apply)
qed

text \<open>
  C3. A submission, end to end: for a task built by the library from a memory region, a local, shared or remote
  path, and a destination of any of these kinds (none for a removal), \<^verbatim>\<open>norns_submit\<close> returns the error code the
  daemon's handler gave for the request the caller meant, sets the task's identifier to the one the daemon
  assigned, and the daemon is in the state its handler left. Names longer than 4095 characters are cut off and
  the size of a memory region is taken modulo \<open>2\<^sup>3\<^sup>2\<close> on the way.
\<close>

theorem submit_end_to_end:
  assumes "talking env v k denv big parse ser creds" and "peer v w = (u, dw)"
    and "NORNS_IOTASK uninit op (caller_struct src) (map_option caller_struct dst) = Inr task"
    and "op \<in> {NORNS_IOTASK_COPY, NORNS_IOTASK_MOVE, NORNS_IOTASK_REMOVE}"
    and "carries_request env k parse (describe_request MT_IOTASK_SUBMIT (Args_task task))"
    and "serve_request denv (submitted_request op src dst) creds u dw = Inr (resp, u')"
    and "carries_response env k ser resp"
  shows "\<exists>w'. norns_submit env (Some task) w =
      Inr ((urd_error_value (rs_error_code resp), Some (task\<lparr>t_id := the (rs_taskid resp)\<rparr>)), w') \<and>
    peer v w' = (u', dw)"
  by (rule submit_served [OF assms])

section \<open>Asking for the status of a task\<close>

lemma status_decoded:
  assumes "resource_sendable (t_src task)" and "resource_sendable (t_dst task)"
  shows "sendable MT_IOTASK_STATUS (Args_task task) \<and>
    decode_request (wire (describe_request MT_IOTASK_STATUS (Args_task task))) = Inr (Iotask_status_request (t_id task))"
  using assms by (simp add: wire_def describe_request.simps request_init_def decode_request_def wire_task_def describe_task_def)

definition client_stat :: "task_stats \<Rightarrow> norns_stat \<Rightarrow> norns_stat" where
  "client_stat st old = old\<lparr>c_status := client_status (st_status st), c_task_error := urd_error_value (st_task_error st),
     c_sys_errno := sint (word_of_int (st_sys_error st) :: u32)\<rparr>"

lemma status_served:
  assumes "talking env v k denv big parse ser creds" and "peer v w = (u, dw)"
    and "resource_sendable (t_src task)" and "resource_sendable (t_dst task)" and "t_id task \<noteq> 0"
    and "carries_request env k parse (describe_request MT_IOTASK_STATUS (Args_task task))"
    and "iotask_status_handler (t_id task) u = (resp, u')" and "carries_response env k ser resp"
  shows "\<exists>w'. send_status_request env task old w =
      Inr ((urd_error_value (rs_error_code resp), client_stat (the (rs_stats resp)) old), w') \<and> peer v w' = (u', dw)"
proof -
  have s: "serve_request denv (Iotask_status_request (t_id task)) creds u dw = Inr (resp, u')"
    using assms(7) by (simp add: serve_request_eq)
  note d = status_decoded [OF assms(3,4)]
  obtain w' where w': "client_request env MT_IOTASK_STATUS (Args_task task) w =
      Inr ((NORNS_SUCCESS, \<lparr>r_type = MT_IOTASK_STATUS, r_error_code = urd_error_value (rs_error_code resp),
                            r_data = response_data resp PU_unset\<rparr>), w')"
    "peer v w' = (u', dw)"
    using request_served [OF assms(1,2) _ assms(6) _ s assms(8)] d by auto
  then show ?thesis
    using assms(5) serve_complete [OF s]
    by (auto simp: send_status_request_def io_bind_Inr io_apply response_data_def client_stat_def Let_def)
qed

lemma wait_served:
  assumes "talking env v k denv big parse ser creds" and "peer v w = (u, dw)"
    and "resource_sendable (t_src task)" and "resource_sendable (t_dst task)" and "t_id task \<noteq> 0"
    and "carries_request env k parse (describe_request MT_IOTASK_STATUS (Args_task task))"
    and "iotask_status_handler (t_id task) u = (resp, u')" and "carries_response env k ser resp"
    and "rs_error_code resp \<noteq> UE_success \<or> finished_status (st_status (the (rs_stats resp)))"
  shows "\<exists>w'. norns_wait env (Some task) timeout w = Inr ((urd_error_value (rs_error_code resp),
      Some (if rs_error_code resp = UE_success then task\<lparr>t_status := client_stat (the (rs_stats resp)) (cl_stack_stat env)\<rparr>
            else task)), w') \<and> peer v w' = (u', dw)"
proof -
  obtain w' where w': "send_status_request env task (cl_stack_stat env) w =
      Inr ((urd_error_value (rs_error_code resp), client_stat (the (rs_stats resp)) (cl_stack_stat env)), w')" "peer v w' = (u', dw)"
    using status_served [OF assms(1-8)] by blast
  obtain f where "cl_fuel env = Suc f"
    using assms(6) by (cases "cl_fuel env") (auto simp: carries_request_def fits_def)
  moreover have "finished_code (c_status (client_stat st old)) \<longleftrightarrow> finished_status (st_status st)" for st old
    by (cases "st_status st") (simp_all add: client_stat_def finished_code_def)
  ultimately show ?thesis
    using w' assms(9) by (auto simp: norns_wait_def io_bind_Inr io_apply)
qed

text \<open>
  A finished task can be waited for once. When the daemon holds the task as finished, \<^verbatim>\<open>norns_wait\<close> returns
  success at once, with or without a timeout, and leaves the result of the task in its descriptor (the byte counts
  there are never set); the daemon forgets the task with this answer, so that a second \<^verbatim>\<open>norns_wait\<close> for it fails with
  \<^verbatim>\<open>NORNS_ENOSUCHTASK\<close>.
\<close>

theorem wait_once:
  assumes "talking env v k denv big parse ser creds" and "peer v w = (u, dw)"
    and "resource_sendable (t_src task)" and "resource_sendable (t_dst task)" and "t_id task \<noteq> 0"
    and "carries_request env k parse (describe_request MT_IOTASK_STATUS (Args_task task))"
    and "task_find (m_task_mgr u) (t_id task) = Some p" and "finished_status (ti_status (m_heap (m_task_mgr u) ! p))"
    and "iotask_status_handler (t_id task) u = (resp, u')" and "carries_response env k ser resp"
    and "carries_response env k ser (fst (iotask_status_handler (t_id task) u'))"
    and "t' = task\<lparr>t_status := client_stat (stats (m_heap (m_task_mgr u) ! p)) (cl_stack_stat env)\<rparr>"
  shows "\<exists>w' w''. norns_wait env (Some task) timeout w = Inr ((NORNS_SUCCESS, Some t'), w') \<and>
    norns_wait env (Some t') timeout' w' = Inr ((urd_error_value UE_no_such_task, Some t'), w'')"
proof -
  have r: "rs_error_code resp = UE_success" "rs_stats resp = Some (stats (m_heap (m_task_mgr u) ! p))"
    and f: "task_find (m_task_mgr u') (t_id task) = None"
    using assms(7-9) by (auto simp: iotask_status_handler_def make_response_def task_erase_def task_find_def)
  have s: "st_status (stats (m_heap (m_task_mgr u) ! p)) = ti_status (m_heap (m_task_mgr u) ! p)"
    by (simp add: stats_def)
  obtain w' where w': "norns_wait env (Some task) timeout w = Inr ((NORNS_SUCCESS, Some t'), w')" "peer v w' = (u', dw)"
    using wait_served [OF assms(1-6,9,10), of timeout] r s assms(8,12) by auto
  have c: "carries_request env k parse (describe_request MT_IOTASK_STATUS (Args_task t'))"
    using assms(6) by (simp add: assms(12) describe_request.simps describe_task_def)
  obtain resp2 u2 where h2: "iotask_status_handler (t_id t') u' = (resp2, u2)" by fastforce
  then have "rs_error_code resp2 = UE_no_such_task"
    using f assms(12) by (auto simp: iotask_status_handler_def make_response_def)
  then have "\<exists>w''. norns_wait env (Some t') timeout' w' = Inr ((urd_error_value UE_no_such_task, Some t'), w'')"
    using wait_served [OF assms(1) w'(2) _ _ _ c h2, of timeout'] assms(3,4,5,11,12) h2 by auto
  with w'(1) show ?thesis by blast
qed

section \<open>The control interface\<close>

datatype control_call =
    Ctl_register_job u32 nornsctl_job
  | Ctl_update_job u32 nornsctl_job
  | Ctl_unregister_job u32
  | Ctl_add_process u32 u32 u32 int
  | Ctl_remove_process u32 u32 u32 int
  | Ctl_register_namespace string nornsctl_backend
  | Ctl_unregister_namespace string
  | Ctl_command u32

text \<open>The function of the library that is called, the message it packs, and the request it is for the daemon.\<close>

fun control_perform :: "('w, 'e) client_scheme \<Rightarrow> control_call \<Rightarrow> ('w, int) io" where
  "control_perform env (Ctl_register_job j job) = nornsctl_register_job env j (Some job)"
| "control_perform env (Ctl_update_job j job) = nornsctl_update_job env j (Some job)"
| "control_perform env (Ctl_unregister_job j) = nornsctl_unregister_job env j"
| "control_perform env (Ctl_add_process j uid gid pid) = nornsctl_add_process env j uid gid pid"
| "control_perform env (Ctl_remove_process j uid gid pid) = nornsctl_remove_process env j uid gid pid"
| "control_perform env (Ctl_register_namespace n b) = nornsctl_register_namespace env (Some n) (Some b)"
| "control_perform env (Ctl_unregister_namespace n) = nornsctl_unregister_namespace env (Some n)"
| "control_perform env (Ctl_command c) = nornsctl_send_command env c None"

fun control_args :: "control_call \<Rightarrow> norns_msgtype \<times> msg_args" where
  "control_args (Ctl_register_job j job) = (MT_JOB_REGISTER, Args_job j (Some job))"
| "control_args (Ctl_update_job j job) = (MT_JOB_UPDATE, Args_job j (Some job))"
| "control_args (Ctl_unregister_job j) = (MT_JOB_UNREGISTER, Args_job j None)"
| "control_args (Ctl_add_process j uid gid pid) = (MT_PROCESS_ADD, Args_process j uid gid pid)"
| "control_args (Ctl_remove_process j uid gid pid) = (MT_PROCESS_REMOVE, Args_process j uid gid pid)"
| "control_args (Ctl_register_namespace n b) = (MT_NAMESPACE_REGISTER, Args_nspace (Some n) (Some b))"
| "control_args (Ctl_unregister_namespace n) = (MT_NAMESPACE_UNREGISTER, Args_nspace (Some n) None)"
| "control_args (Ctl_command c) = (MT_COMMAND, Args_command c)"

definition job_hosts :: "nornsctl_job \<Rightarrow> string list" where
  "job_hosts j = map (\<lambda>h. bounded_copy (the h)) (take (j_nhosts j) (the (j_hosts j)))"

fun control_request :: "control_call \<Rightarrow> request" where
  "control_request (Ctl_register_job j job) = Job_register_request j (job_hosts job)"
| "control_request (Ctl_update_job j job) = Job_update_request j (job_hosts job)"
| "control_request (Ctl_unregister_job j) = Job_unregister_request j"
| "control_request (Ctl_add_process j uid gid pid) = Process_register_request j uid gid pid"
| "control_request (Ctl_remove_process j uid gid pid) = Process_unregister_request j uid gid pid"
| "control_request (Ctl_register_namespace n b) =
     Backend_register_request (bounded_copy n) (decode_backend_type (word_of_int (b_type b))) (b_track b)
       (bounded_copy (the (b_mount b))) (b_capacity b)"
| "control_request (Ctl_unregister_namespace n) = Backend_unregister_request (bounded_copy n)"
| "control_request (Ctl_command c) = Command_request (decode_command c)"

text \<open>Arguments the library and the daemon both understand: jobs whose arrays are in order, 32-bit process ids, known backends.\<close>

fun control_valid :: "control_call \<Rightarrow> bool" where
  "control_valid (Ctl_register_job j job) \<longleftrightarrow> job_sendable job"
| "control_valid (Ctl_update_job j job) \<longleftrightarrow> job_sendable job"
| "control_valid (Ctl_unregister_job j) \<longleftrightarrow> True"
| "control_valid (Ctl_add_process j uid gid pid) \<longleftrightarrow> -(2 ^ 31) \<le> pid \<and> pid < 2 ^ 31"
| "control_valid (Ctl_remove_process j uid gid pid) \<longleftrightarrow> -(2 ^ 31) \<le> pid \<and> pid < 2 ^ 31"
| "control_valid (Ctl_register_namespace n b) \<longleftrightarrow>
     n \<noteq> [] \<and> validate_namespace (Some b) \<and> decode_backend_type (word_of_int (b_type b)) \<noteq> BT_unknown"
| "control_valid (Ctl_unregister_namespace n) \<longleftrightarrow> True"
| "control_valid (Ctl_command c) \<longleftrightarrow> True"

lemma sint_pid: "-(2 ^ 31) \<le> pid \<Longrightarrow> pid < 2 ^ 31 \<Longrightarrow> sint (ucast (word_of_int pid :: u64) :: u32) = pid"
  by (simp add: sint_uint signed_take_bit_take_bit signed_take_bit_int_eq_self take_bit_of_int unsigned_of_int)

lemma strncmp_empty: "strncmp m [] (Suc 0) = 0 \<longleftrightarrow> m = []"
  by (cases m) simp_all

lemma job_sendable_validate: "job_sendable j \<Longrightarrow> validate_job (Some j)"
  by (auto simp: job_sendable_def validate_job_def)

lemma control_perform_typed:
  "control_valid c \<Longrightarrow> control_perform env c = typed_request env (fst (control_args c)) (snd (control_args c))"
  by (cases c) (auto simp: nornsctl_register_job_def nornsctl_update_job_def nornsctl_unregister_job_def
      nornsctl_add_process_def nornsctl_remove_process_def nornsctl_register_namespace_def
      nornsctl_unregister_namespace_def nornsctl_send_command_def send_job_request_def send_process_request_def
      send_namespace_request_def send_control_command_request_def typed_request_def job_sendable_validate strncmp_empty)

lemma control_decoded:
  assumes "control_valid c" and "packable (describe_request (fst (control_args c)) (snd (control_args c)))"
  shows "sendable (fst (control_args c)) (snd (control_args c)) \<and>
    decode_request (wire (describe_request (fst (control_args c)) (snd (control_args c)))) = Inr (control_request c) \<and>
    answered_type (reply_type (control_request c)) = fst (control_args c)"
proof -
  have hosts: "map required_string (pbj_hosts (describe_job j)) = job_hosts j"
    if "list_all (\<lambda>h. h \<noteq> None) (pbj_hosts (describe_job j))" for j
    using that by (auto simp: describe_job_def job_hosts_def list_all_iff required_string_def)
  show ?thesis
    using assms
    by (cases c) (auto simp: wire_def describe_request.simps request_init_def decode_request_def packable_def hosts
        sint_pid wire_nspace_def describe_backend_def required_string_def validate_namespace_def Let_def split: option.splits)
qed

lemma control_served:
  assumes "talking env v k denv big parse ser creds" and "peer v w = (u, dw)" and "control_valid c"
    and "carries_request env k parse (describe_request (fst (control_args c)) (snd (control_args c)))"
    and "serve_request denv (control_request c) creds u dw = Inr (resp, u')" and "carries_response env k ser resp"
  shows "\<exists>w'. control_perform env c w = Inr (urd_error_value (rs_error_code resp), w') \<and> peer v w' = (u', dw)"
proof -
  note d = control_decoded [OF assms(3)]
  obtain w' where w': "client_request env (fst (control_args c)) (snd (control_args c)) w =
      Inr ((NORNS_SUCCESS, \<lparr>r_type = fst (control_args c), r_error_code = urd_error_value (rs_error_code resp),
                            r_data = response_data resp PU_unset\<rparr>), w')"
    "peer v w' = (u', dw)"
    using request_served [OF assms(1,2) _ assms(4) _ assms(5,6)] d assms(4) by (auto simp: carries_request_def)
  then show ?thesis
    unfolding control_perform_typed [OF assms(3)] by (auto simp: typed_request_def io_bind_Inr io_apply)
qed

text \<open>
  C4. The administrator's calls, end to end: registering, updating and removing a job, adding and removing a
  process, registering and removing a namespace, and sending a command each return the code that the daemon's
  handler gave for the request they stand for, and leave the daemon in the state the handler left.
\<close>

theorem control_end_to_end:
  assumes "talking env v k denv big parse ser creds" and "peer v w = (u, dw)" and "control_valid c"
    and "carries_request env k parse (describe_request (fst (control_args c)) (snd (control_args c)))"
    and "serve_request denv (control_request c) creds u dw = Inr (resp, u')" and "carries_response env k ser resp"
  shows "\<exists>w'. control_perform env c w = Inr (urd_error_value (rs_error_code resp), w') \<and> peer v w' = (u', dw)"
  by (rule control_served [OF assms])

section \<open>Sample conversations\<close>

text \<open>
  A client that transfers one byte per call and talks to a daemon of the model; the libraries carry one request
  \<open>m\<close>, and two kinds of answers, told apart by their error code.
\<close>

definition sample_parse :: "request_pb \<Rightarrow> byte list \<Rightarrow> rpc_request option" where
  "sample_parse m bs = Some (wire m)"

definition sample_ser :: "rpc_response \<Rightarrow> byte list option" where
  "sample_ser r = Some (if rr_error_code r = 0 then [1] else [2])"

definition sample_client ::
  "request_pb \<Rightarrow> response \<Rightarrow> response \<Rightarrow> ((unit urd \<times> unit) \<times> byte list \<times> byte list) client" where
  "sample_client m good bad = client_env.extend
     (slow_client (daemon_reply quiet_urd_env False (sample_parse m) sample_ser None)
        (daemon_moves quiet_urd_env False (sample_parse m) sample_ser None))
     (client.fields 40 (\<lambda>_. [3]) (\<lambda>bs. Some (pack_response (if bs = [1] then good else bad))) stat_zero)"

definition sample_view :: "request_pb \<Rightarrow> ((unit urd \<times> unit) \<times> byte list \<times> byte list, unit urd \<times> unit) socket_view" where
  "sample_view m = slow_view (daemon_reply quiet_urd_env False (sample_parse m) sample_ser None)
     (daemon_moves quiet_urd_env False (sample_parse m) sample_ser None)"

lemma client_extend_laws:
  "socket_laws (client_env.extend e x) v k \<longleftrightarrow> socket_laws e v k" "daemon_listens (client_env.extend e x) v \<longleftrightarrow> daemon_listens e v"
  "memory_available (client_env.extend e x) \<longleftrightarrow> memory_available e"
  by (simp_all add: socket_laws_def daemon_listens_def memory_available_def client_env.extend_def)

lemma sample_client_sel [simp]:
  "cl_fuel (sample_client m good bad) = 40" "cl_pack (sample_client m good bad) = (\<lambda>_. [3])"
  "cl_unpack (sample_client m good bad) = (\<lambda>bs. Some (pack_response (if bs = [1] then good else bad)))"
  "cl_stack_stat (sample_client m good bad) = stat_zero"
  by (simp_all add: sample_client_def client_env.extend_def client.fields_def)

lemma slow_view_sel: "reply (slow_view rep mv) = rep" "moves (slow_view rep mv) = mv"
  by (simp_all add: slow_view_def)

lemma sample_talking: "talking (sample_client m good bad) (sample_view m) 0 quiet_urd_env False (sample_parse m) sample_ser None"
  by (simp add: talking_def sample_client_def client_extend_laws sample_view_def slow_client_laws slow_view_sel)

lemma sample_carries:
  "packable m \<Longrightarrow> carries_request (sample_client m good bad) 0 (sample_parse m) m"
  "rs_error_code good = UE_success \<Longrightarrow> carries_response (sample_client m good bad) 0 sample_ser good"
  "rs_error_code bad \<noteq> UE_success \<Longrightarrow> carries_response (sample_client m good bad) 0 sample_ser bad"
proof -
  have z: "encode_urd_error e = 0 \<longleftrightarrow> e = UE_success" for e
    by (cases e) (simp_all add: encode_urd_error_def)
  show "packable m \<Longrightarrow> carries_request (sample_client m good bad) 0 (sample_parse m) m"
    by (simp add: carries_request_def fits_def sample_parse_def)
  show "rs_error_code good = UE_success \<Longrightarrow> carries_response (sample_client m good bad) 0 sample_ser good"
    and "rs_error_code bad \<noteq> UE_success \<Longrightarrow> carries_response (sample_client m good bad) 0 sample_ser bad"
    by (auto simp: carries_response_def fits_def sample_ser_def pack_response_def z)
qed

lemma sample_peer [simp]: "peer (sample_view m) (p, s, g) = p"
  by (simp add: sample_view_def slow_view_def)

definition sample_removal :: norns_iotask where
  "sample_removal = iotask_zero\<lparr>t_op := NORNS_IOTASK_REMOVE, t_src := caller_struct (C_local ''tmp'' ''/a''),
     t_dst := resource_zero\<lparr>r_flags := NORNS_NULL_RESOURCE\<rparr>\<rparr>"

definition sample_answer :: response where
  "sample_answer = iotask_create_response 0 UE_accept_paused"

theorem submit_end_to_end_witness:
  "\<exists>w'. norns_submit (sample_client (describe_request MT_IOTASK_SUBMIT (Args_task sample_removal)) sample_answer sample_answer)
      (Some sample_removal) ((busy_urd, ()), [], []) =
    Inr ((urd_error_value UE_accept_paused, Some (sample_removal\<lparr>t_id := 0\<rparr>)), w')"
proof -
  let ?m = "describe_request MT_IOTASK_SUBMIT (Args_task sample_removal)"
  have a: "NORNS_IOTASK iotask_zero NORNS_IOTASK_REMOVE (caller_struct (C_local ''tmp'' ''/a'')) (map_option caller_struct None) =
      Inr sample_removal"
    by (simp add: NORNS_IOTASK_def norns_iotask_init_def sample_removal_def iotask_zero_def del: caller_struct.simps)
  have p: "packable ?m" by (simp add: packable_def describe_request.simps request_init_def)
  have s: "serve_request quiet_urd_env (submitted_request NORNS_IOTASK_REMOVE (C_local ''tmp'' ''/a'') None) None busy_urd () =
      Inr (sample_answer, busy_urd)"
    by (simp add: submitted_request_def serve_request_eq iotask_create_handler_def busy_urd_def sample_answer_def)
  have r: "rs_error_code sample_answer = UE_accept_paused" "rs_taskid sample_answer = Some 0"
    by (simp_all add: sample_answer_def iotask_create_response_def make_response_def)
  then have c: "carries_response (sample_client ?m sample_answer sample_answer) 0 sample_ser sample_answer"
    by (intro sample_carries(3)) simp
  show ?thesis
    using submit_end_to_end [OF sample_talking sample_peer [of _ _ "[]" "[]"] a _ sample_carries(1) [OF p] s c] r by auto
qed

theorem control_end_to_end_witness:
  "\<exists>w'. control_perform (sample_client (describe_request MT_COMMAND (Args_command 1001)) (make_response RS_command UE_success)
      sample_answer) (Ctl_command 1001) ((sample_urd, ()), [], []) = Inr (0, w') \<and>
    peer (sample_view (describe_request MT_COMMAND (Args_command 1001))) w' = (pause_listening sample_urd, ())"
proof -
  let ?m = "describe_request MT_COMMAND (Args_command 1001)" and ?r = "make_response RS_command UE_success"
  have p: "packable ?m" by (simp add: packable_def describe_request.simps request_init_def)
  have s: "serve_request quiet_urd_env (control_request (Ctl_command 1001)) None sample_urd () =
      Inr (?r, pause_listening sample_urd)"
    by (simp add: serve_request_eq command_handler_def decode_command_def)
  have e: "rs_error_code ?r = UE_success" by (simp add: make_response_def)
  show ?thesis
    using control_end_to_end [OF sample_talking sample_peer [of _ _ "[]" "[]"] _ _ s sample_carries(2) [OF e, of ?m sample_answer]]
      sample_carries(1) [OF p, of ?r sample_answer] e by simp
qed

text \<open>A daemon whose only task has finished, and the client that submitted it.\<close>

definition done_urd :: "unit urd" where
  "done_urd = sample_urd\<lparr>m_task_mgr := one_running\<lparr>m_heap := [sample_task_info\<lparr>ti_status := TS_finished\<rparr>]\<rparr>\<rparr>"

definition sample_waiting :: norns_iotask where
  "sample_waiting = sample_removal\<lparr>t_id := 1\<rparr>"

abbreviation status_pb :: request_pb where
  "status_pb \<equiv> describe_request MT_IOTASK_STATUS (Args_task sample_waiting)"

definition done_answer :: response where
  "done_answer = fst (iotask_status_handler 1 done_urd)"

definition gone_urd :: "unit urd" where
  "gone_urd = snd (iotask_status_handler 1 done_urd)"

definition gone_answer :: response where
  "gone_answer = fst (iotask_status_handler 1 gone_urd)"

abbreviation waiting_client :: "((unit urd \<times> unit) \<times> byte list \<times> byte list) client" where
  "waiting_client \<equiv> sample_client status_pb done_answer gone_answer"

lemma sample_waiting_sel:
  "t_id sample_waiting = 1" "resource_sendable (t_src sample_waiting)" "resource_sendable (t_dst sample_waiting)"
  using caller_sendable null_resource_decoded
  by (simp_all add: sample_waiting_def sample_removal_def iotask_zero_def del: caller_struct.simps)

lemma done_urd_sel:
  "task_find (m_task_mgr done_urd) 1 = Some 0" "finished_status (ti_status (m_heap (m_task_mgr done_urd) ! 0))"
  "task_find (m_task_mgr gone_urd) 1 = None"
  by (simp_all add: done_urd_def gone_urd_def one_running_def task_find_def iotask_status_handler_def task_erase_def Let_def)

lemma answers_sel:
  "rs_error_code done_answer = UE_success" "rs_error_code gone_answer \<noteq> UE_success"
  "rs_stats done_answer = Some (stats (m_heap (m_task_mgr done_urd) ! 0))"
  using done_urd_sel by (simp_all add: done_answer_def gone_answer_def iotask_status_handler_def make_response_def Let_def)

lemma waiting_handlers:
  "iotask_status_handler (t_id sample_waiting) done_urd = (done_answer, gone_urd)"
  by (simp add: done_answer_def gone_urd_def sample_waiting_sel)

lemma waiting_carries:
  "carries_request waiting_client 0 (sample_parse status_pb) status_pb"
  "carries_response waiting_client 0 sample_ser done_answer" "carries_response waiting_client 0 sample_ser gone_answer"
  using answers_sel by (simp_all add: sample_carries packable_def describe_request.simps request_init_def)

lemma waiting_status:
  "\<exists>w'. send_status_request waiting_client sample_waiting old ((done_urd, ()), [], []) =
     Inr ((NORNS_SUCCESS, client_stat (stats (m_heap (m_task_mgr done_urd) ! 0)) old), w')"
  using status_served [OF sample_talking sample_peer [of _ _ "[]" "[]"] sample_waiting_sel(2,3) _ waiting_carries(1) waiting_handlers
      waiting_carries(2), of old] sample_waiting_sel(1) answers_sel(1,3) by (auto simp del: split_paired_Ex)

theorem wait_once_witness:
  "\<exists>t' w' w''. norns_wait waiting_client (Some sample_waiting) None ((done_urd, ()), [], []) = Inr ((NORNS_SUCCESS, Some t'), w') \<and>
    norns_wait waiting_client (Some t') None w' = Inr ((-41, Some t'), w'')"
  using wait_once [OF sample_talking sample_peer [of _ _ "[]" "[]"] sample_waiting_sel(2,3) _ waiting_carries(1) _ done_urd_sel(2)
      waiting_handlers waiting_carries(2) _ refl] done_urd_sel(1) waiting_carries(3) sample_waiting_sel(1)
  unfolding gone_answer_def by (metis (no_types, lifting) one_neq_zero urd_error_value.simps(20))

theorem wait_until_finished_witness:
  "\<exists>st w'. norns_wait waiting_client (Some sample_waiting) None ((done_urd, ()), [], []) =
      Inr ((NORNS_SUCCESS, Some (sample_waiting\<lparr>t_status := st\<rparr>)), w') \<and>
    norns_error waiting_client (Some (sample_waiting\<lparr>t_status := st\<rparr>)) (Some stat_zero) w' = Inr ((NORNS_SUCCESS, Some st), w')"
proof -
  let ?st = "client_stat (stats (m_heap (m_task_mgr done_urd) ! 0)) stat_zero"
  obtain w' where w': "send_status_request waiting_client sample_waiting (cl_stack_stat waiting_client) ((done_urd, ()), [], []) =
      Inr ((NORNS_SUCCESS, ?st), w')"
    using waiting_status [of stat_zero] unfolding sample_client_sel by blast
  have "finished_code (c_status ?st)"
    by (simp add: client_stat_def finished_code_def stats_def done_urd_def)
  moreover have "0 < cl_fuel waiting_client" by simp
  ultimately show ?thesis using wait_until_finished [OF polled_none w', of stat_zero w'] by blast
qed

theorem wait_timeout_asks_once_witness:
  "\<exists>r w'. norns_wait waiting_client (Some sample_waiting) (Some (1, 0)) ((done_urd, ()), [], []) = Inr ((NORNS_SUCCESS, r), w')"
proof -
  let ?st = "client_stat (stats (m_heap (m_task_mgr done_urd) ! 0)) stat_zero"
  obtain w' where w': "send_status_request waiting_client sample_waiting (cl_stack_stat waiting_client) ((done_urd, ()), [], []) =
      Inr ((NORNS_SUCCESS, ?st), w')"
    using waiting_status [of stat_zero] unfolding sample_client_sel by blast
  obtain r rem w2 where n: "cl_nanosleep waiting_client (1, 0) w' = ((r, rem), w2)" by (metis surj_pair)
  have "finished_code (c_status ?st)"
    by (simp add: client_stat_def finished_code_def stats_def done_urd_def)
  with wait_timeout_asks_once [OF _ w' n] show ?thesis by (auto simp del: split_paired_Ex)
qed

theorem refused_locally_witness:
  "norns_submit waiting_client (Some sample_waiting) ((done_urd, ()), [], []) = Inr ((NORNS_EBADARGS, Some sample_waiting), (done_urd, ()), [], [])"
  using refused_locally [of waiting_client "((done_urd, ()), [], [])" sample_waiting] sample_waiting_sel(1) by simp

end
