(* ===== verification/Config.thy ===== *)
theory Config
  imports Path_Utils Urd
begin

text \<open>
  The configuration of the daemon: the converters of \<^verbatim>\<open>src/config/parsers.cpp\<close>, the description of a file
  (\<^verbatim>\<open>src/config/file_options/file-schema.hpp\<close>, \<^verbatim>\<open>src/config/config-schema.hpp\<close>), the visitor that reads a file
  along it (\<^verbatim>\<open>yaml-parser.hpp\<close>), the options it yields (\<^verbatim>\<open>options-map.hpp\<close>), the settings
  (\<^verbatim>\<open>src/config/settings.cpp\<close>), and the first half of \<^verbatim>\<open>main\<close>. The YAML library, the default
  values (generated by the build) and the file system are parameters.
\<close>

section \<open>Exceptions\<close>

datatype config_exn = Invalid_argument_exn string | Bad_any_cast | Yaml_exn

definition cbind :: "'x + 'a \<Rightarrow> ('a \<Rightarrow> 'x + 'b) \<Rightarrow> 'x + 'b" where
  "cbind r f = (case r of Inl e \<Rightarrow> Inl e | Inr a \<Rightarrow> f a)"

lemma cbind_simps [simp]: "cbind (Inl e) f = Inl e" "cbind (Inr a) f = f a"
  by (simp_all add: cbind_def)

lemma cbind_eq_Inr: "cbind r f = Inr b \<longleftrightarrow> (\<exists>a. r = Inr a \<and> f a = Inr b)"
  by (cases r) auto

lemma cbind_assoc: "cbind (cbind r f) g = cbind r (\<lambda>a. cbind (f a) g)"
  by (cases r) auto

section \<open>Converters\<close>

definition quoted :: "string \<Rightarrow> string" where
  "quoted s = CHR 0x27 # s @ [CHR 0x27]"

definition to_lower :: "char \<Rightarrow> char" where
  "to_lower c = (let n = of_char c :: nat in if 65 \<le> n \<and> n \<le> 90 then char_of (n + 32) else c)"

definition parse_bool :: "string \<Rightarrow> string \<Rightarrow> config_exn + bool" where
  "parse_bool name val =
     (if val = ''1'' \<or> map to_lower val = ''true'' then Inr True
      else if val = ''0'' \<or> map to_lower val = ''false'' then Inr False
      else Inl (Invalid_argument_exn (''Value provided for option '' @ quoted name @ '' is not boolean'')))"

text \<open>\<^verbatim>\<open>std::stoi\<close>: leading white space, a sign, digits; what follows them is ignored. \<open>None\<close> when it throws.\<close>

definition stoi :: "string \<Rightarrow> int option" where
  "stoi str =
     (let s = dropWhile is_space str;
          (neg, ds) = (case s of
             [] \<Rightarrow> (False, [])
           | c # cs \<Rightarrow> if c = CHR ''-'' then (True, cs) else if c = CHR ''+'' then (False, cs) else (False, s));
          digits = takeWhile is_digit ds;
          v = (if neg then - int (decimal digits) else int (decimal digits))
      in if digits = [] \<or> v < -(2 ^ 31) \<or> 2 ^ 31 \<le> v then None else Some v)"

definition parse_number :: "string \<Rightarrow> string \<Rightarrow> config_exn + u32" where
  "parse_number name val =
     (case stoi val of
        None \<Rightarrow> Inl (Invalid_argument_exn (''Value provided for option '' @ quoted name @ '' is not a number''))
      | Some optval \<Rightarrow>
          if optval \<le> 0
          then Inl (Invalid_argument_exn (''Value provided for option '' @ quoted name @ '' must be greater than zero''))
          else Inr (word_of_int optval))"

definition parse_path :: "string \<Rightarrow> string \<Rightarrow> config_exn + string" where
  "parse_path name val = Inr val"

definition parse_existing_path :: "(string \<Rightarrow> bool) \<Rightarrow> string \<Rightarrow> string \<Rightarrow> config_exn + string" where
  "parse_existing_path exists name val =
     (if \<not> exists val then Inl (Invalid_argument_exn (''Path '' @ quoted val @ '' in option '' @ quoted name @ '' does not exist''))
      else Inr val)"

definition parse_capacity :: "string \<Rightarrow> string \<Rightarrow> config_exn + u64" where
  "parse_capacity name val =
     (case parse_size val of
        Inl e \<Rightarrow> Inl (Invalid_argument_exn (''Value provided in option '' @ quoted name @ '' is invalid''))
      | Inr n \<Rightarrow> Inr n)"

section \<open>The description of a file\<close>

text \<open>\<^verbatim>\<open>boost::any\<close> with the types the options have; \<^verbatim>\<open>std::function\<close> of a converter to it.\<close>

datatype option_any = Any_bool bool | Any_path string | Any_u32 u32 | Any_u64 u64 | Any_string string

type_synonym converter = "string \<Rightarrow> string \<Rightarrow> config_exn + option_any"

record option_schema =
  os_mandatory :: bool
  os_default :: "option_any option"
  os_converter :: "converter option"

text \<open>A \<^verbatim>\<open>std::map\<close> is the list of its entries in the order of their keys.\<close>

type_synonym group_schema = "(string \<times> option_schema) list"

datatype schema = Group_schema group_schema | List_schema group_schema

record section_schema =
  ss_mandatory :: bool
  ss_schema :: schema

definition declare_option :: "bool \<Rightarrow> option_any option \<Rightarrow> converter option \<Rightarrow> option_schema" where
  "declare_option mandatory deflt conv = \<lparr>os_mandatory = mandatory, os_default = deflt, os_converter = conv\<rparr>"

definition conv_bool :: converter where
  "conv_bool name val = cbind (parse_bool name val) (\<lambda>b. Inr (Any_bool b))"

definition conv_number :: converter where
  "conv_number name val = cbind (parse_number name val) (\<lambda>n. Inr (Any_u32 n))"

definition conv_path :: converter where
  "conv_path name val = cbind (parse_path name val) (\<lambda>p. Inr (Any_path p))"

definition conv_existing_path :: "(string \<Rightarrow> bool) \<Rightarrow> converter" where
  "conv_existing_path exists name val = cbind (parse_existing_path exists name val) (\<lambda>p. Inr (Any_path p))"

text \<open>\<^verbatim>\<open>converter<uint32_t>(parsers::parse_capacity)\<close> narrows the 64-bit result.\<close>

definition conv_capacity32 :: converter where
  "conv_capacity32 name val = cbind (parse_capacity name val) (\<lambda>n. Inr (Any_u32 (ucast n)))"

definition conv_capacity64 :: converter where
  "conv_capacity64 name val = cbind (parse_capacity name val) (\<lambda>n. Inr (Any_u64 n))"

text \<open>The schema of the configuration file; \<open>dry\<close> is the default of \<^verbatim>\<open>dry_run\<close>.\<close>

definition global_options :: "bool \<Rightarrow> group_schema" where
  "global_options dry =
     [(''bind_address'', declare_option True None None),
      (''control_socket'', declare_option True None (Some conv_path)),
      (''dry_run'', declare_option False (Some (Any_bool dry)) (Some conv_bool)),
      (''global_socket'', declare_option True None (Some conv_path)),
      (''log_file'', declare_option False None (Some conv_path)),
      (''log_file_max_size'', declare_option False None (Some conv_capacity32)),
      (''pidfile'', declare_option True None (Some conv_path)),
      (''remote_port'', declare_option True None (Some conv_number)),
      (''staging_directory'', declare_option True None (Some conv_path)),
      (''use_syslog'', declare_option True None (Some conv_bool)),
      (''workers'', declare_option True None (Some conv_number))]"

definition namespace_options :: "(string \<Rightarrow> bool) \<Rightarrow> group_schema" where
  "namespace_options exists =
     [(''capacity'', declare_option True None (Some conv_capacity64)),
      (''mountpoint'', declare_option True None (Some (conv_existing_path exists))),
      (''nsid'', declare_option True None None),
      (''track_contents'', declare_option True None (Some conv_bool)),
      (''type'', declare_option True None None),
      (''visibility'', declare_option True None None)]"

definition valid_options :: "(string \<Rightarrow> bool) \<Rightarrow> bool \<Rightarrow> (string \<times> section_schema) list" where
  "valid_options exists dry =
     [(''global_settings'', \<lparr>ss_mandatory = True, ss_schema = Group_schema (global_options dry)\<rparr>),
      (''namespaces'', \<lparr>ss_mandatory = False, ss_schema = List_schema (namespace_options exists)\<rparr>)]"

section \<open>Options read from a file\<close>

text \<open>
  What the reader uses of the YAML library, on its type of nodes: the entries a node is iterated over, the pairs of
  keys and values an entry is iterated over, \<^verbatim>\<open>as<std::string>\<close>, and \<^verbatim>\<open>config[name]\<close> tested as a boolean
  (\<open>None\<close> when there is no such section). Each operation may throw an exception of the library.
\<close>

record 'n yaml_api =
  y_entries :: "'n \<Rightarrow> 'n list"
  y_pairs :: "'n \<Rightarrow> ('n \<times> 'n) list"
  y_string :: "'n \<Rightarrow> config_exn + string"
  y_section :: "'n \<Rightarrow> string \<Rightarrow> config_exn + 'n option"

definition entry_pairs :: "'n yaml_api \<Rightarrow> 'n \<Rightarrow> ('n \<times> 'n) list" where
  "entry_pairs Y node = concat (map (y_pairs Y) (y_entries Y node))"

type_synonym options_group = "(string, option_any) umap"

datatype section_value = Sec_group options_group | Sec_list "options_group list"

type_synonym options_map = "(string, section_value) umap"

abbreviation match_any :: string where "match_any \<equiv> ''.*''"

text \<open>One pair of a map; \<open>accept_all\<close> is \<open>False\<close> for a group, and says for a list whether its schema has the wildcard.\<close>

definition visit_pair ::
  "'n yaml_api \<Rightarrow> string \<Rightarrow> group_schema \<Rightarrow> bool \<Rightarrow> options_group \<Rightarrow> 'n \<times> 'n \<Rightarrow> config_exn + options_group" where
  "visit_pair Y m_name opts accept_all parsed kv =
     cbind (y_string Y (fst kv)) (\<lambda>key.
     cbind (y_string Y (snd kv)) (\<lambda>text_value.
     cbind (case map_of opts key of
              Some os \<Rightarrow> Inr os
            | None \<Rightarrow>
                if accept_all then Inr (the (map_of opts match_any))
                else Inl (Invalid_argument_exn (''Invalid argument '' @ quoted key @ '' in '' @ quoted m_name))) (\<lambda>os.
     cbind (case os_converter os of Some conv \<Rightarrow> conv key text_value | None \<Rightarrow> Inr (Any_string text_value)) (\<lambda>v.
       Inr (um_emplace key v parsed)))))"

fun visit_pairs ::
  "'n yaml_api \<Rightarrow> string \<Rightarrow> group_schema \<Rightarrow> bool \<Rightarrow> options_group \<Rightarrow> ('n \<times> 'n) list \<Rightarrow> config_exn + options_group" where
  "visit_pairs Y m_name opts accept_all parsed [] = Inr parsed"
| "visit_pairs Y m_name opts accept_all parsed (kv # kvs) =
     cbind (visit_pair Y m_name opts accept_all parsed kv) (\<lambda>parsed'. visit_pairs Y m_name opts accept_all parsed' kvs)"

fun check_mandatory :: "group_schema \<Rightarrow> options_group \<Rightarrow> config_exn + unit" where
  "check_mandatory [] parsed = Inr ()"
| "check_mandatory ((opt_name, os) # opts) parsed =
     (if os_mandatory os \<and> um_count parsed opt_name = 0
      then Inl (Invalid_argument_exn (''Missing mandatory option '' @ quoted opt_name))
      else check_mandatory opts parsed)"

fun add_defaults :: "group_schema \<Rightarrow> options_group \<Rightarrow> options_group" where
  "add_defaults [] parsed = parsed"
| "add_defaults ((opt_name, os) # opts) parsed =
     add_defaults opts
       (case os_default os of
          Some v \<Rightarrow> (if um_count parsed opt_name = 0 then um_emplace opt_name v parsed else parsed)
        | None \<Rightarrow> parsed)"

text \<open>The two overloads of \<^verbatim>\<open>yaml_visitor::operator()\<close>. Only a group has its mandatory options checked.\<close>

definition visit_group :: "'n yaml_api \<Rightarrow> string \<Rightarrow> group_schema \<Rightarrow> 'n \<Rightarrow> config_exn + options_group" where
  "visit_group Y m_name opts config =
     cbind (visit_pairs Y m_name opts False [] (entry_pairs Y config)) (\<lambda>parsed.
     cbind (check_mandatory opts parsed) (\<lambda>_. Inr (add_defaults opts parsed)))"

fun visit_list :: "'n yaml_api \<Rightarrow> string \<Rightarrow> group_schema \<Rightarrow> 'n list \<Rightarrow> config_exn + options_group list" where
  "visit_list Y m_name opts [] = Inr []"
| "visit_list Y m_name opts (entry # entries) =
     cbind (visit_pairs Y m_name opts (map_of opts match_any \<noteq> None) []
              (entry_pairs Y entry)) (\<lambda>g.
     cbind (visit_list Y m_name opts entries) (\<lambda>gs. Inr (g # gs)))"

text \<open>\<^verbatim>\<open>parse_yaml_file\<close>, on the document \<^verbatim>\<open>YAML::LoadFile\<close> returned.\<close>

fun parse_yaml_file :: "'n yaml_api \<Rightarrow> 'n \<Rightarrow> (string \<times> section_schema) list \<Rightarrow> options_map \<Rightarrow> config_exn + options_map" where
  "parse_yaml_file Y config [] opt_map = Inr opt_map"
| "parse_yaml_file Y config ((opt_name, ss) # sections) opt_map =
     cbind (y_section Y config opt_name) (\<lambda>node.
       case node of
         None \<Rightarrow>
           if ss_mandatory ss
           then Inl (Invalid_argument_exn (''Mandatory section '' @ quoted opt_name @ '' is missing''))
           else parse_yaml_file Y config sections opt_map
       | Some sec \<Rightarrow>
           cbind (case ss_schema ss of
                    Group_schema opts \<Rightarrow> cbind (visit_group Y opt_name opts sec) (\<lambda>g. Inr (Sec_group g))
                  | List_schema opts \<Rightarrow> cbind (visit_list Y opt_name opts (y_entries Y sec)) (\<lambda>gs. Inr (Sec_list gs))) (\<lambda>sv.
             parse_yaml_file Y config sections (um_emplace opt_name sv opt_map)))"

section \<open>Reading options\<close>

definition option_missing :: "string \<Rightarrow> config_exn" where
  "option_missing opt_name = Invalid_argument_exn (''option '' @ quoted opt_name @ '' missing'')"

definition group_get :: "(option_any \<Rightarrow> 'a option) \<Rightarrow> options_group \<Rightarrow> string \<Rightarrow> config_exn + 'a" where
  "group_get cast g opt_name =
     (case um_find g opt_name of
        None \<Rightarrow> Inl (option_missing opt_name)
      | Some v \<Rightarrow> (case cast v of None \<Rightarrow> Inl Bad_any_cast | Some a \<Rightarrow> Inr a))"

fun any_bool :: "option_any \<Rightarrow> bool option" where
  "any_bool (Any_bool b) = Some b" | "any_bool _ = None"

fun any_path :: "option_any \<Rightarrow> string option" where
  "any_path (Any_path p) = Some p" | "any_path _ = None"

fun any_u32 :: "option_any \<Rightarrow> u32 option" where
  "any_u32 (Any_u32 n) = Some n" | "any_u32 _ = None"

fun any_u64 :: "option_any \<Rightarrow> u64 option" where
  "any_u64 (Any_u64 n) = Some n" | "any_u64 _ = None"

fun any_string :: "option_any \<Rightarrow> string option" where
  "any_string (Any_string s) = Some s" | "any_string _ = None"

definition map_get_group :: "options_map \<Rightarrow> string \<Rightarrow> config_exn + options_group" where
  "map_get_group m opt_name =
     (case um_find m opt_name of
        None \<Rightarrow> Inl (option_missing opt_name)
      | Some (Sec_group g) \<Rightarrow> Inr g
      | Some (Sec_list gs) \<Rightarrow> Inl Bad_any_cast)"

definition map_get_list :: "options_map \<Rightarrow> string \<Rightarrow> config_exn + options_group list" where
  "map_get_list m opt_name =
     (case um_find m opt_name of
        None \<Rightarrow> Inl (option_missing opt_name)
      | Some (Sec_list gs) \<Rightarrow> Inr gs
      | Some (Sec_group g) \<Rightarrow> Inl Bad_any_cast)"

section \<open>Settings\<close>

record settings =
  s_progname :: string
  s_daemonize :: bool
  s_use_syslog :: bool
  s_use_console :: bool
  s_log_file :: string
  s_log_file_max_size :: u32
  s_dry_run :: bool
  s_dry_run_duration :: u32
  s_global_socket :: string
  s_control_socket :: string
  s_bind_address :: string
  s_remote_port :: "16 word"
  s_pidfile :: string
  s_workers_in_pool :: u32
  s_staging_directory :: string
  s_backlog_size :: u32
  s_config_file :: string
  s_default_namespaces :: "namespace_def list"

text \<open>The namespace \<^verbatim>\<open>defaults\<close> gives a value for every setting but the list of namespaces, which is cleared.\<close>

definition load_defaults :: "settings \<Rightarrow> settings \<Rightarrow> settings" where
  "load_defaults defaults s = defaults\<lparr>s_default_namespaces := []\<rparr>"

definition read_namespace_def :: "options_group \<Rightarrow> config_exn + namespace_def" where
  "read_namespace_def nsdef =
     cbind (group_get any_string nsdef ''nsid'') (\<lambda>nsid.
     cbind (group_get any_bool nsdef ''track_contents'') (\<lambda>track.
     cbind (group_get any_path nsdef ''mountpoint'') (\<lambda>mountpoint.
     cbind (group_get any_string nsdef ''type'') (\<lambda>alias.
     cbind (group_get any_u64 nsdef ''capacity'') (\<lambda>capacity.
     cbind (group_get any_string nsdef ''visibility'') (\<lambda>visibility.
       Inr \<lparr>nd_nsid = nsid, nd_track = track, nd_mountpoint = mountpoint, nd_alias = alias, nd_capacity = capacity,
            nd_visibility = visibility\<rparr>))))))"

fun read_namespace_defs :: "options_group list \<Rightarrow> namespace_def list \<Rightarrow> config_exn + namespace_def list" where
  "read_namespace_defs [] defs = Inr defs"
| "read_namespace_defs (g # gs) defs = cbind (read_namespace_def g) (\<lambda>d. read_namespace_defs gs (defs @ [d]))"

text \<open>A log file and its size are kept when the file does not mention them; the port is stored in 16 bits.\<close>

definition load_from_file :: "'n yaml_api \<Rightarrow> (string \<Rightarrow> bool) \<Rightarrow> settings \<Rightarrow> 'n \<Rightarrow> settings \<Rightarrow> config_exn + settings" where
  "load_from_file Y exists defaults doc s =
     cbind (parse_yaml_file Y doc (valid_options exists (s_dry_run defaults)) []) (\<lambda>opt_map.
     cbind (map_get_group opt_map ''global_settings'') (\<lambda>g.
     cbind (group_get any_bool g ''use_syslog'') (\<lambda>use_syslog.
     cbind (if um_count g ''log_file'' \<noteq> 0 then group_get any_path g ''log_file'' else Inr (s_log_file s)) (\<lambda>log_file.
     cbind (if um_count g ''log_file_max_size'' \<noteq> 0 then group_get any_u32 g ''log_file_max_size''
            else Inr (s_log_file_max_size s)) (\<lambda>max_size.
     cbind (group_get any_bool g ''dry_run'') (\<lambda>dry_run.
     cbind (group_get any_path g ''global_socket'') (\<lambda>global_socket.
     cbind (group_get any_path g ''control_socket'') (\<lambda>control_socket.
     cbind (group_get any_string g ''bind_address'') (\<lambda>bind_address.
     cbind (group_get any_u32 g ''remote_port'') (\<lambda>remote_port.
     cbind (group_get any_path g ''pidfile'') (\<lambda>pidfile.
     cbind (group_get any_u32 g ''workers'') (\<lambda>workers.
     cbind (group_get any_path g ''staging_directory'') (\<lambda>staging_directory.
     cbind (map_get_list opt_map ''namespaces'') (\<lambda>namespaces.
     cbind (read_namespace_defs namespaces (s_default_namespaces s)) (\<lambda>defs.
       Inr (s\<lparr>s_progname := s_progname defaults, s_use_syslog := use_syslog, s_use_console := s_use_console defaults,
              s_log_file := log_file, s_log_file_max_size := max_size, s_dry_run := dry_run,
              s_dry_run_duration := s_dry_run_duration defaults, s_global_socket := global_socket,
              s_control_socket := control_socket, s_bind_address := bind_address, s_remote_port := ucast remote_port,
              s_pidfile := pidfile, s_workers_in_pool := workers, s_staging_directory := staging_directory,
              s_backlog_size := s_backlog_size defaults, s_default_namespaces := defs\<rparr>))))))))))))))))"

section \<open>Before the daemon starts\<close>

text \<open>The command line as \<^verbatim>\<open>boost::program_options\<close> parsed it; \<open>None\<close> when it threw an error.\<close>

record command_line =
  o_foreground :: bool
  o_dry_run :: "u32 option"
  o_force_console :: bool
  o_version :: bool
  o_help :: bool

text \<open>\<^verbatim>\<open>bpo::notify\<close> calls the notifiers; the one of a switch with a default is always called.\<close>

definition notify :: "command_line \<Rightarrow> settings \<Rightarrow> settings" where
  "notify vm cfg =
     (let cfg1 = cfg\<lparr>s_daemonize := \<not> o_foreground vm\<rparr>;
          cfg2 = (case o_dry_run vm of
                    Some duration \<Rightarrow> cfg1\<lparr>s_dry_run := True, s_dry_run_duration := duration\<rparr>
                  | None \<Rightarrow> cfg1)
      in if o_force_console vm then cfg2\<lparr>s_use_console := True\<rparr> else cfg2)"

datatype startup = Exit_success | Exit_failure | Run settings

text \<open>\<open>load\<close> is \<^verbatim>\<open>YAML::LoadFile\<close>, \<open>uninit\<close> the memory of the settings before they are constructed.\<close>

definition main_configure ::
  "'n yaml_api \<Rightarrow> (string \<Rightarrow> bool) \<Rightarrow> settings \<Rightarrow> (string \<Rightarrow> config_exn + 'n) \<Rightarrow> settings \<Rightarrow> command_line option \<Rightarrow> startup" where
  "main_configure Y exists defaults load uninit args =
     (let cfg = load_defaults defaults (load_defaults defaults uninit)
      in case args of
           None \<Rightarrow> Exit_failure
         | Some vm \<Rightarrow>
             if o_help vm then Exit_success
             else if o_version vm then Exit_success
             else if \<not> exists (s_config_file cfg) then Exit_failure
             else case cbind (load (s_config_file cfg)) (\<lambda>doc. load_from_file Y exists defaults doc cfg) of
                 Inl e \<Rightarrow> Exit_failure
               | Inr cfg' \<Rightarrow> Run (notify vm cfg'))"

end
