(* ===== verification/Config_Reader.thy ===== *)
theory Config_Reader
  imports Config
begin

text \<open>
  What the reader of configuration files does, against the file's text: which sections a schema accepts and what an
  option then means, which files \<^verbatim>\<open>settings::load_from_file\<close> accepts and the settings they give, and how the command
  line overrides them.
\<close>

section \<open>What the reader accepts\<close>

text \<open>
  The specification: the pairs of a section as texts, and the value an option has for a text. \<open>None\<close> when the option
  is unknown or its converter throws.
\<close>

definition pair_texts :: "'n yaml_api \<Rightarrow> 'n \<times> 'n \<Rightarrow> string \<times> string \<Rightarrow> bool" where
  "pair_texts Y kv kt \<longleftrightarrow> y_string Y (fst kv) = Inr (fst kt) \<and> y_string Y (snd kv) = Inr (snd kt)"

definition section_texts :: "'n yaml_api \<Rightarrow> 'n \<Rightarrow> (string \<times> string) list \<Rightarrow> bool" where
  "section_texts Y node ts \<longleftrightarrow> list_all2 (pair_texts Y) (entry_pairs Y node) ts"

definition option_of_text :: "group_schema \<Rightarrow> string \<Rightarrow> string \<Rightarrow> option_any option" where
  "option_of_text opts key t =
     Option.bind (map_of opts key) (\<lambda>os.
       case os_converter os of
         None \<Rightarrow> Some (Any_string t)
       | Some conv \<Rightarrow> (case conv key t of Inl e \<Rightarrow> None | Inr v \<Rightarrow> Some v))"

definition texts_ok :: "group_schema \<Rightarrow> (string \<times> string) list \<Rightarrow> bool" where
  "texts_ok opts ts \<longleftrightarrow> (\<forall>(k, t) \<in> set ts. option_of_text opts k t \<noteq> None)"

definition mandatory_given :: "group_schema \<Rightarrow> (string \<times> string) list \<Rightarrow> bool" where
  "mandatory_given opts ts \<longleftrightarrow> (\<forall>(k, os) \<in> set opts. os_mandatory os \<longrightarrow> k \<in> fst ` set ts)"

definition section_accepted :: "'n yaml_api \<Rightarrow> group_schema \<Rightarrow> 'n \<Rightarrow> (string \<times> string) list \<Rightarrow> bool" where
  "section_accepted Y opts node ts \<longleftrightarrow> section_texts Y node ts \<and> texts_ok opts ts \<and> mandatory_given opts ts"

text \<open>An option has the value of its first occurrence, and its default when it does not occur.\<close>

definition option_meaning :: "group_schema \<Rightarrow> (string \<times> string) list \<Rightarrow> string \<Rightarrow> option_any option" where
  "option_meaning opts ts k =
     (case map_of ts k of
        Some t \<Rightarrow> option_of_text opts k t
      | None \<Rightarrow> Option.bind (map_of opts k) os_default)"

lemma visit_pair_iff:
  "visit_pair Y m opts False g kv = Inr g' \<longleftrightarrow>
     (\<exists>kt v. pair_texts Y kv kt \<and> option_of_text opts (fst kt) (snd kt) = Some v \<and> g' = um_emplace (fst kt) v g)"
proof -
  have *: "visit_pair Y m opts False g kv = Inr g' \<longleftrightarrow>
      (\<exists>v. option_of_text opts k t = Some v \<and> g' = um_emplace k v g)"
    if "pair_texts Y kv (k, t)" for k t
    using that
    by (cases "map_of opts k")
      (auto simp: visit_pair_def pair_texts_def option_of_text_def split: option.splits sum.splits)
  show ?thesis
  proof (cases "\<exists>k t. pair_texts Y kv (k, t)")
    case True
    with * show ?thesis
      by (fastforce simp: pair_texts_def)
  next
    case False
    then show ?thesis
      by (auto simp: visit_pair_def pair_texts_def cbind_eq_Inr)
  qed
qed

text \<open>What the pairs of a section add to a group.\<close>

fun emplace_texts :: "group_schema \<Rightarrow> (string \<times> string) list \<Rightarrow> options_group \<Rightarrow> options_group" where
  "emplace_texts opts [] g = g"
| "emplace_texts opts ((k, t) # ts) g = emplace_texts opts ts (um_emplace k (the (option_of_text opts k t)) g)"

lemma visit_pairs_iff:
  "visit_pairs Y m opts False g kvs = Inr g' \<longleftrightarrow>
     (\<exists>ts. list_all2 (pair_texts Y) kvs ts \<and> texts_ok opts ts \<and> g' = emplace_texts opts ts g)"
proof (induction kvs arbitrary: g)
  case (Cons kv kvs)
  have "visit_pairs Y m opts False g (kv # kvs) = Inr g' \<longleftrightarrow>
      (\<exists>kt v ts. pair_texts Y kv kt \<and> option_of_text opts (fst kt) (snd kt) = Some v \<and>
         list_all2 (pair_texts Y) kvs ts \<and> texts_ok opts ts \<and> g' = emplace_texts opts ts (um_emplace (fst kt) v g))"
    by (auto simp: cbind_eq_Inr visit_pair_iff Cons.IH)
  also have "\<dots> \<longleftrightarrow> (\<exists>ts. list_all2 (pair_texts Y) (kv # kvs) ts \<and> texts_ok opts ts \<and> g' = emplace_texts opts ts g)"
    by (fastforce simp: list_all2_Cons1 texts_ok_def)
  finally show ?case .
qed (auto simp: texts_ok_def)

lemma find_emplace_texts:
  assumes "texts_ok opts ts"
  shows "um_find (emplace_texts opts ts g) k =
           (case um_find g k of Some v \<Rightarrow> Some v | None \<Rightarrow> Option.bind (map_of ts k) (option_of_text opts k))"
  using assms by (induction opts ts g rule: emplace_texts.induct) (auto simp: texts_ok_def split: option.splits)

lemma texts_ok_find:
  assumes "texts_ok opts ts"
  shows "um_find (emplace_texts opts ts []) k = None \<longleftrightarrow> k \<notin> fst ` set ts"
proof (cases "map_of ts k")
  case (Some t)
  then have "(k, t) \<in> set ts"
    by (rule map_of_SomeD)
  with assms Some show ?thesis
    by (force simp: find_emplace_texts texts_ok_def)
next
  case None
  with assms show ?thesis
    by (simp add: find_emplace_texts flip: map_of_eq_None_iff)
qed

lemma check_mandatory_iff:
  "check_mandatory opts g = Inr () \<longleftrightarrow> (\<forall>(k, os) \<in> set opts. os_mandatory os \<longrightarrow> um_find g k \<noteq> None)"
  by (induction opts g rule: check_mandatory.induct) auto

lemma find_add_defaults:
  assumes "distinct (map fst opts)"
  shows "um_find (add_defaults opts g) k =
           (case um_find g k of Some v \<Rightarrow> Some v | None \<Rightarrow> Option.bind (map_of opts k) os_default)"
  using assms
proof (induction opts g rule: add_defaults.induct)
  case (2 name os opts g)
  have "map_of opts name = None"
    using 2(2) by (simp add: map_of_eq_None_iff)
  with 2 show ?case
    by (auto split: option.splits)
qed (auto split: option.splits)

lemma visit_group_iff:
  "visit_group Y m opts node = Inr g \<longleftrightarrow>
     (\<exists>ts. section_accepted Y opts node ts \<and> g = add_defaults opts (emplace_texts opts ts []))"
proof -
  have "check_mandatory opts (emplace_texts opts ts []) = Inr () \<longleftrightarrow> mandatory_given opts ts"
    if "texts_ok opts ts" for ts
    using texts_ok_find [OF that]
    by (simp add: check_mandatory_iff mandatory_given_def)
  then show ?thesis
    by (auto simp: visit_group_def cbind_eq_Inr visit_pairs_iff section_texts_def section_accepted_def)
qed

lemma section_texts_unique:
  assumes "section_texts Y node ts" "section_texts Y node ts'"
  shows "ts = ts'"
proof (rule nth_equalityI)
  show "length ts = length ts'"
    using assms by (metis section_texts_def list_all2_lengthD)
  show "ts ! i = ts' ! i" if "i < length ts" for i
    using assms that by (auto simp: section_texts_def list_all2_conv_all_nth pair_texts_def prod_eq_iff)
qed

lemma find_group:
  assumes "distinct (map fst opts)" "texts_ok opts ts"
  shows "um_find (add_defaults opts (emplace_texts opts ts [])) k = option_meaning opts ts k"
proof (cases "map_of ts k")
  case (Some t)
  then have "option_of_text opts k t \<noteq> None"
    using assms(2) by (fastforce simp: texts_ok_def dest: map_of_SomeD)
  with Some assms show ?thesis
    by (auto simp: find_add_defaults find_emplace_texts option_meaning_def)
qed (use assms in \<open>simp add: find_add_defaults find_emplace_texts option_meaning_def\<close>)

lemma visit_group_find:
  assumes "distinct (map fst opts)" "visit_group Y m opts node = Inr g"
  obtains ts where "section_accepted Y opts node ts" "\<forall>k. um_find g k = option_meaning opts ts k"
  using assms(2) find_group [OF assms(1)] unfolding visit_group_iff section_accepted_def by blast

text \<open>
  Reading a section of options implements its schema: the section is accepted exactly when every pair is a pair of
  texts, names an option of the schema and converts, and every mandatory option occurs; then an option of the result
  has the value of its first occurrence, an option that does not occur has its default, and nothing else is in it.
\<close>

theorem visit_group_implements_schema:
  assumes "distinct (map fst opts)"
  shows "(case visit_group Y m opts node of
            Inl e \<Rightarrow> \<not> (\<exists>ts. section_accepted Y opts node ts)
          | Inr g \<Rightarrow> (\<exists>ts. section_accepted Y opts node ts \<and> (\<forall>k. um_find g k = option_meaning opts ts k)))"
proof (cases "visit_group Y m opts node")
  case (Inl e)
  then have "visit_group Y m opts node \<noteq> Inr g" for g
    by simp
  with Inl show ?thesis
    unfolding visit_group_iff by auto
next
  case (Inr g)
  with visit_group_find [OF assms this] show ?thesis
    by auto
qed

section \<open>What the settings are after a file is read\<close>

text \<open>A group read along a schema from a section with the texts \<open>ts\<close>.\<close>

definition reads_as :: "group_schema \<Rightarrow> (string \<times> string) list \<Rightarrow> options_group \<Rightarrow> bool" where
  "reads_as opts ts g \<longleftrightarrow> texts_ok opts ts \<and> mandatory_given opts ts \<and> (\<forall>k. um_find g k = option_meaning opts ts k)"

definition bool_of_text :: "string \<Rightarrow> bool" where
  "bool_of_text t \<longleftrightarrow> t = ''1'' \<or> map to_lower t = ''true''"

definition number_of_text :: "string \<Rightarrow> u32" where
  "number_of_text t = word_of_int (the (stoi t))"

definition capacity_of_text :: "string \<Rightarrow> u64" where
  "capacity_of_text t = (case parse_size t of Inl e \<Rightarrow> 0 | Inr n \<Rightarrow> n)"

lemma conv_eq_Inr:
  "conv_path k t = Inr v \<longleftrightarrow> v = Any_path t"
  "conv_existing_path ex k t = Inr v \<longleftrightarrow> ex t \<and> v = Any_path t"
  "conv_bool k t = Inr v \<Longrightarrow> v = Any_bool (bool_of_text t)"
  "conv_number k t = Inr v \<Longrightarrow> v = Any_u32 (number_of_text t)"
  "conv_capacity32 k t = Inr v \<Longrightarrow> v = Any_u32 (ucast (capacity_of_text t))"
  "conv_capacity64 k t = Inr v \<Longrightarrow> v = Any_u64 (capacity_of_text t)"
  by (auto simp: conv_path_def parse_path_def conv_existing_path_def parse_existing_path_def conv_bool_def parse_bool_def
      conv_number_def parse_number_def conv_capacity32_def conv_capacity64_def parse_capacity_def cbind_eq_Inr
      bool_of_text_def number_of_text_def capacity_of_text_def split: if_splits option.splits sum.splits)

lemma option_given:
  assumes "reads_as opts ts g" "map_of opts k = Some os" "map_of ts k = Some t"
  shows "option_of_text opts k t \<noteq> None \<and> um_find g k = option_of_text opts k t"
  using assms by (fastforce simp: reads_as_def texts_ok_def option_meaning_def dest: map_of_SomeD)

lemma mandatory_text:
  assumes "reads_as opts ts g" "map_of opts k = Some os" "os_mandatory os"
  obtains t where "map_of ts k = Some t"
  using assms by (force simp: reads_as_def mandatory_given_def map_of_eq_None_iff dest: map_of_SomeD)

text \<open>An option that is given, and one with a converter that is given, by the converter.\<close>

lemma get_string:
  assumes "reads_as opts ts g" "map_of opts k = Some (declare_option True None None)"
  shows "group_get any_string g k = Inr (the (map_of ts k))"
proof (rule mandatory_text [OF assms])
  fix t assume "map_of ts k = Some t"
  with option_given [OF assms this] assms(2) show ?thesis
    by (auto simp: declare_option_def group_get_def option_of_text_def)
qed (simp add: declare_option_def)

lemma get_converted:
  assumes "reads_as opts ts g" "map_of opts k = Some (declare_option b d (Some conv))" "map_of ts k = Some t"
  obtains v where "conv k t = Inr v" "um_find g k = Some v"
  using option_given [OF assms] assms(2) that
  by (auto simp: declare_option_def option_of_text_def split: sum.splits)

lemma get_mandatory:
  assumes "reads_as opts ts g" "map_of opts k = Some (declare_option True d (Some conv))"
  obtains v where "conv k (the (map_of ts k)) = Inr v" "um_find g k = Some v"
proof (rule mandatory_text [OF assms])
  fix t assume t: "map_of ts k = Some t"
  show thesis
    by (rule get_converted [OF assms t]) (use t that in auto)
qed (simp add: declare_option_def)

lemma get_path:
  assumes "reads_as opts ts g" "map_of opts k = Some (declare_option True None (Some conv_path))"
  shows "group_get any_path g k = Inr (the (map_of ts k))"
  by (rule get_mandatory [OF assms]) (auto simp: group_get_def conv_eq_Inr)

lemma get_existing_path:
  assumes "reads_as opts ts g" "map_of opts k = Some (declare_option True None (Some (conv_existing_path ex)))"
  shows "group_get any_path g k = Inr (the (map_of ts k))"
  by (rule get_mandatory [OF assms]) (auto simp: group_get_def conv_eq_Inr)

lemma get_bool:
  assumes "reads_as opts ts g" "map_of opts k = Some (declare_option True None (Some conv_bool))"
  shows "group_get any_bool g k = Inr (bool_of_text (the (map_of ts k)))"
  by (rule get_mandatory [OF assms]) (auto simp: group_get_def dest!: conv_eq_Inr(3))

lemma get_number:
  assumes "reads_as opts ts g" "map_of opts k = Some (declare_option True None (Some conv_number))"
  shows "group_get any_u32 g k = Inr (number_of_text (the (map_of ts k)))"
  by (rule get_mandatory [OF assms]) (auto simp: group_get_def dest!: conv_eq_Inr(4))

lemma get_capacity64:
  assumes "reads_as opts ts g" "map_of opts k = Some (declare_option True None (Some conv_capacity64))"
  shows "group_get any_u64 g k = Inr (capacity_of_text (the (map_of ts k)))"
  by (rule get_mandatory [OF assms]) (auto simp: group_get_def dest!: conv_eq_Inr(6))

lemma has_optional:
  assumes "reads_as opts ts g" "map_of opts k = Some (declare_option False None conv)"
  shows "um_find g k = None \<longleftrightarrow> map_of ts k = None"
  using assms option_given [OF assms]
  by (cases "map_of ts k") (auto simp: reads_as_def option_meaning_def declare_option_def)

text \<open>A namespace of the file and the settings it describes, by the texts of its sections.\<close>

definition namespace_of_texts :: "(string \<times> string) list \<Rightarrow> namespace_def" where
  "namespace_of_texts ts =
     \<lparr>nd_nsid = the (map_of ts ''nsid''), nd_track = bool_of_text (the (map_of ts ''track_contents'')),
      nd_mountpoint = the (map_of ts ''mountpoint''), nd_alias = the (map_of ts ''type''),
      nd_capacity = capacity_of_text (the (map_of ts ''capacity'')), nd_visibility = the (map_of ts ''visibility'')\<rparr>"

definition settings_of_texts :: "settings \<Rightarrow> (string \<times> string) list \<Rightarrow> namespace_def list \<Rightarrow> settings \<Rightarrow> settings" where
  "settings_of_texts defaults ts nss s =
     s\<lparr>s_progname := s_progname defaults,
       s_use_syslog := bool_of_text (the (map_of ts ''use_syslog'')),
       s_use_console := s_use_console defaults,
       s_log_file := (case map_of ts ''log_file'' of None \<Rightarrow> s_log_file s | Some t \<Rightarrow> t),
       s_log_file_max_size :=
         (case map_of ts ''log_file_max_size'' of None \<Rightarrow> s_log_file_max_size s | Some t \<Rightarrow> ucast (capacity_of_text t)),
       s_dry_run := (case map_of ts ''dry_run'' of None \<Rightarrow> s_dry_run defaults | Some t \<Rightarrow> bool_of_text t),
       s_dry_run_duration := s_dry_run_duration defaults,
       s_global_socket := the (map_of ts ''global_socket''),
       s_control_socket := the (map_of ts ''control_socket''),
       s_bind_address := the (map_of ts ''bind_address''),
       s_remote_port := ucast (number_of_text (the (map_of ts ''remote_port''))),
       s_pidfile := the (map_of ts ''pidfile''),
       s_workers_in_pool := number_of_text (the (map_of ts ''workers'')),
       s_staging_directory := the (map_of ts ''staging_directory''),
       s_backlog_size := s_backlog_size defaults,
       s_default_namespaces := s_default_namespaces s @ nss\<rparr>"

lemma distinct_options: "distinct (map fst (global_options dry))" "distinct (map fst (namespace_options ex))"
  by (simp_all add: global_options_def namespace_options_def)

lemma no_wildcard: "map_of (namespace_options ex) match_any = None"
  by (simp add: namespace_options_def)

lemma reads_global:
  assumes "reads_as (global_options dry) ts g"
  shows "group_get any_string g ''bind_address'' = Inr (the (map_of ts ''bind_address''))"
    and "group_get any_path g ''control_socket'' = Inr (the (map_of ts ''control_socket''))"
    and "group_get any_path g ''global_socket'' = Inr (the (map_of ts ''global_socket''))"
    and "group_get any_path g ''pidfile'' = Inr (the (map_of ts ''pidfile''))"
    and "group_get any_path g ''staging_directory'' = Inr (the (map_of ts ''staging_directory''))"
    and "group_get any_bool g ''use_syslog'' = Inr (bool_of_text (the (map_of ts ''use_syslog'')))"
    and "group_get any_u32 g ''remote_port'' = Inr (number_of_text (the (map_of ts ''remote_port'')))"
    and "group_get any_u32 g ''workers'' = Inr (number_of_text (the (map_of ts ''workers'')))"
  by (rule get_string [OF assms] get_path [OF assms] get_bool [OF assms] get_number [OF assms];
      simp add: global_options_def)+

lemma reads_global_optional:
  assumes "reads_as (global_options dry) ts g"
  shows "um_find g ''log_file'' = None \<longleftrightarrow> map_of ts ''log_file'' = None"
    and "um_find g ''log_file_max_size'' = None \<longleftrightarrow> map_of ts ''log_file_max_size'' = None"
    and "map_of ts ''log_file'' = Some t \<Longrightarrow> group_get any_path g ''log_file'' = Inr t"
    and "map_of ts ''log_file_max_size'' = Some t \<Longrightarrow>
           group_get any_u32 g ''log_file_max_size'' = Inr (ucast (capacity_of_text t))"
    and "group_get any_bool g ''dry_run'' = Inr (case map_of ts ''dry_run'' of None \<Rightarrow> dry | Some t \<Rightarrow> bool_of_text t)"
proof -
  have opts: "map_of (global_options dry) ''log_file'' = Some (declare_option False None (Some conv_path))"
    "map_of (global_options dry) ''log_file_max_size'' = Some (declare_option False None (Some conv_capacity32))"
    "map_of (global_options dry) ''dry_run'' = Some (declare_option False (Some (Any_bool dry)) (Some conv_bool))"
    by (simp_all add: global_options_def)
  show "um_find g ''log_file'' = None \<longleftrightarrow> map_of ts ''log_file'' = None"
    "um_find g ''log_file_max_size'' = None \<longleftrightarrow> map_of ts ''log_file_max_size'' = None"
    by (rule has_optional [OF assms opts(1)], rule has_optional [OF assms opts(2)])
  show "group_get any_path g ''log_file'' = Inr t" if "map_of ts ''log_file'' = Some t"
    by (rule get_converted [OF assms opts(1) that]) (auto simp: group_get_def conv_eq_Inr)
  show "group_get any_u32 g ''log_file_max_size'' = Inr (ucast (capacity_of_text t))"
    if "map_of ts ''log_file_max_size'' = Some t"
    by (rule get_converted [OF assms opts(2) that]) (auto simp: group_get_def dest!: conv_eq_Inr(5))
  show "group_get any_bool g ''dry_run'' = Inr (case map_of ts ''dry_run'' of None \<Rightarrow> dry | Some t \<Rightarrow> bool_of_text t)"
  proof (cases "map_of ts ''dry_run''")
    case None
    with assms opts(3) show ?thesis
      by (simp add: reads_as_def option_meaning_def group_get_def declare_option_def)
  next
    case (Some t)
    show ?thesis
      by (rule get_converted [OF assms opts(3) Some]) (auto simp: group_get_def Some dest!: conv_eq_Inr(3))
  qed
qed

lemma reads_namespace:
  assumes "reads_as (namespace_options ex) ts g"
  shows "read_namespace_def g = Inr (namespace_of_texts ts)"
proof -
  have "group_get any_string g ''nsid'' = Inr (the (map_of ts ''nsid''))"
    "group_get any_string g ''type'' = Inr (the (map_of ts ''type''))"
    "group_get any_string g ''visibility'' = Inr (the (map_of ts ''visibility''))"
    "group_get any_bool g ''track_contents'' = Inr (bool_of_text (the (map_of ts ''track_contents'')))"
    "group_get any_path g ''mountpoint'' = Inr (the (map_of ts ''mountpoint''))"
    "group_get any_u64 g ''capacity'' = Inr (capacity_of_text (the (map_of ts ''capacity'')))"
    by (rule get_string [OF assms] get_bool [OF assms] get_existing_path [OF assms] get_capacity64 [OF assms];
        simp add: namespace_options_def)+
  then show ?thesis
    by (simp add: read_namespace_def_def namespace_of_texts_def)
qed

lemma find_namespace_group:
  assumes "texts_ok (namespace_options ex) ts"
  shows "um_find (emplace_texts (namespace_options ex) ts []) k = option_meaning (namespace_options ex) ts k"
proof -
  have "Option.bind (map_of (namespace_options ex) k) os_default = None"
    by (simp add: namespace_options_def declare_option_def)
  with assms show ?thesis
    by (simp add: find_emplace_texts option_meaning_def split: option.splits)
qed

text \<open>
  The visitor does not check the mandatory options of a namespace; reading them does, so that a namespace is accepted
  exactly like a group.
\<close>

lemma group_get_find: "group_get cast g k = Inr v \<Longrightarrow> um_find g k \<noteq> None"
  by (simp add: group_get_def split: option.splits)

lemma read_namespace_def_iff:
  assumes "texts_ok (namespace_options ex) ts"
  shows "read_namespace_def (emplace_texts (namespace_options ex) ts []) = Inr d \<longleftrightarrow>
           mandatory_given (namespace_options ex) ts \<and> d = namespace_of_texts ts" (is "?read = Inr d \<longleftrightarrow> ?given \<and> _")
proof (cases ?given)
  case True
  with assms have "reads_as (namespace_options ex) ts (emplace_texts (namespace_options ex) ts [])"
    by (simp add: reads_as_def find_namespace_group)
  then show ?thesis
    using True reads_namespace by auto
next
  case False
  have "?given" if "?read = Inr d"
  proof -
    let ?g = "emplace_texts (namespace_options ex) ts []"
    have "k \<in> fst ` set ts" if "k \<in> set [''nsid'', ''track_contents'', ''mountpoint'', ''type'', ''capacity'', ''visibility'']" for k
      using \<open>?read = Inr d\<close> that texts_ok_find [OF assms, of k]
      by (auto simp: read_namespace_def_def cbind_eq_Inr dest!: group_get_find)
    then show ?thesis
      by (simp add: mandatory_given_def namespace_options_def)
  qed
  with False show ?thesis by blast
qed

lemma read_namespaces_iff:
  "(\<exists>l. visit_list Y m (namespace_options ex) entries = Inr l \<and> read_namespace_defs l defs = Inr r) \<longleftrightarrow>
     (\<exists>tss. list_all2 (section_accepted Y (namespace_options ex)) entries tss \<and> r = defs @ map namespace_of_texts tss)"
proof (induction entries arbitrary: defs)
  case (Cons entry entries)
  let ?opts = "namespace_options ex"
  have "(\<exists>l. visit_list Y m ?opts (entry # entries) = Inr l \<and> read_namespace_defs l defs = Inr r) \<longleftrightarrow>
      (\<exists>ts d. section_texts Y entry ts \<and> texts_ok ?opts ts \<and> read_namespace_def (emplace_texts ?opts ts []) = Inr d \<and>
         (\<exists>l. visit_list Y m ?opts entries = Inr l \<and> read_namespace_defs l (defs @ [d]) = Inr r))"
    unfolding cbind_eq_Inr [symmetric] by (auto simp: cbind_assoc cbind_eq_Inr no_wildcard visit_pairs_iff section_texts_def)
  also have "\<dots> \<longleftrightarrow> (\<exists>ts d. section_accepted Y ?opts entry ts \<and> d = namespace_of_texts ts \<and>
      (\<exists>tss. list_all2 (section_accepted Y ?opts) entries tss \<and> r = (defs @ [d]) @ map namespace_of_texts tss))"
    unfolding Cons.IH section_accepted_def by (blast dest: read_namespace_def_iff [THEN iffD1] read_namespace_def_iff [THEN iffD2])
  also have "\<dots> \<longleftrightarrow> (\<exists>tss. list_all2 (section_accepted Y ?opts) (entry # entries) tss \<and>
      r = defs @ map namespace_of_texts tss)"
    by (fastforce simp: list_all2_Cons1)
  finally show ?case .
qed auto

text \<open>The two sections of a file.\<close>

lemma parse_valid_options:
  "parse_yaml_file Y doc (valid_options ex dry) [] = Inr m \<longleftrightarrow>
     (\<exists>gsec g. y_section Y doc ''global_settings'' = Inr (Some gsec) \<and>
        visit_group Y ''global_settings'' (global_options dry) gsec = Inr g \<and>
        (y_section Y doc ''namespaces'' = Inr None \<and> m = [(''global_settings'', Sec_group g)] \<or>
         (\<exists>nsec l. y_section Y doc ''namespaces'' = Inr (Some nsec) \<and>
            visit_list Y ''namespaces'' (namespace_options ex) (y_entries Y nsec) = Inr l \<and>
            m = [(''namespaces'', Sec_list l), (''global_settings'', Sec_group g)])))"
  by (cases "y_section Y doc ''global_settings''"; cases "y_section Y doc ''namespaces''")
    (auto simp: valid_options_def cbind_eq_Inr um_emplace_def split: option.splits)

lemma read_namespace_defs_append: "read_namespace_defs l defs = Inr r \<Longrightarrow> \<exists>nss. r = defs @ nss"
  by (induction l defs rule: read_namespace_defs.induct) (auto simp: cbind_eq_Inr)

lemma load_after_parse:
  assumes "parse_yaml_file Y doc (valid_options ex (s_dry_run defaults)) [] = Inr m"
    and "um_find m ''global_settings'' = Some (Sec_group g)" "um_find m ''namespaces'' = Some (Sec_list l)"
    and "reads_as (global_options (s_dry_run defaults)) ts g"
  shows "load_from_file Y ex defaults doc s = Inr s' \<longleftrightarrow>
           (\<exists>nss. read_namespace_defs l (s_default_namespaces s) = Inr (s_default_namespaces s @ nss) \<and>
              s' = settings_of_texts defaults ts nss s)"
proof -
  note g = reads_global [OF assms(4)] reads_global_optional [OF assms(4)]
  have log_file: "(if um_count g ''log_file'' \<noteq> 0 then group_get any_path g ''log_file'' else Inr (s_log_file s)) =
      Inr (case map_of ts ''log_file'' of None \<Rightarrow> s_log_file s | Some t \<Rightarrow> t)"
    using g by (auto split: option.splits)
  have max_size: "(if um_count g ''log_file_max_size'' \<noteq> 0 then group_get any_u32 g ''log_file_max_size''
      else Inr (s_log_file_max_size s)) =
      Inr (case map_of ts ''log_file_max_size'' of None \<Rightarrow> s_log_file_max_size s | Some t \<Rightarrow> ucast (capacity_of_text t))"
    using g by (auto split: option.splits)
  show ?thesis
    unfolding load_from_file_def assms(1) cbind_simps map_get_group_def map_get_list_def assms(2,3) option.case
      section_value.case log_file max_size g(1-8,13) settings_of_texts_def
    using read_namespace_defs_append [of l "s_default_namespaces s"] by (auto simp: cbind_eq_Inr)
qed

lemma load_needs_namespaces:
  assumes "load_from_file Y ex defaults doc s = Inr s'"
  obtains gsec g nsec l where
    "y_section Y doc ''global_settings'' = Inr (Some gsec)"
    "visit_group Y ''global_settings'' (global_options (s_dry_run defaults)) gsec = Inr g"
    "y_section Y doc ''namespaces'' = Inr (Some nsec)"
    "visit_list Y ''namespaces'' (namespace_options ex) (y_entries Y nsec) = Inr l"
    "parse_yaml_file Y doc (valid_options ex (s_dry_run defaults)) [] =
       Inr [(''namespaces'', Sec_list l), (''global_settings'', Sec_group g)]"
proof -
  from assms obtain m where m: "parse_yaml_file Y doc (valid_options ex (s_dry_run defaults)) [] = Inr m"
    and ns: "\<exists>l. map_get_list m ''namespaces'' = Inr l"
    by (auto simp: load_from_file_def cbind_eq_Inr)
  from m ns that show thesis
    unfolding parse_valid_options by (auto simp: map_get_list_def)
qed

lemma load_from_file_iff:
  "load_from_file Y ex defaults doc s = Inr s' \<longleftrightarrow>
     (\<exists>gsec ts nsec tss.
        y_section Y doc ''global_settings'' = Inr (Some gsec) \<and>
        section_accepted Y (global_options (s_dry_run defaults)) gsec ts \<and>
        y_section Y doc ''namespaces'' = Inr (Some nsec) \<and>
        list_all2 (section_accepted Y (namespace_options ex)) (y_entries Y nsec) tss \<and>
        s' = settings_of_texts defaults ts (map namespace_of_texts tss) s)" (is "?load \<longleftrightarrow> ?file")
proof
  assume load: ?load
  then obtain gsec g nsec l where secs: "y_section Y doc ''global_settings'' = Inr (Some gsec)"
      "visit_group Y ''global_settings'' (global_options (s_dry_run defaults)) gsec = Inr g"
      "y_section Y doc ''namespaces'' = Inr (Some nsec)"
      "visit_list Y ''namespaces'' (namespace_options ex) (y_entries Y nsec) = Inr l"
    and parse: "parse_yaml_file Y doc (valid_options ex (s_dry_run defaults)) [] =
       Inr [(''namespaces'', Sec_list l), (''global_settings'', Sec_group g)]"
    by (rule load_needs_namespaces)
  obtain ts where acc: "section_accepted Y (global_options (s_dry_run defaults)) gsec ts"
    and find: "\<forall>k. um_find g k = option_meaning (global_options (s_dry_run defaults)) ts k"
    by (rule visit_group_find [OF distinct_options(1) secs(2)])
  then have "reads_as (global_options (s_dry_run defaults)) ts g"
    by (simp add: reads_as_def section_accepted_def)
  with load obtain nss where nss: "read_namespace_defs l (s_default_namespaces s) = Inr (s_default_namespaces s @ nss)"
      "s' = settings_of_texts defaults ts nss s"
    using load_after_parse [OF parse, of g l ts] by auto
  then obtain tss where "list_all2 (section_accepted Y (namespace_options ex)) (y_entries Y nsec) tss"
      "nss = map namespace_of_texts tss"
    using read_namespaces_iff [of Y "''namespaces''" ex "y_entries Y nsec" "s_default_namespaces s"
        "s_default_namespaces s @ nss"] secs(4) by auto
  with secs acc nss show ?file by blast
next
  assume ?file
  then obtain gsec ts nsec tss where secs: "y_section Y doc ''global_settings'' = Inr (Some gsec)"
      "y_section Y doc ''namespaces'' = Inr (Some nsec)"
    and acc: "section_accepted Y (global_options (s_dry_run defaults)) gsec ts"
      "list_all2 (section_accepted Y (namespace_options ex)) (y_entries Y nsec) tss"
    and s': "s' = settings_of_texts defaults ts (map namespace_of_texts tss) s"
    by blast
  define g where "g = add_defaults (global_options (s_dry_run defaults)) (emplace_texts (global_options (s_dry_run defaults)) ts [])"
  have g: "visit_group Y ''global_settings'' (global_options (s_dry_run defaults)) gsec = Inr g"
    using acc(1) unfolding visit_group_iff g_def by blast
  have reads: "reads_as (global_options (s_dry_run defaults)) ts g"
    using acc(1) by (simp add: reads_as_def section_accepted_def g_def find_group distinct_options)
  obtain l where l: "visit_list Y ''namespaces'' (namespace_options ex) (y_entries Y nsec) = Inr l"
      "read_namespace_defs l (s_default_namespaces s) = Inr (s_default_namespaces s @ map namespace_of_texts tss)"
    using acc(2) read_namespaces_iff [of Y "''namespaces''" ex "y_entries Y nsec" "s_default_namespaces s"] by blast
  have "parse_yaml_file Y doc (valid_options ex (s_dry_run defaults)) [] =
      Inr [(''namespaces'', Sec_list l), (''global_settings'', Sec_group g)]"
    using secs g l(1) unfolding parse_valid_options by blast
  from load_after_parse [OF this _ _ reads] l(2) s' show ?load by auto
qed


text \<open>
  Although the schema declares the section of namespaces optional, a file without it is refused, whatever the rest
  of it says.
\<close>

theorem namespaces_section_required:
  assumes "y_section Y doc ''namespaces'' = Inr None"
  shows "map_of (valid_options ex dry) ''namespaces'' =
           Some \<lparr>ss_mandatory = False, ss_schema = List_schema (namespace_options ex)\<rparr> \<and>
         (\<exists>e. load_from_file Y ex defaults doc s = Inl e)"
proof -
  have "load_from_file Y ex defaults doc s \<noteq> Inr s'" for s'
    using assms by (auto simp: load_from_file_iff)
  then have "\<exists>e. load_from_file Y ex defaults doc s = Inl e"
    by (cases "load_from_file Y ex defaults doc s") auto
  then show ?thesis
    by (simp add: valid_options_def)
qed

section \<open>What the daemon is started with\<close>

text \<open>A number that converts is positive and fits in 31 bits.\<close>

lemma conv_number_bounds:
  assumes "conv_number k t = Inr v"
  shows "0 < unat (number_of_text t) \<and> unat (number_of_text t) < 2 ^ 31"
proof -
  from assms obtain n where n: "stoi t = Some n" "0 < n"
    by (auto simp: conv_number_def parse_number_def cbind_eq_Inr split: option.splits if_splits)
  then have "n < 2 ^ 31"
    by (auto simp: stoi_def Let_def split: if_splits prod.splits)
  with n have "uint (number_of_text t) = n"
    by (simp add: number_of_text_def uint_word_of_int)
  with n \<open>n < 2 ^ 31\<close> show ?thesis
    by (simp add: unat_eq_nat_uint)
qed

lemma accepted_workers:
  assumes "section_accepted Y (global_options dry) node ts"
  shows "0 < unat (number_of_text (the (map_of ts ''workers''))) \<and>
         unat (number_of_text (the (map_of ts ''workers''))) < 2 ^ 31"
proof -
  define g where "g = add_defaults (global_options dry) (emplace_texts (global_options dry) ts [])"
  have g: "reads_as (global_options dry) ts g"
    using assms by (simp add: reads_as_def section_accepted_def g_def find_group distinct_options)
  have "map_of (global_options dry) ''workers'' = Some (declare_option True None (Some conv_number))"
    by (simp add: global_options_def)
  then show ?thesis
    by (rule get_mandatory [OF g]) (erule conv_number_bounds)
qed

text \<open>
  When the daemon is started, the settings are those of the configuration file with what the command line says put
  over them: it is a daemon unless \<^verbatim>\<open>-f\<close> was given, a dry run when \<^verbatim>\<open>-d\<close> was given or the file says so, logs to the
  console when \<^verbatim>\<open>-C\<close> was given; the namespaces are exactly those of the file, and there is at least one worker.
\<close>

theorem main_starts_with:
  assumes "main_configure Y ex defaults load uninit args = Run s"
  shows "\<exists>vm doc ts tss cfg.
     args = Some vm \<and> \<not> o_help vm \<and> \<not> o_version vm \<and>
     ex (s_config_file defaults) \<and> load (s_config_file defaults) = Inr doc \<and>
     cfg = settings_of_texts defaults ts (map namespace_of_texts tss) (defaults\<lparr>s_default_namespaces := []\<rparr>) \<and>
     s = cfg\<lparr>s_daemonize := \<not> o_foreground vm,
             s_dry_run := (o_dry_run vm \<noteq> None \<or> s_dry_run cfg),
             s_dry_run_duration := (case o_dry_run vm of None \<Rightarrow> s_dry_run_duration defaults | Some d \<Rightarrow> d),
             s_use_console := (o_force_console vm \<or> s_use_console defaults)\<rparr> \<and>
     s_default_namespaces s = map namespace_of_texts tss \<and>
     0 < unat (s_workers_in_pool s) \<and> unat (s_workers_in_pool s) < 2 ^ 31"
proof -
  define cfg0 where "cfg0 = defaults\<lparr>s_default_namespaces := []\<rparr>"
  obtain vm doc cfg where run: "args = Some vm" "\<not> o_help vm" "\<not> o_version vm" "ex (s_config_file defaults)"
      "load (s_config_file defaults) = Inr doc" "load_from_file Y ex defaults doc cfg0 = Inr cfg" "s = notify vm cfg"
    using assms by (auto simp: main_configure_def load_defaults_def cfg0_def cbind_def Let_def split: option.splits if_splits sum.splits)
  from run(6) obtain gsec ts tss where described: "section_accepted Y (global_options (s_dry_run defaults)) gsec ts"
      "cfg = settings_of_texts defaults ts (map namespace_of_texts tss) cfg0"
    unfolding load_from_file_iff by blast
  have "s = cfg\<lparr>s_daemonize := \<not> o_foreground vm,
             s_dry_run := (o_dry_run vm \<noteq> None \<or> s_dry_run cfg),
             s_dry_run_duration := (case o_dry_run vm of None \<Rightarrow> s_dry_run_duration defaults | Some d \<Rightarrow> d),
             s_use_console := (o_force_console vm \<or> s_use_console defaults)\<rparr>"
    unfolding run(7) described(2) by (simp add: notify_def settings_of_texts_def Let_def split: option.splits)
  moreover have "s_default_namespaces s = map namespace_of_texts tss"
      "s_workers_in_pool s = number_of_text (the (map_of ts ''workers''))"
    unfolding run(7) described(2)
    by (simp_all add: notify_def settings_of_texts_def cfg0_def Let_def split: option.splits)
  ultimately show ?thesis
    using run(1-5) described(2) accepted_workers [OF described(1)] unfolding cfg0_def by metis
qed

section \<open>A sample file\<close>

datatype sample_node = N_text string | N_seq "sample_node list" | N_map "(sample_node \<times> sample_node) list"

primrec sample_entries :: "sample_node \<Rightarrow> sample_node list" where
  "sample_entries (N_text t) = []" | "sample_entries (N_seq ns) = ns" | "sample_entries (N_map kvs) = []"

primrec sample_pairs :: "sample_node \<Rightarrow> (sample_node \<times> sample_node) list" where
  "sample_pairs (N_text t) = []" | "sample_pairs (N_seq ns) = []" | "sample_pairs (N_map kvs) = kvs"

primrec sample_string :: "sample_node \<Rightarrow> config_exn + string" where
  "sample_string (N_text t) = Inr t" | "sample_string (N_seq ns) = Inl Yaml_exn" | "sample_string (N_map kvs) = Inl Yaml_exn"

definition sample_api :: "sample_node yaml_api" where
  "sample_api = \<lparr>y_entries = sample_entries, y_pairs = sample_pairs, y_string = sample_string,
                 y_section = (\<lambda>n k. Inr (map_of (sample_pairs n) (N_text k)))\<rparr>"

definition sample_group :: "(string \<times> string) list \<Rightarrow> sample_node" where
  "sample_group kvs = N_seq (map (\<lambda>(k, v). N_map [(N_text k, N_text v)]) kvs)"

definition sample_global :: "(string \<times> string) list" where
  "sample_global =
     [(''use_syslog'', ''False''), (''global_socket'', ''/g''), (''control_socket'', ''/c''), (''bind_address'', ''lo''),
      (''remote_port'', ''65537''), (''pidfile'', ''/p''), (''workers'', ''4 or more''), (''staging_directory'', ''/s''),
      (''workers'', ''8'')]"

definition sample_namespace :: "(string \<times> string) list" where
  "sample_namespace =
     [(''nsid'', ''tmp0''), (''track_contents'', ''1''), (''mountpoint'', ''/tmp''), (''type'', ''POSIX''),
      (''capacity'', ''16''), (''visibility'', ''node'')]"

definition sample_file :: "sample_node" where
  "sample_file = N_map [(N_text ''global_settings'', sample_group sample_global),
                        (N_text ''namespaces'', N_seq [sample_group sample_namespace])]"

definition sample_defaults :: settings where
  "sample_defaults = \<lparr>s_progname = ''urd'', s_daemonize = True, s_use_syslog = False, s_use_console = False,
     s_log_file = ''/l'', s_log_file_max_size = 0, s_dry_run = False, s_dry_run_duration = 0, s_global_socket = [],
     s_control_socket = [], s_bind_address = [], s_remote_port = 0, s_pidfile = [], s_workers_in_pool = 1,
     s_staging_directory = [], s_backlog_size = 128, s_config_file = ''/f'', s_default_namespaces = []\<rparr>"

lemma sample_texts: "section_texts sample_api (sample_group ts) ts"
proof -
  have "entry_pairs sample_api (sample_group ts) = map (\<lambda>(k, v). (N_text k, N_text v)) ts"
    by (induction ts) (auto simp: entry_pairs_def sample_api_def sample_group_def)
  then show ?thesis
    by (simp add: section_texts_def list_all2_conv_all_nth pair_texts_def sample_api_def split: prod.splits)
qed

lemmas conv_defs = conv_path_def parse_path_def conv_existing_path_def parse_existing_path_def conv_bool_def parse_bool_def
  conv_number_def parse_number_def conv_capacity32_def conv_capacity64_def parse_capacity_def

lemma sample_lower: "map to_lower ''False'' = ''false''"
  by code_simp

lemma sample_global_accepted:
  "section_accepted sample_api (global_options (s_dry_run sample_defaults)) (sample_group sample_global) sample_global"
proof -
  have "texts_ok (global_options False) sample_global"
    by (simp add: texts_ok_def sample_global_def global_options_def option_of_text_def declare_option_def conv_defs
        stoi_def is_space_def is_digit_def decimal_def digit_value_def sample_lower [simplified])
  moreover have "mandatory_given (global_options False) sample_global"
    by (simp add: mandatory_given_def sample_global_def global_options_def declare_option_def)
  ultimately show ?thesis
    by (simp add: section_accepted_def sample_texts sample_defaults_def)
qed

lemma sample_capacity: "parse_size ''16'' = Inr 16"
  by (subst parse_size_number [of "''16''" "[]"])
    (simp_all add: stod_def decimal_def digit_value_def is_digit_def is_space_def size_factor_def conversions_def round53_exact)

lemma sample_namespace_accepted:
  "section_accepted sample_api (namespace_options (\<lambda>p. True)) (sample_group sample_namespace) sample_namespace"
proof -
  have "texts_ok (namespace_options (\<lambda>p. True)) sample_namespace"
    by (simp add: texts_ok_def sample_namespace_def namespace_options_def option_of_text_def declare_option_def conv_defs to_lower_def
        sample_capacity)
  moreover have "mandatory_given (namespace_options (\<lambda>p. True)) sample_namespace"
    by (simp add: mandatory_given_def sample_namespace_def namespace_options_def declare_option_def)
  ultimately show ?thesis
    by (simp add: section_accepted_def sample_texts)
qed

text \<open>The schema of global settings, on the sample section: the first number of workers is the one that counts.\<close>

theorem visit_group_implements_schema_witness:
  "\<exists>g. visit_group sample_api ''global_settings'' (global_options False) (sample_group sample_global) = Inr g \<and>
     um_find g ''workers'' = Some (Any_u32 4) \<and> um_find g ''dry_run'' = Some (Any_bool False) \<and> um_find g ''log_file'' = None"
proof -
  have acc: "section_accepted sample_api (global_options False) (sample_group sample_global) sample_global"
    using sample_global_accepted by (simp add: sample_defaults_def)
  have spec: "case visit_group sample_api ''global_settings'' (global_options False) (sample_group sample_global) of
      Inl e \<Rightarrow> \<not> (\<exists>ts. section_accepted sample_api (global_options False) (sample_group sample_global) ts)
    | Inr g \<Rightarrow> (\<exists>ts. section_accepted sample_api (global_options False) (sample_group sample_global) ts \<and>
                  (\<forall>k. um_find g k = option_meaning (global_options False) ts k))"
    by (rule visit_group_implements_schema) (rule distinct_options)
  with acc obtain g ts where g: "visit_group sample_api ''global_settings'' (global_options False) (sample_group sample_global) = Inr g"
    "section_accepted sample_api (global_options False) (sample_group sample_global) ts"
    "\<forall>k. um_find g k = option_meaning (global_options False) ts k"
    by (auto split: sum.splits)
  have "ts = sample_global"
    using g(2) acc section_texts_unique by (auto simp: section_accepted_def)
  with g show ?thesis
    by (simp add: option_meaning_def option_of_text_def sample_global_def global_options_def declare_option_def conv_defs
        stoi_def is_space_def is_digit_def decimal_def digit_value_def)
qed

text \<open>The sample file asks for port 65537 and the daemon listens on port 1.\<close>

lemma sample_file_loads:
  "load_from_file sample_api (\<lambda>p. True) sample_defaults sample_file (sample_defaults\<lparr>s_default_namespaces := []\<rparr>) =
     Inr (settings_of_texts sample_defaults sample_global [namespace_of_texts sample_namespace]
            (sample_defaults\<lparr>s_default_namespaces := []\<rparr>))"
proof -
  have "y_section sample_api sample_file ''global_settings'' = Inr (Some (sample_group sample_global))"
    "y_section sample_api sample_file ''namespaces'' = Inr (Some (N_seq [sample_group sample_namespace]))"
    "y_entries sample_api (N_seq [sample_group sample_namespace]) = [sample_group sample_namespace]"
    by (simp_all add: sample_api_def sample_file_def)
  with sample_global_accepted sample_namespace_accepted show ?thesis
    unfolding load_from_file_iff
    by (intro exI [of _ "sample_group sample_global"] exI [of _ sample_global] exI [of _ "N_seq [sample_group sample_namespace]"]
        exI [of _ "[sample_namespace]"]) auto
qed

theorem namespaces_section_required_witness:
  "\<exists>e. load_from_file sample_api (\<lambda>p. True) sample_defaults
        (N_map [(N_text ''global_settings'', sample_group sample_global)]) sample_defaults = Inl e"
proof -
  have "y_section sample_api (N_map [(N_text ''global_settings'', sample_group sample_global)]) ''namespaces'' = Inr None"
    by (simp add: sample_api_def)
  from namespaces_section_required [OF this] show ?thesis by blast
qed

definition sample_args :: command_line where
  "sample_args = \<lparr>o_foreground = True, o_dry_run = Some 100, o_force_console = False, o_version = False, o_help = False\<rparr>"

theorem main_starts_with_witness:
  "\<exists>s. main_configure sample_api (\<lambda>p. True) sample_defaults (\<lambda>f. Inr sample_file) sample_defaults (Some sample_args) = Run s \<and>
     s_remote_port s = 1 \<and> \<not> s_daemonize s \<and> s_dry_run s \<and> length (s_default_namespaces s) = 1 \<and> 0 < unat (s_workers_in_pool s)"
proof -
  define cfg where "cfg = settings_of_texts sample_defaults sample_global [namespace_of_texts sample_namespace]
      (sample_defaults\<lparr>s_default_namespaces := []\<rparr>)"
  have run: "main_configure sample_api (\<lambda>p. True) sample_defaults (\<lambda>f. Inr sample_file) sample_defaults (Some sample_args) =
      Run (notify sample_args cfg)"
    using sample_file_loads by (simp add: main_configure_def sample_args_def load_defaults_def cfg_def)
  have "0 < unat (s_workers_in_pool (notify sample_args cfg))"
    using main_starts_with [OF run] by blast
  moreover have "s_remote_port cfg = 1"
    by (simp add: cfg_def settings_of_texts_def sample_global_def number_of_text_def stoi_def is_space_def is_digit_def
        decimal_def digit_value_def)
  ultimately show ?thesis
    using run by (simp add: notify_def sample_args_def cfg_def settings_of_texts_def)
qed

end
