(* ===== verification/Client_Context.thy ===== *)
theory Client_Context
  imports Client_Api Config_Reader
begin

text \<open>
  How a client library starts: the contexts of its threads (\<^verbatim>\<open>lib/context-common.c\<close>), the reader of the configuration
  file (\<^verbatim>\<open>lib/config-parser.c\<close>) and the constructors of the two libraries (\<^verbatim>\<open>lib/libnorns.c\<close>, \<^verbatim>\<open>lib/libnornsctl.c\<close>),
  which are the same but for their names. The scanner of libyaml, the environment of the process and the
  thread-specific storage are parameters.
\<close>

section \<open>The environment\<close>

datatype yaml_token = YT_key | YT_value | YT_scalar string | YT_stream_end | YT_other

text \<open>
  A call of the scanner succeeds or not, and sets the token of the caller in both cases. A function that hands out an
  error number returns 0 on success.
\<close>

record 'w lib_env = "'w client" +
  lc_key_create :: "'w \<Rightarrow> int \<times> 'w"
  lc_setspecific :: "'w \<Rightarrow> int \<times> 'w"
  lc_sizeof_context :: nat
  lc_getenv :: "string \<Rightarrow> string option"
  lc_default_config_file :: string
  lc_access :: "string \<Rightarrow> 'w \<Rightarrow> int \<times> 'w"
  lc_parser_initialize :: "'w \<Rightarrow> bool \<times> 'w"
  lc_fopen :: "string \<Rightarrow> 'w \<Rightarrow> bool \<times> 'w"
  lc_scan :: "'w \<Rightarrow> (bool \<times> yaml_token) \<times> 'w"

section \<open>Contexts\<close>

text \<open>
  The value the key of the library has in each thread. A key that was just created has no value in any thread.
\<close>

type_synonym tls = "nat \<Rightarrow> libcontext option"

definition create_context :: "('w, 'e) lib_env_scheme \<Rightarrow> nat \<Rightarrow> ('w, tls) io" where
  "create_context env tid =
     io_bind (io_call (lc_key_create env)) (\<lambda>err.
       if err \<noteq> 0 then io_lift (Inl Process_Exit)
       else io_bind (io_call (cl_malloc env (lc_sizeof_context env))) (\<lambda>ok.
         if \<not> ok then io_lift (Inl Process_Exit)
         else io_bind (io_call (lc_setspecific env)) (\<lambda>err.
           if err \<noteq> 0 then io_lift (Inl Process_Exit)
           else io_return ((\<lambda>_. None)(tid \<mapsto> \<lparr>config_file = None, api_socket = None\<rparr>)))))"

text \<open>The environment a function of the library runs in, in thread \<open>tid\<close>.\<close>

definition in_thread :: "('w, 'e) lib_env_scheme \<Rightarrow> tls \<Rightarrow> nat \<Rightarrow> ('w, 'e) lib_env_scheme" where
  "in_thread env contexts tid = env\<lparr>cl_context := contexts tid\<rparr>"

section \<open>The configuration file\<close>

datatype scan_state = EXPECT_KEY | EXPECT_VALUE

record kvpair =
  kv_key :: string
  kv_val :: "string option"

definition find_opt :: "string \<Rightarrow> kvpair list \<Rightarrow> nat option" where
  "find_opt tk valid_opts =
     (case filter (\<lambda>i. kv_key (valid_opts ! i) = tk) [0..<length valid_opts] of [] \<Rightarrow> None | i # _ \<Rightarrow> Some i)"

text \<open>One token, in a state with \<^verbatim>\<open>scan_state\<close>, \<^verbatim>\<open>datap\<close> (an index into the options) and the options.\<close>

definition take_token ::
  "('w, 'e) client_env_scheme \<Rightarrow> yaml_token \<Rightarrow> scan_state \<times> nat option \<times> kvpair list \<Rightarrow>
   ('w, scan_state \<times> nat option \<times> kvpair list) io" where
  "take_token env token st =
     (case st of (scan_state, datap, valid_opts) \<Rightarrow>
        case token of
          YT_key \<Rightarrow> io_return (EXPECT_KEY, datap, valid_opts)
        | YT_value \<Rightarrow> io_return (EXPECT_VALUE, datap, valid_opts)
        | YT_scalar tk \<Rightarrow>
            (case scan_state of
               EXPECT_KEY \<Rightarrow> io_return (scan_state, find_opt tk valid_opts, valid_opts)
             | EXPECT_VALUE \<Rightarrow>
                 (case datap of
                    None \<Rightarrow> io_return st
                  | Some i \<Rightarrow> io_bind (xstrdup env (Some tk)) (\<lambda>v.
                      io_return (scan_state, datap, valid_opts[i := (valid_opts ! i)\<lparr>kv_val := v\<rparr>]))))
        | _ \<Rightarrow> io_return st)"

text \<open>After a failed call of the scanner the loop goes on unless the token says that the stream has ended.\<close>

fun scan_loop ::
  "nat \<Rightarrow> ('w, 'e) lib_env_scheme \<Rightarrow> scan_state \<times> nat option \<times> kvpair list \<Rightarrow>
   ('w, scan_state \<times> nat option \<times> kvpair list) io" where
  "scan_loop 0 env st = io_lift (Inl Diverges)"
| "scan_loop (Suc fuel) env st =
     io_bind (io_call (lc_scan env)) (\<lambda>(ok, token).
     io_bind (if ok then take_token env token st else io_return st) (\<lambda>st'.
       if token = YT_stream_end then io_return st' else scan_loop fuel env st'))"

definition parse_config_file ::
  "('w, 'e) lib_env_scheme \<Rightarrow> string \<Rightarrow> kvpair list \<Rightarrow> ('w, int \<times> kvpair list) io" where
  "parse_config_file env file_name valid_opts =
     io_bind (io_call (lc_parser_initialize env)) (\<lambda>ok.
       if \<not> ok then io_return (-1, valid_opts)
       else io_bind (io_call (lc_fopen env file_name)) (\<lambda>ok.
         if \<not> ok then io_return (-1, valid_opts)
         else io_bind (scan_loop (cl_fuel env) env (EXPECT_KEY, None, valid_opts)) (\<lambda>(_, _, opts).
           io_return (0, opts))))"

definition load_config_file :: "('w, 'e) lib_env_scheme \<Rightarrow> tls \<Rightarrow> nat \<Rightarrow> ('w, tls) io" where
  "load_config_file env contexts tid =
     (let file_name = (case lc_getenv env ''NORNS_CONFIG_FILE'' of None \<Rightarrow> lc_default_config_file env | Some f \<Rightarrow> f)
      in io_bind (io_call (lc_access env file_name)) (\<lambda>r.
        if r = -1 then io_lift (Inl Process_Exit)
        else io_bind (parse_config_file env file_name [\<lparr>kv_key = ''global_socket'', kv_val = None\<rparr>]) (\<lambda>(rv, valid_opts).
          if rv \<noteq> 0 then io_lift (Inl Process_Exit)
          else io_bind (get_context (in_thread env contexts tid)) (\<lambda>ctx.
            io_bind (xstrdup env (Some file_name)) (\<lambda>cf.
            io_bind (xstrdup env (kv_val (valid_opts ! 0))) (\<lambda>sock.
              io_return (contexts(tid \<mapsto> ctx\<lparr>config_file := cf, api_socket := sock\<rparr>))))))))"

text \<open>The constructor of either library, in the thread that loads it.\<close>

definition library_init :: "('w, 'e) lib_env_scheme \<Rightarrow> nat \<Rightarrow> ('w, tls) io" where
  "library_init env tid = io_bind (create_context env tid) (\<lambda>contexts. load_config_file env contexts tid)"

text \<open>The destructor frees the context of its own thread and deletes the key, and with it the values of all threads.\<close>

definition destroy_context :: "tls \<Rightarrow> tls" where
  "destroy_context contexts = (\<lambda>_. None)"

section \<open>What the scanner finds\<close>

text \<open>
  The specification. A file that was opened yields its tokens in order. The tokens of a mapping, at any depth and
  without those the reader ignores: each key with its value when the value is a scalar.
\<close>

definition token_source :: "('w, 'e) lib_env_scheme \<Rightarrow> ('w \<Rightarrow> yaml_token list) \<Rightarrow> bool" where
  "token_source env scans \<longleftrightarrow>
     (\<forall>w tok toks. scans w = tok # toks \<longrightarrow> (\<exists>w'. lc_scan env w = ((True, tok), w') \<and> scans w' = toks)) \<and>
     (\<forall>n w. scans (snd (cl_malloc env n w)) = scans w)"

fun pair_tokens :: "string \<times> string option \<Rightarrow> yaml_token list" where
  "pair_tokens (k, None) = [YT_key, YT_scalar k, YT_value]"
| "pair_tokens (k, Some v) = [YT_key, YT_scalar k, YT_value, YT_scalar v]"

definition file_tokens :: "yaml_token list \<Rightarrow> (string \<times> string option) list \<Rightarrow> bool" where
  "file_tokens toks ts \<longleftrightarrow>
     YT_stream_end \<notin> set toks \<and> filter (\<lambda>t. t \<noteq> YT_other) toks = concat (map pair_tokens ts)"

definition scalars :: "(string \<times> string option) list \<Rightarrow> (string \<times> string) list" where
  "scalars ts = List.map_filter (\<lambda>(k, v). map_option (Pair k) v) ts"

lemma scalars_simps [simp]:
  "scalars [] = []" "scalars ((k, None) # ts) = scalars ts" "scalars ((k, Some v) # ts) = (k, v) # scalars ts"
  by (simp_all add: scalars_def)

text \<open>What a token does to the state of the reader when memory is available.\<close>

fun token_step :: "yaml_token \<Rightarrow> scan_state \<times> nat option \<times> kvpair list \<Rightarrow> scan_state \<times> nat option \<times> kvpair list" where
  "token_step YT_key (st, d, opts) = (EXPECT_KEY, d, opts)"
| "token_step YT_value (st, d, opts) = (EXPECT_VALUE, d, opts)"
| "token_step (YT_scalar tk) (EXPECT_KEY, d, opts) = (EXPECT_KEY, find_opt tk opts, opts)"
| "token_step (YT_scalar tk) (EXPECT_VALUE, None, opts) = (EXPECT_VALUE, None, opts)"
| "token_step (YT_scalar tk) (EXPECT_VALUE, Some i, opts) =
     (EXPECT_VALUE, Some i, opts[i := (opts ! i)\<lparr>kv_val := Some (bounded_copy tk)\<rparr>])"
| "token_step _ s = s"

lemma take_token_gives:
  assumes "memory_available env"
  shows "gives env (token_step tok st) (take_token env tok st)"
proof (cases "(tok, st)" rule: token_step.cases)
  case (5 tk i opts)
  then show ?thesis
    using assms by (auto simp: take_token_def intro!: gives_bind [OF gives_xstrdup] gives_return)
qed (auto simp: take_token_def intro!: gives_return split: scan_state.splits)

lemma token_source_mallocs: "token_source env scans \<Longrightarrow> mallocs env w w' \<Longrightarrow> scans w' = scans w"
  by (rule mallocs_keep [where env = env]) (simp_all add: token_source_def)

lemma scan_loop_tokens:
  assumes "token_source env scans" and "memory_available env"
  shows "scans w = toks @ [YT_stream_end] \<Longrightarrow> YT_stream_end \<notin> set toks \<Longrightarrow> length toks < fuel \<Longrightarrow>
    \<exists>w'. scan_loop fuel env st w = Inr (fold token_step toks st, w')"
proof (induction toks arbitrary: fuel st w)
  case Nil
  obtain w1 where "lc_scan env w = ((True, YT_stream_end), w1)"
    using assms(1) Nil(1) unfolding token_source_def by fastforce
  moreover have "take_token env YT_stream_end st = io_return st"
    by (simp add: take_token_def split: prod.splits)
  ultimately show ?case
    using Nil(3) by (cases fuel) (auto simp: io_bind_call io_apply)
next
  case (Cons tok toks)
  obtain w1 where w1: "lc_scan env w = ((True, tok), w1)" "scans w1 = toks @ [YT_stream_end]"
    using assms(1) Cons.prems(1) unfolding token_source_def by fastforce
  obtain w2 where w2: "take_token env tok st w1 = Inr (token_step tok st, w2)" "mallocs env w1 w2"
    using take_token_gives [OF assms(2)] unfolding gives_def by blast
  obtain n where n: "fuel = Suc n" using Cons.prems(3) by (cases fuel) auto
  have "scans w2 = toks @ [YT_stream_end]"
    using token_source_mallocs [OF assms(1) w2(2)] w1(2) by simp
  from Cons.IH [OF this, of n "token_step tok st"] Cons.prems w1 w2(1) n show ?case
    by (auto simp: io_bind_call io_bind_Inr)
qed

lemma fold_ignores_other: "fold token_step toks st = fold token_step (filter (\<lambda>t. t \<noteq> YT_other) toks) st"
proof -
  have "token_step YT_other st = st" for st by (cases st) simp
  then show ?thesis by (induction toks arbitrary: st) auto
qed

text \<open>With one option, its value is the last one the file gives.\<close>

definition last_given :: "string \<Rightarrow> (string \<times> string option) list \<Rightarrow> string option" where
  "last_given k ts = map_of (rev (scalars ts)) k"

lemma last_given_simps:
  "last_given k [] = None"
  "last_given k ((k', v) # ts) =
     (case last_given k ts of Some x \<Rightarrow> Some x | None \<Rightarrow> if k = k' then v else None)"
  by (cases v; auto simp: last_given_def map_add_def split: option.splits)+

lemma fold_pairs:
  "snd (snd (fold token_step (concat (map pair_tokens ts)) (st, d, [\<lparr>kv_key = k, kv_val = v\<rparr>]))) =
     [\<lparr>kv_key = k, kv_val = (case last_given k ts of None \<Rightarrow> v | Some x \<Rightarrow> Some (bounded_copy x))\<rparr>]"
proof (induction ts arbitrary: st d v)
  case (Cons kv ts)
  obtain k' v' where kv: "kv = (k', v')" by fastforce
  show ?case
    unfolding kv using Cons.IH
    by (cases v') (auto simp: last_given_simps find_opt_def split: option.splits)
qed (simp add: last_given_simps)

section \<open>What the library starts with\<close>

definition config_file_name :: "('w, 'e) lib_env_scheme \<Rightarrow> string" where
  "config_file_name env =
     (case lc_getenv env ''NORNS_CONFIG_FILE'' of None \<Rightarrow> lc_default_config_file env | Some f \<Rightarrow> f)"

text \<open>The system does its part: storage for a context can be had, and the file is readable and has the tokens \<open>toks\<close>.\<close>

definition file_readable :: "('w, 'e) lib_env_scheme \<Rightarrow> ('w \<Rightarrow> yaml_token list) \<Rightarrow> yaml_token list \<Rightarrow> bool" where
  "file_readable env scans toks \<longleftrightarrow>
     (\<forall>w. fst (lc_key_create env w) = 0 \<and> fst (lc_setspecific env w) = 0 \<and>
        fst (lc_access env (config_file_name env) w) \<noteq> -1 \<and> fst (lc_parser_initialize env w) \<and>
        fst (lc_fopen env (config_file_name env) w) \<and>
        scans (snd (lc_fopen env (config_file_name env) w)) = toks @ [YT_stream_end])"

text \<open>A call of the system whose result is known.\<close>

lemma io_bind_known: "fst (f w) = a \<Longrightarrow> io_bind (io_call f) g w = g a (snd (f w))"
  by (cases "f w") (simp add: io_bind_call)

lemma bounded_copy_idem [simp]: "bounded_copy (bounded_copy s) = bounded_copy s"
  by simp

lemma create_context_ok:
  assumes "file_readable env scans toks" and "memory_available env"
  shows "\<exists>w'. create_context env tid w = Inr (Map.empty(tid \<mapsto> \<lparr>config_file = None, api_socket = None\<rparr>), w')"
  using assms by (simp add: create_context_def io_bind_known file_readable_def memory_available_def io_apply)

lemma parse_config_file_ok:
  assumes "token_source env scans" and "memory_available env" and "file_readable env scans toks"
    and "file_tokens toks ts" and "length toks < cl_fuel env"
  shows "\<exists>w'. parse_config_file env (config_file_name env) [\<lparr>kv_key = k, kv_val = None\<rparr>] w =
    Inr ((0, [\<lparr>kv_key = k, kv_val = map_option bounded_copy (last_given k ts)\<rparr>]), w')"
proof -
  define w1 where "w1 = snd (lc_fopen env (config_file_name env) (snd (lc_parser_initialize env w)))"
  have tok: "YT_stream_end \<notin> set toks" "filter (\<lambda>t. t \<noteq> YT_other) toks = concat (map pair_tokens ts)"
    using assms(4) by (simp_all add: file_tokens_def)
  have scans: "scans w1 = toks @ [YT_stream_end]" using assms(3) by (simp add: file_readable_def w1_def)
  obtain w2 where w2: "scan_loop (cl_fuel env) env (EXPECT_KEY, None, [\<lparr>kv_key = k, kv_val = None\<rparr>]) w1 =
      Inr (fold token_step toks (EXPECT_KEY, None, [\<lparr>kv_key = k, kv_val = None\<rparr>]), w2)"
    using scan_loop_tokens [OF assms(1,2) scans tok(1) assms(5)] by blast
  have "snd (snd (fold token_step toks (EXPECT_KEY, None, [\<lparr>kv_key = k, kv_val = None\<rparr>]))) =
      [\<lparr>kv_key = k, kv_val = map_option bounded_copy (last_given k ts)\<rparr>]"
    by (subst fold_ignores_other) (simp add: tok(2) fold_pairs split: option.splits)
  then show ?thesis
    using w2 assms(3)
    by (simp add: parse_config_file_def io_bind_known file_readable_def w1_def [symmetric] io_bind_Inr io_apply
        split: prod.splits) auto
qed

lemma xstrdup_optional:
  "memory_available env \<Longrightarrow> \<exists>w'. xstrdup env s w = Inr (map_option bounded_copy s, w')"
  using gives_xstrdup [of env _ "the s", OF _ refl] by (cases s) (auto simp: io_apply gives_def)

lemma library_init_reads:
  assumes "token_source env scans" and "memory_available env" and "file_readable env scans toks"
    and "file_tokens toks ts" and "length toks < cl_fuel env"
  shows "\<exists>ctx w'. library_init env tid w = Inr (Map.empty(tid \<mapsto> ctx), w') \<and>
    api_socket ctx = map_option bounded_copy (last_given ''global_socket'' ts) \<and>
    config_file ctx = Some (bounded_copy (config_file_name env))"
proof -
  let ?c = "Map.empty(tid \<mapsto> \<lparr>config_file = None, api_socket = None\<rparr>) :: tls"
  obtain w1 where w1: "create_context env tid w = Inr (?c, w1)"
    using create_context_ok [OF assms(3,2)] by blast
  define w2 where "w2 = snd (lc_access env (config_file_name env) w1)"
  obtain w3 where w3: "parse_config_file env (config_file_name env) [\<lparr>kv_key = ''global_socket'', kv_val = None\<rparr>] w2 =
      Inr ((0, [\<lparr>kv_key = ''global_socket'', kv_val = map_option bounded_copy (last_given ''global_socket'' ts)\<rparr>]), w3)"
    using parse_config_file_ok [OF assms] by blast
  obtain w4 where w4: "xstrdup env (Some (config_file_name env)) w3 = Inr (Some (bounded_copy (config_file_name env)), w4)"
    using xstrdup_optional [OF assms(2), of "Some (config_file_name env)" w3] by auto
  obtain w5 where w5: "xstrdup env (map_option bounded_copy (last_given ''global_socket'' ts)) w4 =
      Inr (map_option bounded_copy (map_option bounded_copy (last_given ''global_socket'' ts)), w5)"
    using xstrdup_optional [OF assms(2)] by blast
  have access: "fst (lc_access env (config_file_name env) w1) \<noteq> -1" using assms(3) by (simp add: file_readable_def)
  have "load_config_file env ?c tid w1 = Inr (?c(tid \<mapsto> \<lparr>config_file = Some (bounded_copy (config_file_name env)),
      api_socket = map_option bounded_copy (map_option bounded_copy (last_given ''global_socket'' ts))\<rparr>), w5)"
    unfolding load_config_file_def config_file_name_def [symmetric] Let_def
    using access by (simp add: io_bind_known w2_def [symmetric] io_bind_Inr w3 w4 w5 get_context_def in_thread_def io_apply)
  with w1 show ?thesis
    by (intro exI [of _ "\<lparr>config_file = Some (bounded_copy (config_file_name env)),
          api_socket = map_option bounded_copy (last_given ''global_socket'' ts)\<rparr>"] exI [of _ w5])
      (simp add: library_init_def io_bind_Inr option.map_comp comp_def)
qed

text \<open>
  C31. A client library that is loaded with a readable configuration file starts, and finds the daemon: when the file
  gives \<^verbatim>\<open>global_socket\<close> once, in the section of global settings, the library connects to the socket the daemon
  listens on with the same file. This holds of the control library too, which reads the same option and never the
  \<^verbatim>\<open>control_socket\<close>.
\<close>

theorem library_finds_daemon:
  assumes "token_source env scans" and "memory_available env" and "file_readable env scans toks"
    and "file_tokens toks ts" and "length toks < cl_fuel env"
    and "load_from_file Y ex defaults doc s = Inr s'"
    and "y_section Y doc ''global_settings'' = Inr (Some gsec)" and "section_texts Y gsec gts"
    and "set gts \<subseteq> set (scalars ts)" and "filter (\<lambda>kv. fst kv = ''global_socket'') (scalars ts) = [(''global_socket'', path)]"
    and "length path < XMAX_STRING_LENGTH"
  shows "\<exists>ctx w'. library_init env tid w = Inr (Map.empty(tid \<mapsto> ctx), w') \<and> api_socket ctx = Some (s_global_socket s')"
proof -
  have gives: "v = path \<longleftrightarrow> (''global_socket'', v) \<in> set (scalars ts)" for v
  proof -
    have "(''global_socket'', v) \<in> set (scalars ts) \<longleftrightarrow>
        (''global_socket'', v) \<in> set (filter (\<lambda>kv. fst kv = ''global_socket'') (scalars ts))"
      by simp
    then show ?thesis unfolding assms(10) by simp
  qed
  then have once: "(''global_socket'', v) \<in> set (scalars ts) \<Longrightarrow> v = path" for v by blast
  have "(''global_socket'', path) \<in> set (scalars ts)" using gives by blast
  then have "''global_socket'' \<in> fst ` set (rev (scalars ts))" by force
  then obtain v where "last_given ''global_socket'' ts = Some v" "(''global_socket'', v) \<in> set (scalars ts)"
    unfolding last_given_def by (metis map_of_SomeD map_of_eq_None_iff not_None_eq set_rev)
  then have client: "last_given ''global_socket'' ts = Some path" using once by simp
  obtain gts' nss where s': "s' = settings_of_texts defaults gts' nss s" "section_texts Y gsec gts'"
      "mandatory_given (global_options (s_dry_run defaults)) gts'"
    using assms(6,7) unfolding load_from_file_iff section_accepted_def by auto
  have "gts' = gts" using section_texts_unique [OF s'(2) assms(8)] .
  then have "''global_socket'' \<in> fst ` set gts"
    using s'(3) by (auto simp: mandatory_given_def global_options_def declare_option_def)
  then obtain v where "map_of gts ''global_socket'' = Some v" "(''global_socket'', v) \<in> set gts"
    by (metis map_of_SomeD map_of_eq_None_iff not_None_eq)
  then have "s_global_socket s' = path"
    using once assms(9) \<open>gts' = gts\<close> s'(1) by (auto simp: settings_of_texts_def)
  then show ?thesis
    using library_init_reads [OF assms(1-5), of tid w] client assms(11) by auto
qed

text \<open>
  Only the thread that loaded the library can use it. In any other thread a request that is well formed ends the
  process: the context is kept per thread and created in the constructor only.
\<close>

theorem other_threads_exit:
  assumes "library_init env tid w = Inr (contexts, w')" and "tid' \<noteq> tid" and "t_id task = 0"
    and "t_op task \<in> {NORNS_IOTASK_COPY, NORNS_IOTASK_MOVE, NORNS_IOTASK_REMOVE}"
  shows "norns_submit (in_thread env contexts tid') (Some task) v = Inl Process_Exit"
proof -
  have "contexts tid' = None"
    using assms(1,2)
    by (auto simp: library_init_def load_config_file_def create_context_def io_bind_def io_call_def io_lift_def io_return_def
        obind_eq_Inr Let_def split: if_splits prod.splits)
  then show ?thesis
    using assms(3,4)
    by (auto simp: norns_submit_def send_submit_request_def send_request_def get_context_def in_thread_def io_bind_def
        io_lift_def)
qed

text \<open>
  A file the scanner rejects hangs the process that loads the library: the loop only ends at the end of the stream, and a
  scanner that has failed never gets there.
\<close>

lemma rejected_file_spins:
  assumes "\<And>v. P v \<Longrightarrow> \<exists>tok v'. lc_scan env v = ((False, tok), v') \<and> tok \<noteq> YT_stream_end \<and> P v'" and "P w"
  shows "scan_loop fuel env st w = Inl Diverges"
  using assms(2)
proof (induction fuel arbitrary: w)
  case (Suc fuel)
  then obtain tok v' where "lc_scan env w = ((False, tok), v')" "tok \<noteq> YT_stream_end" "P v'"
    using assms(1) by blast
  then show ?case using Suc.IH by (simp add: io_bind_call)
qed (simp add: io_lift_def)

section \<open>The library and the daemon on the sample file\<close>

definition sample_pairs_of_file :: "(string \<times> string option) list" where
  "sample_pairs_of_file =
     (''global_settings'', None) # map (\<lambda>(k, v). (k, Some v)) sample_global @
     (''namespaces'', None) # map (\<lambda>(k, v). (k, Some v)) sample_namespace"

definition sample_tokens :: "yaml_token list" where
  "sample_tokens = YT_other # concat (map pair_tokens sample_pairs_of_file)"

definition sample_lib :: "yaml_token list lib_env" where
  "sample_lib = \<lparr>cl_sizeof = (\<lambda>_. 8), cl_malloc = (\<lambda>_ w. (True, w)), cl_junk = (\<lambda>n _. replicate n 0),
     cl_errno = (\<lambda>_. 0), cl_socket = (\<lambda>w. (3, w)), cl_connect = (\<lambda>_ _ w. (-1, w)), cl_write = (\<lambda>_ bs w. (int (length bs), w)),
     cl_read = (\<lambda>_ _ w. ((0, []), w)), cl_close = (\<lambda>_ w. (0, w)), cl_nanosleep = (\<lambda>_ w. ((0, 0, 0), w)),
     cl_context = None, cl_big = False,
     cl_fuel = 100, cl_pack = (\<lambda>_. [3]), cl_unpack = (\<lambda>_. None), cl_stack_stat = stat_zero,
     lc_key_create = (\<lambda>w. (0, w)), lc_setspecific = (\<lambda>w. (0, w)), lc_sizeof_context = 16, lc_getenv = (\<lambda>_. None),
     lc_default_config_file = ''/f'', lc_access = (\<lambda>_ w. (0, w)), lc_parser_initialize = (\<lambda>w. (True, w)),
     lc_fopen = (\<lambda>_ w. (True, sample_tokens @ [YT_stream_end])),
     lc_scan = (\<lambda>w. case w of [] \<Rightarrow> ((False, YT_other), []) | tok # toks \<Rightarrow> ((True, tok), toks))\<rparr>"

lemma sample_lib_laws:
  "token_source sample_lib (\<lambda>w. w)" "memory_available sample_lib" "file_readable sample_lib (\<lambda>w. w) sample_tokens"
  by (simp_all add: token_source_def memory_available_def file_readable_def sample_lib_def)

lemma concat_pairs_kept:
  "filter (\<lambda>t. t \<noteq> YT_other) (concat (map pair_tokens ts)) = concat (map pair_tokens ts)"
  "YT_stream_end \<notin> set (concat (map pair_tokens ts))"
proof (induction ts)
  case (Cons kv ts)
  { case 1 show ?case using Cons by (cases kv rule: pair_tokens.cases) auto }
  { case 2 show ?case using Cons by (cases kv rule: pair_tokens.cases) auto }
qed simp_all

lemma sample_tokens_of_file: "file_tokens sample_tokens sample_pairs_of_file"
  using concat_pairs_kept [of sample_pairs_of_file] by (simp add: file_tokens_def sample_tokens_def)

lemma sample_tokens_length: "length sample_tokens < cl_fuel sample_lib"
  by (simp add: sample_tokens_def sample_pairs_of_file_def sample_global_def sample_namespace_def sample_lib_def)

theorem library_finds_daemon_witness:
  "\<exists>ctx w'. library_init sample_lib 1 [] = Inr (Map.empty(1 \<mapsto> ctx), w') \<and> api_socket ctx = Some ''/g''"
proof -
  have sec: "y_section sample_api sample_file ''global_settings'' = Inr (Some (sample_group sample_global))"
    by (simp add: sample_api_def sample_file_def)
  have subset: "set sample_global \<subseteq> set (scalars sample_pairs_of_file)"
    by (simp add: sample_pairs_of_file_def sample_global_def sample_namespace_def)
  have once: "filter (\<lambda>kv. fst kv = ''global_socket'') (scalars sample_pairs_of_file) = [(''global_socket'', ''/g'')]"
    by (simp add: sample_pairs_of_file_def sample_global_def sample_namespace_def)
  have "s_global_socket (settings_of_texts sample_defaults sample_global [namespace_of_texts sample_namespace]
      (sample_defaults\<lparr>s_default_namespaces := []\<rparr>)) = ''/g''"
    by (simp add: settings_of_texts_def sample_global_def)
  then show ?thesis
    using library_finds_daemon [OF sample_lib_laws sample_tokens_of_file sample_tokens_length sample_file_loads sec
        sample_texts subset once, of 1 "[]"] by simp
qed

theorem other_threads_exit_witness:
  "\<exists>contexts w'. library_init sample_lib 1 [] = Inr (contexts, w') \<and>
     norns_submit (in_thread sample_lib contexts 2) (Some sample_copy) [] = Inl Process_Exit"
proof -
  obtain ctx w' where "library_init sample_lib 1 [] = Inr (Map.empty(1 \<mapsto> ctx), w')"
    using library_init_reads [OF sample_lib_laws sample_tokens_of_file sample_tokens_length] by blast
  moreover from other_threads_exit [OF this, of 2 sample_copy] have
    "norns_submit (in_thread sample_lib (Map.empty(1 \<mapsto> ctx)) 2) (Some sample_copy) [] = Inl Process_Exit"
    by (simp add: sample_copy_def)
  ultimately show ?thesis by blast
qed

end
