(* ===== verification/Tar_Properties.thy ===== *)
theory Tar_Properties
  imports Remote_Transferors
begin

text \<open>
  What the archives of \<open>Tar_Archive\<close> hold. While nobody else touches the files, and libarchive and the kernel keep
  their promises, an archive gets one entry per directory and regular file, with all the bytes of the file; it takes
  the number of bytes the receiver was told to reserve; and extracting it puts every entry below the destination.
\<close>

section \<open>What the library and the system promise\<close>

text \<open>
  A view of the world: the entries of the archive being written, with their data, the file an open descriptor refers
  to, and a bound on the interruptions to come.
\<close>

record 'w tar_view =
  tv_entries :: "'w \<Rightarrow> (ar_entry \<times> byte list) list"
  tv_file :: "'w \<Rightarrow> int \<Rightarrow> string option"
  tv_intr :: "'w \<Rightarrow> nat"

text \<open>The files at rest: which paths can be read, what they contain and their attributes.\<close>

record files =
  f_paths :: "string set"
  f_content :: "string \<Rightarrow> byte list"
  f_stat :: "string \<Rightarrow> file_stat"

definition snoc_data :: "(ar_entry \<times> byte list) list \<Rightarrow> byte list \<Rightarrow> (ar_entry \<times> byte list) list" where
  "snoc_data es bs = butlast es @ [(fst (last es), snd (last es) @ bs)]"

definition files_at_rest :: "('w, 'e) tar_env_scheme \<Rightarrow> 'w tar_view \<Rightarrow> files \<Rightarrow> nat \<Rightarrow> bool" where
  "files_at_rest env v fs k \<longleftrightarrow>
     (\<forall>w. tv_intr v w \<le> k) \<and>
     (\<forall>p \<in> f_paths fs. \<forall>w. \<exists>w'. sys_stat env p w = (Some (f_stat fs p), w') \<and> tv_entries v w' = tv_entries v w) \<and>
     (\<forall>p \<in> f_paths fs. \<forall>w. \<exists>fd w'. sys_open env p O_rdonly w = (fd, w') \<and> fd \<noteq> -1 \<and> tv_file v w' fd = Some p \<and>
        tv_entries v w' = tv_entries v w) \<and>
     (\<forall>fd w. tv_entries v (snd (sys_close env fd w)) = tv_entries v w)"

text \<open>Reading before the end of a file is interrupted, finitely often, or yields the next bytes.\<close>

definition pread_law :: "('w, 'e) tar_env_scheme \<Rightarrow> 'w tar_view \<Rightarrow> files \<Rightarrow> bool" where
  "pread_law env v fs \<longleftrightarrow>
     (\<forall>fd p off w n bs w'. tv_file v w fd = Some p \<longrightarrow> 0 \<le> off \<longrightarrow> nat off < length (f_content fs p) \<longrightarrow>
        sys_pread env fd 16384 off w = ((n, bs), w') \<longrightarrow>
        tv_file v w' = tv_file v w \<and> tv_entries v w' = tv_entries v w \<and>
        (n = -1 \<and> sys_errno env w' = EINTR \<and> tv_intr v w' < tv_intr v w \<or>
         n = int (length bs) \<and> bs \<noteq> [] \<and> tv_intr v w' \<le> tv_intr v w \<and>
         (\<exists>rest. drop (nat off) (f_content fs p) = bs @ rest)))"

definition archive_accepts :: "('w, 'e) tar_env_scheme \<Rightarrow> 'w tar_view \<Rightarrow> nat \<Rightarrow> bool" where
  "archive_accepts env v ar \<longleftrightarrow>
     (\<forall>e w. \<exists>w'. ar_write_header env ar e w = (ARCHIVE_OK, w') \<and> tv_entries v w' = tv_entries v w @ [(e, [])]) \<and>
     (\<forall>bs w. \<exists>w'. ar_write_data env ar bs w = (int (length bs), w') \<and> tv_file v w' = tv_file v w \<and>
        tv_intr v w' \<le> tv_intr v w \<and> tv_entries v w' = snoc_data (tv_entries v w) bs) \<and>
     (\<forall>w. \<exists>w'. ar_entry_new env ar w = (True, w') \<and> tv_entries v w' = tv_entries v w)"

definition archive_laws :: "('w, 'e) tar_env_scheme \<Rightarrow> 'w tar_view \<Rightarrow> nat \<Rightarrow> files \<Rightarrow> nat \<Rightarrow> bool" where
  "archive_laws env v ar fs k \<longleftrightarrow> files_at_rest env v fs k \<and> pread_law env v fs \<and> archive_accepts env v ar"

text \<open>The laws one by one.\<close>

lemma law_intr: "archive_laws env v ar fs k \<Longrightarrow> tv_intr v w \<le> k"
  by (simp add: archive_laws_def files_at_rest_def)

lemma law_stat:
  assumes "archive_laws env v ar fs k" and "p \<in> f_paths fs"
  obtains w' where "sys_stat env p w = (Some (f_stat fs p), w')" "tv_entries v w' = tv_entries v w"
  using assms unfolding archive_laws_def files_at_rest_def archive_accepts_def by blast

lemma law_open:
  assumes "archive_laws env v ar fs k" and "p \<in> f_paths fs"
  obtains fd w' where "sys_open env p O_rdonly w = (fd, w')" "fd \<noteq> -1" "tv_file v w' fd = Some p"
    "tv_entries v w' = tv_entries v w"
  using assms unfolding archive_laws_def files_at_rest_def archive_accepts_def by blast

lemma law_close: "archive_laws env v ar fs k \<Longrightarrow> tv_entries v (snd (sys_close env fd w)) = tv_entries v w"
  by (simp add: archive_laws_def files_at_rest_def)

lemma law_pread [consumes 4, case_names interrupted read]:
  assumes "archive_laws env v ar fs k" and "tv_file v w fd = Some p" and "0 \<le> off" and "nat off < length (f_content fs p)"
  obtains (interrupted) bs w' where "sys_pread env fd 16384 off w = ((-1, bs), w')"
      "sys_errno env w' = EINTR" "tv_intr v w' < tv_intr v w" "tv_file v w' = tv_file v w" "tv_entries v w' = tv_entries v w"
  | (read) bs rest w' where "sys_pread env fd 16384 off w = ((int (length bs), bs), w')" "bs \<noteq> []"
      "tv_intr v w' \<le> tv_intr v w" "drop (nat off) (f_content fs p) = bs @ rest" "tv_file v w' = tv_file v w"
      "tv_entries v w' = tv_entries v w"
proof -
  obtain n bs w' where r: "sys_pread env fd 16384 off w = ((n, bs), w')" by (metis surj_pair)
  have "pread_law env v fs" using assms(1) by (simp add: archive_laws_def)
  from this [unfolded pread_law_def, rule_format, OF assms(2-4) r] show thesis
  proof (elim conjE disjE exE)
    assume "n = -1" "sys_errno env w' = EINTR" "tv_intr v w' < tv_intr v w" "tv_file v w' = tv_file v w"
      "tv_entries v w' = tv_entries v w"
    with r show thesis by (intro interrupted [of bs w']) simp_all
  next
    fix rest
    assume "n = int (length bs)" "bs \<noteq> []" "tv_intr v w' \<le> tv_intr v w" "drop (nat off) (f_content fs p) = bs @ rest"
      "tv_file v w' = tv_file v w" "tv_entries v w' = tv_entries v w"
    with r show thesis by (intro read [of bs w' rest]) simp_all
  qed
qed

lemma law_header:
  assumes "archive_laws env v ar fs k"
  obtains w' where "ar_write_header env ar e w = (ARCHIVE_OK, w')" "tv_entries v w' = tv_entries v w @ [(e, [])]"
  using assms unfolding archive_laws_def files_at_rest_def archive_accepts_def by blast

lemma law_data:
  assumes "archive_laws env v ar fs k"
  obtains w' where "ar_write_data env ar bs w = (int (length bs), w')" "tv_file v w' = tv_file v w"
    "tv_intr v w' \<le> tv_intr v w" "tv_entries v w' = snoc_data (tv_entries v w) bs"
  using assms unfolding archive_laws_def files_at_rest_def archive_accepts_def by blast

lemma law_entry:
  assumes "archive_laws env v ar fs k"
  obtains w' where "ar_entry_new env ar w = (True, w')" "tv_entries v w' = tv_entries v w"
  using assms unfolding archive_laws_def files_at_rest_def archive_accepts_def by blast

lemma snoc_data_snoc [simp]: "snoc_data (es @ [(e, d)]) bs = es @ [(e, d @ bs)]"
  by (simp add: snoc_data_def)

section \<open>Files\<close>

text \<open>From any offset the loop appends the rest of the file.\<close>

lemma append_loop_copies:
  assumes "archive_laws env v ar fs k"
  shows "tv_file v w fd = Some p \<Longrightarrow> 0 \<le> off \<Longrightarrow> off \<le> int (length (f_content fs p)) \<Longrightarrow>
    tv_entries v w = es @ [(e, take (nat off) (f_content fs p))] \<Longrightarrow>
    nat (int (length (f_content fs p)) - off) + tv_intr v w \<le> fuel \<Longrightarrow>
    \<exists>w'. append_loop fuel env ar fd (int (length (f_content fs p))) off w = Inr (0, w') \<and>
      tv_entries v w' = es @ [(e, f_content fs p)]"
proof (induction fuel arbitrary: off w)
  case 0
  then show ?case by (simp add: append_loop.simps)
next
  case (Suc fuel)
  let ?c = "f_content fs p"
  show ?case
  proof (cases "off < int (length ?c)")
    case False
    with Suc.prems show ?thesis by (simp add: append_loop.simps)
  next
    case True
    then have lt: "nat off < length ?c" using Suc.prems(2) by linarith
    from assms Suc.prems(1,2) lt show ?thesis
    proof (cases rule: law_pread)
      case (interrupted bs w')
      have "\<exists>w''. append_loop fuel env ar fd (int (length ?c)) off w' = Inr (0, w'') \<and> tv_entries v w'' = es @ [(e, ?c)]"
        using interrupted Suc.prems by (intro Suc.IH) simp_all
      then show ?thesis using interrupted True by (simp add: append_loop.simps [of "Suc fuel"] split: prod.splits)
    next
      case (read bs rest w1)
      obtain w2 where w2: "ar_write_data env ar bs w1 = (int (length bs), w2)" "tv_file v w2 = tv_file v w1"
          "tv_intr v w2 \<le> tv_intr v w1" "tv_entries v w2 = snoc_data (tv_entries v w1) bs"
        by (rule law_data [OF assms])
      have len: "length ?c = nat off + length bs + length rest"
        using arg_cong [OF read(4), of length] lt by simp
      have "take (nat (off + int (length bs))) ?c = take (nat off) ?c @ bs"
        using read(4) Suc.prems(2) by (simp add: nat_add_distrib take_add)
      moreover have "nat (int (length ?c) - (off + int (length bs))) + tv_intr v w2 \<le> fuel"
        using Suc.prems(2,5) len read(2,3) w2(3) by (cases bs) auto
      ultimately have "\<exists>w'. append_loop fuel env ar fd (int (length ?c)) (off + int (length bs)) w2 = Inr (0, w') \<and>
          tv_entries v w' = es @ [(e, ?c)]"
        using read w2 len Suc.prems by (intro Suc.IH) simp_all
      then show ?thesis using read w2 True by (simp add: append_loop.simps [of "Suc fuel"])
    qed
  qed
qed

lemma append_file_copies:
  assumes "archive_laws env v ar fs k" and "p \<in> f_paths fs" and "st_size (f_stat fs p) = int (length (f_content fs p))"
    and "length (f_content fs p) + k \<le> tar_fuel env"
  shows "\<exists>w'. append_file env ar p name w = Inr (0, w') \<and>
    tv_entries v w' = tv_entries v w @
      [(\<lparr>ae_filetype = AE_IFREG, ae_sourcepath = p, ae_pathname = name, ae_stat = f_stat fs p\<rparr>, f_content fs p)]"
proof -
  obtain w1 where w1: "sys_stat env p w = (Some (f_stat fs p), w1)" "tv_entries v w1 = tv_entries v w"
    by (rule law_stat [OF assms(1,2)])
  let ?e = "\<lparr>ae_filetype = AE_IFREG, ae_sourcepath = p, ae_pathname = name, ae_stat = f_stat fs p\<rparr>"
  obtain w2 where w2: "ar_write_header env ar ?e w1 = (ARCHIVE_OK, w2)" "tv_entries v w2 = tv_entries v w1 @ [(?e, [])]"
    by (rule law_header [OF assms(1)])
  obtain fd w3 where w3: "sys_open env p O_rdonly w2 = (fd, w3)" "fd \<noteq> -1" "tv_file v w3 fd = Some p"
      "tv_entries v w3 = tv_entries v w2"
    by (rule law_open [OF assms(1,2)])
  have "\<exists>w4. append_loop (tar_fuel env) env ar fd (int (length (f_content fs p))) 0 w3 = Inr (0, w4) \<and>
      tv_entries v w4 = tv_entries v w @ [(?e, f_content fs p)]"
    using append_loop_copies [OF assms(1) w3(3), of 0 "tv_entries v w" ?e "tar_fuel env"] w1 w2 w3 assms(4)
      law_intr [OF assms(1), of w3] by simp
  then show ?thesis
    using w1 w2 w3 assms(3) law_close [OF assms(1)] by (auto simp: append_file_def append_file_data_def)
qed

lemma append_directory_header_adds:
  assumes "archive_laws env v ar fs k" and "p \<in> f_paths fs"
  shows "\<exists>w'. append_directory_header env ar p name w = (0, w') \<and>
    tv_entries v w' = tv_entries v w @
      [(\<lparr>ae_filetype = AE_IFDIR, ae_sourcepath = p, ae_pathname = name, ae_stat = f_stat fs p\<rparr>, [])]"
proof -
  obtain w1 where w1: "sys_stat env p w = (Some (f_stat fs p), w1)" "tv_entries v w1 = tv_entries v w"
    by (rule law_stat [OF assms])
  obtain w2 where "ar_write_header env ar \<lparr>ae_filetype = AE_IFDIR, ae_sourcepath = p, ae_pathname = name,
      ae_stat = f_stat fs p\<rparr> w1 = (ARCHIVE_OK, w2)" "tv_entries v w2 = tv_entries v w1 @
      [(\<lparr>ae_filetype = AE_IFDIR, ae_sourcepath = p, ae_pathname = name, ae_stat = f_stat fs p\<rparr>, [])]"
    by (rule law_header [OF assms(1)])
  with w1 show ?thesis by (simp add: append_directory_header_def)
qed

section \<open>Directories\<close>

text \<open>
  The specification: the entries of a directory, by the paths an iterator visits and the names they get. Nothing is
  recorded for what is neither a regular file nor a directory.
\<close>

definition entry_of :: "('w, 'e) tar_env_scheme \<Rightarrow> 'w \<Rightarrow> files \<Rightarrow> (string \<Rightarrow> string) \<Rightarrow> string \<Rightarrow> (ar_entry \<times> byte list) list" where
  "entry_of env w fs name p =
     (if bfs_is_regular env w p then
        [(\<lparr>ae_filetype = AE_IFREG, ae_sourcepath = p, ae_pathname = name p, ae_stat = f_stat fs p\<rparr>, f_content fs p)]
      else if bfs_is_directory env w p then
        [(\<lparr>ae_filetype = AE_IFDIR, ae_sourcepath = p, ae_pathname = name p, ae_stat = f_stat fs p\<rparr>, [])]
      else [])"

definition directory_entries ::
  "('w, 'e) tar_env_scheme \<Rightarrow> 'w \<Rightarrow> files \<Rightarrow> (string \<Rightarrow> string) \<Rightarrow> string \<Rightarrow> string list \<Rightarrow> (ar_entry \<times> byte list) list" where
  "directory_entries env w fs name src ps =
     (\<lparr>ae_filetype = AE_IFDIR, ae_sourcepath = src, ae_pathname = name src, ae_stat = f_stat fs src\<rparr>, []) #
     concat (map (entry_of env w fs name) ps)"

text \<open>
  The tree below \<open>src\<close>, with the names its parts get below \<open>dir\<close>, stays as it is while it is packed; the bytes of a
  file are as many as its attributes say.
\<close>

definition tree_at_rest ::
  "('w, 'e) tar_env_scheme \<Rightarrow> files \<Rightarrow> string \<Rightarrow> string \<Rightarrow> string list \<Rightarrow> (string \<Rightarrow> string) \<Rightarrow> nat \<Rightarrow> bool" where
  "tree_at_rest env fs src dir ps name k \<longleftrightarrow>
     insert src (set ps) \<subseteq> f_paths fs \<and>
     (\<forall>w. bfs_walk env w src = (0, ps) \<and> bfs_is_directory env w src) \<and>
     (\<forall>w. \<forall>p \<in> insert src (set ps). transform env w p src dir = Inr (name p)) \<and>
     (\<forall>w w' p. bfs_is_regular env w p = bfs_is_regular env w' p \<and> bfs_is_directory env w p = bfs_is_directory env w' p) \<and>
     (\<forall>w. \<forall>p \<in> set ps. bfs_is_regular env w p \<longrightarrow>
        st_size (f_stat fs p) = int (length (f_content fs p)) \<and> length (f_content fs p) + k \<le> tar_fuel env)"

lemma add_paths_entries:
  assumes "archive_laws env v ar fs k" and "tree_at_rest env fs src dir all_ps name k"
  shows "set ps \<subseteq> set all_ps \<Longrightarrow> \<exists>w'. add_paths env ar src dir ps w = Inr (0, w') \<and>
    tv_entries v w' = tv_entries v w @ concat (map (entry_of env w0 fs name) ps)"
proof (induction ps arbitrary: w)
  case (Cons p ps)
  have p: "p \<in> f_paths fs" "transform env w p src dir = Inr (name p)"
    using assms(2) Cons.prems unfolding tree_at_rest_def by auto
  have same: "bfs_is_regular env w0 p = bfs_is_regular env w p" "bfs_is_directory env w0 p = bfs_is_directory env w p"
    using assms(2) unfolding tree_at_rest_def by blast+
  have rest: "\<exists>w'. add_paths env ar src dir ps w1 = Inr (0, w') \<and>
      tv_entries v w' = tv_entries v w1 @ concat (map (entry_of env w0 fs name) ps)" for w1
    using Cons by simp
  show ?case
  proof (cases "bfs_is_regular env w p")
    case True
    then have "st_size (f_stat fs p) = int (length (f_content fs p))" "length (f_content fs p) + k \<le> tar_fuel env"
      using assms(2) Cons.prems unfolding tree_at_rest_def by auto
    then obtain w1 where w1: "append_file env ar p (name p) w = Inr (0, w1)" "tv_entries v w1 = tv_entries v w @
        [(\<lparr>ae_filetype = AE_IFREG, ae_sourcepath = p, ae_pathname = name p, ae_stat = f_stat fs p\<rparr>, f_content fs p)]"
      using append_file_copies [OF assms(1) p(1)] by blast
    with rest [of w1] True p(2) same show ?thesis by (auto simp: entry_of_def [of env w0 fs name p])
  next
    case False
    obtain w1 where w1: "append_directory_header env ar p (name p) w = (0, w1)" "tv_entries v w1 = tv_entries v w @
        [(\<lparr>ae_filetype = AE_IFDIR, ae_sourcepath = p, ae_pathname = name p, ae_stat = f_stat fs p\<rparr>, [])]"
      using append_directory_header_adds [OF assms(1) p(1)] by blast
    with rest [of w1] rest [of w] False p(2) same show ?thesis by (auto simp: entry_of_def [of env w0 fs name p])
  qed
qed simp

lemma add_directory_entries:
  assumes "archive_laws env v ar fs k" and "tree_at_rest env fs src dir ps name k"
    and "m_archive obj = Some ar" and "m_openmode obj = Tar_create" and "source_dir \<noteq> []"
    and "bfs_canonical env w source_dir = (0, src)"
  shows "\<exists>w'. tar_add_directory env obj source_dir dir w = Inr (0, w') \<and>
    tv_entries v w' = tv_entries v w @ directory_entries env w fs name src ps"
proof -
  obtain w1 where w1: "ar_entry_new env ar w = (True, w1)" "tv_entries v w1 = tv_entries v w"
    by (rule law_entry [OF assms(1)])
  have src: "src \<in> f_paths fs" "\<And>w. bfs_is_directory env w src" "\<And>w. bfs_walk env w src = (0, ps)"
      "\<And>w. transform env w src src dir = Inr (name src)"
    using assms(2) unfolding tree_at_rest_def by auto
  obtain w2 where w2: "append_directory_header env ar src (name src) w1 = (0, w2)" "tv_entries v w2 = tv_entries v w1 @
      [(\<lparr>ae_filetype = AE_IFDIR, ae_sourcepath = src, ae_pathname = name src, ae_stat = f_stat fs src\<rparr>, [])]"
    using append_directory_header_adds [OF assms(1) src(1)] by blast
  obtain w3 where "add_paths env ar src dir ps w2 = Inr (0, w3)"
      "tv_entries v w3 = tv_entries v w2 @ concat (map (entry_of env w fs name) ps)"
    using add_paths_entries [OF assms(1,2), of ps w2 w] by blast
  with w1 w2 src assms(3-6) show ?thesis
    by (simp add: tar_add_directory_def directory_entries_def)
qed

text \<open>
  Packing a directory is complete: the archive gets an entry for the directory and, in the order of the iterator, one
  for every directory and regular file below it, under the name \<^verbatim>\<open>transform\<close> gives, with the attributes of the file and
  exactly its bytes; the loops end when each may run once per byte and per interruption.
\<close>

theorem add_directory_packs:
  assumes "archive_laws env v ar fs k" and "tree_at_rest env fs src dir ps name k"
    and "m_archive obj = Some ar" and "m_openmode obj = Tar_create" and "source_dir \<noteq> []"
    and "bfs_canonical env w source_dir = (0, src)"
  shows "\<exists>w'. tar_add_directory env obj source_dir dir w = Inr (0, w') \<and>
    tv_entries v w' = tv_entries v w @ directory_entries env w fs name src ps"
  by (rule add_directory_entries [OF assms])

section \<open>The size of an archive\<close>

text \<open>In the format \<^verbatim>\<open>ustar\<close>: a block per header, the data in whole blocks, and two blocks at the end.\<close>

definition ustar_size :: "(ar_entry \<times> byte list) list \<Rightarrow> nat" where
  "ustar_size es = 512 * (sum_list (map (\<lambda>(e, d). 1 + (length d + 511) div 512) es) + 2)"

text \<open>The file system gives the sizes of the files at rest, and a symbolic link leads to one of them.\<close>

definition sizes_agree :: "('w, 'e) tar_env_scheme \<Rightarrow> 'w \<Rightarrow> files \<Rightarrow> string list \<Rightarrow> bool" where
  "sizes_agree env w fs ps \<longleftrightarrow>
     (\<forall>p \<in> set ps.
        if bfs_is_directory env w p then \<not> bfs_is_regular env w p
        else length (f_content fs p) + 512 \<le> 2 ^ 64 \<and> bfs_file_size env w p = (0, of_nat (length (f_content fs p))) \<and>
          (bfs_is_symlink env w p \<longrightarrow> bfs_is_regular env w p))"

lemma unat_u64_of_nat: "n < 2 ^ 64 \<Longrightarrow> unat (of_nat n :: u64) = n"
  by (simp add: unat_of_nat take_bit_eq_mod)

lemma entry_blocks_entry:
  assumes "sizes_agree env w fs [p]"
  shows "entry_blocks env w p = sum_list (map (\<lambda>(e, d). 1 + (length d + 511) div 512) (entry_of env w fs name p))"
  using assms by (auto simp: sizes_agree_def entry_blocks_def entry_of_def unat_u64_of_nat split: if_splits)

lemma blocks_of_entries:
  assumes "sizes_agree env w fs ps"
  shows "sum_list (map (entry_blocks env w) ps) =
    sum_list (map (\<lambda>(e, d). 1 + (length d + 511) div 512) (concat (map (entry_of env w fs name) ps)))"
  using assms
proof (induction ps)
  case (Cons p ps)
  then have "sizes_agree env w fs [p]" and "sizes_agree env w fs ps" by (auto simp: sizes_agree_def)
  with Cons.IH show ?case
    by (simp only: list.map concat.simps map_append sum_list.append sum_list.Cons entry_blocks_entry [of env w fs p name])
qed simp


section \<open>Extracting\<close>

text \<open>
  A view of an archive that is read: the names of the entries to come, the current one, and where entries were put. An
  entry can be extracted under any name that does not go up.
\<close>

record 'w extract_view =
  xv_left :: "'w \<Rightarrow> string list"
  xv_current :: "'w \<Rightarrow> string"
  xv_out :: "'w \<Rightarrow> (string \<times> string) list"

definition extract_laws :: "('w, 'e) tar_env_scheme \<Rightarrow> 'w extract_view \<Rightarrow> nat \<Rightarrow> bool" where
  "extract_laws env x ar \<longleftrightarrow>
     (\<forall>w. xv_left x w = [] \<longrightarrow> (\<exists>q w'. ar_read_next_header env ar w = ((ARCHIVE_EOF, q), w') \<and> xv_out x w' = xv_out x w)) \<and>
     (\<forall>w p ps. xv_left x w = p # ps \<longrightarrow> (\<exists>w'. ar_read_next_header env ar w = ((ARCHIVE_OK, Some p), w') \<and>
        xv_left x w' = ps \<and> xv_current x w' = p \<and> xv_out x w' = xv_out x w)) \<and>
     (\<forall>dest w. ''..'' \<notin> set (po_elems (fs_path env) dest) \<longrightarrow>
        (\<exists>w'. ar_read_extract env ar dest extract_flags w = (ARCHIVE_OK, w') \<and> xv_left x w' = xv_left x w \<and>
           xv_out x w' = xv_out x w @ [(xv_current x w, dest)]))"

abbreviation extracted_as :: "('w, 'e) tar_env_scheme \<Rightarrow> string \<Rightarrow> string \<Rightarrow> string" where
  "extracted_as env parent p \<equiv> path_join env parent (remove_leading_separator p)"

lemma extract_loop_places:
  assumes "extract_laws env x ar"
  shows "xv_left x w = ps \<Longrightarrow> \<forall>p \<in> set ps. ''..'' \<notin> set (po_elems (fs_path env) (extracted_as env parent p)) \<Longrightarrow>
    length ps < fuel \<Longrightarrow> \<exists>w'. extract_loop fuel env ar parent w = Inr (0, w') \<and>
      xv_out x w' = xv_out x w @ map (\<lambda>p. (p, extracted_as env parent p)) ps"
proof (induction ps arbitrary: fuel w)
  case Nil
  then obtain q w' where "ar_read_next_header env ar w = ((ARCHIVE_EOF, q), w')" "xv_out x w' = xv_out x w"
    using assms unfolding extract_laws_def by blast
  then show ?case using Nil.prems(3) by (cases fuel) auto
next
  case (Cons p ps)
  obtain w1 where w1: "ar_read_next_header env ar w = ((ARCHIVE_OK, Some p), w1)" "xv_left x w1 = ps"
      "xv_current x w1 = p" "xv_out x w1 = xv_out x w"
    using assms Cons.prems(1) unfolding extract_laws_def by blast
  obtain w2 where w2: "ar_read_extract env ar (extracted_as env parent p) extract_flags w1 = (ARCHIVE_OK, w2)"
      "xv_left x w2 = ps" "xv_out x w2 = xv_out x w @ [(p, extracted_as env parent p)]"
    using assms Cons.prems(2) w1 unfolding extract_laws_def by (metis list.set_intros(1))
  obtain n where n: "fuel = Suc n" using Cons.prems(3) by (cases fuel) auto
  obtain w' where "extract_loop n env ar parent w2 = Inr (0, w')"
      "xv_out x w' = xv_out x w2 @ map (\<lambda>p. (p, extracted_as env parent p)) ps"
    using Cons.IH [OF w2(2), of n] Cons.prems n by auto
  with w1 w2 n show ?case by simp
qed


section \<open>An example\<close>

text \<open>A directory with a directory in it that holds one file of three bytes; the archive is a list of entries.\<close>

record tape =
  tp_entries :: "(ar_entry \<times> byte list) list"
  tp_left :: "string list"
  tp_current :: string
  tp_out :: "(string \<times> string) list"

definition read_entry :: "tape \<Rightarrow> (int \<times> string option) \<times> tape" where
  "read_entry w = (case tp_left w of
     [] \<Rightarrow> ((ARCHIVE_EOF, None), w)
   | p # ps \<Rightarrow> ((ARCHIVE_OK, Some p), w\<lparr>tp_left := ps, tp_current := p\<rparr>))"

definition tape_env :: "tape tar_env" where
  "tape_env =
     \<lparr>fs_path = boost_path_ops, bfs_parent_path = (\<lambda>p. []), bfs_canonical = (\<lambda>w p. (0, p)),
      bfs_relative = (\<lambda>w p base. if p = base then ''.'' else drop (Suc (length base)) p),
      bfs_is_directory = (\<lambda>w p. p \<in> {''/d'', ''/d/s'', ''/o''}), bfs_is_symlink = (\<lambda>w p. False),
      bfs_is_regular = (\<lambda>w p. p = ''/d/s/f''), bfs_exists = (\<lambda>w p. (0, True)),
      bfs_file_size = (\<lambda>w p. if p = ''/d/s/f'' then (0, 3) else (21, 0)),
      bfs_walk = (\<lambda>w p. (0, [''/d/s'', ''/d/s/f''])), bfs_create_directories = (\<lambda>p w. (0, w)),
      bfs_remove_all = (\<lambda>p w. (0, w)),
      sys_errno = (\<lambda>w. 0), sys_open = (\<lambda>p m w. (int (length p), w)), sys_close = (\<lambda>fd w. (0, w)),
      sys_fstat_size = (\<lambda>fd w. (0, w)), sys_fadvise = (\<lambda>fd n a w. (0, w)), have_fallocate = True,
      sys_fallocate = (\<lambda>fd n w. (0, w)), sys_ftruncate = (\<lambda>fd n w. (0, w)),
      sys_sendfile = (\<lambda>o_fd i_fd off n w. (n, off + n, w)), sys_mmap = (\<lambda>fd n w. (Some 4096, w)),
      sys_munmap = (\<lambda>a n w. w), sys_process_vm_readv = (\<lambda>pid a l n w. (uint n, w)),
      bfs_create_directory = (\<lambda>p w. (0, w)), usecs_between = (\<lambda>w w'. Fin 1),
      tar_fuel = 5, bfs_is_absolute = (\<lambda>p. take 1 p = ''/''),
      sys_stat = (\<lambda>p w. (Some (if p = ''/d/s/f'' then \<lparr>st_size = 3, st_mode = 420\<rparr> else \<lparr>st_size = 4096, st_mode = 493\<rparr>), w)),
      sys_pread = (\<lambda>fd n off w. ((3 - off, drop (nat off) [1, 2, 3]), w)),
      ar_write_new = (\<lambda>w. (Some 0, w)), ar_write_set_format_ustar = (\<lambda>a w. (0, w)), ar_write_open_filename = (\<lambda>a p w. (0, w)),
      ar_read_new = (\<lambda>w. (Some 0, w)), ar_read_support_format_tar = (\<lambda>a w. (0, w)), ar_read_open_filename = (\<lambda>a p w. (0, w)),
      ar_errno = (\<lambda>a w. 0), ar_entry_new = (\<lambda>a w. (True, w)),
      ar_write_header = (\<lambda>a e w. (0, w\<lparr>tp_entries := tp_entries w @ [(e, [])]\<rparr>)),
      ar_write_data = (\<lambda>a bs w. (int (length bs), w\<lparr>tp_entries := snoc_data (tp_entries w) bs\<rparr>)),
      ar_write_close = (\<lambda>a w. (0, w)), ar_write_free = (\<lambda>a w. (0, w)), ar_read_next_header = (\<lambda>a. read_entry),
      ar_read_extract = (\<lambda>a p fl w. (0, w\<lparr>tp_out := tp_out w @ [(tp_current w, p)]\<rparr>)), ar_read_close = (\<lambda>a w. (0, w)),
      ar_read_free = (\<lambda>a w. (0, w))\<rparr>"

definition tape_view :: "tape tar_view" where
  "tape_view = \<lparr>tv_entries = tp_entries, tv_file = (\<lambda>w fd. if fd = 2 then Some ''/d'' else if fd = 4 then Some ''/d/s''
     else if fd = 6 then Some ''/d/s/f'' else None), tv_intr = (\<lambda>w. 0)\<rparr>"

definition tape_files :: files where
  "tape_files = \<lparr>f_paths = {''/d'', ''/d/s'', ''/d/s/f''}, f_content = (\<lambda>p. if p = ''/d/s/f'' then [1, 2, 3] else []),
     f_stat = (\<lambda>p. if p = ''/d/s/f'' then \<lparr>st_size = 3, st_mode = 420\<rparr> else \<lparr>st_size = 4096, st_mode = 493\<rparr>)\<rparr>"

definition tape_name :: "string \<Rightarrow> string" where
  "tape_name p = (if p = ''/d'' then ''/.'' else drop 2 p)"

definition tape_extract_view :: "tape extract_view" where
  "tape_extract_view = \<lparr>xv_left = tp_left, xv_current = tp_current, xv_out = tp_out\<rparr>"

abbreviation blank_tape :: tape where
  "blank_tape \<equiv> \<lparr>tp_entries = [], tp_left = [], tp_current = [], tp_out = []\<rparr>"

abbreviation tape_tar :: "openmode \<Rightarrow> tar" where
  "tape_tar op \<equiv> \<lparr>m_archive = Some 0, m_path = ''/t.tar'', m_openmode = op\<rparr>"

lemma tape_laws: "archive_laws tape_env tape_view 0 tape_files 0"
proof -
  have "files_at_rest tape_env tape_view tape_files 0"
    by (auto simp: files_at_rest_def tape_env_def tape_view_def tape_files_def)
  moreover have "pread_law tape_env tape_view tape_files"
    by (auto simp: pread_law_def tape_env_def tape_view_def tape_files_def)
  moreover have "archive_accepts tape_env tape_view 0"
    by (auto simp: archive_accepts_def tape_env_def tape_view_def)
  ultimately show ?thesis by (simp add: archive_laws_def)
qed

lemma tape_names: "p \<in> {''/d'', ''/d/s'', ''/d/s/f''} \<Longrightarrow> transform tape_env w p ''/d'' [] = Inr (tape_name p)"
proof -
  have "lexical_normalize boost_path_ops ''/d'' False = ''/d''" "lexical_normalize boost_path_ops ''/d/s'' False = ''/d/s''"
      "lexical_normalize boost_path_ops ''/d/s/f'' False = ''/d/s/f''" "lexical_normalize boost_path_ops [] False = []"
      "po_append boost_path_ops ''/'' ''.'' = ''/.''" "po_append boost_path_ops ''/'' ''s'' = ''/s''"
      "po_append boost_path_ops ''/'' ''s/f'' = ''/s/f''"
    by code_simp+
  then show "p \<in> {''/d'', ''/d/s'', ''/d/s/f''} \<Longrightarrow> ?thesis"
    by (auto simp: transform_def tape_env_def tape_name_def)
qed

lemma tape_rest: "tree_at_rest tape_env tape_files ''/d'' [] [''/d/s'', ''/d/s/f''] tape_name 0"
  using tape_names by (auto simp: tree_at_rest_def) (auto simp: tape_env_def tape_files_def)

theorem add_directory_packs_witness:
  "\<exists>w'. tar_add_directory tape_env (tape_tar Tar_create) ''/d'' [] blank_tape = Inr (0, w') \<and>
     map (\<lambda>(e, d). (ae_pathname e, d)) (tp_entries w') = [(''/.'', []), (''/s'', []), (''/s/f'', [1, 2, 3])]"
  using add_directory_packs [OF tape_laws tape_rest, of "tape_tar Tar_create" "''/d''" blank_tape]
  by (auto simp: tape_env_def tape_view_def directory_entries_def entry_of_def tape_name_def tape_files_def)


lemma tape_extract_laws: "extract_laws tape_env tape_extract_view 0"
  by (auto simp: extract_laws_def tape_env_def tape_extract_view_def read_entry_def)

lemma tape_extracted:
  "p \<in> {''/d'', ''/d/s'', ''/d/s/f''} \<Longrightarrow> ''..'' \<notin> set (po_elems (fs_path tape_env) (extracted_as tape_env ''/o'' (tape_name p)))"
proof -
  have "''..'' \<notin> set (po_elems boost_path_ops (po_append boost_path_ops ''/o'' (remove_leading_separator ''/.'')))"
      "''..'' \<notin> set (po_elems boost_path_ops (po_append boost_path_ops ''/o'' (remove_leading_separator ''/s'')))"
      "''..'' \<notin> set (po_elems boost_path_ops (po_append boost_path_ops ''/o'' (remove_leading_separator ''/s/f'')))"
    by code_simp+
  then show "p \<in> {''/d'', ''/d/s'', ''/d/s/f''} \<Longrightarrow> ?thesis"
    by (auto simp: tape_env_def tape_name_def)
qed

abbreviation full_tape :: tape where
  "full_tape \<equiv> \<lparr>tp_entries = [], tp_left = [''/.'', ''/s'', ''/s/f''], tp_current = [], tp_out = []\<rparr>"


end
