(* ===== verification/Listener.thy ===== *)
theory Listener
  imports Daemon Session "HOL-Library.Multiset"
begin

text \<open>
  The listener (\<^verbatim>\<open>src/api/listener.hpp\<close>), its endpoints (\<^verbatim>\<open>local-endpoint.hpp\<close>, \<^verbatim>\<open>remote-endpoint.hpp\<close>), the signal
  listener (\<^verbatim>\<open>signal-listener.hpp\<close>) and its event loop, in which the sessions of all clients (\<^verbatim>\<open>session.hpp\<close>) interleave
  with each other and with the other threads of the daemon. The \<^verbatim>\<open>io_service\<close> of Boost.Asio is the set of operations
  that were started and whose callbacks it has not run; it runs one callback at a time.
\<close>

section \<open>Sessions\<close>

text \<open>
  Where a session is: waiting for the header, waiting for the body with the message the header started, or over. A
  connection keeps all bytes its client has sent and all that the daemon has written.
\<close>

datatype read_phase = Read_header | Read_body message | Session_over

record connection =
  cn_creds :: "credentials option"
  cn_input :: "byte list"
  cn_phase :: read_phase
  cn_output :: "byte list"

definition session_start :: "credentials option \<Rightarrow> connection" where
  "session_start creds = \<lparr>cn_creds = creds, cn_input = [], cn_phase = Read_header, cn_output = []\<rparr>"

text \<open>The callback of the read of a header, and with it the start of the read of the body.\<close>

definition header_callback :: "bool \<Rightarrow> (nat \<Rightarrow> bool) \<Rightarrow> connection \<Rightarrow> connection outcome" where
  "header_callback big alloc c =
     obind (decode_header big alloc HEADER_LENGTH (message_init\<lparr>m_header := take HEADER_LENGTH (cn_input c)\<rparr>)) (\<lambda>(ok, m).
       Inr (c\<lparr>cn_phase := if ok \<and> m_expected_body_length m \<noteq> 0 then Read_body m else Session_over\<rparr>))"

text \<open>The callback of the read of a body: one request is served and the session ends.\<close>

definition body_callback ::
  "('w, 'e) urd_env_scheme \<Rightarrow> bool \<Rightarrow> (byte list \<Rightarrow> rpc_request option) \<Rightarrow> (rpc_response \<Rightarrow> byte list option) \<Rightarrow>
   message \<Rightarrow> connection \<Rightarrow> 'w urd \<Rightarrow> 'w \<Rightarrow> (connection \<times> 'w urd) outcome" where
  "body_callback env big parse ser m c u w =
     obind (do_read_request_body env big parse ser (cn_creds c) m (drop HEADER_LENGTH (cn_input c)) u w) (\<lambda>(out, u').
       Inr (c\<lparr>cn_phase := Session_over, cn_output := cn_output c @ out\<rparr>, u'))"

text \<open>How many bytes a session must have received before a callback without an error.\<close>

fun bytes_awaited :: "read_phase \<Rightarrow> nat" where
  "bytes_awaited Read_header = HEADER_LENGTH"
| "bytes_awaited (Read_body m) = HEADER_LENGTH + m_expected_body_length m"
| "bytes_awaited Session_over = 0"

section \<open>The signal listener\<close>

record signal_listener =
  sl_handler :: bool              \<comment> \<open>a handler is set\<close>
  sl_signals :: "signal list"
  sl_waits :: nat                 \<comment> \<open>waits that were started and have not been called back\<close>

definition set_handler :: "signal list \<Rightarrow> signal_listener \<Rightarrow> signal_listener" where
  "set_handler signums sl = sl\<lparr>sl_handler := True, sl_signals := signums\<rparr>"

definition clear_handler :: "signal_listener \<Rightarrow> signal_listener" where
  "clear_handler sl = sl\<lparr>sl_handler := False, sl_signals := []\<rparr>"

definition signal_do_accept :: "signal_listener \<Rightarrow> signal_listener" where
  "signal_do_accept sl = (if sl_handler sl then sl\<lparr>sl_waits := Suc (sl_waits sl)\<rparr> else sl)"

text \<open>The callback of a wait; a wait that was cancelled is not started again.\<close>

definition signal_callback :: "bool \<Rightarrow> signal \<Rightarrow> signal_listener \<Rightarrow> 'w urd \<Rightarrow> signal_listener \<times> 'w urd" where
  "signal_callback error sig sl u =
     (let sl1 = sl\<lparr>sl_waits := sl_waits sl - 1\<rparr>
      in if error then (sl1, u)
         else (sl1\<lparr>sl_waits := Suc (sl_waits sl1)\<rparr>, if sl_handler sl then signal_handler sig u else u))"

section \<open>The listener\<close>

text \<open>An endpoint by the name of its socket or its port.\<close>

datatype endpoint = Local_endpoint string | Remote_endpoint int

record listener =
  m_local_endpoints :: "string list"
  m_remote_endpoints :: "int list"
  m_signal_listener :: signal_listener
  m_accepts :: "endpoint list"          \<comment> \<open>accepts that were started and have not been called back\<close>
  m_sessions :: "connection list"

definition listener_new :: listener where
  "listener_new = \<lparr>m_local_endpoints = [], m_remote_endpoints = [],
     m_signal_listener = \<lparr>sl_handler = False, sl_signals = [], sl_waits = 0\<rparr>, m_accepts = [], m_sessions = []\<rparr>"

definition register_local_endpoint :: "string \<Rightarrow> listener \<Rightarrow> listener" where
  "register_local_endpoint sockfile l = l\<lparr>m_local_endpoints := m_local_endpoints l @ [sockfile]\<rparr>"

definition register_remote_endpoint :: "int \<Rightarrow> listener \<Rightarrow> listener" where
  "register_remote_endpoint port l = l\<lparr>m_remote_endpoints := m_remote_endpoints l @ [port]\<rparr>"

definition set_signal_handler :: "signal list \<Rightarrow> listener \<Rightarrow> listener" where
  "set_signal_handler signums l = l\<lparr>m_signal_listener := set_handler signums (m_signal_listener l)\<rparr>"

definition do_accept :: "endpoint \<Rightarrow> listener \<Rightarrow> listener" where
  "do_accept e l = l\<lparr>m_accepts := e # m_accepts l\<rparr>"

text \<open>The callback of an accept: a session for a client, unless there was an error, and the next accept.\<close>

definition accept_callback :: "endpoint \<Rightarrow> credentials option option \<Rightarrow> listener \<Rightarrow> listener" where
  "accept_callback e client l =
     (let l1 = l\<lparr>m_accepts := remove1 e (m_accepts l)\<rparr>;
          l2 = (case client of None \<Rightarrow> l1 | Some creds \<Rightarrow> l1\<lparr>m_sessions := m_sessions l1 @ [session_start creds]\<rparr>)
      in do_accept e l2)"

definition all_endpoints :: "listener \<Rightarrow> endpoint list" where
  "all_endpoints l = map Local_endpoint (m_local_endpoints l) @ map Remote_endpoint (m_remote_endpoints l)"

text \<open>\<^verbatim>\<open>run\<close> up to the event loop.\<close>

definition listener_run :: "listener \<Rightarrow> listener" where
  "listener_run l =
     (let l1 = fold do_accept (all_endpoints l) l
      in l1\<lparr>m_signal_listener := signal_do_accept (m_signal_listener l1)\<rparr>)"

section \<open>The event loop\<close>

abbreviation set_session :: "nat \<Rightarrow> connection \<Rightarrow> listener \<Rightarrow> listener" where
  "set_session i c l \<equiv> l\<lparr>m_sessions := (m_sessions l)[i := c]\<rparr>"

text \<open>
  A step is a callback, bytes that arrive from a client, or a step of another thread: any step of the daemon that
  leaves alone what only callbacks change. A callback that faults ends the process, so it has no successor; after
  \<^verbatim>\<open>stop\<close> no callback runs. Nothing cancels the wait for signals while the loop runs.
\<close>

inductive loop_step ::
  "('w, 'e) urd_env_scheme \<Rightarrow> bool \<Rightarrow> (nat \<Rightarrow> bool) \<Rightarrow> (byte list \<Rightarrow> rpc_request option) \<Rightarrow>
   (rpc_response \<Rightarrow> byte list option) \<Rightarrow> listener \<times> 'w urd \<times> 'w \<Rightarrow> listener \<times> 'w urd \<times> 'w \<Rightarrow> bool"
  for env :: "('w, 'e) urd_env_scheme" and big alloc parse ser
where
  Accepted: "\<not> m_ipc_stopped u \<Longrightarrow> e \<in> set (m_accepts l) \<Longrightarrow>
    loop_step env big alloc parse ser (l, u, w) (accept_callback e client l, u, w)"
| Arrived: "i < length (m_sessions l) \<Longrightarrow> c = m_sessions l ! i \<Longrightarrow>
    loop_step env big alloc parse ser (l, u, w) (set_session i (c\<lparr>cn_input := cn_input c @ bs\<rparr>) l, u, w)"
| Header: "\<not> m_ipc_stopped u \<Longrightarrow> i < length (m_sessions l) \<Longrightarrow> c = m_sessions l ! i \<Longrightarrow> cn_phase c = Read_header \<Longrightarrow>
    bytes_awaited (cn_phase c) \<le> length (cn_input c) \<Longrightarrow> header_callback big alloc c = Inr c' \<Longrightarrow>
    loop_step env big alloc parse ser (l, u, w) (set_session i c' l, u, w)"
| Body: "\<not> m_ipc_stopped u \<Longrightarrow> i < length (m_sessions l) \<Longrightarrow> c = m_sessions l ! i \<Longrightarrow> cn_phase c = Read_body m \<Longrightarrow>
    bytes_awaited (cn_phase c) \<le> length (cn_input c) \<Longrightarrow> body_callback env big parse ser m c u w = Inr (c', u') \<Longrightarrow>
    loop_step env big alloc parse ser (l, u, w) (set_session i c' l, u', w)"
| Read_Failed: "\<not> m_ipc_stopped u \<Longrightarrow> i < length (m_sessions l) \<Longrightarrow> c = m_sessions l ! i \<Longrightarrow>
    length (cn_input c) < bytes_awaited (cn_phase c) \<Longrightarrow>
    loop_step env big alloc parse ser (l, u, w) (set_session i (c\<lparr>cn_phase := Session_over\<rparr>) l, u, w)"
| Signalled: "\<not> m_ipc_stopped u \<Longrightarrow> 0 < sl_waits (m_signal_listener l) \<Longrightarrow> sig \<in> set (sl_signals (m_signal_listener l)) \<Longrightarrow>
    signal_callback False sig (m_signal_listener l) u = (sl, u') \<Longrightarrow>
    loop_step env big alloc parse ser (l, u, w) (l\<lparr>m_signal_listener := sl\<rparr>, u', w)"
| Other_Thread: "urd_step env (u, w) (u', w') \<Longrightarrow> m_jobs u' = m_jobs u \<Longrightarrow> m_namespace_mgr u' = m_namespace_mgr u \<Longrightarrow>
    m_is_paused u' = m_is_paused u \<Longrightarrow> m_ipc_stopped u' = m_ipc_stopped u \<Longrightarrow>
    loop_step env big alloc parse ser (l, u, w) (l, u', w')"

section \<open>Nothing is missed\<close>

text \<open>
  Every endpoint has one accept under way, and one wait for signals is under way.
\<close>

definition listening :: "listener \<Rightarrow> bool" where
  "listening l \<longleftrightarrow> mset (m_accepts l) = mset (all_endpoints l) \<and> sl_handler (m_signal_listener l) \<and>
     sl_waits (m_signal_listener l) = 1"

lemma fold_do_accept: "fold do_accept es l = l\<lparr>m_accepts := rev es @ m_accepts l\<rparr>"
  by (induction es arbitrary: l) (simp_all add: do_accept_def)

lemma listener_run_listening:
  assumes "m_accepts l = []" and "sl_handler (m_signal_listener l)" and "sl_waits (m_signal_listener l) = 0"
  shows "listening (listener_run l)"
  using assms by (simp add: listening_def listener_run_def fold_do_accept signal_do_accept_def all_endpoints_def)

lemma accept_callback_simps [simp]:
  "m_local_endpoints (accept_callback e client l) = m_local_endpoints l"
  "m_remote_endpoints (accept_callback e client l) = m_remote_endpoints l"
  "m_signal_listener (accept_callback e client l) = m_signal_listener l"
  "m_sessions (accept_callback e client l) =
     m_sessions l @ (case client of None \<Rightarrow> [] | Some creds \<Rightarrow> [session_start creds])"
  "e \<in> set (m_accepts l) \<Longrightarrow> mset (m_accepts (accept_callback e client l)) = mset (m_accepts l)"
  by (auto simp: accept_callback_def do_accept_def Let_def split: option.splits)

lemma step_listening:
  assumes "loop_step env big alloc parse ser (l, u, w) (l', u', w')" and "listening l"
  shows "listening l' \<and> all_endpoints l' = all_endpoints l"
  using assms by cases (auto simp: listening_def all_endpoints_def signal_callback_def Let_def)

section \<open>Everybody gets their own answer\<close>

text \<open>Every step of the loop is a step of the daemon or does not concern it.\<close>

lemma body_serves:
  assumes "body_callback env big parse ser m c u w = Inr (c', u')"
  shows "u' = u \<or> (\<exists>req resp. serve_request env req (cn_creds c) u w = Inr (resp, u'))"
  using assms
  by (auto simp: body_callback_def do_read_request_body_def obind_eq_Inr case_prod_unfold Let_def split: if_splits)

lemma loop_step_daemon:
  assumes "loop_step env big alloc parse ser (l, u, w) (l', u', w')"
  shows "(urd_step env)\<^sup>*\<^sup>* (u, w) (u', w')"
  using assms
proof cases
  case (Body i c m c')
  then show ?thesis using body_serves by (fastforce intro: Request)
next
  case (Signalled sig sl)
  then show ?thesis by (auto simp: signal_callback_def Let_def split: if_splits intro: Signal)
qed auto

text \<open>
  What holds of a session at any time: nothing is written before its body was read; what was written then is the
  answer to a prefix of its own bytes, in a state \<open>(u, w)\<close> of the daemon with property \<open>P\<close>.
\<close>

definition answer_in ::
  "('w, 'e) urd_env_scheme \<Rightarrow> bool \<Rightarrow> (nat \<Rightarrow> bool) \<Rightarrow> (byte list \<Rightarrow> rpc_request option) \<Rightarrow> (rpc_response \<Rightarrow> byte list option) \<Rightarrow>
   ('w urd \<times> 'w \<Rightarrow> bool) \<Rightarrow> connection \<Rightarrow> bool" where
  "answer_in env big alloc parse ser P c \<longleftrightarrow>
     (\<exists>u w u' k. P (u, w) \<and> do_read_request env big alloc parse ser (cn_creds c) (take k (cn_input c)) u w = Inr (cn_output c, u'))"

fun session_ok ::
  "('w, 'e) urd_env_scheme \<Rightarrow> bool \<Rightarrow> (nat \<Rightarrow> bool) \<Rightarrow> (byte list \<Rightarrow> rpc_request option) \<Rightarrow> (rpc_response \<Rightarrow> byte list option) \<Rightarrow>
   ('w urd \<times> 'w \<Rightarrow> bool) \<Rightarrow> connection \<Rightarrow> read_phase \<Rightarrow> bool" where
  "session_ok env big alloc parse ser P c Read_header \<longleftrightarrow> cn_output c = []"
| "session_ok env big alloc parse ser P c (Read_body m) \<longleftrightarrow> cn_output c = [] \<and> HEADER_LENGTH \<le> length (cn_input c) \<and>
     decode_header big alloc HEADER_LENGTH (message_init\<lparr>m_header := take HEADER_LENGTH (cn_input c)\<rparr>) = Inr (True, m)"
| "session_ok env big alloc parse ser P c Session_over \<longleftrightarrow>
     cn_output c = [] \<or> answer_in env big alloc parse ser P c"

lemma session_ok_arrived:
  assumes "session_ok env big alloc parse ser P c (cn_phase c)"
  shows "session_ok env big alloc parse ser P (c\<lparr>cn_input := cn_input c @ bs\<rparr>) (cn_phase c)"
proof (cases "cn_phase c")
  case Session_over
  have "answer_in env big alloc parse ser P (c\<lparr>cn_input := cn_input c @ bs\<rparr>)" if "answer_in env big alloc parse ser P c"
  proof -
    from that obtain u w u' k where k: "P (u, w)"
        "do_read_request env big alloc parse ser (cn_creds c) (take k (cn_input c)) u w = Inr (cn_output c, u')"
      unfolding answer_in_def by blast
    have "take (min k (length (cn_input c))) (cn_input c @ bs) = take k (cn_input c)" by (simp add: min_def)
    with k show ?thesis
      unfolding answer_in_def
      by (intro exI [of _ u] exI [of _ w] exI [of _ u'] exI [of _ "min k (length (cn_input c))"]) (simp del: take_append)
  qed
  with Session_over assms show ?thesis by auto
qed (use assms in auto)

lemma body_answers:
  assumes "session_ok env big alloc parse ser P c (Read_body m)" and "P (u, w)"
    and "body_callback env big parse ser m c u w = Inr (c', u')"
  shows "answer_in env big alloc parse ser P c'"
proof -
  have "do_read_request env big alloc parse ser (cn_creds c) (cn_input c) u w = Inr (cn_output c', u')"
      "cn_creds c' = cn_creds c" "cn_input c' = cn_input c"
    using assms(1,3) by (auto simp: do_read_request_def body_callback_def obind_eq_Inr)
  with assms(2) show ?thesis unfolding answer_in_def by (metis order_refl take_all)
qed

lemma header_ok:
  assumes "header_callback big alloc c = Inr c'" and "cn_output c = []" and "HEADER_LENGTH \<le> length (cn_input c)"
  shows "session_ok env big alloc parse ser P c' (cn_phase c')"
  using assms by (auto simp: header_callback_def obind_eq_Inr)

definition sessions_ok ::
  "('w, 'e) urd_env_scheme \<Rightarrow> bool \<Rightarrow> (nat \<Rightarrow> bool) \<Rightarrow> (byte list \<Rightarrow> rpc_request option) \<Rightarrow> (rpc_response \<Rightarrow> byte list option) \<Rightarrow>
   ('w urd \<times> 'w \<Rightarrow> bool) \<Rightarrow> connection list \<Rightarrow> bool" where
  "sessions_ok env big alloc parse ser P cs \<longleftrightarrow> (\<forall>c \<in> set cs. session_ok env big alloc parse ser P c (cn_phase c))"

lemma sessions_ok_update:
  "sessions_ok env big alloc parse ser P cs \<Longrightarrow> session_ok env big alloc parse ser P c (cn_phase c) \<Longrightarrow>
     sessions_ok env big alloc parse ser P (cs[i := c])"
  by (auto simp: sessions_ok_def dest: set_update_subset_insert [THEN subsetD])

lemma sessions_ok_nth:
  "sessions_ok env big alloc parse ser P cs \<Longrightarrow> i < length cs \<Longrightarrow> session_ok env big alloc parse ser P (cs ! i) (cn_phase (cs ! i))"
  by (simp add: sessions_ok_def)

lemma loop_step_sessions:
  assumes "loop_step env big alloc parse ser (l, u, w) (l', u', w')" and "sessions_ok env big alloc parse ser P (m_sessions l)"
    and "P (u, w)"
  shows "sessions_ok env big alloc parse ser P (m_sessions l')"
  using assms(1)
proof cases
  case (Accepted e client)
  then show ?thesis using assms(2) by (auto simp: sessions_ok_def session_start_def split: option.splits)
next
  case (Arrived i c bs)
  then show ?thesis
    using session_ok_arrived [OF sessions_ok_nth [OF assms(2)], of i bs] by (auto intro!: sessions_ok_update [OF assms(2)])
next
  case (Header i c c')
  then show ?thesis
    using sessions_ok_nth [OF assms(2), of i] by (auto intro!: sessions_ok_update [OF assms(2)] header_ok)
next
  case (Body i c m c')
  then have "cn_phase c' = Session_over" by (auto simp: body_callback_def obind_eq_Inr)
  moreover have "answer_in env big alloc parse ser P c'"
    using sessions_ok_nth [OF assms(2), of i] Body by (intro body_answers [of env big alloc parse ser P c m u w c' u'] assms(3)) auto
  ultimately show ?thesis using Body by (auto intro!: sessions_ok_update [OF assms(2)])
next
  case (Read_Failed i c)
  then show ?thesis
    using sessions_ok_nth [OF assms(2), of i]
    by (cases "cn_phase c") (auto intro!: sessions_ok_update [OF assms(2)])
qed (use assms(2) in auto)

text \<open>The two invariants of a run that started with no session.\<close>

definition loop_inv ::
  "('w, 'e) urd_env_scheme \<Rightarrow> bool \<Rightarrow> (nat \<Rightarrow> bool) \<Rightarrow> (byte list \<Rightarrow> rpc_request option) \<Rightarrow> (rpc_response \<Rightarrow> byte list option) \<Rightarrow>
   endpoint list \<Rightarrow> 'w urd \<times> 'w \<Rightarrow> listener \<times> 'w urd \<times> 'w \<Rightarrow> bool" where
  "loop_inv env big alloc parse ser es s0 s \<longleftrightarrow> (case s of (l, u, w) \<Rightarrow>
     listening l \<and> all_endpoints l = es \<and> (urd_step env)\<^sup>*\<^sup>* s0 (u, w) \<and>
     sessions_ok env big alloc parse ser ((urd_step env)\<^sup>*\<^sup>* s0) (m_sessions l))"

text \<open>A listener that was set up and not run: no operation was started, and there is a handler of signals.\<close>

definition ready :: "listener \<Rightarrow> bool" where
  "ready l \<longleftrightarrow> m_accepts l = [] \<and> sl_handler (m_signal_listener l) \<and> sl_waits (m_signal_listener l) = 0 \<and> m_sessions l = []"

interpretation event_loop: invariant_system
  "\<lambda>s. \<exists>l. ready l \<and> all_endpoints l = es \<and> s = (listener_run l, s0)"
  "loop_step env big alloc parse ser" "loop_inv env big alloc parse ser es s0"
  for env :: "('w, 'e) urd_env_scheme" and big alloc parse ser es s0
proof unfold_locales
  fix s assume "\<exists>l. ready l \<and> all_endpoints l = es \<and> s = (listener_run l, s0)"
  then obtain l where l: "ready l" "all_endpoints l = es" "s = (listener_run l, s0)" by blast
  then have "m_sessions (listener_run l) = []" "all_endpoints (listener_run l) = es"
    by (auto simp: listener_run_def fold_do_accept ready_def all_endpoints_def)
  then show "loop_inv env big alloc parse ser es s0 s"
    using l listener_run_listening [of l] by (cases s0) (simp add: loop_inv_def sessions_ok_def ready_def)
next
  fix s t :: "listener \<times> 'w urd \<times> 'w"
  assume inv: "loop_inv env big alloc parse ser es s0 s" and step: "loop_step env big alloc parse ser s t"
  obtain l u w l' u' w' where s: "s = (l, u, w)" and t: "t = (l', u', w')" by (cases s; cases t) auto
  from inv [unfolded s loop_inv_def] step [unfolded s t] show "loop_inv env big alloc parse ser es s0 t"
    unfolding t loop_inv_def
    by (auto dest: step_listening loop_step_daemon loop_step_sessions [where P = "(urd_step env)\<^sup>*\<^sup>* s0"]
        intro: rtranclp_trans)
qed

text \<open>
  C19. The event loop serves clients one request at a time although their sessions interleave: at any moment of a run
  that began in state \<open>s0\<close> of the daemon, the daemon is in a state that its own steps reach from \<open>s0\<close>, and whatever
  was written to a client is the answer to the bytes of that client, under its credentials, in one such state. And
  nothing is missed: each endpoint has exactly one accept under way, and one wait for signals is.
\<close>

theorem event_loop_serves:
  assumes "ready l0" and "(loop_step env big alloc parse ser)\<^sup>*\<^sup>* (listener_run l0, s0) (l, u, w)"
  shows "(urd_step env)\<^sup>*\<^sup>* s0 (u, w) \<and>
    (\<forall>c \<in> set (m_sessions l). cn_output c = [] \<or> answer_in env big alloc parse ser ((urd_step env)\<^sup>*\<^sup>* s0) c) \<and>
    mset (m_accepts l) = mset (all_endpoints l0) \<and> sl_waits (m_signal_listener l) = 1"
proof -
  have "loop_inv env big alloc parse ser (all_endpoints l0) s0 (l, u, w)"
    using assms by (intro event_loop.inv_steps [OF event_loop.inv_init]) auto
  then show ?thesis
    unfolding loop_inv_def listening_def sessions_ok_def
    by (auto elim!: session_ok.elims)
qed

section \<open>Nobody has to wait for another client\<close>

lemma framed_served:
  assumes "0 < length body" and "length body < 2 ^ 64" and "alloc (length body)"
    and "parse body = Some rq" and "decode_request rq = Inr req"
    and "serve_request env req creds u w = Inr (resp, u')" and "ser (pack_response resp) = Some out"
  obtains m where "decode_header big alloc HEADER_LENGTH
      (message_init\<lparr>m_header := take HEADER_LENGTH (framed_message body)\<rparr>) = Inr (True, m)"
    "m_expected_body_length m = length body"
    "do_read_request_body env big parse ser creds m (drop HEADER_LENGTH (framed_message body)) u w = Inr (framed_message out, u')"
proof -
  have all: "take (8 + length body) (framed_message body) = framed_message body" by simp
  obtain m where m: "decode_header big alloc HEADER_LENGTH
      (message_init\<lparr>m_header := take HEADER_LENGTH (framed_message body)\<rparr>) = Inr (True, m)"
      "m_expected_body_length m = length body"
    using header_framed [of body alloc "8 + length body" big] assms(2,3) unfolding all by auto
  moreover have "do_read_request env big alloc parse ser creds (framed_message body) u w = Inr (framed_message out, u')"
    using read_framed [of body alloc "8 + length body" env big parse ser creds u w] assms
    unfolding all by (simp add: create_from_buffer_def)
  ultimately show thesis using that [of m] by (simp add: do_read_request_def)
qed

lemma client_served:
  assumes "\<not> m_ipc_stopped u" and "i < length (m_sessions l)" and "m_sessions l ! i = c" and "cn_phase c = Read_header"
    and "cn_input c = framed_message body" and "0 < length body" and "length body < 2 ^ 64" and "alloc (length body)"
    and "parse body = Some rq" and "decode_request rq = Inr req"
    and "serve_request env req (cn_creds c) u w = Inr (resp, u')" and "ser (pack_response resp) = Some out"
  shows "(loop_step env big alloc parse ser)\<^sup>*\<^sup>* (l, u, w)
    (set_session i (c\<lparr>cn_phase := Session_over, cn_output := cn_output c @ framed_message out\<rparr>) l, u', w)"
proof -
  obtain m where m: "decode_header big alloc HEADER_LENGTH
      (message_init\<lparr>m_header := take HEADER_LENGTH (framed_message body)\<rparr>) = Inr (True, m)"
      "m_expected_body_length m = length body"
      "do_read_request_body env big parse ser (cn_creds c) m (drop HEADER_LENGTH (framed_message body)) u w =
        Inr (framed_message out, u')"
    by (rule framed_served [where big = big, of body alloc parse rq req env "cn_creds c" u w resp u' ser out]) (rule assms | assumption)+
  let ?l = "set_session i (c\<lparr>cn_phase := Read_body m\<rparr>) l"
  have "loop_step env big alloc parse ser (l, u, w) (?l, u, w)"
    using assms(1-6) m(1,2) by (intro loop_step.Header) (auto simp: header_callback_def)
  moreover have "loop_step env big alloc parse ser (?l, u, w)
      (set_session i (c\<lparr>cn_phase := Session_over, cn_output := cn_output c @ framed_message out\<rparr>) ?l, u', w)"
    using assms(1,2,5) m(2,3)
    by (intro loop_step.Body [where c = "c\<lparr>cn_phase := Read_body m\<rparr>" and m = m]) (auto simp: body_callback_def)
  ultimately show ?thesis by simp
qed


section \<open>An example\<close>

definition ping_request :: rpc_request where
  "ping_request = \<lparr>rq_type = PING, rq_task = None, rq_jobid = None, rq_job = None, rq_process = None,
     rq_nspace = None, rq_command = None\<rparr>"

definition sample_listener :: listener where
  "sample_listener = set_signal_handler [SIGHUP, SIGTERM, SIGINT] (register_local_endpoint ''/run/urd.sock'' listener_new)"

text \<open>One client that has connected and said nothing, and one that has sent a ping.\<close>

definition two_clients :: listener where
  "two_clients = (listener_run sample_listener)\<lparr>m_sessions :=
     [session_start None, (session_start None)\<lparr>cn_input := framed_message [3]\<rparr>]\<rparr>"

abbreviation (input) answered_two :: listener where
  "answered_two \<equiv> set_session 1 ((session_start None)\<lparr>cn_input := framed_message [3], cn_phase := Session_over,
     cn_output := framed_message [1, 2]\<rparr>) two_clients"

lemma ping_served: "serve_request quiet_urd_env Ping_request None u () = Inr (make_response RS_ping UE_success, u)"
  by (simp add: serve_request_eq ping_handler_def)


theorem event_loop_serves_witness:
  "\<exists>l. (loop_step quiet_urd_env False (\<lambda>_. True) ping_parse (\<lambda>_. Some [1, 2]))\<^sup>*\<^sup>*
      (listener_run sample_listener, sample_urd, ()) (l, sample_urd, ()) \<and>
     m_accepts l = [Local_endpoint ''/run/urd.sock''] \<and>
     (\<exists>c \<in> set (m_sessions l). cn_output c = framed_message [1, 2] \<and> cn_input c = framed_message [3] \<and>
       answer_in quiet_urd_env False (\<lambda>_. True) ping_parse (\<lambda>_. Some [1, 2])
         ((urd_step quiet_urd_env)\<^sup>*\<^sup>* (sample_urd, ())) c)"
proof -
  let ?step = "loop_step quiet_urd_env False (\<lambda>_. True) ping_parse (\<lambda>_. Some [1, 2])"
  let ?l0 = "listener_run sample_listener"
  let ?e = "Local_endpoint ''/run/urd.sock''"
  let ?c = "(session_start None)\<lparr>cn_input := framed_message [3]\<rparr>"
  have acc: "m_accepts ?l0 = [?e]" and ready: "ready sample_listener" and eps: "all_endpoints sample_listener = [?e]"
    by (simp_all add: sample_listener_def listener_run_def fold_do_accept register_local_endpoint_def set_signal_handler_def
        listener_new_def all_endpoints_def ready_def set_handler_def do_accept_def Let_def)
  define l1 where "l1 = accept_callback ?e (Some None) ?l0"
  define l2 where "l2 = set_session 0 ?c l1"
  have "m_sessions ?l0 = []"
    by (simp add: sample_listener_def listener_run_def fold_do_accept register_local_endpoint_def set_signal_handler_def listener_new_def
        all_endpoints_def do_accept_def Let_def)
  then have s1: "m_sessions l1 = [session_start None]" by (simp add: l1_def)
  have 1: "?step (?l0, sample_urd, ()) (l1, sample_urd, ())"
    unfolding l1_def by (rule loop_step.Accepted) (simp_all add: acc sample_urd_def)
  have 2: "?step (l1, sample_urd, ()) (l2, sample_urd, ())"
    unfolding l2_def using loop_step.Arrived [of 0 l1 "session_start None"] s1 by (simp add: session_start_def)
  have 3: "?step\<^sup>*\<^sup>* (l2, sample_urd, ())
      (set_session 0 (?c\<lparr>cn_phase := Session_over, cn_output := cn_output ?c @ framed_message [1, 2]\<rparr>) l2, sample_urd, ())"
    by (rule client_served [where rq = ping_request and req = Ping_request and body = "[3]" and resp = "make_response RS_ping UE_success"])
      (simp_all add: l2_def s1 session_start_def ping_parse_def ping_request_def decode_request_def ping_served sample_urd_def)
  have run: "?step\<^sup>*\<^sup>* (?l0, sample_urd, ())
      (set_session 0 (?c\<lparr>cn_phase := Session_over, cn_output := cn_output ?c @ framed_message [1, 2]\<rparr>) l2, sample_urd, ())"
    by (rule converse_rtranclp_into_rtranclp [OF 1 converse_rtranclp_into_rtranclp [OF 2 3]])
  define l where "l = set_session 0 (?c\<lparr>cn_phase := Session_over, cn_output := cn_output ?c @ framed_message [1, 2]\<rparr>) l2"
  have l: "?step\<^sup>*\<^sup>* (?l0, sample_urd, ()) (l, sample_urd, ())"
      "m_sessions l = [?c\<lparr>cn_phase := Session_over, cn_output := framed_message [1, 2]\<rparr>]"
    using run s1 by (simp_all add: l_def l2_def session_start_def)
  from event_loop_serves [OF ready l(1)] l eps show ?thesis
    by (intro exI [of _ l]) (auto simp: framed_message_def mset_single_iff)
qed

end
