(* ===== verification/Startup.thy ===== *)
theory Startup
  imports Listener Config_Reader
begin

text \<open>
  The life of the daemon's process: \<^verbatim>\<open>urd::run\<close> with everything it does before and after the event loop
  (\<^verbatim>\<open>daemonize\<close>, \<^verbatim>\<open>init_logger\<close>, \<^verbatim>\<open>check_configuration\<close>, \<^verbatim>\<open>init_event_handlers\<close>, \<^verbatim>\<open>init_task_manager\<close>, \<^verbatim>\<open>teardown\<close>, all
  in \<^verbatim>\<open>src/urd.cpp\<close>), and the end of \<^verbatim>\<open>main\<close> (\<^verbatim>\<open>src/main.cpp\<close>). The system calls, the loggers and the construction of
  services are parameters; the event loop is that of \<open>Listener\<close>.
\<close>

unbundle bit_operations_syntax

section \<open>Processes\<close>

text \<open>The ways in which a function does not return to its caller.\<close>

datatype proc_end =
    Exits int                \<comment> \<open>\<^verbatim>\<open>exit\<close>, which destroys nothing that is on the stack\<close>
  | Throws                   \<comment> \<open>an exception\<close>
  | Crashes fault
  | Never_ends

text \<open>The members of the class \<^verbatim>\<open>urd\<close> that can be null while the daemon starts and stops, and the world.\<close>

record 'w process =
  p_world :: 'w
  p_settings :: "settings option"
  p_ipc_service :: "listener option"
  p_network_service :: "string option"     \<comment> \<open>the address it is bound to\<close>
  p_task_mgr :: bool                       \<comment> \<open>there is a task manager, and so there are worker threads\<close>

type_synonym ('w, 'a) proc = "'w process \<Rightarrow> (proc_end + 'a) \<times> 'w process"

definition proc_return :: "'a \<Rightarrow> ('w, 'a) proc" where
  "proc_return a s = (Inr a, s)"

definition proc_stop :: "proc_end \<Rightarrow> ('w, 'a) proc" where
  "proc_stop e s = (Inl e, s)"

definition proc_bind :: "('w, 'a) proc \<Rightarrow> ('a \<Rightarrow> ('w, 'b) proc) \<Rightarrow> ('w, 'b) proc" where
  "proc_bind m f s = (case m s of (Inl e, s') \<Rightarrow> (Inl e, s') | (Inr a, s') \<Rightarrow> f a s')"

definition proc_call :: "('w \<Rightarrow> 'a \<times> 'w) \<Rightarrow> ('w, 'a) proc" where
  "proc_call f s = (case f (p_world s) of (a, w) \<Rightarrow> (Inr a, s\<lparr>p_world := w\<rparr>))"

definition proc_modify :: "('w process \<Rightarrow> 'w process) \<Rightarrow> ('w, unit) proc" where
  "proc_modify f s = (Inr (), f s)"

definition the_settings :: "('w, settings) proc" where
  "the_settings s = (case p_settings s of None \<Rightarrow> (Inl (Crashes Null_Deref), s) | Some st \<Rightarrow> (Inr st, s))"

abbreviation (input) EXIT_FAILURE :: int where "EXIT_FAILURE \<equiv> 1"
abbreviation (input) EXIT_SUCCESS :: int where "EXIT_SUCCESS \<equiv> 0"

datatype logger_type = Console_color | Syslog | Log_file string

datatype service = Listener_service | Task_manager_service | Namespace_manager_service | Registry_service | Network_service string

text \<open>
  The system. What may throw returns \<open>False\<close> when it does. The event loop is called with the listener and the state of
  the daemon, and returns them when it was stopped.
\<close>

record 'w proc_env = "'w urd_env" +
  pr_fuel :: nat
  pr_getppid :: "'w \<Rightarrow> int"
  pr_getpid :: "'w \<Rightarrow> int"
  pr_fork :: "'w \<Rightarrow> int \<times> 'w"
  pr_setsid :: "'w \<Rightarrow> int \<times> 'w"
  pr_dup2 :: "int \<Rightarrow> int \<Rightarrow> 'w \<Rightarrow> int \<times> 'w"
  pr_umask :: "u32 \<Rightarrow> 'w \<Rightarrow> u32 \<times> 'w"
  pr_chdir :: "string \<Rightarrow> 'w \<Rightarrow> int \<times> 'w"
  pr_lockf :: "int \<Rightarrow> 'w \<Rightarrow> int \<times> 'w"
  pr_write :: "int \<Rightarrow> string \<Rightarrow> 'w \<Rightarrow> int \<times> 'w"
  pr_ignore_signal :: "nat \<Rightarrow> 'w \<Rightarrow> 'w"
  pr_to_string :: "int \<Rightarrow> string"
  pr_create_logger :: "string \<Rightarrow> logger_type \<Rightarrow> 'w \<Rightarrow> bool \<times> 'w"
  pr_destroy_logger :: "'w \<Rightarrow> 'w"
  pr_permissions :: "string \<Rightarrow> 'w \<Rightarrow> error_code \<times> u32"
  pr_construct :: "service \<Rightarrow> 'w \<Rightarrow> bool \<times> 'w"
  pr_bind :: "string \<Rightarrow> 'w \<Rightarrow> bool \<times> 'w"          \<comment> \<open>creates the socket of a local endpoint\<close>
  pr_join_workers :: "'w \<Rightarrow> 'w"
  pr_network_run :: "'w \<Rightarrow> 'w"
  pr_event_loop :: "listener \<Rightarrow> 'w urd \<Rightarrow> 'w \<Rightarrow> (proc_end + listener \<times> 'w urd) \<times> 'w"

section \<open>Stopping\<close>

text \<open>Destroying a listener destroys its endpoints, and a local endpoint removes its socket.\<close>

definition destroy_listener :: "('w, 'e) proc_env_scheme \<Rightarrow> listener \<Rightarrow> 'w \<Rightarrow> 'w" where
  "destroy_listener env l w = fold (\<lambda>p w. snd (bfs_remove env p w)) (m_local_endpoints l) w"

definition teardown_ipc :: "('w, 'e) proc_env_scheme \<Rightarrow> 'w process \<Rightarrow> 'w process" where
  "teardown_ipc env s =
     (case p_ipc_service s of None \<Rightarrow> s
      | Some l \<Rightarrow> s\<lparr>p_world := destroy_listener env l (p_world s), p_ipc_service := None\<rparr>)"

definition teardown :: "('w, 'e) proc_env_scheme \<Rightarrow> 'w process \<Rightarrow> 'w process" where
  "teardown env s =
     (let s1 = teardown_ipc env s;
          s2 = (case p_settings s1 of None \<Rightarrow> s1
                | Some st \<Rightarrow> s1\<lparr>p_world := snd (bfs_remove env (s_pidfile st) (p_world s1)), p_settings := None\<rparr>)
      in if p_task_mgr s2 then s2\<lparr>p_world := pr_join_workers env (p_world s2), p_task_mgr := False\<rparr> else s2)"

definition teardown_and_exit :: "('w, 'e) proc_env_scheme \<Rightarrow> ('w, 'a) proc" where
  "teardown_and_exit env = proc_bind (proc_modify (teardown env)) (\<lambda>_. proc_stop (Exits EXIT_FAILURE))"

text \<open>The destructor of the class, with the members in the reverse of their order.\<close>

definition urd_destroy :: "('w, 'e) proc_env_scheme \<Rightarrow> 'w process \<Rightarrow> 'w process" where
  "urd_destroy env s =
     teardown_ipc env (if p_task_mgr s then s\<lparr>p_world := pr_join_workers env (p_world s), p_task_mgr := False\<rparr> else s)"

section \<open>Starting\<close>

definition init_logger :: "('w, 'e) proc_env_scheme \<Rightarrow> ('w, unit) proc" where
  "init_logger env =
     proc_bind the_settings (\<lambda>st.
       let type = (if s_use_console st then Console_color
                   else if s_use_syslog st then Syslog
                   else if s_log_file st \<noteq> [] then Log_file (s_log_file st)
                   else Console_color)
       in proc_bind (proc_call (pr_create_logger env (s_progname st) type)) (\<lambda>ok.
            if ok then proc_return () else proc_stop Throws))"

text \<open>\<^verbatim>\<open>bfs::exists\<close> and \<^verbatim>\<open>bfs::status\<close> without an error code throw.\<close>

definition proc_exists :: "('w, 'e) proc_env_scheme \<Rightarrow> string \<Rightarrow> ('w, bool) proc" where
  "proc_exists env p =
     proc_bind (proc_call (\<lambda>w. (bfs_exists env w p, w))) (\<lambda>(ec, found). if ec \<noteq> 0 then proc_stop Throws else proc_return found)"

abbreviation (input) OWNER_RW :: u32 where "OWNER_RW \<equiv> 0x180"

definition check_configuration :: "('w, 'e) proc_env_scheme \<Rightarrow> ('w, unit) proc" where
  "check_configuration env =
     proc_bind the_settings (\<lambda>st.
     proc_bind (proc_exists env (s_staging_directory st)) (\<lambda>found.
       if \<not> found then teardown_and_exit env
       else proc_bind (proc_call (\<lambda>w. (pr_permissions env (s_staging_directory st) w, w))) (\<lambda>(ec, perms).
         if ec \<noteq> 0 then proc_stop Throws
         else if perms AND OWNER_RW \<noteq> OWNER_RW then teardown_and_exit env
         else proc_return ())))"

text \<open>A call that ends the process when it fails.\<close>

definition or_exit :: "('w, 'a) proc \<Rightarrow> ('a \<Rightarrow> bool) \<Rightarrow> ('w, 'a) proc" where
  "or_exit m ok = proc_bind m (\<lambda>a. if ok a then proc_return a else proc_stop (Exits EXIT_FAILURE))"

text \<open>
  \<^verbatim>\<open>daemonize\<close>: the result is the process id of the child in the parent and 0 in the child. The signals are SIGCHLD,
  SIGTSTP, SIGTTOU and SIGTTIN.
\<close>

definition lock_pidfile :: "('w, 'e) proc_env_scheme \<Rightarrow> string \<Rightarrow> ('w, int) proc" where
  "lock_pidfile env pidfile =
     proc_bind (or_exit (proc_call (sys_open env pidfile O_creat_rdwr)) (\<lambda>pfd. pfd \<noteq> -1)) (\<lambda>pfd.
     proc_bind (or_exit (proc_call (pr_lockf env pfd)) (\<lambda>r. r \<ge> 0)) (\<lambda>_.
     proc_bind (proc_call (\<lambda>w. (pr_to_string env (pr_getpid env w), w))) (\<lambda>pidstr.
     proc_bind (or_exit (proc_call (pr_write env pfd pidstr)) (\<lambda>n. n = int (length pidstr))) (\<lambda>_. proc_return pfd))))"

definition daemonize_child :: "('w, 'e) proc_env_scheme \<Rightarrow> string \<Rightarrow> ('w, unit) proc" where
  "daemonize_child env pidfile =
     proc_bind (or_exit (proc_call (pr_setsid env)) (\<lambda>sid. sid \<ge> 0)) (\<lambda>_.
     proc_bind (or_exit (proc_call (sys_open env ''/dev/null'' O_rdwr)) (\<lambda>fd. fd \<noteq> -1)) (\<lambda>dev_null.
     proc_bind (or_exit (proc_call (pr_dup2 env dev_null 0)) (\<lambda>r. r \<noteq> -1)) (\<lambda>_.
     proc_bind (or_exit (proc_call (pr_dup2 env dev_null 1)) (\<lambda>r. r \<noteq> -1)) (\<lambda>_.
     proc_bind (or_exit (proc_call (pr_dup2 env dev_null 2)) (\<lambda>r. r \<noteq> -1)) (\<lambda>_.
     proc_bind (proc_call (pr_umask env 0)) (\<lambda>_.
     proc_bind (or_exit (proc_call (pr_chdir env ''/'')) (\<lambda>r. r \<ge> 0)) (\<lambda>_.
     proc_bind (lock_pidfile env pidfile) (\<lambda>pfd.
     proc_bind (proc_call (sys_close env pfd)) (\<lambda>_.
     proc_bind (proc_call (sys_close env dev_null)) (\<lambda>_.
       proc_modify (\<lambda>s. s\<lparr>p_world := fold (pr_ignore_signal env) [17, 20, 22, 21] (p_world s)\<rparr>)))))))))))"

definition daemonize :: "('w, 'e) proc_env_scheme \<Rightarrow> ('w, int) proc" where
  "daemonize env =
     proc_bind (proc_call (\<lambda>w. (pr_getppid env w, w))) (\<lambda>ppid.
       if ppid = 1 then proc_return 0
       else proc_bind (proc_call (\<lambda>w. ((), pr_destroy_logger env w))) (\<lambda>_.
         proc_bind (proc_call (pr_fork env)) (\<lambda>pid.
         proc_bind (init_logger env) (\<lambda>_.
           if pid < 0 then proc_stop (Exits EXIT_FAILURE)
           else if pid \<noteq> 0 then proc_return pid
           else proc_bind the_settings (\<lambda>st. proc_bind (daemonize_child env (s_pidfile st)) (\<lambda>_. proc_return 0))))))"

definition init_task_manager :: "('w, 'e) proc_env_scheme \<Rightarrow> ('w, unit) proc" where
  "init_task_manager env =
     proc_bind (or_exit (proc_call (pr_construct env Task_manager_service)) (\<lambda>ok. ok)) (\<lambda>_.
       proc_modify (\<lambda>s. s\<lparr>p_task_mgr := True\<rparr>))"

text \<open>The set-up of one socket: a stale one is removed, the mask is set, the endpoint is registered.\<close>

definition setup_socket :: "('w, 'e) proc_env_scheme \<Rightarrow> string \<Rightarrow> u32 \<Rightarrow> ('w, unit) proc" where
  "setup_socket env sockfile msk =
     proc_bind (proc_exists env sockfile) (\<lambda>found.
     proc_bind (if found then proc_bind (proc_call (bfs_remove env sockfile)) (\<lambda>ec.
                  if ec \<noteq> 0 then teardown_and_exit env else proc_return ())
                else proc_return ()) (\<lambda>_.
     proc_bind (proc_call (pr_umask env msk)) (\<lambda>_.
     proc_bind (proc_call (pr_bind env sockfile)) (\<lambda>ok.
       if \<not> ok then teardown_and_exit env
       else proc_modify (\<lambda>s. s\<lparr>p_ipc_service := map_option (register_local_endpoint sockfile) (p_ipc_service s)\<rparr>)))))"

abbreviation (input) CONTROL_MASK :: u32 where "CONTROL_MASK \<equiv> 0x7f"  \<comment> \<open>u=rw-, g=---, o=---\<close>
abbreviation (input) USER_MASK :: u32 where "USER_MASK \<equiv> 0x49"        \<comment> \<open>u=rw-, g=rw-, o=rw-\<close>

text \<open>The callbacks that are registered are those of \<open>Urd\<close>.\<close>

definition init_event_handlers :: "('w, 'e) proc_env_scheme \<Rightarrow> ('w, unit) proc" where
  "init_event_handlers env =
     proc_bind the_settings (\<lambda>st.
     proc_bind (or_exit (proc_call (pr_construct env Listener_service)) (\<lambda>ok. ok)) (\<lambda>_.
     proc_bind (proc_modify (\<lambda>s. s\<lparr>p_ipc_service := Some listener_new\<rparr>)) (\<lambda>_.
     proc_bind (proc_call (pr_umask env 0)) (\<lambda>old_mask.
     proc_bind (setup_socket env (s_control_socket st) CONTROL_MASK) (\<lambda>_.
     proc_bind (setup_socket env (s_global_socket st) USER_MASK) (\<lambda>_.
     proc_bind (proc_call (pr_umask env old_mask)) (\<lambda>_.
       let bind_address = s_bind_address st @ '':'' @ pr_to_string env (uint (s_remote_port st))
       in proc_bind (proc_call (pr_construct env (Network_service bind_address))) (\<lambda>ok.
            if \<not> ok then teardown_and_exit env
            else proc_modify (\<lambda>s. s\<lparr>p_network_service := Some bind_address,
                   p_ipc_service := map_option (set_signal_handler [SIGHUP, SIGTERM, SIGINT]) (p_ipc_service s)\<rparr>)))))))))"

text \<open>An exception reaches \<^verbatim>\<open>main\<close>, other faults end the process.\<close>

fun fault_end :: "fault \<Rightarrow> proc_end" where
  "fault_end (Uncaught_Exception e) = Throws"
| "fault_end f = Crashes f"

text \<open>
  The rest of the start: the managers, the plugins and the default namespaces, which are \<open>urd_start\<close>. The plugins get
  the staging directory of the settings.
\<close>

definition start_services :: "('w, 'e) proc_env_scheme \<Rightarrow> ('w, 'w urd) proc" where
  "start_services env =
     proc_bind the_settings (\<lambda>st.
     proc_bind (or_exit (proc_call (pr_construct env Namespace_manager_service)) (\<lambda>ok. ok)) (\<lambda>_.
     proc_bind (proc_call (\<lambda>w. (urd_start (pr_fuel env) (env\<lparr>staging_directory := s_staging_directory st\<rparr>) w (s_workers_in_pool st)
         (s_backlog_size st) (s_dry_run st) (s_dry_run_duration st) (s_default_namespaces st), w))) (\<lambda>r.
     proc_bind (or_exit (proc_call (pr_construct env Registry_service)) (\<lambda>ok. ok)) (\<lambda>_.
       case r of Inl e \<Rightarrow> proc_stop (fault_end e) | Inr u \<Rightarrow> proc_return u))))"

definition ipc_run :: "('w, 'e) proc_env_scheme \<Rightarrow> 'w urd \<Rightarrow> ('w, 'w urd) proc" where
  "ipc_run env u s =
     (case p_ipc_service s of None \<Rightarrow> (Inl (Crashes Null_Deref), s)
      | Some l \<Rightarrow>
          (case pr_event_loop env (listener_run l) u (p_world s) of
             (Inl e, w) \<Rightarrow> (Inl e, s\<lparr>p_world := w\<rparr>)
           | (Inr (l', u'), w) \<Rightarrow> (Inr u', s\<lparr>p_world := w, p_ipc_service := Some l'\<rparr>)))"

text \<open>From the settings to the event loop.\<close>

definition start_up :: "('w, 'e) proc_env_scheme \<Rightarrow> ('w, 'w urd) proc" where
  "start_up env =
     proc_bind (init_task_manager env) (\<lambda>_.
     proc_bind (init_event_handlers env) (\<lambda>_.
     proc_bind (start_services env) (\<lambda>u.
     proc_bind (proc_call (\<lambda>w. ((), pr_network_run env w))) (\<lambda>_. proc_return u))))"

definition run :: "('w, 'e) proc_env_scheme \<Rightarrow> ('w, int) proc" where
  "run env =
     proc_bind (init_logger env) (\<lambda>_.
     proc_bind (check_configuration env) (\<lambda>_.
     proc_bind the_settings (\<lambda>st.
     proc_bind (if s_daemonize st then daemonize env else proc_return 0) (\<lambda>pid.
       if pid \<noteq> 0 then proc_bind (proc_modify (teardown env)) (\<lambda>_. proc_return EXIT_SUCCESS)
       else proc_bind (start_up env) (\<lambda>u.
            proc_bind (ipc_run env u) (\<lambda>_.
            proc_bind (proc_modify (teardown env)) (\<lambda>_. proc_return EXIT_SUCCESS)))))))"

text \<open>
  The end of \<^verbatim>\<open>main\<close>: the exit status, if there is one. An exception is caught there, after the daemon object was
  destroyed.
\<close>

definition process_new :: "settings \<Rightarrow> 'w \<Rightarrow> 'w process" where
  "process_new cfg w = \<lparr>p_world = w, p_settings = Some cfg, p_ipc_service = None, p_network_service = None, p_task_mgr = False\<rparr>"

definition main_run :: "('w, 'e) proc_env_scheme \<Rightarrow> settings \<Rightarrow> 'w \<Rightarrow> int option \<times> 'w" where
  "main_run env cfg w =
     (case run env (process_new cfg w) of
        (Inr code, s) \<Rightarrow> (Some code, p_world (urd_destroy env s))
      | (Inl (Exits code), s) \<Rightarrow> (Some code, p_world s)
      | (Inl Throws, s) \<Rightarrow> (Some EXIT_FAILURE, p_world (urd_destroy env s))
      | (Inl e, s) \<Rightarrow> (None, p_world s))"

end
