(* ===== verification/Startup_Properties.thy ===== *)
theory Startup_Properties
  imports Startup
begin

text \<open>
  What the process of the daemon does to the machine: the sockets it opens and with which permissions, what is left
  when it has ended, and the state in which the event loop begins. Proofs compute weakest preconditions.
\<close>

section \<open>Weakest preconditions\<close>

text \<open>\<open>proc_post m s Q E\<close>: from \<open>s\<close>, \<open>m\<close> returns with \<open>Q\<close> or does not return, with \<open>E\<close>.\<close>

definition proc_post :: "('w, 'a) proc \<Rightarrow> 'w process \<Rightarrow> ('a \<Rightarrow> 'w process \<Rightarrow> bool) \<Rightarrow> (proc_end \<Rightarrow> 'w process \<Rightarrow> bool) \<Rightarrow> bool" where
  "proc_post m s Q E = (case m s of (Inr a, s') \<Rightarrow> Q a s' | (Inl e, s') \<Rightarrow> E e s')"

named_theorems proc_wp

lemma wp_return [proc_wp]: "proc_post (proc_return a) s Q E = Q a s"
  by (simp add: proc_post_def proc_return_def)

lemma wp_stop [proc_wp]: "proc_post (proc_stop e) s Q E = E e s"
  by (simp add: proc_post_def proc_stop_def)

lemma wp_bind [proc_wp]: "proc_post (proc_bind m f) s Q E = proc_post m s (\<lambda>a s'. proc_post (f a) s' Q E) E"
  by (auto simp: proc_post_def proc_bind_def split: prod.splits sum.splits)

lemma wp_call [proc_wp]: "proc_post (proc_call f) s Q E = (case f (p_world s) of (a, w) \<Rightarrow> Q a (s\<lparr>p_world := w\<rparr>))"
  by (auto simp: proc_post_def proc_call_def split: prod.splits)

lemma wp_modify [proc_wp]: "proc_post (proc_modify f) s Q E = Q () (f s)"
  by (simp add: proc_post_def proc_modify_def)

lemma wp_settings [proc_wp]:
  "proc_post the_settings s Q E = (case p_settings s of None \<Rightarrow> E (Crashes Null_Deref) s | Some st \<Rightarrow> Q st s)"
  by (simp add: proc_post_def the_settings_def split: option.splits)

lemma wp_if [proc_wp]: "proc_post (if b then m else n) s Q E = (if b then proc_post m s Q E else proc_post n s Q E)"
  by simp

lemma wp_case_prod [proc_wp]: "proc_post (case x of (a, b) \<Rightarrow> f a b) s Q E = (case x of (a, b) \<Rightarrow> proc_post (f a b) s Q E)"
  by (cases x) simp

lemma wp_case_sum [proc_wp]:
  "proc_post (case r of Inl e \<Rightarrow> f e | Inr a \<Rightarrow> g a) s Q E = (case r of Inl e \<Rightarrow> proc_post (f e) s Q E | Inr a \<Rightarrow> proc_post (g a) s Q E)"
  by (cases r) simp_all

lemma wp_or_exit [proc_wp]:
  "proc_post (or_exit m ok) s Q E = proc_post m s (\<lambda>a s'. if ok a then Q a s' else E (Exits 1) s') E"
  by (simp add: or_exit_def proc_wp)

lemma wp_teardown_and_exit [proc_wp]: "proc_post (teardown_and_exit env) s Q E = E (Exits 1) (teardown env s)"
  by (simp add: teardown_and_exit_def proc_wp)

lemma proc_post_mono:
  assumes "proc_post m s Q E" and "\<And>a s'. Q a s' \<Longrightarrow> Q' a s'" and "\<And>e s'. E e s' \<Longrightarrow> E' e s'"
  shows "proc_post m s Q' E'"
  using assms by (auto simp: proc_post_def split: prod.splits sum.splits)

lemma post_seq:
  assumes "proc_post m s P E" and "\<And>a s'. P a s' \<Longrightarrow> proc_post (f a) s' Q E"
  shows "proc_post (proc_bind m f) s Q E"
  unfolding wp_bind using assms by (rule proc_post_mono)

lemma post_any:
  "(\<And>a s'. proc_post (f a) s' Q (\<lambda>_ _. True)) \<Longrightarrow> proc_post (proc_bind m f) s Q (\<lambda>_ _. True)"
  by (rule post_seq [where P = "\<lambda>_ _. True"]) (auto simp: proc_post_def split: prod.splits sum.splits)

lemma proc_post_returns: "proc_post m s Q E \<Longrightarrow> m s = (Inr a, s') \<Longrightarrow> Q a s'"
  by (simp add: proc_post_def)

lemma proc_post_stops: "proc_post m s Q E \<Longrightarrow> m s = (Inl e, s') \<Longrightarrow> E e s'"
  by (simp add: proc_post_def)

section \<open>What the system promises\<close>

text \<open>The permissions of the file at a path, if there is one, and the mask of the process.\<close>

record 'w system_view =
  sv_mode :: "'w \<Rightarrow> string \<Rightarrow> u32 option"
  sv_umask :: "'w \<Rightarrow> u32"

text \<open>
  \<^verbatim>\<open>umask\<close> returns the mask it replaces; a socket gets all permissions but those of the mask; a removed file is gone.
\<close>

definition umask_law :: "('w, 'e) proc_env_scheme \<Rightarrow> 'w system_view \<Rightarrow> bool" where
  "umask_law env v \<longleftrightarrow> (\<forall>m w old w'. pr_umask env m w = (old, w') \<longrightarrow>
     old = sv_umask v w \<and> sv_umask v w' = m \<and> sv_mode v w' = sv_mode v w)"

definition bind_law :: "('w, 'e) proc_env_scheme \<Rightarrow> 'w system_view \<Rightarrow> bool" where
  "bind_law env v \<longleftrightarrow> (\<forall>p w ok w'. pr_bind env p w = (ok, w') \<longrightarrow> sv_umask v w' = sv_umask v w \<and>
     sv_mode v w' = (if ok then (sv_mode v w)(p \<mapsto> 0x1ff AND NOT (sv_umask v w)) else sv_mode v w))"

definition remove_law :: "('w, 'e) proc_env_scheme \<Rightarrow> 'w system_view \<Rightarrow> bool" where
  "remove_law env v \<longleftrightarrow> (\<forall>p w ec w'. bfs_remove env p w = (ec, w') \<longrightarrow> sv_umask v w' = sv_umask v w \<and>
     sv_mode v w' = (if ec = 0 then (sv_mode v w)(p := None) else sv_mode v w))"

text \<open>Constructing services and starting the network leaves files and mask alone.\<close>

definition service_law :: "('w, 'e) proc_env_scheme \<Rightarrow> 'w system_view \<Rightarrow> bool" where
  "service_law env v \<longleftrightarrow>
     (\<forall>x w ok w'. pr_construct env x w = (ok, w') \<longrightarrow> sv_mode v w' = sv_mode v w \<and> sv_umask v w' = sv_umask v w) \<and>
     (\<forall>w. sv_mode v (pr_network_run env w) = sv_mode v w \<and> sv_umask v (pr_network_run env w) = sv_umask v w)"

definition system_laws :: "('w, 'e) proc_env_scheme \<Rightarrow> 'w system_view \<Rightarrow> bool" where
  "system_laws env v \<longleftrightarrow> umask_law env v \<and> bind_law env v \<and> remove_law env v \<and> service_law env v"

lemma umaskD: "system_laws env v \<Longrightarrow> pr_umask env m w = (old, w') \<Longrightarrow>
    old = sv_umask v w \<and> sv_umask v w' = m \<and> sv_mode v w' = sv_mode v w"
  unfolding system_laws_def umask_law_def by blast

lemma bindD: "system_laws env v \<Longrightarrow> pr_bind env p w = (ok, w') \<Longrightarrow> sv_umask v w' = sv_umask v w \<and>
    sv_mode v w' = (if ok then (sv_mode v w)(p \<mapsto> 0x1ff AND NOT (sv_umask v w)) else sv_mode v w)"
  unfolding system_laws_def bind_law_def by blast

lemma removeD: "system_laws env v \<Longrightarrow> bfs_remove env p w = (ec, w') \<Longrightarrow> sv_umask v w' = sv_umask v w \<and>
    sv_mode v w' = (if ec = 0 then (sv_mode v w)(p := None) else sv_mode v w)"
  unfolding system_laws_def remove_law_def by blast

lemma constructD: "system_laws env v \<Longrightarrow> pr_construct env x w = (ok, w') \<Longrightarrow>
    sv_mode v w' = sv_mode v w \<and> sv_umask v w' = sv_umask v w"
  unfolding system_laws_def service_law_def by blast

lemma network_runD: "system_laws env v \<Longrightarrow>
    sv_mode v (pr_network_run env w) = sv_mode v w \<and> sv_umask v (pr_network_run env w) = sv_umask v w"
  unfolding system_laws_def service_law_def by blast

section \<open>The sockets\<close>

text \<open>Setting up a socket: when it returns, the file is there with the permissions the mask leaves.\<close>

lemma setup_socket_post:
  assumes "system_laws env v"
  shows "proc_post (setup_socket env p msk) s
    (\<lambda>_ s'. sv_umask v (p_world s') = msk \<and> sv_mode v (p_world s') = (sv_mode v (p_world s))(p \<mapsto> 0x1ff AND NOT msk) \<and>
       p_settings s' = p_settings s \<and> p_task_mgr s' = p_task_mgr s \<and>
       p_ipc_service s' = map_option (register_local_endpoint p) (p_ipc_service s)) (\<lambda>e s'. True)"
  by (auto simp: setup_socket_def proc_exists_def proc_wp split: prod.splits
      dest!: umaskD [OF assms] bindD [OF assms] removeD [OF assms])

lemma init_event_handlers_post:
  assumes "system_laws env v" and "p_settings s = Some st"
  shows "proc_post (init_event_handlers env) s
    (\<lambda>_ s'. sv_umask v (p_world s') = sv_umask v (p_world s) \<and>
       sv_mode v (p_world s') = (sv_mode v (p_world s))(s_control_socket st \<mapsto> 0x180, s_global_socket st \<mapsto> 0x1b6) \<and>
       p_settings s' = p_settings s \<and> p_task_mgr s' = p_task_mgr s \<and>
       p_ipc_service s' = Some (set_signal_handler [SIGHUP, SIGTERM, SIGINT]
         (register_local_endpoint (s_global_socket st) (register_local_endpoint (s_control_socket st) listener_new))))
    (\<lambda>e s'. True)"
  unfolding init_event_handlers_def Let_def
  by (auto simp: proc_wp assms(2) split: prod.splits dest!: umaskD [OF assms(1)] constructD [OF assms(1)]
      intro!: proc_post_mono [OF setup_socket_post [OF assms(1)]])

text \<open>The event loop begins in an initial state of the daemon, with a listener that is set up.\<close>

lemma registered_ready:
  "ready (set_signal_handler sigs (register_local_endpoint q (register_local_endpoint p listener_new)))"
  "all_endpoints (set_signal_handler sigs (register_local_endpoint q (register_local_endpoint p listener_new))) =
     [Local_endpoint p, Local_endpoint q]"
  "sl_signals (m_signal_listener (set_signal_handler sigs l)) = sigs"
  by (simp_all add: ready_def all_endpoints_def set_signal_handler_def register_local_endpoint_def listener_new_def set_handler_def)

lemma urd_initialI: "urd_start fuel env w' n bl dr du defs = Inr u \<Longrightarrow> urd_initial fuel env (u, w)"
  unfolding urd_initial_def fst_conv by blast

lemma start_services_post:
  assumes "system_laws env v" and "p_settings s = Some st"
  shows "proc_post (start_services env) s
    (\<lambda>u s'. sv_umask v (p_world s') = sv_umask v (p_world s) \<and> sv_mode v (p_world s') = sv_mode v (p_world s) \<and>
       p_settings s' = p_settings s \<and> p_task_mgr s' = p_task_mgr s \<and> p_ipc_service s' = p_ipc_service s \<and>
       (\<forall>w. urd_initial (pr_fuel env) (env\<lparr>staging_directory := s_staging_directory st\<rparr>) (u, w))) (\<lambda>e s'. True)"
  unfolding start_services_def
  by (auto simp: proc_wp assms(2) intro: urd_initialI split: prod.splits sum.splits dest!: constructD [OF assms(1)])

lemma init_task_manager_post:
  assumes "system_laws env v"
  shows "proc_post (init_task_manager env) s
    (\<lambda>_ s'. sv_umask v (p_world s') = sv_umask v (p_world s) \<and> sv_mode v (p_world s') = sv_mode v (p_world s) \<and>
       p_settings s' = p_settings s \<and> p_ipc_service s' = p_ipc_service s \<and> p_task_mgr s') (\<lambda>e s'. True)"
  by (auto simp: init_task_manager_def proc_wp split: prod.splits dest!: constructD [OF assms])

lemma start_up_post:
  assumes "system_laws env v" and "p_settings s = Some st"
  shows "proc_post (start_up env) s
    (\<lambda>u s'. sv_umask v (p_world s') = sv_umask v (p_world s) \<and>
       sv_mode v (p_world s') = (sv_mode v (p_world s))(s_control_socket st \<mapsto> 0x180, s_global_socket st \<mapsto> 0x1b6) \<and>
       p_settings s' = p_settings s \<and> p_task_mgr s' \<and>
       (\<exists>l. p_ipc_service s' = Some l \<and> ready l \<and>
          all_endpoints l = [Local_endpoint (s_control_socket st), Local_endpoint (s_global_socket st)] \<and>
          sl_signals (m_signal_listener l) = [SIGHUP, SIGTERM, SIGINT]) \<and>
       (\<forall>w. urd_initial (pr_fuel env) (env\<lparr>staging_directory := s_staging_directory st\<rparr>) (u, w))) (\<lambda>e s'. True)"
proof -
  note init = registered_ready network_runD [OF assms(1)]
  show ?thesis
    unfolding start_up_def
    apply (rule post_seq [OF init_task_manager_post [OF assms(1)]])
    apply (rule post_seq [OF init_event_handlers_post [OF assms(1), where st = st]])
    subgoal using assms(2) by simp
    apply (rule post_seq [OF start_services_post [OF assms(1), where st = st]])
    subgoal using assms(2) by simp
    subgoal by (simp add: proc_wp init)
    done
qed

text \<open>
  C28. When the daemon is ready to serve, its sockets are there with the permissions they should have: only the owner of
  the daemon can connect to the control socket, everybody to the user socket. The mask of the process is what it was,
  and the event loop begins in an initial state of the daemon with a listener that has exactly these endpoints
  and waits for the signals that stop a daemon.
\<close>

theorem start_up_establishes:
  assumes "system_laws env v" and "p_settings s = Some st" and "s_control_socket st \<noteq> s_global_socket st"
    and "start_up env s = (Inr u, s')"
  shows "sv_mode v (p_world s') (s_control_socket st) = Some 0x180 \<and> sv_mode v (p_world s') (s_global_socket st) = Some 0x1b6 \<and>
    sv_umask v (p_world s') = sv_umask v (p_world s) \<and>
    (\<exists>l. p_ipc_service s' = Some l \<and> ready l \<and>
       all_endpoints l = [Local_endpoint (s_control_socket st), Local_endpoint (s_global_socket st)] \<and>
          sl_signals (m_signal_listener l) = [SIGHUP, SIGTERM, SIGINT]) \<and>
    urd_initial (pr_fuel env) (env\<lparr>staging_directory := s_staging_directory st\<rparr>) (u, p_world s')"
  using proc_post_returns [OF start_up_post [OF assms(1,2)] assms(4)] assms(3) by simp

section \<open>What is left behind\<close>

text \<open>
  The other calls leave the files at \<open>ps\<close> alone, files can be removed, and the managers, which only take memory, can be
  constructed. The event loop is that of \<open>Listener\<close>.
\<close>

definition keeps :: "'w system_view \<Rightarrow> string set \<Rightarrow> ('w \<Rightarrow> 'w) \<Rightarrow> bool" where
  "keeps v ps f \<longleftrightarrow> (\<forall>w. \<forall>p \<in> ps. sv_mode v (f w) p = sv_mode v w p)"

definition calls_keep :: "('w, 'e) proc_env_scheme \<Rightarrow> 'w system_view \<Rightarrow> string set \<Rightarrow> bool" where
  "calls_keep env v ps \<longleftrightarrow>
     (\<forall>n t. keeps v ps (snd \<circ> pr_create_logger env n t)) \<and> keeps v ps (pr_destroy_logger env) \<and>
     keeps v ps (snd \<circ> pr_fork env) \<and> keeps v ps (snd \<circ> pr_setsid env) \<and>
     (\<forall>fd fd'. keeps v ps (snd \<circ> pr_dup2 env fd fd')) \<and> (\<forall>d. keeps v ps (snd \<circ> pr_chdir env d)) \<and>
     (\<forall>fd. keeps v ps (snd \<circ> pr_lockf env fd)) \<and> (\<forall>fd bs. keeps v ps (snd \<circ> pr_write env fd bs)) \<and>
     (\<forall>fd. keeps v ps (snd \<circ> sys_close env fd)) \<and> (\<forall>sig. keeps v ps (pr_ignore_signal env sig)) \<and>
     (\<forall>q m. q \<notin> ps \<longrightarrow> keeps v ps (snd \<circ> sys_open env q m)) \<and> keeps v ps (pr_join_workers env) \<and>
     (\<forall>l u. keeps v ps (snd \<circ> pr_event_loop env l u))"

definition loop_law :: "('w, 'e) proc_env_scheme \<Rightarrow> settings \<Rightarrow> bool \<Rightarrow> (nat \<Rightarrow> bool) \<Rightarrow> (byte list \<Rightarrow> rpc_request option) \<Rightarrow>
   (rpc_response \<Rightarrow> byte list option) \<Rightarrow> bool" where
  "loop_law env cfg big alloc parse ser \<longleftrightarrow>
     (\<forall>l u w l' u' w'. pr_event_loop env l u w = (Inr (l', u'), w') \<longrightarrow>
        (loop_step (env\<lparr>staging_directory := s_staging_directory cfg\<rparr>) big alloc parse ser)\<^sup>*\<^sup>* (l, u, w) (l', u', w') \<and>
        m_ipc_stopped u') \<and>
     (\<forall>l u w code w'. pr_event_loop env l u w \<noteq> (Inl (Exits code), w'))"

definition removable :: "('w, 'e) proc_env_scheme \<Rightarrow> bool" where
  "removable env \<longleftrightarrow> (\<forall>p w. fst (bfs_remove env p w) = 0) \<and>
     (\<forall>w. fst (pr_construct env Namespace_manager_service w) \<and> fst (pr_construct env Registry_service w))"

text \<open>A socket is there only when an endpoint of the listener owns it.\<close>

definition owned :: "'w system_view \<Rightarrow> string set \<Rightarrow> 'w process \<Rightarrow> bool" where
  "owned v ps s \<longleftrightarrow> (\<forall>p \<in> ps. sv_mode v (p_world s) p = None \<or>
     (\<exists>l. p_ipc_service s = Some l \<and> p \<in> set (m_local_endpoints l)))"

definition gone :: "'w system_view \<Rightarrow> string set \<Rightarrow> 'w process \<Rightarrow> bool" where
  "gone v ps s \<longleftrightarrow> (\<forall>p \<in> ps. sv_mode v (p_world s) p = None)"

fun end_ok :: "'w system_view \<Rightarrow> string set \<Rightarrow> proc_end \<Rightarrow> 'w process \<Rightarrow> bool" where
  "end_ok v ps (Exits code) s \<longleftrightarrow> gone v ps s"
| "end_ok v ps Throws s \<longleftrightarrow> owned v ps s"
| "end_ok v ps e s \<longleftrightarrow> True"

text \<open>Before the listener is created, and from then on.\<close>

definition idle :: "'w system_view \<Rightarrow> string set \<Rightarrow> settings \<Rightarrow> 'w process \<Rightarrow> bool" where
  "idle v ps cfg s \<longleftrightarrow> gone v ps s \<and> p_ipc_service s = None \<and> p_settings s = Some cfg"

definition serving :: "'w system_view \<Rightarrow> string set \<Rightarrow> settings \<Rightarrow> 'w process \<Rightarrow> bool" where
  "serving v ps cfg s \<longleftrightarrow> owned v ps s \<and> p_ipc_service s \<noteq> None \<and> p_settings s = Some cfg"

lemma idle_owned: "idle v ps cfg s \<Longrightarrow> owned v ps s"
  by (auto simp: idle_def owned_def gone_def)

lemma idle_ends: "idle v ps cfg s \<Longrightarrow> end_ok v ps e s"
  by (cases e) (auto simp: idle_def owned_def gone_def)

lemma idle_world:
  "idle v ps cfg s \<Longrightarrow> \<forall>p \<in> ps. sv_mode v w p = sv_mode v (p_world s) p \<Longrightarrow> idle v ps cfg (s\<lparr>p_world := w\<rparr>)"
  by (simp add: idle_def gone_def)

lemma keepsD: "keeps v ps f \<Longrightarrow> p \<in> ps \<Longrightarrow> sv_mode v (f w) p = sv_mode v w p"
  by (simp add: keeps_def)

lemma destroy_removes:
  assumes "system_laws env v" and "removable env"
  shows "sv_mode v (destroy_listener env l w) = (\<lambda>p. if p \<in> set (m_local_endpoints l) then None else sv_mode v w p)"
proof -
  have "sv_mode v (fold (\<lambda>p w. snd (bfs_remove env p w)) qs w) = (\<lambda>p. if p \<in> set qs then None else sv_mode v w p)" for qs
  proof (induction qs arbitrary: w)
    case (Cons q qs)
    obtain w' where w': "bfs_remove env q w = (0, w')"
      using assms(2) by (metis prod.collapse removable_def)
    with removeD [OF assms(1) w'] Cons show ?case by (auto simp: fun_eq_iff)
  qed simp
  then show ?thesis by (simp add: destroy_listener_def)
qed

lemma teardown_ipc_gone:
  assumes "system_laws env v" and "removable env" and "owned v ps s"
  shows "gone v ps (teardown_ipc env s)"
  using assms(3) by (auto simp: owned_def gone_def teardown_ipc_def destroy_removes [OF assms(1,2)] split: option.splits)

lemma teardown_gone:
  assumes "system_laws env v" and "removable env" and "keeps v ps (pr_join_workers env)" and "owned v ps s"
  shows "gone v ps (teardown env s)"
proof -
  have remove: "sv_mode v (snd (bfs_remove env q w)) p = None" if "sv_mode v w p = None" for p q w
    using removeD [OF assms(1), of q w] that by (cases "bfs_remove env q w") auto
  have "gone v ps (teardown_ipc env s)" by (rule teardown_ipc_gone [OF assms(1,2,4)])
  then show ?thesis
    unfolding teardown_def Let_def gone_def
    by (auto simp: remove keepsD [OF assms(3)] split: option.splits)
qed

text \<open>The functions that run before the listener exists.\<close>

definition idling :: "'w system_view \<Rightarrow> string set \<Rightarrow> settings \<Rightarrow> ('w, 'a) proc \<Rightarrow> bool" where
  "idling v ps cfg m \<longleftrightarrow> (\<forall>s. idle v ps cfg s \<longrightarrow> proc_post m s (\<lambda>_. idle v ps cfg) (end_ok v ps))"

lemma idlingD: "idling v ps cfg m \<Longrightarrow> idle v ps cfg s \<Longrightarrow> proc_post m s (\<lambda>_. idle v ps cfg) (end_ok v ps)"
  by (simp add: idling_def)

named_theorems idle_intros

lemma idling_return [idle_intros]: "idling v ps cfg (proc_return a)"
  by (simp add: idling_def proc_wp)

lemma idling_stop [idle_intros]: "idling v ps cfg (proc_stop e)"
  by (simp add: idling_def proc_wp idle_ends)

lemma idling_call [idle_intros]: "keeps v ps (snd \<circ> f) \<Longrightarrow> idling v ps cfg (proc_call f)"
  by (auto simp: idling_def proc_wp keeps_def idle_def gone_def split: prod.splits) (metis snd_conv)

lemma idling_read [idle_intros]: "idling v ps cfg (proc_call (\<lambda>w. (g w, w)))"
  by (simp add: idling_def proc_wp)

lemma idling_bind [idle_intros]: "idling v ps cfg m \<Longrightarrow> (\<And>a. idling v ps cfg (f a)) \<Longrightarrow> idling v ps cfg (proc_bind m f)"
  unfolding idling_def by (auto intro: post_seq)

lemma idling_settings: "idling v ps cfg (f cfg) \<Longrightarrow> idling v ps cfg (proc_bind the_settings f)"
  by (auto simp: idling_def proc_wp idle_def)

lemma idling_or_exit [idle_intros]: "idling v ps cfg m \<Longrightarrow> idling v ps cfg (or_exit m ok)"
  unfolding or_exit_def by (auto intro!: idle_intros)

lemma idling_if [idle_intros]: "idling v ps cfg m \<Longrightarrow> idling v ps cfg n \<Longrightarrow> idling v ps cfg (if b then m else n)"
  by simp

lemma idling_prod [idle_intros]: "(\<And>a b. idling v ps cfg (f a b)) \<Longrightarrow> idling v ps cfg (case x of (a, b) \<Rightarrow> f a b)"
  by (cases x) simp

lemma idling_teardown [idle_intros]:
  assumes "system_laws env v" and "removable env" and "keeps v ps (pr_join_workers env)"
  shows "idling v ps cfg (teardown_and_exit env)"
  by (auto simp: idling_def proc_wp intro: teardown_gone [OF assms] idle_owned)

lemma construct_keeps: "system_laws env v \<Longrightarrow> keeps v ps (snd \<circ> pr_construct env x)"
  unfolding keeps_def using constructD by (metis comp_apply prod.collapse)

lemma umask_keeps: "system_laws env v \<Longrightarrow> keeps v ps (snd \<circ> pr_umask env m)"
  unfolding keeps_def using umaskD by (metis comp_apply prod.collapse)

text \<open>What is assumed of the machine for the sockets \<open>ps\<close> of the settings.\<close>

definition machine :: "('w, 'e) proc_env_scheme \<Rightarrow> 'w system_view \<Rightarrow> settings \<Rightarrow> string set \<Rightarrow> bool" where
  "machine env v cfg ps \<longleftrightarrow> system_laws env v \<and> calls_keep env v ps \<and> removable env \<and>
     ps = {s_control_socket cfg, s_global_socket cfg} \<and> s_pidfile cfg \<notin> ps \<and> ''/dev/null'' \<notin> ps"

lemma machineD:
  assumes "machine env v cfg ps"
  shows "system_laws env v" "removable env" "keeps v ps (pr_join_workers env)"
    "ps = {s_control_socket cfg, s_global_socket cfg}" "s_pidfile cfg \<notin> ps" "''/dev/null'' \<notin> ps"
    "keeps v ps (snd \<circ> pr_create_logger env n t)" "keeps v ps (pr_destroy_logger env)"
    "keeps v ps (snd \<circ> pr_fork env)" "keeps v ps (snd \<circ> pr_setsid env)" "keeps v ps (snd \<circ> pr_dup2 env fd fd')"
    "keeps v ps (snd \<circ> pr_chdir env d)" "keeps v ps (snd \<circ> pr_lockf env fd)" "keeps v ps (snd \<circ> pr_write env fd bs)"
    "keeps v ps (snd \<circ> sys_close env fd)" "keeps v ps (pr_ignore_signal env sig)"
    "q \<notin> ps \<Longrightarrow> keeps v ps (snd \<circ> sys_open env q md)" "keeps v ps (snd \<circ> pr_event_loop env l u)"
  using assms unfolding machine_def calls_keep_def by (blast+)

lemmas machine_keeps = machineD(7-17) construct_keeps [OF machineD(1)] umask_keeps [OF machineD(1)]

lemma idling_init_logger: "machine env v cfg ps \<Longrightarrow> idling v ps cfg (init_logger env)"
  unfolding init_logger_def Let_def by (auto intro!: idling_settings idle_intros machine_keeps)

lemma idling_check_configuration:
  assumes "machine env v cfg ps"
  shows "idling v ps cfg (check_configuration env)"
  unfolding check_configuration_def proc_exists_def
  by (auto intro!: idling_settings idle_intros machineD(1-3) [OF assms])

lemma idling_daemonize:
  assumes "machine env v cfg ps"
  shows "idling v ps cfg (daemonize env)"
proof -
  have ignore: "keeps v ps (\<lambda>w. fold (pr_ignore_signal env) sigs w)" for sigs
    by (induction sigs) (use machineD(16) [OF assms] in \<open>auto simp: keeps_def\<close>)
  have signals: "idling v ps cfg (proc_modify (\<lambda>s. s\<lparr>p_world := fold (pr_ignore_signal env) sigs (p_world s)\<rparr>))" for sigs
    using ignore [of sigs] by (auto simp: idling_def proc_wp keeps_def intro: idle_world)
  have destroy: "keeps v ps (snd \<circ> (\<lambda>w. ((), pr_destroy_logger env w)))"
    using machineD(8) [OF assms] by (simp add: keeps_def)
  show ?thesis
    unfolding daemonize_def daemonize_child_def lock_pidfile_def
    by (intro idling_settings idle_intros idling_init_logger [OF assms] signals destroy machine_keeps [OF assms] machineD(5,6) [OF assms])
qed

lemma idling_init_task_manager:
  assumes "machine env v cfg ps"
  shows "idling v ps cfg (init_task_manager env)"
proof -
  have "idling v ps cfg (proc_modify (\<lambda>s. s\<lparr>p_task_mgr := True\<rparr>))"
    by (simp add: idling_def proc_wp idle_def gone_def)
  then show ?thesis
    unfolding init_task_manager_def by (intro idle_intros machine_keeps [OF assms])
qed

text \<open>The functions that run with a listener.\<close>

lemma serving_owned: "serving v ps cfg s \<Longrightarrow> owned v ps s"
  by (simp add: serving_def)

lemma setup_socket_serving:
  assumes "machine env v cfg ps" and "p \<in> ps" and "serving v ps cfg s"
  shows "proc_post (setup_socket env p msk) s (\<lambda>_. serving v ps cfg) (end_ok v ps)"
proof -
  note laws = machineD(1-3) [OF assms(1)]
  have registered: "serving v ps cfg (s\<lparr>p_world := w, p_ipc_service := map_option (register_local_endpoint p) (p_ipc_service s)\<rparr>)"
    if "\<forall>q \<in> ps. q \<noteq> p \<longrightarrow> sv_mode v w q = sv_mode v (p_world s) q" for w
    using that assms(3) by (force simp: serving_def owned_def register_local_endpoint_def)
  have torn: "gone v ps (teardown env (s\<lparr>p_world := w\<rparr>))"
    if "\<forall>q \<in> ps. sv_mode v w q = None \<or> sv_mode v w q = sv_mode v (p_world s) q" for w
    using that assms(3) by (intro teardown_gone [OF laws]) (force simp: serving_def owned_def)
  show ?thesis
    using assms(3) unfolding setup_socket_def proc_exists_def
    by (auto simp: proc_wp serving_owned split: prod.splits if_splits intro!: registered torn
        dest!: umaskD [OF laws(1)] bindD [OF laws(1)] removeD [OF laws(1)])
qed

lemma serving_call:
  "keeps v ps (snd \<circ> f) \<Longrightarrow> serving v ps cfg s \<Longrightarrow> proc_post (proc_call f) s (\<lambda>_. serving v ps cfg) (end_ok v ps)"
  by (auto simp: proc_wp keeps_def serving_def owned_def split: prod.splits) (metis snd_conv)

lemma init_event_handlers_serving:
  assumes "machine env v cfg ps" and "idle v ps cfg s"
  shows "proc_post (init_event_handlers env) s (\<lambda>_. serving v ps cfg) (end_ok v ps)"
proof -
  have ps: "s_control_socket cfg \<in> ps" "s_global_socket cfg \<in> ps" using machineD(4) [OF assms(1)] by auto
  have new: "serving v ps cfg (t\<lparr>p_ipc_service := Some listener_new\<rparr>)" if "idle v ps cfg t" for t
    using that by (auto simp: idle_def serving_def owned_def gone_def)
  have more: "serving v ps cfg (t\<lparr>p_network_service := n, p_ipc_service := map_option (set_signal_handler sigs) (p_ipc_service t)\<rparr>)"
    if "serving v ps cfg t" for t n sigs
    using that by (force simp: serving_def owned_def set_signal_handler_def)
  have torn: "gone v ps (teardown env t)" if "serving v ps cfg t" for t
    using that by (intro teardown_gone [OF machineD(1-3) [OF assms(1)]] serving_owned)
  note calls = serving_call [OF umask_keeps [OF machineD(1) [OF assms(1)]]] serving_call [OF construct_keeps [OF machineD(1) [OF assms(1)]]]
  have create: "proc_post (or_exit (proc_call (pr_construct env Listener_service)) (\<lambda>ok. ok)) s (\<lambda>_. idle v ps cfg) (end_ok v ps)"
    by (intro idlingD [OF _ assms(2)] idle_intros machine_keeps [OF assms(1)])
  have "proc_post (proc_modify (\<lambda>s. s\<lparr>p_ipc_service := Some listener_new\<rparr>)) t (\<lambda>_. serving v ps cfg) (end_ok v ps)"
    if "idle v ps cfg t" for t using new [OF that] by (simp add: proc_wp)
  note steps = this setup_socket_serving [OF assms(1) ps(1)] setup_socket_serving [OF assms(1) ps(2)] calls
  have settings: "p_settings s = Some cfg" using assms(2) by (simp add: idle_def)
  show ?thesis
    unfolding init_event_handlers_def Let_def wp_bind [of the_settings] wp_settings settings option.case
    by (rule post_seq [OF create], rule post_seq [OF steps(1)], assumption, rule post_seq [OF calls(1)], assumption,
        rule post_seq [OF steps(2)], assumption, rule post_seq [OF steps(3)], assumption, rule post_seq [OF calls(1)], assumption,
        rule post_seq [OF calls(2)], assumption) (auto simp: proc_wp more torn)
qed

lemma start_services_serving:
  assumes "machine env v cfg ps" and "serving v ps cfg s"
  shows "proc_post (start_services env) s (\<lambda>_. serving v ps cfg) (end_ok v ps)"
proof -
  have "\<exists>w'. pr_construct env x w = (True, w') \<and> sv_mode v w' = sv_mode v w"
    if "x = Namespace_manager_service \<or> x = Registry_service" for x w
  proof -
    have "fst (pr_construct env x w)" using that machineD(2) [OF assms(1)] by (auto simp: removable_def)
    then show ?thesis using constructD [OF machineD(1) [OF assms(1)], of x w] by (cases "pr_construct env x w") auto
  qed
  then obtain w1 w2 where w1: "pr_construct env Namespace_manager_service (p_world s) = (True, w1)" "sv_mode v w1 = sv_mode v (p_world s)"
      and w2: "pr_construct env Registry_service w1 = (True, w2)" "sv_mode v w2 = sv_mode v w1"
    by metis
  have keep: "serving v ps cfg (s\<lparr>p_world := w2\<rparr>)" "owned v ps (s\<lparr>p_world := w2\<rparr>)"
    using assms(2) w1 w2 by (simp_all add: serving_def owned_def)
  have ends: "end_ok v ps (fault_end e) (s\<lparr>p_world := w2\<rparr>)" for e
    using keep(2) by (cases e) simp_all
  show ?thesis
    using assms(2) w1 w2 keep ends
    by (auto simp: start_services_def proc_wp serving_def [of v ps cfg s] split: sum.splits)
qed

lemma start_up_serving:
  assumes "machine env v cfg ps" and "idle v ps cfg s"
  shows "proc_post (start_up env) s (\<lambda>_. serving v ps cfg) (end_ok v ps)"
proof -
  have net: "proc_post (proc_bind (proc_call (\<lambda>w. ((), pr_network_run env w))) (\<lambda>_. proc_return u)) t (\<lambda>_. serving v ps cfg) (end_ok v ps)"
    if "serving v ps cfg t" for t u
    using that network_runD [OF machineD(1) [OF assms(1)]] by (simp add: proc_wp serving_def owned_def)
  show ?thesis
    unfolding start_up_def
    by (rule post_seq [OF idlingD [OF idling_init_task_manager [OF assms(1)] assms(2)]],
        rule post_seq [OF init_event_handlers_serving [OF assms(1)]], assumption,
        rule post_seq [OF start_services_serving [OF assms(1)]], assumption, rule net)
qed

lemma loop_steps_endpoints:
  "(loop_step env big alloc parse ser)\<^sup>*\<^sup>* (l, u, w) (l', u', w') \<Longrightarrow> m_local_endpoints l' = m_local_endpoints l"
proof (induction "(l', u', w')" arbitrary: l' u' w' rule: rtranclp_induct)
  case (step t)
  obtain l1 u1 w1 where t: "t = (l1, u1, w1)" by (cases t) auto
  have "m_local_endpoints l' = m_local_endpoints l1" using step(2) unfolding t by cases auto
  with step(3) t show ?case by simp
qed simp

lemma ipc_run_serving:
  assumes "machine env v cfg ps" and "loop_law env cfg big alloc parse ser" and "serving v ps cfg s"
  shows "proc_post (ipc_run env u) s (\<lambda>_. serving v ps cfg) (end_ok v ps)"
proof -
  obtain l where l: "p_ipc_service s = Some l" using assms(3) by (auto simp: serving_def)
  obtain r w where r: "pr_event_loop env (listener_run l) u (p_world s) = (r, w)" by (cases "pr_event_loop env (listener_run l) u (p_world s)")
  have kept: "\<forall>p \<in> ps. sv_mode v w p = sv_mode v (p_world s) p"
    using machineD(18) [OF assms(1), of "listener_run l" u] r unfolding keeps_def by (metis comp_apply snd_conv)
  have "m_local_endpoints l' = m_local_endpoints l" if "r = Inr (l', u')" for l' u'
    using assms(2) r that loop_steps_endpoints
      [of "env\<lparr>staging_directory := s_staging_directory cfg\<rparr>" big alloc parse ser "listener_run l" u "p_world s" l' u' w]
    by (simp add: loop_law_def listener_run_def fold_do_accept)
  moreover have "end_ok v ps e (s\<lparr>p_world := w\<rparr>)" if "r = Inl e" for e
    using assms(2,3) r that kept by (cases e) (auto simp: loop_law_def serving_def owned_def)
  ultimately show ?thesis
    using assms(3) l r kept by (cases r) (auto simp: proc_post_def ipc_run_def serving_def owned_def)
qed

lemma torn_down: "p_ipc_service (teardown env s) = None" "\<not> p_task_mgr (teardown env s)"
  by (auto simp: teardown_def teardown_ipc_def Let_def split: option.splits)

lemma run_gone:
  assumes "machine env v cfg ps" and "loop_law env cfg big alloc parse ser" and "idle v ps cfg s"
  shows "proc_post (run env) s (\<lambda>code s'. code = 0 \<and> gone v ps s' \<and> p_ipc_service s' = None \<and> \<not> p_task_mgr s') (end_ok v ps)"
proof -
  let ?Q = "\<lambda>code s'. code = 0 \<and> gone v ps s' \<and> p_ipc_service s' = None \<and> \<not> p_task_mgr s'"
  have finish: "proc_post (proc_bind (proc_modify (teardown env)) (\<lambda>_. proc_return 0)) t ?Q (end_ok v ps)" if "owned v ps t" for t
    using teardown_gone [OF machineD(1-3) [OF assms(1)] that] by (simp add: proc_wp torn_down)
  have serve: "proc_post (proc_bind (start_up env) (\<lambda>u. proc_bind (ipc_run env u) (\<lambda>_. proc_bind (proc_modify (teardown env))
      (\<lambda>_. proc_return 0)))) t ?Q (end_ok v ps)" if "idle v ps cfg t" for t
    by (rule post_seq [OF start_up_serving [OF assms(1) that]], rule post_seq [OF ipc_run_serving [OF assms(1,2)]], assumption,
        rule finish, rule serving_owned)
  have fork: "idling v ps cfg (if s_daemonize st then daemonize env else proc_return 0)" for st
    by (intro idle_intros idling_daemonize [OF assms(1)])
  have settings: "proc_post the_settings t (\<lambda>_. idle v ps cfg) (end_ok v ps)" if "idle v ps cfg t" for t
    using that by (simp add: proc_wp idle_def)
  show ?thesis
    unfolding run_def
    by (rule post_seq [OF idlingD [OF idling_init_logger [OF assms(1)] assms(3)]],
        rule post_seq [OF idlingD [OF idling_check_configuration [OF assms(1)]]], assumption,
        rule post_seq [OF settings], assumption, rule post_seq [OF idlingD [OF fork]], assumption)
      (auto simp: wp_if intro!: finish serve idle_owned)
qed


section \<open>From the start to the end of service\<close>

lemma keeps_members:
  "proc_post (init_logger env) s (\<lambda>_ s'. p_settings s' = p_settings s \<and> p_ipc_service s' = p_ipc_service s \<and> p_task_mgr s' = p_task_mgr s) (\<lambda>_ _. True)"
  "proc_post (check_configuration env) s (\<lambda>_ s'. p_settings s' = p_settings s) (\<lambda>_ _. True)"
  by (auto simp: init_logger_def check_configuration_def proc_exists_def Let_def proc_wp split: prod.splits option.splits)

lemma ipc_run_stops:
  assumes "loop_law env cfg big alloc parse ser" and "p_ipc_service s = Some l"
  shows "proc_post (ipc_run env u0) s (\<lambda>u _. m_ipc_stopped u \<and>
    (\<exists>l' w'. (loop_step (env\<lparr>staging_directory := s_staging_directory cfg\<rparr>) big alloc parse ser)\<^sup>*\<^sup>*
      (listener_run l, u0, p_world s) (l', u, w'))) (\<lambda>_ _. True)"
  using assms by (auto simp: proc_post_def ipc_run_def loop_law_def split: prod.splits sum.splits) blast

lemma urd_inv_steps:
  assumes "urd_initial fuel env (u0, w0)" and "(urd_step env)\<^sup>*\<^sup>* (u0, w0) (u, w)"
  shows "urd_inv u"
  using daemon.inv_steps [OF daemon.inv_init [OF assms(1)] assms(2)] by simp


section \<open>The pid file\<close>

text \<open>
  Which file a descriptor refers to, and whether some process holds a lock on a file. Closing any descriptor of a file
  gives up the locks the process has on it.
\<close>

record 'w lock_view =
  lv_file :: "'w \<Rightarrow> int \<Rightarrow> string option"
  lv_locked :: "'w \<Rightarrow> string \<Rightarrow> bool"

definition lock_law :: "('w, 'e) proc_env_scheme \<Rightarrow> 'w lock_view \<Rightarrow> string \<Rightarrow> bool" where
  "lock_law env k p \<longleftrightarrow>
     (\<forall>w fd w'. sys_open env p O_creat_rdwr w = (fd, w') \<longrightarrow> fd \<noteq> -1 \<longrightarrow> lv_file k w' fd = Some p) \<and>
     (\<forall>fd w r w'. pr_lockf env fd w = (r, w') \<longrightarrow> lv_file k w' = lv_file k w) \<and>
     (\<forall>fd bs w n w'. pr_write env fd bs w = (n, w') \<longrightarrow> lv_file k w' = lv_file k w) \<and>
     (\<forall>fd w r w'. sys_close env fd w = (r, w') \<longrightarrow> lv_file k w fd = Some p \<or> \<not> lv_locked k w p \<longrightarrow> \<not> lv_locked k w' p) \<and>
     (\<forall>sig w. \<not> lv_locked k w p \<longrightarrow> \<not> lv_locked k (pr_ignore_signal env sig w) p)"

lemma child_unlocked:
  assumes "lock_law env k p"
  shows "proc_post (daemonize_child env p) s (\<lambda>_ s'. \<not> lv_locked k (p_world s') p) (\<lambda>_ _. True)"
proof -
  have locked: "proc_post (lock_pidfile env p) t (\<lambda>pfd t'. lv_file k (p_world t') pfd = Some p) (\<lambda>_ _. True)" for t
    using assms unfolding lock_pidfile_def lock_law_def by (auto simp: proc_wp split: prod.splits)
  have signals: "\<not> lv_locked k (fold (pr_ignore_signal env) sigs w) p" if "\<not> lv_locked k w p" for sigs w
    using that assms by (induction sigs arbitrary: w) (auto simp: lock_law_def)
  have closed: "\<not> lv_locked k (snd (sys_close env fd w)) p" if "lv_file k w fd = Some p \<or> \<not> lv_locked k w p" for fd w
    using that assms unfolding lock_law_def by (metis prod.collapse)
  have close: "proc_post (proc_bind (proc_call (sys_close env pfd)) (\<lambda>_. proc_bind (proc_call (sys_close env fd)) (\<lambda>_.
      proc_modify (\<lambda>s. s\<lparr>p_world := fold (pr_ignore_signal env) sigs (p_world s)\<rparr>)))) t
      (\<lambda>_ s'. \<not> lv_locked k (p_world s') p) (\<lambda>_ _. True)" if "lv_file k (p_world t) pfd = Some p" for t pfd fd sigs
    using that closed [of "p_world t" pfd] closed [of "snd (sys_close env pfd (p_world t))" fd] signals
    by (auto simp: proc_wp split: prod.splits)
  have tail: "proc_post (proc_bind (lock_pidfile env p) (\<lambda>pfd. proc_bind (proc_call (sys_close env pfd)) (\<lambda>_.
      proc_bind (proc_call (sys_close env fd)) (\<lambda>_. proc_modify (\<lambda>s. s\<lparr>p_world := fold (pr_ignore_signal env) sigs (p_world s)\<rparr>))))) t
      (\<lambda>_ s'. \<not> lv_locked k (p_world s') p) (\<lambda>_ _. True)" for t fd sigs
    by (rule post_seq [OF locked close])
  show ?thesis
    unfolding daemonize_child_def
    by (rule post_any, rule post_any, rule post_any, rule post_any, rule post_any, rule post_any, rule post_any, rule tail)
qed

text \<open>
  C34. The pid file does not keep a second daemon from starting. In the process that goes on as the daemon the lock on the
  file is given up before \<^verbatim>\<open>daemonize\<close> returns, since the descriptor is closed; in the process that forked it the file is
  removed by the \<^verbatim>\<open>teardown\<close> that follows.
\<close>

theorem pidfile_guards_nothing:
  fixes env :: "('w, 'e) proc_env_scheme"
  assumes "system_laws env v" and "removable env" and "lock_law env k (s_pidfile cfg)" and "p_settings s = Some cfg"
    and "\<not> p_task_mgr s" and "pr_getppid env (p_world s) \<noteq> 1" and "daemonize env s = (Inr pid, s')"
  shows "if pid = 0 then \<not> lv_locked k (p_world s') (s_pidfile cfg)
    else sv_mode v (p_world (teardown env s')) (s_pidfile cfg) = None"
proof -
  define ok where "ok = (\<lambda>pid s'. if pid = (0 :: int) then \<not> lv_locked k (p_world s') (s_pidfile cfg)
    else p_settings s' = Some cfg \<and> \<not> p_task_mgr (s' :: 'w process))"
  have child: "proc_post (proc_bind the_settings (\<lambda>st. proc_bind (daemonize_child env (s_pidfile st)) (\<lambda>_. proc_return 0))) t ok (\<lambda>_ _. True)"
    if "p_settings t = Some cfg" for t
    using that child_unlocked [OF assms(3)] by (simp add: proc_wp ok_def)
  have rest: "proc_post (proc_bind (init_logger env) (\<lambda>_. if n < 0 then proc_stop (Exits 1) else if n \<noteq> 0 then proc_return n
      else proc_bind the_settings (\<lambda>st. proc_bind (daemonize_child env (s_pidfile st)) (\<lambda>_. proc_return 0)))) t ok (\<lambda>_ _. True)"
    if "p_settings t = Some cfg" "\<not> p_task_mgr t" for t n
    by (rule post_seq [OF keeps_members(1)]) (use that in \<open>auto simp: wp_if wp_return wp_stop intro!: child, simp_all add: ok_def\<close>)
  obtain n w where fork: "pr_fork env (pr_destroy_logger env (p_world s)) = (n, w)" by fastforce
  have "proc_post (daemonize env) s ok (\<lambda>_ _. True)"
    using assms(4-6) fork rest [of "s\<lparr>p_world := w\<rparr>" n]
    by (simp add: daemonize_def wp_bind [of "proc_call _"] wp_call)
  from proc_post_returns [OF this assms(7)] have "ok pid s'" .
  moreover have "sv_mode v (snd (bfs_remove env p w)) p = None" for p w
    using removeD [OF assms(1), of p w] assms(2) by (cases "bfs_remove env p w") (metis fst_conv fun_upd_same removable_def snd_conv)
  ultimately show ?thesis
    by (auto simp: ok_def teardown_def teardown_ipc_def Let_def split: option.splits)
qed

section \<open>An example\<close>

text \<open>A machine with files, a mask and a lock, on which every call succeeds and a signal comes at once.\<close>

record host =
  h_mode :: "string \<Rightarrow> u32 option"
  h_mask :: u32
  h_locked :: bool

definition stop_at_once :: "listener \<Rightarrow> host urd \<Rightarrow> host \<Rightarrow> (proc_end + listener \<times> host urd) \<times> host" where
  "stop_at_once l u w =
     (let sl = m_signal_listener l
      in if m_ipc_stopped u then (Inr (l, u), w)
         else if 0 < sl_waits sl \<and> sl_handler sl \<and> SIGTERM \<in> set (sl_signals sl) then
           (case signal_callback False SIGTERM sl u of (sl', u') \<Rightarrow> (Inr (l\<lparr>m_signal_listener := sl'\<rparr>, u'), w))
         else (Inl Never_ends, w))"

definition host_env :: "host proc_env" where
  "host_env =
     (urd_env.extend quiet_urd_env (proc_env.fields 1 (\<lambda>w. 2) (\<lambda>w. 42) (\<lambda>w. (0, w)) (\<lambda>w. (1, w)) (\<lambda>a b w. (b, w))
        (\<lambda>m w. (h_mask w, w\<lparr>h_mask := m\<rparr>)) (\<lambda>d w. (0, w)) (\<lambda>fd w. (0, w\<lparr>h_locked := True\<rparr>))
        (\<lambda>fd bs w. (int (length bs), w)) (\<lambda>sig w. w) (\<lambda>n. ''42'') (\<lambda>n t w. (True, w)) (\<lambda>w. w) (\<lambda>p w. (0, 0x1ff))
        (\<lambda>x w. (True, w)) (\<lambda>p w. (True, w\<lparr>h_mode := (h_mode w)(p \<mapsto> 0x1ff AND NOT (h_mask w))\<rparr>)) (\<lambda>w. w) (\<lambda>w. w)
        stop_at_once))
     \<lparr>bfs_exists := (\<lambda>w p. (0, p = ''/stage'' \<or> h_mode w p \<noteq> None)),
      bfs_remove := (\<lambda>p w. (0, w\<lparr>h_mode := (h_mode w)(p := None)\<rparr>)),
      sys_close := (\<lambda>fd w. (0, w\<lparr>h_locked := False\<rparr>))\<rparr>"

definition host_view :: "host system_view" where
  "host_view = \<lparr>sv_mode = h_mode, sv_umask = h_mask\<rparr>"

definition host_locks :: "host lock_view" where
  "host_locks = \<lparr>lv_file = (\<lambda>w fd. Some ''/pid''), lv_locked = (\<lambda>w p. h_locked w)\<rparr>"

definition host_settings :: settings where
  "host_settings = sample_defaults\<lparr>s_daemonize := False, s_control_socket := ''/ctl'', s_global_socket := ''/usr'',
     s_pidfile := ''/pid'', s_staging_directory := ''/stage''\<rparr>"

abbreviation clean_host :: host where
  "clean_host \<equiv> \<lparr>h_mode = (\<lambda>p. None), h_mask = 18, h_locked = False\<rparr>"

lemma host_calls [simp]:
  "pr_getppid host_env = (\<lambda>w. 2)" "pr_getpid host_env = (\<lambda>w. 42)" "pr_fork host_env = (\<lambda>w. (0, w))" "pr_setsid host_env = (\<lambda>w. (1, w))"
  "pr_dup2 host_env = (\<lambda>a b w. (b, w))" "pr_umask host_env = (\<lambda>m w. (h_mask w, w\<lparr>h_mask := m\<rparr>))"
  "pr_chdir host_env = (\<lambda>d w. (0, w))" "pr_lockf host_env = (\<lambda>fd w. (0, w\<lparr>h_locked := True\<rparr>))"
  "pr_write host_env = (\<lambda>fd bs w. (int (length bs), w))" "pr_ignore_signal host_env = (\<lambda>sig w. w)" "pr_to_string host_env = (\<lambda>n. ''42'')"
  "pr_create_logger host_env = (\<lambda>n t w. (True, w))" "pr_destroy_logger host_env = (\<lambda>w. w)"
  "pr_permissions host_env = (\<lambda>p w. (0, 0x1ff))" "pr_construct host_env = (\<lambda>x w. (True, w))"
  "pr_bind host_env = (\<lambda>p w. (True, w\<lparr>h_mode := (h_mode w)(p \<mapsto> 0x1ff AND NOT (h_mask w))\<rparr>))"
  "pr_join_workers host_env = (\<lambda>w. w)" "pr_network_run host_env = (\<lambda>w. w)" "pr_event_loop host_env = stop_at_once"
  "bfs_exists host_env = (\<lambda>w p. (0, p = ''/stage'' \<or> h_mode w p \<noteq> None))"
  "bfs_remove host_env = (\<lambda>p w. (0, w\<lparr>h_mode := (h_mode w)(p := None)\<rparr>))"
  "sys_close host_env = (\<lambda>fd w. (0, w\<lparr>h_locked := False\<rparr>))" "sys_open host_env = (\<lambda>p m w. (3, w))"
  by (simp_all add: host_env_def urd_env.defs proc_env.defs quiet_urd_env_def)

lemma host_laws: "system_laws host_env host_view"
  by (auto simp: system_laws_def umask_law_def bind_law_def remove_law_def service_law_def host_view_def)

lemma host_lock_law: "lock_law host_env host_locks ''/pid''"
  by (auto simp: lock_law_def host_locks_def)

lemma host_machine: "machine host_env host_view host_settings {''/ctl'', ''/usr''}"
proof -
  have "keeps host_view ps (snd \<circ> stop_at_once l u)" for ps l u
    by (auto simp: keeps_def stop_at_once_def Let_def split: prod.splits)
  then have "calls_keep host_env host_view {''/ctl'', ''/usr''}"
    by (simp add: calls_keep_def) (simp add: keeps_def host_view_def)
  then show ?thesis
    using host_laws by (auto simp: machine_def host_settings_def) (simp add: removable_def)
qed

lemma host_loop_law: "loop_law host_env cfg big alloc parse ser"
proof -
  have "(loop_step (host_env\<lparr>staging_directory := s_staging_directory cfg\<rparr>) big alloc parse ser)\<^sup>*\<^sup>* (l, u, w) (l', u', w') \<and> m_ipc_stopped u'"
    if stop: "stop_at_once l u w = (Inr (l', u'), w')" for l u w l' u' w'
  proof (cases "m_ipc_stopped u")
    case True
    with stop show ?thesis by (simp add: stop_at_once_def)
  next
    case False
    obtain sl u1 where cb: "signal_callback False SIGTERM (m_signal_listener l) u = (sl, u1)" by fastforce
    with stop False have "0 < sl_waits (m_signal_listener l)" "sl_handler (m_signal_listener l)"
        "SIGTERM \<in> set (sl_signals (m_signal_listener l))" "l' = l\<lparr>m_signal_listener := sl\<rparr>" "u' = u1" "w' = w"
      by (auto simp: stop_at_once_def Let_def split: if_splits)
    moreover from this cb have "m_ipc_stopped u1" by (auto simp: signal_callback_def shutdown_def Let_def)
    ultimately show ?thesis using False cb by (auto intro: loop_step.Signalled)
  qed
  moreover have "stop_at_once l u w \<noteq> (Inl (Exits code), w')" for l u w code w'
    by (auto simp: stop_at_once_def Let_def split: if_splits prod.splits)
  ultimately show ?thesis by (simp add: loop_law_def)
qed

lemma urd_start_returns: "urd_start fuel env w n bl dr du defs \<noteq> Inl e"
  by (simp add: urd_start_def load_backend_plugins_def register_backend_def register_alias_def)

lemma host_setup:
  "proc_post (setup_socket host_env p m) s (\<lambda>_ s'. p_settings s' = p_settings s) (\<lambda>_ _. False)"
  by (simp add: setup_socket_def proc_exists_def proc_wp)

lemma host_services:
  assumes "p_settings s = Some st"
  shows "proc_post (start_services host_env) s (\<lambda>_ _. True) (\<lambda>_ _. False)"
  using assms by (simp add: start_services_def proc_wp urd_start_returns split: sum.splits)

lemma host_starts:
  assumes "p_settings s = Some st"
  shows "\<exists>u s'. start_up host_env s = (Inr u, s')"
proof -
  let ?E = "\<lambda>_ _. False"
  have handlers: "proc_post (init_event_handlers host_env) t (\<lambda>_ t'. p_settings t' = Some st) ?E" if "p_settings t = Some st" for t
    unfolding init_event_handlers_def Let_def using that
    by (simp add: wp_settings wp_or_exit wp_call wp_modify wp_bind [of the_settings] wp_bind [of "or_exit _ _"] wp_bind [of "proc_modify _"]
        wp_bind [of "proc_call _"])
      (rule post_seq [OF host_setup], rule post_seq [OF host_setup], simp add: proc_wp)
  have "proc_post (start_up host_env) s (\<lambda>_ _. True) ?E"
    unfolding start_up_def
    by (rule post_seq [where P = "\<lambda>_ t. p_settings t = Some st"], simp add: init_task_manager_def proc_wp assms,
        rule post_seq [OF handlers], assumption, rule post_seq [OF host_services], assumption, simp add: proc_wp)
  then show ?thesis by (auto simp: proc_post_def split: prod.splits sum.splits)
qed

theorem start_up_establishes_witness:
  "\<exists>u s'. start_up host_env (process_new host_settings clean_host) = (Inr u, s') \<and>
     h_mode (p_world s') ''/ctl'' = Some 0x180 \<and> h_mode (p_world s') ''/usr'' = Some 0x1b6 \<and> h_mask (p_world s') = 18"
proof -
  obtain u s' where start: "start_up host_env (process_new host_settings clean_host) = (Inr u, s')"
    using host_starts [of "process_new host_settings clean_host"] by (auto simp: process_new_def)
  from start_up_establishes [OF host_laws _ _ this, of host_settings] start show ?thesis
    by (simp add: process_new_def host_settings_def host_view_def)
qed

lemma host_runs: "\<exists>s'. run host_env (process_new host_settings clean_host) = (Inr 0, s')"
proof -
  define s where "s = process_new host_settings clean_host"
  have st: "p_settings s = Some host_settings" by (simp add: s_def process_new_def)
  obtain u s1 where start: "start_up host_env s = (Inr u, s1)"
    using host_starts [OF st] by blast
  from proc_post_returns [OF start_up_post [OF host_laws st] start]
  obtain l where l: "p_ipc_service s1 = Some l" "ready l" "sl_signals (m_signal_listener l) = [SIGHUP, SIGTERM, SIGINT]" by blast
  have "\<exists>u' s2. ipc_run host_env u s1 = (Inr u', s2)"
    using l by (simp add: ipc_run_def stop_at_once_def listener_run_def fold_do_accept signal_do_accept_def ready_def Let_def
        split: prod.splits)
  then obtain u' s2 where loop: "ipc_run host_env u s1 = (Inr u', s2)" by blast
  have "init_logger host_env s = (Inr (), s)" "check_configuration host_env s = (Inr (), s)"
    using st by (auto simp: init_logger_def check_configuration_def proc_exists_def proc_bind_def proc_call_def proc_return_def
        the_settings_def Let_def host_settings_def)
  then have "run host_env s = (Inr 0, teardown host_env s2)"
    using st start loop
    by (simp add: run_def proc_bind_def the_settings_def proc_return_def proc_modify_def) (simp add: host_settings_def)
  then show ?thesis by (auto simp: s_def)
qed



theorem pidfile_guards_nothing_witness:
  "\<exists>s'. daemonize host_env (process_new host_settings clean_host) = (Inr 0, s') \<and> \<not> h_locked (p_world s')"
proof -
  have "proc_post (daemonize host_env) (process_new host_settings clean_host) (\<lambda>pid _. pid = 0) (\<lambda>_ _. False)"
    by (simp add: daemonize_def daemonize_child_def lock_pidfile_def init_logger_def proc_wp process_new_def Let_def)
  then obtain s' where d: "daemonize host_env (process_new host_settings clean_host) = (Inr 0, s')"
    by (auto simp: proc_post_def split: prod.splits sum.splits)
  have "lock_law host_env host_locks (s_pidfile host_settings)" "removable host_env"
    using host_lock_law host_machine by (simp_all add: host_settings_def machine_def)
  from pidfile_guards_nothing [OF host_laws this(2,1) _ _ _ d] d show ?thesis
    by (simp add: process_new_def host_locks_def)
qed

end
