(* ===== verification/Config_Types.thy ===== *)
theory Config_Types
  imports Config_Reader
begin

text \<open>
  The types of options. A value read from a file is kept in a \<^verbatim>\<open>boost::any\<close> and cast back where it is used; the type
  system of the program does not relate the converter in the schema to the cast in \<^verbatim>\<open>settings.cpp\<close>. Here it is shown
  that they agree.
\<close>

section \<open>Typing\<close>

datatype option_kind = K_bool | K_path | K_u32 | K_u64 | K_string

fun kind_of :: "option_any \<Rightarrow> option_kind" where
  "kind_of (Any_bool b) = K_bool"
| "kind_of (Any_path p) = K_path"
| "kind_of (Any_u32 n) = K_u32"
| "kind_of (Any_u64 n) = K_u64"
| "kind_of (Any_string s) = K_string"

text \<open>A computation that may throw, but not because of a cast, and whose result satisfies \<open>P\<close>.\<close>

definition well_typed :: "('a \<Rightarrow> bool) \<Rightarrow> config_exn + 'a \<Rightarrow> bool" where
  "well_typed P r = (case r of Inl e \<Rightarrow> e \<noteq> Bad_any_cast | Inr a \<Rightarrow> P a)"

named_theorems typing_intros

lemma typed_Inr [typing_intros]: "P a \<Longrightarrow> well_typed P (Inr a)"
  by (simp add: well_typed_def)

lemma typed_invalid [typing_intros]: "well_typed P (Inl (Invalid_argument_exn e))"
  by (simp add: well_typed_def)

lemma typed_bind: "well_typed P r \<Longrightarrow> (\<And>a. P a \<Longrightarrow> well_typed Q (f a)) \<Longrightarrow> well_typed Q (cbind r f)"
  by (cases r) (auto simp: well_typed_def)

lemma typed_any: "r \<noteq> Inl Bad_any_cast \<Longrightarrow> well_typed (\<lambda>_. True) r"
  by (auto simp: well_typed_def split: sum.splits)

text \<open>The types of the options of a section, by name, and what it means that a schema or a group of values has them.\<close>

type_synonym kinds = "string \<Rightarrow> option_kind"

definition converter_typed :: "option_kind \<Rightarrow> converter option \<Rightarrow> bool" where
  "converter_typed t c \<longleftrightarrow>
     (case c of None \<Rightarrow> t = K_string | Some conv \<Rightarrow> \<forall>name val. well_typed (\<lambda>v. kind_of v = t) (conv name val))"

definition schema_typed :: "kinds \<Rightarrow> group_schema \<Rightarrow> bool" where
  "schema_typed ks opts \<longleftrightarrow>
     (\<forall>(k, os) \<in> set opts. converter_typed (ks k) (os_converter os) \<and> (\<forall>v. os_default os = Some v \<longrightarrow> kind_of v = ks k))"

definition group_typed :: "kinds \<Rightarrow> options_group \<Rightarrow> bool" where
  "group_typed ks g \<longleftrightarrow> (\<forall>k v. um_find g k = Some v \<longrightarrow> kind_of v = ks k)"

lemma group_typed_empty [simp]: "group_typed ks []"
  by (simp add: group_typed_def)

lemma group_typedD: "group_typed ks g \<Longrightarrow> um_find g k = Some v \<Longrightarrow> kind_of v = ks k"
  by (simp add: group_typed_def)

lemma group_typed_emplace: "group_typed ks g \<Longrightarrow> kind_of v = ks k \<Longrightarrow> group_typed ks (um_emplace k v g)"
  by (auto simp: group_typed_def split: option.splits)

section \<open>The schema of the daemon\<close>

definition global_kinds :: kinds where
  "global_kinds k =
     (if k \<in> {''dry_run'', ''use_syslog''} then K_bool
      else if k \<in> {''log_file_max_size'', ''remote_port'', ''workers''} then K_u32
      else if k = ''bind_address'' then K_string
      else K_path)"

definition namespace_kinds :: kinds where
  "namespace_kinds k =
     (if k = ''capacity'' then K_u64 else if k = ''mountpoint'' then K_path
      else if k = ''track_contents'' then K_bool else K_string)"

lemma converters_typed:
  "converter_typed K_bool (Some conv_bool)" "converter_typed K_u32 (Some conv_number)" "converter_typed K_path (Some conv_path)"
  "converter_typed K_path (Some (conv_existing_path ex))" "converter_typed K_u32 (Some conv_capacity32)"
  "converter_typed K_u64 (Some conv_capacity64)" "converter_typed K_string None"
  by (auto simp: converter_typed_def well_typed_def conv_defs split: option.splits sum.splits if_splits)

lemma schemas_typed: "schema_typed global_kinds (global_options dry)" "schema_typed namespace_kinds (namespace_options ex)"
  by (simp_all add: schema_typed_def global_options_def namespace_options_def global_kinds_def namespace_kinds_def
      declare_option_def converters_typed)

section \<open>The visitor\<close>

text \<open>The YAML library throws exceptions of its own.\<close>

definition yaml_throws_own :: "'n yaml_api \<Rightarrow> bool" where
  "yaml_throws_own Y \<longleftrightarrow> (\<forall>n. y_string Y n \<noteq> Inl Bad_any_cast) \<and> (\<forall>n s. y_section Y n s \<noteq> Inl Bad_any_cast)"

lemma visit_pair_typed:
  assumes "yaml_throws_own Y" and "schema_typed ks opts" and "group_typed ks parsed"
  shows "well_typed (group_typed ks) (visit_pair Y name opts False parsed kv)"
proof -
  have read: "well_typed (\<lambda>_. True) (y_string Y n)" for n
    using assms(1) by (intro typed_any) (simp add: yaml_throws_own_def)
  have known: "well_typed (\<lambda>os. map_of opts key = Some os) (case map_of opts key of Some os \<Rightarrow> Inr os
      | None \<Rightarrow> if False then Inr (the (map_of opts match_any)) else Inl (Invalid_argument_exn e))" for key e
    by (auto split: option.splits intro: typing_intros)
  have converted: "well_typed (\<lambda>v. kind_of v = ks key)
      (case os_converter os of Some conv \<Rightarrow> conv key s | None \<Rightarrow> Inr (Any_string s))"
    if "map_of opts key = Some os" for key os s
  proof -
    have "converter_typed (ks key) (os_converter os)"
      using assms(2) map_of_SomeD [OF that] by (auto simp: schema_typed_def)
    then show ?thesis by (auto simp: converter_typed_def split: option.splits intro: typing_intros)
  qed
  show ?thesis
    unfolding visit_pair_def
    by (rule typed_bind [OF read], rule typed_bind [OF read], rule typed_bind [OF known], rule typed_bind [OF converted], assumption)
      (intro typing_intros group_typed_emplace assms(3))
qed

lemma visit_pairs_typed:
  assumes "yaml_throws_own Y" and "schema_typed ks opts"
  shows "group_typed ks parsed \<Longrightarrow> well_typed (group_typed ks) (visit_pairs Y name opts False parsed kvs)"
proof (induction kvs arbitrary: parsed)
  case (Cons kv kvs)
  show ?case
    unfolding visit_pairs.simps by (rule typed_bind [OF visit_pair_typed [OF assms Cons.prems]]) (rule Cons.IH)
qed (simp add: typing_intros)

lemma check_mandatory_typed: "well_typed (\<lambda>_. True) (check_mandatory opts parsed)"
  by (induction opts parsed rule: check_mandatory.induct) (auto intro: typing_intros)

lemma add_defaults_typed: "schema_typed ks opts \<Longrightarrow> group_typed ks g \<Longrightarrow> group_typed ks (add_defaults opts g)"
proof (induction opts g rule: add_defaults.induct)
  case (2 k os opts g)
  then have "group_typed ks (case os_default os of
      Some v \<Rightarrow> (if um_count g k = 0 then um_emplace k v g else g) | None \<Rightarrow> g)"
    by (auto simp: schema_typed_def split: option.splits intro: group_typed_emplace)
  with 2 show ?case by (simp add: schema_typed_def)
qed simp

lemma visit_group_typed:
  assumes "yaml_throws_own Y" and "schema_typed ks opts"
  shows "well_typed (group_typed ks) (visit_group Y name opts config)"
  unfolding visit_group_def
  by (rule typed_bind [OF visit_pairs_typed [OF assms]], simp, rule typed_bind [OF check_mandatory_typed])
    (intro typing_intros add_defaults_typed assms(2))

lemma visit_list_typed:
  assumes "yaml_throws_own Y" and "schema_typed ks opts" and "map_of opts match_any = None"
  shows "well_typed (\<lambda>gs. \<forall>g \<in> set gs. group_typed ks g) (visit_list Y name opts entries)"
proof (induction entries)
  case (Cons e es)
  have "well_typed (group_typed ks) (visit_pairs Y name opts False [] (entry_pairs Y e))"
    by (rule visit_pairs_typed [OF assms(1,2)]) simp
  then show ?case
    unfolding visit_list.simps assms(3)
    by (simp, rule typed_bind) (auto intro!: typed_bind [OF Cons.IH] typing_intros)
qed (simp add: typing_intros)

section \<open>The settings\<close>

text \<open>Casting an option to its own type succeeds.\<close>

lemma kind_cast:
  "kind_of v = K_bool \<Longrightarrow> any_bool v \<noteq> None" "kind_of v = K_path \<Longrightarrow> any_path v \<noteq> None" "kind_of v = K_u32 \<Longrightarrow> any_u32 v \<noteq> None"
  "kind_of v = K_u64 \<Longrightarrow> any_u64 v \<noteq> None" "kind_of v = K_string \<Longrightarrow> any_string v \<noteq> None"
  by (cases v; simp)+

lemma group_get_typed: "(\<And>v. um_find g k = Some v \<Longrightarrow> cast v \<noteq> None) \<Longrightarrow> well_typed (\<lambda>_. True) (group_get cast g k)"
  by (auto simp: group_get_def well_typed_def option_missing_def split: option.splits)

lemma casts_typed:
  "group_typed ks g \<Longrightarrow> ks k = K_bool \<Longrightarrow> well_typed (\<lambda>_. True) (group_get any_bool g k)"
  "group_typed ks g \<Longrightarrow> ks k = K_path \<Longrightarrow> well_typed (\<lambda>_. True) (group_get any_path g k)"
  "group_typed ks g \<Longrightarrow> ks k = K_u32 \<Longrightarrow> well_typed (\<lambda>_. True) (group_get any_u32 g k)"
  "group_typed ks g \<Longrightarrow> ks k = K_u64 \<Longrightarrow> well_typed (\<lambda>_. True) (group_get any_u64 g k)"
  "group_typed ks g \<Longrightarrow> ks k = K_string \<Longrightarrow> well_typed (\<lambda>_. True) (group_get any_string g k)"
  by (auto intro!: group_get_typed dest!: group_typedD kind_cast)

text \<open>The sections of a file that was read have their types.\<close>

fun section_typed :: "kinds \<Rightarrow> kinds \<Rightarrow> string \<times> section_value \<Rightarrow> bool" where
  "section_typed gk nk (k, Sec_group g) \<longleftrightarrow> k = ''global_settings'' \<and> group_typed gk g"
| "section_typed gk nk (k, Sec_list gs) \<longleftrightarrow> k = ''namespaces'' \<and> (\<forall>g \<in> set gs. group_typed nk g)"

definition sections_typed :: "options_map \<Rightarrow> bool" where
  "sections_typed m \<longleftrightarrow> (\<forall>k sv. um_find m k = Some sv \<longrightarrow> section_typed global_kinds namespace_kinds (k, sv))"

lemma sectionsD: "sections_typed m \<Longrightarrow> um_find m k = Some sv \<Longrightarrow> section_typed global_kinds namespace_kinds (k, sv)"
  by (simp add: sections_typed_def)

lemma parse_yaml_file_typed:
  assumes "yaml_throws_own Y"
  shows "well_typed sections_typed (parse_yaml_file Y doc (valid_options ex dry) [])"
proof -
  have sec: "well_typed (\<lambda>_. True) (y_section Y doc s)" for s
    using assms by (intro typed_any) (simp add: yaml_throws_own_def)
  note global = visit_group_typed [OF assms schemas_typed(1)]
  have "map_of (namespace_options ex) match_any = None" by (simp add: namespace_options_def)
  note spaces = visit_list_typed [OF assms schemas_typed(2) this]
  show ?thesis
    unfolding valid_options_def
    by (auto simp: cbind_assoc split: option.splits
        intro!: typed_bind [OF sec] typed_bind [OF global] typed_bind [OF spaces] typing_intros)
      (auto simp: sections_typed_def split: if_splits)
qed

lemma kinds_of_options:
  "namespace_kinds ''nsid'' = K_string" "namespace_kinds ''track_contents'' = K_bool" "namespace_kinds ''mountpoint'' = K_path"
  "namespace_kinds ''type'' = K_string" "namespace_kinds ''capacity'' = K_u64" "namespace_kinds ''visibility'' = K_string"
  "global_kinds ''use_syslog'' = K_bool" "global_kinds ''log_file'' = K_path" "global_kinds ''log_file_max_size'' = K_u32"
  "global_kinds ''dry_run'' = K_bool" "global_kinds ''global_socket'' = K_path" "global_kinds ''control_socket'' = K_path"
  "global_kinds ''bind_address'' = K_string" "global_kinds ''remote_port'' = K_u32" "global_kinds ''pidfile'' = K_path"
  "global_kinds ''workers'' = K_u32" "global_kinds ''staging_directory'' = K_path"
  by (simp_all add: namespace_kinds_def global_kinds_def)

lemma read_namespace_defs_typed:
  "\<forall>g \<in> set gs. group_typed namespace_kinds g \<Longrightarrow> well_typed (\<lambda>_. True) (read_namespace_defs gs defs)"
proof (induction gs arbitrary: defs)
  case (Cons g gs)
  then have "well_typed (\<lambda>_. True) (read_namespace_def g)"
    unfolding read_namespace_def_def
    by (intro typed_bind [where P = "\<lambda>_. True"] casts_typed [where ks = namespace_kinds] typing_intros) (simp_all add: kinds_of_options)
  then show ?case unfolding read_namespace_defs.simps by (rule typed_bind) (use Cons in auto)
qed (simp add: typing_intros)

lemma sections_get:
  "sections_typed m \<Longrightarrow> well_typed (group_typed global_kinds) (map_get_group m ''global_settings'')"
  "sections_typed m \<Longrightarrow> well_typed (\<lambda>gs. \<forall>g \<in> set gs. group_typed namespace_kinds g) (map_get_list m ''namespaces'')"
  by (auto simp: map_get_group_def map_get_list_def well_typed_def option_missing_def
      split: option.splits section_value.splits dest!: sectionsD)

lemma typed_if: "well_typed (\<lambda>_. True) r \<Longrightarrow> well_typed (\<lambda>_. True) (if b then r else Inr a)"
  by (simp add: typing_intros)

lemma load_from_file_typed:
  assumes "yaml_throws_own Y"
  shows "well_typed (\<lambda>_. True) (load_from_file Y ex defaults doc s)"
  unfolding load_from_file_def
  apply (rule typed_bind [OF parse_yaml_file_typed [OF assms]])
  apply (rule typed_bind [OF sections_get(1)], assumption)
  apply (rule typed_bind [where P = "\<lambda>_. True"], (rule typed_if)?, rule casts_typed [where ks = global_kinds],
      assumption, simp add: kinds_of_options)+
  apply (rule typed_bind [OF sections_get(2)], assumption)
  apply (rule typed_bind [OF read_namespace_defs_typed], assumption)
  apply (intro typing_intros TrueI)
  done



end
