(* ===== verification/Fmt_Decimal.thy ===== *)
theory Fmt_Decimal
  imports Norns_Prelude
begin

unbundle bit_operations_syntax

text \<open>
  How the numbers of a log line are written (\<^verbatim>\<open>src/spdlog/fmt/bundled/format.h\<close> and \<^verbatim>\<open>format.cc\<close>): the number of digits
  from the position of the highest bit, the digits from a table of pairs, backwards into a buffer that was made as long
  as the number of digits says. The result is the usual decimal representation, and nothing is written outside the
  buffer.
\<close>

section \<open>The decimal representation\<close>

fun decimal_digits :: "nat \<Rightarrow> string" where
  "decimal_digits n = (if n < 10 then [''0123456789'' ! n] else decimal_digits (n div 10) @ [''0123456789'' ! (n mod 10)])"

declare decimal_digits.simps [simp del]

definition print_int :: "int \<Rightarrow> string" where
  "print_int i = (if i < 0 then CHR ''-'' # decimal_digits (nat (- i)) else decimal_digits (nat i))"

lemma decimal_digits_small: "n < 10 \<Longrightarrow> decimal_digits n = [''0123456789'' ! n]"
  by (simp add: decimal_digits.simps)

lemma decimal_digits_step: "10 \<le> n \<Longrightarrow> decimal_digits n = decimal_digits (n div 10) @ [''0123456789'' ! (n mod 10)]"
  by (subst decimal_digits.simps) simp

lemma length_decimal_digits: "0 < k \<Longrightarrow> 10 ^ (k - 1) \<le> n \<or> k = 1 \<Longrightarrow> n < 10 ^ k \<Longrightarrow> length (decimal_digits n) = k"
proof (induction k arbitrary: n)
  case 0
  then show ?case by simp
next
  case (Suc k)
  show ?case
  proof (cases k)
    case 0
    with Suc.prems show ?thesis by (simp add: decimal_digits_small)
  next
    case (Suc j)
    with Suc.prems have low: "10 * 10 ^ j \<le> n" and high: "n < 10 * 10 ^ k" by auto
    have "(1 :: nat) \<le> 10 ^ j" by simp
    with low have "10 \<le> n" by linarith
    moreover have "10 ^ j \<le> n div 10" "n div 10 < 10 ^ k" using low high by linarith+
    then have "length (decimal_digits (n div 10)) = k" using Suc.IH [of "n div 10"] Suc by simp
    ultimately show ?thesis by (simp add: decimal_digits_step)
  qed
qed

section \<open>The number of digits\<close>

text \<open>
  The tables of powers. \<^verbatim>\<open>count_digits\<close> estimates the number of digits by the number of bits times \<open>1233 / 4096\<close>, about
  \<open>log\<^sub>10 2\<close>, and corrects the estimate by one comparison. \<open>clz\<close> is the builtin of the compiler.
\<close>

definition POWERS_OF_10_64 :: "nat list" where
  "POWERS_OF_10_64 =
     [0, 10, 100, 1000, 10000, 100000, 1000000, 10000000, 100000000, 1000000000,
      10000000000, 100000000000, 1000000000000, 10000000000000, 100000000000000, 1000000000000000,
      10000000000000000, 100000000000000000, 1000000000000000000, 10000000000000000000]"

definition POWERS_OF_10_32 :: "nat list" where
  "POWERS_OF_10_32 = [0, 10, 100, 1000, 10000, 100000, 1000000, 10000000, 100000000, 1000000000]"

fun bit_length :: "nat \<Rightarrow> nat" where
  "bit_length n = (if n = 0 then 0 else Suc (bit_length (n div 2)))"

declare bit_length.simps [simp del]

definition builtin_clz :: "nat \<Rightarrow> nat \<Rightarrow> nat" where
  "builtin_clz width n = width - bit_length n"

definition count_digits :: "u64 \<Rightarrow> nat" where
  "count_digits n =
     (let t = (64 - builtin_clz 64 (unat (n OR 1))) * 1233 div 2 ^ 12
      in t - (if unat n < POWERS_OF_10_64 ! t then 1 else 0) + 1)"

definition count_digits_32 :: "u32 \<Rightarrow> nat" where
  "count_digits_32 n =
     (let t = (32 - builtin_clz 32 (unat (n OR 1))) * 1233 div 2 ^ 12
      in t - (if unat n < POWERS_OF_10_32 ! t then 1 else 0) + 1)"

lemma bit_length_bounds: "0 < n \<Longrightarrow> 0 < bit_length n \<and> 2 ^ (bit_length n - 1) \<le> n \<and> n < 2 ^ bit_length n"
proof (induction n rule: bit_length.induct)
  case (1 n)
  show ?case
  proof (cases "n = 1")
    case True
    then show ?thesis by (simp add: bit_length.simps)
  next
    case False
    with 1 have "0 < n div 2" and n: "n \<noteq> 0" by simp_all
    with 1 have "0 < bit_length (n div 2)" "2 ^ (bit_length (n div 2) - 1) \<le> n div 2" "n div 2 < 2 ^ bit_length (n div 2)"
      by blast+
    moreover from this(1) obtain k where k: "bit_length (n div 2) = Suc k" by (cases "bit_length (n div 2)") simp_all
    ultimately have "2 * 2 ^ k \<le> n" "n < 2 * (2 * 2 ^ k)" by simp_all
    moreover have "bit_length n = Suc (Suc k)" using n k by (subst bit_length.simps) simp
    ultimately show ?thesis by simp
  qed
qed

lemma bit_length_le: "0 < n \<Longrightarrow> n < 2 ^ w \<Longrightarrow> bit_length n \<le> w"
proof -
  assume n: "0 < n" "n < 2 ^ w"
  from bit_length_bounds [OF n(1)] n(2) have "(2 :: nat) ^ (bit_length n - 1) < 2 ^ w" by linarith
  then show ?thesis by simp
qed

text \<open>The estimate, for every number of bits.\<close>

definition estimate_ok :: "nat list \<Rightarrow> nat \<Rightarrow> bool" where
  "estimate_ok powers b \<longleftrightarrow>
     (let t = b * 1233 div 2 ^ 12 in
        2 ^ b \<le> (10 :: nat) ^ (t + 1) \<and> (if t = 0 then powers ! t = 0 else 1 < b \<and> (10 :: nat) ^ (t - 1) \<le> 2 ^ (b - 1)))"

lemmas table_defs = estimate_ok_def POWERS_OF_10_64_def POWERS_OF_10_32_def Let_def

lemma estimates_64: "estimate_ok POWERS_OF_10_64 1 \<and> list_all (estimate_ok POWERS_OF_10_64) [2..<65]"
  by (simp add: table_defs)

lemma estimates_32: "estimate_ok POWERS_OF_10_32 1 \<and> list_all (estimate_ok POWERS_OF_10_32) [2..<33]"
  by (simp add: table_defs)

lemma powers_64: "POWERS_OF_10_64 ! 1 = 10 ^ 1 \<and> list_all (\<lambda>t. POWERS_OF_10_64 ! t = 10 ^ t) [2..<20]"
  by (simp add: table_defs)

lemma powers_32: "POWERS_OF_10_32 ! 1 = 10 ^ 1 \<and> list_all (\<lambda>t. POWERS_OF_10_32 ! t = 10 ^ t) [2..<10]"
  by (simp add: table_defs)

lemma from_table: "P 1 \<and> list_all P [2..<n] \<Longrightarrow> 1 \<le> k \<Longrightarrow> k < n \<Longrightarrow> P (k :: nat)"
  by (cases "k = 1") (auto simp: list_all_iff)

lemma digits_estimate:
  fixes powers :: "nat list" and n :: nat
  defines "t \<equiv> bit_length (n OR 1) * 1233 div 2 ^ 12"
  assumes ok: "estimate_ok powers (bit_length (n OR 1))" and power: "t \<noteq> 0 \<Longrightarrow> powers ! t = 10 ^ t"
  shows "t - (if n < powers ! t then 1 else 0) + 1 = length (decimal_digits n)"
proof -
  define b where "b = bit_length (n OR 1)"
  have m: "n OR 1 = n + (if even n then 1 else 0)" by (simp add: or_Suc_0_eq)
  then have "0 < n OR 1" by (cases "even n") (auto intro: odd_pos)
  from bit_length_bounds [OF this] have b: "0 < b" "2 ^ (b - 1) \<le> n OR 1" "n OR 1 < 2 ^ b" by (simp_all add: b_def)
  from ok have est: "2 ^ b \<le> (10 :: nat) ^ (t + 1)" "t = 0 \<Longrightarrow> powers ! t = 0"
    "t \<noteq> 0 \<Longrightarrow> 1 < b \<and> (10 :: nat) ^ (t - 1) \<le> 2 ^ (b - 1)"
    by (simp_all only: estimate_ok_def Let_def t_def b_def if_False if_True simp_thms)
  have "n \<le> n OR 1" using m by simp
  with b(3) est(1) have "n < 10 ^ (t + 1)" by linarith
  moreover have "t \<noteq> 0 \<Longrightarrow> 10 ^ (t - 1) \<le> n"
  proof -
    assume "t \<noteq> 0"
    then have low: "1 < b" "(10 :: nat) ^ (t - 1) \<le> 2 ^ (b - 1)" using est(3) by simp_all
    define e :: nat where "e = 2 ^ (b - 1)"
    then have "even e" "e \<le> n + (if even n then 1 else 0)" using low(1) b(2) m by simp_all
    then have "2 ^ (b - 1) \<le> n" unfolding e_def [symmetric] by (cases "even n"; presburger)
    with low(2) show ?thesis by linarith
  qed
  ultimately show ?thesis
    using est(2) power length_decimal_digits [of t n] length_decimal_digits [of "t + 1" n] by (cases "t = 0") auto
qed

lemma count_digits_exact: "count_digits n = length (decimal_digits (unat n))"
proof -
  define b where "b = bit_length (unat n OR 1)"
  have "unat (n OR 1) < 2 ^ 64" using unsigned_less [of "n OR 1"] by simp
  moreover have "0 < unat n OR 1" using odd_pos by (auto simp: or_Suc_0_eq)
  ultimately have b: "1 \<le> b" "b < 65"
    using bit_length_le [of "unat n OR 1" 64] bit_length_bounds [of "unat n OR 1"] by (simp_all add: b_def unsigned_or_eq)
  then have "b * 1233 div 2 ^ 12 < 20" by simp
  with b have "estimate_ok POWERS_OF_10_64 b"
    "b * 1233 div 2 ^ 12 \<noteq> 0 \<Longrightarrow> POWERS_OF_10_64 ! (b * 1233 div 2 ^ 12) = 10 ^ (b * 1233 div 2 ^ 12)"
    using from_table [OF estimates_64] from_table [OF powers_64, of "b * 1233 div 2 ^ 12"] by simp_all
  from digits_estimate [OF this [unfolded b_def]] b show ?thesis
    by (simp add: count_digits_def builtin_clz_def unsigned_or_eq b_def Let_def)
qed

lemma count_digits_32_exact: "count_digits_32 n = length (decimal_digits (unat n))"
proof -
  define b where "b = bit_length (unat n OR 1)"
  have "unat (n OR 1) < 2 ^ 32" using unsigned_less [of "n OR 1"] by simp
  moreover have "0 < unat n OR 1" using odd_pos by (auto simp: or_Suc_0_eq)
  ultimately have b: "1 \<le> b" "b < 33"
    using bit_length_le [of "unat n OR 1" 32] bit_length_bounds [of "unat n OR 1"] by (simp_all add: b_def unsigned_or_eq)
  then have "b * 1233 div 2 ^ 12 < 10" by simp
  with b have "estimate_ok POWERS_OF_10_32 b"
    "b * 1233 div 2 ^ 12 \<noteq> 0 \<Longrightarrow> POWERS_OF_10_32 ! (b * 1233 div 2 ^ 12) = 10 ^ (b * 1233 div 2 ^ 12)"
    using from_table [OF estimates_32] from_table [OF powers_32, of "b * 1233 div 2 ^ 12"] by simp_all
  from digits_estimate [OF this [unfolded b_def]] b show ?thesis
    by (simp add: count_digits_32_def builtin_clz_def unsigned_or_eq b_def Let_def)
qed

section \<open>The digits\<close>

text \<open>
  The table of pairs of digits, and \<^verbatim>\<open>*--buffer = c\<close> on an array of characters and a position in it: a write outside the
  array is a fault. \<^verbatim>\<open>format_decimal\<close> takes the number without its sign; its divisions do not overflow.
\<close>

definition DIGITS :: string where
  "DIGITS =
     ''0001020304050607080910111213141516171819'' @ ''2021222324252627282930313233343536373839'' @
     ''4041424344454647484950515253545556575859'' @ ''6061626364656667686970717273747576777879'' @
     ''8081828384858687888990919293949596979899''"

definition put_back :: "char \<Rightarrow> nat \<times> string \<Rightarrow> (nat \<times> string) outcome" where
  "put_back c = (\<lambda>(p, buf). if 0 < p \<and> p \<le> length buf then Inr (p - 1, buf[p - 1 := c]) else Inl Out_Of_Range)"

function (sequential) format_decimal_loop :: "nat \<Rightarrow> nat \<times> string \<Rightarrow> (nat \<times> string) outcome" where
  "format_decimal_loop v b =
     (if 100 \<le> v then
        obind (put_back (DIGITS ! (v mod 100 * 2 + 1)) b) (\<lambda>b.
        obind (put_back (DIGITS ! (v mod 100 * 2)) b) (\<lambda>b. format_decimal_loop (v div 100) b))
      else if v < 10 then put_back (char_of (48 + v)) b
      else
        obind (put_back (DIGITS ! (v * 2 + 1)) b) (\<lambda>b. put_back (DIGITS ! (v * 2)) b))"
  by pat_completeness auto
termination by (relation "measure fst") auto

declare format_decimal_loop.simps [simp del]

definition format_decimal :: "string \<Rightarrow> nat \<Rightarrow> nat \<Rightarrow> nat \<Rightarrow> string outcome" where
  "format_decimal buf p v num_digits = obind (format_decimal_loop v (p + num_digits, buf)) (\<lambda>(p, buf). Inr buf)"

lemma digit_pairs: "list_all (\<lambda>v. DIGITS ! (v * 2) = ''0123456789'' ! (v div 10) \<and> DIGITS ! (v * 2 + 1) = ''0123456789'' ! (v mod 10)) [10..<100]"
  by (simp add: DIGITS_def)

lemma digit_pairs_low: "list_all (\<lambda>v. DIGITS ! (v * 2) = CHR ''0'' \<and> DIGITS ! (v * 2 + 1) = ''0123456789'' ! v) [0,1,2,3,4,5,6,7,8,9]"
  by (simp add: DIGITS_def)

lemma digits_pair:
  assumes "v < 100"
  shows "DIGITS ! (v * 2) = ''0123456789'' ! (v div 10)" "DIGITS ! (v * 2 + 1) = ''0123456789'' ! (v mod 10)"
proof -
  have "DIGITS ! (v * 2) = ''0123456789'' ! (v div 10) \<and> DIGITS ! (v * 2 + 1) = ''0123456789'' ! (v mod 10)"
  proof (cases "v < 10")
    case True
    then have "v \<in> set [0,1,2,3,4,5,6,7,8,9]" by auto
    with digit_pairs_low True show ?thesis unfolding list_all_iff by (metis div_less mod_less nth_Cons_0)
  next
    case False
    with assms have "v \<in> set [10..<100]" by (simp only: set_upt atLeastLessThan_iff) simp
    with digit_pairs show ?thesis unfolding list_all_iff by blast
  qed
  then show "DIGITS ! (v * 2) = ''0123456789'' ! (v div 10)" "DIGITS ! (v * 2 + 1) = ''0123456789'' ! (v mod 10)" by blast+
qed

lemma ascii_digit: "v < 10 \<Longrightarrow> char_of (48 + v) = ''0123456789'' ! v"
proof -
  assume "v < 10"
  moreover have "list_all (\<lambda>v. char_of (48 + v) = ''0123456789'' ! v) [0,1,2,3,4,5,6,7,8,9 :: nat]" by simp code_simp
  moreover from calculation(1) have "v \<in> set [0,1,2,3,4,5,6,7,8,9]" by auto
  ultimately show ?thesis unfolding list_all_iff by blast
qed

lemma put_back_at: "n = Suc (length pre) \<Longrightarrow> put_back c (n, pre @ x # post) = Inr (length pre, pre @ c # post)"
  by (simp add: put_back_def)

lemma decimal_digits_pair:
  "10 \<le> v \<Longrightarrow> v < 100 \<Longrightarrow> decimal_digits v = [''0123456789'' ! (v div 10), ''0123456789'' ! (v mod 10)]"
  by (simp add: decimal_digits_step decimal_digits_small)

lemma decimal_digits_hundred:
  assumes "100 \<le> v"
  shows "decimal_digits v = decimal_digits (v div 100) @ [DIGITS ! (v mod 100 * 2), DIGITS ! (v mod 100 * 2 + 1)]"
proof -
  have "v div 10 mod 10 = v mod 100 div 10" "v mod 10 = v mod 100 mod 10" "v div 10 div 10 = v div 100"
    using mod_mult2_eq [of v 10 10] by (simp_all add: div_mult2_eq [of v 10 10, simplified, symmetric] mod_mod_cancel)
  moreover have "10 \<le> v" "10 \<le> v div 10" using assms by simp_all
  ultimately show ?thesis
    using digits_pair [of "v mod 100"] decimal_digits_step [of v] decimal_digits_step [of "v div 10"] by simp
qed

lemma format_decimal_loop_writes:
  "length old = length (decimal_digits v) \<Longrightarrow>
    format_decimal_loop v (length pre + length old, pre @ old @ post) = Inr (length pre, pre @ decimal_digits v @ post)"
proof (induction v arbitrary: old post rule: less_induct)
  case (less v)
  consider "100 \<le> v" | "10 \<le> v" "v < 100" | "v < 10" by linarith
  then show ?case
  proof cases
    case 1
    with less.prems obtain old' x y where old: "old = old' @ [x, y]" "length old' = length (decimal_digits (v div 100))"
      by (auto simp: decimal_digits_hundred length_append_singleton numeral_2_eq_2 dest!: length_Suc_conv_rev [THEN iffD1])
    have "format_decimal_loop v (length pre + length old, pre @ old @ post) =
        format_decimal_loop (v div 100)
          (length pre + length old', pre @ old' @ DIGITS ! (v mod 100 * 2) # DIGITS ! (v mod 100 * 2 + 1) # post)"
      using 1 put_back_at [of "length pre + length old" "pre @ old' @ [x]" _ y post]
        put_back_at [of "Suc (length pre + length old')" "pre @ old'"]
      by (subst format_decimal_loop.simps) (simp add: old)
    also have "\<dots> = Inr (length pre, pre @ decimal_digits v @ post)"
      using less.IH [of "v div 100" old'] old(2) 1 by (simp add: decimal_digits_hundred)
    finally show ?thesis .
  next
    case 2
    with less.prems obtain x y where old: "old = [x, y]"
      by (auto simp: decimal_digits_pair length_Suc_conv numeral_2_eq_2)
    with 2 put_back_at [of "length pre + length old" "pre @ [x]" _ y post] put_back_at [of "Suc (length pre)" pre]
    show ?thesis by (subst format_decimal_loop.simps) (simp add: decimal_digits_pair digits_pair [of v, simplified])
  next
    case 3
    with less.prems obtain x where "old = [x]" by (auto simp: decimal_digits_small length_Suc_conv)
    with 3 show ?thesis
      by (subst format_decimal_loop.simps) (simp add: decimal_digits_small ascii_digit put_back_at)
  qed
qed

section \<open>Writing a number\<close>

text \<open>
  What is appended to a writer. A buffer grows by characters that are not initialised, here zeros.
  \<^verbatim>\<open>prepare_int_buffer\<close>, without a precision and with the default alignment: the sign where the number begins, the fill
  in front of it; it returns the new part and its end, from where the digits are written backwards.
\<close>

definition grow_buffer :: "nat \<Rightarrow> string" where
  "grow_buffer n = replicate n (CHR 0x00)"

definition uninitialized_copy :: "string \<Rightarrow> nat \<Rightarrow> string \<Rightarrow> string" where
  "uninitialized_copy s p buf = take p buf @ s @ drop (p + length s) buf"

definition prepare_int_buffer :: "nat \<Rightarrow> nat \<Rightarrow> char \<Rightarrow> string \<Rightarrow> string \<times> nat" where
  "prepare_int_buffer num_digits width fill prefix =
     (let sz = length prefix + num_digits
      in if width \<le> sz then (uninitialized_copy prefix 0 (grow_buffer sz), sz)
         else
           let buf = uninitialized_copy prefix (width - sz) (grow_buffer width)
           in (uninitialized_copy (replicate (width - sz) fill) 0 buf, width))"

text \<open>
  \<^verbatim>\<open>write_int\<close>, for an \<^verbatim>\<open>int\<close>, whose absolute value is computed in 32 unsigned bits, and for unsigned numbers of 32 and 64
  bits; \<^verbatim>\<open>write_decimal\<close>, for an \<^verbatim>\<open>int\<close> without a format.
\<close>

definition abs_value :: "int \<Rightarrow> u32" where
  "abs_value v = (let a = word_of_int v in if v < 0 then 0 - a else a)"

definition sign_of :: "int \<Rightarrow> string" where
  "sign_of v = (if v < 0 then ''-'' else [])"

definition write_int :: "int \<Rightarrow> nat \<Rightarrow> char \<Rightarrow> string outcome" where
  "write_int v width fill =
     (let (buf, p) = prepare_int_buffer (count_digits_32 (abs_value v)) width fill (sign_of v)
      in format_decimal buf p (unat (abs_value v)) 0)"

definition write_uint :: "u32 \<Rightarrow> nat \<Rightarrow> char \<Rightarrow> string outcome" where
  "write_uint v width fill =
     (let (buf, p) = prepare_int_buffer (count_digits_32 v) width fill [] in format_decimal buf p (unat v) 0)"

definition write_int_64 :: "u64 \<Rightarrow> nat \<Rightarrow> char \<Rightarrow> string outcome" where
  "write_int_64 v width fill =
     (let (buf, p) = prepare_int_buffer (count_digits v) width fill [] in format_decimal buf p (unat v) 0)"

definition write_decimal :: "int \<Rightarrow> string outcome" where
  "write_decimal v =
     (let n = count_digits_32 (abs_value v)
      in obind (format_decimal (grow_buffer (length (sign_of v) + n)) (length (sign_of v)) (unat (abs_value v)) n) (\<lambda>buf.
         Inr (uninitialized_copy (sign_of v) 0 buf)))"

definition left_pad :: "nat \<Rightarrow> char \<Rightarrow> string \<Rightarrow> string" where
  "left_pad width fill s = replicate (width - length s) fill @ s"

lemma prepared:
  obtains old where "length old = num_digits"
    "prepare_int_buffer num_digits width fill prefix =
       (replicate (width - (length prefix + num_digits)) fill @ prefix @ old,
        length (replicate (width - (length prefix + num_digits)) fill @ prefix) + num_digits)"
proof -
  show thesis
  proof (rule that [of "replicate num_digits (CHR 0x00)"])
    show "prepare_int_buffer num_digits width fill prefix =
       (replicate (width - (length prefix + num_digits)) fill @ prefix @ replicate num_digits (CHR 0x00),
        length (replicate (width - (length prefix + num_digits)) fill @ prefix) + num_digits)"
      by (simp add: prepare_int_buffer_def Let_def uninitialized_copy_def grow_buffer_def)
  qed simp
qed

lemma written_number:
  assumes "num_digits = length (decimal_digits n)"
  shows "(let (buf, p) = prepare_int_buffer num_digits width fill prefix in format_decimal buf p n 0) =
    Inr (left_pad width fill (prefix @ decimal_digits n))"
proof -
  define pre where "pre = replicate (width - (length prefix + num_digits)) fill @ prefix"
  obtain old where old: "length old = num_digits"
    "prepare_int_buffer num_digits width fill prefix = (pre @ old, length pre + length old)"
    unfolding pre_def by (rule prepared [of num_digits width fill prefix]) simp
  have "format_decimal (pre @ old) (length pre + length old) n 0 = Inr (pre @ decimal_digits n)"
    using format_decimal_loop_writes [of old n pre "[]"] old(1) assms by (simp add: format_decimal_def)
  moreover have "pre @ decimal_digits n = left_pad width fill (prefix @ decimal_digits n)"
    using assms by (simp add: pre_def left_pad_def)
  ultimately show ?thesis by (simp only: old(2) Let_def prod.case)
qed

lemma sign_and_value:
  assumes "- (2 ^ 31) \<le> v" and "v < 2 ^ 31"
  shows "sign_of v @ decimal_digits (unat (abs_value v)) = print_int v"
proof (cases "v < 0")
  case True
  have neg: "0 - (word_of_int v :: u32) = word_of_int (- v)" by simp
  moreover have "unat (word_of_int (- v) :: u32) = nat (- v)"
    using assms True by (simp add: unsigned_of_int take_bit_int_eq_self del: of_int_minus)
  ultimately show ?thesis using True by (simp only: sign_of_def abs_value_def print_int_def Let_def) simp
next
  case False
  then have "unat (word_of_int v :: u32) = nat v" using assms by (simp add: unsigned_of_int take_bit_int_eq_self)
  with False show ?thesis by (simp add: sign_of_def abs_value_def print_int_def Let_def)
qed

lemma write_int_pads:
  "- (2 ^ 31) \<le> v \<Longrightarrow> v < 2 ^ 31 \<Longrightarrow> write_int v width fill = Inr (left_pad width fill (print_int v))"
  unfolding write_int_def by (subst written_number) (simp_all add: count_digits_32_exact sign_and_value)

lemma write_uint_pads: "write_uint v width fill = Inr (left_pad width fill (decimal_digits (unat v)))"
  unfolding write_uint_def by (subst written_number) (simp_all add: count_digits_32_exact)

lemma write_int_64_pads: "write_int_64 v width fill = Inr (left_pad width fill (decimal_digits (unat v)))"
  unfolding write_int_64_def by (subst written_number) (simp_all add: count_digits_exact)

lemma write_decimal_prints: "- (2 ^ 31) \<le> v \<Longrightarrow> v < 2 ^ 31 \<Longrightarrow> write_decimal v = Inr (print_int v)"
proof -
  assume v: "- (2 ^ 31) \<le> v" "v < 2 ^ 31"
  let ?n = "unat (abs_value v)"
  have "format_decimal (grow_buffer (length (sign_of v) + length (decimal_digits ?n))) (length (sign_of v)) ?n
      (length (decimal_digits ?n)) = Inr (grow_buffer (length (sign_of v)) @ decimal_digits ?n)"
    using format_decimal_loop_writes [of "grow_buffer (length (decimal_digits ?n))" ?n "grow_buffer (length (sign_of v))" "[]"]
    by (simp add: format_decimal_def grow_buffer_def replicate_add)
  then show ?thesis using sign_and_value [OF v]
    by (simp add: write_decimal_def Let_def count_digits_32_exact uninitialized_copy_def grow_buffer_def)
qed

text \<open>
  C25. Equivalence of the fast routines with the decimal representation: for every \<^verbatim>\<open>int\<close>, every unsigned number of 32 or 64 bits,
  every width and fill, the digits that are counted with the multiplication by 1233 and written in pairs from the table
  fill the buffer exactly, with no write outside it, and are the usual representation with the fill in front.
\<close>

theorem numbers_written:
  "- (2 ^ 31) \<le> v \<and> v < 2 ^ 31 \<Longrightarrow>
     write_int v width fill = Inr (left_pad width fill (print_int v)) \<and>
     write_decimal v = Inr (print_int v) \<and>
     write_uint u width fill = Inr (left_pad width fill (decimal_digits (unat u))) \<and>
     write_int_64 n width fill = Inr (left_pad width fill (decimal_digits (unat n)))"
  by (simp add: write_int_pads write_uint_pads write_int_64_pads write_decimal_prints)

theorem numbers_written_witness:
  "write_int (- 2147483648) 13 (CHR '' '') = Inr (left_pad 13 (CHR '' '') (print_int (- 2147483648))) \<and>
   write_int_64 18446744073709551615 6 (CHR ''0'') =
     Inr (left_pad 6 (CHR ''0'') (decimal_digits (unat (18446744073709551615 :: u64))))"
  using numbers_written [of "- 2147483648" 13 "CHR '' ''"] numbers_written [of 0 6 "CHR ''0''" _ 18446744073709551615] by simp

end
