(* ===== verification/Client_Log.thy ===== *)
theory Client_Log
  imports Client_Context Fmt_Decimal
begin

text \<open>
  The messages of the client libraries (\<^verbatim>\<open>lib/log.c\<close>, \<^verbatim>\<open>lib/log.h\<close>): the static variables of the logger, the line it
  builds in a buffer on the stack, and where the constructors of the libraries send it. The three writes into the
  buffer are modelled at the level of its bytes, with the unsigned arithmetic of the room that is left.
\<close>

section \<open>What the C library does\<close>

text \<open>The conversions the messages use. A read past the arguments or an argument of another type is undefined.\<close>

datatype va_arg = VA_string string | VA_int int

fun vformat :: "string \<Rightarrow> va_arg list \<Rightarrow> string outcome" where
  "vformat [] args = Inr []"
| "vformat (c # fmt) args =
     (if c \<noteq> CHR ''%'' then obind (vformat fmt args) (\<lambda>t. Inr (c # t))
      else case fmt of
        [] \<Rightarrow> Inl Bad_Cast
      | d # fmt' \<Rightarrow>
          if d = CHR ''%'' then obind (vformat fmt' args) (\<lambda>t. Inr (CHR ''%'' # t))
          else if d = CHR ''s'' then
            (case args of
               [] \<Rightarrow> Inl Out_Of_Range
             | VA_string s # args' \<Rightarrow> obind (vformat fmt' args') (\<lambda>t. Inr (s @ t))
             | VA_int _ # _ \<Rightarrow> Inl Bad_Cast)
          else if d = CHR ''d'' then
            (case args of
               [] \<Rightarrow> Inl Out_Of_Range
             | VA_int i # args' \<Rightarrow> obind (vformat fmt' args') (\<lambda>t. Inr (print_int i @ t))
             | VA_string _ # _ \<Rightarrow> Inl Bad_Cast)
          else Inl Bad_Cast)"

abbreviation MAX_LOG_MSG :: nat where "MAX_LOG_MSG \<equiv> 8192"
abbreviation MAX_ERROR_MSG :: nat where "MAX_ERROR_MSG \<equiv> 128"

text \<open>
  \<^verbatim>\<open>snprintf(&buffer[off], size, ...)\<close> for output \<open>s\<close>: with room for anything, as much as fits and a zero are
  written. The result is the length of the whole output, or negative when an \<^verbatim>\<open>int\<close> cannot hold it. A write outside
  the array is a fault.
\<close>

definition snprintf_at :: "string \<Rightarrow> nat \<Rightarrow> nat \<Rightarrow> string \<Rightarrow> (int \<times> string) outcome" where
  "snprintf_at buffer off room s =
     (let ret = (if 2 ^ 31 \<le> length s then -1 else int (length s)); n = min (length s) (room - 1)
      in if room = 0 then Inr (ret, buffer)
         else if off + n < length buffer
         then Inr (ret, take off buffer @ take n s @ CHR 0x00 # drop (Suc (off + n)) buffer)
         else Inl Out_Of_Range)"

text \<open>The string an array of characters holds; a reader that meets no zero leaves the array.\<close>

definition c_string_of :: "string \<Rightarrow> string outcome" where
  "c_string_of buffer =
     (if CHR 0x00 \<in> set buffer then Inr (takeWhile (\<lambda>c. c \<noteq> CHR 0x00) buffer) else Inl Out_Of_Range)"

definition strrchr :: "string \<Rightarrow> char \<Rightarrow> nat option" where
  "strrchr s c =
     (if c \<in> set s then Some (length s - 1 - length (takeWhile (\<lambda>x. x \<noteq> c) (rev s))) else None)"

lemma strrchr_Some: "strrchr s c = Some i \<Longrightarrow> i < length s \<and> s ! i = c \<and> c \<notin> set (drop (Suc i) s)"
proof -
  assume "strrchr s c = Some i"
  then have "c \<in> set s" and i: "i = length s - 1 - length (takeWhile (\<lambda>x. x \<noteq> c) (rev s))"
    by (auto simp: strrchr_def split: if_splits)
  then obtain xs ys where s: "s = xs @ c # ys" "c \<notin> set ys" by (metis split_list_last)
  then have "takeWhile (\<lambda>x. x \<noteq> c) (rev s) = rev ys"
    by (simp add: takeWhile_append2 takeWhile_tail)
  with i s have "i = length xs" by simp
  with s show ?thesis by simp
qed

section \<open>The logger\<close>

text \<open>A stream is a number; the output of the process is the list of what was written, and where.\<close>

record log_state =
  log_once :: bool
  log_prefix :: "string option"
  log_outfp :: "nat option"
  log_errno :: int
  log_output :: "(nat \<times> string) list"

definition log_state_initial :: log_state where
  "log_state_initial = \<lparr>log_once = False, log_prefix = None, log_outfp = None, log_errno = 0, log_output = []\<rparr>"

definition log_init :: "string \<Rightarrow> nat option \<Rightarrow> log_state \<Rightarrow> log_state" where
  "log_init prefix outfp s =
     (if log_once s then s else s\<lparr>log_prefix := Some prefix, log_outfp := outfp, log_once := True\<rparr>)"

definition log_fprintf :: "nat \<Rightarrow> string \<Rightarrow> log_state \<Rightarrow> log_state" where
  "log_fprintf fp text s = s\<lparr>log_output := log_output s @ [(fp, text)]\<rparr>"

text \<open>The loop that leaves the last component of a path.\<close>

function last_component :: "string \<Rightarrow> string" where
  "last_component path = (case strrchr path (CHR ''/'') of None \<Rightarrow> path | Some f \<Rightarrow> last_component (drop (f + 1) path))"
  by auto
termination
  by (relation "measure length") (auto dest: strrchr_Some)

declare last_component.simps [simp del]

text \<open>The room left in the buffer: an \<^verbatim>\<open>int\<close> minus an \<^verbatim>\<open>unsigned\<close>.\<close>

definition room_left :: "u32 \<Rightarrow> nat" where
  "room_left cc = unat (of_nat MAX_LOG_MSG - cc)"

definition log_header :: "string \<Rightarrow> string \<Rightarrow> int \<Rightarrow> string \<Rightarrow> string \<Rightarrow> string" where
  "log_header pre path line func prefix =
     ''<'' @ pre @ ''>: ['' @ path @ '':'' @ print_int line @ '' '' @ func @ ''()] '' @ prefix @ '': ''"

text \<open>Whether a format asks for the message of the system's last error.\<close>

definition shouts :: "string \<Rightarrow> bool" where
  "shouts fmt \<longleftrightarrow> fmt \<noteq> [] \<and> hd fmt = CHR ''!''"

text \<open>
  \<^verbatim>\<open>log_helper\<close>, in the order of the code: nothing when no stream is set; the header when a file is given; the message
  when a format is given, with the text of \<^verbatim>\<open>errno\<close> after it when the format begins with an exclamation mark; the
  suffix. \<open>strerror\<close> is the table of the system's messages, \<open>junk\<close> what the stack happens to hold.
\<close>

definition log_helper ::
  "(int \<Rightarrow> string) \<Rightarrow> string \<Rightarrow> string option \<Rightarrow> int \<Rightarrow> string \<Rightarrow> string \<Rightarrow> string \<Rightarrow> string option \<Rightarrow> va_arg list \<Rightarrow>
     log_state \<Rightarrow> log_state outcome" where
  "log_helper strerror junk path line func prefix suffix fmt ap s =
     (let saved_errno = log_errno s;
          out = (\<lambda>s. Inr (s\<lparr>log_errno := saved_errno\<rparr>))
      in case log_outfp s of
           None \<Rightarrow> Inr s
         | Some fp \<Rightarrow>
             obind (case path of
                      None \<Rightarrow> Inr (0, junk)
                    | Some p \<Rightarrow>
                        obind (deref (log_prefix s)) (\<lambda>pre.
                          snprintf_at junk 0 MAX_LOG_MSG (log_header pre (last_component p) line func prefix)))
               (\<lambda>(ret, buffer).
             if ret < 0 then out (log_fprintf fp ''vsnprintf failed'' s)
             else
               let cc = (of_int ret :: u32);
                   shout = (case fmt of None \<Rightarrow> False | Some f \<Rightarrow> shouts f);
                   sep = (if shout then '': '' else []);
                   errstr = (if shout then take (MAX_ERROR_MSG - 1) (strerror (log_errno s)) else [])
               in obind (case fmt of
                           None \<Rightarrow> Inr (0, buffer)
                         | Some f \<Rightarrow>
                             obind (vformat (if shout then tl f else f) ap) (\<lambda>m.
                               snprintf_at buffer (unat cc) (room_left cc) m))
                    (\<lambda>(ret, buffer).
                  if ret < 0 then out (log_fprintf fp ''vsnprintf failed'' s)
                  else
                    let cc = cc + of_int ret
                    in obind (snprintf_at buffer (unat cc) (room_left cc) (sep @ errstr @ suffix)) (\<lambda>(_, buffer).
                       obind (c_string_of buffer) (\<lambda>line. out (log_fprintf fp line s))))))"

text \<open>The three functions the macros call; the last one ends the process with the status it returns here.\<close>

definition newline :: string where
  "newline = [CHR 0x0A]"

definition log_error_c ::
  "(int \<Rightarrow> string) \<Rightarrow> string \<Rightarrow> string \<Rightarrow> int \<Rightarrow> string \<Rightarrow> string \<Rightarrow> va_arg list \<Rightarrow> log_state \<Rightarrow> log_state outcome" where
  "log_error_c strerror junk path line func fmt ap s =
     log_helper strerror junk (Some path) line func ''ERROR'' newline (Some fmt) ap s"

definition log_debug ::
  "(int \<Rightarrow> string) \<Rightarrow> string \<Rightarrow> string \<Rightarrow> int \<Rightarrow> string \<Rightarrow> string \<Rightarrow> va_arg list \<Rightarrow> log_state \<Rightarrow> log_state outcome" where
  "log_debug strerror junk path line func fmt ap s =
     log_helper strerror junk (Some path) line func ''DEBUG'' newline (Some fmt) ap s"

definition log_fatal ::
  "(int \<Rightarrow> string) \<Rightarrow> string \<Rightarrow> string \<Rightarrow> int \<Rightarrow> string \<Rightarrow> string \<Rightarrow> va_arg list \<Rightarrow> log_state \<Rightarrow> (int \<times> log_state) outcome" where
  "log_fatal strerror junk path line func fmt ap s =
     obind (log_helper strerror junk (Some path) line func ''FATAL'' newline (Some fmt) ap s) (\<lambda>s'. Inr (1, s'))"

text \<open>The macros: a library that is not built for debugging keeps only the fatal messages.\<close>

definition DBG_macro ::
  "bool \<Rightarrow> (int \<Rightarrow> string) \<Rightarrow> string \<Rightarrow> string \<Rightarrow> int \<Rightarrow> string \<Rightarrow> string \<Rightarrow> va_arg list \<Rightarrow> log_state \<Rightarrow> log_state outcome" where
  "DBG_macro debug_build strerror junk path line func fmt ap s =
     (if debug_build then log_debug strerror junk path line func fmt ap s else Inr s)"

definition ERR_macro ::
  "bool \<Rightarrow> (int \<Rightarrow> string) \<Rightarrow> string \<Rightarrow> string \<Rightarrow> int \<Rightarrow> string \<Rightarrow> string \<Rightarrow> va_arg list \<Rightarrow> log_state \<Rightarrow> log_state outcome" where
  "ERR_macro debug_build strerror junk path line func fmt ap s =
     (if debug_build then log_error_c strerror junk path line func fmt ap s else Inr s)"

text \<open>
  What the constructor of a library does before it creates its context: the two messages of the debug build, and the
  choice of the stream. The second result tells whether the configuration file is left to the program.
\<close>

definition c_stderr :: nat where
  "c_stderr = 2"

definition constructor_logging ::
  "bool \<Rightarrow> (string \<Rightarrow> string option) \<Rightarrow> (int \<Rightarrow> string) \<Rightarrow> string \<Rightarrow> string \<Rightarrow> string \<Rightarrow> string \<Rightarrow> log_state \<Rightarrow>
     (bool \<times> log_state) outcome" where
  "constructor_logging debug_build getenv strerror junk path func library s =
     (if \<not> debug_build then Inr (False, log_init library (Some c_stderr) s)
      else
        obind (if getenv ''NORNS_DEBUG_OUTPUT_TO_STDERR'' = None then
                 obind (DBG_macro True strerror junk path 127 func
                          ''NORNS_DEBUG_OUTPUT_TO_STDERR is set, all messages will be sent to stderr'' [] s)
                   (\<lambda>s. Inr (None, s))
               else Inr (Some c_stderr, s)) (\<lambda>(logfp, s).
        obind (if getenv ''NORNS_DEBUG_CONFIG_FILE_OVERRIDE'' \<noteq> None then
                 obind (DBG_macro True strerror junk path 133 func
                          ''NORNS_DEBUG_CONFIG_FILE_OVERRIDE is set, default configuration file will be ignored'' [] s)
                   (\<lambda>s. Inr (True, s))
               else Inr (False, s)) (\<lambda>(override_config_file, s).
          Inr (override_config_file, log_init library logfp s))))"

section \<open>The buffer\<close>

text \<open>
  The buffer holds as much of a text as fits, and a zero behind it.
\<close>

definition buffer_holds :: "string \<Rightarrow> string \<Rightarrow> bool" where
  "buffer_holds buffer s \<longleftrightarrow>
     length buffer = MAX_LOG_MSG \<and> take (length s) (take (MAX_LOG_MSG - 1) buffer) = take (MAX_LOG_MSG - 1) s \<and>
     buffer ! min (MAX_LOG_MSG - 1) (length s) = CHR 0x00"

lemma holds_string:
  assumes "buffer_holds buffer s"
  shows "c_string_of buffer = Inr (takeWhile (\<lambda>c. c \<noteq> CHR 0x00) (take (MAX_LOG_MSG - 1) s))"
proof -
  let ?n = "min (MAX_LOG_MSG - 1) (length s)"
  have len: "?n < length buffer" and pre: "take ?n buffer = take (MAX_LOG_MSG - 1) s" and zero: "buffer ! ?n = CHR 0x00"
    using assms by (auto simp: buffer_holds_def min.commute take_take)
  have split: "buffer = take ?n buffer @ CHR 0x00 # drop (Suc ?n) buffer"
    using id_take_nth_drop [OF len] zero by simp
  then have "CHR 0x00 \<in> set buffer" by (metis in_set_conv_decomp)
  moreover have "takeWhile (\<lambda>c. c \<noteq> CHR 0x00) buffer = takeWhile (\<lambda>c. c \<noteq> CHR 0x00) (take ?n buffer)"
    by (subst split) (simp add: takeWhile_tail)
  ultimately show ?thesis using pre by (simp add: c_string_of_def)
qed

lemma snprintf_start:
  assumes "length buffer = MAX_LOG_MSG"
  shows "\<exists>buffer'. snprintf_at buffer 0 MAX_LOG_MSG s =
      Inr (if 2 ^ 31 \<le> length s then -1 else int (length s), buffer') \<and> buffer_holds buffer' s"
  using assms by (auto simp: snprintf_at_def Let_def buffer_holds_def nth_append min_def)

lemma room_left_eq: "unat cc \<le> MAX_LOG_MSG \<Longrightarrow> room_left cc = MAX_LOG_MSG - unat cc"
proof -
  assume le: "unat cc \<le> MAX_LOG_MSG"
  have "cc \<le> of_nat MAX_LOG_MSG" using le by (simp add: word_le_nat_alt)
  then show ?thesis by (simp add: room_left_def unat_sub)
qed

lemma room_left_wraps: "MAX_LOG_MSG < unat cc \<Longrightarrow> 0 < room_left cc"
proof -
  assume lt: "MAX_LOG_MSG < unat cc"
  have "of_nat MAX_LOG_MSG - cc \<noteq> 0" using lt by auto
  then show ?thesis by (simp add: room_left_def unat_gt_0)
qed

text \<open>A write behind what the buffer holds appends to it, when there is room or when it is just full.\<close>

lemma snprintf_append:
  assumes "buffer_holds buffer s" and "length s = unat cc" and "unat cc \<le> MAX_LOG_MSG"
  shows "\<exists>buffer'. snprintf_at buffer (unat cc) (room_left cc) t =
      Inr (if 2 ^ 31 \<le> length t then -1 else int (length t), buffer') \<and> buffer_holds buffer' (s @ t)"
proof (cases "unat cc = MAX_LOG_MSG")
  case True
  then show ?thesis using assms by (simp add: snprintf_at_def Let_def room_left_eq buffer_holds_def)
next
  case False
  have pre: "take (length s) buffer = s" using assms False by (simp add: buffer_holds_def)
  have len: "length buffer = MAX_LOG_MSG" using assms by (simp add: buffer_holds_def)
  let ?n = "min (length t) (MAX_LOG_MSG - length s - 1)"
  define buffer' where "buffer' = s @ take ?n t @ CHR 0x00 # drop (Suc (length s + ?n)) buffer"
  have "snprintf_at buffer (unat cc) (room_left cc) t =
      Inr (if 2 ^ 31 \<le> length t then -1 else int (length t), buffer')"
    using False assms len pre by (simp add: snprintf_at_def Let_def room_left_eq buffer'_def)
  moreover have "buffer_holds buffer' (s @ t)"
    using False assms len by (auto simp: buffer_holds_def buffer'_def nth_append min_def)
  ultimately show ?thesis by blast
qed

text \<open>Behind a text that did not fit, the room that is left has wrapped around, and the next write leaves the array.\<close>

lemma snprintf_overflows:
  assumes "length buffer = MAX_LOG_MSG" and "MAX_LOG_MSG < unat cc"
  shows "snprintf_at buffer (unat cc) (room_left cc) t = Inl Out_Of_Range"
  using assms room_left_wraps [OF assms(2)] by (simp add: snprintf_at_def Let_def)

section \<open>A line of the log\<close>

text \<open>The name of the file in a header is the last component of the path: the loop runs at most once.\<close>

lemma last_component_spec:
  "CHR ''/'' \<notin> set (last_component path) \<and> (\<exists>dir. path = dir @ last_component path \<and> (dir = [] \<or> last dir = CHR ''/''))"
proof (cases "strrchr path (CHR ''/'')")
  case None
  then show ?thesis by (auto simp: strrchr_def last_component.simps [of path] split: if_splits)
next
  case (Some i)
  then have i: "i < length path" "path ! i = CHR ''/''" "CHR ''/'' \<notin> set (drop (Suc i) path)" by (auto dest: strrchr_Some)
  then have "last_component path = drop (Suc i) path"
    by (simp add: last_component.simps [of path] Some)
      (simp add: last_component.simps [of "drop (Suc i) path"] strrchr_def)
  moreover have "path = take (Suc i) path @ drop (Suc i) path" by simp
  moreover have "last (take (Suc i) path) = CHR ''/''" using i by (simp add: take_Suc_conv_app_nth)
  ultimately show ?thesis using i(3) by metis
qed

text \<open>The text of a message: its format without the exclamation mark, and what the mark asks for.\<close>

definition message_format :: "string \<Rightarrow> string" where
  "message_format fmt = (if shouts fmt then tl fmt else fmt)"

definition message_tail :: "(int \<Rightarrow> string) \<Rightarrow> string \<Rightarrow> int \<Rightarrow> string" where
  "message_tail strerror fmt err =
     (if shouts fmt then '': '' @ take (MAX_ERROR_MSG - 1) (strerror err) else [])"

definition log_line :: "(int \<Rightarrow> string) \<Rightarrow> string \<Rightarrow> string \<Rightarrow> int \<Rightarrow> string \<Rightarrow> string \<Rightarrow> string \<Rightarrow> string \<Rightarrow> int \<Rightarrow> string" where
  "log_line strerror pre path line func level fmt msg err =
     log_header pre (last_component path) line func level @ msg @ message_tail strerror fmt err @ newline"

lemma log_helper_silent: "log_outfp s = None \<Longrightarrow> log_helper strerror junk path line func level suffix fmt ap s = Inr s"
  by (simp add: log_helper_def)

lemma log_helper_fits:
  assumes "length junk = MAX_LOG_MSG" and "log_outfp s = Some fp" and "log_prefix s = Some pre"
    and "vformat (message_format fmt) ap = Inr msg"
    and "length (log_header pre (last_component path) line func level @ msg) \<le> MAX_LOG_MSG"
  shows "log_helper strerror junk (Some path) line func level newline (Some fmt) ap s =
    Inr (log_fprintf fp (takeWhile (\<lambda>c. c \<noteq> CHR 0x00)
      (take (MAX_LOG_MSG - 1) (log_line strerror pre path line func level fmt msg (log_errno s)))) s)"
proof -
  define hdr where "hdr = log_header pre (last_component path) line func level"
  define tail where "tail = message_tail strerror fmt (log_errno s) @ newline"
  have len: "length hdr + length msg \<le> MAX_LOG_MSG" using assms(5) by (simp add: hdr_def)
  have small: "\<not> 2 ^ 31 \<le> length hdr" "\<not> 2 ^ 31 \<le> length msg" using len by simp_all
  have cc: "unat (of_nat (length hdr) :: u32) = length hdr"
      "unat (of_nat (length hdr) + of_nat (length msg) :: u32) = length (hdr @ msg)"
    using len by (simp_all add: unsigned_of_nat take_bit_nat_eq_self flip: of_nat_add)
  obtain b1 where b1: "snprintf_at junk 0 MAX_LOG_MSG hdr = Inr (int (length hdr), b1)" "buffer_holds b1 hdr"
    using snprintf_start [OF assms(1), of hdr] small by auto
  obtain b2 where b2: "snprintf_at b1 (length hdr) (room_left (of_nat (length hdr))) msg = Inr (int (length msg), b2)"
      "buffer_holds b2 (hdr @ msg)"
    using snprintf_append [OF b1(2), of "of_nat (length hdr)" msg] cc len small by auto
  obtain b3 r where b3: "snprintf_at b2 (length (hdr @ msg)) (room_left (of_nat (length hdr) + of_nat (length msg))) tail =
      Inr (r, b3)" "buffer_holds b3 ((hdr @ msg) @ tail)"
    using snprintf_append [OF b2(2), of "of_nat (length hdr) + of_nat (length msg)" tail] cc len by auto
  note steps = b1(1) b2(1) b3(1) assms(2-4) holds_string [OF b3(2)] cc
  show ?thesis
    using steps
    by (cases "shouts fmt")
      (simp_all add: log_helper_def hdr_def [symmetric] Let_def tail_def message_tail_def message_format_def log_line_def
        log_fprintf_def)
qed

lemma snprintf_length: "snprintf_at buffer off room t = Inr (r, buffer') \<Longrightarrow> length buffer' = length buffer"
  by (auto simp: snprintf_at_def Let_def split: if_splits)

lemma log_helper_overflows:
  assumes "length junk = MAX_LOG_MSG" and "log_outfp s = Some fp" and "log_prefix s = Some pre"
    and "vformat (message_format fmt) ap = Inr msg"
    and "MAX_LOG_MSG < length (log_header pre (last_component path) line func level @ msg)"
    and "length (log_header pre (last_component path) line func level @ msg) < 2 ^ 31"
  shows "log_helper strerror junk (Some path) line func level newline (Some fmt) ap s = Inl Out_Of_Range"
proof -
  define hdr where "hdr = log_header pre (last_component path) line func level"
  have len: "MAX_LOG_MSG < length hdr + length msg" "length hdr + length msg < 2 ^ 31"
    using assms(5,6) by (simp_all add: hdr_def)
  have small: "\<not> 2 ^ 31 \<le> length hdr" "\<not> 2 ^ 31 \<le> length msg" using len by simp_all
  have cc: "unat (of_nat (length hdr) :: u32) = length hdr"
      "unat (of_nat (length hdr) + of_nat (length msg) :: u32) = length hdr + length msg"
    using len by (simp_all add: unsigned_of_nat take_bit_nat_eq_self flip: of_nat_add)
  obtain b1 where b1: "snprintf_at junk 0 MAX_LOG_MSG hdr = Inr (int (length hdr), b1)" "buffer_holds b1 hdr"
    using snprintf_start [OF assms(1), of hdr] small by auto
  note head = b1(1) assms(2-4) cc
  show ?thesis
  proof (cases "MAX_LOG_MSG < length hdr")
    case True
    have "snprintf_at b1 (length hdr) (room_left (of_nat (length hdr))) msg = Inl Out_Of_Range"
      using snprintf_overflows [of b1 "of_nat (length hdr)" msg] b1(2) True cc by (simp add: buffer_holds_def)
    then show ?thesis
      using head
      by (cases "shouts fmt") (simp_all add: log_helper_def hdr_def [symmetric] Let_def message_format_def)
  next
    case False
    obtain b2 where b2: "snprintf_at b1 (length hdr) (room_left (of_nat (length hdr))) msg = Inr (int (length msg), b2)"
        "buffer_holds b2 (hdr @ msg)"
      using snprintf_append [OF b1(2), of "of_nat (length hdr)" msg] cc False small by auto
    have "snprintf_at b2 (length hdr + length msg) (room_left (of_nat (length hdr) + of_nat (length msg))) t =
        Inl Out_Of_Range" for t
      using snprintf_overflows [of b2 "of_nat (length hdr) + of_nat (length msg)" t] b2(2) len cc
      by (simp add: buffer_holds_def)
    then show ?thesis
      using head b2(1)
      by (cases "shouts fmt") (simp_all add: log_helper_def hdr_def [symmetric] Let_def message_format_def)
  qed
qed

text \<open>
  C26. An error message of the client library, exactly. When the header and the message take no more than the 8192
  characters of the buffer, one line is written to the stream: the header with the last component of the file name, the
  message, the text of \<^verbatim>\<open>errno\<close> when the format begins with an exclamation mark, and a newline, cut after 8191
  characters; \<^verbatim>\<open>errno\<close> and the rest of the logger are as before. When they take more, the code writes outside its
  buffer: the room that is left has wrapped around.
\<close>

theorem log_error_exact:
  assumes "length junk = MAX_LOG_MSG" and "log_outfp s = Some fp" and "log_prefix s = Some pre"
    and "vformat (message_format fmt) ap = Inr msg"
    and "length (log_header pre (last_component path) line func ''ERROR'' @ msg) < 2 ^ 31"
  shows "log_error_c strerror junk path line func fmt ap s =
    (if length (log_header pre (last_component path) line func ''ERROR'' @ msg) \<le> MAX_LOG_MSG
     then Inr (s\<lparr>log_output := log_output s @ [(fp, takeWhile (\<lambda>c. c \<noteq> CHR 0x00)
       (take 8191 (log_line strerror pre path line func ''ERROR'' fmt msg (log_errno s))))]\<rparr>)
     else Inl Out_Of_Range)"
  using log_helper_fits [OF assms(1-4)] log_helper_overflows [OF assms(1-4) _ assms(5)]
  by (simp add: log_error_c_def log_fprintf_def not_le)

definition sample_log :: log_state where
  "sample_log = \<lparr>log_once = True, log_prefix = Some ''libnorns'', log_outfp = Some 2, log_errno = 2, log_output = []\<rparr>"

lemma sample_component: "last_component ''lib/communication.c'' = ''communication.c''"
  by (simp add: last_component.simps [of "''lib/communication.c''"] last_component.simps [of "''communication.c''"] strrchr_def)

lemma sample_405: "print_int 405 = ''405''"
  by (simp add: print_int_def decimal_digits.simps [of 405] decimal_digits.simps [of 40] decimal_digits.simps [of 4])

theorem log_error_exact_witness:
  "log_error_c (\<lambda>_. ''No such file'') (replicate 8192 (CHR ''x'')) ''lib/communication.c'' 405 ''connect'' ''!connect'' [] sample_log =
     Inr (sample_log\<lparr>log_output := [(2, ''<libnorns>: [communication.c:405 connect()] ERROR: connect: No such file'' @ newline)]\<rparr>)"
  using log_error_exact [where s = sample_log and fp = 2 and pre = "''libnorns''" and junk = "replicate 8192 (CHR ''x'')"
      and fmt = "''!connect''" and ap = "[]" and msg = "''connect''" and path = "''lib/communication.c''" and line = 405
      and func = "''connect''" and strerror = "\<lambda>_. ''No such file''"]
  by (simp add: sample_log_def message_format_def shouts_def log_header_def sample_component sample_405 log_line_def
      message_tail_def newline_def)

text \<open>
  A configuration file whose name has 8192 characters or more overflows the buffer of a debug build that writes to the
  standard error, in the first message of the constructor.
\<close>

lemma long_config_name_overflows:
  assumes "length junk = MAX_LOG_MSG" and "log_outfp s = Some fp" and "log_prefix s = Some pre"
    and "MAX_LOG_MSG \<le> length name" and "length (log_header pre (last_component path) 75 func ''DEBUG'') + length name < 2 ^ 30"
  shows "DBG_macro True strerror junk path 75 func
    (''Loading configuration file '' @ [CHR 0x22] @ ''%s'' @ [CHR 0x22]) [VA_string name] s = Inl Out_Of_Range"
proof -
  have "vformat (message_format (''Loading configuration file '' @ [CHR 0x22] @ ''%s'' @ [CHR 0x22])) [VA_string name] =
      Inr (''Loading configuration file '' @ [CHR 0x22] @ name @ [CHR 0x22])"
    by (simp add: message_format_def shouts_def)
  from log_helper_overflows [OF assms(1-3) this, of path 75 func "''DEBUG''"] assms(4,5) show ?thesis
    by (simp add: DBG_macro_def log_debug_def)
qed

text \<open>
  Nothing is written before the library set its stream, nor in a debug build that was not told to write: there even a
  fatal message is lost, and only the exit status is left.
\<close>

lemma constructor_logging_stream:
  assumes "\<not> log_once s" and "log_outfp s = None"
  shows "\<exists>cfg. constructor_logging debug_build getenv strerror junk path func library s =
    Inr (cfg, log_init library
      (if debug_build \<and> getenv ''NORNS_DEBUG_OUTPUT_TO_STDERR'' = None then None else Some c_stderr) s)"
  using assms by (auto simp: constructor_logging_def DBG_macro_def log_debug_def log_helper_silent)

text \<open>
  The fatal messages of a library. In the usual build the constructor leaves a logger that writes a fatal message
  to the standard error and ends the process with status 1; a debug build does so only when
  \<^verbatim>\<open>NORNS_DEBUG_OUTPUT_TO_STDERR\<close> is set, and otherwise ends without a word. The messages the constructor itself
  has for the two variables are never seen, since they come before the stream is set.
\<close>

theorem fatal_message_seen:
  assumes "length junk = MAX_LOG_MSG" and "vformat (message_format fmt) ap = Inr msg"
    and "length (log_header library (last_component path) line func ''FATAL'' @ msg) \<le> MAX_LOG_MSG"
  shows "\<exists>cfg s. constructor_logging debug_build getenv strerror junk cpath cfunc library log_state_initial = Inr (cfg, s) \<and>
    log_output s = [] \<and>
    (\<exists>s'. log_fatal strerror junk path line func fmt ap s = Inr (1, s') \<and>
      log_output s' =
        (if debug_build \<and> getenv ''NORNS_DEBUG_OUTPUT_TO_STDERR'' = None then []
         else [(c_stderr, takeWhile (\<lambda>c. c \<noteq> CHR 0x00)
                 (take 8191 (log_line strerror library path line func ''FATAL'' fmt msg 0)))]))"
proof -
  obtain cfg where cfg: "constructor_logging debug_build getenv strerror junk cpath cfunc library log_state_initial =
      Inr (cfg, log_init library
        (if debug_build \<and> getenv ''NORNS_DEBUG_OUTPUT_TO_STDERR'' = None then None else Some c_stderr) log_state_initial)"
    using constructor_logging_stream [of log_state_initial debug_build getenv strerror junk cpath cfunc library]
    by (auto simp: log_state_initial_def)
  show ?thesis
  proof (cases "debug_build \<and> getenv ''NORNS_DEBUG_OUTPUT_TO_STDERR'' = None")
    case True
    then show ?thesis
      using cfg by (simp add: log_fatal_def log_init_def log_state_initial_def log_helper_silent)
  next
    case False
    let ?s = "log_init library (Some c_stderr) log_state_initial"
    have "log_outfp ?s = Some c_stderr" "log_prefix ?s = Some library" "log_errno ?s = 0" "log_output ?s = []"
      by (simp_all add: log_init_def log_state_initial_def)
    with log_helper_fits [OF assms(1) this(1,2) assms(2,3), of strerror] cfg False show ?thesis
      by (simp add: log_fatal_def log_fprintf_def)
  qed
qed

theorem fatal_message_seen_witness:
  "\<exists>cfg s s'. constructor_logging False (\<lambda>_. None) (\<lambda>_. ''Success'') (replicate 8192 (CHR ''x'')) ''libnorns.c'' ''libnorns_init''
       ''libnorns'' log_state_initial = Inr (cfg, s) \<and> log_output s = [] \<and>
     log_fatal (\<lambda>_. ''Success'') (replicate 8192 (CHR ''x'')) ''lib/communication.c'' 405 ''get_context'' ''no context'' [] s =
       Inr (1, s') \<and>
     log_output s' = [(c_stderr, ''<libnorns>: [communication.c:405 get_context()] FATAL: no context'' @ newline)]"
  using fatal_message_seen [where debug_build = False and getenv = "\<lambda>_. None" and strerror = "\<lambda>_. ''Success''"
      and library = "''libnorns''" and junk = "replicate 8192 (CHR ''x'')" and cpath = "''libnorns.c''"
      and cfunc = "''libnorns_init''" and fmt = "''no context''" and ap = "[]" and msg = "''no context''"
      and path = "''lib/communication.c''" and line = 405 and func = "''get_context''"]
  by (auto simp: message_format_def shouts_def log_header_def sample_component sample_405 log_line_def
      message_tail_def newline_def)

end
