(* ===== verification/Peer_Network.thy ===== *)
theory Peer_Network
  imports Daemon
begin

text \<open>
  Two daemons and the network between them: what can be observed of the two machines, what the operating system and the
  network library promise in these terms, and what follows for the parts of the code that both directions of a transfer
  share (the temporary file of the node that gets the data, the task of the node that is asked). The last section has a
  world in which all the promises hold.
\<close>

section \<open>What can be observed\<close>

text \<open>
  The node the data comes from: its files, and the files mapped at its addresses. The node it goes to: its files and
  directories, the files mapped at its addresses, its open descriptors. The network: the bytes an exposed region of the
  source shows, the file behind an exposed region of the destination, the answers sent so far, and the bulk transfers on
  their way, with the two regions and what the callback captured.
\<close>

record 'w snapshot =
  o_src_file :: "string \<Rightarrow> byte list option"
  o_src_map :: "int \<Rightarrow> string option"
  o_dst_file :: "string \<Rightarrow> byte list option"
  o_dst_dir :: "string \<Rightarrow> bool"
  o_dst_map :: "int \<Rightarrow> string option"
  o_dst_fd :: "int \<Rightarrow> string option"
  o_shows :: "exposed_memory \<Rightarrow> byte list option"
  o_backed :: "exposed_memory \<Rightarrow> string option"
  o_sent :: "rpc_handle \<Rightarrow> rpc_output option"
  o_stat :: "rpc_handle \<Rightarrow> stat_output option"
  o_pending :: "rpc_handle \<Rightarrow> (exposed_memory \<times> exposed_memory \<times> 'w completion) option"

section \<open>The promises\<close>

abbreviation EEXIST :: error_code where "EEXIST \<equiv> 17"

text \<open>The caller: the address of the peer is resolved.\<close>

definition resolves :: "('w, 'e) net_env_scheme \<Rightarrow> ('w \<Rightarrow> 'w snapshot) \<Rightarrow> string \<Rightarrow> nat \<Rightarrow> bool" where
  "resolves A V address ep \<longleftrightarrow> (\<forall>w. \<exists>w'. net_lookup A address w = (Some ep, w') \<and> V w' = V w)"

text \<open>
  The source \<open>S\<close>: a file that has bytes can be mapped for reading; a mapped file can be exposed, the region shows the
  bytes of the file, and the destination \<open>D\<close> learns how many they are.
\<close>

definition source_laws ::
  "('w, 'e) net_env_scheme \<Rightarrow> ('w, 'f) net_env_scheme \<Rightarrow> ('w \<Rightarrow> 'w snapshot) \<Rightarrow> bool" where
  "source_laws S D V \<longleftrightarrow>
     (\<forall>w path bs. o_src_file (V w) path = Some bs \<and> bs \<noteq> [] \<longrightarrow>
        (\<exists>addr w'. map_buffer S path False 0 w = (0, addr, of_nat (length bs), w') \<and>
           V w' = (V w)\<lparr>o_src_map := (o_src_map (V w))(addr \<mapsto> path)\<rparr>)) \<and>
     (\<forall>w addr path bs. o_src_map (V w) addr = Some path \<and> o_src_file (V w) path = Some bs \<longrightarrow>
        (\<exists>m w'. net_expose S addr (of_nat (length bs)) False w = (Some m, w') \<and>
           V w' = (V w)\<lparr>o_shows := (o_shows (V w))(m \<mapsto> bs)\<rparr> \<and>
           mem_count D (Some m) = 1 \<and> mem_size D (Some m) = of_nat (length bs)))"

text \<open>
  The destination's file system, where the mount point \<open>mount\<close> exists. Directories can be created; in a directory that
  exists, a file that does not can be created, empty, and one that exists cannot; a new file can be given a size, by
  either call; it can be mapped for writing. A pattern without a percent sign is its own unique path. Nothing else
  changes what can be observed.
\<close>

definition mount_laws :: "('w, 'f) net_env_scheme \<Rightarrow> ('w \<Rightarrow> 'w snapshot) \<Rightarrow> string \<Rightarrow> bool" where
  "mount_laws D V mount \<longleftrightarrow>
     (\<forall>w. bfs_exists D w mount = (0, True)) \<and>
     (\<forall>w dir. dir = [] \<or> po_eq (fs_path D) dir ''/'' \<longrightarrow> o_dst_dir (V w) (path_join D mount dir)) \<and>
     (\<forall>w dir. \<exists>w' ds. bfs_create_directories D (path_join D mount dir) w = (0, w') \<and>
        V w' = (V w)\<lparr>o_dst_dir := ds\<rparr> \<and> ds (path_join D mount dir)) \<and>
     (\<forall>w pat. CHR ''%'' \<notin> set pat \<longrightarrow> bfs_unique_path D pat w = (0, pat, w))"

definition creation_laws :: "('w, 'f) net_env_scheme \<Rightarrow> ('w \<Rightarrow> 'w snapshot) \<Rightarrow> string \<Rightarrow> bool" where
  "creation_laws D V mount \<longleftrightarrow>
     (\<forall>w name. o_dst_dir (V w) (path_join D mount (bfs_parent_path D name)) \<and>
        o_dst_file (V w) (path_join D mount name) = None \<longrightarrow>
        (\<exists>fd w'. sys_open D (path_join D mount name) O_creat_wronly_excl w = (fd, w') \<and> fd \<noteq> -1 \<and>
           V w' = (V w)\<lparr>o_dst_file := (o_dst_file (V w))(path_join D mount name \<mapsto> []),
                         o_dst_fd := (o_dst_fd (V w))(fd \<mapsto> path_join D mount name)\<rparr>)) \<and>
     (\<forall>w p bs. o_dst_file (V w) p = Some bs \<longrightarrow>
        (\<exists>w'. sys_open D p O_creat_wronly_excl w = (-1, w') \<and> sys_errno D w' = EEXIST \<and> V w' = V w)) \<and>
     (\<forall>w fd. V (snd (sys_close D fd w)) = V w)"

definition resizing :: "('w \<Rightarrow> 'w snapshot) \<Rightarrow> (int \<Rightarrow> int \<Rightarrow> 'w \<Rightarrow> int \<times> 'w) \<Rightarrow> bool" where
  "resizing V call \<longleftrightarrow>
     (\<forall>w fd p n. o_dst_fd (V w) fd = Some p \<and> 0 \<le> n \<longrightarrow>
        (\<exists>w'. call fd n w = (0, w') \<and> V w' = (V w)\<lparr>o_dst_file := (o_dst_file (V w))(p \<mapsto> replicate (nat n) 0)\<rparr>))"

definition maps_files :: "('w, 'f) net_env_scheme \<Rightarrow> ('w \<Rightarrow> 'w snapshot) \<Rightarrow> bool" where
  "maps_files D V \<longleftrightarrow>
     (\<forall>w p bs. o_dst_file (V w) p = Some bs \<and> bs \<noteq> [] \<longrightarrow>
        (\<exists>addr w'. map_buffer D p True 0 w = (0, addr, of_nat (length bs), w') \<and>
           V w' = (V w)\<lparr>o_dst_map := (o_dst_map (V w))(addr \<mapsto> p)\<rparr>))"

definition destination_files ::
  "('w, 'f) net_env_scheme \<Rightarrow> ('w \<Rightarrow> 'w snapshot) \<Rightarrow> string \<Rightarrow> bool" where
  "destination_files D V mount \<longleftrightarrow>
     mount_laws D V mount \<and> creation_laws D V mount \<and> resizing V (sys_fallocate D) \<and> resizing V (sys_ftruncate D) \<and>
     maps_files D V"

text \<open>
  The network. The destination can expose a mapped file, which then stands behind the region. A request can get a new
  handle, and an answer that is sent is seen. A bulk transfer is on its way until \<open>bulk\<close> happens to it, which it
  can; then the file behind the one region has the bytes the other region showed. Either end can start one.
\<close>

definition exposes_mapped :: "('w, 'f) net_env_scheme \<Rightarrow> ('w \<Rightarrow> 'w snapshot) \<Rightarrow> bool" where
  "exposes_mapped D V \<longleftrightarrow>
     (\<forall>w addr p sz. o_dst_map (V w) addr = Some p \<longrightarrow>
        (\<exists>m w'. net_expose D addr sz True w = (Some m, w') \<and> V w' = (V w)\<lparr>o_backed := (o_backed (V w))(m \<mapsto> p)\<rparr>))"

definition answers_requests :: "('w, 'f) net_env_scheme \<Rightarrow> ('w \<Rightarrow> 'w snapshot) \<Rightarrow> bool" where
  "answers_requests B V \<longleftrightarrow>
     (\<forall>w. \<exists>h. o_sent (V w) h = None \<and> o_stat (V w) h = None \<and> o_pending (V w) h = None) \<and>
     (\<forall>h. net_requires_response B h) \<and>
     (\<forall>w h out. V (net_respond B h out w) = (V w)\<lparr>o_sent := (o_sent (V w))(h \<mapsto> out)\<rparr>)"

definition bulk_moves :: "('w \<Rightarrow> 'w snapshot) \<Rightarrow> (rpc_handle \<Rightarrow> 'w \<Rightarrow> 'w \<Rightarrow> bool) \<Rightarrow> bool" where
  "bulk_moves V bulk \<longleftrightarrow>
     (\<forall>w h m m' c. o_pending (V w) h = Some (m, m', c) \<longrightarrow> (\<exists>w'. bulk h w w')) \<and>
     (\<forall>w w' h m m' c bs p. bulk h w w' \<and> o_pending (V w) h = Some (m, m', c) \<and> o_shows (V w) m = Some bs \<and>
        o_backed (V w) m' = Some p \<longrightarrow> V w' = (V w)\<lparr>o_dst_file := (o_dst_file (V w))(p \<mapsto> bs)\<rparr>)"

definition starts_pulls :: "('w, 'f) net_env_scheme \<Rightarrow> ('w \<Rightarrow> 'w snapshot) \<Rightarrow> bool" where
  "starts_pulls B V \<longleftrightarrow>
     (\<forall>w m m' h c. V (net_async_pull B (Some m) m' h c w) = (V w)\<lparr>o_pending := (o_pending (V w))(h \<mapsto> (m, m', c))\<rparr>)"

definition starts_pushes :: "('w, 'f) net_env_scheme \<Rightarrow> ('w \<Rightarrow> 'w snapshot) \<Rightarrow> bool" where
  "starts_pushes B V \<longleftrightarrow>
     (\<forall>w m m' h c. V (net_async_push B m (Some m') h c w) = (V w)\<lparr>o_pending := (o_pending (V w))(h \<mapsto> (m, m', c))\<rparr>)"

section \<open>The promises one by one\<close>

lemma source_exposed:
  assumes "source_laws S D V" and "o_src_file (V w) path = Some bs" and "bs \<noteq> []"
  obtains addr w1 m w2 where "map_buffer S path False 0 w = (0, addr, of_nat (length bs), w1)"
    "net_expose S addr (of_nat (length bs)) False w1 = (Some m, w2)"
    "V w2 = (V w)\<lparr>o_src_map := (o_src_map (V w))(addr \<mapsto> path), o_shows := (o_shows (V w))(m \<mapsto> bs)\<rparr>"
    "mem_count D (Some m) = 1" "mem_size D (Some m) = of_nat (length bs)"
proof -
  obtain addr w1 where w1: "map_buffer S path False 0 w = (0, addr, of_nat (length bs), w1)"
      "V w1 = (V w)\<lparr>o_src_map := (o_src_map (V w))(addr \<mapsto> path)\<rparr>"
    using assms unfolding source_laws_def by metis
  then have "o_src_map (V w1) addr = Some path" "o_src_file (V w1) path = Some bs" using assms(2) by simp_all
  then obtain m w2 where "net_expose S addr (of_nat (length bs)) False w1 = (Some m, w2)"
      "V w2 = (V w1)\<lparr>o_shows := (o_shows (V w1))(m \<mapsto> bs)\<rparr>"
      "mem_count D (Some m) = 1" "mem_size D (Some m) = of_nat (length bs)"
    using assms(1) unfolding source_laws_def by metis
  with w1 show thesis by (intro that) simp_all
qed

lemma file_created:
  assumes "destination_files D V mount" and "o_dst_dir (V w) (path_join D mount (bfs_parent_path D name))"
    and "o_dst_file (V w) (path_join D mount name) = None"
  obtains fd w' where "sys_open D (path_join D mount name) O_creat_wronly_excl w = (fd, w')" "fd \<noteq> -1"
    "V w' = (V w)\<lparr>o_dst_file := (o_dst_file (V w))(path_join D mount name \<mapsto> []),
                   o_dst_fd := (o_dst_fd (V w))(fd \<mapsto> path_join D mount name)\<rparr>"
  using assms unfolding destination_files_def creation_laws_def by metis

lemma file_exists:
  assumes "destination_files D V mount" and "o_dst_file (V w) p = Some bs"
  obtains w' where "sys_open D p O_creat_wronly_excl w = (-1, w')" "sys_errno D w' = EEXIST" "V w' = V w"
  using assms unfolding destination_files_def creation_laws_def by metis

lemma file_sized:
  assumes "destination_files D V mount" and "o_dst_fd (V w) fd = Some p" and "fd \<noteq> -1"
  obtains w' where "reallocate D fd sz 0 w = (0, w')"
    "V w' = (V w)\<lparr>o_dst_file := (o_dst_file (V w))(p \<mapsto> replicate (unat sz) 0)\<rparr>"
proof -
  have sized: "\<exists>w'. call fd (uint sz) w = (0, w') \<and> V w' = (V w)\<lparr>o_dst_file := (o_dst_file (V w))(p \<mapsto> replicate (unat sz) 0)\<rparr>"
    if "resizing V call" for call
    using that [unfolded resizing_def, rule_format, OF conjI [OF assms(2)], of "uint sz"] by simp
  show thesis
  proof (cases "have_fallocate D")
    case True
    with sized [of "sys_fallocate D"] assms(1,3) that show thesis by (auto simp: destination_files_def reallocate_def)
  next
    case False
    with sized [of "sys_ftruncate D"] assms(1,3) that show thesis by (auto simp: destination_files_def reallocate_def)
  qed
qed

lemma file_mapped:
  assumes "destination_files D V mount" and "o_dst_file (V w) p = Some bs" and "bs \<noteq> []"
  obtains addr w' where "map_buffer D p True 0 w = (0, addr, of_nat (length bs), w')"
    "V w' = (V w)\<lparr>o_dst_map := (o_dst_map (V w))(addr \<mapsto> p)\<rparr>"
  using assms unfolding destination_files_def maps_files_def by metis

lemma destination_exposes:
  assumes "exposes_mapped D V" and "o_dst_map (V w) addr = Some p"
  obtains m w' where "net_expose D addr sz True w = (Some m, w')" "V w' = (V w)\<lparr>o_backed := (o_backed (V w))(m \<mapsto> p)\<rparr>"
  using assms unfolding exposes_mapped_def by metis

lemma destination_mount:
  assumes "destination_files D V mount"
  shows "bfs_exists D w mount = (0, True)"
    and "dir = [] \<or> po_eq (fs_path D) dir ''/'' \<Longrightarrow> o_dst_dir (V w) (path_join D mount dir)"
    and "CHR ''%'' \<notin> set pat \<Longrightarrow> bfs_unique_path D pat w = (0, pat, w)" and "V (snd (sys_close D fd w)) = V w"
  using assms unfolding destination_files_def mount_laws_def creation_laws_def by metis+

lemma directories_created:
  assumes "destination_files D V mount"
  obtains w' ds where "bfs_create_directories D (path_join D mount dir) w = (0, w')" "V w' = (V w)\<lparr>o_dst_dir := ds\<rparr>"
    "ds (path_join D mount dir)"
  using assms unfolding destination_files_def mount_laws_def by metis

lemma answer_sent:
  assumes "answers_requests B V"
  shows "V (net_respond B h out w) = (V w)\<lparr>o_sent := (o_sent (V w))(h \<mapsto> out)\<rparr>" and "net_requires_response B h"
    and "\<exists>h. o_sent (V w) h = None \<and> o_stat (V w) h = None \<and> o_pending (V w) h = None"
  using assms unfolding answers_requests_def by metis+

lemma bulk_completes:
  assumes "bulk_moves V bulk" and "o_pending (V w) h = Some (m, m', c)"
  shows "\<exists>w'. bulk h w w'"
    and "bulk h w w' \<Longrightarrow> o_shows (V w) m = Some bs \<Longrightarrow> o_backed (V w) m' = Some p \<Longrightarrow>
      V w' = (V w)\<lparr>o_dst_file := (o_dst_file (V w))(p \<mapsto> bs)\<rparr>"
  using assms unfolding bulk_moves_def by metis+

section \<open>The file of the destination\<close>

lemma tempfile_reserved:
  assumes "destination_files D V mount" and "CHR ''%'' \<notin> set name"
    and "o_dst_dir (V w) (path_join D mount (bfs_parent_path D name))"
    and "o_dst_file (V w) (path_join D mount name) = None" and "sz \<noteq> 0"
  obtains fd w' where "temporary_file_create D name mount sz 0 w = (path_join D mount name, 0, w')"
    "V w' = (V w)\<lparr>o_dst_file := (o_dst_file (V w))(path_join D mount name \<mapsto> replicate (unat sz) 0),
                   o_dst_fd := (o_dst_fd (V w))(fd \<mapsto> path_join D mount name)\<rparr>"
proof -
  let ?p = "path_join D mount name"
  obtain fd w1 where w1: "sys_open D ?p O_creat_wronly_excl w = (fd, w1)" "fd \<noteq> -1"
      "V w1 = (V w)\<lparr>o_dst_file := (o_dst_file (V w))(?p \<mapsto> []), o_dst_fd := (o_dst_fd (V w))(fd \<mapsto> ?p)\<rparr>"
    by (rule file_created [OF assms(1,3,4)])
  then have "o_dst_fd (V w1) fd = Some ?p" by simp
  then obtain w2 where w2: "reallocate D fd sz 0 w1 = (0, w2)"
      "V w2 = (V w1)\<lparr>o_dst_file := (o_dst_file (V w1))(?p \<mapsto> replicate (unat sz) 0)\<rparr>"
    by (rule file_sized [OF assms(1) _ w1(2)])
  show thesis
    by (rule that [of "snd (sys_close D fd w2)" fd])
      (use w1 w2 assms(5) destination_mount [OF assms(1)] assms(2) in \<open>simp_all add: temporary_file_create_def Let_def\<close>)
qed

lemma tempfile_clashes:
  assumes "destination_files D V mount" and "CHR ''%'' \<notin> set name" and "o_dst_file (V w) (path_join D mount name) = Some old"
  obtains w' where "temporary_file_create D name mount sz 0 w = ([], EEXIST, w')" "V w' = V w"
proof -
  obtain w1 where "sys_open D (path_join D mount name) O_creat_wronly_excl w = (-1, w1)"
      "sys_errno D w1 = EEXIST" "V w1 = V w"
    by (rule file_exists [OF assms(1,3)])
  then show thesis
    using assms(2) destination_mount [OF assms(1)] by (intro that [of w1]) (simp_all add: temporary_file_create_def Let_def)
qed

text \<open>The steps both directions take: reserve the file, map it, expose it.\<close>

lemma destination_opened:
  assumes "destination_files D V mount" and "exposes_mapped D V" and "CHR ''%'' \<notin> set name"
    and "o_dst_dir (V w) (path_join D mount (bfs_parent_path D name))" and "o_dst_file (V w) (path_join D mount name) = None"
    and "n \<noteq> 0" and "n < 2 ^ 64"
  obtains w1 addr w2 m w3 where "temporary_file_create D name mount (of_nat n) 0 w = (path_join D mount name, 0, w1)"
    "map_buffer D (path_join D mount name) True 0 w1 = (0, addr, of_nat n, w2)"
    "net_expose D addr (of_nat n) True w2 = (Some m, w3)" "o_backed (V w3) m = Some (path_join D mount name)"
    "o_src_file (V w3) = o_src_file (V w)" "o_sent (V w3) = o_sent (V w)" "o_shows (V w3) = o_shows (V w)"
    "o_pending (V w3) = o_pending (V w)" "\<forall>q. q \<noteq> path_join D mount name \<longrightarrow> o_dst_file (V w3) q = o_dst_file (V w) q"
proof -
  let ?p = "path_join D mount name"
  have len: "unat (of_nat n :: u64) = n" using assms(7) by (simp add: unsigned_of_nat take_bit_nat_eq_self)
  then have "(of_nat n :: u64) \<noteq> 0" using assms(6) by (metis unsigned_0)
  then obtain fd w1 where w1: "temporary_file_create D name mount (of_nat n) 0 w = (?p, 0, w1)"
      "V w1 = (V w)\<lparr>o_dst_file := (o_dst_file (V w))(?p \<mapsto> replicate n 0), o_dst_fd := (o_dst_fd (V w))(fd \<mapsto> ?p)\<rparr>"
    using tempfile_reserved [OF assms(1,3,4,5), of "of_nat n"] len by metis
  then have "o_dst_file (V w1) ?p = Some (replicate n 0)" by simp
  then obtain addr w2 where w2: "map_buffer D ?p True 0 w1 = (0, addr, of_nat n, w2)"
      "V w2 = (V w1)\<lparr>o_dst_map := (o_dst_map (V w1))(addr \<mapsto> ?p)\<rparr>"
    using file_mapped [OF assms(1), of w1 ?p "replicate n 0"] assms(6) by (metis length_replicate length_0_conv)
  then have "o_dst_map (V w2) addr = Some ?p" by simp
  then obtain m w3 where w3: "net_expose D addr (of_nat n) True w2 = (Some m, w3)"
      "V w3 = (V w2)\<lparr>o_backed := (o_backed (V w2))(m \<mapsto> ?p)\<rparr>"
    by (rule destination_exposes [OF assms(2)])
  show thesis by (rule that [OF w1(1) w2(1) w3(1)]) (simp_all add: w3(2) w2(2) w1(2))
qed

lemma new_resource_ready:
  assumes "destination_files D V (backend_mount b)" and "lexical_normalize (fs_path D) name False = sub" and "sub \<noteq> []"
  obtains w' ds where "posix_new_resource D b (Local_path_info nsid name) False 0 w =
      Inr (Some (make_local_path_resource D w' b sub), 0, w')" "V w' = (V w)\<lparr>o_dst_dir := ds\<rparr>"
    "ds (path_join D (backend_mount b) (bfs_parent_path D sub))"
proof (cases "bfs_parent_path D sub = [] \<or> po_eq (fs_path D) (bfs_parent_path D sub) ''/''")
  case True
  then show thesis
    using assms destination_mount(2) [OF assms(1), of "bfs_parent_path D sub" w]
    by (intro that [of w "o_dst_dir (V w)"]) (auto simp: posix_new_resource_def Let_def)
next
  case False
  obtain w' ds where "bfs_create_directories D (path_join D (backend_mount b) (bfs_parent_path D sub)) w = (0, w')"
      "V w' = (V w)\<lparr>o_dst_dir := ds\<rparr>" "ds (path_join D (backend_mount b) (bfs_parent_path D sub))"
    by (rule directories_created [OF assms(1)])
  with False assms show thesis
    by (intro that [of w' ds]) (auto simp: posix_new_resource_def Let_def)
qed

section \<open>The task of the daemon that is asked\<close>

text \<open>
  \<^verbatim>\<open>push_resource_handler\<close> and \<^verbatim>\<open>pull_resource_handler\<close> create a task, run it, and answer when it failed.
\<close>

lemma run_remote_task_runs:
  assumes "um_find (m_task_info (m_task_mgr u)) (m_id_base (m_task_mgr u) + 1) = None"
    and "make_task_info B w (m_id_base (m_task_mgr u) + 1) IT_remote_transfer True credentials_default
      (Some sb) (Some sr) (Some db) (Some dr) (Some h) = Inr ti"
    and "transferor_get (m_transferor_registry (m_task_mgr u)) (rinfo_type dr, rinfo_type sr) = Some tx"
    and "tr_validate tx sr dr = Inr True"
    and "run_task B \<lparr>gt_type = IT_remote_transfer, gt_impl = Task_remote_transfer (length (m_heap (m_task_mgr u))) tx\<rparr> ti w =
      Inr (ti', w1)"
  obtains u1 where "run_remote_task B h sb (Some sr) db (Some dr) u w =
      Inr (u1, if ti_status ti' = TS_finished_with_error
               then net_respond B h (rpc_error (ti_task_error ti') (ti_sys_error ti')) w1 else w1)"
    "um_find (m_task_info (m_task_mgr u1)) (m_id_base (m_task_mgr u) + 1) = Some (length (m_heap (m_task_mgr u)))"
    "length (m_heap (m_task_mgr u1)) = Suc (length (m_heap (m_task_mgr u)))"
proof -
  define tm where "tm = m_task_mgr u"
  define tm1 where "tm1 = snd (register_task_info (m_id_base tm + 1) ti tm)"
  let ?n = "length (m_heap tm)"
  let ?t = "\<lparr>gt_type = IT_remote_transfer, gt_impl = Task_remote_transfer ?n tx\<rparr>"
  have created: "create_remote_initiated_task B w IT_remote_transfer credentials_default h (Some sb) (Some sr) (Some db) (Some dr) tm =
      Inr (UE_success, Some ?t, tm1)"
    using assms(1-4)
    by (simp add: create_remote_initiated_task_def tm_def tm1_def register_task_info_def select_transferor_def Let_def)
  have cell: "m_heap tm1 ! ?n = ti" by (simp add: tm1_def register_task_info_def)
  show thesis
  proof (rule that [of "u\<lparr>m_task_mgr := write_heap ?n ti' tm1\<rparr>"])
    show "run_remote_task B h sb (Some sr) db (Some dr) u w =
        Inr (u\<lparr>m_task_mgr := write_heap ?n ti' tm1\<rparr>, if ti_status ti' = TS_finished_with_error
               then net_respond B h (rpc_error (ti_task_error ti') (ti_sys_error ti')) w1 else w1)"
      using created cell assms(5)
      by (simp add: run_remote_task_def generic_task_info_def tm_def [symmetric] Let_def)
  qed (use assms(1) in \<open>simp_all add: write_heap_def tm1_def register_task_info_def tm_def\<close>)
qed

section \<open>Two machines in one world\<close>

text \<open>
  A world in which the promises hold, for examples: the files and mappings of both nodes, the answers and the transfers. An
  exposed region of the source is named by its size.
\<close>

record machines =
  k_src_file :: "string \<Rightarrow> byte list option"
  k_src_map :: "int \<Rightarrow> string option"
  k_dst_file :: "string \<Rightarrow> byte list option"
  k_dst_map :: "int \<Rightarrow> string option"
  k_dst_fd :: "int \<Rightarrow> string option"
  k_shows :: "exposed_memory \<Rightarrow> byte list option"
  k_backed :: "exposed_memory \<Rightarrow> string option"

datatype peer_world =
  PW machines "(rpc_handle \<times> rpc_output) list" "(rpc_handle \<times> stat_output) list"
    "(rpc_handle \<times> exposed_memory \<times> exposed_memory \<times> u32 \<times> bool \<times> string \<times> string \<times> peer_world) list"

fun pw_core :: "peer_world \<Rightarrow> machines" where
  "pw_core (PW k sent st ps) = k"

fun pw_update :: "(machines \<Rightarrow> machines) \<Rightarrow> peer_world \<Rightarrow> peer_world" where
  "pw_update f (PW k sent st ps) = PW (f k) sent st ps"

fun pw_view :: "peer_world \<Rightarrow> peer_world snapshot" where
  "pw_view (PW k sent st ps) =
     \<lparr>o_src_file = k_src_file k, o_src_map = k_src_map k, o_dst_file = k_dst_file k, o_dst_dir = (\<lambda>p. True),
      o_dst_map = k_dst_map k, o_dst_fd = k_dst_fd k, o_shows = k_shows k, o_backed = k_backed k, o_sent = map_of sent,
      o_stat = map_of st,
      o_pending = map_of (map (\<lambda>(h, m, m', tid, coll, tempfile, mount, start). (h, m, m',
        \<lparr>co_task = tid, co_is_collection = coll, co_tempfile = tempfile, co_mount = mount, co_start = start\<rparr>)) ps)\<rparr>"

fun pw_respond :: "rpc_handle \<Rightarrow> rpc_output \<Rightarrow> peer_world \<Rightarrow> peer_world" where
  "pw_respond h out (PW k sent st ps) = PW k ((h, out) # sent) st ps"

fun pw_respond_stat :: "rpc_handle \<Rightarrow> stat_output \<Rightarrow> peer_world \<Rightarrow> peer_world" where
  "pw_respond_stat h out (PW k sent st ps) = PW k sent ((h, out) # st) ps"

fun pw_start :: "exposed_memory \<Rightarrow> exposed_memory \<Rightarrow> rpc_handle \<Rightarrow> peer_world completion \<Rightarrow> peer_world \<Rightarrow> peer_world" where
  "pw_start m m' h c (PW k sent st ps) =
     PW k sent st ((h, m, m', co_task c, co_is_collection c, co_tempfile c, co_mount c, co_start c) # ps)"

definition pw_bulk :: "rpc_handle \<Rightarrow> peer_world \<Rightarrow> peer_world \<Rightarrow> bool" where
  "pw_bulk h w w' \<longleftrightarrow>
     w' = (case o_pending (pw_view w) h of
             None \<Rightarrow> w
           | Some (m, m', c) \<Rightarrow>
               (case (k_shows (pw_core w) m, k_backed (pw_core w) m') of
                  (Some bs, Some p) \<Rightarrow> pw_update (\<lambda>k. k\<lparr>k_dst_file := (k_dst_file k)(p \<mapsto> bs)\<rparr>) w
                | _ \<Rightarrow> w))"

definition pw_resize :: "int \<Rightarrow> int \<Rightarrow> peer_world \<Rightarrow> int \<times> peer_world" where
  "pw_resize fd n w =
     (case k_dst_fd (pw_core w) fd of
        None \<Rightarrow> (-1, w)
      | Some p \<Rightarrow> (0, pw_update (\<lambda>k. k\<lparr>k_dst_file := (k_dst_file k)(p \<mapsto> replicate (nat n) 0)\<rparr>) w))"

definition pw_open :: "string \<Rightarrow> open_mode \<Rightarrow> peer_world \<Rightarrow> int \<times> peer_world" where
  "pw_open p mode w =
     (if k_dst_file (pw_core w) p = None
      then (3, pw_update (\<lambda>k. k\<lparr>k_dst_file := (k_dst_file k)(p \<mapsto> []), k_dst_fd := (k_dst_fd k)(3 \<mapsto> p)\<rparr>) w)
      else (-1, w))"

definition pw_map :: "(machines \<Rightarrow> string \<Rightarrow> byte list option) \<Rightarrow> (string \<Rightarrow> machines \<Rightarrow> machines) \<Rightarrow> string \<Rightarrow> bool \<Rightarrow> error_code \<Rightarrow>
    peer_world \<Rightarrow> error_code \<times> int \<times> u64 \<times> peer_world" where
  "pw_map files put p writable ec w =
     (case files (pw_core w) p of
        Some bs \<Rightarrow> if bs = [] then (EINVAL, 0, 0, w) else (ec, 0, of_nat (length bs), pw_update (put p) w)
      | None \<Rightarrow> (ENOENT, 0, 0, w))"

definition pw_expose_src :: "int \<Rightarrow> u64 \<Rightarrow> bool \<Rightarrow> peer_world \<Rightarrow> exposed_memory option \<times> peer_world" where
  "pw_expose_src addr sz writable w =
     (case k_src_map (pw_core w) addr of
        None \<Rightarrow> (None, w)
      | Some p \<Rightarrow> (Some (unat sz), pw_update (\<lambda>k. k\<lparr>k_shows := (k_shows k)(unat sz := k_src_file k p)\<rparr>) w))"

definition pw_expose_dst :: "int \<Rightarrow> u64 \<Rightarrow> bool \<Rightarrow> peer_world \<Rightarrow> exposed_memory option \<times> peer_world" where
  "pw_expose_dst addr sz writable w =
     (Some 0, pw_update (\<lambda>k. k\<lparr>k_backed := (k_backed k)(0 := k_dst_map k addr)\<rparr>) w)"

text \<open>The two daemons' environments: the node with the file, and the node that gets it.\<close>

definition source_env :: "peer_world urd_env" where
  "source_env = quiet_urd_env
     \<lparr>bfs_relative := (\<lambda>w p base. ''a''), bfs_file_size := (\<lambda>w p. (0, of_nat (length (the (k_src_file (pw_core w) p))))),
      map_buffer := pw_map k_src_file (\<lambda>p k. k\<lparr>k_src_map := (k_src_map k)(0 \<mapsto> p)\<rparr>), net_expose := pw_expose_src,
      net_async_push := (\<lambda>m r. pw_start m (case r of None \<Rightarrow> 0 | Some m' \<Rightarrow> m')), net_respond := pw_respond,
      net_respond_stat := pw_respond_stat\<rparr>"

definition destination_env :: "peer_world urd_env" where
  "destination_env = quiet_urd_env
     \<lparr>bfs_is_directory := (\<lambda>w p. True), sys_errno := (\<lambda>w. EEXIST), sys_open := pw_open, sys_fallocate := pw_resize,
      sys_ftruncate := pw_resize,
      map_buffer := pw_map k_dst_file (\<lambda>p k. k\<lparr>k_dst_map := (k_dst_map k)(0 \<mapsto> p)\<rparr>), net_expose := pw_expose_dst,
      mem_size := (\<lambda>m. case m of None \<Rightarrow> 0 | Some n \<Rightarrow> of_nat n),
      net_async_pull := (\<lambda>r. pw_start (case r of None \<Rightarrow> 0 | Some m \<Rightarrow> m)), net_respond := pw_respond\<rparr>"

text \<open>The promises hold, also when the environments make calls of their own.\<close>

lemma pw_source_laws:
  assumes "map_buffer S = map_buffer source_env" and "net_expose S = net_expose source_env"
    and "mem_count D = mem_count destination_env" and "mem_size D = mem_size destination_env"
  shows "source_laws S D pw_view"
proof -
  have "\<exists>addr w'. pw_map k_src_file (\<lambda>p k. k\<lparr>k_src_map := (k_src_map k)(0 \<mapsto> p)\<rparr>) path False 0 w = (0, addr, of_nat (length bs), w') \<and>
      pw_view w' = (pw_view w)\<lparr>o_src_map := (o_src_map (pw_view w))(addr \<mapsto> path)\<rparr>"
    if "o_src_file (pw_view w) path = Some bs" "bs \<noteq> []" for w path bs
    using that by (cases w) (auto simp: pw_map_def)
  moreover have "\<exists>m w'. pw_expose_src addr (of_nat (length bs)) False w = (Some m, w') \<and>
      pw_view w' = (pw_view w)\<lparr>o_shows := (o_shows (pw_view w))(m \<mapsto> bs)\<rparr> \<and> (of_nat m :: u64) = of_nat (length bs)"
    if "o_src_map (pw_view w) addr = Some path" "o_src_file (pw_view w) path = Some bs" for w addr path bs
    using that by (cases w) (auto simp: pw_expose_src_def)
  ultimately show ?thesis
    by (simp add: source_laws_def assms source_env_def destination_env_def quiet_urd_env_def)
qed

lemma pw_creation:
  "o_dst_file (pw_view w) p = None \<Longrightarrow> \<exists>fd w'. pw_open p O_creat_wronly_excl w = (fd, w') \<and> fd \<noteq> -1 \<and>
     pw_view w' = (pw_view w)\<lparr>o_dst_file := (o_dst_file (pw_view w))(p \<mapsto> []), o_dst_fd := (o_dst_fd (pw_view w))(fd \<mapsto> p)\<rparr>"
  "o_dst_file (pw_view w) p = Some bs \<Longrightarrow> pw_open p O_creat_wronly_excl w = (-1, w)"
  by (cases w; auto simp: pw_open_def)+

lemma pw_resizing: "resizing pw_view pw_resize"
proof -
  have "\<exists>w'. pw_resize fd n w = (0, w') \<and>
      pw_view w' = (pw_view w)\<lparr>o_dst_file := (o_dst_file (pw_view w))(p \<mapsto> replicate (nat n) 0)\<rparr>"
    if "o_dst_fd (pw_view w) fd = Some p" for w fd p n
    using that by (cases w) (auto simp: pw_resize_def)
  then show ?thesis by (simp add: resizing_def)
qed

lemma pw_maps:
  "o_dst_file (pw_view w) p = Some bs \<Longrightarrow> bs \<noteq> [] \<Longrightarrow>
    \<exists>addr w'. pw_map k_dst_file (\<lambda>p k. k\<lparr>k_dst_map := (k_dst_map k)(0 \<mapsto> p)\<rparr>) p True 0 w = (0, addr, of_nat (length bs), w') \<and>
      pw_view w' = (pw_view w)\<lparr>o_dst_map := (o_dst_map (pw_view w))(addr \<mapsto> p)\<rparr>"
  by (cases w) (auto simp: pw_map_def)

lemma pw_destination_files: "destination_files destination_env pw_view mount"
proof -
  have "\<exists>ds. pw_view w = (pw_view w)\<lparr>o_dst_dir := ds\<rparr> \<and> ds p" for w p by (cases w) auto
  moreover have "o_dst_dir (pw_view w) p" for w p by (cases w) simp
  ultimately have "mount_laws destination_env pw_view mount" by (simp add: mount_laws_def destination_env_def quiet_urd_env_def)
  moreover have "creation_laws destination_env pw_view mount"
    using pw_creation by (simp add: creation_laws_def destination_env_def quiet_urd_env_def)
  moreover have "maps_files destination_env pw_view"
    using pw_maps by (simp add: maps_files_def destination_env_def)
  moreover have "sys_fallocate destination_env = pw_resize" "sys_ftruncate destination_env = pw_resize"
    by (simp_all add: destination_env_def)
  ultimately show ?thesis by (simp add: destination_files_def pw_resizing)
qed

lemma pw_exposes: "exposes_mapped destination_env pw_view"
proof -
  have "pw_view (snd (pw_expose_dst addr sz True w)) = (pw_view w)\<lparr>o_backed := (o_backed (pw_view w))(0 \<mapsto> p)\<rparr>"
    if "o_dst_map (pw_view w) addr = Some p" for w addr sz p
    using that by (cases w) (simp add: pw_expose_dst_def)
  then show ?thesis by (simp add: exposes_mapped_def destination_env_def pw_expose_dst_def)
qed

lemma pw_answers:
  assumes "net_respond B = pw_respond" and "net_requires_response B = (\<lambda>_. True)"
  shows "answers_requests B pw_view"
proof -
  have "\<exists>h. o_sent (pw_view w) h = None \<and> o_stat (pw_view w) h = None \<and> o_pending (pw_view w) h = None" for w
  proof (cases w)
    case (PW k sent st ps)
    obtain h where "h \<notin> fst ` set sent \<union> fst ` set st \<union> fst ` set ps"
      using ex_new_if_finite [of "fst ` set sent \<union> fst ` set st \<union> fst ` set ps"] by auto
    then show ?thesis using PW by (intro exI [of _ h]) (force simp: map_of_eq_None_iff)
  qed
  moreover have "pw_view (pw_respond h out w) = (pw_view w)\<lparr>o_sent := (o_sent (pw_view w))(h \<mapsto> out)\<rparr>" for h out w
    by (cases w) simp
  ultimately show ?thesis by (simp add: answers_requests_def assms)
qed

lemma pw_bulk_moves: "bulk_moves pw_view pw_bulk"
proof -
  have "pw_view w' = (pw_view w)\<lparr>o_dst_file := (o_dst_file (pw_view w))(p \<mapsto> bs)\<rparr>"
    if "pw_bulk h w w'" "o_pending (pw_view w) h = Some (m, m', c)" "o_shows (pw_view w) m = Some bs"
      "o_backed (pw_view w) m' = Some p" for w w' h m m' c bs p
    using that by (cases w) (simp add: pw_bulk_def)
  moreover have "\<exists>w'. pw_bulk h w w'" for h w by (simp add: pw_bulk_def)
  ultimately show ?thesis unfolding bulk_moves_def by metis
qed

lemma pw_starts: "pw_view (pw_start m m' h c w) = (pw_view w)\<lparr>o_pending := (o_pending (pw_view w))(h \<mapsto> (m, m', c))\<rparr>"
  by (cases w; cases c) simp

lemma short_path: "lexical_normalize boost_path_ops ''/a'' False = ''/a''"
proof -
  have es: "boost_elems ''/a'' = [''/'', ''a'']" by (simp add: boost_elems_def rooted_elems_def trailing_dot_def)
  have "\<not> po_eq boost_path_ops ''/a'' ''/''" by (simp add: boost_path_ops_def es boost_elems_root)
  from normalize_is_resolve [OF boost_path_laws _ this, of False] show ?thesis
    by (simp add: boost_path_ops_def es resolve_def resolve_step_def abs_path_def)
qed

definition source_backend :: backend where
  "source_backend = Posix_filesystem ''src'' False ''/src'' 0"

lemma source_found:
  assumes "fs_path S = boost_path_ops" and "bfs_canonical S = (\<lambda>w p. (0, p))" and "bfs_relative S = (\<lambda>w p base. ''a'')"
    and "bfs_is_directory S = (\<lambda>w p. False)"
  shows "get_resource S source_backend (Local_path_info ''src'' ''/a'') 0 w =
     Inr (Some (Local_path_resource source_backend ''/a'' (boost_append ''/src'' ''/a'') False), 0)"
proof -
  have es: "boost_elems ''/a'' = [''/'', ''a'']" by (simp add: boost_elems_def rooted_elems_def trailing_dot_def)
  have a: "boost_elems ''a'' = [''a'']" by (simp add: boost_elems_def rooted_elems_def trailing_dot_def)
  have dots: "boost_elems ''..'' = [''..'']" by (simp add: boost_elems_def rooted_elems_def trailing_dot_def)
  show ?thesis
    by (simp add: source_backend_def posix_get_resource_def assms short_path path_contains_def make_local_path_resource_def Let_def)
      (simp add: boost_path_ops_def boost_append_def es dots a boost_elems_root)
qed

definition two_nodes :: "byte list option \<Rightarrow> peer_world" where
  "two_nodes old = PW \<lparr>k_src_file = (\<lambda>_. Some [1, 2, 3]), k_src_map = Map.empty, k_dst_file = (\<lambda>_. old), k_dst_map = Map.empty,
     k_dst_fd = Map.empty, k_shows = Map.empty, k_backed = Map.empty\<rparr> [] [] []"

text \<open>A network that answers with some answer there is.\<close>

lemma some_answer:
  assumes "\<exists>out u' w'. P out u' w'"
  shows "\<exists>out u' w'. map_prod Some id (SOME (out, w'). \<exists>u'. P out u' w') = (Some out, w') \<and> P out u' w'"
proof -
  let ?S = "\<lambda>(out, w'). \<exists>u'. P out u' w'"
  have "?S (SOME x. ?S x)" using assms by (intro someI_ex [of ?S]) auto
  then show ?thesis by (cases "SOME x. ?S x") auto
qed

end
