(* ===== verification/Peer_Push.thy ===== *)
theory Peer_Push
  imports Peer_Network
begin

text \<open>
  A copy to another node. The initiator runs the copy of a local file to a remote one
  (\<^verbatim>\<open>src/io/transferors/local-path-to-remote-resource.cpp\<close>); its call of the procedure \<^verbatim>\<open>push_resource\<close> is answered by
  the handler of the target (\<^verbatim>\<open>src/urd.cpp\<close>), by the bulk transfer the handler starts and by the callback of that
  transfer. The answer of the target is a run of its transition system, so what is proved of every run of a daemon holds
  of it.
\<close>

section \<open>The answer of the target\<close>

text \<open>
  A request with a new handle is answered at once when the handler answers it, and otherwise by the callback, once the
  bulk transfer the handler started is complete.
\<close>

inductive push_served ::
  "('w, 'f) urd_env_scheme \<Rightarrow> ('w \<Rightarrow> 'w snapshot) \<Rightarrow> (rpc_handle \<Rightarrow> 'w \<Rightarrow> 'w \<Rightarrow> bool) \<Rightarrow> 'w urd \<Rightarrow> push_input \<Rightarrow> 'w \<Rightarrow>
     rpc_output \<Rightarrow> 'w urd \<Rightarrow> 'w \<Rightarrow> bool"
  for B :: "('w, 'f) urd_env_scheme" and V :: "'w \<Rightarrow> 'w snapshot" and bulk :: "rpc_handle \<Rightarrow> 'w \<Rightarrow> 'w \<Rightarrow> bool"
where
  At_once: "o_sent (V w) h = None \<Longrightarrow> o_pending (V w) h = None \<Longrightarrow>
    push_resource_handler B h args u w = Inr (u1, w1) \<Longrightarrow> o_sent (V w1) h = Some out \<Longrightarrow>
    push_served B V bulk u args w out u1 w1"
| By_callback: "o_sent (V w) h = None \<Longrightarrow> o_pending (V w) h = None \<Longrightarrow>
    push_resource_handler B h args u w = Inr (u1, w1) \<Longrightarrow> o_sent (V w1) h = None \<Longrightarrow>
    o_pending (V w1) h = Some (m, m', c) \<Longrightarrow> bulk h w1 w2 \<Longrightarrow>
    um_find (m_task_info (m_task_mgr u1)) (co_task c) = Some p \<Longrightarrow> p < length (m_heap (m_task_mgr u1)) \<Longrightarrow>
    push_completion_callback B c h (m_heap (m_task_mgr u1) ! p) w2 = Inr (ti, w3) \<Longrightarrow> o_sent (V w3) h = Some out \<Longrightarrow>
    push_served B V bulk u args w out (u1\<lparr>m_task_mgr := write_heap p ti (m_task_mgr u1)\<rparr>) w3"

text \<open>It is a run of the target.\<close>

lemma push_served_run: "push_served B V bulk u args w out u' w' \<Longrightarrow> (urd_step B)\<^sup>*\<^sup>* (u, w) (u', w')"
proof (induction rule: push_served.induct)
  case (At_once w h args u u1 w1 out)
  then show ?case by (intro r_into_rtranclp urd_step.Push)
next
  case (By_callback w h args u u1 w1 m m' c w2 p ti w3 out)
  have 1: "urd_step B (u, w) (u1, w1)" using By_callback by (intro urd_step.Push)
  have 2: "urd_step B (u1, w1) (u1, w2)" by (rule urd_step.Environment)
  have 3: "urd_step B (u1, w2) (u1\<lparr>m_task_mgr := write_heap p ti (m_task_mgr u1)\<rparr>, w3)"
    using By_callback by (intro urd_step.Push_Done)
  show ?case using 1 2 3 by (meson converse_rtranclp_into_rtranclp r_into_rtranclp)
qed

text \<open>The network delivers: a call that the target can answer returns with an answer of the target.\<close>

definition push_delivered ::
  "('w, 'e) net_env_scheme \<Rightarrow> ('w, 'f) urd_env_scheme \<Rightarrow> ('w \<Rightarrow> 'w snapshot) \<Rightarrow> (rpc_handle \<Rightarrow> 'w \<Rightarrow> 'w \<Rightarrow> bool) \<Rightarrow> 'w urd \<Rightarrow>
     nat \<Rightarrow> bool" where
  "push_delivered A B V bulk u ep \<longleftrightarrow>
     (\<forall>args w. (\<exists>out u' w'. push_served B V bulk u args w out u' w') \<longrightarrow>
        (\<exists>out u' w'. net_push A ep args w = (Some out, w') \<and> push_served B V bulk u args w out u' w'))"

section \<open>The target accepts a push\<close>

text \<open>
  The network at the target of a push. The bulk transfer is on its way: the region \<open>m\<close> of the peer into the new file
  \<open>p\<close>, for request \<open>h\<close> and task \<open>tid\<close>.
\<close>

definition target_network ::
  "('w, 'f) net_env_scheme \<Rightarrow> ('w \<Rightarrow> 'w snapshot) \<Rightarrow> (rpc_handle \<Rightarrow> 'w \<Rightarrow> 'w \<Rightarrow> bool) \<Rightarrow> bool" where
  "target_network B V bulk \<longleftrightarrow> exposes_mapped B V \<and> answers_requests B V \<and> starts_pulls B V \<and> bulk_moves V bulk"

definition bulk_started ::
  "('w \<Rightarrow> 'w snapshot) \<Rightarrow> 'w \<Rightarrow> 'w \<Rightarrow> rpc_handle \<Rightarrow> exposed_memory \<Rightarrow> string \<Rightarrow> u32 \<Rightarrow> bool" where
  "bulk_started V w w' h m p tid \<longleftrightarrow>
     o_src_file (V w') = o_src_file (V w) \<and> o_sent (V w') = o_sent (V w) \<and> o_shows (V w') = o_shows (V w) \<and>
     (\<forall>q. q \<noteq> p \<longrightarrow> o_dst_file (V w') q = o_dst_file (V w) q) \<and>
     (\<exists>m' c. o_pending (V w') h = Some (m, m', c) \<and> o_backed (V w') m' = Some p \<and>
        co_task c = tid \<and> \<not> co_is_collection c)"

lemma accept_starts:
  assumes "destination_files B V (backend_mount d_parent)" and "target_network B V bulk" and "ti_ctx ti = Some h"
    and "mem_count B (Some m) = 1" and "mem_size B (Some m) = of_nat (length bs)" and "bs \<noteq> []" and "length bs < 2 ^ 64"
    and "s_name \<noteq> []" and "CHR ''%'' \<notin> set d_name"
    and "o_dst_dir (V w) (path_join B (backend_mount d_parent) (bfs_parent_path B d_name))"
    and "o_dst_file (V w) (path_join B (backend_mount d_parent) d_name) = None"
  obtains w' where "local_path_to_remote_resource_accept B auth ti
      (Some (Remote_resource s_parent s_name address nsid (Some m) False))
      (Some (Local_path_resource d_parent d_name d_path d_coll)) w = Inr (0, ti, w')"
    "bulk_started V w w' h m (path_join B (backend_mount d_parent) d_name) (ti_id ti)"
proof -
  let ?p = "path_join B (backend_mount d_parent) d_name"
  have net: "exposes_mapped B V" "starts_pulls B V" using assms(2) by (simp_all add: target_network_def)
  have some: "length bs \<noteq> 0" using assms(6) by simp
  obtain w1 addr w2 m' w3 where d: "temporary_file_create B d_name (backend_mount d_parent) (of_nat (length bs)) 0 w = (?p, 0, w1)"
      "map_buffer B ?p True 0 w1 = (0, addr, of_nat (length bs), w2)"
      "net_expose B addr (of_nat (length bs)) True w2 = (Some m', w3)" "o_backed (V w3) m' = Some ?p"
      "o_src_file (V w3) = o_src_file (V w)" "o_sent (V w3) = o_sent (V w)" "o_shows (V w3) = o_shows (V w)"
      "\<forall>q. q \<noteq> ?p \<longrightarrow> o_dst_file (V w3) q = o_dst_file (V w) q"
    by (rule destination_opened [OF assms(1) net(1) assms(9-11) some assms(7)])
  define c where "c = \<lparr>co_task = ti_id ti, co_is_collection = False, co_tempfile = ?p, co_mount = backend_mount d_parent, co_start = w3\<rparr>"
  have "V (net_async_pull B (Some m) m' h c w3) = (V w3)\<lparr>o_pending := (o_pending (V w3))(h \<mapsto> (m, m', c))\<rparr>"
    using net(2) by (simp add: starts_pulls_def)
  then have "bulk_started V w (net_async_pull B (Some m) m' h c w3) h m ?p (ti_id ti)"
    using d(4-8) by (simp add: bulk_started_def) (simp add: c_def)
  moreover have "local_path_to_remote_resource_accept B auth ti (Some (Remote_resource s_parent s_name address nsid (Some m) False))
      (Some (Local_path_resource d_parent d_name d_path d_coll)) w = Inr (0, ti, net_async_pull B (Some m) m' h c w3)"
    using d(1-3) assms(3-5,8) by (simp add: local_path_to_remote_resource_accept_def any_cast_request_def c_def)
  ultimately show thesis by (rule that [rotated])
qed

lemma accept_clashes:
  assumes "destination_files B V (backend_mount d_parent)" and "ti_ctx ti = Some h" and "mem_count B (Some m) = 1"
    and "s_name \<noteq> []" and "CHR ''%'' \<notin> set d_name"
    and "o_dst_file (V w) (path_join B (backend_mount d_parent) d_name) = Some old"
  obtains w' where "local_path_to_remote_resource_accept B auth ti
      (Some (Remote_resource s_parent s_name address nsid (Some m) False))
      (Some (Local_path_resource d_parent d_name d_path d_coll)) w = Inr (EEXIST, ti, w')" "V w' = V w"
proof -
  obtain w1 where "temporary_file_create B d_name (backend_mount d_parent) (mem_size B (Some m)) 0 w = ([], EEXIST, w1)" "V w1 = V w"
    by (rule tempfile_clashes [OF assms(1,5,6)])
  then show thesis
    using assms(2-4)
    by (intro that [of w1])
      (simp_all add: local_path_to_remote_resource_accept_def any_cast_request_def temporary_file_destroy_def)
qed

text \<open>
  What the target is asked for, and the state it is asked in: not paused, with the namespace and the transferor in place, and
  the next task id free.
\<close>

definition push_request :: "push_input \<Rightarrow> string \<Rightarrow> string \<Rightarrow> exposed_memory \<Rightarrow> bool" where
  "push_request args nsid name m \<longleftrightarrow>
     pu_in_resource_name args \<noteq> [] \<and> \<not> pu_in_is_collection args \<and> pu_in_buffers args = Some m \<and> pu_out_nsid args = nsid \<and>
     pu_out_resource_type args = resource_type_index RT_local_posix_path \<and> pu_out_resource_name args = name"

definition target_ready :: "('w, 'f) urd_env_scheme \<Rightarrow> 'w urd \<Rightarrow> string \<Rightarrow> string \<Rightarrow> bool" where
  "target_ready B u nsid mount \<longleftrightarrow>
     \<not> m_is_paused u \<and>
     (\<exists>t q. namespace_find (m_namespace_mgr u) nsid False = Some (Posix_filesystem nsid t mount q)) \<and>
     transferor_get (m_transferor_registry (m_task_mgr u)) (RT_local_posix_path, RT_remote_resource) =
       Some (local_path_to_remote_resource_transferor B) \<and>
     um_find (m_task_info (m_task_mgr u)) (m_id_base (m_task_mgr u) + 1) = None"

text \<open>
  The handler: what the accepting side of the transferor returns for the new resource decides the answer.
\<close>

lemma push_handler_runs:
  assumes "target_ready B u nsid mount" and "push_request args nsid name m" and "destination_files B V mount"
    and "lexical_normalize (fs_path B) name False = sub" and "sub \<noteq> []"
    and "\<And>b w1 ds ti. backend_mount b = mount \<Longrightarrow> V w1 = (V w)\<lparr>o_dst_dir := ds\<rparr> \<Longrightarrow>
      ds (path_join B mount (bfs_parent_path B sub)) \<Longrightarrow> ti_ctx ti = Some h \<Longrightarrow> ti_id ti = m_id_base (m_task_mgr u) + 1 \<Longrightarrow>
      \<exists>w2. local_path_to_remote_resource_accept B credentials_default ti
        (Some (Remote_resource (Remote_backend (pu_in_nsid args)) (pu_in_resource_name args) (pu_in_address args) (pu_in_nsid args)
          (Some m) False)) (Some (make_local_path_resource B w1 b sub)) w1 = Inr (ec, ti, w2) \<and> Q w1 w2"
  obtains u1 w1 w2 ds where "V w1 = (V w)\<lparr>o_dst_dir := ds\<rparr>" "Q w1 w2"
    "push_resource_handler B h args u w =
      Inr (u1, if ec \<noteq> 0 then net_respond B h (rpc_error UE_system_error ec) w2 else w2)"
    "um_find (m_task_info (m_task_mgr u1)) (m_id_base (m_task_mgr u) + 1) = Some (length (m_heap (m_task_mgr u)))"
    "length (m_heap (m_task_mgr u1)) = Suc (length (m_heap (m_task_mgr u)))"
proof -
  obtain b t q where ns: "namespace_find (m_namespace_mgr u) nsid False = Some b" and b: "b = Posix_filesystem nsid t mount q"
    using assms(1) by (auto simp: target_ready_def)
  have mount: "backend_mount b = mount" using b by simp
  obtain w1 ds where w1: "posix_new_resource B b (Local_path_info nsid name) False 0 w =
      Inr (Some (make_local_path_resource B w1 b sub), 0, w1)" "V w1 = (V w)\<lparr>o_dst_dir := ds\<rparr>"
      "ds (path_join B mount (bfs_parent_path B sub))"
    by (rule new_resource_ready [of B V b, unfolded mount, OF assms(3-5)])
  define sr where "sr = Remote_resource_info (pu_in_address args) (pu_in_nsid args) False (pu_in_resource_name args) (Some m)"
  define dr where "dr = Local_path_info nsid name"
  obtain ti where made: "make_task_info B w (m_id_base (m_task_mgr u) + 1) IT_remote_transfer True credentials_default
      (Some (Remote_backend (pu_in_nsid args))) (Some sr) (Some b) (Some dr) (Some h) = Inr ti"
    by (simp add: make_task_info_def)
  then have ti: "ti_ctx (task_start ti) = Some h" "ti_id (task_start ti) = m_id_base (m_task_mgr u) + 1" "ti_is_remote ti"
      "ti_auth ti = credentials_default" "ti_src_backend ti = Some (Remote_backend (pu_in_nsid args))" "ti_dst_backend ti = Some b"
      "ti_src_rinfo ti = Some sr" "ti_dst_rinfo ti = Some dr"
    by (auto simp: make_task_info_def task_start_def update_status_def sr_def Let_def)
  obtain w2 where w2: "local_path_to_remote_resource_accept B credentials_default (task_start ti)
      (Some (Remote_resource (Remote_backend (pu_in_nsid args)) (pu_in_resource_name args) (pu_in_address args) (pu_in_nsid args)
        (Some m) False)) (Some (make_local_path_resource B w1 b sub)) w1 = Inr (ec, task_start ti, w2)" "Q w1 w2"
    using assms(6) [OF mount w1(2,3) ti(1,2)] by blast
  let ?tx = "local_path_to_remote_resource_transferor B"
  have run: "run_task B \<lparr>gt_type = IT_remote_transfer, gt_impl = Task_remote_transfer (length (m_heap (m_task_mgr u))) ?tx\<rparr> ti w =
      Inr (if ec \<noteq> 0 then log_error ec (task_start ti) else task_success ec (task_start ti), w2)"
    using w1(1) w2(1) ti(3-) b
    by (simp add: run_task_def remote_transfer_body_def local_path_to_remote_resource_transferor_def make_remote_resource_def
        task_start_def update_status_def sr_def dr_def)
  have free: "um_find (m_task_info (m_task_mgr u)) (m_id_base (m_task_mgr u) + 1) = None"
    and registered: "transferor_get (m_transferor_registry (m_task_mgr u)) (rinfo_type dr, rinfo_type sr) = Some ?tx"
    using assms(1) by (simp_all add: target_ready_def sr_def dr_def)
  obtain u1 where u1: "run_remote_task B h (Remote_backend (pu_in_nsid args)) (Some sr) b (Some dr) u w =
      Inr (u1, if ec \<noteq> 0 then net_respond B h (rpc_error UE_system_error ec) w2 else w2)"
    "um_find (m_task_info (m_task_mgr u1)) (m_id_base (m_task_mgr u) + 1) = Some (length (m_heap (m_task_mgr u)))"
    "length (m_heap (m_task_mgr u1)) = Suc (length (m_heap (m_task_mgr u)))"
    by (rule run_remote_task_runs [OF free made registered _ run])
      (auto simp: local_path_to_remote_resource_transferor_def log_error_def task_success_def update_status_error_def)
  have "push_resource_handler B h args u w = run_remote_task B h (Remote_backend (pu_in_nsid args)) (Some sr) b (Some dr) u w"
    using assms(1,2) ns
    by (simp add: push_resource_handler_def target_ready_def push_request_def push_create_rinfo_def rtype_of_index_def sr_def dr_def
        Let_def)
  with u1 w1(2) w2(2) show thesis by (intro that) simp_all
qed

section \<open>A push that succeeds\<close>

text \<open>A request the target can serve, with the bytes the peer shows and no file of that name yet.\<close>

definition push_ready ::
  "('w, 'f) urd_env_scheme \<Rightarrow> ('w \<Rightarrow> 'w snapshot) \<Rightarrow> 'w urd \<Rightarrow> push_input \<Rightarrow> string \<Rightarrow> string \<Rightarrow> string \<Rightarrow> string \<Rightarrow>
     exposed_memory \<Rightarrow> byte list \<Rightarrow> 'w \<Rightarrow> bool" where
  "push_ready B V u args nsid mount name sub m bs w \<longleftrightarrow>
     target_ready B u nsid mount \<and> push_request args nsid name m \<and> lexical_normalize (fs_path B) name False = sub \<and>
     sub \<noteq> [] \<and> CHR ''%'' \<notin> set sub \<and> mem_count B (Some m) = 1 \<and> mem_size B (Some m) = of_nat (length bs) \<and>
     bs \<noteq> [] \<and> length bs < 2 ^ 64 \<and> o_dst_file (V w) (path_join B mount sub) = None \<and> o_shows (V w) m = Some bs"

lemma ready_starts:
  assumes "destination_files B V mount" and "target_network B V bulk" and "push_ready B V u args nsid mount name sub m bs w"
  obtains u1 w1 where "push_resource_handler B h args u w = Inr (u1, w1)"
    "bulk_started V w w1 h m (path_join B mount sub) (m_id_base (m_task_mgr u) + 1)"
    "um_find (m_task_info (m_task_mgr u1)) (m_id_base (m_task_mgr u) + 1) = Some (length (m_heap (m_task_mgr u)))"
    "length (m_heap (m_task_mgr u1)) = Suc (length (m_heap (m_task_mgr u)))"
proof -
  let ?p = "path_join B mount sub" and ?tid = "m_id_base (m_task_mgr u) + 1"
  have r: "target_ready B u nsid mount" "push_request args nsid name m" "lexical_normalize (fs_path B) name False = sub"
      "sub \<noteq> []" "CHR ''%'' \<notin> set sub" "mem_count B (Some m) = 1" "mem_size B (Some m) = of_nat (length bs)"
      "bs \<noteq> []" "length bs < 2 ^ 64" "o_dst_file (V w) ?p = None"
    using assms(3) by (simp_all add: push_ready_def)
  have name: "pu_in_resource_name args \<noteq> []" using r(2) by (simp add: push_request_def)
  have accepts: "\<exists>w2. local_path_to_remote_resource_accept B credentials_default ti
        (Some (Remote_resource (Remote_backend (pu_in_nsid args)) (pu_in_resource_name args) (pu_in_address args) (pu_in_nsid args)
          (Some m) False)) (Some (make_local_path_resource B w1 b sub)) w1 = Inr (0, ti, w2) \<and> bulk_started V w1 w2 h m ?p ?tid"
    if "backend_mount b = mount" "V w1 = (V w)\<lparr>o_dst_dir := ds\<rparr>" "ds (path_join B mount (bfs_parent_path B sub))"
      "ti_ctx ti = Some h" "ti_id ti = ?tid" for b w1 ds ti
  proof -
    have d: "destination_files B V (backend_mount b)" "o_dst_dir (V w1) (path_join B (backend_mount b) (bfs_parent_path B sub))"
        "o_dst_file (V w1) (path_join B (backend_mount b) sub) = None"
      using that assms(1) r(10) by simp_all
    show ?thesis
      by (rule accept_starts [OF d(1) assms(2) that(4) r(6-9) name r(5) d(2,3)])
        (use that in \<open>auto simp: make_local_path_resource_def Let_def\<close>)
  qed
  show thesis
  proof (rule push_handler_runs [OF r(1,2) assms(1) r(3,4), where h = h and ec = 0 and
          Q = "\<lambda>w1 w2. bulk_started V w1 w2 h m ?p ?tid"])
  qed (erule accepts, assumption+, auto intro!: that simp: bulk_started_def)
qed

text \<open>Once the bytes are there, the callback answers success and the file stays.\<close>

lemma callback_answers:
  assumes "target_network B V bulk" and "\<not> co_is_collection c"
  obtains w' out where "push_completion_callback B c h ti w = Inr (clear_context ti, w')"
    "V w' = (V w)\<lparr>o_sent := (o_sent (V w))(h \<mapsto> out)\<rparr>" "ro_status out = task_status_index TS_finished"
    "ro_task_error out = encode_urd_error UE_success" "ro_sys_errnum out = 0"
proof -
  let ?out = "\<lparr>ro_status = task_status_index TS_finished, ro_task_error = encode_urd_error UE_success,
     ro_sys_errnum = 0, ro_elapsed_time = usecs_u32 B (co_start c) w\<rparr>"
  have net: "answers_requests B V" using assms(1) by (simp add: target_network_def)
  show thesis
    by (rule that [of "net_respond B h ?out w" ?out])
      (use assms answer_sent [OF net] in
        \<open>simp_all add: push_completion_callback_def Let_def temporary_file_release_def temporary_file_destroy_def\<close>)
qed

text \<open>There is an answer, and every answer reports success and comes with the bytes.\<close>

definition push_succeeds ::
  "('w \<Rightarrow> 'w snapshot) \<Rightarrow> 'w \<Rightarrow> 'w \<Rightarrow> rpc_output \<Rightarrow> string \<Rightarrow> byte list \<Rightarrow> bool" where
  "push_succeeds V w w' out p bs \<longleftrightarrow>
     ro_status out = task_status_index TS_finished \<and> ro_task_error out = encode_urd_error UE_success \<and> ro_sys_errnum out = 0 \<and>
     o_src_file (V w') = o_src_file (V w) \<and> o_dst_file (V w') = (o_dst_file (V w))(p \<mapsto> bs)"

lemma push_is_answered:
  assumes "destination_files B V mount" and "target_network B V bulk" and "push_ready B V u args nsid mount name sub m bs w"
  shows "\<exists>out u' w'. push_served B V bulk u args w out u' w'"
proof -
  let ?n = "length (m_heap (m_task_mgr u))"
  have net: "answers_requests B V" "bulk_moves V bulk" using assms(2) by (simp_all add: target_network_def)
  obtain h where h: "o_sent (V w) h = None" "o_pending (V w) h = None" using answer_sent(3) [OF net(1)] by blast
  obtain u1 w1 where u1: "push_resource_handler B h args u w = Inr (u1, w1)"
      "bulk_started V w w1 h m (path_join B mount sub) (m_id_base (m_task_mgr u) + 1)"
      "um_find (m_task_info (m_task_mgr u1)) (m_id_base (m_task_mgr u) + 1) = Some ?n"
      "length (m_heap (m_task_mgr u1)) = Suc ?n"
    by (rule ready_starts [OF assms])
  obtain m' c where c: "o_pending (V w1) h = Some (m, m', c)" "co_task c = m_id_base (m_task_mgr u) + 1" "\<not> co_is_collection c"
    using u1(2) by (auto simp: bulk_started_def)
  obtain w2 where w2: "bulk h w1 w2" using bulk_completes(1) [OF net(2) c(1)] by blast
  obtain w3 out where w3: "push_completion_callback B c h (m_heap (m_task_mgr u1) ! ?n) w2 =
      Inr (clear_context (m_heap (m_task_mgr u1) ! ?n), w3)" "V w3 = (V w2)\<lparr>o_sent := (o_sent (V w2))(h \<mapsto> out)\<rparr>"
    by (rule callback_answers [OF assms(2) c(3)])
  have quiet: "o_sent (V w1) h = None" using u1(2) h by (simp add: bulk_started_def)
  note served = push_served.By_callback [where B = B and V = V and bulk = bulk and h = h and w = w and args = args and u = u]
  show ?thesis
    using served [OF h u1(1) quiet c(1) w2 _ _ w3(1)] u1(3,4) c(2) w3(2) by auto
qed

lemma push_answers_succeed:
  assumes "destination_files B V mount" and "target_network B V bulk" and "push_ready B V u args nsid mount name sub m bs w"
    and "push_served B V bulk u args w out u' w'"
  shows "push_succeeds V w w' out (path_join B mount sub) bs"
  using assms(4)
proof cases
  case (At_once h)
  obtain u1 w1 where "push_resource_handler B h args u w = Inr (u1, w1)"
      "bulk_started V w w1 h m (path_join B mount sub) (m_id_base (m_task_mgr u) + 1)"
    by (rule ready_starts [OF assms(1-3)])
  with At_once have False by (simp add: bulk_started_def)
  then show ?thesis ..
next
  case (By_callback h u1 w1 m2 m' c w2 p ti)
  let ?p = "path_join B mount sub"
  have net: "bulk_moves V bulk" using assms(2) by (simp add: target_network_def)
  obtain u2 v1 where "push_resource_handler B h args u w = Inr (u2, v1)"
      "bulk_started V w v1 h m ?p (m_id_base (m_task_mgr u) + 1)"
    by (rule ready_starts [OF assms(1-3)])
  with By_callback have started: "bulk_started V w w1 h m ?p (m_id_base (m_task_mgr u) + 1)" by simp
  with By_callback have c: "o_pending (V w1) h = Some (m, m', c)" "o_backed (V w1) m' = Some ?p" "\<not> co_is_collection c"
    by (auto simp: bulk_started_def)
  have w2: "V w2 = (V w1)\<lparr>o_dst_file := (o_dst_file (V w1))(?p \<mapsto> bs)\<rparr>"
    using bulk_completes(2) [OF net c(1)] By_callback c(2) started assms(3) by (simp add: bulk_started_def push_ready_def)
  obtain v out' where "push_completion_callback B c h (m_heap (m_task_mgr u1) ! p) w2 =
      Inr (clear_context (m_heap (m_task_mgr u1) ! p), v)" "V v = (V w2)\<lparr>o_sent := (o_sent (V w2))(h \<mapsto> out')\<rparr>"
      "ro_status out' = task_status_index TS_finished" "ro_task_error out' = encode_urd_error UE_success" "ro_sys_errnum out' = 0"
    by (rule callback_answers [OF assms(2) c(3)])
  with By_callback w2 started show ?thesis
    by (auto simp: push_succeeds_def bulk_started_def fun_eq_iff)
qed

section \<open>A copy to another node\<close>

text \<open>
  The call the initiator makes: up to the answer, which is the answer of the target to its arguments.
\<close>

lemma initiator_calls:
  assumes "resolves A V address ep" and "source_laws A B V" and "o_src_file (V w) path = Some bs" and "bs \<noteq> []"
    and "s_name \<noteq> []"
    and "\<And>args m w1. push_request args nsid name m \<Longrightarrow> o_src_file (V w1) = o_src_file (V w) \<Longrightarrow>
      o_dst_file (V w1) = o_dst_file (V w) \<Longrightarrow> o_shows (V w1) m = Some bs \<Longrightarrow> mem_count B (Some m) = 1 \<Longrightarrow>
      mem_size B (Some m) = of_nat (length bs) \<Longrightarrow>
      \<exists>out w2. net_push A ep args w1 = (Some out, w2) \<and> P out w2"
  shows "\<exists>out w2. P out w2 \<and>
    local_path_to_remote_resource_transfer A auth ti (Some (Local_path_resource s_parent s_name path False))
      (Some (Remote_resource (Remote_backend nsid) name address d_nsid bufs coll)) w =
        Inr (if ro_status out = task_status_index TS_finished_with_error then (sint (ro_sys_errnum out), ti, w2)
             else (0, record_transfer (of_nat (length bs)) (dbl_of_u32 (ro_elapsed_time out)) ti, w2))"
proof -
  obtain w1 where w1: "net_lookup A address w = (Some ep, w1)" "V w1 = V w" using assms(1) by (auto simp: resolves_def)
  have "o_src_file (V w1) path = Some bs" using w1(2) assms(3) by simp
  then obtain addr w2 m w3 where e: "map_buffer A path False 0 w1 = (0, addr, of_nat (length bs), w2)"
      "net_expose A addr (of_nat (length bs)) False w2 = (Some m, w3)"
      "V w3 = (V w1)\<lparr>o_src_map := (o_src_map (V w1))(addr \<mapsto> path), o_shows := (o_shows (V w1))(m \<mapsto> bs)\<rparr>"
      "mem_count B (Some m) = 1" "mem_size B (Some m) = of_nat (length bs)"
    by (rule source_exposed [OF assms(2) _ assms(4)])
  define args where "args = \<lparr>pu_in_address = net_self_address A, pu_in_nsid = backend_nsid s_parent,
     pu_in_resource_name = s_name, pu_in_is_collection = False, pu_in_buffers = Some m, pu_out_nsid = nsid,
     pu_out_resource_type = resource_type_index RT_local_posix_path, pu_out_resource_name = name\<rparr>"
  obtain out w4 where call: "net_push A ep args w3 = (Some out, w4)" "P out w4"
    using assms(6) [of args m w3] assms(5) e(3-5) w1(2) by (auto simp: push_request_def args_def)
  show ?thesis
    by (intro exI [of _ out] exI [of _ w4] conjI call(2))
      (use w1(1) e(1,2) call(1) in \<open>simp add: local_path_to_remote_resource_transfer_def input_path_of_def post_push_def
        args_def temporary_file_destroy_def\<close>)
qed


section \<open>A destination that exists\<close>

definition push_clashes ::
  "('w, 'f) urd_env_scheme \<Rightarrow> ('w \<Rightarrow> 'w snapshot) \<Rightarrow> 'w urd \<Rightarrow> push_input \<Rightarrow> string \<Rightarrow> string \<Rightarrow> string \<Rightarrow> string \<Rightarrow>
     exposed_memory \<Rightarrow> byte list \<Rightarrow> 'w \<Rightarrow> bool" where
  "push_clashes B V u args nsid mount name sub m old w \<longleftrightarrow>
     target_ready B u nsid mount \<and> push_request args nsid name m \<and> lexical_normalize (fs_path B) name False = sub \<and>
     sub \<noteq> [] \<and> CHR ''%'' \<notin> set sub \<and> mem_count B (Some m) = 1 \<and> o_dst_file (V w) (path_join B mount sub) = Some old"

lemma handler_refuses:
  assumes "destination_files B V mount" and "target_network B V bulk" and "push_clashes B V u args nsid mount name sub m old w"
  obtains u1 w1 ds where "push_resource_handler B h args u w = Inr (u1, w1)"
    "V w1 = (V w)\<lparr>o_dst_dir := ds, o_sent := (o_sent (V w))(h \<mapsto> rpc_error UE_system_error EEXIST)\<rparr>"
proof -
  have r: "target_ready B u nsid mount" "push_request args nsid name m" "lexical_normalize (fs_path B) name False = sub"
      "sub \<noteq> []" "CHR ''%'' \<notin> set sub" "mem_count B (Some m) = 1" "o_dst_file (V w) (path_join B mount sub) = Some old"
    using assms(3) by (simp_all add: push_clashes_def)
  have name: "pu_in_resource_name args \<noteq> []" using r(2) by (simp add: push_request_def)
  have net: "answers_requests B V" using assms(2) by (simp add: target_network_def)
  have accepts: "\<exists>w2. local_path_to_remote_resource_accept B credentials_default ti
        (Some (Remote_resource (Remote_backend (pu_in_nsid args)) (pu_in_resource_name args) (pu_in_address args) (pu_in_nsid args)
          (Some m) False)) (Some (make_local_path_resource B w1 b sub)) w1 = Inr (EEXIST, ti, w2) \<and> V w2 = V w1"
    if "backend_mount b = mount" "V w1 = (V w)\<lparr>o_dst_dir := ds\<rparr>" "ti_ctx ti = Some h" for b w1 ds ti
  proof -
    have d: "destination_files B V (backend_mount b)" "o_dst_file (V w1) (path_join B (backend_mount b) sub) = Some old"
      using that assms(1) r(7) by simp_all
    show ?thesis
      by (rule accept_clashes [OF d(1) that(3) r(6) name r(5) d(2)])
        (use that in \<open>auto simp: make_local_path_resource_def Let_def\<close>)
  qed
  show thesis
  proof (rule push_handler_runs [OF r(1,2) assms(1) r(3,4), where h = h and ec = EEXIST and Q = "\<lambda>w1 w2. V w2 = V w1"])
  qed (erule accepts, assumption+, auto intro!: that simp: answer_sent [OF net])
qed

lemma clash_is_answered:
  assumes "destination_files B V mount" and "target_network B V bulk" and "push_clashes B V u args nsid mount name sub m old w"
  shows "\<exists>out u' w'. push_served B V bulk u args w out u' w'"
    and "push_served B V bulk u args w out u' w' \<Longrightarrow> out = rpc_error UE_system_error EEXIST \<and>
      o_src_file (V w') = o_src_file (V w) \<and> o_dst_file (V w') = o_dst_file (V w)"
proof -
  have net: "answers_requests B V" using assms(2) by (simp add: target_network_def)
  obtain h where h: "o_sent (V w) h = None" "o_pending (V w) h = None" using answer_sent(3) [OF net] by blast
  obtain u1 w1 ds where "push_resource_handler B h args u w = Inr (u1, w1)"
      "V w1 = (V w)\<lparr>o_dst_dir := ds, o_sent := (o_sent (V w))(h \<mapsto> rpc_error UE_system_error EEXIST)\<rparr>"
    by (rule handler_refuses [OF assms])
  with h have "push_served B V bulk u args w (rpc_error UE_system_error EEXIST) u1 w1"
    by (intro push_served.At_once [where h = h]) simp_all
  then show "\<exists>out u' w'. push_served B V bulk u args w out u' w'" by blast
next
  assume "push_served B V bulk u args w out u' w'"
  then obtain h u1 w1 where w1: "push_resource_handler B h args u w = Inr (u1, w1)"
      "o_sent (V w1) h = None \<or> o_sent (V w1) h = Some out \<and> w' = w1"
    by cases auto
  obtain v1 v ds where "push_resource_handler B h args u w = Inr (v1, v)"
      "V v = (V w)\<lparr>o_dst_dir := ds, o_sent := (o_sent (V w))(h \<mapsto> rpc_error UE_system_error EEXIST)\<rparr>"
    by (rule handler_refuses [OF assms])
  with w1 show "out = rpc_error UE_system_error EEXIST \<and>
      o_src_file (V w') = o_src_file (V w) \<and> o_dst_file (V w') = o_dst_file (V w)"
    by simp
qed

text \<open>
  When the target has a file of that name, the error travels back: the copy task of the initiator finishes with an error,
  and its system error is the target's \<^verbatim>\<open>EEXIST\<close>; no file of either node has changed.
\<close>

theorem push_clash_reported:
  assumes "resolves A V address ep" and "source_laws A B V" and "destination_files B V mount" and "target_network B V bulk"
    and "push_delivered A B V bulk u ep" and "target_ready B u nsid mount"
    and "ti_src_backend ti = Some src_backend" and "ti_src_rinfo ti = Some src_rinfo"
    and "get_resource A src_backend src_rinfo 0 w = Inr (Some (Local_path_resource s_parent s_name path False), 0)"
    and "s_name \<noteq> []" and "o_src_file (V w) path = Some bs" and "bs \<noteq> []"
    and "ti_dst_backend ti = Some (Remote_backend nsid)"
    and "ti_dst_rinfo ti = Some (Remote_resource_info address d_nsid coll name bufs)"
    and "lexical_normalize (fs_path B) name False = sub" and "sub \<noteq> []" and "CHR ''%'' \<notin> set sub"
    and "o_dst_file (V w) (path_join B mount sub) = Some old"
  shows "\<exists>ti' w'. run_task A \<lparr>gt_type = IT_copy, gt_impl = Task_copy p (local_path_to_remote_resource_transferor A)\<rparr> ti w =
        Inr (ti', w') \<and>
      ti_status ti' = TS_finished_with_error \<and> ti_task_error ti' = UE_system_error \<and> ti_sys_error ti' = EEXIST \<and>
      ti_sent_bytes ti' = ti_sent_bytes ti \<and> o_src_file (V w') = o_src_file (V w) \<and> o_dst_file (V w') = o_dst_file (V w)"
proof -
  let ?P = "\<lambda>out w'. out = rpc_error UE_system_error EEXIST \<and> o_src_file (V w') = o_src_file (V w) \<and>
      o_dst_file (V w') = o_dst_file (V w)"
  have call: "\<exists>out w2. net_push A ep args w1 = (Some out, w2) \<and> ?P out w2"
    if "push_request args nsid name m" "o_src_file (V w1) = o_src_file (V w)" "o_dst_file (V w1) = o_dst_file (V w)"
      "mem_count B (Some m) = 1" for args m w1
  proof -
    have clash: "push_clashes B V u args nsid mount name sub m old w1" using that assms by (simp add: push_clashes_def)
    obtain out u' w2 where served: "net_push A ep args w1 = (Some out, w2)" "push_served B V bulk u args w1 out u' w2"
      using assms(5) clash_is_answered(1) [OF assms(3,4) clash] unfolding push_delivered_def by blast
    from clash_is_answered(2) [OF assms(3,4) clash served(2)] served(1) that(2,3) show ?thesis by auto
  qed
  have "\<exists>out w'. ?P out w' \<and>
      local_path_to_remote_resource_transfer A (ti_auth ti) (task_start ti) (Some (Local_path_resource s_parent s_name path False))
        (Some (Remote_resource (Remote_backend nsid) name address d_nsid bufs coll)) w =
          Inr (if ro_status out = task_status_index TS_finished_with_error then (sint (ro_sys_errnum out), task_start ti, w')
               else (0, record_transfer (of_nat (length bs)) (dbl_of_u32 (ro_elapsed_time out)) (task_start ti), w'))"
    by (rule initiator_calls [OF assms(1,2,11,12,10), where P = ?P]) (rule call, assumption+)
  then obtain out w' where t: "?P out w'"
      "local_path_to_remote_resource_transfer A (ti_auth ti) (task_start ti) (Some (Local_path_resource s_parent s_name path False))
        (Some (Remote_resource (Remote_backend nsid) name address d_nsid bufs coll)) w =
          Inr (if ro_status out = task_status_index TS_finished_with_error then (sint (ro_sys_errnum out), task_start ti, w')
               else (0, record_transfer (of_nat (length bs)) (dbl_of_u32 (ro_elapsed_time out)) (task_start ti), w'))"
    by (elim exE conjE) blast
  then have "run_task A \<lparr>gt_type = IT_copy, gt_impl = Task_copy p (local_path_to_remote_resource_transferor A)\<rparr> ti w =
      Inr (log_error EEXIST (task_start ti), w')"
    using assms(7-9,13,14)
    by (simp add: run_task_def copy_body_def local_path_to_remote_resource_transferor_def make_remote_resource_def
        rpc_error_def task_start_def update_status_def)
  with t(1) show ?thesis by (simp add: log_error_def update_status_error_def task_start_def update_status_def)
qed

section \<open>An example\<close>

definition push_target :: "peer_world urd" where
  "push_target =
     \<lparr>m_is_paused = False, m_namespace_mgr = [(''tmp'', Posix_filesystem ''tmp'' False ''/mnt'' 0)], m_jobs = [],
      m_task_mgr = (task_manager_init 1 4 False 100)\<lparr>m_transferor_registry :=
        [((RT_local_posix_path, RT_remote_resource), local_path_to_remote_resource_transferor destination_env)]\<rparr>,
      m_factory = \<lparr>m_registrar = [], m_aliases = []\<rparr>, m_ipc_stopped = False\<rparr>"

text \<open>The network between them: some answer of the target, when there is one.\<close>

definition push_call :: "nat \<Rightarrow> push_input \<Rightarrow> peer_world \<Rightarrow> rpc_output option \<times> peer_world" where
  "push_call ep args w =
     (if \<exists>out u' w'. push_served destination_env pw_view pw_bulk push_target args w out u' w'
      then map_prod Some id (SOME (out, w'). \<exists>u'. push_served destination_env pw_view pw_bulk push_target args w out u' w')
      else (None, w))"

definition push_initiator :: "peer_world urd_env" where
  "push_initiator = source_env\<lparr>net_push := push_call\<rparr>"

definition push_task :: task_info where
  "push_task = sample_task_info\<lparr>ti_src_backend := Some source_backend, ti_src_rinfo := Some (Local_path_info ''src'' ''/a''),
     ti_dst_backend := Some (Remote_backend ''tmp''),
     ti_dst_rinfo := Some (Remote_resource_info ''host'' ''tmp'' False ''/a'' None)\<rparr>"

lemma push_example_delivered: "push_delivered push_initiator destination_env pw_view pw_bulk push_target 0"
  unfolding push_delivered_def
proof (intro allI impI)
  fix args w
  assume ex: "\<exists>out u' w'. push_served destination_env pw_view pw_bulk push_target args w out u' w'"
  show "\<exists>out u' w'. net_push push_initiator 0 args w = (Some out, w') \<and>
      push_served destination_env pw_view pw_bulk push_target args w out u' w'"
    using some_answer [of "push_served destination_env pw_view pw_bulk push_target args w", OF ex] ex
    by (simp add: push_initiator_def push_call_def)
qed

lemma push_example:
  shows "resolves push_initiator pw_view ''host'' 0" and "source_laws push_initiator destination_env pw_view"
    and "target_network destination_env pw_view pw_bulk" and "target_ready destination_env push_target ''tmp'' ''/mnt''"
    and "get_resource push_initiator source_backend (Local_path_info ''src'' ''/a'') 0 w =
      Inr (Some (Local_path_resource source_backend ''/a'' (boost_append ''/src'' ''/a'') False), 0)"
    and "lexical_normalize (fs_path destination_env) ''/a'' False = ''/a''"
proof -
  show "resolves push_initiator pw_view ''host'' 0"
    by (simp add: resolves_def push_initiator_def source_env_def quiet_urd_env_def)
  show "source_laws push_initiator destination_env pw_view" by (rule pw_source_laws) (simp_all add: push_initiator_def)
  have "answers_requests destination_env pw_view" by (rule pw_answers) (simp_all add: destination_env_def quiet_urd_env_def)
  moreover have "starts_pulls destination_env pw_view" by (simp add: starts_pulls_def destination_env_def pw_starts)
  ultimately show "target_network destination_env pw_view pw_bulk"
    by (simp add: target_network_def pw_exposes pw_bulk_moves)
  show "target_ready destination_env push_target ''tmp'' ''/mnt''"
    by (auto simp: target_ready_def push_target_def namespace_find_def task_manager_init_def)
  show "get_resource push_initiator source_backend (Local_path_info ''src'' ''/a'') 0 w =
      Inr (Some (Local_path_resource source_backend ''/a'' (boost_append ''/src'' ''/a'') False), 0)"
    by (rule source_found) (simp_all add: push_initiator_def source_env_def quiet_urd_env_def)
  show "lexical_normalize (fs_path destination_env) ''/a'' False = ''/a''"
    by (simp add: destination_env_def quiet_urd_env_def short_path)
qed


theorem push_clash_reported_witness:
  "\<exists>ti' w'. run_task push_initiator
      \<lparr>gt_type = IT_copy, gt_impl = Task_copy 0 (local_path_to_remote_resource_transferor push_initiator)\<rparr> push_task
      (two_nodes (Some [9])) = Inr (ti', w') \<and>
    ti_status ti' = TS_finished_with_error \<and> ti_sys_error ti' = EEXIST"
proof -
  have "\<exists>ti' w'. run_task push_initiator
      \<lparr>gt_type = IT_copy, gt_impl = Task_copy 0 (local_path_to_remote_resource_transferor push_initiator)\<rparr> push_task
      (two_nodes (Some [9])) = Inr (ti', w') \<and>
    ti_status ti' = TS_finished_with_error \<and> ti_task_error ti' = UE_system_error \<and> ti_sys_error ti' = EEXIST \<and>
    ti_sent_bytes ti' = ti_sent_bytes push_task \<and>
    o_src_file (pw_view w') = o_src_file (pw_view (two_nodes (Some [9]))) \<and>
    o_dst_file (pw_view w') = o_dst_file (pw_view (two_nodes (Some [9])))"
    by (rule push_clash_reported [OF push_example(1,2) pw_destination_files push_example(3) push_example_delivered push_example(4)
          _ _ push_example(5) _ _ _ _ _ push_example(6), where d_nsid = "''tmp''" and coll = False and bufs = None and
          bs = "[1, 2, 3]" and old = "[9]"])
      (simp_all add: push_task_def two_nodes_def)
  then show ?thesis by auto
qed

end
