(* ===== verification/Peer_Pull.thy ===== *)
theory Peer_Pull
  imports Peer_Network
begin

text \<open>
  A copy from another node. The initiator runs the copy of a remote file to a local one
  (\<^verbatim>\<open>src/io/transferors/remote-resource-to-local-path.cpp\<close>): it asks the peer for the size of the file
  (\<^verbatim>\<open>stat_resource\<close>), reserves and exposes a file of that size, and asks for the bytes (\<^verbatim>\<open>pull_resource\<close>). Both calls are
  answered by the handlers of the peer (\<^verbatim>\<open>src/urd.cpp\<close>), the second one by the callback of the bulk transfer. What the
  peer does is a run of its transition system.
\<close>

section \<open>The answers of the peer\<close>

definition stat_served ::
  "('w, 'f) urd_env_scheme \<Rightarrow> ('w \<Rightarrow> 'w snapshot) \<Rightarrow> 'w urd \<Rightarrow> stat_input \<Rightarrow> 'w \<Rightarrow> stat_output \<Rightarrow> 'w urd \<Rightarrow> 'w \<Rightarrow> bool" where
  "stat_served B V u args w out u' w' \<longleftrightarrow>
     (\<exists>h. o_stat (V w) h = None \<and> stat_resource_handler B h args u w = Inr (u', w') \<and> o_stat (V w') h = Some out)"

inductive pull_served ::
  "('w, 'f) urd_env_scheme \<Rightarrow> ('w \<Rightarrow> 'w snapshot) \<Rightarrow> (rpc_handle \<Rightarrow> 'w \<Rightarrow> 'w \<Rightarrow> bool) \<Rightarrow> 'w urd \<Rightarrow> pull_input \<Rightarrow> 'w \<Rightarrow>
     rpc_output \<Rightarrow> 'w urd \<Rightarrow> 'w \<Rightarrow> bool"
  for B :: "('w, 'f) urd_env_scheme" and V :: "'w \<Rightarrow> 'w snapshot" and bulk :: "rpc_handle \<Rightarrow> 'w \<Rightarrow> 'w \<Rightarrow> bool"
where
  At_once: "o_sent (V w) h = None \<Longrightarrow> o_pending (V w) h = None \<Longrightarrow>
    pull_resource_handler B h args u w = Inr (u1, w1) \<Longrightarrow> o_sent (V w1) h = Some out \<Longrightarrow>
    pull_served B V bulk u args w out u1 w1"
| By_callback: "o_sent (V w) h = None \<Longrightarrow> o_pending (V w) h = None \<Longrightarrow>
    pull_resource_handler B h args u w = Inr (u1, w1) \<Longrightarrow> o_sent (V w1) h = None \<Longrightarrow>
    o_pending (V w1) h = Some (m, m', c) \<Longrightarrow> bulk h w1 w2 \<Longrightarrow>
    um_find (m_task_info (m_task_mgr u1)) (co_task c) = Some p \<Longrightarrow> p < length (m_heap (m_task_mgr u1)) \<Longrightarrow>
    pull_completion_callback B c h (m_heap (m_task_mgr u1) ! p) w2 = (ti, w3) \<Longrightarrow> o_sent (V w3) h = Some out \<Longrightarrow>
    pull_served B V bulk u args w out (u1\<lparr>m_task_mgr := write_heap p ti (m_task_mgr u1)\<rparr>) w3"

text \<open>They are steps and runs of the peer.\<close>

lemma stat_served_step: "stat_served B V u args w out u' w' \<Longrightarrow> urd_step B (u, w) (u', w')"
  by (auto simp: stat_served_def intro: urd_step.Stat)

lemma pull_served_run: "pull_served B V bulk u args w out u' w' \<Longrightarrow> (urd_step B)\<^sup>*\<^sup>* (u, w) (u', w')"
proof (induction rule: pull_served.induct)
  case (At_once w h args u u1 w1 out)
  then show ?case by (intro r_into_rtranclp urd_step.Pull)
next
  case (By_callback w h args u u1 w1 m m' c w2 p ti w3 out)
  have 1: "urd_step B (u, w) (u1, w1)" using By_callback by (intro urd_step.Pull)
  have 2: "urd_step B (u1, w1) (u1, w2)" by (rule urd_step.Environment)
  have 3: "urd_step B (u1, w2) (u1\<lparr>m_task_mgr := write_heap p ti (m_task_mgr u1)\<rparr>, w3)"
    using By_callback by (intro urd_step.Pull_Done)
  show ?case using 1 2 3 by (meson converse_rtranclp_into_rtranclp r_into_rtranclp)
qed

text \<open>The network delivers calls that the peer can answer.\<close>

definition pull_delivered ::
  "('w, 'e) net_env_scheme \<Rightarrow> ('w, 'f) urd_env_scheme \<Rightarrow> ('w \<Rightarrow> 'w snapshot) \<Rightarrow> (rpc_handle \<Rightarrow> 'w \<Rightarrow> 'w \<Rightarrow> bool) \<Rightarrow> 'w urd \<Rightarrow>
     nat \<Rightarrow> bool" where
  "pull_delivered A B V bulk u ep \<longleftrightarrow>
     (\<forall>args w. (\<exists>out u' w'. stat_served B V u args w out u' w') \<longrightarrow>
        (\<exists>out u' w'. net_stat A ep args w = (Some out, w') \<and> stat_served B V u args w out u' w')) \<and>
     (\<forall>args w. (\<exists>out u' w'. pull_served B V bulk u args w out u' w') \<longrightarrow>
        (\<exists>out u' w'. net_pull A ep args w = (Some out, w') \<and> pull_served B V bulk u args w out u' w'))"

section \<open>The peer serves a file\<close>

text \<open>The network at the peer, the state of the peer, and the file: the name resolves to it, and its size is known.\<close>

definition peer_network ::
  "('w, 'f) urd_env_scheme \<Rightarrow> ('w \<Rightarrow> 'w snapshot) \<Rightarrow> (rpc_handle \<Rightarrow> 'w \<Rightarrow> 'w \<Rightarrow> bool) \<Rightarrow> bool" where
  "peer_network B V bulk \<longleftrightarrow>
     answers_requests B V \<and> starts_pushes B V \<and> bulk_moves V bulk \<and>
     (\<forall>w h out. V (net_respond_stat B h out w) = (V w)\<lparr>o_stat := (o_stat (V w))(h \<mapsto> out)\<rparr>)"

definition peer_ready :: "('w, 'f) urd_env_scheme \<Rightarrow> 'w urd \<Rightarrow> string \<Rightarrow> backend \<Rightarrow> bool" where
  "peer_ready B u nsid b \<longleftrightarrow>
     \<not> m_is_paused u \<and> namespace_find (m_namespace_mgr u) nsid False = Some b \<and>
     transferor_get (m_transferor_registry (m_task_mgr u)) (RT_remote_resource, RT_local_posix_path) =
       Some (remote_resource_to_local_path_transferor B) \<and>
     um_find (m_task_info (m_task_mgr u)) (m_id_base (m_task_mgr u) + 1) = None"

definition offers ::
  "('w, 'f) urd_env_scheme \<Rightarrow> ('w \<Rightarrow> 'w snapshot) \<Rightarrow> backend \<Rightarrow> string \<Rightarrow> string \<Rightarrow> string \<Rightarrow> byte list \<Rightarrow> bool" where
  "offers B V b nsid name path bs \<longleftrightarrow>
     (\<forall>w. o_src_file (V w) path = Some bs \<longrightarrow>
        (\<exists>s_name. get_resource B b (Local_path_info nsid name) 0 w = Inr (Some (Local_path_resource b s_name path False), 0)) \<and>
        (\<exists>sz ec. get_size B b (Local_path_info nsid name) 0 w = Inr (sz, ec)) \<and>
        bfs_file_size B w path = (0, of_nat (length bs)))"

lemma offersD:
  assumes "offers B V b nsid name path bs" and "o_src_file (V w) path = Some bs"
  obtains s_name sz ec where "get_resource B b (Local_path_info nsid name) 0 w = Inr (Some (Local_path_resource b s_name path False), 0)"
    "get_size B b (Local_path_info nsid name) 0 w = Inr (sz, ec)" "bfs_file_size B w path = (0, of_nat (length bs))"
  using assms unfolding offers_def by metis

text \<open>The size: there is an answer, and every answer reports it.\<close>

definition stat_request :: "stat_input \<Rightarrow> string \<Rightarrow> string \<Rightarrow> bool" where
  "stat_request args nsid name \<longleftrightarrow>
     si_nsid args = nsid \<and> si_resource_type args = resource_type_index RT_local_posix_path \<and> si_resource_name args = name"

lemma stat_handler_answers:
  assumes "peer_ready B u nsid b" and "offers B V b nsid name path bs" and "o_src_file (V w) path = Some bs"
    and "stat_request args nsid name"
  shows "stat_resource_handler B h args u w = Inr (u, net_respond_stat B h
     \<lparr>so_task_error = encode_urd_error UE_success, so_sys_errnum = 0, so_is_collection = False,
      so_packed_size = of_nat (length bs)\<rparr> w)"
proof -
  obtain s_name where "get_resource B b (Local_path_info nsid name) 0 w = Inr (Some (Local_path_resource b s_name path False), 0)"
      "bfs_file_size B w path = (0, of_nat (length bs))"
    by (rule offersD [OF assms(2,3)])
  then show ?thesis
    using assms(1,4) by (simp add: stat_resource_handler_def stat_existing_def peer_ready_def stat_request_def rtype_of_index_def)
qed

lemma stat_is_answered:
  assumes "peer_ready B u nsid b" and "peer_network B V bulk" and "offers B V b nsid name path bs"
    and "o_src_file (V w) path = Some bs" and "stat_request args nsid name"
  shows "\<exists>out u' w'. stat_served B V u args w out u' w'"
    and "stat_served B V u args w out u' w' \<Longrightarrow> u' = u \<and> so_task_error out = encode_urd_error UE_success \<and>
      \<not> so_is_collection out \<and> so_packed_size out = of_nat (length bs) \<and> (\<exists>st. V w' = (V w)\<lparr>o_stat := st\<rparr>)"
proof -
  have net: "answers_requests B V" "V (net_respond_stat B h out w) = (V w)\<lparr>o_stat := (o_stat (V w))(h \<mapsto> out)\<rparr>" for h out w
    using assms(2) by (simp_all add: peer_network_def)
  note handler = stat_handler_answers [OF assms(1,3,4,5)]
  obtain h where "o_stat (V w) h = None" using answer_sent(3) [OF net(1)] by blast
  then show "\<exists>out u' w'. stat_served B V u args w out u' w'" unfolding stat_served_def handler by (auto simp: net(2))
  show "stat_served B V u args w out u' w' \<Longrightarrow> u' = u \<and> so_task_error out = encode_urd_error UE_success \<and>
      \<not> so_is_collection out \<and> so_packed_size out = of_nat (length bs) \<and> (\<exists>st. V w' = (V w)\<lparr>o_stat := st\<rparr>)"
    unfolding stat_served_def handler by (auto simp: net(2))
qed

text \<open>
  The bytes. The bulk transfer is on its way: a region that shows the bytes of the file into the region \<open>m'\<close> of the
  peer.
\<close>

definition bulk_offered ::
  "('w \<Rightarrow> 'w snapshot) \<Rightarrow> 'w \<Rightarrow> 'w \<Rightarrow> rpc_handle \<Rightarrow> exposed_memory \<Rightarrow> byte list \<Rightarrow> u32 \<Rightarrow> bool" where
  "bulk_offered V w w' h m' bs tid \<longleftrightarrow>
     o_src_file (V w') = o_src_file (V w) \<and> o_dst_file (V w') = o_dst_file (V w) \<and> o_sent (V w') = o_sent (V w) \<and>
     o_backed (V w') = o_backed (V w) \<and>
     (\<exists>m c. o_pending (V w') h = Some (m, m', c) \<and> o_shows (V w') m = Some bs \<and> co_task c = tid \<and> co_tempfile c = [])"

lemma accept_offers:
  assumes "source_laws B A V" and "starts_pushes B V" and "o_src_file (V w) path = Some bs" and "bs \<noteq> []" and "ti_ctx ti = Some h"
  obtains w' where "remote_resource_to_local_path_accept B auth ti (Some (Local_path_resource b s_name path False))
      (Some (Remote_resource d_parent d_name address nsid (Some m') coll)) w = Inr (0, ti, w')"
    "bulk_offered V w w' h m' bs (ti_id ti)"
proof -
  obtain addr w1 m w2 where e: "map_buffer B path False 0 w = (0, addr, of_nat (length bs), w1)"
      "net_expose B addr (of_nat (length bs)) False w1 = (Some m, w2)"
      "V w2 = (V w)\<lparr>o_src_map := (o_src_map (V w))(addr \<mapsto> path), o_shows := (o_shows (V w))(m \<mapsto> bs)\<rparr>"
    by (rule source_exposed [OF assms(1,3,4)])
  define c where "c = \<lparr>co_task = ti_id ti, co_is_collection = False, co_tempfile = [], co_mount = [], co_start = w2\<rparr>"
  have "V (net_async_push B m (Some m') h c w2) = (V w2)\<lparr>o_pending := (o_pending (V w2))(h \<mapsto> (m, m', c))\<rparr>"
    using assms(2) by (simp add: starts_pushes_def)
  then have "bulk_offered V w (net_async_push B m (Some m') h c w2) h m' bs (ti_id ti)"
    using e(3) by (simp add: bulk_offered_def) (simp add: c_def)
  moreover have "remote_resource_to_local_path_accept B auth ti (Some (Local_path_resource b s_name path False))
      (Some (Remote_resource d_parent d_name address nsid (Some m') coll)) w = Inr (0, ti, net_async_push B m (Some m') h c w2)"
    using e(1,2) assms(5)
    by (simp add: remote_resource_to_local_path_accept_def input_path_of_def any_cast_request_def c_def)
  ultimately show thesis by (rule that [rotated])
qed

definition pull_request :: "pull_input \<Rightarrow> string \<Rightarrow> string \<Rightarrow> exposed_memory \<Rightarrow> bool" where
  "pull_request args nsid name m' \<longleftrightarrow>
     pl_in_nsid args = nsid \<and> pl_in_resource_name args = name \<and>
     pl_in_resource_type args = resource_type_index RT_local_posix_path \<and> pl_out_buffers args = Some m'"

lemma pull_handler_starts:
  assumes "peer_ready B u nsid b" and "peer_network B V bulk" and "source_laws B A V" and "offers B V b nsid name path bs"
    and "o_src_file (V w) path = Some bs" and "bs \<noteq> []" and "pull_request args nsid name m'"
  obtains u1 w1 where "pull_resource_handler B h args u w = Inr (u1, w1)"
    "bulk_offered V w w1 h m' bs (m_id_base (m_task_mgr u) + 1)"
    "um_find (m_task_info (m_task_mgr u1)) (m_id_base (m_task_mgr u) + 1) = Some (length (m_heap (m_task_mgr u)))"
    "length (m_heap (m_task_mgr u1)) = Suc (length (m_heap (m_task_mgr u)))"
proof -
  define sr where "sr = Local_path_info nsid name"
  define dr where "dr = Remote_resource_info (pl_out_address args) (pl_out_nsid args) False (pl_out_resource_name args) (Some m')"
  let ?db = "Remote_backend (pl_out_nsid args)" and ?tx = "remote_resource_to_local_path_transferor B"
  let ?tid = "m_id_base (m_task_mgr u) + 1"
  obtain s_name sz ec where src: "get_resource B b sr 0 w = Inr (Some (Local_path_resource b s_name path False), 0)"
      "get_size B b sr 0 w = Inr (sz, ec)"
    unfolding sr_def by (rule offersD [OF assms(4,5)])
  obtain ti where made: "make_task_info B w ?tid IT_remote_transfer True credentials_default (Some b) (Some sr) (Some ?db) (Some dr)
      (Some h) = Inr ti"
    using src(2) by (simp add: make_task_info_def)
  then have ti: "ti_ctx (task_start ti) = Some h" "ti_id (task_start ti) = ?tid" "ti_is_remote ti"
      "ti_auth ti = credentials_default" "ti_src_backend ti = Some b" "ti_dst_backend ti = Some ?db"
      "ti_src_rinfo ti = Some sr" "ti_dst_rinfo ti = Some dr"
    using src(2) by (auto simp: make_task_info_def task_start_def update_status_def Let_def)
  have net: "starts_pushes B V" using assms(2) by (simp add: peer_network_def)
  obtain w1 where w1: "remote_resource_to_local_path_accept B credentials_default (task_start ti)
      (Some (Local_path_resource b s_name path False))
      (Some (Remote_resource ?db (pl_out_resource_name args) (pl_out_address args) (pl_out_nsid args) (Some m') False)) w =
        Inr (0, task_start ti, w1)" "bulk_offered V w w1 h m' bs (ti_id (task_start ti))"
    by (rule accept_offers [OF assms(3) net assms(5,6) ti(1)])
  have run: "run_task B \<lparr>gt_type = IT_remote_transfer, gt_impl = Task_remote_transfer (length (m_heap (m_task_mgr u))) ?tx\<rparr> ti w =
      Inr (task_success 0 (task_start ti), w1)"
    using src(1) w1(1) ti(3-)
    by (simp add: run_task_def remote_transfer_body_def remote_resource_to_local_path_transferor_def make_remote_resource_def
        task_start_def update_status_def sr_def dr_def)
  have free: "um_find (m_task_info (m_task_mgr u)) ?tid = None"
    and registered: "transferor_get (m_transferor_registry (m_task_mgr u)) (rinfo_type dr, rinfo_type sr) = Some ?tx"
    using assms(1) by (simp_all add: peer_ready_def sr_def dr_def)
  obtain u1 where u1: "run_remote_task B h b (Some sr) ?db (Some dr) u w = Inr (u1, w1)"
    "um_find (m_task_info (m_task_mgr u1)) ?tid = Some (length (m_heap (m_task_mgr u)))"
    "length (m_heap (m_task_mgr u1)) = Suc (length (m_heap (m_task_mgr u)))"
    by (rule run_remote_task_runs [OF free made registered _ run])
      (auto simp: remote_resource_to_local_path_transferor_def task_success_def update_status_error_def)
  have "pull_resource_handler B h args u w = run_remote_task B h b (Some sr) ?db (Some dr) u w"
    using assms(1,7)
    by (simp add: pull_resource_handler_def peer_ready_def pull_request_def pull_create_rinfo_def rtype_of_index_def sr_def dr_def
        Let_def)
  with u1 w1(2) ti(2) show thesis by (intro that [of u1 w1]) simp_all
qed

lemma pull_callback_answers:
  assumes "answers_requests B V" and "co_tempfile c = []"
  obtains w' out where "pull_completion_callback B c h ti w = (clear_context ti, w')"
    "V w' = (V w)\<lparr>o_sent := (o_sent (V w))(h \<mapsto> out)\<rparr>" "ro_status out = task_status_index TS_finished"
proof -
  let ?out = "\<lparr>ro_status = task_status_index TS_finished, ro_task_error = encode_urd_error UE_success,
     ro_sys_errnum = 0, ro_elapsed_time = usecs_u32 B (co_start c) w\<rparr>"
  show thesis
    by (rule that [of "net_respond B h ?out w" ?out])
      (use assms answer_sent [OF assms(1)] in \<open>simp_all add: pull_completion_callback_def Let_def temporary_file_destroy_def\<close>)
qed

text \<open>There is an answer, and every answer comes with the bytes.\<close>

lemma pull_is_answered:
  assumes "peer_ready B u nsid b" and "peer_network B V bulk" and "source_laws B A V" and "offers B V b nsid name path bs"
    and "o_src_file (V w) path = Some bs" and "bs \<noteq> []" and "pull_request args nsid name m'"
  shows "\<exists>out u' w'. pull_served B V bulk u args w out u' w'"
proof -
  let ?n = "length (m_heap (m_task_mgr u))"
  have net: "answers_requests B V" "bulk_moves V bulk" using assms(2) by (simp_all add: peer_network_def)
  obtain h where h: "o_sent (V w) h = None" "o_pending (V w) h = None" using answer_sent(3) [OF net(1)] by blast
  obtain u1 w1 where u1: "pull_resource_handler B h args u w = Inr (u1, w1)"
      "bulk_offered V w w1 h m' bs (m_id_base (m_task_mgr u) + 1)"
      "um_find (m_task_info (m_task_mgr u1)) (m_id_base (m_task_mgr u) + 1) = Some ?n"
      "length (m_heap (m_task_mgr u1)) = Suc ?n"
    by (rule pull_handler_starts [OF assms])
  obtain m c where c: "o_pending (V w1) h = Some (m, m', c)" "co_task c = m_id_base (m_task_mgr u) + 1" "co_tempfile c = []"
    using u1(2) by (auto simp: bulk_offered_def)
  obtain w2 where w2: "bulk h w1 w2" using bulk_completes(1) [OF net(2) c(1)] by blast
  obtain w3 out where w3: "pull_completion_callback B c h (m_heap (m_task_mgr u1) ! ?n) w2 =
      (clear_context (m_heap (m_task_mgr u1) ! ?n), w3)" "V w3 = (V w2)\<lparr>o_sent := (o_sent (V w2))(h \<mapsto> out)\<rparr>"
    by (rule pull_callback_answers [OF net(1) c(3)])
  have quiet: "o_sent (V w1) h = None" using u1(2) h by (simp add: bulk_offered_def)
  note served = pull_served.By_callback [where B = B and V = V and bulk = bulk and h = h and w = w and args = args and u = u]
  show ?thesis
    using served [OF h u1(1) quiet c(1) w2 _ _ w3(1)] u1(3,4) c(2) w3(2) by auto
qed

lemma pull_answers_succeed:
  assumes "peer_ready B u nsid b" and "peer_network B V bulk" and "source_laws B A V" and "offers B V b nsid name path bs"
    and "o_src_file (V w) path = Some bs" and "bs \<noteq> []" and "pull_request args nsid name m'"
    and "o_backed (V w) m' = Some p" and "pull_served B V bulk u args w out u' w'"
  shows "ro_status out = task_status_index TS_finished \<and> o_src_file (V w') = o_src_file (V w) \<and>
    o_dst_file (V w') = (o_dst_file (V w))(p \<mapsto> bs)"
  using assms(9)
proof cases
  case (At_once h)
  obtain u1 w1 where "pull_resource_handler B h args u w = Inr (u1, w1)"
      "bulk_offered V w w1 h m' bs (m_id_base (m_task_mgr u) + 1)"
    by (rule pull_handler_starts [OF assms(1-7)])
  with At_once have False by (simp add: bulk_offered_def)
  then show ?thesis ..
next
  case (By_callback h u1 w1 m m2 c w2 q ti)
  have net: "answers_requests B V" "bulk_moves V bulk" using assms(2) by (simp_all add: peer_network_def)
  obtain u2 v1 where "pull_resource_handler B h args u w = Inr (u2, v1)"
      "bulk_offered V w v1 h m' bs (m_id_base (m_task_mgr u) + 1)"
    by (rule pull_handler_starts [OF assms(1-7)])
  with By_callback have offered: "bulk_offered V w w1 h m' bs (m_id_base (m_task_mgr u) + 1)" by simp
  with By_callback have c: "o_pending (V w1) h = Some (m, m', c)" "o_shows (V w1) m = Some bs" "co_tempfile c = []"
    by (auto simp: bulk_offered_def)
  have w2: "V w2 = (V w1)\<lparr>o_dst_file := (o_dst_file (V w1))(p \<mapsto> bs)\<rparr>"
    using bulk_completes(2) [OF net(2) c(1)] By_callback c(2) offered assms(8) by (simp add: bulk_offered_def)
  obtain v out' where "pull_completion_callback B c h (m_heap (m_task_mgr u1) ! q) w2 =
      (clear_context (m_heap (m_task_mgr u1) ! q), v)" "V v = (V w2)\<lparr>o_sent := (o_sent (V w2))(h \<mapsto> out')\<rparr>"
      "ro_status out' = task_status_index TS_finished"
    by (rule pull_callback_answers [OF net(1) c(3)])
  with By_callback w2 offered show ?thesis by (auto simp: bulk_offered_def)
qed

section \<open>A copy from another node\<close>

lemma pull_transfer_succeeds:
  assumes "resolves A V address ep" and "destination_files A V (backend_mount d_parent)" and "exposes_mapped A V"
    and "peer_ready B u nsid b" and "peer_network B V bulk" and "source_laws B A V" and "offers B V b nsid name path bs"
    and "pull_delivered A B V bulk u ep" and "o_src_file (V w) path = Some bs" and "bs \<noteq> []" and "length bs < 2 ^ 64"
    and "CHR ''%'' \<notin> set sub" and "o_dst_dir (V w) (path_join A (backend_mount d_parent) (bfs_parent_path A sub))"
    and "o_dst_file (V w) (path_join A (backend_mount d_parent) sub) = None"
  shows "\<exists>usecs w0 u' w'. remote_resource_to_local_path_transfer A auth ti
      (Some (Remote_resource (Remote_backend nsid) name address s_nsid bufs coll))
      (Some (Local_path_resource d_parent sub d_path d_coll)) w = Inr (0, record_transfer (of_nat (length bs)) usecs ti, w') \<and>
    o_src_file (V w') = o_src_file (V w) \<and>
    o_dst_file (V w') = (o_dst_file (V w))(path_join A (backend_mount d_parent) sub \<mapsto> bs) \<and>
    (urd_step B)\<^sup>*\<^sup>* (u, w0) (u', w')"
proof -
  let ?p = "path_join A (backend_mount d_parent) sub"
  obtain w1 where w1: "net_lookup A address w = (Some ep, w1)" "V w1 = V w" using assms(1) by (auto simp: resolves_def)
  define sargs where "sargs = \<lparr>si_address = net_self_address A, si_nsid = nsid,
     si_resource_type = resource_type_index RT_local_posix_path, si_resource_name = name\<rparr>"
  have st: "o_src_file (V w1) path = Some bs" "stat_request sargs nsid name"
    using w1(2) assms(9) by (simp_all add: stat_request_def sargs_def)
  obtain resp u1 w2 where w2: "net_stat A ep sargs w1 = (Some resp, w2)" "stat_served B V u sargs w1 resp u1 w2"
    using assms(8) stat_is_answered(1) [OF assms(4,5,7) st] unfolding pull_delivered_def by blast
  obtain so where resp: "so_task_error resp = encode_urd_error UE_success" "\<not> so_is_collection resp"
      "so_packed_size resp = of_nat (length bs)" "V w2 = (V w)\<lparr>o_stat := so\<rparr>"
    using stat_is_answered(2) [OF assms(4,5,7) st w2(2)] w1(2) by auto
  have d: "o_dst_dir (V w2) (path_join A (backend_mount d_parent) (bfs_parent_path A sub))" "o_dst_file (V w2) ?p = None"
      "length bs \<noteq> 0" using resp(4) assms(10,13,14) by simp_all
  obtain w3 addr w4 m' w5 where o: "temporary_file_create A sub (backend_mount d_parent) (of_nat (length bs)) 0 w2 = (?p, 0, w3)"
      "map_buffer A ?p True 0 w3 = (0, addr, of_nat (length bs), w4)"
      "net_expose A addr (of_nat (length bs)) True w4 = (Some m', w5)" "o_backed (V w5) m' = Some ?p"
      "o_src_file (V w5) = o_src_file (V w2)" "\<forall>q. q \<noteq> ?p \<longrightarrow> o_dst_file (V w5) q = o_dst_file (V w2) q"
    by (rule destination_opened [OF assms(2,3,12) d(1,2,3) assms(11)])
  define pargs where "pargs = \<lparr>pl_in_nsid = nsid, pl_in_resource_name = name,
     pl_in_resource_type = resource_type_index RT_local_posix_path, pl_out_address = net_self_address A,
     pl_out_nsid = backend_nsid d_parent, pl_out_resource_name = sub, pl_out_buffers = Some m'\<rparr>"
  have pl: "o_src_file (V w5) path = Some bs" "pull_request pargs nsid name m'"
    using o(5) resp(4) assms(9) by (simp_all add: pull_request_def pargs_def)
  obtain out u' w6 where w6: "net_pull A ep pargs w5 = (Some out, w6)" "pull_served B V bulk u pargs w5 out u' w6"
    using assms(8) pull_is_answered [OF assms(4-7) pl(1) assms(10) pl(2)] unfolding pull_delivered_def by blast
  note ok = pull_answers_succeed [OF assms(4-7) pl(1) assms(10) pl(2) o(4) w6(2)]
  have "remote_resource_to_local_path_transfer A auth ti (Some (Remote_resource (Remote_backend nsid) name address s_nsid bufs coll))
      (Some (Local_path_resource d_parent sub d_path d_coll)) w =
        Inr (0, record_transfer (of_nat (length bs)) (dbl_of_u32 (ro_elapsed_time out)) ti, w6)"
    using w1(1) w2(1) resp(1-3) o(1-3) w6(1) ok
    by (simp add: remote_resource_to_local_path_transfer_def sargs_def pargs_def temporary_file_release_def temporary_file_destroy_def)
  moreover have "o_dst_file (V w6) = (o_dst_file (V w))(?p \<mapsto> bs)" using ok o(6) resp(4) by (auto simp: fun_eq_iff)
  moreover have "o_src_file (V w6) = o_src_file (V w)" using ok o(5) resp(4) by simp
  ultimately show ?thesis using pull_served_run [OF w6(2)] by blast
qed


section \<open>An example\<close>

definition pull_peer :: "peer_world urd" where
  "pull_peer =
     \<lparr>m_is_paused = False, m_namespace_mgr = [(''src'', source_backend)], m_jobs = [],
      m_task_mgr = (task_manager_init 1 4 False 100)\<lparr>m_transferor_registry :=
        [((RT_remote_resource, RT_local_posix_path), remote_resource_to_local_path_transferor source_env)]\<rparr>,
      m_factory = \<lparr>m_registrar = [], m_aliases = []\<rparr>, m_ipc_stopped = False\<rparr>"

text \<open>The network between them: some answer of the peer, when there is one.\<close>

definition stat_call :: "nat \<Rightarrow> stat_input \<Rightarrow> peer_world \<Rightarrow> stat_output option \<times> peer_world" where
  "stat_call ep args w =
     (if \<exists>out u' w'. stat_served source_env pw_view pull_peer args w out u' w'
      then map_prod Some id (SOME (out, w'). \<exists>u'. stat_served source_env pw_view pull_peer args w out u' w')
      else (None, w))"

definition pull_call :: "nat \<Rightarrow> pull_input \<Rightarrow> peer_world \<Rightarrow> rpc_output option \<times> peer_world" where
  "pull_call ep args w =
     (if \<exists>out u' w'. pull_served source_env pw_view pw_bulk pull_peer args w out u' w'
      then map_prod Some id (SOME (out, w'). \<exists>u'. pull_served source_env pw_view pw_bulk pull_peer args w out u' w')
      else (None, w))"

definition pull_initiator :: "peer_world urd_env" where
  "pull_initiator = destination_env\<lparr>net_stat := stat_call, net_pull := pull_call\<rparr>"

definition pull_task :: task_info where
  "pull_task = sample_task_info\<lparr>ti_src_backend := Some (Remote_backend ''src''),
     ti_src_rinfo := Some (Remote_resource_info ''host'' ''src'' False ''/a'' None),
     ti_dst_backend := Some (Posix_filesystem ''tmp'' False ''/mnt'' 0), ti_dst_rinfo := Some (Local_path_info ''tmp'' ''/a'')\<rparr>"

lemma pull_example_delivered: "pull_delivered pull_initiator source_env pw_view pw_bulk pull_peer 0"
  unfolding pull_delivered_def
proof (intro conjI allI impI)
  show "\<exists>out u' w'. net_stat pull_initiator 0 args w = (Some out, w') \<and> stat_served source_env pw_view pull_peer args w out u' w'"
    if "\<exists>out u' w'. stat_served source_env pw_view pull_peer args w out u' w'" for args w
    using some_answer [of "stat_served source_env pw_view pull_peer args w", OF that] that
    by (simp add: pull_initiator_def stat_call_def)
  show "\<exists>out u' w'. net_pull pull_initiator 0 args w = (Some out, w') \<and> pull_served source_env pw_view pw_bulk pull_peer args w out u' w'"
    if "\<exists>out u' w'. pull_served source_env pw_view pw_bulk pull_peer args w out u' w'" for args w
    using some_answer [of "pull_served source_env pw_view pw_bulk pull_peer args w", OF that] that
    by (simp add: pull_initiator_def pull_call_def)
qed

lemma pull_example:
  shows "resolves pull_initiator pw_view ''host'' 0" and "destination_files pull_initiator pw_view mount"
    and "exposes_mapped pull_initiator pw_view" and "peer_ready source_env pull_peer ''src'' source_backend"
    and "peer_network source_env pw_view pw_bulk" and "source_laws source_env pull_initiator pw_view"
    and "offers source_env pw_view source_backend ''src'' ''/a'' (boost_append ''/src'' ''/a'') [1, 2, 3]"
    and "lexical_normalize (fs_path pull_initiator) ''/a'' False = ''/a''"
proof -
  show "resolves pull_initiator pw_view ''host'' 0"
    by (simp add: resolves_def pull_initiator_def destination_env_def quiet_urd_env_def)
  show "destination_files pull_initiator pw_view mount" using pw_destination_files [of mount]
    by (simp add: destination_files_def mount_laws_def creation_laws_def maps_files_def pull_initiator_def)
  show "exposes_mapped pull_initiator pw_view" using pw_exposes by (simp add: exposes_mapped_def pull_initiator_def)
  show "peer_ready source_env pull_peer ''src'' source_backend"
    by (simp add: peer_ready_def pull_peer_def namespace_find_def task_manager_init_def)
  have "pw_view (pw_respond_stat h out w) = (pw_view w)\<lparr>o_stat := (o_stat (pw_view w))(h \<mapsto> out)\<rparr>" for h out w
    by (cases w) simp
  moreover have "answers_requests source_env pw_view" by (rule pw_answers) (simp_all add: source_env_def quiet_urd_env_def)
  moreover have "starts_pushes source_env pw_view" by (simp add: starts_pushes_def source_env_def pw_starts)
  ultimately show "peer_network source_env pw_view pw_bulk"
    by (simp add: peer_network_def pw_bulk_moves) (simp add: source_env_def)
  show "source_laws source_env pull_initiator pw_view" by (rule pw_source_laws) (simp_all add: pull_initiator_def)
  have "get_resource source_env source_backend (Local_path_info ''src'' ''/a'') 0 w =
      Inr (Some (Local_path_resource source_backend ''/a'' (boost_append ''/src'' ''/a'') False), 0)" for w
    by (rule source_found) (simp_all add: source_env_def quiet_urd_env_def)
  moreover have "\<exists>sz ec. get_size source_env source_backend (Local_path_info ''src'' ''/a'') 0 w = Inr (sz, ec)" for w
    by (simp add: source_backend_def posix_get_size_def source_env_def quiet_urd_env_def Let_def)
  moreover have "bfs_file_size source_env w path = (0, 3)" if "o_src_file (pw_view w) path = Some [1, 2, 3]" for w path
    using that by (cases w) (simp add: source_env_def)
  ultimately show "offers source_env pw_view source_backend ''src'' ''/a'' (boost_append ''/src'' ''/a'') [1, 2, 3]"
    by (simp add: offers_def)
  show "lexical_normalize (fs_path pull_initiator) ''/a'' False = ''/a''"
    by (simp add: pull_initiator_def destination_env_def quiet_urd_env_def short_path)
qed


end
