(* ===== verification/Log_Queue.thy ===== *)
theory Log_Queue
  imports Norns_Prelude
begin

text \<open>
  The bounded queue between the threads of the daemon that log and the thread that writes
  (\<^verbatim>\<open>src/spdlog/details/mpmc_bounded_q.h\<close>): a ring of cells with sequence numbers, at the width of the machine. One
  operation at a time: a compare-and-exchange that is not disturbed succeeds. The queue is shown to be a bounded first-in
  first-out queue, also when the 64-bit positions wrap around.
\<close>

unbundle bit_operations_syntax

section \<open>The ring\<close>

record 'a cell =
  cell_sequence :: u64
  cell_data :: 'a

record 'a mpmc =
  mq_max_size :: u64
  mq_buffer :: "'a cell list"
  mq_mask :: u64
  enqueue_pos :: u64
  dequeue_pos :: u64

text \<open>
  The constructor. It refuses a size that is not a power of two; a new cell holds whatever the default constructor of its
  type gives.
\<close>

definition mpmc_new :: "'a \<Rightarrow> u64 \<Rightarrow> (string + 'a mpmc)" where
  "mpmc_new dflt buffer_size =
     (if \<not> (2 \<le> buffer_size \<and> buffer_size AND (buffer_size - 1) = 0)
      then Inl ''async logger queue size must be power of two''
      else Inr \<lparr>mq_max_size = buffer_size,
                mq_buffer = map (\<lambda>i. \<lparr>cell_sequence = of_nat i, cell_data = dflt\<rparr>) [0..<unat buffer_size],
                mq_mask = buffer_size - 1, enqueue_pos = 0, dequeue_pos = 0\<rparr>)"

text \<open>
  The difference of two unsigned numbers read as signed. In the third case the loop reads the position again, which gives
  the same when nobody else moves it: the call does not return, \<open>None\<close>.
\<close>

definition enqueue :: "'a \<Rightarrow> 'a mpmc \<Rightarrow> (bool \<times> 'a mpmc) option" where
  "enqueue x q =
     (let pos = enqueue_pos q; i = unat (pos AND mq_mask q); dif = sint (cell_sequence (mq_buffer q ! i) - pos)
      in if dif = 0 then
           Some (True, q\<lparr>enqueue_pos := pos + 1, mq_buffer := (mq_buffer q)[i := \<lparr>cell_sequence = pos + 1, cell_data = x\<rparr>]\<rparr>)
         else if dif < 0 then Some (False, q)
         else None)"

definition dequeue :: "'a mpmc \<Rightarrow> ('a option \<times> 'a mpmc) option" where
  "dequeue q =
     (let pos = dequeue_pos q; i = unat (pos AND mq_mask q); c = mq_buffer q ! i; dif = sint (cell_sequence c - (pos + 1))
      in if dif = 0 then
           Some (Some (cell_data c), q\<lparr>dequeue_pos := pos + 1,
             mq_buffer := (mq_buffer q)[i := c\<lparr>cell_sequence := pos + mq_mask q + 1\<rparr>]\<rparr>)
         else if dif < 0 then Some (None, q)
         else None)"

definition approx_size :: "'a mpmc \<Rightarrow> u64" where
  "approx_size q =
     (let first_pos = dequeue_pos q; last_pos = enqueue_pos q
      in if last_pos \<le> first_pos then 0
         else let sz = last_pos - first_pos in if sz < mq_max_size q then sz else mq_max_size q)"

section \<open>Words as counters\<close>

text \<open>The index of a position in a ring whose size is a power of two, and small signed differences.\<close>

lemma ring_index:
  assumes "mq_mask q = 2 ^ k - 1" and "k \<le> 63"
  shows "unat ((of_nat n :: u64) AND mq_mask q) = n mod 2 ^ k"
proof -
  have "(of_nat n :: u64) AND mask k = take_bit k (of_nat n)" by (simp add: take_bit_eq_mask)
  then have "unat ((of_nat n :: u64) AND mq_mask q) = take_bit k (take_bit 64 n)"
    using assms(1) by (simp add: mask_eq_exp_minus_1 unsigned_take_bit_eq unsigned_of_nat)
  also have "\<dots> = n mod 2 ^ k" using assms(2) by (simp add: take_bit_eq_mod [symmetric] min_def)
  finally show ?thesis .
qed

lemma sint_small: "n < 2 ^ 63 \<Longrightarrow> sint (of_nat n :: u64) = int n"
  by (simp add: signed_of_nat signed_take_bit_int_eq_self)

lemma sint_minus_small: "0 < n \<Longrightarrow> n \<le> 2 ^ 63 \<Longrightarrow> sint (- of_nat n :: u64) < 0"
proof -
  assume n: "0 < n" "n \<le> (2 :: nat) ^ 63"
  have "sint (of_int (- int n) :: u64) = signed_take_bit 63 (- int n)" by (simp only: signed_of_int) simp
  also have "\<dots> = - int n" using n by (simp add: signed_take_bit_int_eq_self)
  finally show ?thesis using n by simp
qed

section \<open>A first-in first-out queue\<close>

text \<open>The contract of a queue of a fixed capacity, on the list of what it holds.\<close>

locale bounded_fifo =
  fixes holds :: "'q \<Rightarrow> 'a list \<Rightarrow> bool"
    and put :: "'a \<Rightarrow> 'q \<Rightarrow> (bool \<times> 'q) option"
    and get :: "'q \<Rightarrow> ('a option \<times> 'q) option"
    and capacity :: nat
  assumes put_room: "holds q xs \<Longrightarrow> length xs < capacity \<Longrightarrow> \<exists>q'. put x q = Some (True, q') \<and> holds q' (xs @ [x])"
    and put_full: "holds q xs \<Longrightarrow> capacity \<le> length xs \<Longrightarrow> put x q = Some (False, q)"
    and get_first: "holds q (x # xs) \<Longrightarrow> \<exists>q'. get q = Some (Some x, q') \<and> holds q' xs"
    and get_empty: "holds q [] \<Longrightarrow> get q = Some (None, q)"
begin

text \<open>As many as fit can be put in, and come out in that order.\<close>

lemma put_all:
  "holds q xs \<Longrightarrow> length xs + length ys \<le> capacity \<Longrightarrow>
    \<exists>q'. fold (\<lambda>y qo. Option.bind qo (\<lambda>q. map_option snd (put y q))) ys (Some q) = Some q' \<and> holds q' (xs @ ys)"
proof (induction ys arbitrary: q xs)
  case Nil
  then show ?case by simp
next
  case (Cons y ys)
  then obtain q1 where "put y q = Some (True, q1)" "holds q1 (xs @ [y])" using put_room [of q xs y] by auto
  with Cons.IH [of q1 "xs @ [y]"] Cons.prems(2) show ?case by simp
qed

end

text \<open>
  What a ring of size \<open>2 ^ k\<close> holds: the positions are the numbers of elements that were taken and put so far, modulo
  \<open>2 ^ 64\<close>; a cell that holds an element has the number of the next position, a free cell that of the position it waits
  for.
\<close>

definition ring_holds :: "nat \<Rightarrow> nat \<Rightarrow> 'a mpmc \<Rightarrow> 'a list \<Rightarrow> bool" where
  "ring_holds k d q xs \<longleftrightarrow>
     mq_mask q = 2 ^ k - 1 \<and> length (mq_buffer q) = 2 ^ k \<and> length xs \<le> 2 ^ k \<and>
     dequeue_pos q = of_nat d \<and> enqueue_pos q = of_nat (d + length xs) \<and>
     (\<forall>i < 2 ^ k. let c = mq_buffer q ! ((d + i) mod 2 ^ k) in
        if i < length xs then cell_sequence c = of_nat (d + i + 1) \<and> cell_data c = xs ! i
        else cell_sequence c = of_nat (d + i))"

lemma ring_cell:
  assumes "ring_holds k d q xs" and "i < 2 ^ k"
  shows "i < length xs \<Longrightarrow> cell_sequence (mq_buffer q ! ((d + i) mod 2 ^ k)) = of_nat (d + i + 1)"
    and "i < length xs \<Longrightarrow> cell_data (mq_buffer q ! ((d + i) mod 2 ^ k)) = xs ! i"
    and "length xs \<le> i \<Longrightarrow> cell_sequence (mq_buffer q ! ((d + i) mod 2 ^ k)) = of_nat (d + i)"
  using assms by (auto simp: ring_holds_def Let_def)

lemma mod_add_inj: "i < N \<Longrightarrow> j < N \<Longrightarrow> (d + i) mod N = (d + j) mod (N :: nat) \<longleftrightarrow> i = j"
proof
  assume lt: "i < N" "j < N" and eq: "(d + i) mod N = (d + j) mod N"
  have "i mod N = j mod N"
    using eq by (auto simp: nat_mod_eq_iff)
  with lt show "i = j" by simp
qed simp

lemma enqueue_room:
  assumes "ring_holds k d q xs" and "length xs < 2 ^ k" and "k \<le> 62"
  shows "\<exists>q'. enqueue x q = Some (True, q') \<and> ring_holds k d q' (xs @ [x])"
proof -
  let ?N = "2 ^ k :: nat" and ?n = "length xs"
  have index: "unat (enqueue_pos q AND mq_mask q) = (d + ?n) mod ?N"
    using ring_index [of q k "d + ?n"] assms by (simp add: ring_holds_def)
  have seq: "cell_sequence (mq_buffer q ! ((d + ?n) mod ?N)) = enqueue_pos q"
    using ring_cell(3) [OF assms(1,2)] assms(1) by (simp add: ring_holds_def)
  define c where "c = \<lparr>cell_sequence = enqueue_pos q + 1, cell_data = x\<rparr>"
  define q' where "q' = q\<lparr>enqueue_pos := enqueue_pos q + 1, mq_buffer := (mq_buffer q)[(d + ?n) mod ?N := c]\<rparr>"
  have "enqueue x q = Some (True, q')" by (simp add: enqueue_def Let_def index seq q'_def c_def)
  moreover have "ring_holds k d q' (xs @ [x])"
  proof -
    have "let c' = (mq_buffer q)[(d + ?n) mod ?N := c] ! ((d + i) mod ?N) in
        if i < length (xs @ [x]) then cell_sequence c' = of_nat (d + i + 1) \<and> cell_data c' = (xs @ [x]) ! i
        else cell_sequence c' = of_nat (d + i)" if "i < ?N" for i
    proof (cases "i = ?n")
      case True
      then show ?thesis using assms(1) by (simp add: ring_holds_def c_def Let_def nth_append)
    next
      case False
      then have "(d + i) mod ?N \<noteq> (d + ?n) mod ?N" using mod_add_inj that assms(2) by blast
      with False that ring_cell [OF assms(1) that] show ?thesis by (auto simp: Let_def nth_append)
    qed
    with assms(1,2) show ?thesis by (simp add: ring_holds_def q'_def)
  qed
  ultimately show ?thesis by blast
qed

lemma enqueue_full:
  assumes "ring_holds k d q xs" and "2 ^ k \<le> length xs" and "1 \<le> k" and "k \<le> 62"
  shows "enqueue x q = Some (False, q)"
proof -
  let ?N = "2 ^ k :: nat"
  have len: "length xs = ?N" using assms(1,2) by (simp add: ring_holds_def)
  have index: "unat (enqueue_pos q AND mq_mask q) = d mod ?N"
    using ring_index [of q k "d + ?N"] assms len by (simp add: ring_holds_def)
  have "cell_sequence (mq_buffer q ! (d mod ?N)) = of_nat (d + 1)"
    using ring_cell(1) [OF assms(1), of 0] len by simp
  moreover have "enqueue_pos q = of_nat (d + ?N)" using assms(1) len by (simp add: ring_holds_def)
  ultimately have dif: "cell_sequence (mq_buffer q ! (d mod ?N)) - enqueue_pos q = - of_nat (?N - 1)"
    by (simp add: of_nat_diff)
  have "2 ^ 1 \<le> ?N" "?N \<le> 2 ^ 62" using assms(3,4) by (intro power_increasing; simp)+
  then have "sint (- of_nat (?N - 1) :: u64) < 0" by (intro sint_minus_small) simp_all
  then show ?thesis by (simp add: enqueue_def Let_def index dif)
qed

lemma dequeue_first:
  assumes "ring_holds k d q (x # xs)" and "k \<le> 62"
  shows "\<exists>q'. dequeue q = Some (Some x, q') \<and> ring_holds k (d + 1) q' xs"
proof -
  let ?N = "2 ^ k :: nat"
  have index: "unat (dequeue_pos q AND mq_mask q) = d mod ?N"
    using ring_index [of q k d] assms by (simp add: ring_holds_def)
  define c where "c = mq_buffer q ! (d mod ?N)"
  have c: "cell_sequence c = dequeue_pos q + 1" "cell_data c = x"
    using ring_cell(1,2) [OF assms(1), of 0] assms(1) by (simp_all add: c_def ring_holds_def add.commute)
  define c' where "c' = c\<lparr>cell_sequence := dequeue_pos q + mq_mask q + 1\<rparr>"
  define q' where "q' = q\<lparr>dequeue_pos := dequeue_pos q + 1, mq_buffer := (mq_buffer q)[d mod ?N := c']\<rparr>"
  have "dequeue q = Some (Some x, q')"
    by (simp add: dequeue_def Let_def index c_def [symmetric] c q'_def c'_def)
  moreover have "ring_holds k (d + 1) q' xs"
  proof -
    have "let c'' = (mq_buffer q)[d mod ?N := c'] ! ((d + 1 + i) mod ?N) in
        if i < length xs then cell_sequence c'' = of_nat (d + 1 + i + 1) \<and> cell_data c'' = xs ! i
        else cell_sequence c'' = of_nat (d + 1 + i)" if "i < ?N" for i
    proof (cases "i = ?N - 1")
      case True
      then have "d + 1 + i = d + ?N" using that by simp
      moreover have "length (x # xs) \<le> ?N" using assms(1) by (simp only: ring_holds_def)
      then have "\<not> i < length xs" using True by simp
      moreover have "cell_sequence c' = of_nat (d + ?N)" using assms(1) by (simp add: c'_def ring_holds_def)
      moreover have "d mod ?N < length (mq_buffer q)" using assms(1) by (simp add: ring_holds_def)
      ultimately show ?thesis by (simp only: Let_def mod_add_self2 nth_list_update_eq if_False)
    next
      case False
      with that have i: "i + 1 < ?N" by simp
      with mod_add_inj [of 0 ?N "i + 1" d] have "(d + (i + 1)) mod ?N \<noteq> d mod ?N" by simp
      with ring_cell [OF assms(1) i] show ?thesis by (auto simp: Let_def add.commute add.left_commute)
    qed
    moreover have "mq_mask q' = mq_mask q" "mq_buffer q' = (mq_buffer q)[d mod ?N := c']" "enqueue_pos q' = enqueue_pos q"
      "dequeue_pos q' = dequeue_pos q + 1" by (simp_all add: q'_def)
    moreover have "mq_mask q = 2 ^ k - 1" "length (mq_buffer q) = ?N" "length xs \<le> ?N" "dequeue_pos q + 1 = of_nat (d + 1)"
      "enqueue_pos q = of_nat (d + 1 + length xs)" using assms(1) by (simp_all add: ring_holds_def add.commute)
    ultimately show ?thesis unfolding ring_holds_def by (simp only: length_list_update) simp
  qed
  ultimately show ?thesis by blast
qed

lemma dequeue_nothing:
  assumes "ring_holds k d q []" and "k \<le> 62"
  shows "dequeue q = Some (None, q)"
proof -
  let ?N = "2 ^ k :: nat"
  have index: "unat (dequeue_pos q AND mq_mask q) = d mod ?N"
    using ring_index [of q k d] assms by (simp add: ring_holds_def)
  have "cell_sequence (mq_buffer q ! (d mod ?N)) = dequeue_pos q"
    using ring_cell(3) [OF assms(1), of 0] assms(1) by (simp add: ring_holds_def)
  then show ?thesis using sint_minus_small [of 1] by (simp add: dequeue_def Let_def index)
qed

lemma mpmc_new_holds:
  assumes "1 \<le> k" and "k \<le> 62"
  shows "\<exists>q. mpmc_new x (2 ^ k) = Inr q \<and> ring_holds k 0 q [] \<and> mq_max_size q = 2 ^ k"
proof -
  have unat: "unat (2 ^ k :: u64) = 2 ^ k" 
  proof -
    have "(2 :: nat) ^ k < 2 ^ 64" using assms(2) by (intro power_strict_increasing) simp_all
    then have "unat (of_nat (2 ^ k) :: u64) = 2 ^ k" by (simp only: unat_of_nat) simp
    then show ?thesis by simp
  qed
  have "(2 :: nat) ^ 1 \<le> 2 ^ k" using assms(1) by (intro power_increasing) simp_all
  then have "(2 :: u64) \<le> 2 ^ k" by (simp add: word_le_nat_alt unat)
  moreover have "(2 :: u64) ^ k AND (2 ^ k - 1) = 0"
  proof -
    have "(2 :: u64) ^ k AND mask k = take_bit k (2 ^ k)" by (simp only: take_bit_eq_mask)
    also have "\<dots> = 0" by (rule bit_eqI) (auto simp: bit_simps)
    finally show ?thesis by (simp only: mask_eq_exp_minus_1)
  qed
  moreover define q where
    "q = \<lparr>mq_max_size = 2 ^ k, mq_buffer = map (\<lambda>i. \<lparr>cell_sequence = of_nat i, cell_data = x\<rparr>) [0..<2 ^ k],
          mq_mask = 2 ^ k - 1, enqueue_pos = 0, dequeue_pos = 0\<rparr>"
  ultimately have "mpmc_new x (2 ^ k) = Inr q" by (simp only: mpmc_new_def unat) simp
  moreover have "ring_holds k 0 q []" by (simp add: ring_holds_def q_def Let_def)
  ultimately show ?thesis by (simp add: q_def)
qed

section \<open>The queue of the logger\<close>

text \<open>
  The size of the daemon's queue is \<open>8192 = 2 ^ 13\<close>. What it holds, whatever the positions have come to, is the contract of
  a first-in first-out queue of that capacity.
\<close>

definition log_queue_holds :: "'a mpmc \<Rightarrow> 'a list \<Rightarrow> bool" where
  "log_queue_holds q xs \<longleftrightarrow> (\<exists>d. ring_holds 13 d q xs)"

lemma enqueue_room_8192:
  "log_queue_holds q xs \<Longrightarrow> length xs < 8192 \<Longrightarrow> \<exists>q'. enqueue x q = Some (True, q') \<and> log_queue_holds q' (xs @ [x])"
  using enqueue_room [of 13] by (fastforce simp: log_queue_holds_def)

lemma enqueue_full_8192: "log_queue_holds q xs \<Longrightarrow> 8192 \<le> length xs \<Longrightarrow> enqueue x q = Some (False, q)"
  using enqueue_full [of 13] by (fastforce simp: log_queue_holds_def)

lemma dequeue_first_8192:
  "log_queue_holds q (x # xs) \<Longrightarrow> \<exists>q'. dequeue q = Some (Some x, q') \<and> log_queue_holds q' xs"
  using dequeue_first [of 13] by (fastforce simp: log_queue_holds_def)

lemma dequeue_nothing_8192: "log_queue_holds q [] \<Longrightarrow> dequeue q = Some (None, q)"
  using dequeue_nothing [of 13] by (fastforce simp: log_queue_holds_def)

interpretation lq: bounded_fifo log_queue_holds enqueue dequeue 8192
  by unfold_locales (rule enqueue_room_8192 enqueue_full_8192 dequeue_first_8192 dequeue_nothing_8192; assumption)+

lemma mpmc_new_8192: "\<exists>q. mpmc_new x 8192 = Inr q \<and> log_queue_holds q []"
  using mpmc_new_holds [of 13 x] by (auto simp: log_queue_holds_def)

text \<open>
  The number of elements that the queue reports is right as long as the positions have not passed \<open>2 ^ 64\<close>; when the
  position of the producers has and that of the consumers has not, a queue that is not empty reports 0.
\<close>

lemma approx_size_exact:
  assumes "ring_holds k d q xs" and "mq_max_size q = 2 ^ k" and "k \<le> 62" and "d + length xs < 2 ^ 64"
  shows "unat (approx_size q) = length xs"
proof -
  have len: "length xs \<le> 2 ^ k" using assms(1) by (simp add: ring_holds_def)
  have k: "(2 :: nat) ^ k < 2 ^ 64" using assms(3) by (intro power_strict_increasing) simp_all
  have max: "unat (mq_max_size q) = 2 ^ k"
  proof -
    have "unat (of_nat (2 ^ k) :: u64) = 2 ^ k" using k by (simp only: unat_of_nat) simp
    then show ?thesis by (simp add: assms(2))
  qed
  have d: "unat (dequeue_pos q) = d" "unat (enqueue_pos q) = d + length xs"
    using assms(1,4) by (simp_all add: ring_holds_def unat_of_nat del: of_nat_add)
  show ?thesis
  proof (cases "xs = []")
    case True
    with assms(1) show ?thesis by (simp add: approx_size_def ring_holds_def)
  next
    case False
    then have lt: "\<not> enqueue_pos q \<le> dequeue_pos q" by (simp add: word_le_nat_alt d)
    then have "unat (enqueue_pos q - dequeue_pos q) = length xs"
      by (simp add: unat_sub d)
    with lt len max show ?thesis by (simp add: approx_size_def Let_def word_less_nat_alt)
  qed
qed

end
