(* ===== verification/Log_Pattern.thy ===== *)
theory Log_Pattern
  imports Fmt_Decimal "HOL-Library.Signed_Division"
begin

text \<open>
  The messages of the logger and the layout of a line (\<^verbatim>\<open>src/spdlog/common.h\<close>, \<^verbatim>\<open>src/spdlog/details/log_msg.h\<close>,
  \<^verbatim>\<open>src/spdlog/details/pattern_formatter_impl.h\<close>): the levels, the compilation of a pattern to a list of formatters, and
  what each of them appends to the line. The broken-down time and the process identifier come from the C library and are
  parameters.
\<close>

section \<open>Levels and messages\<close>

datatype level_enum = Level_trace | Level_debug | Level_info | Level_warn | Level_err | Level_critical | Level_off

fun level_value :: "level_enum \<Rightarrow> nat" where
  "level_value Level_trace = 0"
| "level_value Level_debug = 1"
| "level_value Level_info = 2"
| "level_value Level_warn = 3"
| "level_value Level_err = 4"
| "level_value Level_critical = 5"
| "level_value Level_off = 6"

text \<open>The levels are compared by their numbers.\<close>

lemma level_value_inj: "level_value l = level_value l' \<longleftrightarrow> l = l'"
  by (cases l; cases l') simp_all

instantiation level_enum :: linorder
begin

definition less_eq_level_enum :: "level_enum \<Rightarrow> level_enum \<Rightarrow> bool" where
  "less_eq_level_enum l l' \<longleftrightarrow> level_value l \<le> level_value l'"

definition less_level_enum :: "level_enum \<Rightarrow> level_enum \<Rightarrow> bool" where
  "less_level_enum l l' \<longleftrightarrow> level_value l < level_value l'"

instance
  by intro_classes (auto simp: less_eq_level_enum_def less_level_enum_def level_value_inj)

end

definition level_names :: "string list" where
  "level_names = [''trace'', ''debug'', ''info'', ''warning'', ''error'', ''critical'', ''off'']"

definition short_level_names :: "string list" where
  "short_level_names = [''T'', ''D'', ''I'', ''W'', ''E'', ''C'', ''O'']"

definition to_str :: "level_enum \<Rightarrow> string" where
  "to_str l = level_names ! level_value l"

definition to_short_str :: "level_enum \<Rightarrow> string" where
  "to_short_str l = short_level_names ! level_value l"

text \<open>A message. The time is in nanoseconds since the epoch.\<close>

record log_msg =
  lm_logger_name :: string
  lm_level :: level_enum
  lm_time :: int
  lm_thread_id :: u64
  lm_raw :: string
  lm_formatted :: string

section \<open>The formatters\<close>

record tm =
  tm_sec :: int
  tm_min :: int
  tm_hour :: int
  tm_mday :: int
  tm_mon :: int
  tm_year :: int
  tm_wday :: int
  tm_gmtoff :: int

record pattern_env =
  pe_localtime :: "int \<Rightarrow> tm"
  pe_pid :: int

datatype flag_formatter =
    Name_formatter | Level_formatter | Short_level_formatter | A_lower_formatter | A_upper_formatter | B_lower_formatter
  | B_upper_formatter | C_lower_formatter | C_upper_formatter | D_upper_formatter | Y_formatter | M_lower_formatter
  | D_lower_formatter | H_formatter | I_formatter | M_upper_formatter | S_formatter | E_lower_formatter | E_upper_formatter
  | F_lower_formatter | F_upper_formatter | P_lower_formatter | R_lower_formatter | R_upper_formatter | T_upper_formatter
  | Z_formatter | T_lower_formatter | Pid_formatter | V_formatter | Ch_formatter char | Aggregate_formatter string
  | Full_formatter

definition ampm :: "tm \<Rightarrow> string" where
  "ampm t = (if 12 \<le> tm_hour t then ''PM'' else ''AM'')"

definition to12h :: "tm \<Rightarrow> int" where
  "to12h t = (if 12 < tm_hour t then tm_hour t - 12 else tm_hour t)"

definition days :: "string list" where
  "days = [''Sun'', ''Mon'', ''Tue'', ''Wed'', ''Thu'', ''Fri'', ''Sat'']"

definition full_days :: "string list" where
  "full_days = [''Sunday'', ''Monday'', ''Tuesday'', ''Wednesday'', ''Thursday'', ''Friday'', ''Saturday'']"

definition months :: "string list" where
  "months = [''Jan'', ''Feb'', ''Mar'', ''Apr'', ''May'', ''June'', ''July'', ''Aug'', ''Sept'', ''Oct'', ''Nov'', ''Dec'']"

definition full_months :: "string list" where
  "full_months = [''January'', ''February'', ''March'', ''April'', ''May'', ''June'', ''July'', ''August'', ''September'',
     ''October'', ''November'', ''December'']"

text \<open>The element of an array; an index outside it is a fault. The texts of a sequence of appends.\<close>

definition array_at :: "string list \<Rightarrow> int \<Rightarrow> string outcome" where
  "array_at xs i = (if 0 \<le> i \<and> i < int (length xs) then Inr (xs ! nat i) else Inl Out_Of_Range)"

fun appends :: "string outcome list \<Rightarrow> string outcome" where
  "appends [] = Inr []"
| "appends (x # xs) = obind x (\<lambda>s. obind (appends xs) (\<lambda>t. Inr (s @ t)))"

abbreviation zero_pad :: "int \<Rightarrow> nat \<Rightarrow> string outcome" where
  "zero_pad v width \<equiv> write_int v width (CHR ''0'')"

definition pad_n_join2 :: "int \<Rightarrow> int \<Rightarrow> char \<Rightarrow> string outcome" where
  "pad_n_join2 v1 v2 sep = appends [zero_pad v1 2, Inr [sep], zero_pad v2 2]"

definition pad_n_join :: "int \<Rightarrow> int \<Rightarrow> int \<Rightarrow> char \<Rightarrow> string outcome" where
  "pad_n_join v1 v2 v3 sep = appends [zero_pad v1 2, Inr [sep], zero_pad v2 2, Inr [sep], zero_pad v3 2]"

definition utc_minutes_offset :: "tm \<Rightarrow> int" where
  "utc_minutes_offset t = tm_gmtoff t sdiv 60"

text \<open>
  What each formatter appends. The quotients and remainders of C++ round towards zero; a cast to a narrower type takes
  the low bits.
\<close>

definition full_text :: "tm \<Rightarrow> log_msg \<Rightarrow> string outcome" where
  "full_text t m =
     (let millis = lm_time m sdiv 1000000 smod 1000; z = (\<lambda>v w. write_uint (word_of_int v) w (CHR ''0''))
      in appends [Inr ''['', z (tm_year t + 1900) 0, Inr ''-'', z (tm_mon t + 1) 2, Inr ''-'', z (tm_mday t) 2, Inr '' '',
           z (tm_hour t) 2, Inr '':'', z (tm_min t) 2, Inr '':'', z (tm_sec t) 2, Inr ''.'', z millis 3, Inr ''] '',
           Inr ''['', Inr (lm_logger_name m), Inr ''] '', Inr ''['', Inr (to_str (lm_level m)), Inr ''] '', Inr (lm_raw m)])"

definition z_text :: "tm \<Rightarrow> string outcome" where
  "z_text t =
     (let total = utc_minutes_offset t; sign = (if total < 0 then ''-'' else ''+''); total = (if total < 0 then - total else total)
      in appends [Inr sign, pad_n_join2 (total sdiv 60) (total smod 60) (CHR '':'')])"

fun flag_text :: "('e) pattern_env_scheme \<Rightarrow> tm \<Rightarrow> log_msg \<Rightarrow> flag_formatter \<Rightarrow> string outcome" where
  "flag_text env t m Name_formatter = Inr (lm_logger_name m)"
| "flag_text env t m Level_formatter = Inr (to_str (lm_level m))"
| "flag_text env t m Short_level_formatter = Inr (to_short_str (lm_level m))"
| "flag_text env t m A_lower_formatter = array_at days (tm_wday t)"
| "flag_text env t m A_upper_formatter = array_at full_days (tm_wday t)"
| "flag_text env t m B_lower_formatter = array_at months (tm_mon t)"
| "flag_text env t m B_upper_formatter = array_at full_months (tm_mon t)"
| "flag_text env t m C_lower_formatter =
     appends [array_at days (tm_wday t), Inr '' '', array_at months (tm_mon t), Inr '' '', write_decimal (tm_mday t), Inr '' '',
       pad_n_join (tm_hour t) (tm_min t) (tm_sec t) (CHR '':''), Inr '' '', write_decimal (tm_year t + 1900)]"
| "flag_text env t m C_upper_formatter = zero_pad (tm_year t smod 100) 2"
| "flag_text env t m D_upper_formatter = pad_n_join (tm_mon t + 1) (tm_mday t) (tm_year t smod 100) (CHR ''/'')"
| "flag_text env t m Y_formatter = write_decimal (tm_year t + 1900)"
| "flag_text env t m M_lower_formatter = zero_pad (tm_mon t + 1) 2"
| "flag_text env t m D_lower_formatter = zero_pad (tm_mday t) 2"
| "flag_text env t m H_formatter = zero_pad (tm_hour t) 2"
| "flag_text env t m I_formatter = zero_pad (to12h t) 2"
| "flag_text env t m M_upper_formatter = zero_pad (tm_min t) 2"
| "flag_text env t m S_formatter = zero_pad (tm_sec t) 2"
| "flag_text env t m E_lower_formatter = zero_pad (lm_time m sdiv 1000000 smod 1000) 3"
| "flag_text env t m E_upper_formatter = write_int_64 (word_of_int (lm_time m sdiv 1000)) 16 (CHR ''0'')"
| "flag_text env t m F_lower_formatter = zero_pad (lm_time m sdiv 1000 smod 1000000) 6"
| "flag_text env t m F_upper_formatter = zero_pad (lm_time m smod 1000000000) 9"
| "flag_text env t m P_lower_formatter = Inr (ampm t)"
| "flag_text env t m R_lower_formatter =
     appends [pad_n_join (to12h t) (tm_min t) (tm_sec t) (CHR '':''), Inr '' '', Inr (ampm t)]"
| "flag_text env t m R_upper_formatter = pad_n_join2 (tm_hour t) (tm_min t) (CHR '':'')"
| "flag_text env t m T_upper_formatter = pad_n_join (tm_hour t) (tm_min t) (tm_sec t) (CHR '':'')"
| "flag_text env t m Z_formatter = z_text t"
| "flag_text env t m T_lower_formatter = write_int_64 (lm_thread_id m) 0 (CHR '' '')"
| "flag_text env t m Pid_formatter = write_decimal (pe_pid env)"
| "flag_text env t m V_formatter = Inr (lm_raw m)"
| "flag_text env t m (Ch_formatter c) = Inr [c]"
| "flag_text env t m (Aggregate_formatter s) = Inr s"
| "flag_text env t m Full_formatter = full_text t m"

section \<open>The pattern\<close>

definition flag_formatters :: "(char \<times> flag_formatter) list" where
  "flag_formatters =
     [(CHR ''n'', Name_formatter), (CHR ''l'', Level_formatter), (CHR ''L'', Short_level_formatter),
      (CHR ''t'', T_lower_formatter), (CHR ''v'', V_formatter), (CHR ''a'', A_lower_formatter), (CHR ''A'', A_upper_formatter),
      (CHR ''b'', B_lower_formatter), (CHR ''h'', B_lower_formatter), (CHR ''B'', B_upper_formatter),
      (CHR ''c'', C_lower_formatter), (CHR ''C'', C_upper_formatter), (CHR ''Y'', Y_formatter),
      (CHR ''D'', D_upper_formatter), (CHR ''x'', D_upper_formatter), (CHR ''m'', M_lower_formatter),
      (CHR ''d'', D_lower_formatter), (CHR ''H'', H_formatter), (CHR ''I'', I_formatter), (CHR ''M'', M_upper_formatter),
      (CHR ''S'', S_formatter), (CHR ''e'', E_lower_formatter), (CHR ''E'', E_upper_formatter), (CHR ''f'', F_lower_formatter),
      (CHR ''F'', F_upper_formatter), (CHR ''p'', P_lower_formatter), (CHR ''r'', R_lower_formatter),
      (CHR ''R'', R_upper_formatter), (CHR ''T'', T_upper_formatter), (CHR ''X'', T_upper_formatter), (CHR ''z'', Z_formatter),
      (CHR ''+'', Full_formatter), (CHR ''P'', Pid_formatter)]"

definition handle_flag :: "char \<Rightarrow> flag_formatter list" where
  "handle_flag flag =
     (case map_of flag_formatters flag of
        Some f \<Rightarrow> [f]
      | None \<Rightarrow> [Ch_formatter (CHR ''%''), Ch_formatter flag])"

text \<open>
  The loop of \<^verbatim>\<open>compile_pattern\<close>. The pointer to the characters collected so far is null at the start and after each
  percent sign.
\<close>

definition push_user_chars :: "string option \<Rightarrow> flag_formatter list" where
  "push_user_chars user_chars = (case user_chars of None \<Rightarrow> [] | Some s \<Rightarrow> [Aggregate_formatter s])"

definition add_ch :: "string option \<Rightarrow> char \<Rightarrow> string option" where
  "add_ch user_chars c = (case user_chars of None \<Rightarrow> Some [c] | Some s \<Rightarrow> Some (s @ [c]))"

fun compile_loop :: "string \<Rightarrow> string option \<Rightarrow> flag_formatter list" where
  "compile_loop [] user_chars = push_user_chars user_chars"
| "compile_loop (c # cs) user_chars =
     (if c = CHR ''%'' then
        push_user_chars user_chars @ (case cs of [] \<Rightarrow> [] | flag # cs' \<Rightarrow> handle_flag flag @ compile_loop cs' None)
      else compile_loop cs (add_ch user_chars c))"

definition compile_pattern :: "string \<Rightarrow> flag_formatter list" where
  "compile_pattern pattern = compile_loop pattern None"

fun run_formatters :: "('e) pattern_env_scheme \<Rightarrow> tm \<Rightarrow> flag_formatter list \<Rightarrow> log_msg \<Rightarrow> log_msg outcome" where
  "run_formatters env t [] m = Inr m"
| "run_formatters env t (f # fs) m =
     obind (flag_text env t m f) (\<lambda>s. run_formatters env t fs (m\<lparr>lm_formatted := lm_formatted m @ s\<rparr>))"

definition eol :: string where "eol = [CHR 0x0A]"

definition pattern_format :: "('e) pattern_env_scheme \<Rightarrow> flag_formatter list \<Rightarrow> log_msg \<Rightarrow> log_msg outcome" where
  "pattern_format env fs m =
     obind (run_formatters env (pe_localtime env (lm_time m sdiv 1000000000)) fs m) (\<lambda>m.
     Inr (m\<lparr>lm_formatted := lm_formatted m @ eol\<rparr>))"

section \<open>The meaning of a pattern\<close>

lemma flag_text_formatted [simp]: "flag_text env t (m\<lparr>lm_formatted := x\<rparr>) = flag_text env t m"
proof
  show "flag_text env t (m\<lparr>lm_formatted := x\<rparr>) f = flag_text env t m f" for f
    by (cases f) (simp_all add: full_text_def)
qed

lemma obind_assoc: "obind (obind r f) g = obind r (\<lambda>x. obind (f x) g)"
  by (cases r) simp_all

lemma run_formatters_appends:
  "run_formatters env t fs m =
    obind (appends (map (flag_text env t m) fs)) (\<lambda>s. Inr (m\<lparr>lm_formatted := lm_formatted m @ s\<rparr>))"
  by (induction fs arbitrary: m) (simp_all add: obind_assoc)

lemma appends_append: "appends (xs @ ys) = obind (appends xs) (\<lambda>s. obind (appends ys) (\<lambda>t. Inr (s @ t)))"
proof (induction xs)
  case Nil
  show ?case by (cases "appends ys") simp_all
next
  case (Cons x xs)
  then show ?case by (cases x; cases "appends xs"; cases "appends ys") simp_all
qed

text \<open>The meaning of a pattern, character by character.\<close>

fun expand :: "('e) pattern_env_scheme \<Rightarrow> tm \<Rightarrow> log_msg \<Rightarrow> string \<Rightarrow> string outcome" where
  "expand env t m [] = Inr []"
| "expand env t m (c # cs) =
     (if c \<noteq> CHR ''%'' then obind (expand env t m cs) (\<lambda>s. Inr (c # s))
      else case cs of
        [] \<Rightarrow> Inr []
      | flag # cs' \<Rightarrow>
          (case map_of flag_formatters flag of
             Some f \<Rightarrow> obind (flag_text env t m f) (\<lambda>s. obind (expand env t m cs') (\<lambda>r. Inr (s @ r)))
           | None \<Rightarrow> obind (expand env t m cs') (\<lambda>r. Inr (c # flag # r))))"

lemma compile_loop_expand:
  "appends (map (flag_text env t m) (compile_loop cs user_chars)) =
    obind (expand env t m cs) (\<lambda>s. Inr ((case user_chars of None \<Rightarrow> [] | Some u \<Rightarrow> u) @ s))"
proof (induction cs user_chars rule: compile_loop.induct)
  case (1 user_chars)
  then show ?case by (simp add: push_user_chars_def split: option.split)
next
  case (2 c cs user_chars)
  show ?case
  proof (cases "c = CHR ''%''")
    case True
    show ?thesis
    proof (cases cs)
      case Nil
      with True show ?thesis by (simp add: push_user_chars_def split: option.split)
    next
      case (Cons flag cs')
      have head: "appends (map (flag_text env t m) (push_user_chars user_chars)) =
          Inr (case user_chars of None \<Rightarrow> [] | Some u \<Rightarrow> u)" by (simp add: push_user_chars_def split: option.split)
      have rest: "appends (map (flag_text env t m) (compile_loop cs' None)) = expand env t m cs'"
        using 2(1) [OF True Cons] by (cases "expand env t m cs'") simp_all
      show ?thesis using True
        by (cases "expand env t m cs'") (simp_all add: Cons appends_append head rest handle_flag_def obind_assoc split: option.split)
    qed
  next
    case False
    with 2(2) [OF False] show ?thesis by (simp add: obind_assoc add_ch_def split: option.split)
  qed
qed

section \<open>Lines\<close>

text \<open>What \<^verbatim>\<open>localtime_r\<close> fills in, and a process identifier: numbers in their ranges.\<close>

definition tm_ok :: "tm \<Rightarrow> bool" where
  "tm_ok t \<longleftrightarrow>
     0 \<le> tm_sec t \<and> tm_sec t \<le> 60 \<and> 0 \<le> tm_min t \<and> tm_min t < 60 \<and> 0 \<le> tm_hour t \<and> tm_hour t < 24 \<and>
     1 \<le> tm_mday t \<and> tm_mday t \<le> 31 \<and> 0 \<le> tm_mon t \<and> tm_mon t < 12 \<and> 0 \<le> tm_wday t \<and> tm_wday t < 7 \<and>
     - (2 ^ 31) \<le> tm_year t \<and> tm_year t + 1900 < 2 ^ 31 \<and> - 86400 \<le> tm_gmtoff t \<and> tm_gmtoff t \<le> 86400"

definition env_ok :: "('e) pattern_env_scheme \<Rightarrow> bool" where
  "env_ok env \<longleftrightarrow> (\<forall>s. tm_ok (pe_localtime env s)) \<and> - (2 ^ 31) \<le> pe_pid env \<and> pe_pid env < 2 ^ 31"

lemma smod_bounds: "0 < b \<Longrightarrow> - b < a smod b \<and> a smod b < (b :: int)"
proof -
  assume b: "0 < b"
  have "a smod b = sgn a * (\<bar>a\<bar> mod b)" using b by (simp add: signed_modulo_int_def signed_divide_int_def)
  moreover define r where "r = \<bar>a\<bar> mod b"
  moreover have "0 \<le> r" "r < b" using b by (simp_all add: r_def)
  ultimately show ?thesis by (auto simp: sgn_if)
qed

lemma sdiv_pos: "0 \<le> a \<Longrightarrow> 0 < b \<Longrightarrow> a sdiv b = a div (b :: int)"
  by (cases "a = 0") (simp_all add: signed_divide_int_def)

lemma smod_pos: "0 \<le> a \<Longrightarrow> 0 < b \<Longrightarrow> a smod b = a mod (b :: int)"
  by (cases "a = 0") (simp_all add: signed_modulo_int_def sdiv_pos minus_mult_div_eq_mod)

lemma zero_pad_returns: "\<bar>v\<bar> < 2 ^ 31 \<Longrightarrow> \<exists>s. zero_pad v w = Inr s"
  by (simp add: write_int_pads)

lemma appends_returns: "list_all (\<lambda>x. \<exists>s. x = Inr s) xs \<Longrightarrow> \<exists>s. appends xs = Inr s"
  by (induction xs) auto

lemma pad_n_join_returns:
  "\<bar>a\<bar> < 2 ^ 31 \<Longrightarrow> \<bar>b\<bar> < 2 ^ 31 \<Longrightarrow> \<exists>s. pad_n_join2 a b sep = Inr s"
  "\<bar>a\<bar> < 2 ^ 31 \<Longrightarrow> \<bar>b\<bar> < 2 ^ 31 \<Longrightarrow> \<bar>c\<bar> < 2 ^ 31 \<Longrightarrow> \<exists>s. pad_n_join a b c sep = Inr s"
  unfolding pad_n_join2_def pad_n_join_def by (rule appends_returns; simp add: write_int_pads)+

lemma smod_small: "\<bar>a smod 100\<bar> < (2 :: int) ^ 31" "\<bar>a smod 1000\<bar> < (2 :: int) ^ 31" "\<bar>a smod 1000000\<bar> < (2 :: int) ^ 31"
  "\<bar>a smod 1000000000\<bar> < (2 :: int) ^ 31"
  using smod_bounds [of 100 a] smod_bounds [of 1000 a] smod_bounds [of 1000000 a] smod_bounds [of 1000000000 a]
  by (simp_all add: abs_less_iff)

lemma array_at_returns: "0 \<le> i \<Longrightarrow> i < int (length xs) \<Longrightarrow> \<exists>s. array_at xs i = Inr s"
  by (simp add: array_at_def)

lemma tm_small:
  assumes "tm_ok t"
  shows "\<bar>tm_sec t\<bar> < 2 ^ 31" "\<bar>tm_min t\<bar> < 2 ^ 31" "\<bar>tm_hour t\<bar> < 2 ^ 31" "\<bar>tm_mday t\<bar> < 2 ^ 31" "\<bar>tm_mon t + 1\<bar> < 2 ^ 31"
    "\<bar>to12h t\<bar> < 2 ^ 31"
  using assms by (simp_all add: tm_ok_def to12h_def)

lemma z_text_returns: "tm_ok t \<Longrightarrow> \<exists>s. z_text t = Inr s"
proof -
  assume "tm_ok t"
  define total where "total = \<bar>utc_minutes_offset t\<bar>"
  have "z_text t = appends [Inr (if utc_minutes_offset t < 0 then ''-'' else ''+''),
      pad_n_join2 (total sdiv 60) (total smod 60) (CHR '':'')]"
    by (simp add: z_text_def Let_def total_def abs_if)
  moreover have "0 \<le> total" "total \<le> 1440"
  proof -
    show "0 \<le> total" by (simp add: total_def)
    have "\<bar>tm_gmtoff t\<bar> \<le> 86400" using \<open>tm_ok t\<close> by (simp add: tm_ok_def abs_le_iff)
    then have "\<bar>tm_gmtoff t\<bar> div 60 \<le> 1440" using zdiv_mono1 [of "\<bar>tm_gmtoff t\<bar>" 86400 60] by simp
    moreover have "total = \<bar>tm_gmtoff t\<bar> div 60"
      by (simp add: total_def utc_minutes_offset_def signed_divide_int_def abs_mult sgn_if)
    ultimately show "total \<le> 1440" by simp
  qed
  then have "\<bar>total sdiv 60\<bar> < 2 ^ 31" "\<bar>total smod 60\<bar> < 2 ^ 31" by (simp_all add: sdiv_pos smod_pos)
  then obtain s where "pad_n_join2 (total sdiv 60) (total smod 60) (CHR '':'') = Inr s" using pad_n_join_returns(1) by blast
  ultimately show ?thesis by simp
qed

lemma write_decimal_returns: "- (2 ^ 31) \<le> v \<Longrightarrow> v < 2 ^ 31 \<Longrightarrow> \<exists>s. write_decimal v = Inr s"
  by (simp add: write_decimal_prints)

lemmas writers_return = zero_pad_returns pad_n_join_returns write_decimal_returns array_at_returns z_text_returns

lemma flag_text_returns:
  assumes "env_ok env" and "tm_ok t"
  shows "\<exists>s. flag_text env t m f = Inr s"
proof -
  have range: "0 \<le> tm_wday t" "tm_wday t < int (length days)" "tm_wday t < int (length full_days)" "0 \<le> tm_mon t"
    "tm_mon t < int (length months)" "tm_mon t < int (length full_months)" "- (2 ^ 31) \<le> tm_year t + 1900" "tm_year t + 1900 < 2 ^ 31"
    "- (2 ^ 31) \<le> tm_mday t" "tm_mday t < 2 ^ 31" "- (2 ^ 31) \<le> pe_pid env" "pe_pid env < 2 ^ 31"
    using assms by (simp_all add: tm_ok_def env_ok_def days_def full_days_def months_def full_months_def)
  note small = tm_small [OF assms(2)] smod_small
  show ?thesis
  proof (cases f)
    case D_upper_formatter
    then show ?thesis using pad_n_join_returns(2) [OF small(5,4), of "tm_year t smod 100"] small(7) by simp
  next
    case M_lower_formatter
    then show ?thesis using zero_pad_returns [OF small(5)] by simp
  next
    case C_lower_formatter
    show ?thesis unfolding C_lower_formatter flag_text.simps
      by (rule appends_returns) (simp add: writers_return range small del: power_numeral)
  next
    case R_lower_formatter
    show ?thesis unfolding R_lower_formatter flag_text.simps
      by (rule appends_returns) (simp add: writers_return range small del: power_numeral)
  next
    case Full_formatter
    show ?thesis unfolding Full_formatter flag_text.simps full_text_def Let_def
      by (rule appends_returns) (simp add: write_uint_pads)
  qed (simp_all add: writers_return range small assms(2) write_int_64_pads del: power_numeral)
qed

lemma expand_returns:
  assumes "env_ok env" and "tm_ok t"
  shows "\<exists>s. expand env t m p = Inr s"
proof (induction p rule: length_induct)
  case (1 p)
  show ?case
  proof (cases p)
    case Nil
    then show ?thesis by simp
  next
    case (Cons c cs)
    show ?thesis
    proof (cases "c = CHR ''%'' \<and> cs \<noteq> []")
      case True
      then obtain flag cs' where cs: "cs = flag # cs'" by (cases cs) auto
      with 1 Cons obtain s where "expand env t m cs' = Inr s" by force
      then show ?thesis
      proof (cases "map_of flag_formatters flag")
        case None
        with True Cons cs \<open>expand env t m cs' = Inr s\<close> show ?thesis by simp
      next
        case (Some f)
        from flag_text_returns [OF assms, of m f] obtain u where "flag_text env t m f = Inr u" by blast
        with Some True Cons cs \<open>expand env t m cs' = Inr s\<close> show ?thesis by simp
      qed
    next
      case False
      from 1 Cons obtain s where "expand env t m cs = Inr s" by force
      with False Cons show ?thesis by (cases "c = CHR ''%''") auto
    qed
  qed
qed

lemma pattern_format_expand:
  assumes "expand env (pe_localtime env (lm_time m sdiv 1000000000)) m p = Inr s"
  shows "pattern_format env (compile_pattern p) m = Inr (m\<lparr>lm_formatted := lm_formatted m @ s @ eol\<rparr>)"
  using assms by (simp add: pattern_format_def run_formatters_appends compile_pattern_def compile_loop_expand)

text \<open>
  C24. The compiled form of a pattern means what the pattern says: for every pattern and every message, the formatters
  append the text that reading the pattern character by character gives, with plain characters and unknown flags as
  they are and a single percent sign at the end dropped, and then the end of the line. With times and a process
  identifier in their ranges no formatter reads outside its tables, so that every message has a line.
\<close>

theorem pattern_meaning:
  "env_ok env \<Longrightarrow>
    \<exists>s. expand env (pe_localtime env (lm_time m sdiv 1000000000)) m p = Inr s \<and>
        pattern_format env (compile_pattern p) m = Inr (m\<lparr>lm_formatted := lm_formatted m @ s @ eol\<rparr>)"
  using expand_returns [of env "pe_localtime env (lm_time m sdiv 1000000000)" m p] pattern_format_expand [of env m p]
  by (auto simp: env_ok_def)

definition sample_tm :: tm where
  "sample_tm = \<lparr>tm_sec = 7, tm_min = 5, tm_hour = 0, tm_mday = 9, tm_mon = 2, tm_year = 119, tm_wday = 6, tm_gmtoff = - 5400\<rparr>"

definition sample_pattern_env :: pattern_env where
  "sample_pattern_env = \<lparr>pe_localtime = \<lambda>_. sample_tm, pe_pid = 42\<rparr>"

definition sample_log_msg :: log_msg where
  "sample_log_msg = \<lparr>lm_logger_name = ''urd'', lm_level = Level_warn, lm_time = 1552089907000123456, lm_thread_id = 77,
     lm_raw = ''Shutting down'', lm_formatted = []\<rparr>"

lemma sample_env_ok: "env_ok sample_pattern_env"
  by (simp add: env_ok_def sample_pattern_env_def sample_tm_def tm_ok_def)

theorem pattern_meaning_witness:
  "\<exists>s. expand sample_pattern_env (pe_localtime sample_pattern_env (lm_time sample_log_msg sdiv 1000000000)) sample_log_msg
          ''%I o'clock 100%'' = Inr s \<and>
        pattern_format sample_pattern_env (compile_pattern ''%I o'clock 100%'') sample_log_msg =
          Inr (sample_log_msg\<lparr>lm_formatted := lm_formatted sample_log_msg @ s @ eol\<rparr>)"
  by (rule pattern_meaning [OF sample_env_ok])

text \<open>The pattern of the daemon, and the line it gives.\<close>

definition norns_pattern :: string where
  "norns_pattern = ''[%Y-%m-%d %T.%f] [%n] [%t] [%l] %v''"

definition two :: "int \<Rightarrow> string" where
  "two v = left_pad 2 (CHR ''0'') (print_int v)"

definition norns_line :: "tm \<Rightarrow> log_msg \<Rightarrow> string" where
  "norns_line t m =
     ''['' @ print_int (tm_year t + 1900) @ ''-'' @ two (tm_mon t + 1) @ ''-'' @ two (tm_mday t) @ '' '' @
     two (tm_hour t) @ '':'' @ two (tm_min t) @ '':'' @ two (tm_sec t) @ ''.'' @
     left_pad 6 (CHR ''0'') (print_int (lm_time m sdiv 1000 smod 1000000)) @
     ''] ['' @ lm_logger_name m @ ''] ['' @ decimal_digits (unat (lm_thread_id m)) @ ''] ['' @ to_str (lm_level m) @ ''] '' @
     lm_raw m"

lemma in_int_range: "\<bar>v\<bar> < 2 ^ 31 \<Longrightarrow> zero_pad v w = Inr (left_pad w (CHR ''0'') (print_int v))"
  by (simp add: write_int_pads)

lemma expand_norns_pattern:
  assumes "tm_ok t"
  shows "expand env t m norns_pattern = Inr (norns_line t m)"
proof -
  have year: "write_decimal (tm_year t + 1900) = Inr (print_int (tm_year t + 1900))"
    using assms by (intro write_decimal_prints) (simp_all add: tm_ok_def)
  note pads = in_int_range [OF tm_small(1) [OF assms]] in_int_range [OF tm_small(2) [OF assms]]
    in_int_range [OF tm_small(3) [OF assms]] in_int_range [OF tm_small(4) [OF assms]] in_int_range [OF tm_small(5) [OF assms]]
    in_int_range [OF smod_small(3)]
  have "left_pad 0 c s = s" for c s by (simp add: left_pad_def)
  then show ?thesis
    by (simp add: norns_pattern_def norns_line_def two_def flag_formatters_def year pads pad_n_join_def write_int_64_pads)
qed

end
