(* ===== verification/Async_Log.thy ===== *)
theory Async_Log
  imports Log_Queue Log_Pattern
begin

text \<open>
  The loggers of spdlog that the daemon uses (\<^verbatim>\<open>src/spdlog\<close>): the sinks (\<^verbatim>\<open>sinks/sink.h\<close>, \<^verbatim>\<open>sinks/stdout_sinks.h\<close>,
  \<^verbatim>\<open>sinks/ansicolor_sink.h\<close>, \<^verbatim>\<open>sinks/file_sinks.h\<close> with \<^verbatim>\<open>details/file_helper.h\<close>, \<^verbatim>\<open>sinks/syslog_sink.h\<close>), the logger that
  writes in the thread of the caller (\<^verbatim>\<open>details/logger_impl.h\<close>), and the logger that hands the messages to a thread of
  its own through the queue (\<^verbatim>\<open>details/async_logger_impl.h\<close>, \<^verbatim>\<open>details/async_log_helper.h\<close>). The C library's streams and
  clocks are parameters.
\<close>

section \<open>Sinks\<close>

text \<open>
  The outside: what was written to the standard streams and handed to \<^verbatim>\<open>syslog\<close>, and for each open file the text written
  to its stream with the length of the part that has been flushed. The number of readings of the clock makes each reading
  a different one.
\<close>

record log_world =
  lw_stdout :: string
  lw_stderr :: string
  lw_files :: "string \<rightharpoonup> string \<times> nat"
  lw_syslog :: "(int \<times> string) list"
  lw_clock :: nat

record log_env = pattern_env +
  le_now :: "nat \<Rightarrow> int"                                \<comment> \<open>the readings of the clock\<close>
  le_stdout :: "log_world \<Rightarrow> string \<Rightarrow> nat"              \<comment> \<open>how much \<^verbatim>\<open>fwrite\<close> writes to the standard output\<close>
  le_fwrite :: "string \<Rightarrow> log_world \<Rightarrow> string \<Rightarrow> nat"    \<comment> \<open>how much \<^verbatim>\<open>fwrite\<close> writes to a file\<close>
  le_fflush :: "string \<Rightarrow> log_world \<Rightarrow> bool"            \<comment> \<open>whether \<^verbatim>\<open>fflush\<close> succeeds\<close>
  le_errno_str :: "log_world \<Rightarrow> string"                  \<comment> \<open>the text of \<^verbatim>\<open>errno\<close>\<close>
  le_date :: "int \<Rightarrow> string"                             \<comment> \<open>\<^verbatim>\<open>strftime\<close> of the local time\<close>

datatype sink_kind =
    Stdout_sink
  | Ansicolor_sink sink_kind
  | Simple_file_sink string
  | Syslog_sink string

record sink =
  sk_level :: level_enum
  sk_kind :: sink_kind

definition new_sink :: "sink_kind \<Rightarrow> sink" where
  "new_sink k = \<lparr>sk_level = Level_trace, sk_kind = k\<rparr>"

definition sink_should_log :: "sink \<Rightarrow> level_enum \<Rightarrow> bool" where
  "sink_should_log s l \<longleftrightarrow> sk_level s \<le> l"

definition esc :: "string \<Rightarrow> string" where
  "esc code = CHR 0x1B # CHR ''['' # code @ ''m''"

fun sink_color :: "level_enum \<Rightarrow> string" where
  "sink_color Level_trace = esc ''36''"
| "sink_color Level_debug = esc ''36''"
| "sink_color Level_info = esc ''1''"
| "sink_color Level_warn = esc ''33'' @ esc ''1''"
| "sink_color Level_err = esc ''31'' @ esc ''1''"
| "sink_color Level_critical = esc ''1'' @ esc ''41''"
| "sink_color Level_off = esc ''00''"

fun syslog_prio :: "level_enum \<Rightarrow> int" where
  "syslog_prio Level_trace = 7"
| "syslog_prio Level_debug = 7"
| "syslog_prio Level_info = 6"
| "syslog_prio Level_warn = 4"
| "syslog_prio Level_err = 3"
| "syslog_prio Level_critical = 2"
| "syslog_prio Level_off = 6"

text \<open>
  A sink writes a message, or throws: the result is the text of the exception, if any, and the world. A stream that was
  opened is in \<open>lw_files\<close>; the write to one that is not would go through a null pointer, which no sink does, since its
  constructor opens the file.
\<close>

definition file_write :: "('e) log_env_scheme \<Rightarrow> string \<Rightarrow> string \<Rightarrow> log_world \<Rightarrow> string option \<times> log_world" where
  "file_write env f text w =
     (case lw_files w f of
        None \<Rightarrow> (None, w)
      | Some (written, flushed) \<Rightarrow>
          let n = le_fwrite env f w text;
              w' = w\<lparr>lw_files := (lw_files w)(f \<mapsto> (written @ take n text, flushed))\<rparr>
          in if n \<noteq> length text then (Some (''Failed writing to file '' @ f @ '': '' @ le_errno_str env w'), w')
             else (None, w'))"

definition stdout_sink_it :: "('e) log_env_scheme \<Rightarrow> log_msg \<Rightarrow> log_world \<Rightarrow> log_world" where
  "stdout_sink_it env m w = w\<lparr>lw_stdout := lw_stdout w @ take (le_stdout env w (lm_formatted m)) (lm_formatted m)\<rparr>"

definition ansicolor_msg :: "log_msg \<Rightarrow> log_msg" where
  "ansicolor_msg m = m\<lparr>lm_raw := [], lm_formatted := sink_color (lm_level m) @ lm_formatted m @ esc ''00''\<rparr>"

definition syslog_log :: "log_msg \<Rightarrow> log_world \<Rightarrow> log_world" where
  "syslog_log m w = w\<lparr>lw_syslog := lw_syslog w @ [(syslog_prio (lm_level m), takeWhile (\<lambda>c. c \<noteq> CHR 0x00) (lm_raw m))]\<rparr>"

fun sink_log :: "('e) log_env_scheme \<Rightarrow> sink_kind \<Rightarrow> log_msg \<Rightarrow> log_world \<Rightarrow> string option \<times> log_world" where
  "sink_log env Stdout_sink m w = (None, stdout_sink_it env m w)"
| "sink_log env (Ansicolor_sink k) m w = sink_log env k (ansicolor_msg m) w"
| "sink_log env (Simple_file_sink f) m w = file_write env f (lm_formatted m) w"
| "sink_log env (Syslog_sink ident) m w = (None, syslog_log m w)"

fun sink_flush :: "('e) log_env_scheme \<Rightarrow> sink_kind \<Rightarrow> log_world \<Rightarrow> log_world" where
  "sink_flush env Stdout_sink w = w"
| "sink_flush env (Ansicolor_sink k) w = sink_flush env k w"
| "sink_flush env (Simple_file_sink f) w =
     (case lw_files w f of
        None \<Rightarrow> w
      | Some (written, flushed) \<Rightarrow>
          if le_fflush env f w then w\<lparr>lw_files := (lw_files w)(f \<mapsto> (written, length written))\<rparr> else w)"
| "sink_flush env (Syslog_sink ident) w = w"

text \<open>The loops over the sinks of a logger: an exception ends the first.\<close>

fun sinks_log :: "('e) log_env_scheme \<Rightarrow> sink list \<Rightarrow> log_msg \<Rightarrow> log_world \<Rightarrow> string option \<times> log_world" where
  "sinks_log env [] m w = (None, w)"
| "sinks_log env (s # ss) m w =
     (if sink_should_log s (lm_level m) then
        (case sink_log env (sk_kind s) m w of
           (Some e, w') \<Rightarrow> (Some e, w')
         | (None, w') \<Rightarrow> sinks_log env ss m w')
      else sinks_log env ss m w)"

fun sinks_flush :: "('e) log_env_scheme \<Rightarrow> sink list \<Rightarrow> log_world \<Rightarrow> log_world" where
  "sinks_flush env [] w = w"
| "sinks_flush env (s # ss) w = sinks_flush env ss (sink_flush env (sk_kind s) w)"

definition read_clock :: "('e) log_env_scheme \<Rightarrow> log_world \<Rightarrow> int \<times> log_world" where
  "read_clock env w = (le_now env (lw_clock w), w\<lparr>lw_clock := Suc (lw_clock w)\<rparr>)"

section \<open>The messages of the queue\<close>

datatype async_msg_type = Msg_log | Msg_flush | Msg_terminate

record async_msg =
  am_logger_name :: string
  am_level :: level_enum
  am_time :: int
  am_thread_id :: u64
  am_txt :: string
  am_msg_type :: async_msg_type

text \<open>The fields of a message that only has a type are not initialised, and not read.\<close>

definition async_msg_of_type :: "async_msg_type \<Rightarrow> async_msg" where
  "async_msg_of_type t =
     \<lparr>am_logger_name = [], am_level = Level_trace, am_time = 0, am_thread_id = 0, am_txt = [], am_msg_type = t\<rparr>"

definition async_msg_of :: "log_msg \<Rightarrow> async_msg" where
  "async_msg_of m =
     \<lparr>am_logger_name = lm_logger_name m, am_level = lm_level m, am_time = lm_time m, am_thread_id = lm_thread_id m,
      am_txt = lm_raw m, am_msg_type = Msg_log\<rparr>"

definition fill_log_msg :: "async_msg \<Rightarrow> log_msg" where
  "fill_log_msg a =
     \<lparr>lm_logger_name = am_logger_name a, lm_level = am_level a, lm_time = am_time a, lm_thread_id = am_thread_id a,
      lm_raw = am_txt a, lm_formatted = []\<rparr>"

section \<open>The worker\<close>

datatype async_overflow_policy = Block_retry | Discard_log_msg

text \<open>
  The helper of an asynchronous logger, with the local variables of its thread's loop: \<open>ah_active\<close>, and the times of the
  last message and the last flush. The intervals are in nanoseconds. The callbacks of the worker are never set.
\<close>

record async_helper =
  ah_formatter :: "flag_formatter list"
  ah_sinks :: "sink list"
  ah_q :: "async_msg mpmc"
  ah_flush_requested :: bool
  ah_terminate_requested :: bool
  ah_overflow_policy :: async_overflow_policy
  ah_flush_interval :: int
  ah_active :: bool
  ah_last_pop :: int
  ah_last_flush :: int

text \<open>
  What a thread does while it waits, by the time since the last operation: it spins up to 50 microseconds, yields up to
  100, and sleeps 20 or 200 milliseconds.
\<close>

datatype pause = Spin | Yield | Sleep_ms nat

definition sleep_or_yield :: "int \<Rightarrow> int \<Rightarrow> pause" where
  "sleep_or_yield now last_op_time =
     (let time_since_op = now - last_op_time
      in if time_since_op \<le> 50000 then Spin
         else if time_since_op \<le> 100000 then Yield
         else if time_since_op \<le> 200000000 then Sleep_ms 20
         else Sleep_ms 200)"

definition handle_flush_interval :: "('e) log_env_scheme \<Rightarrow> int \<Rightarrow> async_helper \<Rightarrow> log_world \<Rightarrow> async_helper \<times> log_world" where
  "handle_flush_interval env now h w =
     (let should_flush = ah_flush_requested h \<or> (ah_flush_interval h \<noteq> 0 \<and> ah_flush_interval h \<le> now - ah_last_flush h)
      in if should_flush then
           let (now, w) = read_clock env (sinks_flush env (ah_sinks h) w)
           in (h\<lparr>ah_last_flush := now, ah_flush_requested := False\<rparr>, w)
         else (h, w))"

definition process_next_msg ::
  "('e) log_env_scheme \<Rightarrow> async_helper \<Rightarrow> log_world \<Rightarrow> ((string + bool) \<times> async_helper \<times> log_world) outcome" where
  "process_next_msg env h w =
     (case dequeue (ah_q h) of
        None \<Rightarrow> Inl Diverges
      | Some (Some msg, q) \<Rightarrow>
          let (now, w) = read_clock env w; h = h\<lparr>ah_q := q, ah_last_pop := now\<rparr>
          in (case am_msg_type msg of
                Msg_flush \<Rightarrow> Inr (Inr True, h\<lparr>ah_flush_requested := True\<rparr>, w)
              | Msg_terminate \<Rightarrow> Inr (Inr True, h\<lparr>ah_flush_requested := True, ah_terminate_requested := True\<rparr>, w)
              | Msg_log \<Rightarrow>
                  obind (pattern_format env (ah_formatter h) (fill_log_msg msg)) (\<lambda>m.
                    case sinks_log env (ah_sinks h) m w of
                      (Some e, w) \<Rightarrow> Inr (Inl e, h, w)
                    | (None, w) \<Rightarrow> Inr (Inr True, h, w)))
      | Some (None, q) \<Rightarrow>
          let (now, w) = read_clock env w; (h, w) = handle_flush_interval env now (h\<lparr>ah_q := q\<rparr>) w
          in Inr (Inr (\<not> ah_terminate_requested h), h, w))"

text \<open>
  One attempt of \<^verbatim>\<open>push_msg\<close>: the message is in the queue, or dropped, or the queue was full and the thread tries again.
\<close>

datatype push_result = Pushed | Discarded | Full

definition push_msg :: "async_msg \<Rightarrow> async_helper \<Rightarrow> (push_result \<times> async_helper) outcome" where
  "push_msg msg h =
     (case enqueue msg (ah_q h) of
        None \<Rightarrow> Inl Diverges
      | Some (True, q) \<Rightarrow> Inr (Pushed, h\<lparr>ah_q := q\<rparr>)
      | Some (False, q) \<Rightarrow> Inr (if ah_overflow_policy h = Discard_log_msg then Discarded else Full, h\<lparr>ah_q := q\<rparr>))"

section \<open>Loggers\<close>

text \<open>
  A logger; \<open>sl_async\<close> is the helper of an asynchronous one. The handler of errors is the default one, or a function of
  the program.
\<close>

record spd_logger =
  sl_name :: string
  sl_sinks :: "sink list"
  sl_formatter :: "flag_formatter list"
  sl_level :: level_enum
  sl_flush_level :: level_enum
  sl_last_err_time :: int
  sl_err_handler :: "(string \<Rightarrow> log_world \<Rightarrow> log_world) option"
  sl_async :: "async_helper option"

definition new_logger :: "string \<Rightarrow> sink list \<Rightarrow> spd_logger" where
  "new_logger nm sinks =
     \<lparr>sl_name = nm, sl_sinks = sinks, sl_formatter = compile_pattern ''%+'', sl_level = Level_info, sl_flush_level = Level_off,
      sl_last_err_time = 0, sl_err_handler = None, sl_async = None\<rparr>"

definition new_async_helper ::
  "('e) log_env_scheme \<Rightarrow> flag_formatter list \<Rightarrow> sink list \<Rightarrow> u64 \<Rightarrow> async_overflow_policy \<Rightarrow> int \<Rightarrow> log_world \<Rightarrow>
    (string + async_helper) \<times> log_world" where
  "new_async_helper env fmt sinks queue_size policy interval w =
     (case mpmc_new (async_msg_of_type Msg_log) queue_size of
        Inl e \<Rightarrow> (Inl e, w)
      | Inr q \<Rightarrow>
          let (now, w) = read_clock env w
          in (Inr \<lparr>ah_formatter = fmt, ah_sinks = sinks, ah_q = q, ah_flush_requested = False, ah_terminate_requested = False,
                ah_overflow_policy = policy, ah_flush_interval = interval, ah_active = True, ah_last_pop = now,
                ah_last_flush = now\<rparr>, w))"

definition new_async_logger ::
  "('e) log_env_scheme \<Rightarrow> string \<Rightarrow> sink list \<Rightarrow> u64 \<Rightarrow> async_overflow_policy \<Rightarrow> int \<Rightarrow> log_world \<Rightarrow>
    (string + spd_logger) \<times> log_world" where
  "new_async_logger env nm sinks queue_size policy interval w =
     (let l = new_logger nm sinks
      in case new_async_helper env (sl_formatter l) sinks queue_size policy interval w of
           (Inl e, w) \<Rightarrow> (Inl e, w)
         | (Inr h, w) \<Rightarrow> (Inr (l\<lparr>sl_async := Some h\<rparr>), w))"

definition set_formatter :: "flag_formatter list \<Rightarrow> spd_logger \<Rightarrow> spd_logger" where
  "set_formatter f l = l\<lparr>sl_formatter := f, sl_async := map_option (\<lambda>h. h\<lparr>ah_formatter := f\<rparr>) (sl_async l)\<rparr>"

definition set_pattern :: "string \<Rightarrow> spd_logger \<Rightarrow> spd_logger" where
  "set_pattern pattern l = set_formatter (compile_pattern pattern) l"

definition should_flush_on :: "spd_logger \<Rightarrow> level_enum \<Rightarrow> bool" where
  "should_flush_on l lvl \<longleftrightarrow> sl_flush_level l \<le> lvl \<and> lvl \<noteq> Level_off"

definition default_err_handler :: "('e) log_env_scheme \<Rightarrow> string \<Rightarrow> spd_logger \<Rightarrow> log_world \<Rightarrow> spd_logger \<times> log_world" where
  "default_err_handler env msg l w =
     (let (clock, w) = read_clock env w; now = clock sdiv 1000000000
      in if now - sl_last_err_time l < 60 then (l, w)
         else
           (l\<lparr>sl_last_err_time := now\<rparr>,
            w\<lparr>lw_stderr := lw_stderr w @ ''[*** LOG ERROR ***] ['' @ sl_name l @ ''] ['' @ msg @ ''] ['' @ le_date env now @ '']'' @ eol\<rparr>))"

definition call_err_handler :: "('e) log_env_scheme \<Rightarrow> string \<Rightarrow> spd_logger \<Rightarrow> log_world \<Rightarrow> spd_logger \<times> log_world" where
  "call_err_handler env msg l w =
     (case sl_err_handler l of None \<Rightarrow> default_err_handler env msg l w | Some f \<Rightarrow> (l, f msg w))"

definition set_level :: "level_enum \<Rightarrow> spd_logger \<Rightarrow> spd_logger" where
  "set_level lvl l = l\<lparr>sl_level := lvl\<rparr>"

definition flush_on :: "level_enum \<Rightarrow> spd_logger \<Rightarrow> spd_logger" where
  "flush_on lvl l = l\<lparr>sl_flush_level := lvl\<rparr>"

definition set_error_handler :: "(string \<Rightarrow> log_world \<Rightarrow> log_world) \<Rightarrow> spd_logger \<Rightarrow> spd_logger" where
  "set_error_handler f l = l\<lparr>sl_err_handler := Some f\<rparr>"

text \<open>
  \<^verbatim>\<open>logger::log\<close> with its virtual \<^verbatim>\<open>_sink_it\<close>. The text of the message is what the formatting library makes of the
  arguments, or the exception it throws. A logger without a helper writes the line; one with a helper has messages to
  push, the result. \<open>tid\<close> is the thread that calls.
\<close>

definition sink_it :: "('e) log_env_scheme \<Rightarrow> log_msg \<Rightarrow> spd_logger \<Rightarrow> log_world \<Rightarrow> (string option \<times> log_world) outcome" where
  "sink_it env m l w =
     obind (pattern_format env (sl_formatter l) m) (\<lambda>m.
       case sinks_log env (sl_sinks l) m w of
         (Some e, w) \<Rightarrow> Inr (Some e, w)
       | (None, w) \<Rightarrow> Inr (None, if should_flush_on l (lm_level m) then sinks_flush env (sl_sinks l) w else w))"

definition async_sink_it :: "log_msg \<Rightarrow> spd_logger \<Rightarrow> async_msg list" where
  "async_sink_it m l = async_msg_of m # (if should_flush_on l (lm_level m) then [async_msg_of_type Msg_flush] else [])"

definition logger_log ::
  "('e) log_env_scheme \<Rightarrow> u64 \<Rightarrow> level_enum \<Rightarrow> (string + string) \<Rightarrow> spd_logger \<Rightarrow> log_world \<Rightarrow>
    (spd_logger \<times> log_world \<times> async_msg list) outcome" where
  "logger_log env tid lvl given l w =
     (if \<not> sl_level l \<le> lvl then Inr (l, w, [])
      else
        let (now, w) = read_clock env w
        in case given of
             Inl e \<Rightarrow> let (l, w) = call_err_handler env e l w in Inr (l, w, [])
           | Inr raw \<Rightarrow>
               let m = \<lparr>lm_logger_name = sl_name l, lm_level = lvl, lm_time = now, lm_thread_id = tid, lm_raw = raw,
                        lm_formatted = []\<rparr>
               in case sl_async l of
                    Some h \<Rightarrow> Inr (l, w, async_sink_it m l)
                  | None \<Rightarrow>
                      obind (sink_it env m l w) (\<lambda>(e, w).
                        case e of
                          None \<Rightarrow> Inr (l, w, [])
                        | Some e \<Rightarrow> let (l, w) = call_err_handler env e l w in Inr (l, w, [])))"

text \<open>\<^verbatim>\<open>flush\<close>: an asynchronous logger pushes a message, and then waits until the queue looks empty.\<close>

definition logger_flush :: "('e) log_env_scheme \<Rightarrow> spd_logger \<Rightarrow> log_world \<Rightarrow> log_world \<times> async_msg list" where
  "logger_flush env l w =
     (case sl_async l of
        None \<Rightarrow> (sinks_flush env (sl_sinks l) w, [])
      | Some h \<Rightarrow> (w, [async_msg_of_type Msg_flush]))"

definition wait_empty_q_done :: "async_helper \<Rightarrow> bool" where
  "wait_empty_q_done h \<longleftrightarrow> approx_size (ah_q h) = 0"

text \<open>One iteration of \<^verbatim>\<open>worker_loop\<close>: an exception goes to the handler, and the thread goes on.\<close>

definition log_worker_step :: "('e) log_env_scheme \<Rightarrow> spd_logger \<Rightarrow> log_world \<Rightarrow> (spd_logger \<times> log_world) outcome" where
  "log_worker_step env l w =
     (case sl_async l of
        None \<Rightarrow> Inr (l, w)
      | Some h \<Rightarrow>
          if \<not> ah_active h then Inr (l, w)
          else
            obind (process_next_msg env h w) (\<lambda>(r, h, w).
              case r of
                Inl e \<Rightarrow> Inr (call_err_handler env e (l\<lparr>sl_async := Some h\<rparr>) w)
              | Inr active \<Rightarrow> Inr (l\<lparr>sl_async := Some (h\<lparr>ah_active := active\<rparr>)\<rparr>, w)))"

definition worker_active :: "spd_logger \<Rightarrow> bool" where
  "worker_active l \<longleftrightarrow> (case sl_async l of None \<Rightarrow> False | Some h \<Rightarrow> ah_active h)"

fun worker_loop :: "nat \<Rightarrow> ('e) log_env_scheme \<Rightarrow> spd_logger \<Rightarrow> log_world \<Rightarrow> (spd_logger \<times> log_world) outcome" where
  "worker_loop 0 env l w = (if worker_active l then Inl Diverges else Inr (l, w))"
| "worker_loop (Suc n) env l w =
     (if worker_active l
      then obind (log_worker_step env l w) (\<lambda>(l, w). worker_loop n env l w)
      else Inr (l, w))"

text \<open>
  The destructor of a logger: it pushes the message that ends the worker, while the worker makes room, and waits for the
  worker to end. The fuel bounds the iterations of the worker.
\<close>

fun destroy_logger :: "nat \<Rightarrow> ('e) log_env_scheme \<Rightarrow> spd_logger \<Rightarrow> log_world \<Rightarrow> (spd_logger \<times> log_world) outcome" where
  "destroy_logger 0 env l w = (if sl_async l = None then Inr (l, w) else Inl Diverges)"
| "destroy_logger (Suc n) env l w =
     (case sl_async l of
        None \<Rightarrow> Inr (l, w)
      | Some h \<Rightarrow>
          obind (push_msg (async_msg_of_type Msg_terminate) h) (\<lambda>(r, h).
            if r = Full then obind (log_worker_step env (l\<lparr>sl_async := Some h\<rparr>) w) (\<lambda>(l, w). destroy_logger n env l w)
            else worker_loop n env (l\<lparr>sl_async := Some h\<rparr>) w))"

end
