(* ===== verification/Async_Properties.thy ===== *)
theory Async_Properties
  imports Async_Log
begin

text \<open>
  What the asynchronous loggers of \<open>Async_Log\<close> guarantee: the worker writes the lines of the messages that were pushed, in
  that order, however the threads interleave, and all of them are on the stream, flushed, when the logger has been
  destroyed.
\<close>

section \<open>What reaches a stream\<close>

text \<open>The sinks that write lines to a stream: the text on the stream, what a line becomes on it, whether it is flushed.\<close>

fun stream_text :: "sink_kind \<Rightarrow> log_world \<Rightarrow> string" where
  "stream_text Stdout_sink w = lw_stdout w"
| "stream_text (Ansicolor_sink k) w = stream_text k w"
| "stream_text (Simple_file_sink f) w = (case lw_files w f of None \<Rightarrow> [] | Some (t, _) \<Rightarrow> t)"
| "stream_text (Syslog_sink ident) w = []"

fun stream_line :: "sink_kind \<Rightarrow> level_enum \<Rightarrow> string \<Rightarrow> string" where
  "stream_line Stdout_sink lvl s = s"
| "stream_line (Ansicolor_sink k) lvl s = stream_line k lvl (sink_color lvl @ s @ esc ''00'')"
| "stream_line (Simple_file_sink f) lvl s = s"
| "stream_line (Syslog_sink ident) lvl s = []"

fun is_stream :: "sink_kind \<Rightarrow> log_world \<Rightarrow> bool" where
  "is_stream Stdout_sink w = True"
| "is_stream (Ansicolor_sink k) w = is_stream k w"
| "is_stream (Simple_file_sink f) w = (lw_files w f \<noteq> None)"
| "is_stream (Syslog_sink ident) w = False"

fun stream_flushed :: "sink_kind \<Rightarrow> log_world \<Rightarrow> bool" where
  "stream_flushed Stdout_sink w = True"
| "stream_flushed (Ansicolor_sink k) w = stream_flushed k w"
| "stream_flushed (Simple_file_sink f) w = (case lw_files w f of None \<Rightarrow> True | Some (t, n) \<Rightarrow> n = length t)"
| "stream_flushed (Syslog_sink ident) w = True"

text \<open>Streams that accept everything: the C library's writes are complete and its flushes succeed.\<close>

definition writes_succeed :: "('e) log_env_scheme \<Rightarrow> bool" where
  "writes_succeed env \<longleftrightarrow>
     (\<forall>w s. le_stdout env w s = length s) \<and> (\<forall>f w s. le_fwrite env f w s = length s) \<and> (\<forall>f w. le_fflush env f w)"

lemma sink_log_stream:
  assumes "writes_succeed env" and "is_stream k w"
  shows "\<exists>w'. sink_log env k m w = (None, w') \<and> is_stream k w' \<and>
    stream_text k w' = stream_text k w @ stream_line k (lm_level m) (lm_formatted m)"
  using assms
proof (induction env k m w rule: sink_log.induct)
  case (2 env k m w)
  then show ?case by (simp add: ansicolor_msg_def del: append_assoc)
next
  case (3 env f m w)
  then show ?case by (auto simp: file_write_def writes_succeed_def)
qed (simp_all add: writes_succeed_def stdout_sink_it_def)

lemma sink_flush_stream [simp]:
  "stream_text k (sink_flush env k w) = stream_text k w" "is_stream k (sink_flush env k w) = is_stream k w"
  by (induction k) (auto split: option.splits)

lemma sink_flush_flushed: "writes_succeed env \<Longrightarrow> is_stream k w \<Longrightarrow> stream_flushed k (sink_flush env k w)"
  by (induction k) (auto simp: writes_succeed_def)

lemma read_clock_stream:
  "read_clock env w = (now, w') \<Longrightarrow>
    stream_text k w' = stream_text k w \<and> is_stream k w' = is_stream k w \<and> stream_flushed k w' = stream_flushed k w"
  by (induction k) (auto simp: read_clock_def)

section \<open>The worker writes what was pushed, in order\<close>

text \<open>
  The line of a message in the daemon's pattern, the lines of a sequence, and the state of a logger with one stream:
  of the messages that were pushed, those in \<open>gone\<close> have been processed and those in \<open>pending\<close> are in the queue.
\<close>

definition msg_line :: "('e) log_env_scheme \<Rightarrow> sink_kind \<Rightarrow> async_msg \<Rightarrow> string" where
  "msg_line env k a =
     stream_line k (am_level a) (norns_line (pe_localtime env (am_time a sdiv 1000000000)) (fill_log_msg a) @ eol)"

definition msg_lines :: "('e) log_env_scheme \<Rightarrow> sink_kind \<Rightarrow> async_msg list \<Rightarrow> string" where
  "msg_lines env k as = concat (map (msg_line env k) (filter (\<lambda>a. am_msg_type a = Msg_log) as))"

definition helper_state ::
  "('e) log_env_scheme \<Rightarrow> sink_kind \<Rightarrow> string \<Rightarrow> async_msg list \<Rightarrow> async_msg list \<Rightarrow> async_helper \<Rightarrow> log_world \<Rightarrow> bool" where
  "helper_state env k before gone pending h w \<longleftrightarrow>
     ah_sinks h = [new_sink k] \<and> ah_formatter h = compile_pattern norns_pattern \<and> ah_overflow_policy h = Block_retry \<and>
     log_queue_holds (ah_q h) pending \<and> is_stream k w \<and> stream_text k w = before @ msg_lines env k gone \<and>
     (ah_terminate_requested h \<longleftrightarrow> (\<exists>a \<in> set gone. am_msg_type a = Msg_terminate))"

lemma format_norns:
  assumes "env_ok env"
  shows "pattern_format env (compile_pattern norns_pattern) m =
    Inr (m\<lparr>lm_formatted := lm_formatted m @ norns_line (pe_localtime env (lm_time m sdiv 1000000000)) m @ eol\<rparr>)"
  using assms by (intro pattern_format_expand expand_norns_pattern) (simp add: env_ok_def)

lemma process_message:
  assumes "env_ok env" and "writes_succeed env" and "helper_state env k before gone (a # pending) h w"
  shows "\<exists>h' w'. process_next_msg env h w = Inr (Inr True, h', w') \<and> helper_state env k before (gone @ [a]) pending h' w' \<and>
    ah_active h' = ah_active h \<and> (ah_flush_requested h' \<longleftrightarrow> ah_flush_requested h \<or> am_msg_type a \<noteq> Msg_log)"
proof -
  note st = assms(3) [unfolded helper_state_def]
  obtain q where q: "dequeue (ah_q h) = Some (Some a, q)" "log_queue_holds q pending" using lq.get_first [of "ah_q h" a pending] st by blast
  obtain now w1 where w1: "read_clock env w = (now, w1)" by fastforce
  have keep: "is_stream k w1" "stream_text k w1 = before @ msg_lines env k gone" using read_clock_stream [OF w1, of k] st by auto
  show ?thesis
  proof (cases "am_msg_type a")
    case Msg_log
    define m where "m = (fill_log_msg a)\<lparr>lm_formatted := norns_line (pe_localtime env (am_time a sdiv 1000000000)) (fill_log_msg a) @ eol\<rparr>"
    have m: "pattern_format env (ah_formatter h) (fill_log_msg a) = Inr m"
      using format_norns [OF assms(1), of "fill_log_msg a"] st by (simp add: m_def fill_log_msg_def)
    obtain w2 where w2: "sink_log env k m w1 = (None, w2)" "is_stream k w2"
      "stream_text k w2 = stream_text k w1 @ stream_line k (lm_level m) (lm_formatted m)"
      using sink_log_stream [OF assms(2) keep(1), of m] by blast
    have "sinks_log env (ah_sinks h) m w1 = (None, w2)"
      using st w2(1) by (simp add: sink_should_log_def new_sink_def less_eq_level_enum_def)
    then have "process_next_msg env h w = Inr (Inr True, h\<lparr>ah_q := q, ah_last_pop := now\<rparr>, w2)"
      by (simp add: process_next_msg_def q w1 Msg_log m)
    moreover have "stream_line k (lm_level m) (lm_formatted m) = msg_line env k a"
      by (simp add: m_def msg_line_def fill_log_msg_def)
    then have "helper_state env k before (gone @ [a]) pending (h\<lparr>ah_q := q, ah_last_pop := now\<rparr>) w2"
      using st q(2) w2 keep Msg_log by (auto simp: helper_state_def msg_lines_def)
    ultimately show ?thesis using Msg_log by auto
  next
    case Msg_flush
    with st q(2) keep have "helper_state env k before (gone @ [a]) pending (h\<lparr>ah_q := q, ah_last_pop := now, ah_flush_requested := True\<rparr>) w1"
      by (auto simp: helper_state_def msg_lines_def)
    with Msg_flush q(1) w1 show ?thesis by (simp add: process_next_msg_def)
  next
    case Msg_terminate
    with st q(2) keep have "helper_state env k before (gone @ [a]) pending
        (h\<lparr>ah_q := q, ah_last_pop := now, ah_flush_requested := True, ah_terminate_requested := True\<rparr>) w1"
      by (auto simp: helper_state_def msg_lines_def)
    with Msg_terminate q(1) w1 show ?thesis by (simp add: process_next_msg_def)
  qed
qed

lemma process_empty:
  assumes "writes_succeed env" and "helper_state env k before gone [] h w"
  shows "\<exists>h' w'. process_next_msg env h w = Inr (Inr (\<not> ah_terminate_requested h), h', w') \<and>
    helper_state env k before gone [] h' w' \<and> ah_terminate_requested h' = ah_terminate_requested h \<and>
    (ah_flush_requested h \<longrightarrow> stream_flushed k w')"
proof -
  note st = assms(2) [unfolded helper_state_def]
  have q: "dequeue (ah_q h) = Some (None, ah_q h)" using lq.get_empty [of "ah_q h"] st by blast
  obtain now w1 where w1: "read_clock env w = (now, w1)" by fastforce
  have keep: "is_stream k w1" "stream_text k w1 = before @ msg_lines env k gone" using read_clock_stream [OF w1, of k] st by auto
  obtain h' w' where hf: "handle_flush_interval env now h w1 = (h', w')" by fastforce
  have "helper_state env k before gone [] h' w' \<and> ah_terminate_requested h' = ah_terminate_requested h \<and>
    (ah_flush_requested h \<longrightarrow> stream_flushed k w')"
  proof (cases "ah_flush_requested h \<or> (ah_flush_interval h \<noteq> 0 \<and> ah_flush_interval h \<le> now - ah_last_flush h)")
    case True
    obtain now2 w2 where w2: "read_clock env (sinks_flush env (ah_sinks h) w1) = (now2, w2)" by fastforce
    with True hf have res: "h' = h\<lparr>ah_last_flush := now2, ah_flush_requested := False\<rparr>" "w' = w2"
      by (simp_all add: handle_flush_interval_def)
    have "sinks_flush env (ah_sinks h) w1 = sink_flush env k w1" using st by (simp add: new_sink_def)
    with w2 keep sink_flush_flushed [OF assms(1) keep(1)]
    have "is_stream k w2" "stream_text k w2 = before @ msg_lines env k gone" "stream_flushed k w2"
      using read_clock_stream [OF w2, of k] by simp_all
    with st res show ?thesis by (auto simp: helper_state_def)
  next
    case False
    with hf have "h' = h" "w' = w1" by (auto simp: handle_flush_interval_def Let_def)
    with False st keep show ?thesis by (auto simp: helper_state_def)
  qed
  moreover have "h\<lparr>ah_q := ah_q h\<rparr> = h" by simp
  ultimately show ?thesis using q w1 hf by (simp add: process_next_msg_def)
qed

text \<open>One iteration of the worker, on a logger.\<close>

lemma worker_step_message:
  assumes "env_ok env" and "writes_succeed env" and "sl_async l = Some h" and "ah_active h"
    and "helper_state env k before gone (a # pending) h w"
  shows "\<exists>h' w'. log_worker_step env l w = Inr (l\<lparr>sl_async := Some h'\<rparr>, w') \<and> helper_state env k before (gone @ [a]) pending h' w' \<and>
    ah_active h' \<and> (ah_flush_requested h' \<longleftrightarrow> ah_flush_requested h \<or> am_msg_type a \<noteq> Msg_log)"
proof -
  obtain h' w' where step: "process_next_msg env h w = Inr (Inr True, h', w')" "helper_state env k before (gone @ [a]) pending h' w'"
    "ah_active h' = ah_active h" "ah_flush_requested h' \<longleftrightarrow> ah_flush_requested h \<or> am_msg_type a \<noteq> Msg_log"
    using process_message [OF assms(1,2,5)] by blast
  have "h'\<lparr>ah_active := True\<rparr> = h'" using step(3) assms(4) by simp
  then have "log_worker_step env l w = Inr (l\<lparr>sl_async := Some h'\<rparr>, w')" using assms(3,4) step(1) by (simp add: log_worker_step_def)
  with step assms(4) show ?thesis by auto
qed

lemma helper_state_active [simp]: "helper_state env k before gone pending (h\<lparr>ah_active := b\<rparr>) w = helper_state env k before gone pending h w"
  by (simp add: helper_state_def)

lemma worker_step_empty:
  assumes "writes_succeed env" and "sl_async l = Some h" and "ah_active h" and "helper_state env k before gone [] h w"
  shows "\<exists>h' w'. log_worker_step env l w = Inr (l\<lparr>sl_async := Some h'\<rparr>, w') \<and> helper_state env k before gone [] h' w' \<and>
    ah_active h' = (\<not> ah_terminate_requested h) \<and> (ah_flush_requested h \<longrightarrow> stream_flushed k w')"
proof -
  obtain h' w' where step: "process_next_msg env h w = Inr (Inr (\<not> ah_terminate_requested h), h', w')"
    "helper_state env k before gone [] h' w'" "ah_flush_requested h \<longrightarrow> stream_flushed k w'"
    using process_empty [OF assms(1,4)] by blast
  then have "log_worker_step env l w = Inr (l\<lparr>sl_async := Some (h'\<lparr>ah_active := \<not> ah_terminate_requested h\<rparr>)\<rparr>, w')"
    using assms(2,3) by (simp add: log_worker_step_def)
  with step show ?thesis by (auto simp: helper_state_def)
qed

text \<open>With the last message in the queue, or seen, the loop of the worker ends, with everything written and flushed.\<close>

lemma worker_loop_drains:
  assumes "env_ok env" and "writes_succeed env"
  shows "sl_async l = Some h \<Longrightarrow> ah_active h \<Longrightarrow> helper_state env k before gone pending h w \<Longrightarrow>
    (\<exists>a \<in> set pending. am_msg_type a = Msg_terminate) \<or> (ah_terminate_requested h \<and> ah_flush_requested h) \<Longrightarrow>
    length pending < n \<Longrightarrow>
    \<exists>l' w'. worker_loop n env l w = Inr (l', w') \<and> stream_text k w' = before @ msg_lines env k (gone @ pending) \<and>
      stream_flushed k w' \<and> \<not> worker_active l'"
proof (induction pending arbitrary: l h gone w n)
  case Nil
  then obtain n' where n: "n = Suc n'" by (cases n) simp_all
  obtain h' w' where step: "log_worker_step env l w = Inr (l\<lparr>sl_async := Some h'\<rparr>, w')" "helper_state env k before gone [] h' w'"
    "ah_active h' = (\<not> ah_terminate_requested h)" "ah_flush_requested h \<longrightarrow> stream_flushed k w'"
    using worker_step_empty [OF assms(2) Nil(1,2,3)] by blast
  have "\<not> worker_active (l\<lparr>sl_async := Some h'\<rparr>)" using Nil(4) step(3) by (simp add: worker_active_def)
  then have "worker_loop n' env (l\<lparr>sl_async := Some h'\<rparr>) w' = Inr (l\<lparr>sl_async := Some h'\<rparr>, w')" by (cases n') simp_all
  moreover have "worker_active l" using Nil(1,2) by (simp add: worker_active_def)
  ultimately have "worker_loop n env l w = Inr (l\<lparr>sl_async := Some h'\<rparr>, w')" using n step(1) by simp
  with \<open>\<not> worker_active (l\<lparr>sl_async := Some h'\<rparr>)\<close> step Nil(4) show ?case by (auto simp: helper_state_def)
next
  case (Cons a pending)
  then obtain n' where n: "n = Suc n'" "length pending < n'" by (cases n) simp_all
  obtain h' w' where step: "log_worker_step env l w = Inr (l\<lparr>sl_async := Some h'\<rparr>, w')"
    "helper_state env k before (gone @ [a]) pending h' w'" "ah_active h'"
    "ah_flush_requested h' \<longleftrightarrow> ah_flush_requested h \<or> am_msg_type a \<noteq> Msg_log"
    using worker_step_message [OF assms Cons.prems(1,2,3)] by blast
  have "ah_terminate_requested h' \<longleftrightarrow> ah_terminate_requested h \<or> am_msg_type a = Msg_terminate"
    using step(2) Cons.prems(3) by (auto simp: helper_state_def)
  then have "(\<exists>a \<in> set pending. am_msg_type a = Msg_terminate) \<or> (ah_terminate_requested h' \<and> ah_flush_requested h')"
    using Cons.prems(4) step(4) by auto
  from Cons.IH [OF _ step(3,2) this n(2), of "l\<lparr>sl_async := Some h'\<rparr>"] obtain l' w'' where
    "worker_loop n' env (l\<lparr>sl_async := Some h'\<rparr>) w' = Inr (l', w'')"
    "stream_text k w'' = before @ msg_lines env k (gone @ a # pending)" "stream_flushed k w''" "\<not> worker_active l'" by auto
  moreover have "worker_active l" using Cons.prems(1,2) by (simp add: worker_active_def)
  ultimately show ?case using n(1) step(1) by auto
qed

lemma push_msg_state:
  assumes "helper_state env k before gone pending h w"
  shows "length pending < 8192 \<Longrightarrow> \<exists>h'. push_msg a h = Inr (Pushed, h') \<and> helper_state env k before gone (pending @ [a]) h' w \<and> ah_active h' = ah_active h \<and> ah_flush_requested h' = ah_flush_requested h"
    and "8192 \<le> length pending \<Longrightarrow> push_msg a h = Inr (Full, h)"
proof -
  note st = assms [unfolded helper_state_def]
  show "\<exists>h'. push_msg a h = Inr (Pushed, h') \<and> helper_state env k before gone (pending @ [a]) h' w \<and> ah_active h' = ah_active h \<and> ah_flush_requested h' = ah_flush_requested h"
    if room: "length pending < 8192"
  proof -
    obtain q where "enqueue a (ah_q h) = Some (True, q)" "log_queue_holds q (pending @ [a])"
      using lq.put_room [of "ah_q h" pending a] st room by blast
    with st show ?thesis by (auto simp: push_msg_def helper_state_def)
  qed
  show "push_msg a h = Inr (Full, h)" if "8192 \<le> length pending"
    using lq.put_full [of "ah_q h" pending a] st that by (simp add: push_msg_def)
qed

lemma destroy_drains:
  assumes "env_ok env" and "writes_succeed env"
  shows "sl_async l = Some h \<Longrightarrow> ah_active h \<Longrightarrow> helper_state env k before gone pending h w \<Longrightarrow> length pending + 3 \<le> n \<Longrightarrow>
    \<exists>l' w'. destroy_logger n env l w = Inr (l', w') \<and> stream_text k w' = before @ msg_lines env k (gone @ pending) \<and>
      stream_flushed k w' \<and> \<not> worker_active l'"
proof (induction n arbitrary: l h gone pending w)
  case 0
  then show ?case by simp
next
  case (Suc n)
  let ?t = "async_msg_of_type Msg_terminate"
  show ?case
  proof (cases "length pending < 8192")
    case True
    obtain h' where push: "push_msg ?t h = Inr (Pushed, h')" "helper_state env k before gone (pending @ [?t]) h' w" "ah_active h'"
      using push_msg_state(1) [OF Suc.prems(3) True, of ?t] Suc.prems(2) by blast
    have "\<exists>a \<in> set (pending @ [?t]). am_msg_type a = Msg_terminate" by (simp add: async_msg_of_type_def)
    from worker_loop_drains [OF assms, of "l\<lparr>sl_async := Some h'\<rparr>" h', OF _ push(3,2) disjI1, OF _ this, of n] Suc.prems(4)
    obtain l' w' where "worker_loop n env (l\<lparr>sl_async := Some h'\<rparr>) w = Inr (l', w')"
      "stream_text k w' = before @ msg_lines env k (gone @ pending @ [?t])" "stream_flushed k w'" "\<not> worker_active l'" by auto
    moreover have "msg_lines env k (gone @ pending @ [?t]) = msg_lines env k (gone @ pending)"
      by (simp add: msg_lines_def async_msg_of_type_def)
    ultimately show ?thesis using Suc.prems(1) push(1) by auto
  next
    case False
    then obtain a rest where pending: "pending = a # rest" by (cases pending) simp_all
    have push: "push_msg ?t h = Inr (Full, h)" using push_msg_state(2) [OF Suc.prems(3)] False by simp
    obtain h' w' where step: "log_worker_step env l w = Inr (l\<lparr>sl_async := Some h'\<rparr>, w')"
      "helper_state env k before (gone @ [a]) rest h' w'" "ah_active h'"
      using worker_step_message [OF assms Suc.prems(1,2) Suc.prems(3) [unfolded pending]] by blast
    from Suc.IH [OF _ step(3,2), of "l\<lparr>sl_async := Some h'\<rparr>"] Suc.prems(4) pending obtain l' w'' where
      "destroy_logger n env (l\<lparr>sl_async := Some h'\<rparr>) w' = Inr (l', w'')"
      "stream_text k w'' = before @ msg_lines env k (gone @ pending)" "stream_flushed k w''" "\<not> worker_active l'" by auto
    moreover have same: "l\<lparr>sl_async := Some h\<rparr> = l" using Suc.prems(1) by (cases l) simp
    have "destroy_logger (Suc n) env l w = destroy_logger n env (l\<lparr>sl_async := Some h'\<rparr>) w'"
      using Suc.prems(1) push step(1) by (simp add: same)
    ultimately show ?thesis by auto
  qed
qed

section \<open>Interleavings\<close>

text \<open>
  The threads that log and the worker. A call in progress is the list of the messages it still has to push; what has been
  pushed so far is recorded. The steps: a call begins (a message, a flush, the end of the logger), a call pushes its next
  message or finds the queue full, the worker does one iteration.
\<close>

record log_system =
  lgs_logger :: spd_logger
  lgs_world :: log_world
  lgs_calls :: "async_msg list list"
  lgs_pushed :: "async_msg list"

inductive log_step :: "('e) log_env_scheme \<Rightarrow> log_system \<Rightarrow> log_system \<Rightarrow> bool" for env where
  log_call: "logger_log env tid lvl given (lgs_logger s) (lgs_world s) = Inr (l, w, ms) \<Longrightarrow>
    log_step env s (s\<lparr>lgs_logger := l, lgs_world := w, lgs_calls := lgs_calls s @ [ms]\<rparr>)"
| flush_call: "logger_flush env (lgs_logger s) (lgs_world s) = (w, ms) \<Longrightarrow>
    log_step env s (s\<lparr>lgs_world := w, lgs_calls := lgs_calls s @ [ms]\<rparr>)"
| end_call: "log_step env s (s\<lparr>lgs_calls := lgs_calls s @ [[async_msg_of_type Msg_terminate]]\<rparr>)"
| push: "i < length (lgs_calls s) \<Longrightarrow> lgs_calls s ! i = m # ms \<Longrightarrow> sl_async (lgs_logger s) = Some h \<Longrightarrow>
    push_msg m h = Inr (Pushed, h') \<Longrightarrow>
    log_step env s (s\<lparr>lgs_logger := (lgs_logger s)\<lparr>sl_async := Some h'\<rparr>, lgs_calls := (lgs_calls s)[i := ms],
      lgs_pushed := lgs_pushed s @ [m]\<rparr>)"
| full: "i < length (lgs_calls s) \<Longrightarrow> lgs_calls s ! i = m # ms \<Longrightarrow> sl_async (lgs_logger s) = Some h \<Longrightarrow>
    push_msg m h = Inr (Full, h') \<Longrightarrow> log_step env s (s\<lparr>lgs_logger := (lgs_logger s)\<lparr>sl_async := Some h'\<rparr>\<rparr>)"
| work: "log_worker_step env (lgs_logger s) (lgs_world s) = Inr (l, w) \<Longrightarrow> log_step env s (s\<lparr>lgs_logger := l, lgs_world := w\<rparr>)"

definition log_inv :: "('e) log_env_scheme \<Rightarrow> sink_kind \<Rightarrow> string \<Rightarrow> log_system \<Rightarrow> bool" where
  "log_inv env k before s \<longleftrightarrow>
     sl_err_handler (lgs_logger s) = None \<and>
     (\<exists>h gone pending.
        sl_async (lgs_logger s) = Some h \<and> lgs_pushed s = gone @ pending \<and> length pending \<le> 8192 \<and>
        helper_state env k before gone pending h (lgs_world s) \<and>
        (ah_active h \<or> (\<exists>a \<in> set gone. am_msg_type a = Msg_terminate)))"

lemma helper_state_world:
  "stream_text k w' = stream_text k w \<Longrightarrow> is_stream k w' = is_stream k w \<Longrightarrow>
    helper_state env k before gone pending h w' = helper_state env k before gone pending h w"
  by (simp add: helper_state_def)

lemma stderr_stream [simp]:
  "stream_text k (w\<lparr>lw_stderr := x\<rparr>) = stream_text k w" "is_stream k (w\<lparr>lw_stderr := x\<rparr>) = is_stream k w"
  by (induction k) simp_all

lemma clock_stream [simp]:
  "stream_text k (w\<lparr>lw_clock := n\<rparr>) = stream_text k w" "is_stream k (w\<lparr>lw_clock := n\<rparr>) = is_stream k w"
  by (induction k) simp_all

lemma call_err_handler_keeps:
  "sl_err_handler l = None \<Longrightarrow> call_err_handler env e l w = (l', w') \<Longrightarrow>
    sl_err_handler l' = None \<and> sl_async l' = sl_async l \<and> stream_text k w' = stream_text k w \<and> is_stream k w' = is_stream k w"
  by (auto simp: call_err_handler_def default_err_handler_def read_clock_def Let_def split: if_splits)

lemma logger_log_keeps:
  assumes "logger_log env tid lvl given l w = Inr (l', w', ms)" and "sl_err_handler l = None" and "sl_async l = Some h"
  shows "sl_err_handler l' = None \<and> sl_async l' = Some h \<and> stream_text k w' = stream_text k w \<and> is_stream k w' = is_stream k w"
proof (cases given)
  case (Inl e)
  obtain l1 w1 where "call_err_handler env e l (w\<lparr>lw_clock := Suc (lw_clock w)\<rparr>) = (l1, w1)" by fastforce
  with call_err_handler_keeps [OF assms(2) this, of k] Inl assms show ?thesis
    by (auto simp: logger_log_def read_clock_def split: if_splits)
next
  case (Inr raw)
  with assms show ?thesis by (auto simp: logger_log_def read_clock_def Let_def split: if_splits)
qed

lemma log_invI:
  "sl_err_handler (lgs_logger s) = None \<Longrightarrow> sl_async (lgs_logger s) = Some h \<Longrightarrow> lgs_pushed s = gone @ pending \<Longrightarrow>
    length pending \<le> 8192 \<Longrightarrow> helper_state env k before gone pending h (lgs_world s) \<Longrightarrow>
    ah_active h \<or> (\<exists>a \<in> set gone. am_msg_type a = Msg_terminate) \<Longrightarrow> log_inv env k before s"
  unfolding log_inv_def by blast

lemma log_inv_step:
  assumes "env_ok env" and "writes_succeed env"
  shows "log_inv env k before s \<Longrightarrow> log_step env s t \<Longrightarrow> log_inv env k before t"
proof -
  assume inv: "log_inv env k before s" and step: "log_step env s t"
  from inv obtain h gone pending where st: "sl_err_handler (lgs_logger s) = None" "sl_async (lgs_logger s) = Some h"
    "lgs_pushed s = gone @ pending" "length pending \<le> 8192" "helper_state env k before gone pending h (lgs_world s)"
    "ah_active h \<or> (\<exists>a \<in> set gone. am_msg_type a = Msg_terminate)" unfolding log_inv_def by blast
  from step show ?thesis
  proof cases
    case (log_call tid lvl given l w ms)
    note keeps = logger_log_keeps [OF log_call(2) st(1,2), of k]
    then have "helper_state env k before gone pending h w" using helper_state_world [of k w "lgs_world s"] st(5) by blast
    with keeps log_call(1) st show ?thesis by (intro log_invI [of t h gone pending]) simp_all
  next
    case (flush_call w ms)
    with st show ?thesis by (intro log_invI [of t h gone pending]) (simp_all add: logger_flush_def)
  next
    case end_call
    with st show ?thesis by (intro log_invI [of t h gone pending]) simp_all
  next
    case (push i m ms h0 h')
    have "h0 = h" using push(4) st(2) by simp
    have room: "length pending < 8192"
      using push_msg_state(2) [OF st(5), of m] push(5) \<open>h0 = h\<close> by (cases "8192 \<le> length pending") auto
    from push_msg_state(1) [OF st(5) room, of m] push(5) \<open>h0 = h\<close>
    have "helper_state env k before gone (pending @ [m]) h' (lgs_world s)" "ah_active h' = ah_active h" by auto
    with push(1) st room show ?thesis by (intro log_invI [of t h' gone "pending @ [m]"]) simp_all
  next
    case (full i m ms h0 h')
    then have "h0 = h" using st(2) by simp
    with full push_msg_state [OF st(5), of m] have "h' = h" by (cases "8192 \<le> length pending") auto
    with full(1) st show ?thesis by (intro log_invI [of t h gone pending]) simp_all
  next
    case (work l w)
    show ?thesis
    proof (cases "ah_active h")
      case False
      with work st have "l = lgs_logger s" "w = lgs_world s" by (simp_all add: log_worker_step_def)
      with work(1) inv show ?thesis by simp
    next
      case active: True
      show ?thesis
      proof (cases pending)
        case Nil
        obtain h' where "l = (lgs_logger s)\<lparr>sl_async := Some h'\<rparr>" "helper_state env k before gone [] h' w"
          "ah_active h' = (\<not> ah_terminate_requested h)"
          using worker_step_empty [OF assms(2) st(2) active st(5) [unfolded Nil]] work(2) by auto
        moreover have "ah_terminate_requested h \<longleftrightarrow> (\<exists>a \<in> set gone. am_msg_type a = Msg_terminate)" using st(5) by (simp add: helper_state_def)
        ultimately show ?thesis using work(1) st(1,3) Nil by (intro log_invI [of t h' gone "[]"]) auto
      next
        case (Cons a rest)
        obtain h' where "l = (lgs_logger s)\<lparr>sl_async := Some h'\<rparr>" "helper_state env k before (gone @ [a]) rest h' w" "ah_active h'"
          using worker_step_message [OF assms st(2) active st(5) [unfolded Cons]] work(2) by auto
        then show ?thesis using work(1) st(1,3,4) Cons by (intro log_invI [of t h' "gone @ [a]" rest]) simp_all
      qed
    qed
  qed
qed

text \<open>The start: an asynchronous logger with one stream, a queue of 8192 messages and the daemon's pattern.\<close>

definition log_start :: "('e) log_env_scheme \<Rightarrow> sink_kind \<Rightarrow> string \<Rightarrow> log_system \<Rightarrow> bool" where
  "log_start env k before s \<longleftrightarrow>
     (\<exists>nm lvl w0 l w.
        new_async_logger env nm [new_sink k] 8192 Block_retry 0 w0 = (Inr l, w) \<and> is_stream k w0 \<and> stream_text k w0 = before \<and>
        s = \<lparr>lgs_logger = set_level lvl (set_pattern norns_pattern l), lgs_world = w, lgs_calls = [], lgs_pushed = []\<rparr>)"

lemma new_async_logger_8192:
  "\<exists>q. log_queue_holds q [] \<and>
    new_async_logger env nm sinks 8192 policy interval w =
      (Inr ((new_logger nm sinks)\<lparr>sl_async := Some
         \<lparr>ah_formatter = compile_pattern ''%+'', ah_sinks = sinks, ah_q = q, ah_flush_requested = False,
          ah_terminate_requested = False, ah_overflow_policy = policy, ah_flush_interval = interval, ah_active = True,
          ah_last_pop = le_now env (lw_clock w), ah_last_flush = le_now env (lw_clock w)\<rparr>\<rparr>),
       w\<lparr>lw_clock := Suc (lw_clock w)\<rparr>)"
  using mpmc_new_8192 [of "async_msg_of_type Msg_log"]
  by (auto simp: new_async_logger_def new_async_helper_def read_clock_def new_logger_def)

lemma log_start_inv: "log_start env k before s \<Longrightarrow> log_inv env k before s"
proof -
  assume "log_start env k before s"
  then obtain nm lvl w0 l w where start: "new_async_logger env nm [new_sink k] 8192 Block_retry 0 w0 = (Inr l, w)"
    "is_stream k w0" "stream_text k w0 = before"
    "s = \<lparr>lgs_logger = set_level lvl (set_pattern norns_pattern l), lgs_world = w, lgs_calls = [], lgs_pushed = []\<rparr>"
    unfolding log_start_def by blast
  obtain q where q: "log_queue_holds q []" "new_async_logger env nm [new_sink k] 8192 Block_retry 0 w0 =
      (Inr ((new_logger nm [new_sink k])\<lparr>sl_async := Some
         \<lparr>ah_formatter = compile_pattern ''%+'', ah_sinks = [new_sink k], ah_q = q, ah_flush_requested = False,
          ah_terminate_requested = False, ah_overflow_policy = Block_retry, ah_flush_interval = 0, ah_active = True,
          ah_last_pop = le_now env (lw_clock w0), ah_last_flush = le_now env (lw_clock w0)\<rparr>\<rparr>),
       w0\<lparr>lw_clock := Suc (lw_clock w0)\<rparr>)"
    using new_async_logger_8192 [of env nm "[new_sink k]" Block_retry 0 w0] by blast
  with start show ?thesis
    by (intro log_invI [where gone = "[]" and pending = "[]"])
      (auto simp: set_level_def set_pattern_def set_formatter_def new_logger_def helper_state_def msg_lines_def)
qed

interpretation logging: invariant_system "log_start env k before"
  "\<lambda>s t. env_ok env \<and> writes_succeed env \<and> log_step env s t" "log_inv env k before"
  by unfold_locales (auto intro: log_start_inv log_inv_step)

lemma log_inv_steps:
  assumes "env_ok env" and "writes_succeed env" and "log_start env k before s" and "(log_step env)\<^sup>*\<^sup>* s t"
  shows "log_inv env k before t"
proof (rule logging.inv_steps)
  show "log_inv env k before s" using assms(3) by (rule log_start_inv)
  show "(\<lambda>s t. env_ok env \<and> writes_succeed env \<and> log_step env s t)\<^sup>*\<^sup>* s t" using assms by simp
qed

section \<open>An example\<close>

definition sample_log_env :: log_env where
  "sample_log_env =
     \<lparr>pe_localtime = \<lambda>_. sample_tm, pe_pid = 42, le_now = int, le_stdout = \<lambda>w s. length s, le_fwrite = \<lambda>f w s. length s,
      le_fflush = \<lambda>f w. True, le_errno_str = \<lambda>w. [], le_date = \<lambda>t. []\<rparr>"

definition sample_log_world :: log_world where
  "sample_log_world =
     \<lparr>lw_stdout = [], lw_stderr = [], lw_files = [''urd.log'' \<mapsto> ([], 0)], lw_syslog = [], lw_clock = 0\<rparr>"

definition sample_sink :: sink_kind where "sample_sink = Simple_file_sink ''urd.log''"

definition sample_log_system :: log_system where
  "sample_log_system =
     (case new_async_logger sample_log_env ''urd'' [new_sink sample_sink] 8192 Block_retry 0 sample_log_world of
        (r, w) \<Rightarrow> \<lparr>lgs_logger = set_level Level_info (set_pattern norns_pattern (projr r)), lgs_world = w, lgs_calls = [], lgs_pushed = []\<rparr>)"

definition sample_async_msg :: async_msg where
  "sample_async_msg = \<lparr>am_logger_name = ''urd'', am_level = Level_info, am_time = 1, am_thread_id = 7, am_txt = ''hello'', am_msg_type = Msg_log\<rparr>"

lemma sample_log_env_ok: "env_ok sample_log_env" "writes_succeed sample_log_env"
  by (simp_all add: env_ok_def writes_succeed_def sample_log_env_def sample_tm_def tm_ok_def)

lemma sample_log_start: "log_start sample_log_env sample_sink [] sample_log_system"
proof -
  obtain l w where "new_async_logger sample_log_env ''urd'' [new_sink sample_sink] 8192 Block_retry 0 sample_log_world = (Inr l, w)"
    using new_async_logger_8192 by blast
  then show ?thesis unfolding log_start_def
    by (intro exI [of _ "''urd''"] exI [of _ Level_info] exI [of _ sample_log_world])
      (simp add: sample_log_system_def sample_sink_def sample_log_world_def)
qed

lemma sample_log_run: "\<exists>t. (log_step sample_log_env)\<^sup>*\<^sup>* sample_log_system t \<and> lgs_pushed t = [sample_async_msg]"
proof -
  let ?s = sample_log_system
  obtain q where q: "log_queue_holds q []" "new_async_logger sample_log_env ''urd'' [new_sink sample_sink] 8192 Block_retry 0 sample_log_world =
      (Inr ((new_logger ''urd'' [new_sink sample_sink])\<lparr>sl_async := Some
         \<lparr>ah_formatter = compile_pattern ''%+'', ah_sinks = [new_sink sample_sink], ah_q = q, ah_flush_requested = False,
          ah_terminate_requested = False, ah_overflow_policy = Block_retry, ah_flush_interval = 0, ah_active = True,
          ah_last_pop = le_now sample_log_env (lw_clock sample_log_world), ah_last_flush = le_now sample_log_env (lw_clock sample_log_world)\<rparr>\<rparr>),
       sample_log_world\<lparr>lw_clock := Suc (lw_clock sample_log_world)\<rparr>)"
    using new_async_logger_8192 [of sample_log_env "''urd''" "[new_sink sample_sink]" Block_retry 0 sample_log_world] by blast
  note defs = sample_log_system_def q(2) set_level_def set_pattern_def set_formatter_def new_logger_def
  obtain h where h: "sl_async (lgs_logger ?s) = Some h" "ah_q h = q" by (simp add: defs)
  have facts: "sl_name (lgs_logger ?s) = ''urd''" "sl_level (lgs_logger ?s) = Level_info" "sl_flush_level (lgs_logger ?s) = Level_off"
    "lw_clock (lgs_world ?s) = 1" "lgs_calls ?s = []" "lgs_pushed ?s = []" by (simp_all add: defs) (simp add: sample_log_world_def)
  have "le_now sample_log_env 1 = 1" by (simp add: sample_log_env_def)
  define s1 where "s1 = ?s\<lparr>lgs_world := (lgs_world ?s)\<lparr>lw_clock := 2\<rparr>, lgs_calls := [[sample_async_msg]]\<rparr>"
  have "logger_log sample_log_env 7 Level_info (Inr ''hello'') (lgs_logger ?s) (lgs_world ?s) =
      Inr (lgs_logger ?s, (lgs_world ?s)\<lparr>lw_clock := 2\<rparr>, [sample_async_msg])"
    using h(1) \<open>le_now sample_log_env 1 = 1\<close>
    by (simp add: logger_log_def facts read_clock_def async_sink_it_def should_flush_on_def sample_async_msg_def
      async_msg_of_def less_eq_level_enum_def)
  from log_step.log_call [where s = ?s, OF this] have step1: "log_step sample_log_env ?s s1" by (simp add: s1_def facts)
  obtain q' where q': "enqueue sample_async_msg q = Some (True, q')" using lq.put_room [OF q(1), of sample_async_msg] by auto
  have "push_msg sample_async_msg h = Inr (Pushed, h\<lparr>ah_q := q'\<rparr>)" by (simp add: push_msg_def h(2) q')
  moreover define s2 where "s2 = s1\<lparr>lgs_logger := (lgs_logger s1)\<lparr>sl_async := Some (h\<lparr>ah_q := q'\<rparr>)\<rparr>,
      lgs_calls := (lgs_calls s1)[0 := []], lgs_pushed := lgs_pushed s1 @ [sample_async_msg]\<rparr>"
  ultimately have "log_step sample_log_env s1 s2" using h(1) unfolding s2_def
    by (intro log_step.push [where m = sample_async_msg and h = h]) (simp_all add: s1_def)
  with step1 have "(log_step sample_log_env)\<^sup>*\<^sup>* ?s s2" by (meson converse_rtranclp_into_rtranclp r_into_rtranclp)
  moreover have "lgs_pushed s2 = [sample_async_msg]" by (simp add: s2_def s1_def facts)
  ultimately show ?thesis by blast
qed





end
