(* ===== verification/Fmt_Format.thy ===== *)
theory Fmt_Format
  imports Fmt_Decimal
begin

text \<open>
  The format strings of the log messages (\<^verbatim>\<open>src/spdlog/fmt/bundled/format.h\<close>, \<^verbatim>\<open>format.cc\<close>): the loop over the string, the
  choice of the arguments, and what an argument becomes when its field has no format specification. A specification, which
  no message of the daemon has, is a parameter. An error is an exception with a text, which the logger catches.
\<close>

section \<open>Results\<close>

text \<open>\<open>Inl\<close> a fault; \<open>Inr (Inl e)\<close> an exception with text \<open>e\<close>; \<open>Inr (Inr a)\<close> a value.\<close>

type_synonym 'a fmt_result = "(string + 'a) outcome"

definition fbind :: "'a fmt_result \<Rightarrow> ('a \<Rightarrow> 'b fmt_result) \<Rightarrow> 'b fmt_result" where
  "fbind r f = obind r (\<lambda>x. case x of Inl e \<Rightarrow> Inr (Inl e) | Inr a \<Rightarrow> f a)"

abbreviation freturn :: "'a \<Rightarrow> 'a fmt_result" where "freturn a \<equiv> Inr (Inr a)"

abbreviation FMT_THROW :: "string \<Rightarrow> 'a fmt_result" where "FMT_THROW e \<equiv> Inr (Inl e)"

lemma fbind_simps [simp]: "fbind (freturn a) f = f a" "fbind (FMT_THROW e) f = FMT_THROW e" "fbind (Inl x) f = Inl x"
  by (simp_all add: fbind_def)

section \<open>Arguments\<close>

datatype fmt_arg =
    FA_int int | FA_uint u32 | FA_ulong_long u64 | FA_bool bool | FA_char char | FA_cstring "string option" | FA_string string

fun visit_arg :: "fmt_arg \<Rightarrow> string fmt_result" where
  "visit_arg (FA_int v) = obind (write_int v 0 (CHR '' '')) freturn"
| "visit_arg (FA_uint v) = obind (write_uint v 0 (CHR '' '')) freturn"
| "visit_arg (FA_ulong_long v) = obind (write_int_64 v 0 (CHR '' '')) freturn"
| "visit_arg (FA_bool b) = freturn (if b then ''true'' else ''false'')"
| "visit_arg (FA_char c) = freturn [c]"
| "visit_arg (FA_cstring p) = (case p of None \<Rightarrow> FMT_THROW ''string pointer is null'' | Some s \<Rightarrow> freturn s)"
| "visit_arg (FA_string s) = freturn s"

text \<open>
  The index of the next argument is negative once an argument was named by its number. \<^verbatim>\<open>check_no_auto_index\<close> is the same
  for arguments that are named by a name; there are none in the list.
\<close>

definition do_get_arg :: "fmt_arg list \<Rightarrow> nat \<Rightarrow> (string + fmt_arg)" where
  "do_get_arg args i = (if i < length args then Inr (args ! i) else Inl ''argument index out of range'')"

definition next_arg :: "fmt_arg list \<Rightarrow> int \<Rightarrow> (string + fmt_arg) \<times> int" where
  "next_arg args idx =
     (if 0 \<le> idx then (do_get_arg args (nat idx), idx + 1)
      else (Inl ''cannot switch from manual to automatic argument indexing'', idx))"

definition check_no_auto_index :: "int \<Rightarrow> (string + unit) \<times> int" where
  "check_no_auto_index idx =
     (if 0 < idx then (Inl ''cannot switch from automatic to manual argument indexing'', idx) else (Inr (), -1))"

definition get_arg :: "fmt_arg list \<Rightarrow> nat \<Rightarrow> int \<Rightarrow> (string + fmt_arg) \<times> int" where
  "get_arg args i idx =
     (case check_no_auto_index idx of (Inl e, idx) \<Rightarrow> (Inl e, idx) | (Inr _, idx) \<Rightarrow> (do_get_arg args i, idx))"

section \<open>Numbers and names in a field\<close>

definition is_fmt_digit :: "char \<Rightarrow> bool" where
  "is_fmt_digit c \<longleftrightarrow> 48 \<le> (of_char c :: nat) \<and> (of_char c :: nat) \<le> 57"

definition is_name_start :: "char \<Rightarrow> bool" where
  "is_name_start c \<longleftrightarrow>
     (let n = (of_char c :: nat) in (97 \<le> n \<and> n \<le> 122) \<or> (65 \<le> n \<and> n \<le> 90) \<or> c = CHR ''_'')"

text \<open>The character a pointer into the string points to; the string ends with a zero.\<close>

definition peek :: "string \<Rightarrow> char" where
  "peek s = (case s of [] \<Rightarrow> CHR 0x00 | c # _ \<Rightarrow> c)"

text \<open>
  The loop of \<^verbatim>\<open>parse_nonnegative_int\<close>, in 32 unsigned bits: a value that has become smaller is taken for one that has
  wrapped around.
\<close>

fun parse_digits :: "u32 \<Rightarrow> string \<Rightarrow> u32 \<times> string" where
  "parse_digits v [] = (v, [])"
| "parse_digits v (c # s) =
     (if is_fmt_digit c then
        let v' = v * 10 + of_nat (of_char c - 48)
        in if v' < v then (- 1, s) else parse_digits v' s
      else (v, c # s))"

definition parse_nonnegative_int :: "string \<Rightarrow> (string + nat) \<times> string" where
  "parse_nonnegative_int s =
     (case parse_digits 0 s of (v, s) \<Rightarrow> (if 2147483647 < v then Inl ''number is too big'' else Inr (unat v), s))"

definition parse_arg_index :: "fmt_arg list \<Rightarrow> int \<Rightarrow> string \<Rightarrow> (fmt_arg \<times> int \<times> string) fmt_result" where
  "parse_arg_index args idx s =
     (let finish = (\<lambda>(r, idx) s. case r of
            Inr a \<Rightarrow> freturn (a, idx, s)
          | Inl e \<Rightarrow> FMT_THROW (if peek s \<noteq> CHR ''}'' \<and> peek s \<noteq> CHR '':'' then ''invalid format string'' else e))
      in if \<not> is_fmt_digit (peek s) then finish (next_arg args idx) s
         else case parse_nonnegative_int s of
                (Inl e, s) \<Rightarrow> FMT_THROW e
              | (Inr i, s) \<Rightarrow> finish (get_arg args i idx) s)"

definition parse_arg_name :: "int \<Rightarrow> string \<Rightarrow> (fmt_arg \<times> int \<times> string) fmt_result" where
  "parse_arg_name idx s =
     (case check_no_auto_index idx of (Inl e, _) \<Rightarrow> FMT_THROW e | (Inr _, _) \<Rightarrow> FMT_THROW ''argument not found'')"

section \<open>The format string\<close>

text \<open>
  A field, from behind its argument: its text, and what follows it. \<open>spec\<close> stands for the specification: the text and how
  many characters it takes, with the closing brace.
\<close>

definition format_field :: "(fmt_arg \<Rightarrow> string \<Rightarrow> (string \<times> nat) fmt_result) \<Rightarrow> fmt_arg \<Rightarrow> string \<Rightarrow> (string \<times> string) fmt_result" where
  "format_field spec a s =
     (if peek s = CHR '':'' then fbind (spec a s) (\<lambda>(t, n). freturn (t, drop n s))
      else if peek s \<noteq> CHR ''}'' then FMT_THROW (''missing '' @ [CHR 0x27] @ ''}'' @ [CHR 0x27] @ '' in format string'')
      else fbind (visit_arg a) (\<lambda>t. freturn (t, tl s)))"

lemma parse_digits_length: "length (snd (parse_digits v s)) \<le> length s"
  by (induction v s rule: parse_digits.induct) (auto simp: Let_def le_SucI)

lemma parse_arg_index_length: "parse_arg_index args idx s = freturn (a, idx', s') \<Longrightarrow> length s' \<le> length s"
  using parse_digits_length [of 0 s]
  by (auto simp: parse_arg_index_def parse_nonnegative_int_def Let_def split: if_splits prod.splits sum.splits)

lemma format_field_length: "format_field spec a s = freturn (t, s') \<Longrightarrow> length s' \<le> length s"
  by (auto simp: format_field_def fbind_def obind_def split: if_splits sum.splits)

text \<open>
  The loop. \<open>idx\<close> is the index of the next argument; the characters since \<open>start\<close> are written when a brace or the end
  comes.
\<close>

function (sequential) format_loop ::
  "(fmt_arg \<Rightarrow> string \<Rightarrow> (string \<times> nat) fmt_result) \<Rightarrow> fmt_arg list \<Rightarrow> int \<Rightarrow> string \<Rightarrow> string \<Rightarrow> string fmt_result" where
  "format_loop spec args idx start [] = freturn start"
| "format_loop spec args idx start (c # s) =
     (if c \<noteq> CHR ''{'' \<and> c \<noteq> CHR ''}'' then format_loop spec args idx (start @ [c]) s
      else if peek s = c then fbind (format_loop spec args idx [] (tl s)) (\<lambda>t. freturn (start @ [c] @ t))
      else if c = CHR ''}'' then FMT_THROW (''unmatched '' @ [CHR 0x27] @ ''}'' @ [CHR 0x27] @ '' in format string'')
      else
        case (if is_name_start (peek s) then parse_arg_name idx s else parse_arg_index args idx s) of
          Inl x \<Rightarrow> Inl x
        | Inr (Inl e) \<Rightarrow> FMT_THROW e
        | Inr (Inr (a, idx', s')) \<Rightarrow>
            (case format_field spec a s' of
               Inl x \<Rightarrow> Inl x
             | Inr (Inl e) \<Rightarrow> FMT_THROW e
             | Inr (Inr (t, s'')) \<Rightarrow> fbind (format_loop spec args idx' [] s'') (\<lambda>u. freturn (start @ t @ u))))"
  by pat_completeness auto
termination
proof (relation "measure (\<lambda>(spec, args, idx, start, s). length s)", goal_cases)
  case (4 spec args idx start c s r p a q idx' s' r' f t s'')
  then have "length s' \<le> length s" "length s'' \<le> length s'"
    using parse_arg_index_length [of args idx s a idx' s'] format_field_length [of spec a s' t s'']
    by (auto simp: parse_arg_name_def split: if_splits prod.splits sum.splits)
  then show ?case by simp
qed auto

definition fmt_format :: "(fmt_arg \<Rightarrow> string \<Rightarrow> (string \<times> nat) fmt_result) \<Rightarrow> string \<Rightarrow> fmt_arg list \<Rightarrow> string fmt_result" where
  "fmt_format spec format_str args = format_loop spec args 0 [] format_str"

declare format_loop.simps [simp del]

section \<open>What a format string means\<close>

text \<open>
  The pieces of a format string without specifications and without numbers: text, whose braces are doubled, and fields.
\<close>

datatype piece = Plain string | Field

definition escape :: "string \<Rightarrow> string" where
  "escape s = concat (map (\<lambda>c. if c = CHR ''{'' \<or> c = CHR ''}'' then [c, c] else [c]) s)"

fun template :: "piece list \<Rightarrow> string" where
  "template [] = []"
| "template (Plain s # ps) = escape s @ template ps"
| "template (Field # ps) = ''{}'' @ template ps"

fun fill_in :: "piece list \<Rightarrow> fmt_arg list \<Rightarrow> string fmt_result" where
  "fill_in [] args = freturn []"
| "fill_in (Plain s # ps) args = fbind (fill_in ps args) (\<lambda>t. freturn (s @ t))"
| "fill_in (Field # ps) [] = FMT_THROW ''argument index out of range''"
| "fill_in (Field # ps) (a # args) = fbind (visit_arg a) (\<lambda>s. fbind (fill_in ps args) (\<lambda>t. freturn (s @ t)))"

lemma fbind_assoc: "fbind (fbind r f) g = fbind r (\<lambda>x. fbind (f x) g)"
  by (auto simp: fbind_def obind_def split: sum.splits)

lemma fbind_return [simp]: "fbind r freturn = r"
  by (auto simp: fbind_def obind_def split: sum.splits)

lemma format_loop_start:
  "format_loop spec args idx start s = fbind (format_loop spec args idx [] s) (\<lambda>t. freturn (start @ t))"
proof (induction s arbitrary: start)
  case Nil
  show ?case by (simp add: format_loop.simps)
next
  case (Cons c s)
  show ?case
  proof (cases "c \<noteq> CHR ''{'' \<and> c \<noteq> CHR ''}''")
    case True
    then show ?thesis using Cons.IH [of "start @ [c]"] Cons.IH [of "[c]"] by (simp add: format_loop.simps(2) fbind_assoc)
  next
    case False
    then show ?thesis
      by (subst (1 2) format_loop.simps(2)) (auto simp: fbind_assoc split: sum.splits prod.splits)
  qed
qed

lemma format_loop_escape:
  "format_loop spec args idx [] (escape s @ rest) = fbind (format_loop spec args idx [] rest) (\<lambda>t. freturn (s @ t))"
proof (induction s)
  case Nil
  show ?case by (simp add: escape_def)
next
  case (Cons c s)
  show ?case
  proof (cases "c = CHR ''{'' \<or> c = CHR ''}''")
    case True
    then have "escape (c # s) @ rest = c # c # (escape s @ rest)" by (auto simp: escape_def)
    moreover have "format_loop spec args idx [] (c # c # (escape s @ rest)) =
        fbind (format_loop spec args idx [] (escape s @ rest)) (\<lambda>t. freturn ([c] @ t))"
      using True by (subst format_loop.simps(2)) (auto simp: peek_def)
    ultimately show ?thesis by (simp only: Cons.IH) (simp add: fbind_assoc)
  next
    case False
    then have "escape (c # s) @ rest = c # (escape s @ rest)" by (auto simp: escape_def)
    moreover have "format_loop spec args idx [] (c # (escape s @ rest)) =
        fbind (format_loop spec args idx [] (escape s @ rest)) (\<lambda>t. freturn ([c] @ t))"
      using False format_loop_start [of spec args idx "[c]" "escape s @ rest"] by (simp add: format_loop.simps(2))
    ultimately show ?thesis by (simp only: Cons.IH) (simp add: fbind_assoc)
  qed
qed

lemma format_loop_field:
  "format_loop spec args (int n) [] (''{}'' @ rest) =
    (if n < length args
     then fbind (visit_arg (args ! n)) (\<lambda>s. fbind (format_loop spec args (int (Suc n)) [] rest) (\<lambda>t. freturn (s @ t)))
     else FMT_THROW ''argument index out of range'')"
proof -
  have brace: "peek (CHR ''}'' # rest) = CHR ''}''" "\<not> is_fmt_digit (CHR ''}'')" "\<not> is_name_start (CHR ''}'')"
    by (simp_all add: peek_def is_fmt_digit_def is_name_start_def)
  have idx: "int n + 1 = int (Suc n)" by simp
  show ?thesis
    by (cases "n < length args"; cases "visit_arg (args ! n)")
      (auto simp: format_loop.simps(2) brace parse_arg_index_def next_arg_def do_get_arg_def format_field_def fbind_def
        simp del: of_nat_Suc simp add: idx split: sum.splits)
qed

lemma format_template_from:
  "n \<le> length args \<Longrightarrow> format_loop spec args (int n) [] (template ps) = fill_in ps (drop n args)"
proof (induction ps arbitrary: n rule: template.induct)
  case 1
  show ?case by (simp add: format_loop.simps)
next
  case (2 s ps)
  then show ?case by (simp add: format_loop_escape)
next
  case (3 ps)
  show ?case
  proof (cases "n < length args")
    case True
    then have "drop n args = args ! n # drop (Suc n) args" by (rule Cons_nth_drop_Suc [symmetric])
    moreover have "format_loop spec args (int (Suc n)) [] (template ps) = fill_in ps (drop (Suc n) args)" using 3(1) [of "Suc n"] True by (simp del: of_nat_Suc)
    ultimately show ?thesis using True by (simp only: template.simps format_loop_field if_True fill_in.simps)
  next
    case False
    with 3 have "drop n args = []" by simp
    with False show ?thesis by (simp only: template.simps format_loop_field if_False fill_in.simps)
  qed
qed

text \<open>
  A format string means its pieces: text as it is, with doubled braces for single ones, and for each field the next
  argument; a string with more fields than arguments is an error, and arguments too many are ignored.
\<close>

lemma format_template: "fmt_format spec (template ps) args = fill_in ps args"
  using format_template_from [of 0 args spec ps] by (simp add: fmt_format_def)

text \<open>
  The test for a number that is too big only sees a wrap-around that makes the value smaller: the number 10000000000 is
  taken for its remainder modulo \<open>2 ^ 32\<close>.
\<close>

lemma index_wraps: "parse_nonnegative_int ''10000000000}'' = (Inr 1410065408, ''}'')"
  by (simp add: parse_nonnegative_int_def is_fmt_digit_def Let_def)

text \<open>Decimal indices that fit are read exactly.\<close>

lemma digits_grow: "n \<le> foldl (\<lambda>n c. 10 * n + (of_char c - 48)) (n :: nat) cs"
proof (induction cs arbitrary: n)
  case (Cons c cs)
  have "n \<le> 10 * n + (of_char c - 48)" by simp
  also have "\<dots> \<le> foldl (\<lambda>n c. 10 * n + (of_char c - 48)) (10 * n + (of_char c - 48)) cs" by (rule Cons.IH)
  finally show ?case by simp
qed simp

lemma parse_digits_exact:
  "list_all is_fmt_digit ds \<Longrightarrow> \<not> is_fmt_digit (peek rest) \<Longrightarrow>
    foldl (\<lambda>n c. 10 * n + (of_char c - 48)) (unat v) ds < 2 ^ 31 \<Longrightarrow>
    parse_digits v (ds @ rest) = (of_nat (foldl (\<lambda>n c. 10 * n + (of_char c - 48)) (unat v) ds), rest)"
proof (induction ds arbitrary: v)
  case Nil
  then show ?case by (cases rest) (simp_all add: peek_def)
next
  case (Cons d ds)
  define e :: nat where "e = of_char d - 48"
  have "10 * unat v + e < 2 ^ 31" using digits_grow [of "10 * unat v + e" ds] Cons.prems(3) by (simp add: e_def)
  moreover from this have "unat v * 10 < 2 ^ 32" by simp
  ultimately have new: "unat (v * 10 + of_nat e) = 10 * unat v + e"
    by (simp add: unat_word_ariths unat_of_nat)
  then have "\<not> v * 10 + of_nat e < v" by (simp add: word_less_nat_alt)
  moreover have "parse_digits (v * 10 + of_nat e) (ds @ rest) =
      (of_nat (foldl (\<lambda>n c. 10 * n + (of_char c - 48)) (unat (v * 10 + of_nat e)) ds), rest)"
    using Cons.prems by (intro Cons.IH) (simp_all only: new list.pred_inject simp_thms foldl_Cons e_def [symmetric])
  ultimately show ?case using Cons.prems(1) by (simp add: new e_def [symmetric] Let_def)
qed

end
