(* ===== verification/Logger.thy ===== *)
theory Logger
  imports Async_Properties Fmt_Format
begin

text \<open>
  The registry of spdlog (\<^verbatim>\<open>src/spdlog/details/registry.h\<close>, \<^verbatim>\<open>src/spdlog/details/spdlog_impl.h\<close>) and the class \<^verbatim>\<open>logger\<close> of the
  daemon with its global instance and its macros (\<^verbatim>\<open>src/logger.hpp\<close>). Loggers are objects on a heap, shared by the
  registry and the global instance, and destroyed when neither refers to them.
\<close>

section \<open>The registry\<close>

record logger_registry =
  rg_loggers :: "(string, nat) umap"
  rg_formatter :: "flag_formatter list option"
  rg_level :: level_enum
  rg_err_handler :: "(string \<Rightarrow> log_world \<Rightarrow> log_world) option"
  rg_async_mode :: bool
  rg_async_q_size :: u64
  rg_overflow_policy :: async_overflow_policy
  rg_flush_interval :: int

record log_process =
  lp_registry :: logger_registry
  lp_heap :: "nat \<rightharpoonup> spd_logger"
  lp_next :: nat
  lp_world :: log_world
  lp_global :: "nat option"

record logger_env = log_env +
  lg_fopen :: "string \<Rightarrow> nat \<Rightarrow> log_world \<Rightarrow> bool"    \<comment> \<open>whether an attempt to open a file succeeds\<close>
  lg_contents :: "string \<Rightarrow> string"                  \<comment> \<open>what a file holds before it is opened\<close>
  lg_debug :: bool                                   \<comment> \<open>\<^verbatim>\<open>__LOGGER_ENABLE_DEBUG__\<close>\<close>

definition new_registry :: logger_registry where
  "new_registry =
     \<lparr>rg_loggers = [], rg_formatter = None, rg_level = Level_info, rg_err_handler = None, rg_async_mode = False,
      rg_async_q_size = 0, rg_overflow_policy = Block_retry, rg_flush_interval = 0\<rparr>"

definition already_exists :: "string \<Rightarrow> string" where
  "already_exists nm = ''logger with name '' @ [CHR 0x27] @ nm @ [CHR 0x27] @ '' already exists''"

definition register_logger :: "string \<Rightarrow> nat \<Rightarrow> logger_registry \<Rightarrow> (string + unit) \<times> logger_registry" where
  "register_logger nm i r =
     (if um_find (rg_loggers r) nm \<noteq> None then (Inl (already_exists nm), r)
      else (Inr (), r\<lparr>rg_loggers := um_emplace nm i (rg_loggers r)\<rparr>))"

definition registry_get :: "logger_registry \<Rightarrow> string \<Rightarrow> nat option" where
  "registry_get r nm = um_find (rg_loggers r) nm"

definition registry_drop :: "string \<Rightarrow> logger_registry \<Rightarrow> logger_registry" where
  "registry_drop nm r = r\<lparr>rg_loggers := um_erase nm (rg_loggers r)\<rparr>"

definition set_async_mode :: "u64 \<Rightarrow> async_overflow_policy \<Rightarrow> int \<Rightarrow> logger_registry \<Rightarrow> logger_registry" where
  "set_async_mode q_size policy interval r =
     r\<lparr>rg_async_mode := True, rg_async_q_size := q_size, rg_overflow_policy := policy, rg_flush_interval := interval\<rparr>"

definition set_sync_mode :: "logger_registry \<Rightarrow> logger_registry" where
  "set_sync_mode r = r\<lparr>rg_async_mode := False\<rparr>"

text \<open>The operations that change every registered logger, and the default of the next ones.\<close>

definition apply_all :: "(spd_logger \<Rightarrow> spd_logger) \<Rightarrow> log_process \<Rightarrow> log_process" where
  "apply_all f p =
     p\<lparr>lp_heap := \<lambda>i. if i \<in> set (map snd (rg_loggers (lp_registry p))) then map_option f (lp_heap p i) else lp_heap p i\<rparr>"

definition registry_formatter :: "flag_formatter list \<Rightarrow> log_process \<Rightarrow> log_process" where
  "registry_formatter f p = apply_all (set_formatter f) (p\<lparr>lp_registry := (lp_registry p)\<lparr>rg_formatter := Some f\<rparr>\<rparr>)"

definition registry_set_pattern :: "string \<Rightarrow> log_process \<Rightarrow> log_process" where
  "registry_set_pattern pattern p = registry_formatter (compile_pattern pattern) p"

definition registry_set_level :: "level_enum \<Rightarrow> log_process \<Rightarrow> log_process" where
  "registry_set_level lvl p = apply_all (set_level lvl) (p\<lparr>lp_registry := (lp_registry p)\<lparr>rg_level := lvl\<rparr>\<rparr>)"

definition registry_set_error_handler :: "(string \<Rightarrow> log_world \<Rightarrow> log_world) \<Rightarrow> log_process \<Rightarrow> log_process" where
  "registry_set_error_handler f p =
     apply_all (set_error_handler f) (p\<lparr>lp_registry := (lp_registry p)\<lparr>rg_err_handler := Some f\<rparr>\<rparr>)"

definition configure_logger :: "logger_registry \<Rightarrow> spd_logger \<Rightarrow> spd_logger" where
  "configure_logger r l =
     (let l = (case rg_formatter r of None \<Rightarrow> l | Some f \<Rightarrow> set_formatter f l);
          l = (case rg_err_handler r of None \<Rightarrow> l | Some f \<Rightarrow> set_error_handler f l)
      in set_level (rg_level r) l)"

definition registry_create ::
  "('e) log_env_scheme \<Rightarrow> string \<Rightarrow> sink list \<Rightarrow> log_process \<Rightarrow> (string + nat) \<times> log_process" where
  "registry_create env nm sinks p =
     (let r = lp_registry p
      in if um_find (rg_loggers r) nm \<noteq> None then (Inl (already_exists nm), p)
         else
           let (made, w) =
             (if rg_async_mode r
              then new_async_logger env nm sinks (rg_async_q_size r) (rg_overflow_policy r) (rg_flush_interval r) (lp_world p)
              else (Inr (new_logger nm sinks), lp_world p))
           in case made of
                Inl e \<Rightarrow> (Inl e, p\<lparr>lp_world := w\<rparr>)
              | Inr l \<Rightarrow>
                  (Inr (lp_next p),
                   p\<lparr>lp_world := w, lp_heap := (lp_heap p)(lp_next p \<mapsto> configure_logger r l), lp_next := Suc (lp_next p),
                     lp_registry := r\<lparr>rg_loggers := um_emplace nm (lp_next p) (rg_loggers r)\<rparr>\<rparr>))"

section \<open>The end of a logger\<close>

text \<open>
  The destructor of a sink: the stream of a file is closed, which flushes it; its text stays in the table as the text of
  the file. An object is destroyed when neither the registry nor one of the given holders refers to it.
\<close>

fun close_sink :: "('e) log_env_scheme \<Rightarrow> sink_kind \<Rightarrow> log_world \<Rightarrow> log_world" where
  "close_sink env Stdout_sink w = w"
| "close_sink env (Ansicolor_sink k) w = sink_flush env k w"
| "close_sink env (Simple_file_sink f) w = sink_flush env (Simple_file_sink f) w"
| "close_sink env (Syslog_sink ident) w = w"

definition destroy_fuel :: nat where "destroy_fuel = 8195"

definition release_logger :: "('e) log_env_scheme \<Rightarrow> nat list \<Rightarrow> nat \<Rightarrow> log_process \<Rightarrow> log_process outcome" where
  "release_logger env held i p =
     (if i \<in> set held \<or> i \<in> set (map snd (rg_loggers (lp_registry p))) then Inr p
      else case lp_heap p i of
             None \<Rightarrow> Inr p
           | Some l \<Rightarrow>
               obind (destroy_logger destroy_fuel env l (lp_world p)) (\<lambda>(_, w).
               Inr (p\<lparr>lp_heap := (lp_heap p)(i := None), lp_world := fold (\<lambda>s. close_sink env (sk_kind s)) (sl_sinks l) w\<rparr>)))"

fun release_loggers :: "('e) log_env_scheme \<Rightarrow> nat list \<Rightarrow> nat list \<Rightarrow> log_process \<Rightarrow> log_process outcome" where
  "release_loggers env held [] p = Inr p"
| "release_loggers env held (i # is) p = obind (release_logger env held i p) (\<lambda>p. release_loggers env held is p)"

definition drop_all :: "('e) log_env_scheme \<Rightarrow> nat list \<Rightarrow> log_process \<Rightarrow> log_process outcome" where
  "drop_all env held p =
     release_loggers env held (map snd (rg_loggers (lp_registry p))) (p\<lparr>lp_registry := (lp_registry p)\<lparr>rg_loggers := []\<rparr>\<rparr>)"

section \<open>Making loggers\<close>

text \<open>A file is opened for appending, in at most five attempts.\<close>

fun open_tries :: "('e) logger_env_scheme \<Rightarrow> string \<Rightarrow> nat \<Rightarrow> nat \<Rightarrow> log_world \<Rightarrow> bool" where
  "open_tries env f i 0 w = False"
| "open_tries env f i (Suc n) w = (lg_fopen env f i w \<or> open_tries env f (Suc i) n w)"

definition file_open :: "('e) logger_env_scheme \<Rightarrow> string \<Rightarrow> log_world \<Rightarrow> (string + unit) \<times> log_world" where
  "file_open env f w =
     (if open_tries env f 0 5 w then
        (Inr (),
         w\<lparr>lw_files := (lw_files w)(f \<mapsto> (case lw_files w f of None \<Rightarrow> (lg_contents env f, length (lg_contents env f)) | Some x \<Rightarrow> x))\<rparr>)
      else (Inl (''Failed opening file '' @ f @ '' for writing: '' @ le_errno_str env w), w))"

definition stdout_logger_mt :: "('e) logger_env_scheme \<Rightarrow> string \<Rightarrow> log_process \<Rightarrow> (string + nat) \<times> log_process" where
  "stdout_logger_mt env nm p = registry_create env nm [new_sink Stdout_sink] p"

definition stdout_color_mt :: "('e) logger_env_scheme \<Rightarrow> string \<Rightarrow> log_process \<Rightarrow> (string + nat) \<times> log_process" where
  "stdout_color_mt env nm p = registry_create env nm [new_sink (Ansicolor_sink Stdout_sink)] p"

definition basic_logger_mt :: "('e) logger_env_scheme \<Rightarrow> string \<Rightarrow> string \<Rightarrow> log_process \<Rightarrow> (string + nat) \<times> log_process" where
  "basic_logger_mt env nm f p =
     (case file_open env f (lp_world p) of
        (Inl e, w) \<Rightarrow> (Inl e, p\<lparr>lp_world := w\<rparr>)
      | (Inr _, w) \<Rightarrow> registry_create env nm [new_sink (Simple_file_sink f)] (p\<lparr>lp_world := w\<rparr>))"

definition syslog_logger :: "('e) logger_env_scheme \<Rightarrow> string \<Rightarrow> string \<Rightarrow> log_process \<Rightarrow> (string + nat) \<times> log_process" where
  "syslog_logger env nm ident p = registry_create env nm [new_sink (Syslog_sink ident)] p"

section \<open>The class \<open>logger\<close>\<close>

text \<open>
  The constructor. A type it does not know is reported by an exception that it does not catch itself; an exception of
  the library becomes a run-time error. The new logger is taken out of the registry at once; \<open>held\<close> are the loggers that
  other instances refer to.
\<close>

datatype logger_exception = Invalid_argument string | Runtime_error string

definition queue_size :: u64 where "queue_size = 8192"

definition make_internal_logger ::
  "('e) logger_env_scheme \<Rightarrow> string \<Rightarrow> string \<Rightarrow> string \<Rightarrow> log_process \<Rightarrow> (logger_exception + (string + nat)) \<times> log_process" where
  "make_internal_logger env ident type log_file p =
     (let p_async = p\<lparr>lp_registry := set_async_mode queue_size Block_retry 0 (lp_registry p)\<rparr>
      in if type = ''console'' then map_prod Inr id (stdout_logger_mt env ident p_async)
         else if type = ''console color'' then map_prod Inr id (stdout_color_mt env ident p_async)
         else if type = ''file'' then map_prod Inr id (basic_logger_mt env ident log_file p_async)
         else if type = ''syslog'' then map_prod Inr id (syslog_logger env ''syslog'' ident p)
         else (Inl (Invalid_argument (''Unknown logger type: '' @ [CHR 0x27] @ type @ [CHR 0x27])), p))"

definition update_logger :: "nat \<Rightarrow> (spd_logger \<Rightarrow> spd_logger) \<Rightarrow> log_process \<Rightarrow> log_process" where
  "update_logger i f p = p\<lparr>lp_heap := (lp_heap p)(i := map_option f (lp_heap p i))\<rparr>"

definition new_norns_logger ::
  "('e) logger_env_scheme \<Rightarrow> nat list \<Rightarrow> string \<Rightarrow> string \<Rightarrow> string \<Rightarrow> log_process \<Rightarrow>
    ((logger_exception + nat) \<times> log_process) outcome" where
  "new_norns_logger env held ident type log_file p =
     (case make_internal_logger env ident type log_file p of
        (Inl e, p) \<Rightarrow> Inr (Inl e, p)
      | (Inr (Inl what), p) \<Rightarrow> Inr (Inl (Runtime_error (''logger initialization failed: '' @ what)), p)
      | (Inr (Inr i), p) \<Rightarrow>
          let p = update_logger i (set_pattern norns_pattern) p;
              p = (if lg_debug env then update_logger i (set_level Level_debug) p else p)
          in obind (drop_all env (i # held) p) (\<lambda>p. Inr (Inr i, p)))"

text \<open>The destructor, with the member it then releases.\<close>

definition global_ids :: "log_process \<Rightarrow> nat list" where
  "global_ids p = (case lp_global p of None \<Rightarrow> [] | Some i \<Rightarrow> [i])"

definition destroy_norns_logger :: "('e) logger_env_scheme \<Rightarrow> nat \<Rightarrow> log_process \<Rightarrow> log_process outcome" where
  "destroy_norns_logger env i p = obind (drop_all env (i # global_ids p) p) (\<lambda>p. release_logger env (global_ids p) i p)"

text \<open>
  The global instance. A new one is made before the old one is destroyed; a logger that was made elsewhere is moved into
  the global instance, and the object it was moved from is destroyed without a member.
\<close>

definition replace_global :: "('e) logger_env_scheme \<Rightarrow> nat option \<Rightarrow> log_process \<Rightarrow> log_process outcome" where
  "replace_global env new p =
     (let old = lp_global p; p = p\<lparr>lp_global := new\<rparr>
      in case old of None \<Rightarrow> Inr p | Some i \<Rightarrow> destroy_norns_logger env i p)"

definition create_global_logger ::
  "('e) logger_env_scheme \<Rightarrow> string \<Rightarrow> string \<Rightarrow> string \<Rightarrow> log_process \<Rightarrow> (logger_exception option \<times> log_process) outcome" where
  "create_global_logger env ident type log_file p =
     obind (new_norns_logger env (global_ids p) ident type log_file p) (\<lambda>(r, p).
       case r of
         Inl e \<Rightarrow> Inr (Some e, p)
       | Inr i \<Rightarrow> obind (replace_global env (Some i) p) (\<lambda>p. Inr (None, p)))"

definition register_global_logger :: "('e) logger_env_scheme \<Rightarrow> nat \<Rightarrow> log_process \<Rightarrow> log_process outcome" where
  "register_global_logger env i p = replace_global env (Some i) p"

definition destroy_global_logger :: "('e) logger_env_scheme \<Rightarrow> log_process \<Rightarrow> log_process outcome" where
  "destroy_global_logger env p = replace_global env None p"

text \<open>
  The messages a call has to push, one after the other; while the queue is full the worker makes room. The fuel bounds
  the attempts for one message.
\<close>

fun push_blocking :: "nat \<Rightarrow> ('e) log_env_scheme \<Rightarrow> async_msg \<Rightarrow> spd_logger \<Rightarrow> log_world \<Rightarrow> (spd_logger \<times> log_world) outcome" where
  "push_blocking 0 env m l w = Inl Diverges"
| "push_blocking (Suc n) env m l w =
     (case sl_async l of
        None \<Rightarrow> Inr (l, w)
      | Some h \<Rightarrow>
          obind (push_msg m h) (\<lambda>(r, h).
            if r = Full then obind (log_worker_step env (l\<lparr>sl_async := Some h\<rparr>) w) (\<lambda>(l, w). push_blocking n env m l w)
            else Inr (l\<lparr>sl_async := Some h\<rparr>, w)))"

fun push_all :: "('e) log_env_scheme \<Rightarrow> async_msg list \<Rightarrow> spd_logger \<Rightarrow> log_world \<Rightarrow> (spd_logger \<times> log_world) outcome" where
  "push_all env [] l w = Inr (l, w)"
| "push_all env (m # ms) l w = obind (push_blocking 2 env m l w) (\<lambda>(l, w). push_all env ms l w)"

text \<open>
  The macros: they do nothing without a global instance, and those for debugging nothing in a build without it. \<open>given\<close> is
  the text of the message, or the exception of the formatting library.
\<close>

definition with_global :: "(spd_logger \<Rightarrow> log_world \<Rightarrow> (spd_logger \<times> log_world) outcome) \<Rightarrow> log_process \<Rightarrow> log_process outcome" where
  "with_global f p =
     (case lp_global p of
        None \<Rightarrow> Inr p
      | Some i \<Rightarrow>
          (case lp_heap p i of
             None \<Rightarrow> Inl Null_Deref
           | Some l \<Rightarrow> obind (f l (lp_world p)) (\<lambda>(l, w). Inr (p\<lparr>lp_heap := (lp_heap p)(i \<mapsto> l), lp_world := w\<rparr>))))"

definition LOGGER :: "('e) logger_env_scheme \<Rightarrow> u64 \<Rightarrow> level_enum \<Rightarrow> (string + string) \<Rightarrow> log_process \<Rightarrow> log_process outcome" where
  "LOGGER env tid lvl given p =
     (if lvl = Level_debug \<and> \<not> lg_debug env then Inr p
      else with_global (\<lambda>l w. obind (logger_log env tid lvl given l w) (\<lambda>(l, w, ms). push_all env ms l w)) p)"

text \<open>\<^verbatim>\<open>flush\<close> returns when the queue looks empty.\<close>

fun wait_empty_q :: "nat \<Rightarrow> ('e) log_env_scheme \<Rightarrow> spd_logger \<Rightarrow> log_world \<Rightarrow> (spd_logger \<times> log_world) outcome" where
  "wait_empty_q 0 env l w = (if (case sl_async l of None \<Rightarrow> True | Some h \<Rightarrow> wait_empty_q_done h) then Inr (l, w) else Inl Diverges)"
| "wait_empty_q (Suc n) env l w =
     (if (case sl_async l of None \<Rightarrow> True | Some h \<Rightarrow> wait_empty_q_done h) then Inr (l, w)
      else obind (log_worker_step env l w) (\<lambda>(l, w). wait_empty_q n env l w))"

definition LOGGER_FLUSH :: "('e) logger_env_scheme \<Rightarrow> log_process \<Rightarrow> log_process outcome" where
  "LOGGER_FLUSH env p =
     (if \<not> lg_debug env then Inr p
      else with_global (\<lambda>l w. case logger_flush env l w of (w, ms) \<Rightarrow>
        obind (push_all env ms l w) (\<lambda>(l, w). wait_empty_q destroy_fuel env l w)) p)"

text \<open>
  The text of a message: as it is when the call has no arguments, or formatted. \<^verbatim>\<open>LOGGER_ERRNO\<close> extends the format and
  gives the text of the system's last error as one more argument.
\<close>

definition message_text ::
  "(fmt_arg \<Rightarrow> string \<Rightarrow> (string \<times> nat) fmt_result) \<Rightarrow> string \<Rightarrow> fmt_arg list \<Rightarrow> string fmt_result" where
  "message_text spec fmt args = (if args = [] then freturn fmt else fmt_format spec fmt args)"

definition error_errno ::
  "(fmt_arg \<Rightarrow> string \<Rightarrow> (string \<times> nat) fmt_result) \<Rightarrow> string \<Rightarrow> fmt_arg list \<Rightarrow> string \<Rightarrow> string fmt_result" where
  "error_errno spec fmt args msg = message_text spec (fmt @ '': {}'') (args @ [FA_cstring (Some msg)])"

definition LOGGER_args ::
  "('e) logger_env_scheme \<Rightarrow> (fmt_arg \<Rightarrow> string \<Rightarrow> (string \<times> nat) fmt_result) \<Rightarrow> u64 \<Rightarrow> level_enum \<Rightarrow> string \<Rightarrow> fmt_arg list \<Rightarrow>
    log_process \<Rightarrow> log_process outcome" where
  "LOGGER_args env spec tid lvl fmt args p = obind (message_text spec fmt args) (\<lambda>given. LOGGER env tid lvl given p)"

definition build_message :: "string list \<Rightarrow> string" where
  "build_message args = fold (\<lambda>a ss. ss @ a) args []"

section \<open>The texts of messages\<close>

lemma template_append: "template (ps @ qs) = template ps @ template qs"
  by (induction ps rule: template.induct) simp_all

fun fields :: "piece list \<Rightarrow> nat" where
  "fields [] = 0"
| "fields (Plain s # ps) = fields ps"
| "fields (Field # ps) = Suc (fields ps)"

lemma fill_in_append:
  "length args = fields ps \<Longrightarrow> fill_in (ps @ qs) (args @ extra) = fbind (fill_in ps args) (\<lambda>t. fbind (fill_in qs extra) (\<lambda>u. freturn (t @ u)))"
  by (induction ps args rule: fill_in.induct) (simp_all add: fbind_assoc)

text \<open>
  An error that is logged with the system's message: the caller's text with its arguments, then a colon and the message.
  Without an argument for each field the message is not logged.
\<close>

lemma errno_text:
  assumes "length args = fields ps"
  shows "error_errno spec (template ps) args msg = fbind (fill_in ps args) (\<lambda>t. freturn (t @ '': '' @ msg))"
proof -
  have "template ps @ '': {}'' = template (ps @ [Plain '': '', Field])" by (simp add: template_append escape_def)
  then have "error_errno spec (template ps) args msg = fill_in (ps @ [Plain '': '', Field]) (args @ [FA_cstring (Some msg)])"
    by (simp only: error_errno_def message_text_def format_template) simp
  then show ?thesis by (simp add: fill_in_append [OF assms])
qed

section \<open>The registry keeps one logger per name\<close>

interpretation loggers: registry
  "\<lambda>nm i r. map_prod (\<lambda>x. x = Inr ()) id (register_logger nm i r)" registry_get "\<lambda>r. um_wf (rg_loggers r)"
  by unfold_locales (auto simp: register_logger_def registry_get_def fun_eq_iff)

section \<open>A session\<close>

text \<open>
  A logger with one stream in the middle of a session: \<open>as\<close> are the messages pushed so far, all of them lines.
\<close>

definition session_state ::
  "('e) log_env_scheme \<Rightarrow> sink_kind \<Rightarrow> string \<Rightarrow> string \<Rightarrow> level_enum \<Rightarrow> async_msg list \<Rightarrow> spd_logger \<Rightarrow> log_world \<Rightarrow> bool" where
  "session_state env k before ident thr as l w \<longleftrightarrow>
     sl_name l = ident \<and> sl_level l = thr \<and> sl_flush_level l = Level_off \<and> sl_err_handler l = None \<and> sl_sinks l = [new_sink k] \<and>
     list_all (\<lambda>a. am_msg_type a = Msg_log \<and> am_logger_name a = ident) as \<and>
     (\<exists>h gone pending. sl_async l = Some h \<and> as = gone @ pending \<and> length pending \<le> 8192 \<and> ah_active h \<and>
        helper_state env k before gone pending h w)"

lemma push_blocking_state:
  assumes "env_ok env" and "writes_succeed env" and "session_state env k before ident thr as l w"
    and "am_msg_type m = Msg_log" and "am_logger_name m = ident"
  shows "\<exists>l' w'. push_blocking 2 env m l w = Inr (l', w') \<and> session_state env k before ident thr (as @ [m]) l' w'"
proof -
  from assms(3) obtain h gone pending where st: "sl_async l = Some h" "as = gone @ pending" "length pending \<le> 8192" "ah_active h"
    "helper_state env k before gone pending h w" unfolding session_state_def by blast
  show ?thesis
  proof (cases "length pending < 8192")
    case True
    obtain h' where push: "push_msg m h = Inr (Pushed, h')" "helper_state env k before gone (pending @ [m]) h' w" "ah_active h'"
      using push_msg_state(1) [OF st(5) True, of m] st(4) by blast
    then have "session_state env k before ident thr (as @ [m]) (l\<lparr>sl_async := Some h'\<rparr>) w"
      using assms(3-5) st(2) True unfolding session_state_def
      by (intro conjI exI [of _ h'] exI [of _ gone] exI [of _ "pending @ [m]"]) simp_all
    with push(1) st(1) show ?thesis by (simp add: numeral_2_eq_2)
  next
    case False
    then obtain a rest where pending: "pending = a # rest" by (cases pending) simp_all
    have full: "push_msg m h = Inr (Full, h)" using push_msg_state(2) [OF st(5)] False by simp
    obtain h1 w1 where step: "log_worker_step env l w = Inr (l\<lparr>sl_async := Some h1\<rparr>, w1)"
      "helper_state env k before (gone @ [a]) rest h1 w1" "ah_active h1"
      using worker_step_message [OF assms(1,2) st(1,4) st(5) [unfolded pending]] by blast
    have room: "length rest < 8192" using st(3) pending by simp
    obtain h' where push: "push_msg m h1 = Inr (Pushed, h')" "helper_state env k before (gone @ [a]) (rest @ [m]) h' w1" "ah_active h'"
      using push_msg_state(1) [OF step(2) room, of m] step(3) by blast
    then have "session_state env k before ident thr (as @ [m]) (l\<lparr>sl_async := Some h'\<rparr>) w1"
      using assms(3-5) st(2) pending room unfolding session_state_def
      by (intro conjI exI [of _ h'] exI [of _ "gone @ [a]"] exI [of _ "rest @ [m]"]) simp_all
    moreover have same: "l\<lparr>sl_async := Some h\<rparr> = l" using st(1) by (cases l) simp
    have "push_blocking 2 env m l w = Inr (l\<lparr>sl_async := Some h'\<rparr>, w1)"
      using full step(1) push(1) st(1) by (simp add: numeral_2_eq_2 same)
    ultimately show ?thesis by blast
  qed
qed

text \<open>What one call adds: a line when the level reaches the threshold and the text can be formatted.\<close>

definition accepted :: "level_enum \<Rightarrow> u64 \<Rightarrow> level_enum \<Rightarrow> (string + string) \<Rightarrow> (u64 \<times> level_enum \<times> string) list" where
  "accepted thr tid lvl given = (if thr \<le> lvl then (case given of Inl _ \<Rightarrow> [] | Inr s \<Rightarrow> [(tid, lvl, s)]) else [])"

definition msg_key :: "async_msg \<Rightarrow> u64 \<times> level_enum \<times> string" where
  "msg_key a = (am_thread_id a, am_level a, am_txt a)"

lemma session_state_world:
  "stream_text k w' = stream_text k w \<Longrightarrow> is_stream k w' = is_stream k w \<Longrightarrow>
    session_state env k before ident thr as l w' = session_state env k before ident thr as l w"
  by (simp add: session_state_def helper_state_world [of k w' w])

lemma call_err_handler_session:
  assumes "session_state env k before ident thr as l w"
  shows "\<exists>l' w'. call_err_handler env e l w = (l', w') \<and> session_state env k before ident thr as l' w'"
proof -
  obtain l' w' where r: "call_err_handler env e l w = (l', w')" by fastforce
  have "sl_err_handler l = None" using assms by (simp add: session_state_def)
  from call_err_handler_keeps [OF this r, of k] have keep: "sl_async l' = sl_async l" "stream_text k w' = stream_text k w"
    "is_stream k w' = is_stream k w" by auto
  moreover have "sl_name l' = sl_name l" "sl_level l' = sl_level l" "sl_flush_level l' = sl_flush_level l" "sl_sinks l' = sl_sinks l"
    "sl_err_handler l' = sl_err_handler l" using r \<open>sl_err_handler l = None\<close>
    by (auto simp: call_err_handler_def default_err_handler_def Let_def split: prod.splits if_splits)
  ultimately have "session_state env k before ident thr as l' w' = session_state env k before ident thr as l w'"
    by (simp add: session_state_def)
  with session_state_world [OF keep(2,3)] assms r show ?thesis by blast
qed

lemma log_session_state:
  assumes "env_ok env" and "writes_succeed env" and "session_state env k before ident thr as l w"
  shows "\<exists>l' w' new. obind (logger_log env tid lvl given l w) (\<lambda>(l, w, ms). push_all env ms l w) = Inr (l', w') \<and>
    session_state env k before ident thr (as @ new) l' w' \<and> map msg_key new = accepted thr tid lvl given"
proof -
  have l: "sl_level l = thr" "sl_flush_level l = Level_off" "sl_name l = ident" using assms(3) by (simp_all add: session_state_def)
  obtain h where h: "sl_async l = Some h" using assms(3) by (auto simp: session_state_def)
  let ?w = "w\<lparr>lw_clock := Suc (lw_clock w)\<rparr>"
  have w: "session_state env k before ident thr as l ?w" using assms(3) by (subst session_state_world [of k ?w w]) simp_all
  show ?thesis
  proof (cases "thr \<le> lvl")
    case False
    with assms(3) show ?thesis
      by (intro exI [of _ l] exI [of _ w] exI [of _ "[]"]) (simp add: logger_log_def l accepted_def)
  next
    case True
    show ?thesis
    proof (cases given)
      case (Inl e)
      obtain l' w' where "call_err_handler env e l ?w = (l', w')" "session_state env k before ident thr as l' w'"
        using call_err_handler_session [OF w] by blast
      with True Inl show ?thesis
        by (intro exI [of _ l'] exI [of _ w'] exI [of _ "[]"]) (simp add: logger_log_def l accepted_def read_clock_def)
    next
      case (Inr raw)
      define m where "m = async_msg_of \<lparr>lm_logger_name = ident, lm_level = lvl, lm_time = le_now env (lw_clock w), lm_thread_id = tid,
        lm_raw = raw, lm_formatted = []\<rparr>"
      have "\<not> should_flush_on l lvl" using l(2) by (cases lvl) (simp_all add: should_flush_on_def less_eq_level_enum_def)
      then have "logger_log env tid lvl given l w = Inr (l, ?w, [m])"
        using True Inr h by (simp add: logger_log_def l read_clock_def async_sink_it_def m_def)
      moreover obtain l' w' where "push_blocking 2 env m l ?w = Inr (l', w')" "session_state env k before ident thr (as @ [m]) l' w'"
        using push_blocking_state [OF assms(1,2) w, of m] by (auto simp: m_def async_msg_of_def)
      moreover have "map msg_key [m] = accepted thr tid lvl given" using True Inr by (simp add: m_def async_msg_of_def msg_key_def accepted_def)
      ultimately show ?thesis by (intro exI [of _ l'] exI [of _ w'] exI [of _ "[m]"]) simp
    qed
  qed
qed

text \<open>The calls of a session, one after the other, and the lines they ask for.\<close>

fun log_session :: "('e) logger_env_scheme \<Rightarrow> (u64 \<times> level_enum \<times> (string + string)) list \<Rightarrow> log_process \<Rightarrow> log_process outcome" where
  "log_session env [] p = Inr p"
| "log_session env ((tid, lvl, given) # calls) p = obind (LOGGER env tid lvl given p) (\<lambda>p. log_session env calls p)"

definition threshold :: "('e) logger_env_scheme \<Rightarrow> level_enum" where
  "threshold env = (if lg_debug env then Level_debug else Level_info)"

definition session_lines :: "('e) logger_env_scheme \<Rightarrow> (u64 \<times> level_enum \<times> (string + string)) list \<Rightarrow> (u64 \<times> level_enum \<times> string) list" where
  "session_lines env calls = concat (map (\<lambda>(tid, lvl, given). accepted (threshold env) tid lvl given) calls)"

definition registry_idle :: "logger_registry \<Rightarrow> bool" where
  "registry_idle r \<longleftrightarrow>
     rg_loggers r = [] \<and> rg_formatter r = None \<and> rg_err_handler r = None \<and> rg_level r = Level_info \<and>
     (rg_async_mode r \<longrightarrow> rg_async_q_size r = queue_size)"

definition session_process ::
  "('e) logger_env_scheme \<Rightarrow> sink_kind \<Rightarrow> string \<Rightarrow> string \<Rightarrow> nat \<Rightarrow> (nat \<rightharpoonup> spd_logger) \<Rightarrow> async_msg list \<Rightarrow> log_process \<Rightarrow> bool" where
  "session_process env k before ident i heap as p \<longleftrightarrow>
     lp_global p = Some i \<and> registry_idle (lp_registry p) \<and> lp_next p = Suc i \<and>
     (\<exists>l. lp_heap p = heap(i \<mapsto> l) \<and> session_state env k before ident (threshold env) as l (lp_world p))"

lemma LOGGER_session:
  assumes "env_ok env" and "writes_succeed env" and "session_process env k before ident i heap as p"
  shows "\<exists>p' new. LOGGER env tid lvl given p = Inr p' \<and> session_process env k before ident i heap (as @ new) p' \<and>
    map msg_key new = accepted (threshold env) tid lvl given"
proof (cases "lvl = Level_debug \<and> \<not> lg_debug env")
  case True
  with assms(3) show ?thesis
    by (intro exI [of _ p] exI [of _ "[]"]) (simp add: LOGGER_def accepted_def threshold_def less_eq_level_enum_def)
next
  case False
  from assms(3) obtain l where l: "lp_global p = Some i" "registry_idle (lp_registry p)" "lp_heap p = heap(i \<mapsto> l)"
    "session_state env k before ident (threshold env) as l (lp_world p)" "lp_next p = Suc i" unfolding session_process_def by blast
  obtain l' w' new where step: "obind (logger_log env tid lvl given l (lp_world p)) (\<lambda>(l, w, ms). push_all env ms l w) = Inr (l', w')"
    "session_state env k before ident (threshold env) (as @ new) l' w'" "map msg_key new = accepted (threshold env) tid lvl given"
    using log_session_state [OF assms(1,2) l(4)] by blast
  then have "LOGGER env tid lvl given p = Inr (p\<lparr>lp_heap := (lp_heap p)(i \<mapsto> l'), lp_world := w'\<rparr>)"
    using l(1,3) by (simp add: LOGGER_def with_global_def if_not_P [OF False])
  with step(2,3) l show ?thesis by (auto simp: session_process_def)
qed

lemma log_session_runs:
  assumes "env_ok env" and "writes_succeed env"
  shows "session_process env k before ident i heap as p \<Longrightarrow>
    \<exists>p' new. log_session env calls p = Inr p' \<and> session_process env k before ident i heap (as @ new) p' \<and>
      map msg_key new = session_lines env calls"
proof (induction calls arbitrary: as p)
  case Nil
  then show ?case by (auto simp: session_lines_def)
next
  case (Cons c calls)
  obtain tid lvl given where c: "c = (tid, lvl, given)" by (cases c)
  obtain p1 new where p1: "LOGGER env tid lvl given p = Inr p1" "session_process env k before ident i heap (as @ new) p1"
    "map msg_key new = accepted (threshold env) tid lvl given"
    using LOGGER_session [OF assms Cons.prems] by blast
  from Cons.IH [OF p1(2)] obtain p2 new' where "log_session env calls p1 = Inr p2"
    "session_process env k before ident i heap ((as @ new) @ new') p2" "map msg_key new' = session_lines env calls" by blast
  with p1(1,3) show ?case
    by (intro exI [of _ p2] exI [of _ "new @ new'"]) (simp add: c session_lines_def)
qed

section \<open>From creation to destruction\<close>

text \<open>The two kinds of asynchronous logger of the daemon, and the state in which the daemon makes one.\<close>

definition stream_of_type :: "string \<Rightarrow> string \<Rightarrow> sink_kind" where
  "stream_of_type type log_file =
     (if type = ''console'' then Stdout_sink else if type = ''console color'' then Ansicolor_sink Stdout_sink else Simple_file_sink log_file)"

definition no_logger :: "log_process \<Rightarrow> bool" where
  "no_logger p \<longleftrightarrow>
     registry_idle (lp_registry p) \<and> lp_global p = None \<and> (\<forall>i \<ge> lp_next p. lp_heap p i = None)"

definition text_before :: "('e) logger_env_scheme \<Rightarrow> sink_kind \<Rightarrow> log_world \<Rightarrow> string" where
  "text_before env k w =
     (case k of Simple_file_sink f \<Rightarrow> (case lw_files w f of None \<Rightarrow> lg_contents env f | Some (t, _) \<Rightarrow> t) | _ \<Rightarrow> stream_text k w)"

definition can_open :: "('e) logger_env_scheme \<Rightarrow> string \<Rightarrow> string \<Rightarrow> log_world \<Rightarrow> bool" where
  "can_open env type log_file w \<longleftrightarrow> type = ''file'' \<longrightarrow> open_tries env log_file 0 5 w"

lemma create_async_session:
  assumes "no_logger p" and "rg_async_mode (lp_registry p)" and "rg_async_q_size (lp_registry p) = 8192"
    and "rg_overflow_policy (lp_registry p) = Block_retry" and "rg_flush_interval (lp_registry p) = 0" and "is_stream k (lp_world p)"
  shows "\<exists>h w. registry_create env ident [new_sink k] p =
      (Inr (lp_next p), p\<lparr>lp_world := w, lp_heap := (lp_heap p)(lp_next p \<mapsto> (new_logger ident [new_sink k])\<lparr>sl_async := Some h\<rparr>),
        lp_next := Suc (lp_next p), lp_registry := (lp_registry p)\<lparr>rg_loggers := [(ident, lp_next p)]\<rparr>\<rparr>) \<and>
    ah_active h \<and> is_stream k w \<and> stream_text k w = stream_text k (lp_world p) \<and>
    helper_state env k (stream_text k (lp_world p)) [] [] (h\<lparr>ah_formatter := compile_pattern norns_pattern\<rparr>) w"
proof -
  obtain q where q: "log_queue_holds q []" "new_async_logger env ident [new_sink k] 8192 Block_retry 0 (lp_world p) =
      (Inr ((new_logger ident [new_sink k])\<lparr>sl_async := Some
         \<lparr>ah_formatter = compile_pattern ''%+'', ah_sinks = [new_sink k], ah_q = q, ah_flush_requested = False,
          ah_terminate_requested = False, ah_overflow_policy = Block_retry, ah_flush_interval = 0, ah_active = True,
          ah_last_pop = le_now env (lw_clock (lp_world p)), ah_last_flush = le_now env (lw_clock (lp_world p))\<rparr>\<rparr>),
       (lp_world p)\<lparr>lw_clock := Suc (lw_clock (lp_world p))\<rparr>)"
    using new_async_logger_8192 [of env ident "[new_sink k]" Block_retry 0 "lp_world p"] by blast
  define h where "h = \<lparr>ah_formatter = compile_pattern ''%+'', ah_sinks = [new_sink k], ah_q = q, ah_flush_requested = False,
          ah_terminate_requested = False, ah_overflow_policy = Block_retry, ah_flush_interval = 0, ah_active = True,
          ah_last_pop = le_now env (lw_clock (lp_world p)), ah_last_flush = le_now env (lw_clock (lp_world p))\<rparr>"
  define w where "w = (lp_world p)\<lparr>lw_clock := Suc (lw_clock (lp_world p))\<rparr>"
  have made: "new_async_logger env ident [new_sink k] 8192 Block_retry 0 (lp_world p) =
      (Inr ((new_logger ident [new_sink k])\<lparr>sl_async := Some h\<rparr>), w)" unfolding h_def w_def by (rule q(2))
  have "configure_logger (lp_registry p) ((new_logger ident [new_sink k])\<lparr>sl_async := Some h\<rparr>) = (new_logger ident [new_sink k])\<lparr>sl_async := Some h\<rparr>"
    using assms(1) by (simp add: configure_logger_def no_logger_def registry_idle_def set_level_def new_logger_def)
  moreover have "helper_state env k (stream_text k (lp_world p)) [] [] (h\<lparr>ah_formatter := compile_pattern norns_pattern\<rparr>) w"
    using q(1) assms(6) by (simp add: helper_state_def h_def w_def msg_lines_def)
  ultimately show ?thesis using assms made
    by (intro exI [of _ h] exI [of _ w]) (simp add: registry_create_def no_logger_def registry_idle_def um_emplace_def h_def w_def)
qed

lemma make_internal_session:
  assumes "no_logger p" and "type \<in> {''console'', ''console color'', ''file''}" and "can_open env type log_file (lp_world p)"
    and "k = stream_of_type type log_file"
  shows "\<exists>p' h. make_internal_logger env ident type log_file p = (Inr (Inr (lp_next p)), p') \<and> lp_global p' = None \<and>
    rg_loggers (lp_registry p') = [(ident, lp_next p)] \<and> registry_idle ((lp_registry p')\<lparr>rg_loggers := []\<rparr>) \<and> lp_next p' = Suc (lp_next p) \<and>
    lp_heap p' = (lp_heap p)(lp_next p \<mapsto> (new_logger ident [new_sink k])\<lparr>sl_async := Some h\<rparr>) \<and> ah_active h \<and>
    helper_state env k (text_before env k (lp_world p)) [] [] (h\<lparr>ah_formatter := compile_pattern norns_pattern\<rparr>) (lp_world p')"
proof -
  define w0 where "w0 = (if type = ''file'' then snd (file_open env log_file (lp_world p)) else lp_world p)"
  define p0 where "p0 = p\<lparr>lp_registry := set_async_mode queue_size Block_retry 0 (lp_registry p), lp_world := w0\<rparr>"
  have stream: "is_stream k w0" "stream_text k w0 = text_before env k (lp_world p)"
    using assms(2-4) by (auto simp: w0_def stream_of_type_def text_before_def can_open_def file_open_def split: option.splits)
  have "make_internal_logger env ident type log_file p = map_prod Inr id (registry_create env ident [new_sink k] p0)"
    using assms(2-4) by (auto simp: make_internal_logger_def stream_of_type_def stdout_logger_mt_def stdout_color_mt_def
      basic_logger_mt_def p0_def w0_def can_open_def file_open_def)
  moreover have "no_logger p0" "lp_next p0 = lp_next p" "lp_heap p0 = lp_heap p" "lp_world p0 = w0" "lp_global p0 = None"
    using assms(1) by (simp_all add: p0_def no_logger_def registry_idle_def set_async_mode_def queue_size_def)
  moreover have "registry_idle ((lp_registry p0)\<lparr>rg_loggers := []\<rparr>)" using calculation(2) by (simp add: no_logger_def registry_idle_def)
  moreover have "rg_async_mode (lp_registry p0)" "rg_async_q_size (lp_registry p0) = 8192"
    "rg_overflow_policy (lp_registry p0) = Block_retry" "rg_flush_interval (lp_registry p0) = 0"
    by (simp_all add: p0_def set_async_mode_def queue_size_def)
  ultimately show ?thesis using create_async_session [of p0 k env ident] stream by auto
qed

lemma create_global_session:
  assumes "no_logger p" and "type \<in> {''console'', ''console color'', ''file''}" and "can_open env type log_file (lp_world p)"
    and "k = stream_of_type type log_file"
  shows "\<exists>p'. create_global_logger env ident type log_file p = Inr (None, p') \<and>
    session_process env k (text_before env k (lp_world p)) ident (lp_next p) (lp_heap p) [] p'"
proof -
  let ?i = "lp_next p"
  obtain p1 h where p1: "make_internal_logger env ident type log_file p = (Inr (Inr ?i), p1)" "lp_global p1 = None"
    "rg_loggers (lp_registry p1) = [(ident, ?i)]"
    "lp_heap p1 = (lp_heap p)(?i \<mapsto> (new_logger ident [new_sink k])\<lparr>sl_async := Some h\<rparr>)" "ah_active h"
    "helper_state env k (text_before env k (lp_world p)) [] [] (h\<lparr>ah_formatter := compile_pattern norns_pattern\<rparr>) (lp_world p1)"
    "registry_idle ((lp_registry p1)\<lparr>rg_loggers := []\<rparr>)" "lp_next p1 = Suc ?i"
    using make_internal_session [OF assms] by blast
  define l where "l = (new_logger ident [new_sink k])\<lparr>sl_formatter := compile_pattern norns_pattern,
    sl_async := Some (h\<lparr>ah_formatter := compile_pattern norns_pattern\<rparr>), sl_level := threshold env\<rparr>"
  define p2 where "p2 = p1\<lparr>lp_heap := (lp_heap p)(?i \<mapsto> l), lp_registry := (lp_registry p1)\<lparr>rg_loggers := []\<rparr>\<rparr>"
  have "new_norns_logger env [] ident type log_file p = Inr (Inr ?i, p2)"
    using p1(1,3,4) by (auto simp: new_norns_logger_def update_logger_def drop_all_def release_logger_def set_pattern_def
      set_formatter_def set_level_def p2_def l_def threshold_def new_logger_def)
  then have "create_global_logger env ident type log_file p = Inr (None, p2\<lparr>lp_global := Some ?i\<rparr>)"
    using assms(1) p1(2) by (simp add: create_global_logger_def global_ids_def no_logger_def replace_global_def p2_def)
  moreover have "session_state env k (text_before env k (lp_world p)) ident (threshold env) [] l (lp_world p1)"
    using p1(5,6) by (simp add: session_state_def l_def new_logger_def)
  then have "session_process env k (text_before env k (lp_world p)) ident ?i (lp_heap p) [] (p2\<lparr>lp_global := Some ?i\<rparr>)"
    using p1(7,8) by (auto simp: session_process_def p2_def)
  ultimately show ?thesis by blast
qed

lemma flushed_stays: "stream_flushed k w \<Longrightarrow> stream_flushed k (sink_flush env k w)"
  by (induction k) (auto split: option.splits)

lemma close_sink_flushed:
  "stream_flushed k w \<Longrightarrow> stream_text k (close_sink env k w) = stream_text k w \<and> stream_flushed k (close_sink env k w)"
proof (induction k)
  case (Simple_file_sink f)
  with flushed_stays [of "Simple_file_sink f" w env] show ?case using sink_flush_stream(1) [of "Simple_file_sink f" env w] by simp
qed (simp_all add: flushed_stays)

lemma destroy_global_session:
  assumes "env_ok env" and "writes_succeed env" and "session_process env k before ident i heap as p"
  shows "\<exists>p'. destroy_global_logger env p = Inr p' \<and> stream_text k (lp_world p') = before @ msg_lines env k as \<and>
    stream_flushed k (lp_world p') \<and> lp_global p' = None \<and> registry_idle (lp_registry p') \<and> lp_heap p' = heap(i := None) \<and>
    lp_next p' = Suc i"
proof -
  from assms(3) obtain l where l: "lp_global p = Some i" "registry_idle (lp_registry p)" "lp_heap p = heap(i \<mapsto> l)"
    "session_state env k before ident (threshold env) as l (lp_world p)" "lp_next p = Suc i" unfolding session_process_def by blast
  from l(4) obtain h gone pending where st: "sl_async l = Some h" "as = gone @ pending" "length pending \<le> 8192" "ah_active h"
    "helper_state env k before gone pending h (lp_world p)" "sl_sinks l = [new_sink k]" unfolding session_state_def by blast
  obtain l' w where d: "destroy_logger destroy_fuel env l (lp_world p) = Inr (l', w)"
    "stream_text k w = before @ msg_lines env k as" "stream_flushed k w"
    using destroy_drains [OF assms(1,2) st(1,4,5), of destroy_fuel] st(2,3) by (auto simp: destroy_fuel_def)
  define p' where "p' = p\<lparr>lp_global := None, lp_heap := heap(i := None), lp_world := close_sink env k w\<rparr>"
  have "destroy_global_logger env p = Inr p'"
    using l d(1) st(6) by (simp add: registry_idle_def destroy_global_logger_def replace_global_def destroy_norns_logger_def drop_all_def global_ids_def
      release_logger_def p'_def new_sink_def)
  moreover have "stream_text k (lp_world p') = before @ msg_lines env k as" "stream_flushed k (lp_world p')"
    using close_sink_flushed [OF d(3), of env] d(2) by (simp_all add: p'_def)
  ultimately show ?thesis using l(2,5) by (simp add: p'_def)
qed


definition sample_logger_env :: logger_env where
  "sample_logger_env =
     \<lparr>pe_localtime = \<lambda>_. sample_tm, pe_pid = 42, le_now = int, le_stdout = \<lambda>w s. length s, le_fwrite = \<lambda>f w s. length s,
      le_fflush = \<lambda>f w. True, le_errno_str = \<lambda>w. [], le_date = \<lambda>t. [], lg_fopen = \<lambda>f i w. i = 3, lg_contents = \<lambda>f. [],
      lg_debug = False\<rparr>"

definition sample_log_process :: log_process where
  "sample_log_process =
     \<lparr>lp_registry = new_registry, lp_heap = Map.empty, lp_next = 0,
      lp_world = \<lparr>lw_stdout = [], lw_stderr = [], lw_files = Map.empty, lw_syslog = [], lw_clock = 0\<rparr>, lp_global = None\<rparr>"

lemma sample_logger_ok:
  "env_ok sample_logger_env" "writes_succeed sample_logger_env" "no_logger sample_log_process"
  "can_open sample_logger_env ''file'' ''urd.log'' (lp_world sample_log_process)"
  by (simp_all add: env_ok_def writes_succeed_def sample_logger_env_def sample_tm_def tm_ok_def no_logger_def sample_log_process_def
    new_registry_def registry_idle_def can_open_def numeral_eq_Suc)


lemma create_syslog:
  assumes "no_logger p"
  shows "\<exists>p'. create_global_logger env ident ''syslog'' log_file p = Inr (None, p')"
proof -
  have reg: "registry_idle (lp_registry p)" "global_ids p = []" "lp_global p = None" using assms by (simp_all add: no_logger_def global_ids_def)
  obtain l w where made: "(if rg_async_mode (lp_registry p) then new_async_logger env ''syslog'' [new_sink (Syslog_sink ident)]
      (rg_async_q_size (lp_registry p)) (rg_overflow_policy (lp_registry p)) (rg_flush_interval (lp_registry p)) (lp_world p)
      else (Inr (new_logger ''syslog'' [new_sink (Syslog_sink ident)]), lp_world p)) = (Inr l, w)"
    using new_async_logger_8192 [of env "''syslog''" "[new_sink (Syslog_sink ident)]" "rg_overflow_policy (lp_registry p)"
      "rg_flush_interval (lp_registry p)" "lp_world p"] reg(1)
    by (cases "rg_async_mode (lp_registry p)") (auto simp: registry_idle_def queue_size_def)
  then have "registry_create env ''syslog'' [new_sink (Syslog_sink ident)] p =
      (Inr (lp_next p), p\<lparr>lp_world := w, lp_heap := (lp_heap p)(lp_next p \<mapsto> configure_logger (lp_registry p) l),
        lp_next := Suc (lp_next p), lp_registry := (lp_registry p)\<lparr>rg_loggers := [(''syslog'', lp_next p)]\<rparr>\<rparr>)"
    using reg(1) by (simp add: registry_create_def Let_def registry_idle_def um_emplace_def)
  then show ?thesis using reg
    by (auto simp: Let_def create_global_logger_def new_norns_logger_def make_internal_logger_def syslog_logger_def
      update_logger_def drop_all_def release_logger_def replace_global_def)
qed

text \<open>
  The logger to \<^verbatim>\<open>syslog\<close> writes in the thread of the caller, as long as no other kind was made before it: the text of the
  message, up to a zero, with the priority of its level.
\<close>

lemma syslog_writes:
  assumes "env_ok env" and "lp_global p = Some i" and "lp_heap p i = Some l" and "sl_async l = None"
    and "sl_formatter l = compile_pattern norns_pattern" and "sl_sinks l = [new_sink (Syslog_sink ident)]" and "sl_level l \<le> lvl"
    and "sl_flush_level l = Level_off" and "lvl = Level_debug \<longrightarrow> lg_debug env"
  shows "\<exists>p'. LOGGER env tid lvl (Inr s) p = Inr p' \<and>
    lw_syslog (lp_world p') = lw_syslog (lp_world p) @ [(syslog_prio lvl, takeWhile (\<lambda>c. c \<noteq> CHR 0x00) s)]"
proof -
  have "\<not> (lvl = Level_debug \<and> \<not> lg_debug env)" using assms(9) by blast
  moreover have "\<not> should_flush_on l lvl" using assms(8) by (cases lvl) (simp_all add: should_flush_on_def less_eq_level_enum_def)
  moreover have "sink_should_log (new_sink (Syslog_sink ident)) lvl" by (simp add: sink_should_log_def new_sink_def less_eq_level_enum_def)
  ultimately show ?thesis
    using assms(2-7) by (simp add: LOGGER_def with_global_def logger_log_def read_clock_def sink_it_def format_norns [OF assms(1)] new_sink_def syslog_log_def)
qed

text \<open>
  Without a logger in the process, \<^verbatim>\<open>create_global_logger\<close> throws in two cases only: \<^verbatim>\<open>std::invalid_argument\<close> for a type
  that does not exist, and \<^verbatim>\<open>std::runtime_error\<close> for a file that could not be opened in five attempts. The process is
  then as it was, still without a logger. It never fails because a logger of that name exists.
\<close>

lemma logger_refused_cases:
  "no_logger p \<Longrightarrow>
    (if type \<notin> {''console'', ''console color'', ''file'', ''syslog''} then
       create_global_logger env ident type log_file p =
         Inr (Some (Invalid_argument (''Unknown logger type: '' @ [CHR 0x27] @ type @ [CHR 0x27])), p)
     else if type = ''file'' \<and> \<not> open_tries env log_file 0 5 (lp_world p) then
       \<exists>what p'. create_global_logger env ident type log_file p =
           Inr (Some (Runtime_error (''logger initialization failed: Failed opening file '' @ log_file @ '' for writing: '' @ what)), p') \<and>
         no_logger p' \<and> lp_heap p' = lp_heap p \<and> lp_world p' = lp_world p
     else \<exists>p'. create_global_logger env ident type log_file p = Inr (None, p'))"
proof -
  assume p: "no_logger p"
  consider "type \<notin> {''console'', ''console color'', ''file'', ''syslog''}" | "type = ''file''" "\<not> open_tries env log_file 0 5 (lp_world p)"
    | "type = ''syslog''" | "type \<in> {''console'', ''console color'', ''file''}" "can_open env type log_file (lp_world p)"
    by (auto simp: can_open_def)
  then show ?thesis
  proof cases
    case 1
    then show ?thesis by (simp add: create_global_logger_def new_norns_logger_def make_internal_logger_def)
  next
    case 2
    with p show ?thesis
      by (auto simp: create_global_logger_def new_norns_logger_def make_internal_logger_def basic_logger_mt_def file_open_def
        no_logger_def registry_idle_def set_async_mode_def)
  next
    case 3
    with create_syslog [OF p] show ?thesis by simp
  next
    case 4
    with create_global_session [OF p 4 refl] show ?thesis by (auto simp: can_open_def)
  qed
qed

end
