(* ===== verification/Startup_Log.thy ===== *)
theory Startup_Log
  imports Startup Logger
begin

text \<open>
  The start of the daemon with its logger: \<^verbatim>\<open>urd::init_logger\<close> of \<open>Startup\<close>, whose world holds the loggers of \<open>Logger\<close>. The
  choice of the settings decides which logger there is, and only a log file that cannot be opened keeps the daemon from
  starting.
\<close>

fun logger_type_name :: "logger_type \<Rightarrow> string" where
  "logger_type_name Console_color = ''console color''"
| "logger_type_name Syslog = ''syslog''"
| "logger_type_name (Log_file f) = ''file''"

fun logger_type_file :: "logger_type \<Rightarrow> string" where
  "logger_type_file (Log_file f) = f"
| "logger_type_file t = []"

text \<open>The environment of the process creates loggers as the class \<^verbatim>\<open>logger\<close> does, in the part of the world \<open>get\<close> shows.\<close>

definition logs_by ::
  "('l) logger_env_scheme \<Rightarrow> ('w \<Rightarrow> log_process) \<Rightarrow> (log_process \<Rightarrow> 'w \<Rightarrow> 'w) \<Rightarrow> ('w, 'e) proc_env_scheme \<Rightarrow> bool" where
  "logs_by lenv get put env \<longleftrightarrow>
     (\<forall>p w. get (put p w) = p) \<and>
     (\<forall>ident t w. pr_create_logger env ident t w =
        (case create_global_logger lenv ident (logger_type_name t) (logger_type_file t) (get w) of
           Inl _ \<Rightarrow> (False, w)
         | Inr (e, p) \<Rightarrow> (e = None, put p w)))"

definition chosen_logger :: "settings \<Rightarrow> logger_type" where
  "chosen_logger st =
     (if s_use_console st then Console_color
      else if s_use_syslog st then Syslog
      else if s_log_file st \<noteq> [] then Log_file (s_log_file st)
      else Console_color)"

lemma init_logger_creates:
  assumes "logs_by lenv get put env" and "p_settings s = Some st" and "no_logger (get (p_world s))"
  shows "if (\<exists>f. chosen_logger st = Log_file f \<and> \<not> open_tries lenv f 0 5 (lp_world (get (p_world s))))
    then fst (init_logger env s) = Inl Throws
    else fst (init_logger env s) = Inr ()"
proof -
  define t where "t = chosen_logger st"
  have r: "pr_create_logger env (s_progname st) t (p_world s) =
      (case create_global_logger lenv (s_progname st) (logger_type_name t) (logger_type_file t) (get (p_world s)) of
         Inl _ \<Rightarrow> (False, p_world s) | Inr (e, p) \<Rightarrow> (e = None, put p (p_world s)))"
    using assms(1) by (simp add: logs_by_def)
  have i: "fst (init_logger env s) = (if fst (pr_create_logger env (s_progname st) t (p_world s)) then Inr () else Inl Throws)"
    using assms(2) by (cases "pr_create_logger env (s_progname st) t (p_world s)")
      (simp add: init_logger_def the_settings_def proc_bind_def proc_call_def proc_return_def proc_stop_def t_def chosen_logger_def Let_def)
  have j: "fst (init_logger env s) =
      (case create_global_logger lenv (s_progname st) (logger_type_name t) (logger_type_file t) (get (p_world s)) of
         Inl _ \<Rightarrow> Inl Throws | Inr (e, p) \<Rightarrow> if e = None then Inr () else Inl Throws)"
    by (simp add: i r split: sum.split prod.split)
  note c = logger_refused_cases [where p = "get (p_world s)" and type = "logger_type_name t" and env = lenv
      and log_file = "logger_type_file t" and ident = "s_progname st", OF assms(3)]
  show ?thesis
  proof (cases t)
    case (Log_file f)
    with c show ?thesis by (cases "open_tries lenv f 0 5 (lp_world (get (p_world s)))") (auto simp: j t_def [symmetric])
  qed (use c in \<open>auto simp: j t_def [symmetric]\<close>)
qed

end
